(* ===== verification/Mqtt_Prelude.thy ===== *)
theory Mqtt_Prelude
  imports Main "HOL-Library.Word" "HOL-Library.AList"
begin

text \<open>
  Shared vocabulary of the development.  Machine integers are words of the width the Go
  source declares, Go strings and byte slices are lists of bytes, a Go map is an association
  list with distinct keys (its iteration order is the list order), and a Go function that
  returns an error returns a value of a sum type whose left side is the error.
\<close>

unbundle bit_operations_syntax

section \<open>Bytes, strings and words\<close>

type_synonym byte = "8 word"
type_synonym u16 = "16 word"
type_synonym u32 = "32 word"
type_synonym gostring = "byte list"

definition lit :: "string \<Rightarrow> gostring" where
  "lit s = map of_char s"

abbreviation ch_nul :: byte where "ch_nul \<equiv> 0"
abbreviation ch_hash :: byte where "ch_hash \<equiv> 35"
abbreviation ch_dollar :: byte where "ch_dollar \<equiv> 36"
abbreviation ch_star :: byte where "ch_star \<equiv> 42"
abbreviation ch_plus :: byte where "ch_plus \<equiv> 43"
abbreviation ch_slash :: byte where "ch_slash \<equiv> 47"

lemma lit_chars [simp]: "lit [] = []" "lit (c # cs) = of_char c # lit cs"
  by (simp_all add: lit_def)

lemma length_lit [simp]: "length (lit s) = length s"
  by (simp add: lit_def)

text \<open>\<open>strings.HasPrefix\<close>.\<close>

definition HasPrefix :: "gostring \<Rightarrow> gostring \<Rightarrow> bool" where
  "HasPrefix s p \<longleftrightarrow> take (length p) s = p"

lemma HasPrefix_simps [simp]:
  "HasPrefix s []" "\<not> HasPrefix [] (c # p)" "HasPrefix (d # s) (c # p) \<longleftrightarrow> d = c \<and> HasPrefix s p"
  by (auto simp: HasPrefix_def)

lemma HasPrefix_append [simp]: "HasPrefix (p @ s) p"
  by (simp add: HasPrefix_def)

section \<open>Results\<close>

text \<open>
  The collection \<open>result_iff\<close> turns a successful result into the facts that made it succeed;
  \<open>go_defs\<close> collects the definitions that are unfolded to evaluate closed terms.
\<close>

named_theorems result_iff
named_theorems go_defs

lemma case_sum_Inr_iff [result_iff]:
  "(case r of Inl e \<Rightarrow> Inl (f e) | Inr x \<Rightarrow> g x) = Inr y \<longleftrightarrow> (\<exists>x. r = Inr x \<and> g x = Inr y)"
  by (cases r) auto

lemma if_Inl_Inr_iff [result_iff]:
  "(if b then Inl e else r) = Inr y \<longleftrightarrow> \<not> b \<and> r = Inr y"
  by auto

text \<open>
  \<open>x, err = f(); if err != nil { return h(err) }; ...\<close>: the error leaves the function through
  \<open>h\<close>, the value goes on.
\<close>

definition check :: "'e + 'a \<Rightarrow> ('e \<Rightarrow> 'd) \<Rightarrow> ('a \<Rightarrow> 'd + 'b) \<Rightarrow> 'd + 'b" where
  "check r h k = (case r of Inl err \<Rightarrow> Inl (h err) | Inr x \<Rightarrow> k x)"

lemma check_simps [simp]: "check (Inl e) h k = Inl (h e)" "check (Inr x) h k = k x"
  by (simp_all add: check_def)

lemma check_Inr_iff [result_iff]:
  "check r h k = Inr y \<longleftrightarrow> (\<exists>x. r = Inr x \<and> k x = Inr y)"
  by (cases r) auto

lemma check_Inl_iff:
  "check r h k = Inl e \<longleftrightarrow> (\<exists>d. r = Inl d \<and> e = h d) \<or> (\<exists>x. r = Inr x \<and> k x = Inl e)"
  by (cases r) auto

lemma check_cong [fundef_cong]:
  "r = r' \<Longrightarrow> (\<And>d. r' = Inl d \<Longrightarrow> h d = h' d) \<Longrightarrow> (\<And>x. r' = Inr x \<Longrightarrow> k x = k' x) \<Longrightarrow>
     check r h k = check r' h' k'"
  by (cases r') auto

fun ok_result :: "'e + 'a \<Rightarrow> bool" where
  "ok_result (Inl _) = False"
| "ok_result (Inr _) = True"

lemma ok_result_iff: "ok_result r \<longleftrightarrow> (\<exists>x. r = Inr x)"
  by (cases r) auto

section \<open>Go maps as association lists\<close>

type_synonym ('k, 'v) gomap = "('k \<times> 'v) list"

definition map_ok :: "('k, 'v) gomap \<Rightarrow> bool" where
  "map_ok m \<longleftrightarrow> distinct (map fst m)"

abbreviation m_get :: "('k, 'v) gomap \<Rightarrow> 'k \<Rightarrow> 'v option" where
  "m_get m k \<equiv> map_of m k"

abbreviation m_has :: "('k, 'v) gomap \<Rightarrow> 'k \<Rightarrow> bool" where
  "m_has m k \<equiv> map_of m k \<noteq> None"

abbreviation m_set :: "'k \<Rightarrow> 'v \<Rightarrow> ('k, 'v) gomap \<Rightarrow> ('k, 'v) gomap" where
  "m_set k v m \<equiv> AList.update k v m"

abbreviation m_del :: "'k \<Rightarrow> ('k, 'v) gomap \<Rightarrow> ('k, 'v) gomap" where
  "m_del k m \<equiv> AList.delete k m"

lemma m_get_set [simp]: "m_get (m_set k v m) j = (if j = k then Some v else m_get m j)"
  by (simp add: update_conv')

lemma m_get_del [simp]: "m_get (m_del k m) j = (if j = k then None else m_get m j)"
  by (simp add: delete_conv')

lemma map_ok_Nil [simp, intro]: "map_ok []"
  by (simp add: map_ok_def)

lemma map_ok_Cons: "map_ok ((k, v) # m) \<longleftrightarrow> m_get m k = None \<and> map_ok m"
  by (auto simp: map_ok_def map_of_eq_None_iff)

lemma map_ok_set [simp, intro]: "map_ok m \<Longrightarrow> map_ok (m_set k v m)"
  by (simp add: map_ok_def distinct_update)

lemma map_ok_del [simp, intro]: "map_ok m \<Longrightarrow> map_ok (m_del k m)"
  by (simp add: map_ok_def distinct_delete)

lemma map_ok_filter [simp, intro]: "map_ok m \<Longrightarrow> map_ok (filter P m)"
  by (simp add: map_ok_def distinct_map_filter)

lemma length_set: "length (m_set k v m) = (if m_has m k then length m else Suc (length m))"
  by (induction m) auto

lemma length_del: "map_ok m \<Longrightarrow> length (m_del k m) = (if m_has m k then length m - 1 else length m)"
proof (induction m)
  case Nil
  then show ?case by simp
next
  case (Cons p m)
  obtain j v where p: "p = (j, v)" by (cases p)
  have ok: "m_get m j = None" "map_ok m"
    using Cons.prems by (simp_all add: p map_ok_Cons)
  show ?case
  proof (cases "j = k")
    case True
    then show ?thesis
      using Cons.IH ok by (simp add: p)
  next
    case False
    have "m_has m k \<Longrightarrow> length m > 0" by (cases m) auto
    with False show ?thesis
      using Cons.IH ok by (auto simp: p)
  qed
qed

lemma m_del_idem: "m_get m k = None \<Longrightarrow> m_del k m = m"
  by (induction m) (auto split: if_splits)

lemma m_get_empty_iff: "(\<forall>k. m_get m k = None) \<longleftrightarrow> m = []"
proof
  assume "\<forall>k. m_get m k = None"
  then have "fst ` set m = {}" by (auto simp: map_of_eq_None_iff)
  then show "m = []" by simp
qed simp

lemma m_get_in_set: "map_ok m \<Longrightarrow> m_get m k = Some v \<longleftrightarrow> (k, v) \<in> set m"
  by (auto simp: map_ok_def map_of_is_SomeI dest: map_of_SomeD)

section \<open>The contract of a keyed store\<close>

text \<open>
  The broker keeps its packets, in-flight messages, subscriptions and clients in small types
  around a Go map, each with the operations Add or Set, Get, Delete and Len.  The locale states
  what such a type promises: the last write of a key is what a lookup returns, a deleted key is
  absent, and the length counts the keys.
\<close>

datatype ('w, 'd) store_op = Put 'w | Del 'd

fun last_write ::
    "('w \<Rightarrow> 'k) \<Rightarrow> ('w \<Rightarrow> 'v) \<Rightarrow> ('d \<Rightarrow> 'k) \<Rightarrow> ('w, 'd) store_op list \<Rightarrow> 'k \<Rightarrow> 'v option \<Rightarrow> 'v option"
where
  "last_write key val dkey [] k v0 = v0"
| "last_write key val dkey (Put w # ops) k v0 =
     last_write key val dkey ops k (if key w = k then Some (val w) else v0)"
| "last_write key val dkey (Del d # ops) k v0 =
     last_write key val dkey ops k (if dkey d = k then None else v0)"

text \<open>
  A write \<open>w\<close> is a value that holds its key, or a key and a value: \<open>key\<close> and \<open>val\<close> tell.  A
  deletion \<open>d\<close> names its key through \<open>dkey\<close>.
\<close>

locale go_store =
  fixes store_ok :: "'s \<Rightarrow> bool"
    and key :: "'w \<Rightarrow> 'k" and val :: "'w \<Rightarrow> 'v" and dkey :: "'d \<Rightarrow> 'k"
    and get :: "'s \<Rightarrow> 'k \<Rightarrow> 'v option"
    and put :: "'w \<Rightarrow> 's \<Rightarrow> 's"
    and del :: "'d \<Rightarrow> 's \<Rightarrow> 's"
  assumes get_put: "store_ok s \<Longrightarrow> get (put w s) j = (if j = key w then Some (val w) else get s j)"
    and get_del: "store_ok s \<Longrightarrow> get (del d s) j = (if j = dkey d then None else get s j)"
    and ok_put: "store_ok s \<Longrightarrow> store_ok (put w s)"
    and ok_del: "store_ok s \<Longrightarrow> store_ok (del d s)"
begin

fun run_store :: "('w, 'd) store_op list \<Rightarrow> 's \<Rightarrow> 's" where
  "run_store [] s = s"
| "run_store (Put w # ops) s = run_store ops (put w s)"
| "run_store (Del d # ops) s = run_store ops (del d s)"

lemma run_ok: "store_ok s \<Longrightarrow> store_ok (run_store ops s)"
  by (induction ops s rule: run_store.induct) (auto simp: ok_put ok_del)

lemma get_run: "store_ok s \<Longrightarrow> get (run_store ops s) k = last_write key val dkey ops k (get s k)"
proof (induction ops s rule: run_store.induct)
  case (2 w ops s)
  have "(if k = key w then Some (val w) else get s k) = (if key w = k then Some (val w) else get s k)"
    by auto
  then show ?case using 2 by (simp add: ok_put get_put)
next
  case (3 d ops s)
  have "(if k = dkey d then None else get s k) = (if dkey d = k then None else get s k)" by auto
  then show ?case using 3 by (simp add: ok_del get_del)
qed simp

lemma get_run_other:
  "store_ok s \<Longrightarrow> list_all (\<lambda>op. case op of Put w \<Rightarrow> key w \<noteq> k | Del d \<Rightarrow> dkey d \<noteq> k) ops \<Longrightarrow>
     get (run_store ops s) k = get s k"
  by (induction ops s rule: run_store.induct) (auto simp: ok_put ok_del get_put get_del)

end

text \<open>A store that also counts its entries.\<close>

locale counted_store = go_store store_ok key val "\<lambda>k. k" get put del
  for store_ok :: "'s \<Rightarrow> bool" and key :: "'w \<Rightarrow> 'k" and val :: "'w \<Rightarrow> 'v"
    and get :: "'s \<Rightarrow> 'k \<Rightarrow> 'v option" and put :: "'w \<Rightarrow> 's \<Rightarrow> 's" and del :: "'k \<Rightarrow> 's \<Rightarrow> 's" +
  fixes len :: "'s \<Rightarrow> nat"
  assumes len_put: "store_ok s \<Longrightarrow> len (put w s) = (if get s (key w) = None then Suc (len s) else len s)"
    and len_del: "store_ok s \<Longrightarrow> len (del k s) = (if get s k = None then len s else len s - 1)"
begin

lemma del_put_len: "store_ok s \<Longrightarrow> get s (key w) = None \<Longrightarrow> len (del (key w) (put w s)) = len s"
  by (simp add: len_del len_put ok_put get_put)

lemma len_run_le: "store_ok s \<Longrightarrow> len (run_store ops s) \<le> len s + length ops"
proof (induction ops s rule: run_store.induct)
  case (2 w ops s)
  then show ?case using len_put [of s w] by (auto simp: ok_put split: if_splits)
next
  case (3 k ops s)
  then show ?case using len_del [of s k] by (auto simp: ok_del split: if_splits)
qed simp

end

text \<open>The plain Go map is a store, keyed by the first component of what is written.\<close>

interpretation go_map: counted_store map_ok fst snd "\<lambda>s k. m_get s k"
    "\<lambda>w s. m_set (fst w) (snd w) s" "\<lambda>k s. m_del k s" length
  by unfold_locales (auto simp: length_set length_del)

section \<open>List slices\<close>

text \<open>\<open>buf[a:b]\<close> of a Go slice, for bounds the source has already checked.\<close>

definition gslice :: "'a list \<Rightarrow> nat \<Rightarrow> nat \<Rightarrow> 'a list" where
  "gslice xs a b = take (b - a) (drop a xs)"

lemma gslice_append [simp]:
  "gslice (xs @ ys @ zs) (length xs) (length xs + length ys) = ys"
  by (simp add: gslice_def)

lemma length_gslice: "b \<le> length xs \<Longrightarrow> length (gslice xs a b) = b - a"
  by (simp add: gslice_def)

end
