(* ===== verification/Mqtt_Codes.thy ===== *)
theory Mqtt_Codes
  imports Mqtt_Prelude
begin

text \<open>
  The reason codes of \<open>packets/codes.go\<close>: a code is its reason text and its byte, compared
  by both as Go compares structs; plus the error values that the packet code returns.
\<close>

record code =
  Reason :: gostring
  Code :: byte

definition mk_code :: "byte \<Rightarrow> string \<Rightarrow> code" where
  "mk_code b r = \<lparr>Reason = lit r, Code = b\<rparr>"

definition code_String :: "code \<Rightarrow> gostring" where
  "code_String c = Reason c"

definition code_Error :: "code \<Rightarrow> gostring" where
  "code_Error c = Reason c"

definition CodeSuccessIgnore :: code where "CodeSuccessIgnore = mk_code 0 ''ignore packet''"
definition CodeSuccess :: code where "CodeSuccess = mk_code 0 ''success''"
definition CodeDisconnect :: code where "CodeDisconnect = mk_code 0 ''disconnected''"
definition CodeGrantedQos0 :: code where "CodeGrantedQos0 = mk_code 0 ''granted qos 0''"
definition CodeGrantedQos1 :: code where "CodeGrantedQos1 = mk_code 1 ''granted qos 1''"
definition CodeGrantedQos2 :: code where "CodeGrantedQos2 = mk_code 2 ''granted qos 2''"
definition CodeDisconnectWillMessage :: code where "CodeDisconnectWillMessage = mk_code 4 ''disconnect with will message''"
definition CodeNoMatchingSubscribers :: code where "CodeNoMatchingSubscribers = mk_code 16 ''no matching subscribers''"
definition CodeNoSubscriptionExisted :: code where "CodeNoSubscriptionExisted = mk_code 17 ''no subscription existed''"
definition CodeContinueAuthentication :: code where "CodeContinueAuthentication = mk_code 24 ''continue authentication''"
definition CodeReAuthenticate :: code where "CodeReAuthenticate = mk_code 25 ''re-authenticate''"
definition ErrUnspecifiedError :: code where "ErrUnspecifiedError = mk_code 128 ''unspecified error''"
definition ErrMalformedPacket :: code where "ErrMalformedPacket = mk_code 129 ''malformed packet''"
definition ErrMalformedProtocolName :: code where "ErrMalformedProtocolName = mk_code 129 ''malformed packet: protocol name''"
definition ErrMalformedProtocolVersion :: code where "ErrMalformedProtocolVersion = mk_code 129 ''malformed packet: protocol version''"
definition ErrMalformedFlags :: code where "ErrMalformedFlags = mk_code 129 ''malformed packet: flags''"
definition ErrMalformedKeepalive :: code where "ErrMalformedKeepalive = mk_code 129 ''malformed packet: keepalive''"
definition ErrMalformedPacketID :: code where "ErrMalformedPacketID = mk_code 129 ''malformed packet: packet identifier''"
definition ErrMalformedTopic :: code where "ErrMalformedTopic = mk_code 129 ''malformed packet: topic''"
definition ErrMalformedWillTopic :: code where "ErrMalformedWillTopic = mk_code 129 ''malformed packet: will topic''"
definition ErrMalformedWillPayload :: code where "ErrMalformedWillPayload = mk_code 129 ''malformed packet: will message''"
definition ErrMalformedUsername :: code where "ErrMalformedUsername = mk_code 129 ''malformed packet: username''"
definition ErrMalformedPassword :: code where "ErrMalformedPassword = mk_code 129 ''malformed packet: password''"
definition ErrMalformedQos :: code where "ErrMalformedQos = mk_code 129 ''malformed packet: qos''"
definition ErrMalformedOffsetUintOutOfRange :: code where "ErrMalformedOffsetUintOutOfRange = mk_code 129 ''malformed packet: offset uint out of range''"
definition ErrMalformedOffsetBytesOutOfRange :: code where "ErrMalformedOffsetBytesOutOfRange = mk_code 129 ''malformed packet: offset bytes out of range''"
definition ErrMalformedOffsetByteOutOfRange :: code where "ErrMalformedOffsetByteOutOfRange = mk_code 129 ''malformed packet: offset byte out of range''"
definition ErrMalformedOffsetBoolOutOfRange :: code where "ErrMalformedOffsetBoolOutOfRange = mk_code 129 ''malformed packet: offset boolean out of range''"
definition ErrMalformedInvalidUTF8 :: code where "ErrMalformedInvalidUTF8 = mk_code 129 ''malformed packet: invalid utf-8 string''"
definition ErrMalformedVariableByteInteger :: code where "ErrMalformedVariableByteInteger = mk_code 129 ''malformed packet: variable byte integer out of range''"
definition ErrMalformedBadProperty :: code where "ErrMalformedBadProperty = mk_code 129 ''malformed packet: unknown property''"
definition ErrMalformedProperties :: code where "ErrMalformedProperties = mk_code 129 ''malformed packet: properties''"
definition ErrMalformedWillProperties :: code where "ErrMalformedWillProperties = mk_code 129 ''malformed packet: will properties''"
definition ErrMalformedSessionPresent :: code where "ErrMalformedSessionPresent = mk_code 129 ''malformed packet: session present''"
definition ErrMalformedReasonCode :: code where "ErrMalformedReasonCode = mk_code 129 ''malformed packet: reason code''"
definition ErrProtocolViolation :: code where "ErrProtocolViolation = mk_code 130 ''protocol violation''"
definition ErrProtocolViolationProtocolName :: code where "ErrProtocolViolationProtocolName = mk_code 130 ''protocol violation: protocol name''"
definition ErrProtocolViolationProtocolVersion :: code where "ErrProtocolViolationProtocolVersion = mk_code 130 ''protocol violation: protocol version''"
definition ErrProtocolViolationReservedBit :: code where "ErrProtocolViolationReservedBit = mk_code 130 ''protocol violation: reserved bit not 0''"
definition ErrProtocolViolationFlagNoUsername :: code where "ErrProtocolViolationFlagNoUsername = mk_code 130 ''protocol violation: username flag set but no value''"
definition ErrProtocolViolationFlagNoPassword :: code where "ErrProtocolViolationFlagNoPassword = mk_code 130 ''protocol violation: password flag set but no value''"
definition ErrProtocolViolationUsernameNoFlag :: code where "ErrProtocolViolationUsernameNoFlag = mk_code 130 ''protocol violation: username set but no flag''"
definition ErrProtocolViolationPasswordNoFlag :: code where "ErrProtocolViolationPasswordNoFlag = mk_code 130 ''protocol violation: username set but no flag''"
definition ErrProtocolViolationPasswordTooLong :: code where "ErrProtocolViolationPasswordTooLong = mk_code 130 ''protocol violation: password too long''"
definition ErrProtocolViolationUsernameTooLong :: code where "ErrProtocolViolationUsernameTooLong = mk_code 130 ''protocol violation: username too long''"
definition ErrProtocolViolationNoPacketID :: code where "ErrProtocolViolationNoPacketID = mk_code 130 ''protocol violation: missing packet id''"
definition ErrProtocolViolationSurplusPacketID :: code where "ErrProtocolViolationSurplusPacketID = mk_code 130 ''protocol violation: surplus packet id''"
definition ErrProtocolViolationQosOutOfRange :: code where "ErrProtocolViolationQosOutOfRange = mk_code 130 ''protocol violation: qos out of range''"
definition ErrProtocolViolationSecondConnect :: code where "ErrProtocolViolationSecondConnect = mk_code 130 ''protocol violation: second connect packet''"
definition ErrProtocolViolationZeroNonZeroExpiry :: code where "ErrProtocolViolationZeroNonZeroExpiry = mk_code 130 ''protocol violation: non-zero expiry''"
definition ErrProtocolViolationRequireFirstConnect :: code where "ErrProtocolViolationRequireFirstConnect = mk_code 130 ''protocol violation: first packet must be connect''"
definition ErrProtocolViolationWillFlagNoPayload :: code where "ErrProtocolViolationWillFlagNoPayload = mk_code 130 ''protocol violation: will flag no payload''"
definition ErrProtocolViolationWillFlagSurplusRetain :: code where "ErrProtocolViolationWillFlagSurplusRetain = mk_code 130 ''protocol violation: will flag surplus retain''"
definition ErrProtocolViolationSurplusWildcard :: code where "ErrProtocolViolationSurplusWildcard = mk_code 130 ''protocol violation: topic contains wildcards''"
definition ErrProtocolViolationSurplusSubID :: code where "ErrProtocolViolationSurplusSubID = mk_code 130 ''protocol violation: contained subscription identifier''"
definition ErrProtocolViolationInvalidTopic :: code where "ErrProtocolViolationInvalidTopic = mk_code 130 ''protocol violation: invalid topic''"
definition ErrProtocolViolationInvalidSharedNoLocal :: code where "ErrProtocolViolationInvalidSharedNoLocal = mk_code 130 ''protocol violation: invalid shared no local''"
definition ErrProtocolViolationNoFilters :: code where "ErrProtocolViolationNoFilters = mk_code 130 ''protocol violation: must contain at least one filter''"
definition ErrProtocolViolationInvalidReason :: code where "ErrProtocolViolationInvalidReason = mk_code 130 ''protocol violation: invalid reason''"
definition ErrProtocolViolationOversizeSubID :: code where "ErrProtocolViolationOversizeSubID = mk_code 130 ''protocol violation: oversize subscription id''"
definition ErrProtocolViolationDupNoQos :: code where "ErrProtocolViolationDupNoQos = mk_code 130 ''protocol violation: dup true with no qos''"
definition ErrProtocolViolationUnsupportedProperty :: code where "ErrProtocolViolationUnsupportedProperty = mk_code 130 ''protocol violation: unsupported property''"
definition ErrProtocolViolationNoTopic :: code where "ErrProtocolViolationNoTopic = mk_code 130 ''protocol violation: no topic or alias''"
definition ErrImplementationSpecificError :: code where "ErrImplementationSpecificError = mk_code 131 ''implementation specific error''"
definition ErrRejectPacket :: code where "ErrRejectPacket = mk_code 131 ''packet rejected''"
definition ErrUnsupportedProtocolVersion :: code where "ErrUnsupportedProtocolVersion = mk_code 132 ''unsupported protocol version''"
definition ErrClientIdentifierNotValid :: code where "ErrClientIdentifierNotValid = mk_code 133 ''client identifier not valid''"
definition ErrClientIdentifierTooLong :: code where "ErrClientIdentifierTooLong = mk_code 133 ''client identifier too long''"
definition ErrBadUsernameOrPassword :: code where "ErrBadUsernameOrPassword = mk_code 134 ''bad username or password''"
definition ErrNotAuthorized :: code where "ErrNotAuthorized = mk_code 135 ''not authorized''"
definition ErrServerUnavailable :: code where "ErrServerUnavailable = mk_code 136 ''server unavailable''"
definition ErrServerBusy :: code where "ErrServerBusy = mk_code 137 ''server busy''"
definition ErrBanned :: code where "ErrBanned = mk_code 138 ''banned''"
definition ErrServerShuttingDown :: code where "ErrServerShuttingDown = mk_code 139 ''server shutting down''"
definition ErrBadAuthenticationMethod :: code where "ErrBadAuthenticationMethod = mk_code 140 ''bad authentication method''"
definition ErrKeepAliveTimeout :: code where "ErrKeepAliveTimeout = mk_code 141 ''keep alive timeout''"
definition ErrSessionTakenOver :: code where "ErrSessionTakenOver = mk_code 142 ''session takeover''"
definition ErrTopicFilterInvalid :: code where "ErrTopicFilterInvalid = mk_code 143 ''topic filter invalid''"
definition ErrTopicNameInvalid :: code where "ErrTopicNameInvalid = mk_code 144 ''topic name invalid''"
definition ErrPacketIdentifierInUse :: code where "ErrPacketIdentifierInUse = mk_code 145 ''packet identifier in use''"
definition ErrPacketIdentifierNotFound :: code where "ErrPacketIdentifierNotFound = mk_code 146 ''packet identifier not found''"
definition ErrReceiveMaximum :: code where "ErrReceiveMaximum = mk_code 147 ''receive maximum exceeded''"
definition ErrTopicAliasInvalid :: code where "ErrTopicAliasInvalid = mk_code 148 ''topic alias invalid''"
definition ErrPacketTooLarge :: code where "ErrPacketTooLarge = mk_code 149 ''packet too large''"
definition ErrMessageRateTooHigh :: code where "ErrMessageRateTooHigh = mk_code 150 ''message rate too high''"
definition ErrQuotaExceeded :: code where "ErrQuotaExceeded = mk_code 151 ''quota exceeded''"
definition ErrPendingClientWritesExceeded :: code where "ErrPendingClientWritesExceeded = mk_code 151 ''too many pending writes''"
definition ErrAdministrativeAction :: code where "ErrAdministrativeAction = mk_code 152 ''administrative action''"
definition ErrPayloadFormatInvalid :: code where "ErrPayloadFormatInvalid = mk_code 153 ''payload format invalid''"
definition ErrRetainNotSupported :: code where "ErrRetainNotSupported = mk_code 154 ''retain not supported''"
definition ErrQosNotSupported :: code where "ErrQosNotSupported = mk_code 155 ''qos not supported''"
definition ErrUseAnotherServer :: code where "ErrUseAnotherServer = mk_code 156 ''use another server''"
definition ErrServerMoved :: code where "ErrServerMoved = mk_code 157 ''server moved''"
definition ErrSharedSubscriptionsNotSupported :: code where "ErrSharedSubscriptionsNotSupported = mk_code 158 ''shared subscriptions not supported''"
definition ErrConnectionRateExceeded :: code where "ErrConnectionRateExceeded = mk_code 159 ''connection rate exceeded''"
definition ErrMaxConnectTime :: code where "ErrMaxConnectTime = mk_code 160 ''maximum connect time''"
definition ErrSubscriptionIdentifiersNotSupported :: code where "ErrSubscriptionIdentifiersNotSupported = mk_code 161 ''subscription identifiers not supported''"
definition ErrWildcardSubscriptionsNotSupported :: code where "ErrWildcardSubscriptionsNotSupported = mk_code 162 ''wildcard subscriptions not supported''"
definition ErrInlineSubscriptionHandlerInvalid :: code where "ErrInlineSubscriptionHandlerInvalid = mk_code 163 ''inline subscription handler not valid.''"
definition Err3UnsupportedProtocolVersion :: code where "Err3UnsupportedProtocolVersion = mk_code 1 ''''"
definition Err3ClientIdentifierNotValid :: code where "Err3ClientIdentifierNotValid = mk_code 2 ''''"
definition Err3ServerUnavailable :: code where "Err3ServerUnavailable = mk_code 3 ''''"
definition ErrMalformedUsernameOrPassword :: code where "ErrMalformedUsernameOrPassword = mk_code 4 ''''"
definition Err3NotAuthorized :: code where "Err3NotAuthorized = mk_code 5 ''''"

lemmas code_defs [go_defs] =
  mk_code_def
  CodeSuccessIgnore_def
  CodeSuccess_def
  CodeDisconnect_def
  CodeGrantedQos0_def
  CodeGrantedQos1_def
  CodeGrantedQos2_def
  CodeDisconnectWillMessage_def
  CodeNoMatchingSubscribers_def
  CodeNoSubscriptionExisted_def
  CodeContinueAuthentication_def
  CodeReAuthenticate_def
  ErrUnspecifiedError_def
  ErrMalformedPacket_def
  ErrMalformedProtocolName_def
  ErrMalformedProtocolVersion_def
  ErrMalformedFlags_def
  ErrMalformedKeepalive_def
  ErrMalformedPacketID_def
  ErrMalformedTopic_def
  ErrMalformedWillTopic_def
  ErrMalformedWillPayload_def
  ErrMalformedUsername_def
  ErrMalformedPassword_def
  ErrMalformedQos_def
  ErrMalformedOffsetUintOutOfRange_def
  ErrMalformedOffsetBytesOutOfRange_def
  ErrMalformedOffsetByteOutOfRange_def
  ErrMalformedOffsetBoolOutOfRange_def
  ErrMalformedInvalidUTF8_def
  ErrMalformedVariableByteInteger_def
  ErrMalformedBadProperty_def
  ErrMalformedProperties_def
  ErrMalformedWillProperties_def
  ErrMalformedSessionPresent_def
  ErrMalformedReasonCode_def
  ErrProtocolViolation_def
  ErrProtocolViolationProtocolName_def
  ErrProtocolViolationProtocolVersion_def
  ErrProtocolViolationReservedBit_def
  ErrProtocolViolationFlagNoUsername_def
  ErrProtocolViolationFlagNoPassword_def
  ErrProtocolViolationUsernameNoFlag_def
  ErrProtocolViolationPasswordNoFlag_def
  ErrProtocolViolationPasswordTooLong_def
  ErrProtocolViolationUsernameTooLong_def
  ErrProtocolViolationNoPacketID_def
  ErrProtocolViolationSurplusPacketID_def
  ErrProtocolViolationQosOutOfRange_def
  ErrProtocolViolationSecondConnect_def
  ErrProtocolViolationZeroNonZeroExpiry_def
  ErrProtocolViolationRequireFirstConnect_def
  ErrProtocolViolationWillFlagNoPayload_def
  ErrProtocolViolationWillFlagSurplusRetain_def
  ErrProtocolViolationSurplusWildcard_def
  ErrProtocolViolationSurplusSubID_def
  ErrProtocolViolationInvalidTopic_def
  ErrProtocolViolationInvalidSharedNoLocal_def
  ErrProtocolViolationNoFilters_def
  ErrProtocolViolationInvalidReason_def
  ErrProtocolViolationOversizeSubID_def
  ErrProtocolViolationDupNoQos_def
  ErrProtocolViolationUnsupportedProperty_def
  ErrProtocolViolationNoTopic_def
  ErrImplementationSpecificError_def
  ErrRejectPacket_def
  ErrUnsupportedProtocolVersion_def
  ErrClientIdentifierNotValid_def
  ErrClientIdentifierTooLong_def
  ErrBadUsernameOrPassword_def
  ErrNotAuthorized_def
  ErrServerUnavailable_def
  ErrServerBusy_def
  ErrBanned_def
  ErrServerShuttingDown_def
  ErrBadAuthenticationMethod_def
  ErrKeepAliveTimeout_def
  ErrSessionTakenOver_def
  ErrTopicFilterInvalid_def
  ErrTopicNameInvalid_def
  ErrPacketIdentifierInUse_def
  ErrPacketIdentifierNotFound_def
  ErrReceiveMaximum_def
  ErrTopicAliasInvalid_def
  ErrPacketTooLarge_def
  ErrMessageRateTooHigh_def
  ErrQuotaExceeded_def
  ErrPendingClientWritesExceeded_def
  ErrAdministrativeAction_def
  ErrPayloadFormatInvalid_def
  ErrRetainNotSupported_def
  ErrQosNotSupported_def
  ErrUseAnotherServer_def
  ErrServerMoved_def
  ErrSharedSubscriptionsNotSupported_def
  ErrConnectionRateExceeded_def
  ErrMaxConnectTime_def
  ErrSubscriptionIdentifiersNotSupported_def
  ErrWildcardSubscriptionsNotSupported_def
  ErrInlineSubscriptionHandlerInvalid_def
  Err3UnsupportedProtocolVersion_def
  Err3ClientIdentifierNotValid_def
  Err3ServerUnavailable_def
  ErrMalformedUsernameOrPassword_def
  Err3NotAuthorized_def


text \<open>The byte of every code, so that proofs compare codes without their texts.\<close>

lemma Code_simps [simp]:
  "Code CodeSuccessIgnore = 0"
  "Code CodeSuccess = 0"
  "Code CodeDisconnect = 0"
  "Code CodeGrantedQos0 = 0"
  "Code CodeGrantedQos1 = 1"
  "Code CodeGrantedQos2 = 2"
  "Code CodeDisconnectWillMessage = 4"
  "Code CodeNoMatchingSubscribers = 16"
  "Code CodeNoSubscriptionExisted = 17"
  "Code CodeContinueAuthentication = 24"
  "Code CodeReAuthenticate = 25"
  "Code ErrUnspecifiedError = 128"
  "Code ErrMalformedPacket = 129"
  "Code ErrMalformedProtocolName = 129"
  "Code ErrMalformedProtocolVersion = 129"
  "Code ErrMalformedFlags = 129"
  "Code ErrMalformedKeepalive = 129"
  "Code ErrMalformedPacketID = 129"
  "Code ErrMalformedTopic = 129"
  "Code ErrMalformedWillTopic = 129"
  "Code ErrMalformedWillPayload = 129"
  "Code ErrMalformedUsername = 129"
  "Code ErrMalformedPassword = 129"
  "Code ErrMalformedQos = 129"
  "Code ErrMalformedOffsetUintOutOfRange = 129"
  "Code ErrMalformedOffsetBytesOutOfRange = 129"
  "Code ErrMalformedOffsetByteOutOfRange = 129"
  "Code ErrMalformedOffsetBoolOutOfRange = 129"
  "Code ErrMalformedInvalidUTF8 = 129"
  "Code ErrMalformedVariableByteInteger = 129"
  "Code ErrMalformedBadProperty = 129"
  "Code ErrMalformedProperties = 129"
  "Code ErrMalformedWillProperties = 129"
  "Code ErrMalformedSessionPresent = 129"
  "Code ErrMalformedReasonCode = 129"
  "Code ErrProtocolViolation = 130"
  "Code ErrProtocolViolationProtocolName = 130"
  "Code ErrProtocolViolationProtocolVersion = 130"
  "Code ErrProtocolViolationReservedBit = 130"
  "Code ErrProtocolViolationFlagNoUsername = 130"
  "Code ErrProtocolViolationFlagNoPassword = 130"
  "Code ErrProtocolViolationUsernameNoFlag = 130"
  "Code ErrProtocolViolationPasswordNoFlag = 130"
  "Code ErrProtocolViolationPasswordTooLong = 130"
  "Code ErrProtocolViolationUsernameTooLong = 130"
  "Code ErrProtocolViolationNoPacketID = 130"
  "Code ErrProtocolViolationSurplusPacketID = 130"
  "Code ErrProtocolViolationQosOutOfRange = 130"
  "Code ErrProtocolViolationSecondConnect = 130"
  "Code ErrProtocolViolationZeroNonZeroExpiry = 130"
  "Code ErrProtocolViolationRequireFirstConnect = 130"
  "Code ErrProtocolViolationWillFlagNoPayload = 130"
  "Code ErrProtocolViolationWillFlagSurplusRetain = 130"
  "Code ErrProtocolViolationSurplusWildcard = 130"
  "Code ErrProtocolViolationSurplusSubID = 130"
  "Code ErrProtocolViolationInvalidTopic = 130"
  "Code ErrProtocolViolationInvalidSharedNoLocal = 130"
  "Code ErrProtocolViolationNoFilters = 130"
  "Code ErrProtocolViolationInvalidReason = 130"
  "Code ErrProtocolViolationOversizeSubID = 130"
  "Code ErrProtocolViolationDupNoQos = 130"
  "Code ErrProtocolViolationUnsupportedProperty = 130"
  "Code ErrProtocolViolationNoTopic = 130"
  "Code ErrImplementationSpecificError = 131"
  "Code ErrRejectPacket = 131"
  "Code ErrUnsupportedProtocolVersion = 132"
  "Code ErrClientIdentifierNotValid = 133"
  "Code ErrClientIdentifierTooLong = 133"
  "Code ErrBadUsernameOrPassword = 134"
  "Code ErrNotAuthorized = 135"
  "Code ErrServerUnavailable = 136"
  "Code ErrServerBusy = 137"
  "Code ErrBanned = 138"
  "Code ErrServerShuttingDown = 139"
  "Code ErrBadAuthenticationMethod = 140"
  "Code ErrKeepAliveTimeout = 141"
  "Code ErrSessionTakenOver = 142"
  "Code ErrTopicFilterInvalid = 143"
  "Code ErrTopicNameInvalid = 144"
  "Code ErrPacketIdentifierInUse = 145"
  "Code ErrPacketIdentifierNotFound = 146"
  "Code ErrReceiveMaximum = 147"
  "Code ErrTopicAliasInvalid = 148"
  "Code ErrPacketTooLarge = 149"
  "Code ErrMessageRateTooHigh = 150"
  "Code ErrQuotaExceeded = 151"
  "Code ErrPendingClientWritesExceeded = 151"
  "Code ErrAdministrativeAction = 152"
  "Code ErrPayloadFormatInvalid = 153"
  "Code ErrRetainNotSupported = 154"
  "Code ErrQosNotSupported = 155"
  "Code ErrUseAnotherServer = 156"
  "Code ErrServerMoved = 157"
  "Code ErrSharedSubscriptionsNotSupported = 158"
  "Code ErrConnectionRateExceeded = 159"
  "Code ErrMaxConnectTime = 160"
  "Code ErrSubscriptionIdentifiersNotSupported = 161"
  "Code ErrWildcardSubscriptionsNotSupported = 162"
  "Code ErrInlineSubscriptionHandlerInvalid = 163"
  "Code Err3UnsupportedProtocolVersion = 1"
  "Code Err3ClientIdentifierNotValid = 2"
  "Code Err3ServerUnavailable = 3"
  "Code ErrMalformedUsernameOrPassword = 4"
  "Code Err3NotAuthorized = 5"
  by (simp_all add: code_defs)

lemma code_neqI: "Code a \<noteq> Code b \<Longrightarrow> a \<noteq> b"
  by auto

definition QosCodes :: "(byte, code) gomap" where
  "QosCodes = [(0, CodeGrantedQos0), (1, CodeGrantedQos1), (2, CodeGrantedQos2)]"

definition V5CodesToV3 :: "(code, code) gomap" where
  "V5CodesToV3 =
    [(ErrUnsupportedProtocolVersion, Err3UnsupportedProtocolVersion),
     (ErrClientIdentifierNotValid, Err3ClientIdentifierNotValid),
     (ErrServerUnavailable, Err3ServerUnavailable),
     (ErrMalformedUsername, ErrMalformedUsernameOrPassword),
     (ErrMalformedPassword, ErrMalformedUsernameOrPassword),
     (ErrBadUsernameOrPassword, Err3NotAuthorized)]"

text \<open>
  Error values.  \<open>ECode\<close> is a \<open>Code\<close> returned as an error; \<open>EWrap e c\<close> is
  \<open>fmt.Errorf("%s: %w", e, c)\<close>, whose text holds \<open>e\<close> and which unwraps to \<open>c\<close> only;
  \<open>EProp\<close> is the property error of \<open>Properties.Decode\<close>; \<open>EEOF\<close> and \<open>EUnexpectedEOF\<close> are
  \<open>io.EOF\<close> and \<open>io.ErrUnexpectedEOF\<close>; \<open>ENew\<close> is \<open>errors.New\<close> or a formatted error with no
  wrapped code; \<open>ECtx t e\<close> is \<open>fmt.Errorf("t%w", e)\<close>; \<open>EPanic\<close> is a run-time panic such as an index out of range.
\<close>

datatype error =
    ECode code
  | EWrap error code
  | EProp byte byte
  | EEOF
  | EUnexpectedEOF
  | ENew gostring
  | ECtx gostring error
  | EPanic

text \<open>\<open>errors.Is(err, c)\<close> for a code \<open>c\<close>, and the type assertion \<open>err.(packets.Code)\<close>.\<close>

fun errors_Is :: "error \<Rightarrow> code \<Rightarrow> bool" where
  "errors_Is (ECode c') c = (c' = c)"
| "errors_Is (EWrap e c') c = (c' = c)"
| "errors_Is (EProp k pkt) c = (c = ErrProtocolViolationUnsupportedProperty)"
| "errors_Is (ECtx t e) c = errors_Is e c"
| "errors_Is _ c = False"

fun as_code :: "error \<Rightarrow> code option" where
  "as_code (ECode c) = Some c"
| "as_code _ = None"

text \<open>\<open>errors.As(err, new(packets.Code))\<close>: some error of the chain is a code.\<close>

fun errors_As_code :: "error \<Rightarrow> bool" where
  "errors_As_code (ECode c) = True"
| "errors_As_code (EWrap e c) = True"
| "errors_As_code (EProp k pkt) = True"
| "errors_As_code (ECtx t e) = errors_As_code e"
| "errors_As_code _ = False"

text \<open>
  The two errors for a user name without its flag and a password without its flag are the same
  value: the password error carries the user name's text.
\<close>

lemma password_no_flag_text:
  "ErrProtocolViolationPasswordNoFlag = ErrProtocolViolationUsernameNoFlag"
  by (simp add: code_defs)

end
