(* ===== verification/Mqtt_Codec.thy ===== *)
theory Mqtt_Codec
  imports Mqtt_Codes
begin

text \<open>
  The primitive encoders and decoders of \<open>packets/codec.go\<close>.  A decoder takes the whole
  buffer and an offset and returns the value and the next offset; the offset of the source is
  a non-negative \<open>int\<close> and is modelled as a \<open>nat\<close>.  The locale \<open>field_codec\<close> is the contract
  between an encoder and its decoder that the packet theories rely on.
\<close>

section \<open>Definitions\<close>

definition bigEndian_Uint16 :: "byte \<Rightarrow> byte \<Rightarrow> u16" where
  "bigEndian_Uint16 b0 b1 = ucast b1 OR push_bit 8 (ucast b0)"

definition bigEndian_PutUint16 :: "u16 \<Rightarrow> byte list" where
  "bigEndian_PutUint16 v = [ucast (drop_bit 8 v), ucast v]"

definition bigEndian_Uint32 :: "byte \<Rightarrow> byte \<Rightarrow> byte \<Rightarrow> byte \<Rightarrow> u32" where
  "bigEndian_Uint32 b0 b1 b2 b3 =
     ucast b3 OR push_bit 8 (ucast b2) OR push_bit 16 (ucast b1) OR push_bit 24 (ucast b0)"

definition bigEndian_PutUint32 :: "u32 \<Rightarrow> byte list" where
  "bigEndian_PutUint32 v =
     [ucast (drop_bit 24 v), ucast (drop_bit 16 v), ucast (drop_bit 8 v), ucast v]"

definition decodeUint16 :: "byte list \<Rightarrow> nat \<Rightarrow> error + (u16 \<times> nat)" where
  "decodeUint16 buf offset =
     (if length buf < offset + 2 then Inl (ECode ErrMalformedOffsetUintOutOfRange)
      else Inr (bigEndian_Uint16 (buf ! offset) (buf ! (offset + 1)), offset + 2))"

definition decodeUint32 :: "byte list \<Rightarrow> nat \<Rightarrow> error + (u32 \<times> nat)" where
  "decodeUint32 buf offset =
     (if length buf < offset + 4 then Inl (ECode ErrMalformedOffsetUintOutOfRange)
      else Inr (bigEndian_Uint32 (buf ! offset) (buf ! (offset + 1)) (buf ! (offset + 2))
                  (buf ! (offset + 3)), offset + 4))"

text \<open>
  \<open>utf8.Valid\<close> of the Go library: the well-formed byte sequences of the Unicode standard
  (no overlong forms, no surrogates, nothing above U+10FFFF).
\<close>

definition utf8_cont :: "byte \<Rightarrow> bool" where
  "utf8_cont b \<longleftrightarrow> 0x80 \<le> b \<and> b \<le> 0xBF"

fun utf8_Valid :: "byte list \<Rightarrow> bool" where
  "utf8_Valid [] = True"
| "utf8_Valid (b # bs) =
     (if b < 0x80 then utf8_Valid bs
      else if 0xC2 \<le> b \<and> b \<le> 0xDF then
        (case bs of c1 # r \<Rightarrow> utf8_cont c1 \<and> utf8_Valid r | _ \<Rightarrow> False)
      else if 0xE0 \<le> b \<and> b \<le> 0xEF then
        (case bs of
           c1 # c2 # r \<Rightarrow>
             (if b = 0xE0 then 0xA0 else 0x80) \<le> c1 \<and> c1 \<le> (if b = 0xED then 0x9F else 0xBF)
             \<and> utf8_cont c2 \<and> utf8_Valid r
         | _ \<Rightarrow> False)
      else if 0xF0 \<le> b \<and> b \<le> 0xF4 then
        (case bs of
           c1 # c2 # c3 # r \<Rightarrow>
             (if b = 0xF0 then 0x90 else 0x80) \<le> c1 \<and> c1 \<le> (if b = 0xF4 then 0x8F else 0xBF)
             \<and> utf8_cont c2 \<and> utf8_cont c3 \<and> utf8_Valid r
         | _ \<Rightarrow> False)
      else False)"

definition validUTF8 :: "byte list \<Rightarrow> bool" where
  "validUTF8 b \<longleftrightarrow> utf8_Valid b \<and> ch_nul \<notin> set b"

definition decodeBytes :: "byte list \<Rightarrow> nat \<Rightarrow> error + (byte list \<times> nat)" where
  "decodeBytes buf offset =
     (case decodeUint16 buf offset of
        Inl err \<Rightarrow> Inl err
      | Inr (len, nxt) \<Rightarrow>
          (if nxt + unat len > length buf then Inl (ECode ErrMalformedOffsetBytesOutOfRange)
           else Inr (gslice buf nxt (nxt + unat len), nxt + unat len)))"

definition decodeString :: "byte list \<Rightarrow> nat \<Rightarrow> error + (gostring \<times> nat)" where
  "decodeString buf offset =
     (case decodeBytes buf offset of
        Inl err \<Rightarrow> Inl err
      | Inr (b, n) \<Rightarrow>
          (if \<not> validUTF8 b then Inl (ECode ErrMalformedInvalidUTF8) else Inr (b, n)))"

definition decodeByte :: "byte list \<Rightarrow> nat \<Rightarrow> error + (byte \<times> nat)" where
  "decodeByte buf offset =
     (if length buf \<le> offset then Inl (ECode ErrMalformedOffsetByteOutOfRange)
      else Inr (buf ! offset, offset + 1))"

definition decodeByteBool :: "byte list \<Rightarrow> nat \<Rightarrow> error + (bool \<times> nat)" where
  "decodeByteBool buf offset =
     (if length buf \<le> offset then Inl (ECode ErrMalformedOffsetBoolOutOfRange)
      else Inr (1 AND (buf ! offset) > 0, offset + 1))"

definition encodeBool :: "bool \<Rightarrow> byte" where
  "encodeBool b = (if b then 1 else 0)"

definition encodeBytes :: "byte list \<Rightarrow> byte list" where
  "encodeBytes val = bigEndian_PutUint16 (of_nat (length val)) @ val"

definition encodeUint16 :: "u16 \<Rightarrow> byte list" where
  "encodeUint16 val = bigEndian_PutUint16 val"

definition encodeUint32 :: "u32 \<Rightarrow> byte list" where
  "encodeUint32 val = bigEndian_PutUint32 val"

definition encodeString :: "gostring \<Rightarrow> byte list" where
  "encodeString val = bigEndian_PutUint16 (of_nat (length val)) @ val"

text \<open>The variable byte integer.  Every call site passes a length, which is not negative.\<close>

fun encodeLength :: "nat \<Rightarrow> byte list" where
  "encodeLength len =
     (let eb = of_nat (len mod 128); len' = len div 128
      in if len' > 0 then (eb OR 0x80) # encodeLength len' else [eb])"

declare encodeLength.simps [simp del]

text \<open>
  The reader is the list of bytes still to come; the result carries the value, the number of
  bytes used and the rest.  The shift amount is a \<open>uint32\<close> that wraps, and shifting a
  \<open>uint32\<close> by 32 or more gives 0, as \<open>push_bit\<close> does.
\<close>

fun DecodeLength_loop :: "u32 \<Rightarrow> u32 \<Rightarrow> nat \<Rightarrow> byte list \<Rightarrow> error + (nat \<times> nat \<times> byte list)" where
  "DecodeLength_loop multiplier val bu [] = Inl EEOF"
| "DecodeLength_loop multiplier val bu (eb # r) =
     (let val' = val OR push_bit (unat multiplier) (ucast (eb AND 127)) in
      if val' > 268435455 then Inl (ECode ErrMalformedVariableByteInteger)
      else if eb AND 128 = 0 then Inr (unat val', bu, r)
      else DecodeLength_loop (multiplier + 7) val' (bu + 1) r)"

definition DecodeLength :: "byte list \<Rightarrow> error + (nat \<times> nat \<times> byte list)" where
  "DecodeLength b = DecodeLength_loop 0 0 1 b"

section \<open>The contract of a field\<close>

locale field_codec =
  fixes enc :: "'a \<Rightarrow> byte list"
    and dec :: "byte list \<Rightarrow> nat \<Rightarrow> error + ('a \<times> nat)"
    and good :: "'a \<Rightarrow> bool"
  assumes dec_enc:
      "good x \<Longrightarrow> dec (pre @ enc x @ post) (length pre) = Inr (x, length pre + length (enc x))"
    and dec_advances: "dec buf off = Inr (x, off') \<Longrightarrow> off < off' \<and> off' \<le> length buf"
begin

lemma dec_enc_at:
  "good x \<Longrightarrow> buf = pre @ enc x @ post \<Longrightarrow> off = length pre \<Longrightarrow>
     dec buf off = Inr (x, off + length (enc x))"
  using dec_enc by simp

lemma dec_enc_start: "good x \<Longrightarrow> dec (enc x @ post) 0 = Inr (x, length (enc x))"
  using dec_enc [of x "[]" post] by simp

lemma enc_nonempty: "good x \<Longrightarrow> enc x \<noteq> []"
  using dec_enc_start [of x "[]"] dec_advances by fastforce

lemma enc_inject: "good x \<Longrightarrow> good y \<Longrightarrow> enc x @ r = enc y @ s \<Longrightarrow> x = y \<and> r = s"
proof -
  assume g: "good x" "good y" and eq: "enc x @ r = enc y @ s"
  have "Inr (x, length (enc x)) = (Inr (y, length (enc y)) :: error + ('a \<times> nat))"
    using dec_enc_start [OF g(1), of r] dec_enc_start [OF g(2), of s] eq by simp
  then show ?thesis using eq by simp
qed

end


section \<open>Round trips of the primitives\<close>

lemma Uint16_Put: "bigEndian_Uint16 (ucast (drop_bit 8 v)) (ucast v) = v"
  unfolding bigEndian_Uint16_def
  by (rule bit_word_eqI)
     (auto simp: bit_or_iff bit_push_bit_iff bit_ucast_iff bit_drop_bit_eq)

lemma Uint32_Put:
  "bigEndian_Uint32 (ucast (drop_bit 24 v)) (ucast (drop_bit 16 v)) (ucast (drop_bit 8 v)) (ucast v) = v"
proof (rule bit_word_eqI)
  fix n assume n: "n < LENGTH(32)"
  have "n < 8 \<or> 8 \<le> n \<and> n < 16 \<or> 16 \<le> n \<and> n < 24 \<or> 24 \<le> n" by arith
  then show "bit (bigEndian_Uint32 (ucast (drop_bit 24 v)) (ucast (drop_bit 16 v))
      (ucast (drop_bit 8 v)) (ucast v)) n = bit v n"
    using n
    by (elim disjE) (auto simp: bigEndian_Uint32_def bit_or_iff bit_push_bit_iff bit_ucast_iff
        bit_drop_bit_eq)
qed

lemma nth_append_len [simp]:
  "(xs @ y # ys) ! length xs = y"
  "(xs @ y # z # ys) ! Suc (length xs) = z"
  "(xs @ y # z # w # ys) ! Suc (Suc (length xs)) = w"
  "(xs @ y # z # w # u # ys) ! Suc (Suc (Suc (length xs))) = u"
  by (simp_all add: nth_append)

lemma length_encodeUint16 [simp]: "length (encodeUint16 v) = 2"
  by (simp add: encodeUint16_def bigEndian_PutUint16_def)

lemma length_encodeUint32 [simp]: "length (encodeUint32 v) = 4"
  by (simp add: encodeUint32_def bigEndian_PutUint32_def)

lemma length_encodeBytes [simp]: "length (encodeBytes v) = length v + 2"
  by (simp add: encodeBytes_def bigEndian_PutUint16_def)

lemma length_encodeString [simp]: "length (encodeString v) = length v + 2"
  by (simp add: encodeString_def bigEndian_PutUint16_def)

interpretation uint16_field: field_codec encodeUint16 decodeUint16 "\<lambda>_. True"
proof
  fix x :: u16 and pre post :: "byte list"
  show "decodeUint16 (pre @ encodeUint16 x @ post) (length pre)
    = Inr (x, length pre + length (encodeUint16 x))"
    by (simp add: decodeUint16_def encodeUint16_def bigEndian_PutUint16_def Uint16_Put)
next
  fix buf off x off'
  assume "decodeUint16 buf off = Inr (x, off')"
  then show "off < off' \<and> off' \<le> length buf"
    by (auto simp: decodeUint16_def split: if_splits)
qed

interpretation uint32_field: field_codec encodeUint32 decodeUint32 "\<lambda>_. True"
proof
  fix x :: u32 and pre post :: "byte list"
  show "decodeUint32 (pre @ encodeUint32 x @ post) (length pre)
    = Inr (x, length pre + length (encodeUint32 x))"
    by (simp add: decodeUint32_def encodeUint32_def bigEndian_PutUint32_def Uint32_Put
        numeral_2_eq_2 numeral_3_eq_3)
next
  fix buf off x off'
  assume "decodeUint32 buf off = Inr (x, off')"
  then show "off < off' \<and> off' \<le> length buf"
    by (auto simp: decodeUint32_def split: if_splits)
qed

interpretation byte_field: field_codec "\<lambda>b. [b]" decodeByte "\<lambda>_. True"
proof
  fix x :: byte and pre post :: "byte list"
  show "decodeByte (pre @ [x] @ post) (length pre) = Inr (x, length pre + length [x])"
    by (simp add: decodeByte_def)
next
  fix buf off x off'
  assume "decodeByte buf off = Inr (x, off')"
  then show "off < off' \<and> off' \<le> length buf"
    by (auto simp: decodeByte_def split: if_splits)
qed

interpretation bool_field: field_codec "\<lambda>b. [encodeBool b]" decodeByteBool "\<lambda>_. True"
proof
  fix x :: bool and pre post :: "byte list"
  show "decodeByteBool (pre @ [encodeBool x] @ post) (length pre)
    = Inr (x, length pre + length [encodeBool x])"
    by (simp add: decodeByteBool_def encodeBool_def)
next
  fix buf off x off'
  assume "decodeByteBool buf off = Inr (x, off')"
  then show "off < off' \<and> off' \<le> length buf"
    by (auto simp: decodeByteBool_def split: if_splits)
qed

definition short :: "byte list \<Rightarrow> bool" where
  "short b \<longleftrightarrow> length b < 65536"

definition text_ok :: "gostring \<Rightarrow> bool" where
  "text_ok b \<longleftrightarrow> length b < 65536 \<and> validUTF8 b"

lemma text_ok_short: "text_ok b \<Longrightarrow> short b"
  by (simp add: text_ok_def short_def)

lemma unat_len16: "n < 65536 \<Longrightarrow> unat (of_nat n :: u16) = n"
  by (simp add: unat_of_nat take_bit_eq_mod)

lemma gslice_mid: "gslice (xs @ a # b # ys @ zs) (Suc (Suc (length xs))) (Suc (Suc (length xs + length ys))) = ys"
  using gslice_append [of "xs @ [a, b]" ys zs] by simp

lemma decodeBytes_enc:
  assumes "short x"
  shows "decodeBytes (pre @ encodeBytes x @ post) (length pre)
    = Inr (x, length pre + length (encodeBytes x))"
  using assms
  by (simp add: decodeBytes_def decodeUint16_def encodeBytes_def bigEndian_PutUint16_def
      Uint16_Put short_def unat_len16 gslice_mid)

lemma decodeBytes_advances:
  "decodeBytes buf off = Inr (x, off') \<Longrightarrow> off < off' \<and> off' \<le> length buf"
  by (auto simp: decodeBytes_def decodeUint16_def split: if_splits sum.splits)

interpretation bytes_field: field_codec encodeBytes decodeBytes short
  by unfold_locales (erule decodeBytes_enc, erule decodeBytes_advances)

lemma encodeString_eq: "encodeString = encodeBytes"
  by (rule ext) (simp add: encodeString_def encodeBytes_def)

interpretation string_field: field_codec encodeString decodeString text_ok
proof
  fix x pre post
  assume "text_ok x"
  then show "decodeString (pre @ encodeString x @ post) (length pre)
    = Inr (x, length pre + length (encodeString x))"
    using decodeBytes_enc [of x pre post]
    by (simp add: decodeString_def encodeString_eq text_ok_short) (simp add: text_ok_def)
next
  fix buf off x off'
  assume "decodeString buf off = Inr (x, off')"
  then show "off < off' \<and> off' \<le> length buf"
    by (auto simp: decodeString_def split: sum.splits if_splits dest: decodeBytes_advances)
qed


section \<open>The variable byte integer\<close>

text \<open>Adding the next seven bits: the disjunction is a sum because the bits do not overlap.\<close>

lemma or_push_bit_add:
  fixes v w :: u32
  assumes "unat v < 2 ^ k" "unat v + unat w * 2 ^ k < 2 ^ 32"
  shows "unat (v OR push_bit k w) = unat v + unat w * 2 ^ k"
proof -
  have tk: "take_bit 32 (push_bit k (unat w)) = push_bit k (unat w)"
    using assms(2) by (simp add: push_bit_eq_mult take_bit_nat_eq_self)
  have "unat (v OR push_bit k w) = unat v OR push_bit k (unat w)"
    using tk by (simp add: unsigned_or_eq unsigned_push_bit_eq)
  also have "\<dots> = unat v + push_bit k (unat w)"
  proof (rule disjunctive_add_eq_or [symmetric], rule bit_eqI)
    fix n
    have "take_bit k (unat v) = unat v" using assms(1) by (simp add: take_bit_nat_eq_self)
    then have "bit (unat v) n \<Longrightarrow> n < k" by (metis bit_take_bit_iff)
    then show "bit (unat v AND push_bit k (unat w)) n = bit (0::nat) n"
      by (auto simp: bit_and_iff bit_push_bit_iff)
  qed
  finally show ?thesis by (simp add: push_bit_eq_mult)
qed

lemma length_digit_bits:
  assumes "m < 128"
  shows "(of_nat m OR 0x80 :: byte) AND 127 = of_nat m"
    and "(of_nat m OR 0x80 :: byte) AND 128 \<noteq> 0"
    and "(of_nat m :: byte) AND 127 = of_nat m"
    and "(of_nat m :: byte) AND 128 = 0"
proof -
  have "\<forall>m \<in> set [0..<128]. (of_nat m OR 0x80 :: byte) AND 127 = of_nat m
      \<and> (of_nat m OR 0x80 :: byte) AND 128 \<noteq> 0
      \<and> (of_nat m :: byte) AND 127 = of_nat m \<and> (of_nat m :: byte) AND 128 = 0"
    by code_simp
  with assms show "(of_nat m OR 0x80 :: byte) AND 127 = of_nat m"
    and "(of_nat m OR 0x80 :: byte) AND 128 \<noteq> 0"
    and "(of_nat m :: byte) AND 127 = of_nat m"
    and "(of_nat m :: byte) AND 128 = 0"
    by simp_all
qed

lemma unat_digit: "m < 128 \<Longrightarrow> unat (ucast (of_nat m :: byte) :: u32) = m"
  by (simp add: unsigned_ucast_eq unat_of_nat take_bit_eq_mod)

lemma unat_add7:
  fixes m :: u32
  assumes "unat m = 7 * k" "k < 100"
  shows "unat (m + 7) = 7 * Suc k"
  using assms by (simp add: unat_word_ariths)

lemma word_gt_limit: "unat (v :: u32) \<le> 268435455 \<Longrightarrow> \<not> v > 268435455"
  by (simp add: word_less_nat_alt)

lemma DecodeLength_loop_enc:
  assumes "unat mult = 7 * k" "unat val < 2 ^ (7 * k)"
    and "unat val + n * 2 ^ (7 * k) \<le> 268435455" "0 < n \<or> k = 0"
  shows "DecodeLength_loop mult val bu (encodeLength n @ rest)
    = Inr (unat val + n * 2 ^ (7 * k), bu + length (encodeLength n) - 1, rest)"
  using assms
proof (induction n arbitrary: mult val bu k rule: encodeLength.induct)
  case (1 n)
  define m where "m = n mod 128"
  have m: "m < 128" by (simp add: m_def)
  have "2 ^ (7 * k) \<le> (268435455 :: nat)" using "1.prems"(3,4)
    by (cases "k = 0") (auto intro: order_trans [of _ "n * 2 ^ (7 * k)"])
  then have "(2::nat) ^ (7 * k) < 2 ^ 28" by simp
  then have "7 * k < 28" by (rule power_less_imp_less_exp [rotated]) simp
  then have k: "k < 4" by simp
  define val' where "val' = val OR push_bit (unat mult) (ucast (of_nat m :: byte))"
  have mn: "m * 2 ^ (7 * k) \<le> n * 2 ^ (7 * k)" by (simp add: m_def)
  have val': "unat val' = unat val + m * 2 ^ (7 * k)"
  proof -
    have "unat val + m * 2 ^ (7 * k) < 2 ^ 32"
      by (rule le_less_trans [of _ 268435455]) (use "1.prems"(3) mn in linarith, simp)
    then show ?thesis
      unfolding val'_def "1.prems"(1)
      using "1.prems"(2) by (subst or_push_bit_add) (simp_all add: unat_digit [OF m])
  qed
  have lim: "\<not> val' > 268435455"
    by (rule word_gt_limit) (use val' mn "1.prems"(3) in linarith)
  show ?case
  proof (cases "n div 128 > 0")
    case False
    then have mn: "m = n" by (simp add: m_def)
    show ?thesis
      using False lim [unfolded val'_def] val' [unfolded val'_def] m
      by (simp add: encodeLength.simps [of n] Let_def length_digit_bits mn)
  next
    case True
    have n: "n = 128 * (n div 128) + m" by (simp add: m_def)
    have pw: "(2::nat) ^ (7 * Suc k) = 128 * 2 ^ (7 * k)" by (simp add: power_add)
    have sum: "unat val' + n div 128 * 2 ^ (7 * Suc k) = unat val + n * 2 ^ (7 * k)"
    proof -
      have "n * 2 ^ (7 * k) = (128 * (n div 128) + m) * 2 ^ (7 * k)" using n by simp
      then show ?thesis unfolding val' pw by (simp add: algebra_simps)
    qed
    have lt: "unat val' < 2 ^ (7 * Suc k)"
    proof -
      have "m * 2 ^ (7 * k) \<le> 127 * 2 ^ (7 * k)" using m by simp
      then show ?thesis unfolding val' pw using "1.prems"(2) by linarith
    qed
    have "DecodeLength_loop (mult + 7) val' (bu + 1) (encodeLength (n div 128) @ rest)
      = Inr (unat val' + n div 128 * 2 ^ (7 * Suc k),
          bu + 1 + length (encodeLength (n div 128)) - 1, rest)"
    proof (rule "1.IH")
      show "unat (mult + 7) = 7 * Suc k" by (rule unat_add7) (use "1.prems"(1) k in auto)
      show "unat val' + n div 128 * 2 ^ (7 * Suc k) \<le> 268435455"
        unfolding sum by (rule "1.prems"(3))
    qed (use True lt in auto)
    then show ?thesis
      using True lim m unfolding sum
      by (simp add: encodeLength.simps [of n] Let_def length_digit_bits flip: m_def val'_def)
  qed
qed

lemma DecodeLength_enc:
  "n \<le> 268435455 \<Longrightarrow> DecodeLength (encodeLength n @ rest) = Inr (n, length (encodeLength n), rest)"
  using DecodeLength_loop_enc [of 0 0 0 n 1 rest] by (simp add: DecodeLength_def)


text \<open>What the decoder accepts is at most the protocol's maximum, and it consumes what it reports.\<close>

lemma DecodeLength_loop_result:
  "DecodeLength_loop mult val bu b = Inr (n, u, r) \<Longrightarrow>
     n \<le> 268435455 \<and> bu \<le> u \<and> (\<exists>c. b = c @ r \<and> length c = Suc u - bu)"
proof (induction mult val bu b rule: DecodeLength_loop.induct)
  case (1 mult val bu)
  then show ?case by simp
next
  case (2 mult val bu eb r')
  define val' where "val' = val OR push_bit (unat mult) (ucast (eb AND 127))"
  have lim: "\<not> val' > 268435455"
    using "2.prems" by (auto simp: Let_def val'_def split: if_splits)
  show ?case
  proof (cases "eb AND 128 = 0")
    case True
    have "n = unat val'" "u = bu" "r = r'"
      using "2.prems" True lim by (simp_all add: Let_def val'_def)
    then show ?thesis using lim
      by (auto simp: word_less_nat_alt not_less intro!: exI [of _ "[eb]"])
  next
    case False
    then have "DecodeLength_loop (mult + 7) val' (bu + 1) r' = Inr (n, u, r)"
      using "2.prems" lim by (simp add: Let_def val'_def)
    from "2.IH" [OF val'_def lim False this] obtain c
      where "n \<le> 268435455" "bu + 1 \<le> u" "r' = c @ r" "length c = Suc u - (bu + 1)"
      by blast
    then show ?thesis by (auto intro!: exI [of _ "eb # c"])
  qed
qed

lemma DecodeLength_result:
  assumes "DecodeLength b = Inr (n, u, r)"
  shows "n \<le> 268435455" "0 < u" "\<exists>c. b = c @ r \<and> length c = u" "u \<le> length b" "r = drop u b"
proof -
  from DecodeLength_loop_result [OF assms [unfolded DecodeLength_def]] obtain c
    where c: "n \<le> 268435455" "1 \<le> u" "b = c @ r" "length c = Suc u - 1"
    by blast
  show "n \<le> 268435455" "0 < u" "\<exists>c. b = c @ r \<and> length c = u" "u \<le> length b" "r = drop u b"
    using c by auto
qed

text \<open>The encoder writes one to four bytes for every length the protocol allows.\<close>

lemma encodeLength_nonempty [simp]: "encodeLength n \<noteq> []"
  by (subst encodeLength.simps) (simp add: Let_def)

lemma length_encodeLength:
  "length (encodeLength n) = (if n < 128 then 1 else Suc (length (encodeLength (n div 128))))"
  by (subst encodeLength.simps) (simp add: Let_def div_greater_zero_iff not_less)

lemma length_encodeLength_le: "n \<le> 268435455 \<Longrightarrow> length (encodeLength n) \<le> 4"
  by (simp add: length_encodeLength [of n] length_encodeLength [of "n div 128"]
      length_encodeLength [of "n div 128 div 128"] length_encodeLength [of "n div 128 div 128 div 128"])

text \<open>
  The decoder does not bound the number of bytes: continuation bytes without value bits are
  skipped for ever.
\<close>

lemma DecodeLength_loop_padding:
  "DecodeLength_loop mult 0 bu (replicate k 0x80 @ 0 # rest) = Inr (0, bu + k, rest)"
  by (induction k arbitrary: mult bu) (simp_all add: Let_def)

end
