(* ===== verification/Mqtt_Properties.thy ===== *)
theory Mqtt_Properties
  imports Mqtt_Codec
begin

text \<open>
  The MQTT 5 properties of \<open>packets/properties.go\<close>: the property table, the record of all
  properties, its encoder, its decoder and its copy.  The absent value of an optional property
  is the zero value of its type, or a flag where zero is a value, as in the source.
\<close>

section \<open>Packet types and property identifiers\<close>

text \<open>The constants unfold by simplification, so that closed terms compute.\<close>

definition Reserved :: byte where [simp]: "Reserved = 0"
definition Connect :: byte where [simp]: "Connect = 1"
definition Connack :: byte where [simp]: "Connack = 2"
definition Publish :: byte where [simp]: "Publish = 3"
definition Puback :: byte where [simp]: "Puback = 4"
definition Pubrec :: byte where [simp]: "Pubrec = 5"
definition Pubrel :: byte where [simp]: "Pubrel = 6"
definition Pubcomp :: byte where [simp]: "Pubcomp = 7"
definition Subscribe :: byte where [simp]: "Subscribe = 8"
definition Suback :: byte where [simp]: "Suback = 9"
definition Unsubscribe :: byte where [simp]: "Unsubscribe = 10"
definition Unsuback :: byte where [simp]: "Unsuback = 11"
definition Pingreq :: byte where [simp]: "Pingreq = 12"
definition Pingresp :: byte where [simp]: "Pingresp = 13"
definition Disconnect :: byte where [simp]: "Disconnect = 14"
definition Auth :: byte where [simp]: "Auth = 15"
definition WillProperties :: byte where [simp]: "WillProperties = 99"

definition PropPayloadFormat :: byte where [simp]: "PropPayloadFormat = 1"
definition PropMessageExpiryInterval :: byte where [simp]: "PropMessageExpiryInterval = 2"
definition PropContentType :: byte where [simp]: "PropContentType = 3"
definition PropResponseTopic :: byte where [simp]: "PropResponseTopic = 8"
definition PropCorrelationData :: byte where [simp]: "PropCorrelationData = 9"
definition PropSubscriptionIdentifier :: byte where [simp]: "PropSubscriptionIdentifier = 11"
definition PropSessionExpiryInterval :: byte where [simp]: "PropSessionExpiryInterval = 17"
definition PropAssignedClientID :: byte where [simp]: "PropAssignedClientID = 18"
definition PropServerKeepAlive :: byte where [simp]: "PropServerKeepAlive = 19"
definition PropAuthenticationMethod :: byte where [simp]: "PropAuthenticationMethod = 21"
definition PropAuthenticationData :: byte where [simp]: "PropAuthenticationData = 22"
definition PropRequestProblemInfo :: byte where [simp]: "PropRequestProblemInfo = 23"
definition PropWillDelayInterval :: byte where [simp]: "PropWillDelayInterval = 24"
definition PropRequestResponseInfo :: byte where [simp]: "PropRequestResponseInfo = 25"
definition PropResponseInfo :: byte where [simp]: "PropResponseInfo = 26"
definition PropServerReference :: byte where [simp]: "PropServerReference = 28"
definition PropReasonString :: byte where [simp]: "PropReasonString = 31"
definition PropReceiveMaximum :: byte where [simp]: "PropReceiveMaximum = 33"
definition PropTopicAliasMaximum :: byte where [simp]: "PropTopicAliasMaximum = 34"
definition PropTopicAlias :: byte where [simp]: "PropTopicAlias = 35"
definition PropMaximumQos :: byte where [simp]: "PropMaximumQos = 36"
definition PropRetainAvailable :: byte where [simp]: "PropRetainAvailable = 37"
definition PropUser :: byte where [simp]: "PropUser = 38"
definition PropMaximumPacketSize :: byte where [simp]: "PropMaximumPacketSize = 39"
definition PropWildcardSubAvailable :: byte where [simp]: "PropWildcardSubAvailable = 40"
definition PropSubIDAvailable :: byte where [simp]: "PropSubIDAvailable = 41"
definition PropSharedSubAvailable :: byte where [simp]: "PropSharedSubAvailable = 42"

definition validPacketProperties :: "(byte, (byte, byte) gomap) gomap" where
  "validPacketProperties = [
    (PropPayloadFormat, [(Publish, 1), (WillProperties, 1)]),
    (PropMessageExpiryInterval, [(Publish, 1), (WillProperties, 1)]),
    (PropContentType, [(Publish, 1), (WillProperties, 1)]),
    (PropResponseTopic, [(Publish, 1), (WillProperties, 1)]),
    (PropCorrelationData, [(Publish, 1), (WillProperties, 1)]),
    (PropSubscriptionIdentifier, [(Publish, 1), (Subscribe, 1)]),
    (PropSessionExpiryInterval, [(Connect, 1), (Connack, 1), (Disconnect, 1)]),
    (PropAssignedClientID, [(Connack, 1)]),
    (PropServerKeepAlive, [(Connack, 1)]),
    (PropAuthenticationMethod, [(Connect, 1), (Connack, 1), (Auth, 1)]),
    (PropAuthenticationData, [(Connect, 1), (Connack, 1), (Auth, 1)]),
    (PropRequestProblemInfo, [(Connect, 1)]),
    (PropWillDelayInterval, [(WillProperties, 1)]),
    (PropRequestResponseInfo, [(Connect, 1)]),
    (PropResponseInfo, [(Connack, 1)]),
    (PropServerReference, [(Connack, 1), (Disconnect, 1)]),
    (PropReasonString, [(Connack, 1), (Puback, 1), (Pubrec, 1), (Pubrel, 1), (Pubcomp, 1),
      (Suback, 1), (Unsuback, 1), (Disconnect, 1), (Auth, 1)]),
    (PropReceiveMaximum, [(Connect, 1), (Connack, 1)]),
    (PropTopicAliasMaximum, [(Connect, 1), (Connack, 1)]),
    (PropTopicAlias, [(Publish, 1)]),
    (PropMaximumQos, [(Connack, 1)]),
    (PropRetainAvailable, [(Connack, 1)]),
    (PropUser, [(Connect, 1), (Connack, 1), (Publish, 1), (Puback, 1), (Pubrec, 1),
      (Pubrel, 1), (Pubcomp, 1), (Subscribe, 1), (Suback, 1), (Unsubscribe, 1),
      (Unsuback, 1), (Disconnect, 1), (Auth, 1), (WillProperties, 1)]),
    (PropMaximumPacketSize, [(Connect, 1), (Connack, 1)]),
    (PropWildcardSubAvailable, [(Connack, 1)]),
    (PropSubIDAvailable, [(Connack, 1)]),
    (PropSharedSubAvailable, [(Connack, 1)])]"

section \<open>The property record\<close>

record user_property =
  Key :: gostring
  Val :: gostring

record properties =
  pCorrelationData :: "byte list"
  pSubscriptionIdentifier :: "int list"
  pAuthenticationData :: "byte list"
  pUser :: "user_property list"
  pContentType :: gostring
  pResponseTopic :: gostring
  pAssignedClientID :: gostring
  pAuthenticationMethod :: gostring
  pResponseInfo :: gostring
  pServerReference :: gostring
  pReasonString :: gostring
  pMessageExpiryInterval :: u32
  pSessionExpiryInterval :: u32
  pWillDelayInterval :: u32
  pMaximumPacketSize :: u32
  pServerKeepAlive :: u16
  pReceiveMaximum :: u16
  pTopicAliasMaximum :: u16
  pTopicAlias :: u16
  pPayloadFormat :: byte
  pPayloadFormatFlag :: bool
  pSessionExpiryIntervalFlag :: bool
  pServerKeepAliveFlag :: bool
  pRequestProblemInfo :: byte
  pRequestProblemInfoFlag :: bool
  pRequestResponseInfo :: byte
  pTopicAliasFlag :: bool
  pMaximumQos :: byte
  pMaximumQosFlag :: bool
  pRetainAvailable :: byte
  pRetainAvailableFlag :: bool
  pWildcardSubAvailable :: byte
  pWildcardSubAvailableFlag :: bool
  pSubIDAvailable :: byte
  pSubIDAvailableFlag :: bool
  pSharedSubAvailable :: byte
  pSharedSubAvailableFlag :: bool

text \<open>The zero value of the struct.\<close>

definition no_properties :: properties where
  "no_properties = \<lparr>
     pCorrelationData = [], pSubscriptionIdentifier = [], pAuthenticationData = [],
     pUser = [], pContentType = [], pResponseTopic = [],
     pAssignedClientID = [], pAuthenticationMethod = [], pResponseInfo = [],
     pServerReference = [], pReasonString = [], pMessageExpiryInterval = 0,
     pSessionExpiryInterval = 0, pWillDelayInterval = 0, pMaximumPacketSize = 0,
     pServerKeepAlive = 0, pReceiveMaximum = 0, pTopicAliasMaximum = 0,
     pTopicAlias = 0, pPayloadFormat = 0, pPayloadFormatFlag = False,
     pSessionExpiryIntervalFlag = False, pServerKeepAliveFlag = False, pRequestProblemInfo = 0,
     pRequestProblemInfoFlag = False, pRequestResponseInfo = 0, pTopicAliasFlag = False,
     pMaximumQos = 0, pMaximumQosFlag = False, pRetainAvailable = 0,
     pRetainAvailableFlag = False, pWildcardSubAvailable = 0, pWildcardSubAvailableFlag = False,
     pSubIDAvailable = 0, pSubIDAvailableFlag = False, pSharedSubAvailable = 0,
     pSharedSubAvailableFlag = False\<rparr>"

text \<open>The packet modifiers of \<open>packets.go\<close> that the encoder reads.\<close>

record mods =
  mMaxSize :: u32
  mDisallowProblemInfo :: bool
  mAllowResponseInfo :: bool

definition no_mods :: mods where
  "no_mods = \<lparr>mMaxSize = 0, mDisallowProblemInfo = False, mAllowResponseInfo = False\<rparr>"

definition Properties_Copy :: "properties \<Rightarrow> bool \<Rightarrow> properties" where
  "Properties_Copy p allowTransfer =
    (let pr = no_properties\<lparr>
       pPayloadFormat := pPayloadFormat p, pPayloadFormatFlag := pPayloadFormatFlag p,
       pMessageExpiryInterval := pMessageExpiryInterval p, pContentType := pContentType p,
       pResponseTopic := pResponseTopic p, pSessionExpiryInterval := pSessionExpiryInterval p,
       pSessionExpiryIntervalFlag := pSessionExpiryIntervalFlag p, pAssignedClientID := pAssignedClientID p,
       pServerKeepAlive := pServerKeepAlive p, pServerKeepAliveFlag := pServerKeepAliveFlag p,
       pAuthenticationMethod := pAuthenticationMethod p, pRequestProblemInfo := pRequestProblemInfo p,
       pRequestProblemInfoFlag := pRequestProblemInfoFlag p, pWillDelayInterval := pWillDelayInterval p,
       pRequestResponseInfo := pRequestResponseInfo p, pResponseInfo := pResponseInfo p,
       pServerReference := pServerReference p, pReasonString := pReasonString p,
       pReceiveMaximum := pReceiveMaximum p, pTopicAliasMaximum := pTopicAliasMaximum p,
       pTopicAlias := 0, pMaximumQos := pMaximumQos p,
       pMaximumQosFlag := pMaximumQosFlag p, pRetainAvailable := pRetainAvailable p,
       pRetainAvailableFlag := pRetainAvailableFlag p, pMaximumPacketSize := pMaximumPacketSize p,
       pWildcardSubAvailable := pWildcardSubAvailable p, pWildcardSubAvailableFlag := pWildcardSubAvailableFlag p,
       pSubIDAvailable := pSubIDAvailable p, pSubIDAvailableFlag := pSubIDAvailableFlag p,
       pSharedSubAvailable := pSharedSubAvailable p, pSharedSubAvailableFlag := pSharedSubAvailableFlag p\<rparr>;
     pr = (if allowTransfer
           then pr\<lparr>pTopicAlias := pTopicAlias p, pTopicAliasFlag := pTopicAliasFlag p\<rparr> else pr);
     pr = (if length (pCorrelationData p) > 0
           then pr\<lparr>pCorrelationData := [] @ pCorrelationData p\<rparr> else pr);
     pr = (if length (pSubscriptionIdentifier p) > 0
           then pr\<lparr>pSubscriptionIdentifier := [] @ pSubscriptionIdentifier p\<rparr> else pr);
     pr = (if length (pAuthenticationData p) > 0
           then pr\<lparr>pAuthenticationData := [] @ pAuthenticationData p\<rparr> else pr)
     in if length (pUser p) > 0
        then pr\<lparr>pUser := map (\<lambda>v. \<lparr>Key = Key v, Val = Val v\<rparr>) (pUser p)\<rparr> else pr)"

section \<open>Encoding\<close>

definition canEncode :: "byte \<Rightarrow> byte \<Rightarrow> bool" where
  "canEncode pkt k =
     (case m_get validPacketProperties k of
        None \<Rightarrow> False
      | Some m \<Rightarrow> m_get m pkt = Some 1)"

text \<open>\<open>strings.ContainsAny\<close> with ASCII characters.\<close>

definition ContainsAny :: "gostring \<Rightarrow> byte list \<Rightarrow> bool" where
  "ContainsAny s chars \<longleftrightarrow> list_ex (\<lambda>c. c \<in> set chars) s"

text \<open>One \<open>if cond { buf.WriteByte(k); buf.Write(bs) }\<close> of the encoder.\<close>

definition put :: "bool \<Rightarrow> byte \<Rightarrow> byte list \<Rightarrow> byte list" where
  "put cond k bs = (if cond then k # bs else [])"

definition encodeUserProps :: "user_property list \<Rightarrow> byte list" where
  "encodeUserProps us = concat (map (\<lambda>v. PropUser # encodeString (Key v) @ encodeString (Val v)) us)"

definition encodeSubIDs :: "int list \<Rightarrow> byte list" where
  "encodeSubIDs vs =
     concat (map (\<lambda>v. if v > 0 then PropSubscriptionIdentifier # encodeLength (nat v) else []) vs)"

text \<open>The test of [MQTT-3.2.2-19/20]: the optional part fits in the client's maximum packet size.\<close>

definition fits :: "mods \<Rightarrow> nat \<Rightarrow> nat \<Rightarrow> bool" where
  "fits mods n len \<longleftrightarrow> mMaxSize mods = 0 \<or> (of_nat (n + len + 1) :: u32) < mMaxSize mods"

definition Properties_body1 :: "properties \<Rightarrow> byte \<Rightarrow> mods \<Rightarrow> byte list" where
  "Properties_body1 p pkt mods =
     put (canEncode pkt PropPayloadFormat \<and> pPayloadFormatFlag p)
       PropPayloadFormat [pPayloadFormat p]
   @ put (canEncode pkt PropMessageExpiryInterval \<and> pMessageExpiryInterval p > 0)
       PropMessageExpiryInterval (encodeUint32 (pMessageExpiryInterval p))
   @ put (canEncode pkt PropContentType \<and> pContentType p \<noteq> [])
       PropContentType (encodeString (pContentType p))
   @ put (mAllowResponseInfo mods \<and> canEncode pkt PropResponseTopic \<and> pResponseTopic p \<noteq> []
          \<and> \<not> ContainsAny (pResponseTopic p) [ch_plus, ch_hash])
       PropResponseTopic (encodeString (pResponseTopic p))
   @ put (mAllowResponseInfo mods \<and> canEncode pkt PropCorrelationData \<and> length (pCorrelationData p) > 0)
       PropCorrelationData (encodeBytes (pCorrelationData p))
   @ (if canEncode pkt PropSubscriptionIdentifier \<and> length (pSubscriptionIdentifier p) > 0
      then encodeSubIDs (pSubscriptionIdentifier p) else [])
   @ put (canEncode pkt PropSessionExpiryInterval \<and> pSessionExpiryIntervalFlag p)
       PropSessionExpiryInterval (encodeUint32 (pSessionExpiryInterval p))
   @ put (canEncode pkt PropAssignedClientID \<and> pAssignedClientID p \<noteq> [])
       PropAssignedClientID (encodeString (pAssignedClientID p))
   @ put (canEncode pkt PropServerKeepAlive \<and> pServerKeepAliveFlag p)
       PropServerKeepAlive (encodeUint16 (pServerKeepAlive p))
   @ put (canEncode pkt PropAuthenticationMethod \<and> pAuthenticationMethod p \<noteq> [])
       PropAuthenticationMethod (encodeString (pAuthenticationMethod p))
   @ put (canEncode pkt PropAuthenticationData \<and> length (pAuthenticationData p) > 0)
       PropAuthenticationData (encodeBytes (pAuthenticationData p))
   @ put (canEncode pkt PropRequestProblemInfo \<and> pRequestProblemInfoFlag p)
       PropRequestProblemInfo [pRequestProblemInfo p]
   @ put (canEncode pkt PropWillDelayInterval \<and> pWillDelayInterval p > 0)
       PropWillDelayInterval (encodeUint32 (pWillDelayInterval p))
   @ put (canEncode pkt PropRequestResponseInfo \<and> pRequestResponseInfo p > 0)
       PropRequestResponseInfo [pRequestResponseInfo p]
   @ put (mAllowResponseInfo mods \<and> canEncode pkt PropResponseInfo \<and> length (pResponseInfo p) > 0)
       PropResponseInfo (encodeString (pResponseInfo p))
   @ put (canEncode pkt PropServerReference \<and> length (pServerReference p) > 0)
       PropServerReference (encodeString (pServerReference p))"

definition Properties_body2 :: "properties \<Rightarrow> byte \<Rightarrow> mods \<Rightarrow> nat \<Rightarrow> byte list" where
  "Properties_body2 p pkt mods n =
     put (\<not> mDisallowProblemInfo mods \<and> canEncode pkt PropReasonString \<and> pReasonString p \<noteq> []
          \<and> fits mods n (length (encodeString (pReasonString p))))
       PropReasonString (encodeString (pReasonString p))
   @ put (canEncode pkt PropReceiveMaximum \<and> pReceiveMaximum p > 0)
       PropReceiveMaximum (encodeUint16 (pReceiveMaximum p))
   @ put (canEncode pkt PropTopicAliasMaximum \<and> pTopicAliasMaximum p > 0)
       PropTopicAliasMaximum (encodeUint16 (pTopicAliasMaximum p))
   @ put (canEncode pkt PropTopicAlias \<and> pTopicAliasFlag p \<and> pTopicAlias p > 0)
       PropTopicAlias (encodeUint16 (pTopicAlias p))
   @ put (canEncode pkt PropMaximumQos \<and> pMaximumQosFlag p \<and> pMaximumQos p < 2)
       PropMaximumQos [pMaximumQos p]
   @ put (canEncode pkt PropRetainAvailable \<and> pRetainAvailableFlag p)
       PropRetainAvailable [pRetainAvailable p]
   @ (if \<not> mDisallowProblemInfo mods \<and> canEncode pkt PropUser
         \<and> fits mods n (length (encodeUserProps (pUser p)))
      then encodeUserProps (pUser p) else [])
   @ put (canEncode pkt PropMaximumPacketSize \<and> pMaximumPacketSize p > 0)
       PropMaximumPacketSize (encodeUint32 (pMaximumPacketSize p))
   @ put (canEncode pkt PropWildcardSubAvailable \<and> pWildcardSubAvailableFlag p)
       PropWildcardSubAvailable [pWildcardSubAvailable p]
   @ put (canEncode pkt PropSubIDAvailable \<and> pSubIDAvailableFlag p)
       PropSubIDAvailable [pSubIDAvailable p]
   @ put (canEncode pkt PropSharedSubAvailable \<and> pSharedSubAvailableFlag p)
       PropSharedSubAvailable [pSharedSubAvailable p]"

definition Properties_Encode :: "properties \<Rightarrow> byte \<Rightarrow> mods \<Rightarrow> nat \<Rightarrow> byte list" where
  "Properties_Encode p pkt mods n =
     (let buf = Properties_body1 p pkt mods @ Properties_body2 p pkt mods n
      in encodeLength (length buf) @ buf)"

section \<open>Decoding\<close>

text \<open>\<open>p.X, offset, err = decode(bt, offset)\<close>: an error leaves the decoder.\<close>

definition assign :: "error + ('a \<times> nat) \<Rightarrow> ('a \<Rightarrow> properties) \<Rightarrow> error + (properties \<times> nat)" where
  "assign r upd = (case r of Inl err \<Rightarrow> Inl err | Inr (v, offset) \<Rightarrow> Inr (upd v, offset))"

text \<open>The \<open>switch k\<close> of \<open>Properties.Decode\<close>.\<close>

definition decodeProperty ::
    "byte \<Rightarrow> byte list \<Rightarrow> nat \<Rightarrow> properties \<Rightarrow> error + (properties \<times> nat)" where
  "decodeProperty k bt offset p =
    (if k = PropPayloadFormat then
       assign (decodeByte bt offset) (\<lambda>v. p\<lparr>pPayloadFormat := v, pPayloadFormatFlag := True\<rparr>)
     else if k = PropMessageExpiryInterval then
       assign (decodeUint32 bt offset) (\<lambda>v. p\<lparr>pMessageExpiryInterval := v\<rparr>)
     else if k = PropContentType then
       assign (decodeString bt offset) (\<lambda>v. p\<lparr>pContentType := v\<rparr>)
     else if k = PropResponseTopic then
       assign (decodeString bt offset) (\<lambda>v. p\<lparr>pResponseTopic := v\<rparr>)
     else if k = PropCorrelationData then
       assign (decodeBytes bt offset) (\<lambda>v. p\<lparr>pCorrelationData := v\<rparr>)
     else if k = PropSubscriptionIdentifier then
       (case DecodeLength (drop offset bt) of
          Inl err \<Rightarrow> Inl err
        | Inr (n, bu, _) \<Rightarrow>
            Inr (p\<lparr>pSubscriptionIdentifier := pSubscriptionIdentifier p @ [int n]\<rparr>, offset + bu))
     else if k = PropSessionExpiryInterval then
       assign (decodeUint32 bt offset) (\<lambda>v. p\<lparr>pSessionExpiryInterval := v, pSessionExpiryIntervalFlag := True\<rparr>)
     else if k = PropAssignedClientID then
       assign (decodeString bt offset) (\<lambda>v. p\<lparr>pAssignedClientID := v\<rparr>)
     else if k = PropServerKeepAlive then
       assign (decodeUint16 bt offset) (\<lambda>v. p\<lparr>pServerKeepAlive := v, pServerKeepAliveFlag := True\<rparr>)
     else if k = PropAuthenticationMethod then
       assign (decodeString bt offset) (\<lambda>v. p\<lparr>pAuthenticationMethod := v\<rparr>)
     else if k = PropAuthenticationData then
       assign (decodeBytes bt offset) (\<lambda>v. p\<lparr>pAuthenticationData := v\<rparr>)
     else if k = PropRequestProblemInfo then
       assign (decodeByte bt offset) (\<lambda>v. p\<lparr>pRequestProblemInfo := v, pRequestProblemInfoFlag := True\<rparr>)
     else if k = PropWillDelayInterval then
       assign (decodeUint32 bt offset) (\<lambda>v. p\<lparr>pWillDelayInterval := v\<rparr>)
     else if k = PropRequestResponseInfo then
       assign (decodeByte bt offset) (\<lambda>v. p\<lparr>pRequestResponseInfo := v\<rparr>)
     else if k = PropResponseInfo then
       assign (decodeString bt offset) (\<lambda>v. p\<lparr>pResponseInfo := v\<rparr>)
     else if k = PropServerReference then
       assign (decodeString bt offset) (\<lambda>v. p\<lparr>pServerReference := v\<rparr>)
     else if k = PropReasonString then
       assign (decodeString bt offset) (\<lambda>v. p\<lparr>pReasonString := v\<rparr>)
     else if k = PropReceiveMaximum then
       assign (decodeUint16 bt offset) (\<lambda>v. p\<lparr>pReceiveMaximum := v\<rparr>)
     else if k = PropTopicAliasMaximum then
       assign (decodeUint16 bt offset) (\<lambda>v. p\<lparr>pTopicAliasMaximum := v\<rparr>)
     else if k = PropTopicAlias then
       assign (decodeUint16 bt offset) (\<lambda>v. p\<lparr>pTopicAlias := v, pTopicAliasFlag := True\<rparr>)
     else if k = PropMaximumQos then
       assign (decodeByte bt offset) (\<lambda>v. p\<lparr>pMaximumQos := v, pMaximumQosFlag := True\<rparr>)
     else if k = PropRetainAvailable then
       assign (decodeByte bt offset) (\<lambda>v. p\<lparr>pRetainAvailable := v, pRetainAvailableFlag := True\<rparr>)
     else if k = PropUser then
       (case decodeString bt offset of
          Inl err \<Rightarrow> Inl err
        | Inr (ky, offset) \<Rightarrow>
            assign (decodeString bt offset)
              (\<lambda>v. p\<lparr>pUser := pUser p @ [\<lparr>Key = ky, Val = v\<rparr>]\<rparr>))
     else if k = PropMaximumPacketSize then
       assign (decodeUint32 bt offset) (\<lambda>v. p\<lparr>pMaximumPacketSize := v\<rparr>)
     else if k = PropWildcardSubAvailable then
       assign (decodeByte bt offset) (\<lambda>v. p\<lparr>pWildcardSubAvailable := v, pWildcardSubAvailableFlag := True\<rparr>)
     else if k = PropSubIDAvailable then
       assign (decodeByte bt offset) (\<lambda>v. p\<lparr>pSubIDAvailable := v, pSubIDAvailableFlag := True\<rparr>)
     else if k = PropSharedSubAvailable then
       assign (decodeByte bt offset) (\<lambda>v. p\<lparr>pSharedSubAvailable := v, pSharedSubAvailableFlag := True\<rparr>)
     else Inr (p, offset))"


lemma assign_Inr_iff [result_iff]:
  "assign r upd = Inr (p', off') \<longleftrightarrow> (\<exists>v. r = Inr (v, off') \<and> p' = upd v)"
  by (auto simp: assign_def split: sum.splits)

lemmas field_advances =
  uint16_field.dec_advances uint32_field.dec_advances byte_field.dec_advances
  bool_field.dec_advances bytes_field.dec_advances string_field.dec_advances

lemma assign_advances:
  assumes "\<And>v. dec = Inr (v, off') \<Longrightarrow> off < off' \<and> off' \<le> len"
    and "assign dec upd = Inr (p', off')"
  shows "off \<le> off' \<and> off' \<le> len"
  using assms by (auto simp: result_iff dest: less_imp_le)

text \<open>Whatever the switch decodes, it moves forward and stays in the buffer.\<close>

lemma decodeProperty_advances:
  assumes "decodeProperty k bt off p = Inr (p', off')" "off \<le> length bt"
  shows "off \<le> off' \<and> off' \<le> length bt"
proof (cases "k = PropSubscriptionIdentifier \<or> k = PropUser")
  case False
  then show ?thesis
    using assms unfolding decodeProperty_def
    by (auto simp: result_iff split: if_splits dest!: field_advances)
next
  case True
  then show ?thesis
  proof
    assume k: "k = PropSubscriptionIdentifier"
    then obtain n bu r where "DecodeLength (drop off bt) = Inr (n, bu, r)" "off' = off + bu"
      using assms(1) by (auto simp: decodeProperty_def split: sum.splits)
    then show ?thesis
      using DecodeLength_result(4) [of "drop off bt"] assms(2) by fastforce
  next
    assume k: "k = PropUser"
    then show ?thesis
      using assms(1)
      by (auto simp: decodeProperty_def result_iff split: sum.splits dest!: field_advances)
  qed
qed

text \<open>The loop \<open>for offset := 0; offset < n;\<close> of \<open>Properties.Decode\<close>.\<close>

function decodeProperties ::
    "byte list \<Rightarrow> nat \<Rightarrow> byte \<Rightarrow> nat \<Rightarrow> properties \<Rightarrow> error + properties" where
  "decodeProperties bt n pkt offset p =
    (if offset < n then
       (case decodeByte bt offset of
          Inl err \<Rightarrow> Inl err
        | Inr (k, offset) \<Rightarrow>
            (case m_get validPacketProperties k of
               None \<Rightarrow> Inl (EProp k pkt)
             | Some m \<Rightarrow>
                 (if \<not> m_has m pkt then Inl (EProp k pkt)
                  else case decodeProperty k bt offset p of
                         Inl err \<Rightarrow> Inl err
                       | Inr (p', offset) \<Rightarrow> decodeProperties bt n pkt offset p')))
     else Inr p)"
  by pat_completeness auto
termination
proof (relation "measure (\<lambda>(bt, n, pkt, offset, p). n - offset)")
  fix bt n pkt offset p x k off1 m y p' off2
  assume "offset < n" "decodeByte bt offset = Inr x" "(k, off1) = x"
    and "decodeProperty k bt off1 p = Inr y" "(p', off2) = y"
  then have "decodeByte bt offset = Inr (k, off1)" "decodeProperty k bt off1 p = Inr (p', off2)"
    by simp_all
  then have "off1 \<le> off2" "offset < off1"
    using byte_field.dec_advances decodeProperty_advances by blast+
  with \<open>offset < n\<close> show "((bt, n, pkt, off2, p'), bt, n, pkt, offset, p)
      \<in> measure (\<lambda>(bt, n, pkt, offset, p). n - offset)" by simp
qed simp

declare decodeProperties.simps [simp del]

definition Properties_Decode ::
    "properties \<Rightarrow> byte \<Rightarrow> byte list \<Rightarrow> error + (properties \<times> nat)" where
  "Properties_Decode p pkt b =
    (case DecodeLength b of
       Inl err \<Rightarrow> Inl err
     | Inr (n, bu, bt) \<Rightarrow>
         (if n = 0 then Inr (p, n + bu)
          else case decodeProperties bt n pkt 0 p of
                 Inl err \<Rightarrow> Inl err
               | Inr p' \<Rightarrow> Inr (p', n + bu)))"

end
