(* ===== verification/Mqtt_PropertiesLaws.thy ===== *)
theory Mqtt_PropertiesLaws
  imports Mqtt_Properties
begin

text \<open>
  Decoding what \<open>Properties.Encode\<close> wrote gives the properties back, up to the fields the
  encoder leaves out.  \<open>reads pkt c f\<close> says that the decoding loop, standing in front of the
  bytes \<open>c\<close>, passes over them and updates the record by \<open>f\<close>; it composes over concatenation,
  and each property of the table has one law, an instance of the field contract.
\<close>

definition reads :: "byte \<Rightarrow> byte list \<Rightarrow> (properties \<Rightarrow> properties) \<Rightarrow> bool" where
  "reads pkt c f \<longleftrightarrow> (\<forall>pre post p n. length pre + length c \<le> n \<longrightarrow>
     decodeProperties (pre @ c @ post) n pkt (length pre) p
     = decodeProperties (pre @ c @ post) n pkt (length pre + length c) (f p))"

lemma reads_Nil: "reads pkt [] (\<lambda>q. q)"
  by (simp add: reads_def)

lemma reads_append:
  assumes "reads pkt c f" "reads pkt d g"
  shows "reads pkt (c @ d) (\<lambda>q. g (f q))"
  unfolding reads_def
proof (intro allI impI)
  fix pre post :: "byte list" and p n
  assume n: "length pre + length (c @ d) \<le> n"
  have "decodeProperties (pre @ c @ (d @ post)) n pkt (length pre) p
      = decodeProperties (pre @ c @ (d @ post)) n pkt (length pre + length c) (f p)"
    using assms(1) n unfolding reads_def by simp
  moreover have "decodeProperties ((pre @ c) @ d @ post) n pkt (length (pre @ c)) (f p)
      = decodeProperties ((pre @ c) @ d @ post) n pkt (length (pre @ c) + length d) (g (f p))"
    by (rule assms(2) [unfolded reads_def, rule_format]) (use n in simp)
  ultimately show "decodeProperties (pre @ (c @ d) @ post) n pkt (length pre) p
      = decodeProperties (pre @ (c @ d) @ post) n pkt (length pre + length (c @ d)) (g (f p))"
    by (simp add: add.assoc)
qed

lemma reads_cong: "reads pkt c f \<Longrightarrow> (\<And>q. f q = g q) \<Longrightarrow> reads pkt c g"
  by (simp add: reads_def)

lemma reads_if:
  assumes "b \<Longrightarrow> reads pkt c f" "\<And>q. g q = (if b then f q else q)"
  shows "reads pkt (if b then c else []) g"
  using assms reads_Nil by (cases b) (simp_all add: reads_def)

lemma reads_put:
  assumes "b \<Longrightarrow> reads pkt (k # bs) f" "\<And>q. g q = (if b then f q else q)"
  shows "reads pkt (put b k bs) g"
  unfolding put_def using assms by (rule reads_if)

text \<open>One turn of the loop: a valid identifier followed by bytes its switch case decodes.\<close>

lemma reads_step:
  assumes can: "canEncode pkt k"
    and dec: "\<And>pre post q. decodeProperty k (pre @ c @ post) (length pre) q
                = Inr (f q, length pre + length c)"
  shows "reads pkt (k # c) f"
  unfolding reads_def
proof (intro allI impI)
  fix pre post :: "byte list" and p n
  assume n: "length pre + length (k # c) \<le> n"
  obtain m where m: "m_get validPacketProperties k = Some m" "m_has m pkt"
    using can by (auto simp: canEncode_def split: option.splits)
  have b: "decodeByte (pre @ (k # c) @ post) (length pre) = Inr (k, Suc (length pre))"
    by (simp add: decodeByte_def)
  have d: "decodeProperty k (pre @ (k # c) @ post) (Suc (length pre)) p
      = Inr (f p, length pre + length (k # c))"
    using dec [of "pre @ [k]" post p] by simp
  show "decodeProperties (pre @ (k # c) @ post) n pkt (length pre) p
      = decodeProperties (pre @ (k # c) @ post) n pkt (length pre + length (k # c)) (f p)"
    using n m d b by (subst decodeProperties.simps) simp
qed

context field_codec
begin

lemma reads_field:
  assumes "canEncode pkt k" "good x"
    and "\<And>bt off q. decodeProperty k bt off q = assign (dec bt off) (upd q)"
  shows "reads pkt (k # enc x) (\<lambda>q. upd q x)"
  using assms(1) by (rule reads_step) (simp add: assms(3) dec_enc [OF assms(2)] assign_def)

lemma reads_put_field:
  assumes "b \<Longrightarrow> canEncode pkt k" "b \<Longrightarrow> good x"
    and "\<And>bt off q. decodeProperty k bt off q = assign (dec bt off) (upd q)"
    and "\<And>q. b \<Longrightarrow> g q = upd q x" "\<And>q. \<not> b \<Longrightarrow> g q = q"
  shows "reads pkt (put b k (enc x)) g"
  by (rule reads_put [OF reads_field [of pkt k x upd]]) (simp_all add: assms)

end

text \<open>The values the wire format can carry: texts of at most 65535 bytes of valid UTF-8 and so on.\<close>

definition user_ok :: "user_property \<Rightarrow> bool" where
  "user_ok u \<longleftrightarrow> text_ok (Key u) \<and> text_ok (Val u)"

definition properties_ok :: "properties \<Rightarrow> bool" where
  "properties_ok p \<longleftrightarrow>
     list_all text_ok [pContentType p, pResponseTopic p, pAssignedClientID p, pAuthenticationMethod p,
       pResponseInfo p, pServerReference p, pReasonString p]
     \<and> short (pCorrelationData p) \<and> short (pAuthenticationData p)
     \<and> list_all (\<lambda>v. v \<le> 268435455) (pSubscriptionIdentifier p)
     \<and> list_all user_ok (pUser p)"

lemma properties_okD:
  assumes "properties_ok p"
  shows "text_ok (pContentType p)" "text_ok (pResponseTopic p)" "text_ok (pAssignedClientID p)"
    "text_ok (pAuthenticationMethod p)" "text_ok (pResponseInfo p)" "text_ok (pServerReference p)"
    "text_ok (pReasonString p)" "short (pCorrelationData p)" "short (pAuthenticationData p)"
    "list_all (\<lambda>v. v \<le> 268435455) (pSubscriptionIdentifier p)" "list_all user_ok (pUser p)"
  using assms by (simp_all add: properties_ok_def)

section \<open>The laws of the single properties\<close>

text \<open>Each proof names the field's codec; the switch case is found by simplification.\<close>

lemma reads_PayloadFormat:
  "(b \<Longrightarrow> canEncode pkt PropPayloadFormat) \<Longrightarrow> reads pkt (put b PropPayloadFormat [v])
     (\<lambda>q. pPayloadFormatFlag_update (\<lambda>x. b \<or> x) (pPayloadFormat_update (\<lambda>x. if b then v else x) q))"
  by (rule byte_field.reads_put_field [where upd = "\<lambda>q v. q\<lparr>pPayloadFormat := v, pPayloadFormatFlag := True\<rparr>"])
     (simp_all add: decodeProperty_def)

lemma reads_MessageExpiryInterval:
  "(b \<Longrightarrow> canEncode pkt PropMessageExpiryInterval) \<Longrightarrow> reads pkt (put b PropMessageExpiryInterval (encodeUint32 v))
     (\<lambda>q. pMessageExpiryInterval_update (\<lambda>x. if b then v else x) q)"
  by (rule uint32_field.reads_put_field [where upd = "\<lambda>q v. q\<lparr>pMessageExpiryInterval := v\<rparr>"])
     (simp_all add: decodeProperty_def)

lemma reads_ContentType:
  "(b \<Longrightarrow> canEncode pkt PropContentType) \<Longrightarrow> (b \<Longrightarrow> text_ok v) \<Longrightarrow> reads pkt (put b PropContentType (encodeString v))
     (\<lambda>q. pContentType_update (\<lambda>x. if b then v else x) q)"
  by (rule string_field.reads_put_field [where upd = "\<lambda>q v. q\<lparr>pContentType := v\<rparr>"])
     (simp_all add: decodeProperty_def)

lemma reads_ResponseTopic:
  "(b \<Longrightarrow> canEncode pkt PropResponseTopic) \<Longrightarrow> (b \<Longrightarrow> text_ok v) \<Longrightarrow> reads pkt (put b PropResponseTopic (encodeString v))
     (\<lambda>q. pResponseTopic_update (\<lambda>x. if b then v else x) q)"
  by (rule string_field.reads_put_field [where upd = "\<lambda>q v. q\<lparr>pResponseTopic := v\<rparr>"])
     (simp_all add: decodeProperty_def)

lemma reads_CorrelationData:
  "(b \<Longrightarrow> canEncode pkt PropCorrelationData) \<Longrightarrow> (b \<Longrightarrow> short v) \<Longrightarrow> reads pkt (put b PropCorrelationData (encodeBytes v))
     (\<lambda>q. pCorrelationData_update (\<lambda>x. if b then v else x) q)"
  by (rule bytes_field.reads_put_field [where upd = "\<lambda>q v. q\<lparr>pCorrelationData := v\<rparr>"])
     (simp_all add: decodeProperty_def)

lemma reads_SessionExpiryInterval:
  "(b \<Longrightarrow> canEncode pkt PropSessionExpiryInterval) \<Longrightarrow> reads pkt (put b PropSessionExpiryInterval (encodeUint32 v))
     (\<lambda>q. pSessionExpiryIntervalFlag_update (\<lambda>x. b \<or> x) (pSessionExpiryInterval_update (\<lambda>x. if b then v else x) q))"
  by (rule uint32_field.reads_put_field [where upd = "\<lambda>q v. q\<lparr>pSessionExpiryInterval := v, pSessionExpiryIntervalFlag := True\<rparr>"])
     (simp_all add: decodeProperty_def)

lemma reads_AssignedClientID:
  "(b \<Longrightarrow> canEncode pkt PropAssignedClientID) \<Longrightarrow> (b \<Longrightarrow> text_ok v) \<Longrightarrow> reads pkt (put b PropAssignedClientID (encodeString v))
     (\<lambda>q. pAssignedClientID_update (\<lambda>x. if b then v else x) q)"
  by (rule string_field.reads_put_field [where upd = "\<lambda>q v. q\<lparr>pAssignedClientID := v\<rparr>"])
     (simp_all add: decodeProperty_def)

lemma reads_ServerKeepAlive:
  "(b \<Longrightarrow> canEncode pkt PropServerKeepAlive) \<Longrightarrow> reads pkt (put b PropServerKeepAlive (encodeUint16 v))
     (\<lambda>q. pServerKeepAliveFlag_update (\<lambda>x. b \<or> x) (pServerKeepAlive_update (\<lambda>x. if b then v else x) q))"
  by (rule uint16_field.reads_put_field [where upd = "\<lambda>q v. q\<lparr>pServerKeepAlive := v, pServerKeepAliveFlag := True\<rparr>"])
     (simp_all add: decodeProperty_def)

lemma reads_AuthenticationMethod:
  "(b \<Longrightarrow> canEncode pkt PropAuthenticationMethod) \<Longrightarrow> (b \<Longrightarrow> text_ok v) \<Longrightarrow> reads pkt (put b PropAuthenticationMethod (encodeString v))
     (\<lambda>q. pAuthenticationMethod_update (\<lambda>x. if b then v else x) q)"
  by (rule string_field.reads_put_field [where upd = "\<lambda>q v. q\<lparr>pAuthenticationMethod := v\<rparr>"])
     (simp_all add: decodeProperty_def)

lemma reads_AuthenticationData:
  "(b \<Longrightarrow> canEncode pkt PropAuthenticationData) \<Longrightarrow> (b \<Longrightarrow> short v) \<Longrightarrow> reads pkt (put b PropAuthenticationData (encodeBytes v))
     (\<lambda>q. pAuthenticationData_update (\<lambda>x. if b then v else x) q)"
  by (rule bytes_field.reads_put_field [where upd = "\<lambda>q v. q\<lparr>pAuthenticationData := v\<rparr>"])
     (simp_all add: decodeProperty_def)

lemma reads_RequestProblemInfo:
  "(b \<Longrightarrow> canEncode pkt PropRequestProblemInfo) \<Longrightarrow> reads pkt (put b PropRequestProblemInfo [v])
     (\<lambda>q. pRequestProblemInfoFlag_update (\<lambda>x. b \<or> x) (pRequestProblemInfo_update (\<lambda>x. if b then v else x) q))"
  by (rule byte_field.reads_put_field [where upd = "\<lambda>q v. q\<lparr>pRequestProblemInfo := v, pRequestProblemInfoFlag := True\<rparr>"])
     (simp_all add: decodeProperty_def)

lemma reads_WillDelayInterval:
  "(b \<Longrightarrow> canEncode pkt PropWillDelayInterval) \<Longrightarrow> reads pkt (put b PropWillDelayInterval (encodeUint32 v))
     (\<lambda>q. pWillDelayInterval_update (\<lambda>x. if b then v else x) q)"
  by (rule uint32_field.reads_put_field [where upd = "\<lambda>q v. q\<lparr>pWillDelayInterval := v\<rparr>"])
     (simp_all add: decodeProperty_def)

lemma reads_RequestResponseInfo:
  "(b \<Longrightarrow> canEncode pkt PropRequestResponseInfo) \<Longrightarrow> reads pkt (put b PropRequestResponseInfo [v])
     (\<lambda>q. pRequestResponseInfo_update (\<lambda>x. if b then v else x) q)"
  by (rule byte_field.reads_put_field [where upd = "\<lambda>q v. q\<lparr>pRequestResponseInfo := v\<rparr>"])
     (simp_all add: decodeProperty_def)

lemma reads_ResponseInfo:
  "(b \<Longrightarrow> canEncode pkt PropResponseInfo) \<Longrightarrow> (b \<Longrightarrow> text_ok v) \<Longrightarrow> reads pkt (put b PropResponseInfo (encodeString v))
     (\<lambda>q. pResponseInfo_update (\<lambda>x. if b then v else x) q)"
  by (rule string_field.reads_put_field [where upd = "\<lambda>q v. q\<lparr>pResponseInfo := v\<rparr>"])
     (simp_all add: decodeProperty_def)

lemma reads_ServerReference:
  "(b \<Longrightarrow> canEncode pkt PropServerReference) \<Longrightarrow> (b \<Longrightarrow> text_ok v) \<Longrightarrow> reads pkt (put b PropServerReference (encodeString v))
     (\<lambda>q. pServerReference_update (\<lambda>x. if b then v else x) q)"
  by (rule string_field.reads_put_field [where upd = "\<lambda>q v. q\<lparr>pServerReference := v\<rparr>"])
     (simp_all add: decodeProperty_def)

lemma reads_ReasonString:
  "(b \<Longrightarrow> canEncode pkt PropReasonString) \<Longrightarrow> (b \<Longrightarrow> text_ok v) \<Longrightarrow> reads pkt (put b PropReasonString (encodeString v))
     (\<lambda>q. pReasonString_update (\<lambda>x. if b then v else x) q)"
  by (rule string_field.reads_put_field [where upd = "\<lambda>q v. q\<lparr>pReasonString := v\<rparr>"])
     (simp_all add: decodeProperty_def)

lemma reads_ReceiveMaximum:
  "(b \<Longrightarrow> canEncode pkt PropReceiveMaximum) \<Longrightarrow> reads pkt (put b PropReceiveMaximum (encodeUint16 v))
     (\<lambda>q. pReceiveMaximum_update (\<lambda>x. if b then v else x) q)"
  by (rule uint16_field.reads_put_field [where upd = "\<lambda>q v. q\<lparr>pReceiveMaximum := v\<rparr>"])
     (simp_all add: decodeProperty_def)

lemma reads_TopicAliasMaximum:
  "(b \<Longrightarrow> canEncode pkt PropTopicAliasMaximum) \<Longrightarrow> reads pkt (put b PropTopicAliasMaximum (encodeUint16 v))
     (\<lambda>q. pTopicAliasMaximum_update (\<lambda>x. if b then v else x) q)"
  by (rule uint16_field.reads_put_field [where upd = "\<lambda>q v. q\<lparr>pTopicAliasMaximum := v\<rparr>"])
     (simp_all add: decodeProperty_def)

lemma reads_TopicAlias:
  "(b \<Longrightarrow> canEncode pkt PropTopicAlias) \<Longrightarrow> reads pkt (put b PropTopicAlias (encodeUint16 v))
     (\<lambda>q. pTopicAliasFlag_update (\<lambda>x. b \<or> x) (pTopicAlias_update (\<lambda>x. if b then v else x) q))"
  by (rule uint16_field.reads_put_field [where upd = "\<lambda>q v. q\<lparr>pTopicAlias := v, pTopicAliasFlag := True\<rparr>"])
     (simp_all add: decodeProperty_def)

lemma reads_MaximumQos:
  "(b \<Longrightarrow> canEncode pkt PropMaximumQos) \<Longrightarrow> reads pkt (put b PropMaximumQos [v])
     (\<lambda>q. pMaximumQosFlag_update (\<lambda>x. b \<or> x) (pMaximumQos_update (\<lambda>x. if b then v else x) q))"
  by (rule byte_field.reads_put_field [where upd = "\<lambda>q v. q\<lparr>pMaximumQos := v, pMaximumQosFlag := True\<rparr>"])
     (simp_all add: decodeProperty_def)

lemma reads_RetainAvailable:
  "(b \<Longrightarrow> canEncode pkt PropRetainAvailable) \<Longrightarrow> reads pkt (put b PropRetainAvailable [v])
     (\<lambda>q. pRetainAvailableFlag_update (\<lambda>x. b \<or> x) (pRetainAvailable_update (\<lambda>x. if b then v else x) q))"
  by (rule byte_field.reads_put_field [where upd = "\<lambda>q v. q\<lparr>pRetainAvailable := v, pRetainAvailableFlag := True\<rparr>"])
     (simp_all add: decodeProperty_def)

lemma reads_MaximumPacketSize:
  "(b \<Longrightarrow> canEncode pkt PropMaximumPacketSize) \<Longrightarrow> reads pkt (put b PropMaximumPacketSize (encodeUint32 v))
     (\<lambda>q. pMaximumPacketSize_update (\<lambda>x. if b then v else x) q)"
  by (rule uint32_field.reads_put_field [where upd = "\<lambda>q v. q\<lparr>pMaximumPacketSize := v\<rparr>"])
     (simp_all add: decodeProperty_def)

lemma reads_WildcardSubAvailable:
  "(b \<Longrightarrow> canEncode pkt PropWildcardSubAvailable) \<Longrightarrow> reads pkt (put b PropWildcardSubAvailable [v])
     (\<lambda>q. pWildcardSubAvailableFlag_update (\<lambda>x. b \<or> x) (pWildcardSubAvailable_update (\<lambda>x. if b then v else x) q))"
  by (rule byte_field.reads_put_field [where upd = "\<lambda>q v. q\<lparr>pWildcardSubAvailable := v, pWildcardSubAvailableFlag := True\<rparr>"])
     (simp_all add: decodeProperty_def)

lemma reads_SubIDAvailable:
  "(b \<Longrightarrow> canEncode pkt PropSubIDAvailable) \<Longrightarrow> reads pkt (put b PropSubIDAvailable [v])
     (\<lambda>q. pSubIDAvailableFlag_update (\<lambda>x. b \<or> x) (pSubIDAvailable_update (\<lambda>x. if b then v else x) q))"
  by (rule byte_field.reads_put_field [where upd = "\<lambda>q v. q\<lparr>pSubIDAvailable := v, pSubIDAvailableFlag := True\<rparr>"])
     (simp_all add: decodeProperty_def)

lemma reads_SharedSubAvailable:
  "(b \<Longrightarrow> canEncode pkt PropSharedSubAvailable) \<Longrightarrow> reads pkt (put b PropSharedSubAvailable [v])
     (\<lambda>q. pSharedSubAvailableFlag_update (\<lambda>x. b \<or> x) (pSharedSubAvailable_update (\<lambda>x. if b then v else x) q))"
  by (rule byte_field.reads_put_field [where upd = "\<lambda>q v. q\<lparr>pSharedSubAvailable := v, pSharedSubAvailableFlag := True\<rparr>"])
     (simp_all add: decodeProperty_def)


lemma DecodeLength_at:
  assumes "n \<le> 268435455"
  shows "DecodeLength (drop (length pre) (pre @ encodeLength n @ post))
    = Inr (n, length (encodeLength n), post)"
  using assms by (simp add: DecodeLength_enc)

lemma reads_SubID:
  assumes "canEncode pkt PropSubscriptionIdentifier" "0 \<le> v" "v \<le> 268435455"
  shows "reads pkt (PropSubscriptionIdentifier # encodeLength (nat v))
    (\<lambda>q. q\<lparr>pSubscriptionIdentifier := pSubscriptionIdentifier q @ [v]\<rparr>)"
  using assms(1)
  by (rule reads_step) (use assms(2,3) in \<open>simp add: decodeProperty_def DecodeLength_enc nat_le_iff\<close>)

lemma reads_SubIDs:
  assumes "canEncode pkt PropSubscriptionIdentifier" "list_all (\<lambda>v. v \<le> 268435455) vs"
  shows "reads pkt (encodeSubIDs vs)
    (\<lambda>q. q\<lparr>pSubscriptionIdentifier := pSubscriptionIdentifier q @ filter (\<lambda>v. v > 0) vs\<rparr>)"
  using assms(2)
proof (induction vs)
  case Nil
  then show ?case using reads_Nil by (simp add: encodeSubIDs_def)
next
  case (Cons v vs)
  have IH: "reads pkt (encodeSubIDs vs)
      (\<lambda>q. q\<lparr>pSubscriptionIdentifier := pSubscriptionIdentifier q @ filter (\<lambda>v. v > 0) vs\<rparr>)"
    using Cons by simp
  show ?case
  proof (cases "v > 0")
    case True
    show ?thesis
      using reads_append [OF reads_SubID [OF assms(1), of v] IH] True Cons.prems
      by (simp add: encodeSubIDs_def)
  next
    case False
    then show ?thesis using IH by (simp add: encodeSubIDs_def)
  qed
qed

lemma reads_UserProp:
  assumes "canEncode pkt PropUser" "user_ok u"
  shows "reads pkt (PropUser # encodeString (Key u) @ encodeString (Val u))
    (\<lambda>q. q\<lparr>pUser := pUser q @ [u]\<rparr>)"
  using assms(1)
proof (rule reads_step)
  fix pre post :: "byte list" and q
  let ?buf = "pre @ encodeString (Key u) @ encodeString (Val u) @ post"
  have "decodeString ?buf (length pre) = Inr (Key u, length pre + length (encodeString (Key u)))"
    using assms(2) by (intro string_field.dec_enc) (simp add: user_ok_def)
  moreover have "decodeString ?buf (length pre + length (encodeString (Key u)))
      = Inr (Val u, length pre + length (encodeString (Key u)) + length (encodeString (Val u)))"
    using assms(2)
    by (intro string_field.dec_enc_at [where pre = "pre @ encodeString (Key u)" and post = post])
       (simp_all add: user_ok_def)
  ultimately show "decodeProperty PropUser (pre @ (encodeString (Key u) @ encodeString (Val u)) @ post)
      (length pre) q = Inr (q\<lparr>pUser := pUser q @ [u]\<rparr>,
        length pre + length (encodeString (Key u) @ encodeString (Val u)))"
    by (simp add: decodeProperty_def assign_def)
qed

lemma reads_UserProps:
  assumes "canEncode pkt PropUser" "list_all user_ok us"
  shows "reads pkt (encodeUserProps us) (\<lambda>q. q\<lparr>pUser := pUser q @ us\<rparr>)"
  using assms(2)
proof (induction us)
  case Nil
  then show ?case using reads_Nil by (simp add: encodeUserProps_def)
next
  case (Cons u us)
  then have "reads pkt (encodeUserProps us) (\<lambda>q. q\<lparr>pUser := pUser q @ us\<rparr>)" "user_ok u"
    by simp_all
  with reads_append [OF reads_UserProp [OF assms(1), of u], of "encodeUserProps us"]
  have "reads pkt ((PropUser # encodeString (Key u) @ encodeString (Val u)) @ encodeUserProps us)
      (\<lambda>q. q\<lparr>pUser := pUser q @ [u]\<rparr>\<lparr>pUser := pUser (q\<lparr>pUser := pUser q @ [u]\<rparr>) @ us\<rparr>)"
    by blast
  then show ?case by (simp add: encodeUserProps_def)
qed

lemma reads_SubIDs_if:
  "(b \<Longrightarrow> canEncode pkt PropSubscriptionIdentifier) \<Longrightarrow> list_all (\<lambda>v. v \<le> 268435455) vs \<Longrightarrow>
   reads pkt (if b then encodeSubIDs vs else [])
     (\<lambda>q. pSubscriptionIdentifier_update (\<lambda>x. x @ (if b then filter (\<lambda>v. v > 0) vs else [])) q)"
  by (rule reads_if [OF reads_SubIDs]) simp_all

lemma reads_UserProps_if:
  "(b \<Longrightarrow> canEncode pkt PropUser) \<Longrightarrow> list_all user_ok us \<Longrightarrow>
   reads pkt (if b then encodeUserProps us else [])
     (\<lambda>q. pUser_update (\<lambda>x. x @ (if b then us else [])) q)"
  by (rule reads_if [OF reads_UserProps]) simp_all

section \<open>The whole property block\<close>

text \<open>
  The properties that survive the encoder for a packet type: the fields the table allows for
  the packet, the response fields only when the modifiers allow them, and the problem
  information only when it is allowed and fits.
\<close>

definition Properties_sent :: "properties \<Rightarrow> byte \<Rightarrow> mods \<Rightarrow> nat \<Rightarrow> properties" where
  "Properties_sent p pkt mods n = \<lparr>
     pCorrelationData = (if mAllowResponseInfo mods \<and> canEncode pkt PropCorrelationData
       then pCorrelationData p else []),
     pSubscriptionIdentifier = (if canEncode pkt PropSubscriptionIdentifier
       then filter (\<lambda>v. v > 0) (pSubscriptionIdentifier p) else []),
     pAuthenticationData = (if canEncode pkt PropAuthenticationData
       then pAuthenticationData p else []),
     pUser = (if \<not> mDisallowProblemInfo mods \<and> canEncode pkt PropUser
         \<and> fits mods n (length (encodeUserProps (pUser p)))
       then pUser p else []),
     pContentType = (if canEncode pkt PropContentType then pContentType p else []),
     pResponseTopic = (if mAllowResponseInfo mods \<and> canEncode pkt PropResponseTopic
         \<and> \<not> ContainsAny (pResponseTopic p) [ch_plus, ch_hash]
       then pResponseTopic p else []),
     pAssignedClientID = (if canEncode pkt PropAssignedClientID then pAssignedClientID p else []),
     pAuthenticationMethod = (if canEncode pkt PropAuthenticationMethod
       then pAuthenticationMethod p else []),
     pResponseInfo = (if mAllowResponseInfo mods \<and> canEncode pkt PropResponseInfo
       then pResponseInfo p else []),
     pServerReference = (if canEncode pkt PropServerReference then pServerReference p else []),
     pReasonString = (if \<not> mDisallowProblemInfo mods \<and> canEncode pkt PropReasonString
         \<and> fits mods n (length (encodeString (pReasonString p)))
       then pReasonString p else []),
     pMessageExpiryInterval = (if canEncode pkt PropMessageExpiryInterval
       then pMessageExpiryInterval p else 0),
     pSessionExpiryInterval = (if canEncode pkt PropSessionExpiryInterval \<and> pSessionExpiryIntervalFlag p
       then pSessionExpiryInterval p else 0),
     pWillDelayInterval = (if canEncode pkt PropWillDelayInterval then pWillDelayInterval p else 0),
     pMaximumPacketSize = (if canEncode pkt PropMaximumPacketSize then pMaximumPacketSize p else 0),
     pServerKeepAlive = (if canEncode pkt PropServerKeepAlive \<and> pServerKeepAliveFlag p
       then pServerKeepAlive p else 0),
     pReceiveMaximum = (if canEncode pkt PropReceiveMaximum then pReceiveMaximum p else 0),
     pTopicAliasMaximum = (if canEncode pkt PropTopicAliasMaximum then pTopicAliasMaximum p else 0),
     pTopicAlias = (if canEncode pkt PropTopicAlias \<and> pTopicAliasFlag p \<and> pTopicAlias p > 0
       then pTopicAlias p else 0),
     pPayloadFormat = (if canEncode pkt PropPayloadFormat \<and> pPayloadFormatFlag p
       then pPayloadFormat p else 0),
     pPayloadFormatFlag = (canEncode pkt PropPayloadFormat \<and> pPayloadFormatFlag p),
     pSessionExpiryIntervalFlag = (canEncode pkt PropSessionExpiryInterval \<and> pSessionExpiryIntervalFlag p),
     pServerKeepAliveFlag = (canEncode pkt PropServerKeepAlive \<and> pServerKeepAliveFlag p),
     pRequestProblemInfo = (if canEncode pkt PropRequestProblemInfo \<and> pRequestProblemInfoFlag p
       then pRequestProblemInfo p else 0),
     pRequestProblemInfoFlag = (canEncode pkt PropRequestProblemInfo \<and> pRequestProblemInfoFlag p),
     pRequestResponseInfo = (if canEncode pkt PropRequestResponseInfo
       then pRequestResponseInfo p else 0),
     pTopicAliasFlag = (canEncode pkt PropTopicAlias \<and> pTopicAliasFlag p \<and> pTopicAlias p > 0),
     pMaximumQos = (if canEncode pkt PropMaximumQos \<and> pMaximumQosFlag p \<and> pMaximumQos p < 2
       then pMaximumQos p else 0),
     pMaximumQosFlag = (canEncode pkt PropMaximumQos \<and> pMaximumQosFlag p \<and> pMaximumQos p < 2),
     pRetainAvailable = (if canEncode pkt PropRetainAvailable \<and> pRetainAvailableFlag p
       then pRetainAvailable p else 0),
     pRetainAvailableFlag = (canEncode pkt PropRetainAvailable \<and> pRetainAvailableFlag p),
     pWildcardSubAvailable = (if canEncode pkt PropWildcardSubAvailable \<and> pWildcardSubAvailableFlag p
       then pWildcardSubAvailable p else 0),
     pWildcardSubAvailableFlag = (canEncode pkt PropWildcardSubAvailable \<and> pWildcardSubAvailableFlag p),
     pSubIDAvailable = (if canEncode pkt PropSubIDAvailable \<and> pSubIDAvailableFlag p
       then pSubIDAvailable p else 0),
     pSubIDAvailableFlag = (canEncode pkt PropSubIDAvailable \<and> pSubIDAvailableFlag p),
     pSharedSubAvailable = (if canEncode pkt PropSharedSubAvailable \<and> pSharedSubAvailableFlag p
       then pSharedSubAvailable p else 0),
     pSharedSubAvailableFlag = (canEncode pkt PropSharedSubAvailable \<and> pSharedSubAvailableFlag p)\<rparr>"


lemmas reads_rules =
  reads_PayloadFormat reads_MessageExpiryInterval reads_ContentType reads_ResponseTopic
  reads_CorrelationData reads_SessionExpiryInterval reads_AssignedClientID
  reads_ServerKeepAlive reads_AuthenticationMethod reads_AuthenticationData
  reads_RequestProblemInfo reads_WillDelayInterval reads_RequestResponseInfo
  reads_ResponseInfo reads_ServerReference reads_ReasonString reads_ReceiveMaximum
  reads_TopicAliasMaximum reads_TopicAlias reads_MaximumQos reads_RetainAvailable
  reads_MaximumPacketSize reads_WildcardSubAvailable reads_SubIDAvailable
  reads_SharedSubAvailable reads_SubIDs_if reads_UserProps_if

text \<open>
  The updates are written with the field update functions, so that composing twenty-seven of
  them does not copy the record.
\<close>

lemma reads_body:
  assumes "properties_ok p"
  shows "\<exists>f. reads pkt (Properties_body1 p pkt mods @ Properties_body2 p pkt mods n) f
    \<and> f no_properties = Properties_sent p pkt mods n"
  unfolding Properties_body1_def Properties_body2_def append_assoc
  by (intro exI conjI,
      ((rule reads_append reads_rules | (elim conjE, assumption)
        | rule properties_okD [OF assms])+)[1],
      (rule properties.equality; simp add: no_properties_def Properties_sent_def word_gt_0))

lemma decodeProperties_end: "\<not> offset < n \<Longrightarrow> decodeProperties bt n pkt offset p = Inr p"
  by (subst decodeProperties.simps) simp

text \<open>
  The decoder returns the properties that were sent and the exact number of bytes of the block,
  whatever follows it.
\<close>

lemma Properties_Decode_Encode:
  assumes ok: "properties_ok p"
    and len: "length (Properties_body1 p pkt mods @ Properties_body2 p pkt mods n) \<le> 268435455"
  shows "Properties_Decode no_properties pkt (Properties_Encode p pkt mods n @ rest)
    = Inr (Properties_sent p pkt mods n, length (Properties_Encode p pkt mods n))"
proof -
  let ?body = "Properties_body1 p pkt mods @ Properties_body2 p pkt mods n"
  obtain f where f: "reads pkt ?body f" "f no_properties = Properties_sent p pkt mods n"
    using reads_body [OF ok] by blast
  have "decodeProperties ([] @ ?body @ rest) (length ?body) pkt (length ([] :: byte list)) no_properties
      = decodeProperties ([] @ ?body @ rest) (length ?body) pkt (length ([] :: byte list) + length ?body)
          (f no_properties)"
    by (rule f(1) [unfolded reads_def, rule_format]) simp
  then have loop: "decodeProperties (?body @ rest) (length ?body) pkt 0 no_properties
      = Inr (Properties_sent p pkt mods n)"
    by (simp add: decodeProperties_end f(2))
  have dl: "DecodeLength (encodeLength (length ?body) @ ?body @ rest)
      = Inr (length ?body, length (encodeLength (length ?body)), ?body @ rest)"
    by (rule DecodeLength_enc [OF len])
  have empty: "?body = [] \<Longrightarrow> no_properties = Properties_sent p pkt mods n"
    using loop by (simp add: decodeProperties_end)
  show ?thesis
    using dl loop empty
    by (simp add: Properties_Decode_def Properties_Encode_def Let_def del: length_append append_is_Nil_conv)
       (auto simp: add.commute)
qed

end
