(* ===== verification/Mqtt_Packets.thy ===== *)
theory Mqtt_Packets
  imports Mqtt_PropertiesLaws
begin

text \<open>
  The packets of \<open>packets/packets.go\<close> and \<open>packets/fixedheader.go\<close>: the single concrete packet
  record, the encoders, decoders and validators of every packet type.  A decoder returns the
  updated packet or the error; an encoder returns the packet (whose remaining length it sets)
  and the bytes it appends to the buffer.  Slices that the source takes without a check are
  modelled with the panic they can raise.
\<close>

section \<open>The records\<close>

record fixed_header =
  fhRemaining :: nat
  fhType :: byte
  fhQos :: byte
  fhDup :: bool
  fhRetain :: bool

record connect_params =
  cWillProperties :: properties
  cPassword :: "byte list"
  cUsername :: "byte list"
  cProtocolName :: "byte list"
  cWillPayload :: "byte list"
  cClientIdentifier :: gostring
  cWillTopic :: gostring
  cKeepalive :: u16
  cPasswordFlag :: bool
  cUsernameFlag :: bool
  cWillQos :: byte
  cWillFlag :: bool
  cWillRetain :: bool
  cClean :: bool

record subscription =
  sShareName :: "gostring list"
  sFilter :: gostring
  sIdentifier :: int
  sIdentifiers :: "(gostring, int) gomap option" \<comment> \<open>\<open>None\<close> is the nil map\<close>
  sRetainHandling :: byte
  sQos :: byte
  sRetainAsPublished :: bool
  sNoLocal :: bool
  sFwdRetainedFlag :: bool

record packet =
  pkConnect :: connect_params
  pkProperties :: properties
  pkPayload :: "byte list"
  pkReasonCodes :: "byte list"
  pkFilters :: "subscription list"
  pkTopicName :: gostring
  pkOrigin :: gostring
  pkFixedHeader :: fixed_header
  pkCreated :: int
  pkExpiry :: int
  pkMods :: mods
  pkPacketID :: u16
  pkProtocolVersion :: byte
  pkSessionPresent :: bool
  pkReasonCode :: byte
  pkReservedBit :: byte
  pkIgnore :: bool

text \<open>The zero values.\<close>

definition no_header :: fixed_header where
  "no_header = \<lparr>fhRemaining = 0, fhType = 0, fhQos = 0, fhDup = False, fhRetain = False\<rparr>"

definition no_connect :: connect_params where
  "no_connect = \<lparr>cWillProperties = no_properties, cPassword = [], cUsername = [],
     cProtocolName = [], cWillPayload = [], cClientIdentifier = [], cWillTopic = [],
     cKeepalive = 0, cPasswordFlag = False, cUsernameFlag = False, cWillQos = 0,
     cWillFlag = False, cWillRetain = False, cClean = False\<rparr>"

definition no_subscription :: subscription where
  "no_subscription = \<lparr>sShareName = [], sFilter = [], sIdentifier = 0, sIdentifiers = None,
     sRetainHandling = 0, sQos = 0, sRetainAsPublished = False, sNoLocal = False,
     sFwdRetainedFlag = False\<rparr>"

definition no_packet :: packet where
  "no_packet = \<lparr>pkConnect = no_connect, pkProperties = no_properties, pkPayload = [],
     pkReasonCodes = [], pkFilters = [], pkTopicName = [], pkOrigin = [],
     pkFixedHeader = no_header, pkCreated = 0, pkExpiry = 0, pkMods = no_mods, pkPacketID = 0,
     pkProtocolVersion = 0, pkSessionPresent = False, pkReasonCode = 0, pkReservedBit = 0,
     pkIgnore = False\<rparr>"

section \<open>The packet map\<close>

definition NewPackets :: "(gostring, packet) gomap" where
  "NewPackets = []"

definition Packets_Add :: "gostring \<Rightarrow> packet \<Rightarrow> (gostring, packet) gomap \<Rightarrow> (gostring, packet) gomap" where
  "Packets_Add k val p = m_set k val p"

definition Packets_GetAll :: "(gostring, packet) gomap \<Rightarrow> (gostring, packet) gomap" where
  "Packets_GetAll p = p"

definition Packets_Get :: "gostring \<Rightarrow> (gostring, packet) gomap \<Rightarrow> packet option" where
  "Packets_Get k p = m_get p k"

definition Packets_Len :: "(gostring, packet) gomap \<Rightarrow> nat" where
  "Packets_Len p = length p"

definition Packets_Delete :: "gostring \<Rightarrow> (gostring, packet) gomap \<Rightarrow> (gostring, packet) gomap" where
  "Packets_Delete k p = m_del k p"

lemmas Packets_defs [go_defs] = NewPackets_def Packets_Add_def Packets_GetAll_def Packets_Get_def
  Packets_Len_def Packets_Delete_def

interpretation packet_store: counted_store map_ok fst snd "\<lambda>s k. Packets_Get k s"
    "\<lambda>w s. Packets_Add (fst w) (snd w) s" Packets_Delete Packets_Len
  by unfold_locales (auto simp: Packets_defs length_set length_del)

section \<open>Copies and subscriptions\<close>

definition Packet_Copy :: "packet \<Rightarrow> bool \<Rightarrow> packet" where
  "Packet_Copy pk allowTransfer =
    (let c = pkConnect pk;
         p = no_packet\<lparr>
           pkFixedHeader := \<lparr>fhRemaining = fhRemaining (pkFixedHeader pk),
             fhType = fhType (pkFixedHeader pk), fhQos = fhQos (pkFixedHeader pk), fhDup = False,
             fhRetain = fhRetain (pkFixedHeader pk)\<rparr>,
           pkMods := no_mods\<lparr>mMaxSize := mMaxSize (pkMods pk)\<rparr>,
           pkReservedBit := pkReservedBit pk,
           pkProtocolVersion := pkProtocolVersion pk,
           pkConnect := no_connect\<lparr>
             cClientIdentifier := cClientIdentifier c,
             cKeepalive := cKeepalive c,
             cWillQos := cWillQos c,
             cWillTopic := cWillTopic c,
             cWillFlag := cWillFlag c,
             cWillRetain := cWillRetain c,
             cWillProperties := Properties_Copy (cWillProperties c) allowTransfer,
             cClean := cClean c\<rparr>,
           pkTopicName := pkTopicName pk,
           pkProperties := Properties_Copy (pkProperties pk) allowTransfer,
           pkSessionPresent := pkSessionPresent pk,
           pkReasonCode := pkReasonCode pk,
           pkFilters := pkFilters pk,
           pkCreated := pkCreated pk,
           pkExpiry := pkExpiry pk,
           pkOrigin := pkOrigin pk\<rparr>;
         p = (if allowTransfer then p\<lparr>pkPacketID := pkPacketID pk\<rparr> else p);
         p = (if length (cProtocolName c) > 0
              then p\<lparr>pkConnect := (pkConnect p)\<lparr>cProtocolName := [] @ cProtocolName c\<rparr>\<rparr> else p);
         p = (if length (cPassword c) > 0
              then p\<lparr>pkConnect := (pkConnect p)\<lparr>cPasswordFlag := True,
                     cPassword := [] @ cPassword c\<rparr>\<rparr> else p);
         p = (if length (cUsername c) > 0
              then p\<lparr>pkConnect := (pkConnect p)\<lparr>cUsernameFlag := True,
                     cUsername := [] @ cUsername c\<rparr>\<rparr> else p);
         p = (if length (cWillPayload c) > 0
              then p\<lparr>pkConnect := (pkConnect p)\<lparr>cWillPayload := [] @ cWillPayload c\<rparr>\<rparr> else p);
         p = (if length (pkPayload pk) > 0 then p\<lparr>pkPayload := [] @ pkPayload pk\<rparr> else p)
     in if length (pkReasonCodes pk) > 0
        then p\<lparr>pkReasonCodes := [] @ pkReasonCodes pk\<rparr> else p)"

definition Subscription_Merge :: "subscription \<Rightarrow> subscription \<Rightarrow> subscription" where
  "Subscription_Merge s n =
    (let s = (case sIdentifiers s of
                None \<Rightarrow> s\<lparr>sIdentifiers := Some [(sFilter s, sIdentifier s)]\<rparr>
              | Some _ \<Rightarrow> s);
         s = (if sIdentifier n > 0
              then s\<lparr>sIdentifiers :=
                     map_option (m_set (sFilter n) (sIdentifier n)) (sIdentifiers s)\<rparr> else s);
         s = (if sQos n > sQos s then s\<lparr>sQos := sQos n\<rparr> else s)
     in if sNoLocal n then s\<lparr>sNoLocal := True\<rparr> else s)"

definition Subscription_encode :: "subscription \<Rightarrow> byte" where
  "Subscription_encode s =
    (let flag = 0 OR sQos s;
         flag = (if sNoLocal s then flag OR push_bit 2 1 else flag);
         flag = (if sRetainAsPublished s then flag OR push_bit 3 1 else flag)
     in flag OR push_bit 4 (sRetainHandling s))"

definition Subscription_decode :: "subscription \<Rightarrow> byte \<Rightarrow> subscription" where
  "Subscription_decode s b =
     s\<lparr>sQos := b AND 3,
       sNoLocal := 1 AND drop_bit 2 b > 0,
       sRetainAsPublished := 1 AND drop_bit 3 b > 0,
       sRetainHandling := 3 AND drop_bit 4 b\<rparr>"

section \<open>The fixed header\<close>

definition FixedHeader_byte :: "fixed_header \<Rightarrow> byte" where
  "FixedHeader_byte fh =
     push_bit 4 (fhType fh) OR push_bit 3 (encodeBool (fhDup fh)) OR push_bit 1 (fhQos fh)
     OR encodeBool (fhRetain fh)"

definition FixedHeader_Encode :: "fixed_header \<Rightarrow> byte list" where
  "FixedHeader_Encode fh = FixedHeader_byte fh # encodeLength (fhRemaining fh)"

definition FixedHeader_Decode :: "fixed_header \<Rightarrow> byte \<Rightarrow> error + fixed_header" where
  "FixedHeader_Decode fh0 hb =
    (let fh = fh0\<lparr>fhType := drop_bit 4 hb\<rparr>;
         r = (if fhType fh = Publish then
                (if drop_bit 1 hb AND 0x01 > 0 \<and> drop_bit 1 hb AND 0x02 > 0
                 then Inl (ECode ErrProtocolViolationQosOutOfRange)
                 else Inr (fh\<lparr>fhDup := drop_bit 3 hb AND 0x01 > 0,
                              fhQos := drop_bit 1 hb AND 0x03,
                              fhRetain := hb AND 0x01 > 0\<rparr>))
              else if fhType fh = Pubrel \<or> fhType fh = Subscribe \<or> fhType fh = Unsubscribe then
                (if drop_bit 0 hb AND 0x01 \<noteq> 0 \<or> drop_bit 1 hb AND 0x01 \<noteq> 1
                    \<or> drop_bit 2 hb AND 0x01 \<noteq> 0 \<or> drop_bit 3 hb AND 0x01 \<noteq> 0
                 then Inl (ECode ErrMalformedFlags)
                 else Inr (fh\<lparr>fhQos := drop_bit 1 hb AND 0x03\<rparr>))
              else
                (if drop_bit 0 hb AND 0x01 \<noteq> 0 \<or> drop_bit 1 hb AND 0x01 \<noteq> 0
                    \<or> drop_bit 2 hb AND 0x01 \<noteq> 0 \<or> drop_bit 3 hb AND 0x01 \<noteq> 0
                 then Inl (ECode ErrMalformedFlags)
                 else Inr fh))
     in case r of
          Inl err \<Rightarrow> Inl err
        | Inr fh \<Rightarrow> (if fhQos fh = 0 \<and> fhDup fh then Inl (ECode ErrProtocolViolationDupNoQos)
                     else Inr fh))"

section \<open>Shapes shared by the packet codecs\<close>

text \<open>\<open>buf[offset:]\<close>: out of range is a panic.\<close>

definition slice_from :: "byte list \<Rightarrow> nat \<Rightarrow> error + byte list" where
  "slice_from buf offset = (if offset \<le> length buf then Inr (drop offset buf) else Inl EPanic)"

text \<open>\<open>pk.Properties.Decode(pk.FixedHeader.Type, bytes.NewBuffer(buf[offset:]))\<close>.\<close>

definition decodeProps :: "packet \<Rightarrow> byte list \<Rightarrow> nat \<Rightarrow> error + (packet \<times> nat)" where
  "decodeProps pk buf offset =
    check (slice_from buf offset) (\<lambda>err. err) (\<lambda>b.
    check (Properties_Decode (pkProperties pk) (fhType (pkFixedHeader pk)) b)
      (\<lambda>err. EWrap err ErrMalformedProperties) (\<lambda>(props, n).
    Inr (pk\<lparr>pkProperties := props\<rparr>, n)))"

text \<open>\<open>pk.Properties.Encode(pk.FixedHeader.Type, pk.Mods, pb, n)\<close>, the bytes of \<open>pb\<close>.\<close>

definition encodeProps :: "packet \<Rightarrow> nat \<Rightarrow> byte list" where
  "encodeProps pk n = Properties_Encode (pkProperties pk) (fhType (pkFixedHeader pk)) (pkMods pk) n"

text \<open>\<open>pk.FixedHeader.Remaining = n; pk.FixedHeader.Encode(buf); buf.Write(nb.Bytes())\<close>.\<close>

definition emit :: "packet \<Rightarrow> byte list \<Rightarrow> error + (packet \<times> byte list)" where
  "emit pk nb =
    (let pk = pkFixedHeader_update (fhRemaining_update (\<lambda>_. length nb)) pk
     in Inr (pk, FixedHeader_Encode (pkFixedHeader pk) @ nb))"

section \<open>Connect and Connack\<close>

definition ConnectEncode :: "packet \<Rightarrow> error + (packet \<times> byte list)" where
  "ConnectEncode pk =
    (let c = pkConnect pk in
     emit pk (
       encodeBytes (cProtocolName c) @ [pkProtocolVersion pk]
       @ [push_bit 1 (encodeBool (cClean c)) OR push_bit 2 (encodeBool (cWillFlag c))
          OR push_bit 3 (cWillQos c) OR push_bit 5 (encodeBool (cWillRetain c))
          OR push_bit 6 (encodeBool (cPasswordFlag c)) OR push_bit 7 (encodeBool (cUsernameFlag c))
          OR 0]
       @ encodeUint16 (cKeepalive c)
       @ (if pkProtocolVersion pk = 5 then encodeProps pk 0 else [])
       @ encodeString (cClientIdentifier c)
       @ (if cWillFlag c
          then (if pkProtocolVersion pk = 5
                then Properties_Encode (cWillProperties c) WillProperties (pkMods pk) 0 else [])
               @ encodeString (cWillTopic c) @ encodeBytes (cWillPayload c)
          else [])
       @ (if cUsernameFlag c then encodeBytes (cUsername c) else [])
       @ (if cPasswordFlag c then encodeBytes (cPassword c) else [])))"

text \<open>The will block of \<open>ConnectDecode\<close>.\<close>

definition ConnectDecode_will :: "packet \<Rightarrow> byte list \<Rightarrow> nat \<Rightarrow> error + (packet \<times> nat)" where
  "ConnectDecode_will pk buf offset =
    (if cWillFlag (pkConnect pk) then
       check (if pkProtocolVersion pk = 5 then
                check (slice_from buf offset) (\<lambda>err. err) (\<lambda>b.
                check (Properties_Decode (cWillProperties (pkConnect pk)) WillProperties b)
                  (\<lambda>_. ECode ErrMalformedWillProperties) (\<lambda>(props, n).
                Inr (pkConnect_update (cWillProperties_update (\<lambda>_. props)) pk, offset + n)))
              else Inr (pk, offset)) (\<lambda>err. err) (\<lambda>(pk, offset).
       check (decodeString buf offset) (\<lambda>_. ECode ErrMalformedWillTopic) (\<lambda>(topic, offset).
       check (decodeBytes buf offset) (\<lambda>_. ECode ErrMalformedWillPayload) (\<lambda>(payload, offset).
       Inr (pkConnect_update (cWillTopic_update (\<lambda>_. topic) \<circ> cWillPayload_update (\<lambda>_. payload)) pk,
            offset))))
     else Inr (pk, offset))"

text \<open>The user name and password that end the packet.\<close>

definition ConnectDecode_credentials :: "packet \<Rightarrow> byte list \<Rightarrow> nat \<Rightarrow> error + packet" where
  "ConnectDecode_credentials pk buf offset =
     check (if cUsernameFlag (pkConnect pk) then
              (if offset \<ge> length buf then Inl (ECode ErrProtocolViolationFlagNoUsername)
               else check (decodeBytes buf offset) (\<lambda>_. ECode ErrMalformedUsername) (\<lambda>(user, offset).
                    Inr (pkConnect_update (cUsername_update (\<lambda>_. user)) pk, offset)))
            else Inr (pk, offset)) (\<lambda>err. err) (\<lambda>(pk, offset).
     if cPasswordFlag (pkConnect pk) then
       check (decodeBytes buf offset) (\<lambda>_. ECode ErrMalformedPassword) (\<lambda>(pass, _).
       Inr (pkConnect_update (cPassword_update (\<lambda>_. pass)) pk))
     else Inr pk)"

definition connect_flags :: "byte \<Rightarrow> packet \<Rightarrow> packet" where
  "connect_flags flags pk =
     pkConnect_update (\<lambda>c. c\<lparr>
        cClean := 1 AND drop_bit 1 flags > 0,
        cWillFlag := 1 AND drop_bit 2 flags > 0,
        cWillQos := 3 AND drop_bit 3 flags,
        cWillRetain := 1 AND drop_bit 5 flags > 0,
        cPasswordFlag := 1 AND drop_bit 6 flags > 0,
        cUsernameFlag := 1 AND drop_bit 7 flags > 0\<rparr>)
      (pkReservedBit_update (\<lambda>_. 1 AND flags) pk)"

definition ConnectDecode :: "packet \<Rightarrow> byte list \<Rightarrow> error + packet" where
  "ConnectDecode pk buf =
    check (decodeBytes buf 0) (\<lambda>_. ECode ErrMalformedProtocolName) (\<lambda>(name, offset).
    check (decodeByte buf offset) (\<lambda>_. ECode ErrMalformedProtocolVersion) (\<lambda>(version, offset).
    check (decodeByte buf offset) (\<lambda>_. ECode ErrMalformedFlags) (\<lambda>(flags, offset).
    check (decodeUint16 buf offset) (\<lambda>_. ECode ErrMalformedKeepalive) (\<lambda>(keepalive, offset).
    let pk = connect_flags flags (pkProtocolVersion_update (\<lambda>_. version)
               (pkConnect_update (cKeepalive_update (\<lambda>_. keepalive) \<circ> cProtocolName_update (\<lambda>_. name)) pk)) in
    check (if pkProtocolVersion pk = 5 then
             check (decodeProps pk buf offset) (\<lambda>err. err) (\<lambda>(pk, n). Inr (pk, offset + n))
           else Inr (pk, offset)) (\<lambda>err. err) (\<lambda>(pk, offset).
    check (decodeString buf offset) (\<lambda>_. ECode ErrClientIdentifierNotValid) (\<lambda>(ident, offset).
    check (ConnectDecode_will (pkConnect_update (cClientIdentifier_update (\<lambda>_. ident)) pk) buf offset)
      (\<lambda>err. err) (\<lambda>(pk, offset).
    ConnectDecode_credentials pk buf offset)))))))"

definition ConnectValidate :: "packet \<Rightarrow> code" where
  "ConnectValidate pk =
    (let c = pkConnect pk in
     if cProtocolName c \<noteq> lit ''MQIsdp'' \<and> cProtocolName c \<noteq> lit ''MQTT''
     then ErrProtocolViolationProtocolName
     else if (cProtocolName c = lit ''MQIsdp'' \<and> pkProtocolVersion pk \<noteq> 3)
           \<or> (cProtocolName c = lit ''MQTT'' \<and> pkProtocolVersion pk \<noteq> 4 \<and> pkProtocolVersion pk \<noteq> 5)
     then ErrProtocolViolationProtocolVersion
     else if pkReservedBit pk \<noteq> 0 then ErrProtocolViolationReservedBit
     else if length (cPassword c) > 65535 then ErrProtocolViolationPasswordTooLong
     else if length (cUsername c) > 65535 then ErrProtocolViolationUsernameTooLong
     else if \<not> cUsernameFlag c \<and> length (cUsername c) > 0 then ErrProtocolViolationUsernameNoFlag
     else if cPasswordFlag c \<and> length (cPassword c) = 0 then ErrProtocolViolationFlagNoPassword
     else if \<not> cPasswordFlag c \<and> length (cPassword c) > 0 then ErrProtocolViolationPasswordNoFlag
     else if length (cClientIdentifier c) > 65535 then ErrClientIdentifierNotValid
     else if cWillFlag c \<and> (length (cWillPayload c) = 0 \<or> cWillTopic c = [])
     then ErrProtocolViolationWillFlagNoPayload
     else if cWillFlag c \<and> cWillQos c > 2 then ErrProtocolViolationQosOutOfRange
     else if \<not> cWillFlag c \<and> cWillRetain c then ErrProtocolViolationWillFlagSurplusRetain
     else CodeSuccess)"

definition ConnackEncode :: "packet \<Rightarrow> error + (packet \<times> byte list)" where
  "ConnackEncode pk =
    (let nb = [encodeBool (pkSessionPresent pk)] @ [pkReasonCode pk];
         nb = (if pkProtocolVersion pk = 5 then nb @ encodeProps pk (length nb + 2) else nb)
     in emit pk nb)"

definition ConnackDecode :: "packet \<Rightarrow> byte list \<Rightarrow> error + packet" where
  "ConnackDecode pk buf =
    check (decodeByteBool buf 0) (\<lambda>err. EWrap err ErrMalformedSessionPresent) (\<lambda>(present, offset).
    check (decodeByte buf offset) (\<lambda>err. EWrap err ErrMalformedReasonCode) (\<lambda>(reason, offset).
    let pk = pkReasonCode_update (\<lambda>_. reason) (pkSessionPresent_update (\<lambda>_. present) pk) in
    if pkProtocolVersion pk = 5 then
      check (decodeProps pk buf offset) (\<lambda>err. err) (\<lambda>(pk, _). Inr pk)
    else Inr pk))"

section \<open>Disconnect and the pings\<close>

definition DisconnectEncode :: "packet \<Rightarrow> error + (packet \<times> byte list)" where
  "DisconnectEncode pk =
    (let nb = (if pkProtocolVersion pk = 5
               then [pkReasonCode pk] @ encodeProps pk (length [pkReasonCode pk]) else [])
     in emit pk nb)"

definition DisconnectDecode :: "packet \<Rightarrow> byte list \<Rightarrow> error + packet" where
  "DisconnectDecode pk buf =
    (if pkProtocolVersion pk = 5 \<and> fhRemaining (pkFixedHeader pk) > 1 then
       check (decodeByte buf 0) (\<lambda>err. EWrap err ErrMalformedReasonCode) (\<lambda>(reason, offset).
       let pk = pkReasonCode_update (\<lambda>_. reason) pk in
       if fhRemaining (pkFixedHeader pk) > 2 then
         check (decodeProps pk buf offset) (\<lambda>err. err) (\<lambda>(pk, _). Inr pk)
       else Inr pk)
     else Inr pk)"

definition PingreqEncode :: "packet \<Rightarrow> error + (packet \<times> byte list)" where
  "PingreqEncode pk = Inr (pk, FixedHeader_Encode (pkFixedHeader pk))"

definition PingreqDecode :: "packet \<Rightarrow> byte list \<Rightarrow> error + packet" where
  "PingreqDecode pk buf = Inr pk"

definition PingrespEncode :: "packet \<Rightarrow> error + (packet \<times> byte list)" where
  "PingrespEncode pk = Inr (pk, FixedHeader_Encode (pkFixedHeader pk))"

definition PingrespDecode :: "packet \<Rightarrow> byte list \<Rightarrow> error + packet" where
  "PingrespDecode pk buf = Inr pk"

section \<open>Publish\<close>

definition PublishEncode :: "packet \<Rightarrow> error + (packet \<times> byte list)" where
  "PublishEncode pk =
    (let nb = encodeString (pkTopicName pk) in
     if fhQos (pkFixedHeader pk) > 0 \<and> pkPacketID pk = 0
     then Inl (ECode ErrProtocolViolationNoPacketID)
     else
       let nb = (if fhQos (pkFixedHeader pk) > 0 then nb @ encodeUint16 (pkPacketID pk) else nb);
           nb = (if pkProtocolVersion pk = 5
                 then nb @ encodeProps pk (length nb + length (pkPayload pk)) else nb)
       in emit pk (nb @ pkPayload pk))"

definition PublishDecode :: "packet \<Rightarrow> byte list \<Rightarrow> error + packet" where
  "PublishDecode pk buf =
    check (decodeString buf 0) (\<lambda>err. EWrap err ErrMalformedTopic) (\<lambda>(topic, offset).
    let pk = pkTopicName_update (\<lambda>_. topic) pk in
    check (if fhQos (pkFixedHeader pk) > 0 then
             check (decodeUint16 buf offset) (\<lambda>err. EWrap err ErrMalformedPacketID) (\<lambda>(pid, offset).
             Inr (pkPacketID_update (\<lambda>_. pid) pk, offset))
           else Inr (pk, offset)) (\<lambda>err. err) (\<lambda>(pk, offset).
    check (if pkProtocolVersion pk = 5 then
             check (decodeProps pk buf offset) (\<lambda>err. err) (\<lambda>(pk, n). Inr (pk, offset + n))
           else Inr (pk, offset)) (\<lambda>err. err) (\<lambda>(pk, offset).
    check (slice_from buf offset) (\<lambda>err. err) (\<lambda>payload.
    Inr (pkPayload_update (\<lambda>_. payload) pk)))))"

definition PublishValidate :: "packet \<Rightarrow> u16 \<Rightarrow> code" where
  "PublishValidate pk topicAliasMaximum =
    (if fhQos (pkFixedHeader pk) > 0 \<and> pkPacketID pk = 0 then ErrProtocolViolationNoPacketID
     else if fhQos (pkFixedHeader pk) = 0 \<and> pkPacketID pk > 0
     then ErrProtocolViolationSurplusPacketID
     else if ContainsAny (pkTopicName pk) [ch_plus, ch_hash]
     then ErrProtocolViolationSurplusWildcard
     else if pTopicAlias (pkProperties pk) > topicAliasMaximum then ErrTopicAliasInvalid
     else if pkTopicName pk = [] \<and> pTopicAlias (pkProperties pk) = 0
     then ErrProtocolViolationNoTopic
     else if pTopicAliasFlag (pkProperties pk) \<and> pTopicAlias (pkProperties pk) = 0
     then ErrTopicAliasInvalid
     else if length (pSubscriptionIdentifier (pkProperties pk)) > 0
     then ErrProtocolViolationSurplusSubID
     else CodeSuccess)"

section \<open>Puback, Pubrec, Pubrel and Pubcomp\<close>

definition encodePubAckRelRecComp :: "packet \<Rightarrow> error + (packet \<times> byte list)" where
  "encodePubAckRelRecComp pk =
    (let nb = encodeUint16 (pkPacketID pk);
         nb = (if pkProtocolVersion pk = 5 then
                 (let pb = encodeProps pk (length nb);
                      nb = (if pkReasonCode pk \<ge> Code ErrUnspecifiedError \<or> length pb > 1
                            then nb @ [pkReasonCode pk] else nb)
                  in if length pb > 1 then nb @ pb else nb)
               else nb)
     in emit pk nb)"

definition decodePubAckRelRecComp :: "packet \<Rightarrow> byte list \<Rightarrow> error + packet" where
  "decodePubAckRelRecComp pk buf =
    check (decodeUint16 buf 0) (\<lambda>err. EWrap err ErrMalformedPacketID) (\<lambda>(pid, offset).
    let pk = pkPacketID_update (\<lambda>_. pid) pk in
    if pkProtocolVersion pk = 5 \<and> fhRemaining (pkFixedHeader pk) > 2 then
      check (decodeByte buf offset) (\<lambda>err. EWrap err ErrMalformedReasonCode) (\<lambda>(reason, offset).
      let pk = pkReasonCode_update (\<lambda>_. reason) pk in
      if fhRemaining (pkFixedHeader pk) > 3 then
        check (decodeProps pk buf offset) (\<lambda>err. err) (\<lambda>(pk, _). Inr pk)
      else Inr pk)
    else Inr pk)"

definition PubackEncode :: "packet \<Rightarrow> error + (packet \<times> byte list)" where
  "PubackEncode pk = encodePubAckRelRecComp pk"
definition PubackDecode :: "packet \<Rightarrow> byte list \<Rightarrow> error + packet" where
  "PubackDecode pk buf = decodePubAckRelRecComp pk buf"
definition PubcompEncode :: "packet \<Rightarrow> error + (packet \<times> byte list)" where
  "PubcompEncode pk = encodePubAckRelRecComp pk"
definition PubcompDecode :: "packet \<Rightarrow> byte list \<Rightarrow> error + packet" where
  "PubcompDecode pk buf = decodePubAckRelRecComp pk buf"
definition PubrecEncode :: "packet \<Rightarrow> error + (packet \<times> byte list)" where
  "PubrecEncode pk = encodePubAckRelRecComp pk"
definition PubrecDecode :: "packet \<Rightarrow> byte list \<Rightarrow> error + packet" where
  "PubrecDecode pk buf = decodePubAckRelRecComp pk buf"
definition PubrelEncode :: "packet \<Rightarrow> error + (packet \<times> byte list)" where
  "PubrelEncode pk = encodePubAckRelRecComp pk"
definition PubrelDecode :: "packet \<Rightarrow> byte list \<Rightarrow> error + packet" where
  "PubrelDecode pk buf = decodePubAckRelRecComp pk buf"

lemmas puback_family_defs = PubackEncode_def PubackDecode_def PubcompEncode_def PubcompDecode_def
  PubrecEncode_def PubrecDecode_def PubrelEncode_def PubrelDecode_def

definition ReasonCodeValid :: "packet \<Rightarrow> bool" where
  "ReasonCodeValid pk =
    (let ty = fhType (pkFixedHeader pk) in
     if ty = Pubrec then
       pkReasonCode pk \<in> set (map Code
         [CodeSuccess, CodeNoMatchingSubscribers, ErrUnspecifiedError, ErrImplementationSpecificError,
          ErrNotAuthorized, ErrTopicNameInvalid, ErrPacketIdentifierInUse, ErrQuotaExceeded,
          ErrPayloadFormatInvalid])
     else if ty = Pubrel \<or> ty = Pubcomp then
       pkReasonCode pk \<in> set (map Code [CodeSuccess, ErrPacketIdentifierNotFound])
     else if ty = Suback then
       pkReasonCode pk \<in> set (map Code
         [CodeGrantedQos0, CodeGrantedQos1, CodeGrantedQos2, ErrUnspecifiedError,
          ErrImplementationSpecificError, ErrNotAuthorized, ErrTopicFilterInvalid,
          ErrPacketIdentifierInUse, ErrQuotaExceeded, ErrSharedSubscriptionsNotSupported,
          ErrSubscriptionIdentifiersNotSupported, ErrWildcardSubscriptionsNotSupported])
     else if ty = Unsuback then
       pkReasonCode pk \<in> set (map Code
         [CodeSuccess, CodeNoSubscriptionExisted, ErrUnspecifiedError,
          ErrImplementationSpecificError, ErrNotAuthorized, ErrTopicFilterInvalid,
          ErrPacketIdentifierInUse])
     else True)"

section \<open>Subscribe and Suback\<close>

definition SubackEncode :: "packet \<Rightarrow> error + (packet \<times> byte list)" where
  "SubackEncode pk =
    (let nb = encodeUint16 (pkPacketID pk);
         nb = (if pkProtocolVersion pk = 5
               then nb @ encodeProps pk (length nb + length (pkReasonCodes pk)) else nb)
     in emit pk (nb @ pkReasonCodes pk))"

definition SubackDecode :: "packet \<Rightarrow> byte list \<Rightarrow> error + packet" where
  "SubackDecode pk buf =
    check (decodeUint16 buf 0) (\<lambda>err. EWrap err ErrMalformedPacketID) (\<lambda>(pid, offset).
    let pk = pkPacketID_update (\<lambda>_. pid) pk in
    check (if pkProtocolVersion pk = 5 then
             check (decodeProps pk buf offset) (\<lambda>err. err) (\<lambda>(pk, n). Inr (pk, offset + n))
           else Inr (pk, offset)) (\<lambda>err. err) (\<lambda>(pk, offset).
    check (slice_from buf offset) (\<lambda>err. err) (\<lambda>codes.
    Inr (pkReasonCodes_update (\<lambda>_. codes) pk))))"

text \<open>One turn of the filter loop, writing and reading.\<close>

definition encode_subscribe_filter :: "byte \<Rightarrow> subscription \<Rightarrow> byte list" where
  "encode_subscribe_filter version opts =
     encodeString (sFilter opts) @ [if version = 5 then Subscription_encode opts else sQos opts]"

definition decode_subscribe_filter ::
    "byte \<Rightarrow> int list \<Rightarrow> byte list \<Rightarrow> nat \<Rightarrow> error + (subscription \<times> nat)" where
  "decode_subscribe_filter version sids buf offset =
    check (decodeString buf offset) (\<lambda>_. ECode ErrMalformedTopic) (\<lambda>(flt, offset).
    let sub = sFilter_update (\<lambda>_. flt) no_subscription in
    check (if version = 5 then
             (if offset < length buf then Inr (Subscription_decode sub (buf ! offset), offset + 1)
              else Inl EPanic)
           else check (decodeByte buf offset) (\<lambda>_. ECode ErrMalformedQos) (\<lambda>(option, offset).
                Inr (sQos_update (\<lambda>_. option) sub, offset))) (\<lambda>err. err) (\<lambda>(sub, offset).
    let sub = (if length sids > 0 then sIdentifier_update (\<lambda>_. sids ! 0) sub else sub) in
    if sQos sub > 2 then Inl (ECode ErrProtocolViolationQosOutOfRange) else Inr (sub, offset)))"

lemma decode_subscribe_filter_advances:
  assumes "decode_subscribe_filter version sids buf offset = Inr (s, offset')"
  shows "offset < offset' \<and> offset' \<le> length buf"
  using assms unfolding decode_subscribe_filter_def Let_def
  by (auto simp: result_iff split: if_splits dest!: string_field.dec_advances byte_field.dec_advances)

function decode_subscribe_filters ::
    "byte \<Rightarrow> int list \<Rightarrow> byte list \<Rightarrow> nat \<Rightarrow> subscription list \<Rightarrow> error + subscription list" where
  "decode_subscribe_filters version sids buf offset filters =
    (if offset < length buf then
       check (decode_subscribe_filter version sids buf offset) (\<lambda>err. err) (\<lambda>(sub, offset).
       decode_subscribe_filters version sids buf offset (filters @ [sub]))
     else Inr filters)"
  by pat_completeness auto
termination
  by (relation "measure (\<lambda>(version, sids, buf, offset, filters). length buf - offset)")
     (auto dest: decode_subscribe_filter_advances)

declare decode_subscribe_filters.simps [simp del]

definition SubscribeEncode :: "packet \<Rightarrow> error + (packet \<times> byte list)" where
  "SubscribeEncode pk =
    (if pkPacketID pk = 0 then Inl (ECode ErrProtocolViolationNoPacketID)
     else
       let nb = encodeUint16 (pkPacketID pk);
           xb = concat (map (encode_subscribe_filter (pkProtocolVersion pk)) (pkFilters pk));
           nb = (if pkProtocolVersion pk = 5
                 then nb @ encodeProps pk (length nb + length xb) else nb)
       in emit pk (nb @ xb))"

definition SubscribeDecode :: "packet \<Rightarrow> byte list \<Rightarrow> error + packet" where
  "SubscribeDecode pk buf =
    check (decodeUint16 buf 0) (\<lambda>_. ECode ErrMalformedPacketID) (\<lambda>(pid, offset).
    let pk = pkPacketID_update (\<lambda>_. pid) pk in
    check (if pkProtocolVersion pk = 5 then
             check (decodeProps pk buf offset) (\<lambda>err. err) (\<lambda>(pk, n). Inr (pk, offset + n))
           else Inr (pk, offset)) (\<lambda>err. err) (\<lambda>(pk, offset).
    check (decode_subscribe_filters (pkProtocolVersion pk)
             (pSubscriptionIdentifier (pkProperties pk)) buf offset []) (\<lambda>err. err) (\<lambda>filters.
    Inr (pkFilters_update (\<lambda>_. filters) pk))))"

definition SubscribeValidate :: "packet \<Rightarrow> code" where
  "SubscribeValidate pk =
    (if fhQos (pkFixedHeader pk) > 0 \<and> pkPacketID pk = 0 then ErrProtocolViolationNoPacketID
     else if length (pkFilters pk) = 0 then ErrProtocolViolationNoFilters
     else if list_ex (\<lambda>v. sIdentifier v > 268435455) (pkFilters pk)
     then ErrProtocolViolationOversizeSubID
     else CodeSuccess)"

section \<open>Unsubscribe and Unsuback\<close>

definition UnsubackEncode :: "packet \<Rightarrow> error + (packet \<times> byte list)" where
  "UnsubackEncode pk =
    (let nb = encodeUint16 (pkPacketID pk);
         nb = (if pkProtocolVersion pk = 5
               then nb @ encodeProps pk (length nb) @ pkReasonCodes pk else nb)
     in emit pk nb)"

definition UnsubackDecode :: "packet \<Rightarrow> byte list \<Rightarrow> error + packet" where
  "UnsubackDecode pk buf =
    check (decodeUint16 buf 0) (\<lambda>err. EWrap err ErrMalformedPacketID) (\<lambda>(pid, offset).
    let pk = pkPacketID_update (\<lambda>_. pid) pk in
    if pkProtocolVersion pk = 5 then
      check (decodeProps pk buf offset) (\<lambda>err. err) (\<lambda>(pk, n).
      check (slice_from buf (offset + n)) (\<lambda>err. err) (\<lambda>codes.
      Inr (pkReasonCodes_update (\<lambda>_. codes) pk)))
    else Inr pk)"

definition decode_unsubscribe_filter :: "byte list \<Rightarrow> nat \<Rightarrow> error + (subscription \<times> nat)" where
  "decode_unsubscribe_filter buf offset =
    check (decodeString buf offset) (\<lambda>err. EWrap err ErrMalformedTopic) (\<lambda>(flt, offset).
    Inr (sFilter_update (\<lambda>_. flt) no_subscription, offset))"

lemma decode_unsubscribe_filter_advances:
  assumes "decode_unsubscribe_filter buf offset = Inr (s, offset')"
  shows "offset < offset' \<and> offset' \<le> length buf"
  using assms unfolding decode_unsubscribe_filter_def
  by (auto simp: result_iff dest!: string_field.dec_advances)

function decode_unsubscribe_filters ::
    "byte list \<Rightarrow> nat \<Rightarrow> subscription list \<Rightarrow> error + subscription list" where
  "decode_unsubscribe_filters buf offset filters =
    (if offset < length buf then
       check (decode_unsubscribe_filter buf offset) (\<lambda>err. err) (\<lambda>(sub, offset).
       decode_unsubscribe_filters buf offset (filters @ [sub]))
     else Inr filters)"
  by pat_completeness auto
termination
  by (relation "measure (\<lambda>(buf, offset, filters). length buf - offset)")
     (auto dest: decode_unsubscribe_filter_advances)

declare decode_unsubscribe_filters.simps [simp del]

definition UnsubscribeEncode :: "packet \<Rightarrow> error + (packet \<times> byte list)" where
  "UnsubscribeEncode pk =
    (if pkPacketID pk = 0 then Inl (ECode ErrProtocolViolationNoPacketID)
     else
       let nb = encodeUint16 (pkPacketID pk);
           xb = concat (map (\<lambda>sub. encodeString (sFilter sub)) (pkFilters pk));
           nb = (if pkProtocolVersion pk = 5
                 then nb @ encodeProps pk (length nb + length xb) else nb)
       in emit pk (nb @ xb))"

definition UnsubscribeDecode :: "packet \<Rightarrow> byte list \<Rightarrow> error + packet" where
  "UnsubscribeDecode pk buf =
    check (decodeUint16 buf 0) (\<lambda>err. EWrap err ErrMalformedPacketID) (\<lambda>(pid, offset).
    let pk = pkPacketID_update (\<lambda>_. pid) pk in
    check (if pkProtocolVersion pk = 5 then
             check (decodeProps pk buf offset) (\<lambda>err. err) (\<lambda>(pk, n). Inr (pk, offset + n))
           else Inr (pk, offset)) (\<lambda>err. err) (\<lambda>(pk, offset).
    check (decode_unsubscribe_filters buf offset []) (\<lambda>err. err) (\<lambda>filters.
    Inr (pkFilters_update (\<lambda>_. filters) pk))))"

definition UnsubscribeValidate :: "packet \<Rightarrow> code" where
  "UnsubscribeValidate pk =
    (if fhQos (pkFixedHeader pk) > 0 \<and> pkPacketID pk = 0 then ErrProtocolViolationNoPacketID
     else if length (pkFilters pk) = 0 then ErrProtocolViolationNoFilters
     else CodeSuccess)"

section \<open>Auth\<close>

definition AuthEncode :: "packet \<Rightarrow> error + (packet \<times> byte list)" where
  "AuthEncode pk =
    (let nb = [pkReasonCode pk] in emit pk (nb @ encodeProps pk (length nb)))"

definition AuthDecode :: "packet \<Rightarrow> byte list \<Rightarrow> error + packet" where
  "AuthDecode pk buf =
    check (decodeByte buf 0) (\<lambda>err. EWrap err ErrMalformedReasonCode) (\<lambda>(reason, offset).
    check (decodeProps (pkReasonCode_update (\<lambda>_. reason) pk) buf offset) (\<lambda>err. err) (\<lambda>(pk, _).
    Inr pk))"

definition AuthValidate :: "packet \<Rightarrow> code" where
  "AuthValidate pk =
    (if pkReasonCode pk \<noteq> Code CodeSuccess \<and> pkReasonCode pk \<noteq> Code CodeContinueAuthentication
        \<and> pkReasonCode pk \<noteq> Code CodeReAuthenticate
     then ErrProtocolViolationInvalidReason
     else CodeSuccess)"

text \<open>\<open>strconv.FormatUint(uint64(pk.PacketID), 10)\<close>.\<close>

fun FormatUint :: "nat \<Rightarrow> gostring" where
  "FormatUint n = (if n < 10 then [of_nat (48 + n)]
                   else FormatUint (n div 10) @ [of_nat (48 + n mod 10)])"

declare FormatUint.simps [simp del]

definition FormatID :: "packet \<Rightarrow> gostring" where
  "FormatID pk = FormatUint (unat (pkPacketID pk))"

end
