(* ===== verification/Mqtt_Roundtrip.thy ===== *)
theory Mqtt_Roundtrip
  imports Mqtt_Packets
begin

text \<open>
  Reading back what was written.  For every packet type: the bytes its encoder produces are the
  fixed header followed by a body of the announced length, and its decoder, started on the
  packet that \<open>Client.ReadPacket\<close> prepares from the fixed header and the protocol version,
  returns the packet with the fields that were sent.  The locale \<open>item_loop\<close> is the shape of the
  two loops that read filters until the packet ends.
\<close>

section \<open>The fixed header\<close>

definition header_ok :: "fixed_header \<Rightarrow> bool" where
  "header_ok fh \<longleftrightarrow>
     fhType fh \<le> 15
     \<and> (if fhType fh = Publish then fhQos fh \<le> 2 \<and> (fhQos fh = 0 \<longrightarrow> \<not> fhDup fh)
        else \<not> fhDup fh \<and> \<not> fhRetain fh
             \<and> fhQos fh = (if fhType fh \<in> {Pubrel, Subscribe, Unsubscribe} then 1 else 0))"

lemma byte_le_2D: "q \<le> 2 \<Longrightarrow> q = 0 \<or> q = 1 \<or> q = (2 :: byte)"
  by (simp add: word_le_nat_alt word_unat_eq_iff) arith

lemma byte_le_3D: "q \<le> 3 \<Longrightarrow> q = 0 \<or> q = 1 \<or> q = 2 \<or> q = (3 :: byte)"
  by (simp add: word_le_nat_alt word_unat_eq_iff) arith

lemma byte_le_15D:
  assumes "q \<le> (15 :: byte)"
  shows "q = 0 \<or> q = 1 \<or> q = 2 \<or> q = 3 \<or> q = 4 \<or> q = 5 \<or> q = 6 \<or> q = 7 \<or> q = 8 \<or> q = 9
     \<or> q = 10 \<or> q = 11 \<or> q = 12 \<or> q = 13 \<or> q = 14 \<or> q = 15"
  using assms by (simp add: word_le_nat_alt word_unat_eq_iff) arith

lemma FixedHeader_Decode_byte:
  assumes "header_ok fh"
  shows "FixedHeader_Decode no_header (FixedHeader_byte fh) = Inr (fh\<lparr>fhRemaining := 0\<rparr>)"
proof -
  obtain r t q d k where fh: "fh = \<lparr>fhRemaining = r, fhType = t, fhQos = q, fhDup = d, fhRetain = k\<rparr>"
    by (cases fh)
  have t: "t \<le> 15" using assms by (simp add: fh header_ok_def)
  show ?thesis
  proof (cases "t = 3")
    case True
    then have "q = 0 \<or> q = 1 \<or> q = 2" "q = 0 \<longrightarrow> \<not> d"
      using assms by (auto simp: fh header_ok_def dest: byte_le_2D)
    then show ?thesis
      by (cases d; cases k; elim disjE;
          simp add: fh True FixedHeader_byte_def FixedHeader_Decode_def encodeBool_def no_header_def Let_def)
  next
    case False
    then have "\<not> d" "\<not> k" "q = (if t = 6 \<or> t = 8 \<or> t = 10 then 1 else 0)"
      using assms by (auto simp: fh header_ok_def)
    then show ?thesis
      using byte_le_15D [OF t] False
      by (elim disjE;
          simp add: fh FixedHeader_byte_def FixedHeader_Decode_def encodeBool_def no_header_def Let_def)
  qed
qed

section \<open>Property blocks inside a body\<close>

text \<open>The packet that \<open>ReadPacket\<close> hands to a decoder.\<close>

definition received :: "byte \<Rightarrow> fixed_header \<Rightarrow> packet" where
  "received v fh = no_packet\<lparr>pkProtocolVersion := v, pkFixedHeader := fh\<rparr>"

lemma received_simps [simp]:
  "pkProtocolVersion (received v fh) = v" "pkFixedHeader (received v fh) = fh"
  "pkProperties (received v fh) = no_properties" "pkConnect (received v fh) = no_connect"
  "pkReasonCode (received v fh) = 0" "pkPacketID (received v fh) = 0"
  "pkReasonCodes (received v fh) = []" "pkFilters (received v fh) = []"
  by (simp_all add: received_def no_packet_def)

lemma cWillProperties_no_connect [simp]: "cWillProperties no_connect = no_properties"
  by (simp add: no_connect_def)

text \<open>The properties of the packet that the receiver gets.\<close>

definition sentProps :: "packet \<Rightarrow> nat \<Rightarrow> properties" where
  "sentProps pk n = Properties_sent (pkProperties pk) (fhType (pkFixedHeader pk)) (pkMods pk) n"

lemma length_Properties_Encode:
  "length (Properties_body1 p pkt mods @ Properties_body2 p pkt mods n)
     < length (Properties_Encode p pkt mods n)"
  by (simp add: Properties_Encode_def Let_def)

lemma Properties_Decode_block:
  assumes "properties_ok p" "length (Properties_Encode p pkt mods n) \<le> 268435455"
  shows "Properties_Decode no_properties pkt (Properties_Encode p pkt mods n @ rest)
    = Inr (Properties_sent p pkt mods n, length (Properties_Encode p pkt mods n))"
  using assms length_Properties_Encode [of p pkt mods n] by (intro Properties_Decode_Encode) simp_all

lemma Properties_Encode_empty:
  assumes "properties_ok p" "length (Properties_Encode p pkt mods n) \<le> 1"
  shows "Properties_sent p pkt mods n = no_properties"
proof -
  let ?body = "Properties_body1 p pkt mods @ Properties_body2 p pkt mods n"
  have "length ?body = 0"
    using length_Properties_Encode [of p pkt mods n] assms(2) by linarith
  then have "?body = []" by (rule length_0_conv [THEN iffD1])
  then have "Properties_Encode p pkt mods n = [0]"
    by (simp add: Properties_Encode_def Let_def encodeLength.simps)
  then have "Properties_Decode no_properties pkt [0]
      = (Inr (Properties_sent p pkt mods n, 1) :: error + (properties \<times> nat))"
    using Properties_Decode_block [OF assms(1), of pkt mods n "[]"] by simp
  then show ?thesis
    by (simp add: Properties_Decode_def DecodeLength_def)
qed

lemma decodeProps_at:
  assumes "properties_ok (pkProperties pk)" "length (encodeProps pk n) \<le> 268435455"
    and "buf = pre @ encodeProps pk n @ post" "off = length pre"
    and "pkProperties q = no_properties" "fhType (pkFixedHeader q) = fhType (pkFixedHeader pk)"
  shows "decodeProps q buf off = Inr (pkProperties_update (\<lambda>_. sentProps pk n) q, length (encodeProps pk n))"
  using assms Properties_Decode_block [of "pkProperties pk" "fhType (pkFixedHeader pk)" "pkMods pk" n post]
  by (simp add: decodeProps_def slice_from_def encodeProps_def sentProps_def)

lemma emit_Inr [result_iff]:
  "emit pk nb = Inr (pk', bytes) \<longleftrightarrow>
     pk' = pkFixedHeader_update (fhRemaining_update (\<lambda>_. length nb)) pk
     \<and> bytes = FixedHeader_Encode (pkFixedHeader pk') @ nb"
  by (auto simp: emit_def Let_def)

text \<open>
  What an encoder produced: a fixed header that announces the body, and the body, small enough
  for the protocol.
\<close>

definition framed :: "packet \<Rightarrow> error + (packet \<times> byte list) \<Rightarrow> fixed_header \<Rightarrow> byte list \<Rightarrow> bool" where
  "framed pk r fh body \<longleftrightarrow>
     (case r of Inl _ \<Rightarrow> False
      | Inr (pk', bytes) \<Rightarrow> pkFixedHeader pk' = fh \<and> bytes = FixedHeader_Encode fh @ body)
     \<and> fh = fhRemaining_update (\<lambda>_. length body) (pkFixedHeader pk) \<and> length body \<le> 268435455"

lemma framed_emit:
  "framed pk (emit pk nb) fh body \<longleftrightarrow>
     body = nb \<and> fh = fhRemaining_update (\<lambda>_. length nb) (pkFixedHeader pk) \<and> length nb \<le> 268435455"
  by (auto simp: framed_def emit_def Let_def)

lemma framed_type: "framed pk r fh body \<Longrightarrow> fhType fh = fhType (pkFixedHeader pk)"
  and framed_qos: "framed pk r fh body \<Longrightarrow> fhQos fh = fhQos (pkFixedHeader pk)"
  and framed_remaining: "framed pk r fh body \<Longrightarrow> fhRemaining fh = length body"
  by (auto simp: framed_def)

section \<open>Loops that read items to the end of the packet\<close>

locale item_loop = field_codec enc dec good
  for enc :: "'a \<Rightarrow> byte list" and dec :: "byte list \<Rightarrow> nat \<Rightarrow> error + ('a \<times> nat)"
    and good :: "'a \<Rightarrow> bool" +
  fixes loop :: "byte list \<Rightarrow> nat \<Rightarrow> 'a list \<Rightarrow> error + 'a list"
  assumes loop_stop: "length buf \<le> off \<Longrightarrow> loop buf off acc = Inr acc"
    and loop_turn: "off < length buf \<Longrightarrow> dec buf off = Inr (x, off') \<Longrightarrow>
          loop buf off acc = loop buf off' (acc @ [x])"
    and loop_error: "off < length buf \<Longrightarrow> dec buf off = Inl e \<Longrightarrow> loop buf off acc = Inl e"
begin

lemma loop_items:
  "list_all good xs \<Longrightarrow> loop (pre @ concat (map enc xs)) (length pre) acc = Inr (acc @ xs)"
proof (induction xs arbitrary: pre acc)
  case Nil
  then show ?case by (simp add: loop_stop)
next
  case (Cons x xs)
  let ?buf = "pre @ enc x @ concat (map enc xs)"
  have g: "good x" "list_all good xs" using Cons.prems by simp_all
  have "loop ?buf (length pre) acc = loop ?buf (length pre + length (enc x)) (acc @ [x])"
    using enc_nonempty [OF g(1)] by (intro loop_turn dec_enc g) simp
  also have "\<dots> = Inr ((acc @ [x]) @ xs)"
    using Cons.IH [OF g(2), of "pre @ enc x" "acc @ [x]"] by simp
  finally show ?case by simp
qed

lemma loop_items_at:
  "list_all good xs \<Longrightarrow> buf = pre @ concat (map enc xs) \<Longrightarrow> off = length pre \<Longrightarrow>
     loop buf off [] = Inr xs"
  using loop_items [of xs pre "[]"] by simp

text \<open>What the loop reads are items the decoder produced, at least one byte each.\<close>

lemma loop_length: "loop buf off acc = Inr xs \<Longrightarrow> off \<le> length buf \<Longrightarrow>
    length acc \<le> length xs \<and> length xs \<le> length acc + (length buf - off)"
proof (induction "length buf - off" arbitrary: off acc rule: less_induct)
  case less
  show ?case
  proof (cases "off < length buf")
    case False
    then show ?thesis using less.prems by (simp add: loop_stop)
  next
    case True
    then obtain x off' where d: "dec buf off = Inr (x, off')"
      using less.prems loop_error [OF True] by (cases "dec buf off") auto
    then have adv: "off < off'" "off' \<le> length buf" using dec_advances by blast+
    then have "length (acc @ [x]) \<le> length xs \<and> length xs \<le> length (acc @ [x]) + (length buf - off')"
      using less.prems loop_turn [OF True d] True by (intro less.hyps) simp_all
    then show ?thesis using adv by (simp, linarith)
  qed
qed

end

section \<open>Filters\<close>

text \<open>
  The subscription a receiver gets for a filter that was sent: the options travel in protocol
  version 5 only, and the identifier is the first one of the packet's properties.
\<close>

definition sub_received :: "byte \<Rightarrow> int list \<Rightarrow> subscription \<Rightarrow> subscription" where
  "sub_received v sids s = \<lparr>sShareName = [], sFilter = sFilter s,
     sIdentifier = (if sids = [] then 0 else hd sids), sIdentifiers = None,
     sRetainHandling = (if v = 5 then sRetainHandling s else 0), sQos = sQos s,
     sRetainAsPublished = (v = 5 \<and> sRetainAsPublished s), sNoLocal = (v = 5 \<and> sNoLocal s),
     sFwdRetainedFlag = False\<rparr>"

definition sub_ok :: "subscription \<Rightarrow> bool" where
  "sub_ok s \<longleftrightarrow> text_ok (sFilter s) \<and> sQos s \<le> 2 \<and> sRetainHandling s \<le> 3"

definition subscription_bits :: "byte \<Rightarrow> bool \<Rightarrow> bool \<Rightarrow> byte \<Rightarrow> byte" where
  "subscription_bits q nl rap rh =
     ((0 OR q) OR (if nl then push_bit 2 1 else 0) OR (if rap then push_bit 3 1 else 0)) OR push_bit 4 rh"

lemma Subscription_encode_bits:
  "Subscription_encode s
    = subscription_bits (sQos s) (sNoLocal s) (sRetainAsPublished s) (sRetainHandling s)"
  by (simp add: Subscription_encode_def subscription_bits_def Let_def or.assoc)

text \<open>All the option bytes there are.\<close>

lemma subscription_bits_table:
  "list_all (\<lambda>q. list_all (\<lambda>rh. list_all (\<lambda>nl. list_all (\<lambda>rap.
     (let b = subscription_bits q nl rap rh in
      b AND 3 = q \<and> (1 AND drop_bit 2 b > 0) = nl \<and> (1 AND drop_bit 3 b > 0) = rap
      \<and> 3 AND drop_bit 4 b = rh)) [False, True]) [False, True]) [0, 1, 2, 3]) [0, 1, 2]"
  by code_simp

lemma Subscription_decode_encode:
  assumes "sQos s \<le> 2" "sRetainHandling s \<le> 3"
  shows "Subscription_decode t (Subscription_encode s) =
    t\<lparr>sQos := sQos s, sNoLocal := sNoLocal s, sRetainAsPublished := sRetainAsPublished s,
      sRetainHandling := sRetainHandling s\<rparr>"
proof -
  define b where "b = Subscription_encode s"
  have "sQos s \<in> set [0, 1, 2]" "sRetainHandling s \<in> set [0, 1, 2, 3]"
      "sNoLocal s \<in> set [False, True]" "sRetainAsPublished s \<in> set [False, True]"
    using byte_le_2D [OF assms(1)] byte_le_3D [OF assms(2)] by auto
  then have "b AND 3 = sQos s \<and> (1 AND drop_bit 2 b > 0) = sNoLocal s
      \<and> (1 AND drop_bit 3 b > 0) = sRetainAsPublished s \<and> 3 AND drop_bit 4 b = sRetainHandling s"
    unfolding b_def Subscription_encode_bits
    using subscription_bits_table unfolding list_all_iff Let_def by blast
  then show ?thesis unfolding Subscription_decode_def b_def [symmetric] by simp
qed

lemma sub_received_idem [simp]:
  "sub_received v sids (sub_received v sids s) = sub_received v sids s"
  by (simp add: sub_received_def)

lemma sub_ok_received [simp]: "sub_ok s \<Longrightarrow> sub_ok (sub_received v sids s)"
  by (simp add: sub_ok_def sub_received_def)

lemma encode_subscribe_filter_received [simp]:
  "encode_subscribe_filter v (sub_received v sids s) = encode_subscribe_filter v s"
  by (simp add: encode_subscribe_filter_def sub_received_def Subscription_encode_def Let_def)

lemma decode_subscribe_filter_at:
  assumes ok: "sub_ok s"
  shows "decode_subscribe_filter v sids (pre @ encode_subscribe_filter v s @ post) (length pre)
    = Inr (sub_received v sids s, length pre + length (encode_subscribe_filter v s))"
proof -
  define opt where "opt = (if v = 5 then Subscription_encode s else sQos s)"
  let ?buf = "pre @ encodeString (sFilter s) @ [opt] @ post"
  have t: "decodeString ?buf (length pre) = Inr (sFilter s, length pre + length (encodeString (sFilter s)))"
    using ok by (intro string_field.dec_enc) (simp add: sub_ok_def)
  have opt: "?buf ! (length pre + length (encodeString (sFilter s))) = opt"
    by (simp add: nth_append)
  have q: "\<not> sQos s > 2" using ok by (simp add: sub_ok_def not_less)
  have "decode_subscribe_filter v sids ?buf (length pre)
      = Inr (sub_received v sids s, length pre + length (encodeString (sFilter s)) + 1)"
    unfolding decode_subscribe_filter_def t check_simps Let_def prod.case
    using q ok opt
    by (cases "v = 5"; cases sids)
       (simp_all add: decodeByte_def opt_def Subscription_decode_encode sub_ok_def sub_received_def
          no_subscription_def)
  then show ?thesis by (simp add: encode_subscribe_filter_def opt_def)
qed

interpretation subscribe_items: item_loop "encode_subscribe_filter v" "decode_subscribe_filter v sids"
    "\<lambda>s. sub_ok s \<and> sub_received v sids s = s" "decode_subscribe_filters v sids" for v sids
proof
  fix x pre post
  assume "sub_ok x \<and> sub_received v sids x = x"
  then show "decode_subscribe_filter v sids (pre @ encode_subscribe_filter v x @ post) (length pre)
      = Inr (x, length pre + length (encode_subscribe_filter v x))"
    using decode_subscribe_filter_at [of x v sids pre post] by simp
qed (use decode_subscribe_filter_advances in \<open>auto simp: decode_subscribe_filters.simps\<close>)

interpretation unsubscribe_items: item_loop "\<lambda>s. encodeString (sFilter s)" decode_unsubscribe_filter
    "\<lambda>s. text_ok (sFilter s) \<and> sFilter_update (\<lambda>_. sFilter s) no_subscription = s"
    decode_unsubscribe_filters
proof
  fix x pre post
  assume "text_ok (sFilter x) \<and> sFilter_update (\<lambda>_. sFilter x) no_subscription = x"
  then show "decode_unsubscribe_filter (pre @ encodeString (sFilter x) @ post) (length pre)
      = Inr (x, length pre + length (encodeString (sFilter x)))"
    by (simp add: decode_unsubscribe_filter_def string_field.dec_enc del: length_encodeString)
qed (use decode_unsubscribe_filter_advances in \<open>auto simp: decode_unsubscribe_filters.simps\<close>)

lemma decode_subscribe_filters_at:
  assumes "list_all sub_ok xs" "buf = pre @ concat (map (encode_subscribe_filter v) xs)"
    and "off = length pre"
  shows "decode_subscribe_filters v sids buf off [] = Inr (map (sub_received v sids) xs)"
proof (rule subscribe_items.loop_items_at)
  show "list_all (\<lambda>s. sub_ok s \<and> sub_received v sids s = s) (map (sub_received v sids) xs)"
    using assms(1) by (simp add: list_all_iff)
  show "buf = pre @ concat (map (encode_subscribe_filter v) (map (sub_received v sids) xs))"
    using assms(2) by (simp add: comp_def)
  show "off = length pre" by (rule assms(3))
qed

lemma decode_unsubscribe_filters_at:
  assumes "list_all (\<lambda>s. text_ok (sFilter s)) xs" "buf = pre @ concat (map (\<lambda>s. encodeString (sFilter s)) xs)"
    and "off = length pre"
  shows "decode_unsubscribe_filters buf off []
    = Inr (map (\<lambda>s. sFilter_update (\<lambda>_. sFilter s) no_subscription) xs)"
proof (rule unsubscribe_items.loop_items_at)
  show "list_all (\<lambda>s. text_ok (sFilter s) \<and> sFilter_update (\<lambda>_. sFilter s) no_subscription = s)
      (map (\<lambda>s. sFilter_update (\<lambda>_. sFilter s) no_subscription) xs)"
    using assms(1) by (simp add: list_all_iff)
  show "buf = pre @ concat (map (\<lambda>s. encodeString (sFilter s))
      (map (\<lambda>s. sFilter_update (\<lambda>_. sFilter s) no_subscription) xs))"
    using assms(2) by (simp add: comp_def)
  show "off = length pre" by (rule assms(3))
qed

section \<open>One packet type at a time\<close>

text \<open>
  The conclusion of the laws below: the encoder wrote a header and a body, and the decoder reads
  the body into \<open>got\<close>.
\<close>

definition carries ::
    "(packet \<Rightarrow> error + (packet \<times> byte list)) \<Rightarrow> (packet \<Rightarrow> byte list \<Rightarrow> error + packet) \<Rightarrow>
      packet \<Rightarrow> (packet \<Rightarrow> packet) \<Rightarrow> bool" where
  "carries enc dec pk got \<longleftrightarrow>
     (\<forall>fh body. framed pk (enc pk) fh body \<longrightarrow>
        dec (received (pkProtocolVersion pk) fh) body = Inr (got (received (pkProtocolVersion pk) fh)))"

lemma carriesI:
  assumes "\<And>fh body. framed pk (enc pk) fh body \<Longrightarrow>
     dec (received (pkProtocolVersion pk) fh) body = Inr (got (received (pkProtocolVersion pk) fh))"
  shows "carries enc dec pk got"
  using assms by (simp add: carries_def)

text \<open>The properties that go with the fields: absent before protocol version 5.\<close>

definition gotProps :: "packet \<Rightarrow> nat \<Rightarrow> packet \<Rightarrow> packet" where
  "gotProps pk n q = (if pkProtocolVersion pk = 5
                      then pkProperties_update (\<lambda>_. sentProps pk n) q else q)"

text \<open>The property block at a place of a body, present in protocol version 5 only.\<close>

definition block :: "packet \<Rightarrow> nat \<Rightarrow> byte list" where
  "block pk n = (if pkProtocolVersion pk = 5 then encodeProps pk n else [])"

lemma block_at:
  assumes "properties_ok (pkProperties pk)" "length buf \<le> 268435455"
    and "buf = pre @ block pk n @ post" "off = length pre"
    and "pkProperties q = no_properties" "fhType (pkFixedHeader q) = fhType (pkFixedHeader pk)"
    and "pkProtocolVersion q = pkProtocolVersion pk"
  shows "(if pkProtocolVersion q = 5
          then check (decodeProps q buf off) (\<lambda>err. err) (\<lambda>(pk, n). Inr (pk, off + n))
          else Inr (q, off)) = Inr (gotProps pk n q, off + length (block pk n))"
proof (cases "pkProtocolVersion pk = 5")
  case True
  then have "decodeProps q buf off = Inr (pkProperties_update (\<lambda>_. sentProps pk n) q, length (encodeProps pk n))"
    using assms by (intro decodeProps_at [where pre = pre and post = post]) (auto simp: block_def)
  then show ?thesis using True assms(7) by (simp add: block_def gotProps_def)
qed (simp add: assms(7) block_def gotProps_def)

lemma slice_from_at: "buf = pre @ post \<Longrightarrow> off = length pre \<Longrightarrow> slice_from buf off = Inr post"
  by (simp add: slice_from_def)

lemma publish_carries:
  assumes "text_ok (pkTopicName pk)" "properties_ok (pkProperties pk)"
  defines "n \<equiv> length (pkTopicName pk) + 2 + (if fhQos (pkFixedHeader pk) > 0 then 2 else 0)
                + length (pkPayload pk)"
  shows "carries PublishEncode PublishDecode pk
    (\<lambda>q. pkPayload_update (\<lambda>_. pkPayload pk) (gotProps pk n
       ((if fhQos (pkFixedHeader pk) > 0 then pkPacketID_update (\<lambda>_. pkPacketID pk) else (\<lambda>q. q))
         (pkTopicName_update (\<lambda>_. pkTopicName pk) q))))"
proof (rule carriesI)
  fix fh body
  assume f: "framed pk (PublishEncode pk) fh body"
  let ?q = "fhQos (pkFixedHeader pk) > 0"
  let ?topic = "encodeString (pkTopicName pk)"
  define ident where "ident = (if ?q then encodeUint16 (pkPacketID pk) else [])"
  have body: "body = ?topic @ ident @ block pk n @ pkPayload pk" and len: "length body \<le> 268435455"
    using f unfolding PublishEncode_def Let_def ident_def n_def block_def
    by (auto simp: framed_emit framed_def [of _ "Inl _"] split: if_splits)
  have hdr: "fhType fh = fhType (pkFixedHeader pk)" "fhQos fh = fhQos (pkFixedHeader pk)"
    using framed_type [OF f] framed_qos [OF f] .
  let ?r = "pkTopicName_update (\<lambda>_. pkTopicName pk) (received (pkProtocolVersion pk) fh)"
  let ?r' = "(if ?q then pkPacketID_update (\<lambda>_. pkPacketID pk) else (\<lambda>q. q)) ?r"
  have 1: "decodeString body 0 = Inr (pkTopicName pk, length ?topic)"
    unfolding body by (rule string_field.dec_enc_start [OF assms(1)])
  have 2: "(if fhQos (pkFixedHeader ?r) > 0 then
             check (decodeUint16 body (length ?topic)) (\<lambda>err. EWrap err ErrMalformedPacketID) (\<lambda>(pid, offset).
             Inr (pkPacketID_update (\<lambda>_. pid) ?r, offset))
           else Inr (?r, length ?topic)) = Inr (?r', length ?topic + length ident)"
    using uint16_field.dec_enc_at [where x = "pkPacketID pk" and buf = body and pre = ?topic
        and post = "block pk n @ pkPayload pk"]
    by (simp add: hdr ident_def body)
  have 3: "(if pkProtocolVersion ?r' = 5
          then check (decodeProps ?r' body (length ?topic + length ident)) (\<lambda>err. err)
                 (\<lambda>(pk, m). Inr (pk, length ?topic + length ident + m))
          else Inr (?r', length ?topic + length ident))
      = Inr (gotProps pk n ?r', length ?topic + length ident + length (block pk n))"
    by (rule block_at [where pre = "?topic @ ident" and post = "pkPayload pk"])
       (use assms(2) len in \<open>simp_all add: body hdr\<close>)
  have 4: "slice_from body (length ?topic + length ident + length (block pk n)) = Inr (pkPayload pk)"
    by (rule slice_from_at [where pre = "?topic @ ident @ block pk n"]) (simp_all add: body)
  show "PublishDecode (received (pkProtocolVersion pk) fh) body
      = Inr (pkPayload_update (\<lambda>_. pkPayload pk) (gotProps pk n ?r'))"
    unfolding PublishDecode_def 1 check_simps prod.case Let_def 2 3 4 ..
qed

lemma gotProps_empty:
  assumes "properties_ok (pkProperties pk)" "length (encodeProps pk n) \<le> 1"
    and "pkProperties q = no_properties"
  shows "gotProps pk n q = q"
proof -
  have "sentProps pk n = no_properties"
    using Properties_Encode_empty assms(1,2) unfolding sentProps_def encodeProps_def by blast
  then show ?thesis using assms(3) by (simp add: gotProps_def)
qed

text \<open>
  The four acknowledgements.  The reason code travels in protocol version 5 when it is an error
  or when there are properties; any other reason code arrives as success.
\<close>

definition reason_sent :: "packet \<Rightarrow> bool" where
  "reason_sent pk \<longleftrightarrow> pkProtocolVersion pk = 5
     \<and> (pkReasonCode pk \<ge> 0x80 \<or> length (encodeProps pk 2) > 1)"

lemma ack_carries:
  assumes "properties_ok (pkProperties pk)"
  shows "carries encodePubAckRelRecComp decodePubAckRelRecComp pk
    (\<lambda>q. gotProps pk 2
       ((if reason_sent pk then pkReasonCode_update (\<lambda>_. pkReasonCode pk) else (\<lambda>q. q))
         (pkPacketID_update (\<lambda>_. pkPacketID pk) q)))"
proof (rule carriesI)
  fix fh body
  assume f: "framed pk (encodePubAckRelRecComp pk) fh body"
  let ?id = "encodeUint16 (pkPacketID pk)"
  let ?v5 = "pkProtocolVersion pk = 5"
  define pb where "pb = encodeProps pk 2"
  have body: "body = ?id @ (if reason_sent pk then [pkReasonCode pk] else [])
      @ (if ?v5 \<and> length pb > 1 then pb else [])" and len: "length body \<le> 268435455"
    using f unfolding encodePubAckRelRecComp_def Let_def reason_sent_def pb_def
    by (auto simp: framed_emit split: if_splits)
  have hdr: "fhType fh = fhType (pkFixedHeader pk)" "fhRemaining fh = length body"
    using framed_type [OF f] framed_remaining [OF f] .
  let ?r = "pkPacketID_update (\<lambda>_. pkPacketID pk) (received (pkProtocolVersion pk) fh)"
  let ?r' = "pkReasonCode_update (\<lambda>_. pkReasonCode pk) ?r"
  have 1: "decodeUint16 body 0 = Inr (pkPacketID pk, length ?id)"
    unfolding body by (rule uint16_field.dec_enc_start) simp
  consider (none) "\<not> reason_sent pk" | (reason) "reason_sent pk" "length pb \<le> 1"
    | (props) "reason_sent pk" "length pb > 1" by linarith
  then show "decodePubAckRelRecComp (received (pkProtocolVersion pk) fh) body
      = Inr (gotProps pk 2 ((if reason_sent pk then pkReasonCode_update (\<lambda>_. pkReasonCode pk)
          else (\<lambda>q. q)) ?r))"
  proof cases
    case none
    then have np: "?v5 \<longrightarrow> length pb \<le> 1" by (auto simp: reason_sent_def pb_def not_less)
    then have "gotProps pk 2 ?r = ?r"
      using gotProps_empty [OF assms, of 2 ?r] by (cases ?v5) (simp_all add: pb_def gotProps_def)
    moreover have "\<not> (?v5 \<and> fhRemaining fh > 2)"
      using none np by (auto simp: hdr body)
    ultimately show ?thesis
      using none unfolding decodePubAckRelRecComp_def 1 by (auto simp: Let_def)
  next
    case reason
    then have "gotProps pk 2 ?r' = ?r'"
      using gotProps_empty [OF assms, of 2 ?r'] by (simp add: pb_def)
    moreover have "body = ?id @ [pkReasonCode pk] @ []" using reason by (simp add: body)
    then have "decodeByte body (length ?id) = Inr (pkReasonCode pk, length ?id + 1)"
      using byte_field.dec_enc [where x = "pkReasonCode pk" and pre = ?id and post = "[]"] by simp
    ultimately show ?thesis
      using reason unfolding decodePubAckRelRecComp_def 1
      by (simp add: Let_def hdr(2) body reason_sent_def)
  next
    case props
    then have v5: ?v5 by (simp add: reason_sent_def)
    have b: "body = ?id @ [pkReasonCode pk] @ pb" using props v5 by (simp add: body)
    have 2: "decodeByte body (length ?id) = Inr (pkReasonCode pk, length ?id + 1)"
      unfolding b by (subst byte_field.dec_enc) simp_all
    have 3: "decodeProps ?r' body (length ?id + 1)
        = Inr (pkProperties_update (\<lambda>_. sentProps pk 2) ?r', length (encodeProps pk 2))"
      by (rule decodeProps_at [where pre = "?id @ [pkReasonCode pk]" and post = "[]"])
         (use assms len hdr in \<open>simp_all add: b pb_def\<close>)
    show ?thesis
      using props v5 2 3 unfolding decodePubAckRelRecComp_def 1
      by (auto simp: Let_def hdr(2) b gotProps_def)
  qed
qed

lemma suback_carries:
  assumes "properties_ok (pkProperties pk)"
  shows "carries SubackEncode SubackDecode pk
    (\<lambda>q. pkReasonCodes_update (\<lambda>_. pkReasonCodes pk)
       (gotProps pk (2 + length (pkReasonCodes pk)) (pkPacketID_update (\<lambda>_. pkPacketID pk) q)))"
proof (rule carriesI)
  fix fh body
  assume f: "framed pk (SubackEncode pk) fh body"
  let ?id = "encodeUint16 (pkPacketID pk)" and ?n = "2 + length (pkReasonCodes pk)"
  have body: "body = ?id @ block pk ?n @ pkReasonCodes pk" and len: "length body \<le> 268435455"
    using f unfolding SubackEncode_def Let_def block_def by (auto simp: framed_emit split: if_splits)
  let ?r = "pkPacketID_update (\<lambda>_. pkPacketID pk) (received (pkProtocolVersion pk) fh)"
  have 1: "decodeUint16 body 0 = Inr (pkPacketID pk, length ?id)"
    unfolding body by (rule uint16_field.dec_enc_start) simp
  have 2: "(if pkProtocolVersion ?r = 5
          then check (decodeProps ?r body (length ?id)) (\<lambda>err. err) (\<lambda>(pk, m). Inr (pk, length ?id + m))
          else Inr (?r, length ?id)) = Inr (gotProps pk ?n ?r, length ?id + length (block pk ?n))"
    by (rule block_at [where pre = ?id and post = "pkReasonCodes pk"])
       (use assms len framed_type [OF f] in \<open>simp_all add: body\<close>)
  have 3: "slice_from body (length ?id + length (block pk ?n)) = Inr (pkReasonCodes pk)"
    by (rule slice_from_at [where pre = "?id @ block pk ?n"]) (simp_all add: body)
  show "SubackDecode (received (pkProtocolVersion pk) fh) body
      = Inr (pkReasonCodes_update (\<lambda>_. pkReasonCodes pk) (gotProps pk ?n ?r))"
    unfolding SubackDecode_def 1 check_simps prod.case Let_def 2 3 ..
qed

lemma unsuback_carries:
  assumes "properties_ok (pkProperties pk)"
  shows "carries UnsubackEncode UnsubackDecode pk
    (\<lambda>q. (if pkProtocolVersion pk = 5 then pkReasonCodes_update (\<lambda>_. pkReasonCodes pk) else (\<lambda>q. q))
       (gotProps pk 2 (pkPacketID_update (\<lambda>_. pkPacketID pk) q)))"
proof (rule carriesI)
  fix fh body
  assume f: "framed pk (UnsubackEncode pk) fh body"
  let ?id = "encodeUint16 (pkPacketID pk)"
  have body: "body = ?id @ (if pkProtocolVersion pk = 5 then encodeProps pk 2 @ pkReasonCodes pk else [])"
    and len: "length body \<le> 268435455"
    using f unfolding UnsubackEncode_def Let_def by (auto simp: framed_emit split: if_splits)
  let ?r = "pkPacketID_update (\<lambda>_. pkPacketID pk) (received (pkProtocolVersion pk) fh)"
  have 1: "decodeUint16 body 0 = Inr (pkPacketID pk, length ?id)"
    unfolding body by (rule uint16_field.dec_enc_start) simp
  show "UnsubackDecode (received (pkProtocolVersion pk) fh) body
      = Inr ((if pkProtocolVersion pk = 5 then pkReasonCodes_update (\<lambda>_. pkReasonCodes pk)
          else (\<lambda>q. q)) (gotProps pk 2 ?r))"
  proof (cases "pkProtocolVersion pk = 5")
    case True
    then have b: "body = ?id @ encodeProps pk 2 @ pkReasonCodes pk" by (simp add: body)
    have 2: "decodeProps ?r body (length ?id)
        = Inr (pkProperties_update (\<lambda>_. sentProps pk 2) ?r, length (encodeProps pk 2))"
      by (rule decodeProps_at [where pre = ?id and post = "pkReasonCodes pk"])
         (use assms len framed_type [OF f] in \<open>simp_all add: b\<close>)
    have 3: "slice_from body (length ?id + length (encodeProps pk 2)) = Inr (pkReasonCodes pk)"
      by (rule slice_from_at [where pre = "?id @ encodeProps pk 2"]) (simp_all add: b)
    show ?thesis
      using True unfolding UnsubackDecode_def 1 check_simps prod.case Let_def 2 3
      by (simp add: gotProps_def 2 3 del: length_encodeUint16)
  qed (simp add: UnsubackDecode_def 1 Let_def gotProps_def)
qed

lemma subscribe_carries:
  assumes "properties_ok (pkProperties pk)" "list_all sub_ok (pkFilters pk)"
  defines "n \<equiv> 2 + length (concat (map (encode_subscribe_filter (pkProtocolVersion pk)) (pkFilters pk)))"
  shows "carries SubscribeEncode SubscribeDecode pk
    (\<lambda>q. pkFilters_update (\<lambda>_. map (sub_received (pkProtocolVersion pk)
           (if pkProtocolVersion pk = 5 then pSubscriptionIdentifier (sentProps pk n) else []))
           (pkFilters pk))
       (gotProps pk n (pkPacketID_update (\<lambda>_. pkPacketID pk) q)))"
proof (rule carriesI)
  fix fh body
  assume f: "framed pk (SubscribeEncode pk) fh body"
  let ?id = "encodeUint16 (pkPacketID pk)"
  let ?xb = "concat (map (encode_subscribe_filter (pkProtocolVersion pk)) (pkFilters pk))"
  have body: "body = ?id @ block pk n @ ?xb" and len: "length body \<le> 268435455"
    using f unfolding SubscribeEncode_def Let_def block_def n_def
    by (auto simp: framed_emit framed_def [of _ "Inl _"] split: if_splits)
  let ?r = "pkPacketID_update (\<lambda>_. pkPacketID pk) (received (pkProtocolVersion pk) fh)"
  let ?sids = "if pkProtocolVersion pk = 5 then pSubscriptionIdentifier (sentProps pk n) else []"
  have 1: "decodeUint16 body 0 = Inr (pkPacketID pk, length ?id)"
    unfolding body by (rule uint16_field.dec_enc_start) simp
  have 2: "(if pkProtocolVersion ?r = 5
          then check (decodeProps ?r body (length ?id)) (\<lambda>err. err) (\<lambda>(pk, m). Inr (pk, length ?id + m))
          else Inr (?r, length ?id)) = Inr (gotProps pk n ?r, length ?id + length (block pk n))"
    by (rule block_at [where pre = ?id and post = ?xb])
       (use assms(1) len framed_type [OF f] in \<open>simp_all add: body\<close>)
  have sids: "pSubscriptionIdentifier (pkProperties (gotProps pk n ?r)) = ?sids"
      "pkProtocolVersion (gotProps pk n ?r) = pkProtocolVersion pk"
    by (simp_all add: gotProps_def no_properties_def)
  have 3: "decode_subscribe_filters (pkProtocolVersion pk) ?sids body (length ?id + length (block pk n)) []
      = Inr (map (sub_received (pkProtocolVersion pk) ?sids) (pkFilters pk))"
    by (rule decode_subscribe_filters_at [where pre = "?id @ block pk n"])
       (use assms(2) in \<open>simp_all add: body\<close>)
  show "SubscribeDecode (received (pkProtocolVersion pk) fh) body
      = Inr (pkFilters_update (\<lambda>_. map (sub_received (pkProtocolVersion pk) ?sids) (pkFilters pk))
          (gotProps pk n ?r))"
    unfolding SubscribeDecode_def 1 check_simps prod.case Let_def 2 sids 3 ..
qed

lemma unsubscribe_carries:
  assumes "properties_ok (pkProperties pk)" "list_all (\<lambda>s. text_ok (sFilter s)) (pkFilters pk)"
  defines "n \<equiv> 2 + length (concat (map (\<lambda>s. encodeString (sFilter s)) (pkFilters pk)))"
  shows "carries UnsubscribeEncode UnsubscribeDecode pk
    (\<lambda>q. pkFilters_update (\<lambda>_. map (\<lambda>s. sFilter_update (\<lambda>_. sFilter s) no_subscription) (pkFilters pk))
       (gotProps pk n (pkPacketID_update (\<lambda>_. pkPacketID pk) q)))"
proof (rule carriesI)
  fix fh body
  assume f: "framed pk (UnsubscribeEncode pk) fh body"
  let ?id = "encodeUint16 (pkPacketID pk)"
  let ?xb = "concat (map (\<lambda>s. encodeString (sFilter s)) (pkFilters pk))"
  have body: "body = ?id @ block pk n @ ?xb" and len: "length body \<le> 268435455"
    using f unfolding UnsubscribeEncode_def Let_def block_def n_def
    by (auto simp: framed_emit framed_def [of _ "Inl _"] split: if_splits)
  let ?r = "pkPacketID_update (\<lambda>_. pkPacketID pk) (received (pkProtocolVersion pk) fh)"
  have 1: "decodeUint16 body 0 = Inr (pkPacketID pk, length ?id)"
    unfolding body by (rule uint16_field.dec_enc_start) simp
  have 2: "(if pkProtocolVersion ?r = 5
          then check (decodeProps ?r body (length ?id)) (\<lambda>err. err) (\<lambda>(pk, m). Inr (pk, length ?id + m))
          else Inr (?r, length ?id)) = Inr (gotProps pk n ?r, length ?id + length (block pk n))"
    by (rule block_at [where pre = ?id and post = ?xb])
       (use assms(1) len framed_type [OF f] in \<open>simp_all add: body\<close>)
  have 3: "decode_unsubscribe_filters body (length ?id + length (block pk n)) []
      = Inr (map (\<lambda>s. sFilter_update (\<lambda>_. sFilter s) no_subscription) (pkFilters pk))"
    by (rule decode_unsubscribe_filters_at [where pre = "?id @ block pk n"])
       (use assms(2) in \<open>simp_all add: body\<close>)
  show "UnsubscribeDecode (received (pkProtocolVersion pk) fh) body
      = Inr (pkFilters_update (\<lambda>_. map (\<lambda>s. sFilter_update (\<lambda>_. sFilter s) no_subscription) (pkFilters pk))
          (gotProps pk n ?r))"
    unfolding UnsubscribeDecode_def 1 check_simps prod.case Let_def 2 3 ..
qed

lemma connack_carries:
  assumes "properties_ok (pkProperties pk)"
  shows "carries ConnackEncode ConnackDecode pk
    (\<lambda>q. gotProps pk 4 (pkReasonCode_update (\<lambda>_. pkReasonCode pk)
           (pkSessionPresent_update (\<lambda>_. pkSessionPresent pk) q)))"
proof (rule carriesI)
  fix fh body
  assume f: "framed pk (ConnackEncode pk) fh body"
  let ?pre = "[encodeBool (pkSessionPresent pk)] @ [pkReasonCode pk]"
  have four: "Suc (Suc (Suc (Suc 0))) = 4" by simp
  have body: "body = ?pre @ block pk 4" and len: "length body \<le> 268435455"
    using f unfolding ConnackEncode_def Let_def block_def
    by (auto simp: framed_emit four split: if_splits)
  let ?r = "pkReasonCode_update (\<lambda>_. pkReasonCode pk)
      (pkSessionPresent_update (\<lambda>_. pkSessionPresent pk) (received (pkProtocolVersion pk) fh))"
  have 1: "decodeByteBool body 0 = Inr (pkSessionPresent pk, 1)"
    using bool_field.dec_enc_start [where x = "pkSessionPresent pk" and post = "pkReasonCode pk # block pk 4"]
    by (simp add: body)
  have 2: "decodeByte body 1 = Inr (pkReasonCode pk, 2)"
    by (simp add: decodeByte_def body)
  show "ConnackDecode (received (pkProtocolVersion pk) fh) body = Inr (gotProps pk 4 ?r)"
  proof (cases "pkProtocolVersion pk = 5")
    case True
    have "decodeProps ?r body 2 = Inr (pkProperties_update (\<lambda>_. sentProps pk 4) ?r, length (encodeProps pk 4))"
      by (rule decodeProps_at [where pre = ?pre and post = "[]"])
         (use assms len framed_type [OF f] True in \<open>simp_all add: body block_def\<close>)
    then show ?thesis
      using True by (simp add: ConnackDecode_def 1 2 gotProps_def Let_def del: One_nat_def)
  qed (simp add: ConnackDecode_def 1 2 gotProps_def Let_def del: One_nat_def)
qed

lemma disconnect_carries:
  assumes "properties_ok (pkProperties pk)"
  shows "carries DisconnectEncode DisconnectDecode pk
    (\<lambda>q. gotProps pk 1 ((if pkProtocolVersion pk = 5 then pkReasonCode_update (\<lambda>_. pkReasonCode pk)
           else (\<lambda>q. q)) q))"
proof (rule carriesI)
  fix fh body
  assume f: "framed pk (DisconnectEncode pk) fh body"
  have body: "body = (if pkProtocolVersion pk = 5 then [pkReasonCode pk] @ encodeProps pk 1 else [])"
    and len: "length body \<le> 268435455"
    using f unfolding DisconnectEncode_def Let_def by (auto simp: framed_emit split: if_splits)
  have hdr: "fhRemaining fh = length body" using framed_remaining [OF f] .
  let ?r = "pkReasonCode_update (\<lambda>_. pkReasonCode pk) (received (pkProtocolVersion pk) fh)"
  show "DisconnectDecode (received (pkProtocolVersion pk) fh) body
      = Inr (gotProps pk 1 ((if pkProtocolVersion pk = 5 then pkReasonCode_update (\<lambda>_. pkReasonCode pk)
          else (\<lambda>q. q)) (received (pkProtocolVersion pk) fh)))"
  proof (cases "pkProtocolVersion pk = 5")
    case True
    then have b: "body = [pkReasonCode pk] @ encodeProps pk 1" by (simp add: body)
    have 1: "decodeByte body 0 = Inr (pkReasonCode pk, 1)" by (simp add: decodeByte_def b)
    have rem: "fhRemaining fh = 1 + length (encodeProps pk 1)" by (simp add: hdr b)
    have ne: "encodeProps pk 1 \<noteq> []" by (simp add: encodeProps_def Properties_Encode_def Let_def)
    show ?thesis
    proof (cases "length (encodeProps pk 1) > 1")
      case big: True
      have "decodeProps ?r body 1 = Inr (pkProperties_update (\<lambda>_. sentProps pk 1) ?r, length (encodeProps pk 1))"
        by (rule decodeProps_at [where pre = "[pkReasonCode pk]" and post = "[]"])
           (use assms len framed_type [OF f] in \<open>simp_all add: b\<close>)
      then show ?thesis
        using True big
        by (auto simp add: DisconnectDecode_def 1 rem gotProps_def Let_def simp del: One_nat_def)
    next
      case False
      then have "gotProps pk 1 ?r = ?r" by (intro gotProps_empty [OF assms]) simp_all
      then show ?thesis
        using True False ne
        by (auto simp add: DisconnectDecode_def 1 rem Let_def simp del: One_nat_def)
    qed
  qed (simp add: DisconnectDecode_def gotProps_def)
qed

lemma auth_carries:
  assumes "properties_ok (pkProperties pk)"
  shows "carries AuthEncode AuthDecode pk
    (\<lambda>q. pkProperties_update (\<lambda>_. sentProps pk 1) (pkReasonCode_update (\<lambda>_. pkReasonCode pk) q))"
proof (rule carriesI)
  fix fh body
  assume f: "framed pk (AuthEncode pk) fh body"
  have body: "body = [pkReasonCode pk] @ encodeProps pk 1" and len: "length body \<le> 268435455"
    using f unfolding AuthEncode_def Let_def by (auto simp: framed_emit)
  let ?r = "pkReasonCode_update (\<lambda>_. pkReasonCode pk) (received (pkProtocolVersion pk) fh)"
  have 1: "decodeByte body 0 = Inr (pkReasonCode pk, 1)" by (simp add: decodeByte_def body)
  have 2: "decodeProps ?r body 1 = Inr (pkProperties_update (\<lambda>_. sentProps pk 1) ?r, length (encodeProps pk 1))"
    by (rule decodeProps_at [where pre = "[pkReasonCode pk]" and post = "[]"])
       (use assms len framed_type [OF f] in \<open>simp_all add: body\<close>)
  show "AuthDecode (received (pkProtocolVersion pk) fh) body
      = Inr (pkProperties_update (\<lambda>_. sentProps pk 1) ?r)"
    by (simp add: AuthDecode_def 1 2 del: One_nat_def)
qed

text \<open>Connect: the flag byte, the will and the credentials.\<close>

definition connect_bits :: "bool \<Rightarrow> bool \<Rightarrow> byte \<Rightarrow> bool \<Rightarrow> bool \<Rightarrow> bool \<Rightarrow> byte" where
  "connect_bits clean will q retain pass user =
     push_bit 1 (encodeBool clean) OR push_bit 2 (encodeBool will) OR push_bit 3 q
     OR push_bit 5 (encodeBool retain) OR push_bit 6 (encodeBool pass) OR push_bit 7 (encodeBool user)
     OR 0"

lemma connect_bits_table:
  "list_all (\<lambda>q. list_all (\<lambda>c. list_all (\<lambda>w. list_all (\<lambda>r. list_all (\<lambda>p. list_all (\<lambda>u.
     (let b = connect_bits c w q r p u in
      1 AND b = 0 \<and> (1 AND drop_bit 1 b > 0) = c \<and> (1 AND drop_bit 2 b > 0) = w
      \<and> 3 AND drop_bit 3 b = q \<and> (1 AND drop_bit 5 b > 0) = r \<and> (1 AND drop_bit 6 b > 0) = p
      \<and> (1 AND drop_bit 7 b > 0) = u))
     [False, True]) [False, True]) [False, True]) [False, True]) [False, True]) [0, 1, 2, 3]"
  by code_simp

lemma connect_flags_bits:
  assumes "q \<le> 3"
  shows "connect_flags (connect_bits c w q r p u) pk =
    pkConnect_update (\<lambda>cn. cn\<lparr>cClean := c, cWillFlag := w, cWillQos := q, cWillRetain := r,
       cPasswordFlag := p, cUsernameFlag := u\<rparr>) (pkReservedBit_update (\<lambda>_. 0) pk)"
proof -
  define b where "b = connect_bits c w q r p u"
  have "q \<in> set [0, 1, 2, 3]" "c \<in> set [False, True]" "w \<in> set [False, True]"
      "r \<in> set [False, True]" "p \<in> set [False, True]" "u \<in> set [False, True]"
    using byte_le_3D [OF assms] by auto
  then have "1 AND b = 0 \<and> (1 AND drop_bit 1 b > 0) = c \<and> (1 AND drop_bit 2 b > 0) = w
      \<and> 3 AND drop_bit 3 b = q \<and> (1 AND drop_bit 5 b > 0) = r \<and> (1 AND drop_bit 6 b > 0) = p
      \<and> (1 AND drop_bit 7 b > 0) = u"
    unfolding b_def using connect_bits_table unfolding list_all_iff Let_def by blast
  then show ?thesis unfolding connect_flags_def b_def [symmetric] by simp
qed

definition connect_ok :: "packet \<Rightarrow> bool" where
  "connect_ok pk \<longleftrightarrow> (let c = pkConnect pk in
     short (cProtocolName c) \<and> text_ok (cClientIdentifier c) \<and> cWillQos c \<le> 3
     \<and> properties_ok (pkProperties pk)
     \<and> (cWillFlag c \<longrightarrow> text_ok (cWillTopic c) \<and> short (cWillPayload c)
          \<and> properties_ok (cWillProperties c))
     \<and> (cUsernameFlag c \<longrightarrow> short (cUsername c)) \<and> (cPasswordFlag c \<longrightarrow> short (cPassword c)))"

definition will_block :: "packet \<Rightarrow> byte list" where
  "will_block pk = (let c = pkConnect pk in
     if cWillFlag c
     then (if pkProtocolVersion pk = 5
           then Properties_Encode (cWillProperties c) WillProperties (pkMods pk) 0 else [])
          @ encodeString (cWillTopic c) @ encodeBytes (cWillPayload c)
     else [])"

definition credentials_block :: "packet \<Rightarrow> byte list" where
  "credentials_block pk = (let c = pkConnect pk in
     (if cUsernameFlag c then encodeBytes (cUsername c) else [])
     @ (if cPasswordFlag c then encodeBytes (cPassword c) else []))"

definition got_will :: "packet \<Rightarrow> packet \<Rightarrow> packet" where
  "got_will pk q = (let c = pkConnect pk in
     if cWillFlag c
     then pkConnect_update (\<lambda>cn. cn\<lparr>cWillTopic := cWillTopic c, cWillPayload := cWillPayload c,
            cWillProperties := (if pkProtocolVersion pk = 5
              then Properties_sent (cWillProperties c) WillProperties (pkMods pk) 0
              else no_properties)\<rparr>) q
     else q)"

definition got_credentials :: "packet \<Rightarrow> packet \<Rightarrow> packet" where
  "got_credentials pk q = (let c = pkConnect pk;
       q = (if cUsernameFlag c then pkConnect_update (cUsername_update (\<lambda>_. cUsername c)) q else q)
     in if cPasswordFlag c then pkConnect_update (cPassword_update (\<lambda>_. cPassword c)) q else q)"

text \<open>The connect parameters that arrive: what the flags leave out is empty.\<close>

definition connect_sent :: "packet \<Rightarrow> connect_params" where
  "connect_sent pk = (let c = pkConnect pk; w = cWillFlag c in
     \<lparr>cWillProperties = (if w \<and> pkProtocolVersion pk = 5
        then Properties_sent (cWillProperties c) WillProperties (pkMods pk) 0 else no_properties),
      cPassword = (if cPasswordFlag c then cPassword c else []),
      cUsername = (if cUsernameFlag c then cUsername c else []),
      cProtocolName = cProtocolName c,
      cWillPayload = (if w then cWillPayload c else []),
      cClientIdentifier = cClientIdentifier c,
      cWillTopic = (if w then cWillTopic c else []),
      cKeepalive = cKeepalive c, cPasswordFlag = cPasswordFlag c, cUsernameFlag = cUsernameFlag c,
      cWillQos = cWillQos c, cWillFlag = w, cWillRetain = cWillRetain c, cClean = cClean c\<rparr>)"

lemma will_at:
  assumes "connect_ok pk" "length buf \<le> 268435455"
    and "buf = pre @ will_block pk @ post" "off = length pre"
    and "cWillFlag (pkConnect q) = cWillFlag (pkConnect pk)"
    and "cWillProperties (pkConnect q) = no_properties" "pkProtocolVersion q = pkProtocolVersion pk"
  shows "ConnectDecode_will q buf off = Inr (got_will pk q, off + length (will_block pk))"
proof (cases "cWillFlag (pkConnect pk)")
  case False
  then show ?thesis using assms(5) by (simp add: ConnectDecode_will_def got_will_def will_block_def)
next
  case True
  let ?c = "pkConnect pk"
  define pb where "pb = (if pkProtocolVersion pk = 5
    then Properties_Encode (cWillProperties ?c) WillProperties (pkMods pk) 0 else [])"
  let ?topic = "encodeString (cWillTopic ?c)" and ?load = "encodeBytes (cWillPayload ?c)"
  have ok: "text_ok (cWillTopic ?c)" "short (cWillPayload ?c)" "properties_ok (cWillProperties ?c)"
    using assms(1) True by (simp_all add: connect_ok_def Let_def)
  have buf: "buf = pre @ pb @ ?topic @ ?load @ post"
    using assms(3) True by (simp add: will_block_def pb_def Let_def)
  define q' where "q' = (if pkProtocolVersion pk = 5
    then pkConnect_update (cWillProperties_update
           (\<lambda>_. Properties_sent (cWillProperties ?c) WillProperties (pkMods pk) 0)) q else q)"
  have 1: "(if pkProtocolVersion q = 5 then
              check (slice_from buf off) (\<lambda>err. err) (\<lambda>b.
              check (Properties_Decode (cWillProperties (pkConnect q)) WillProperties b)
                (\<lambda>_. ECode ErrMalformedWillProperties) (\<lambda>(props, n).
              Inr (pkConnect_update (cWillProperties_update (\<lambda>_. props)) q, off + n)))
            else Inr (q, off)) = Inr (q', off + length pb)"
  proof (cases "pkProtocolVersion pk = 5")
    case v5: True
    have "length pb \<le> 268435455" using assms(2) by (simp add: buf)
    then have "Properties_Decode no_properties WillProperties (pb @ ?topic @ ?load @ post)
        = Inr (Properties_sent (cWillProperties ?c) WillProperties (pkMods pk) 0, length pb)"
      using ok(3) v5 unfolding pb_def by (simp add: Properties_Decode_block)
    moreover have "slice_from buf off = Inr (pb @ ?topic @ ?load @ post)"
      by (rule slice_from_at [OF buf assms(4)])
    ultimately show ?thesis using v5 assms(6,7) by (simp add: q'_def)
  qed (simp add: q'_def pb_def assms(7))
  have 2: "decodeString buf (off + length pb) = Inr (cWillTopic ?c, off + length pb + length ?topic)"
    by (rule string_field.dec_enc_at [where pre = "pre @ pb" and post = "?load @ post"])
       (simp_all add: ok buf assms(4))
  have 3: "decodeBytes buf (off + length pb + length ?topic)
      = Inr (cWillPayload ?c, off + length pb + length ?topic + length ?load)"
    by (rule bytes_field.dec_enc_at [where pre = "pre @ pb @ ?topic" and post = "post"])
       (simp_all add: ok buf assms(4))
  have len: "length (will_block pk) = length pb + (length ?topic + length ?load)"
    using True by (simp add: will_block_def pb_def Let_def)
  have q': "pkConnect_update (cWillTopic_update (\<lambda>_. cWillTopic ?c)
        \<circ> cWillPayload_update (\<lambda>_. cWillPayload ?c)) q' = got_will pk q"
    using True assms(6) by (cases q; cases "pkConnect q") (simp add: got_will_def q'_def Let_def)
  show ?thesis
    using True assms(5) q' unfolding ConnectDecode_will_def 1 check_simps prod.case 2 3
    by (simp add: len add.assoc)
qed

lemma credentials_at:
  assumes "connect_ok pk" "buf = pre @ credentials_block pk" "off = length pre"
    and "cUsernameFlag (pkConnect q) = cUsernameFlag (pkConnect pk)"
    and "cPasswordFlag (pkConnect q) = cPasswordFlag (pkConnect pk)"
  shows "ConnectDecode_credentials q buf off = Inr (got_credentials pk q)"
proof -
  let ?c = "pkConnect pk"
  define ub where "ub = (if cUsernameFlag ?c then encodeBytes (cUsername ?c) else [])"
  define pb where "pb = (if cPasswordFlag ?c then encodeBytes (cPassword ?c) else [])"
  define q' where "q' = (if cUsernameFlag ?c
    then pkConnect_update (cUsername_update (\<lambda>_. cUsername ?c)) q else q)"
  have ok: "cUsernameFlag ?c \<Longrightarrow> short (cUsername ?c)" "cPasswordFlag ?c \<Longrightarrow> short (cPassword ?c)"
    using assms(1) by (simp_all add: connect_ok_def Let_def)
  have buf: "buf = pre @ ub @ pb" using assms(2) by (simp add: credentials_block_def ub_def pb_def Let_def)
  have 1: "(if cUsernameFlag (pkConnect q) then
              (if off \<ge> length buf then Inl (ECode ErrProtocolViolationFlagNoUsername)
               else check (decodeBytes buf off) (\<lambda>_. ECode ErrMalformedUsername) (\<lambda>(user, offset).
                    Inr (pkConnect_update (cUsername_update (\<lambda>_. user)) q, offset)))
            else Inr (q, off)) = Inr (q', off + length ub)"
  proof (cases "cUsernameFlag ?c")
    case True
    then have "decodeBytes buf off = Inr (cUsername ?c, off + length ub)"
      unfolding ub_def using ok buf assms(3)
      by (simp only: if_True) (rule bytes_field.dec_enc_at [where pre = pre and post = pb], simp_all add: ub_def)
    moreover have "off < length buf" using True by (simp add: buf assms(3) ub_def)
    ultimately show ?thesis using True assms(4) by (simp add: q'_def)
  qed (simp add: q'_def ub_def assms(4))
  have pf: "cPasswordFlag (pkConnect q') = cPasswordFlag ?c" using assms(5) by (simp add: q'_def)
  show ?thesis
  proof (cases "cPasswordFlag ?c")
    case True
    have "decodeBytes buf (off + length ub) = Inr (cPassword ?c, off + length ub + length (encodeBytes (cPassword ?c)))"
      by (rule bytes_field.dec_enc_at [where pre = "pre @ ub" and post = "[]"])
         (use True ok in \<open>simp_all add: buf assms(3) pb_def\<close>)
    then show ?thesis
      using True unfolding ConnectDecode_credentials_def 1 check_simps prod.case
      by (simp add: pf) (simp add: got_credentials_def q'_def Let_def)
  next
    case False
    then show ?thesis
      unfolding ConnectDecode_credentials_def 1 check_simps prod.case
      by (simp add: pf) (simp add: got_credentials_def q'_def Let_def)
  qed
qed

lemma connect_received:
  assumes ok: "connect_ok pk" and f: "framed pk (ConnectEncode pk) fh body"
  shows "ConnectDecode (received v fh) body =
    Inr (gotProps pk 0 (pkConnect_update (\<lambda>_. connect_sent pk) (received (pkProtocolVersion pk) fh)))"
proof -
  let ?c = "pkConnect pk"
  let ?flags = "connect_bits (cClean ?c) (cWillFlag ?c) (cWillQos ?c) (cWillRetain ?c)
     (cPasswordFlag ?c) (cUsernameFlag ?c)"
  let ?name = "encodeBytes (cProtocolName ?c)" and ?ka = "encodeUint16 (cKeepalive ?c)"
    and ?id = "encodeString (cClientIdentifier ?c)"
  have body: "body = ?name @ [pkProtocolVersion pk] @ [?flags] @ ?ka @ block pk 0 @ ?id
      @ will_block pk @ credentials_block pk" and len: "length body \<le> 268435455"
    using f unfolding ConnectEncode_def Let_def framed_emit
    by (simp_all add: block_def connect_bits_def will_block_def credentials_block_def Let_def)
  have okc: "short (cProtocolName ?c)" "text_ok (cClientIdentifier ?c)" "cWillQos ?c \<le> 3"
      "properties_ok (pkProperties pk)"
    using ok by (simp_all add: connect_ok_def Let_def)
  let ?o1 = "length ?name" and ?o2 = "length ?name + 1" and ?o3 = "length ?name + 1 + 1"
  let ?o4 = "length ?name + 1 + 1 + length ?ka"
  have 1: "decodeBytes body 0 = Inr (cProtocolName ?c, ?o1)"
    unfolding body by (rule bytes_field.dec_enc_start [OF okc(1)])
  have 2: "decodeByte body ?o1 = Inr (pkProtocolVersion pk, ?o2)"
    using byte_field.dec_enc [where x = "pkProtocolVersion pk" and pre = ?name] unfolding body by simp
  have 3: "decodeByte body ?o2 = Inr (?flags, ?o3)"
    using byte_field.dec_enc [where x = ?flags and pre = "?name @ [pkProtocolVersion pk]"] unfolding body by simp
  have 4: "decodeUint16 body ?o3 = Inr (cKeepalive ?c, ?o4)"
    by (rule uint16_field.dec_enc_at [where pre = "?name @ [pkProtocolVersion pk] @ [?flags]"
          and post = "block pk 0 @ ?id @ will_block pk @ credentials_block pk"])
       (simp_all add: body)
  define q where "q = connect_flags ?flags (pkProtocolVersion_update (\<lambda>_. pkProtocolVersion pk)
     (pkConnect_update (cKeepalive_update (\<lambda>_. cKeepalive ?c)
        \<circ> cProtocolName_update (\<lambda>_. cProtocolName ?c)) (received v fh)))"
  have q: "pkProtocolVersion q = pkProtocolVersion pk" "pkProperties q = no_properties"
      "pkFixedHeader q = fh" "cWillProperties (pkConnect q) = no_properties"
      "cWillFlag (pkConnect q) = cWillFlag ?c" "cUsernameFlag (pkConnect q) = cUsernameFlag ?c"
      "cPasswordFlag (pkConnect q) = cPasswordFlag ?c"
    unfolding q_def connect_flags_bits [OF okc(3)] by (simp_all add: no_connect_def)
  have 5: "(if pkProtocolVersion q = 5
          then check (decodeProps q body ?o4) (\<lambda>err. err) (\<lambda>(pk, m). Inr (pk, ?o4 + m))
          else Inr (q, ?o4)) = Inr (gotProps pk 0 q, ?o4 + length (block pk 0))"
    by (rule block_at [where pre = "?name @ [pkProtocolVersion pk] @ [?flags] @ ?ka"
          and post = "?id @ will_block pk @ credentials_block pk"])
       (use okc len framed_type [OF f] q in \<open>simp_all add: body\<close>)
  let ?o5 = "?o4 + length (block pk 0)"
  have 6: "decodeString body ?o5 = Inr (cClientIdentifier ?c, ?o5 + length ?id)"
    by (rule string_field.dec_enc_at [where pre = "?name @ [pkProtocolVersion pk] @ [?flags] @ ?ka @ block pk 0"
          and post = "will_block pk @ credentials_block pk"])
       (simp_all add: body okc)
  let ?o6 = "?o5 + length ?id"
  define q1 where "q1 = pkConnect_update (cClientIdentifier_update (\<lambda>_. cClientIdentifier ?c)) (gotProps pk 0 q)"
  have q1: "pkProtocolVersion q1 = pkProtocolVersion pk" "cWillProperties (pkConnect q1) = no_properties"
      "cWillFlag (pkConnect q1) = cWillFlag ?c" "cUsernameFlag (pkConnect q1) = cUsernameFlag ?c"
      "cPasswordFlag (pkConnect q1) = cPasswordFlag ?c"
    unfolding q1_def gotProps_def using q by simp_all
  have 7: "ConnectDecode_will q1 body ?o6 = Inr (got_will pk q1, ?o6 + length (will_block pk))"
    by (rule will_at [where pre = "?name @ [pkProtocolVersion pk] @ [?flags] @ ?ka @ block pk 0 @ ?id"
          and post = "credentials_block pk"])
       (use ok len q1 in \<open>simp_all add: body\<close>)
  have 8: "ConnectDecode_credentials (got_will pk q1) body (?o6 + length (will_block pk))
      = Inr (got_credentials pk (got_will pk q1))"
    by (rule credentials_at [where pre = "?name @ [pkProtocolVersion pk] @ [?flags] @ ?ka @ block pk 0
          @ ?id @ will_block pk"])
       (use ok q1 in \<open>simp_all add: body got_will_def Let_def\<close>)
  have r: "got_credentials pk (got_will pk q1)
      = gotProps pk 0 (pkConnect_update (\<lambda>_. connect_sent pk) (received (pkProtocolVersion pk) fh))"
    unfolding q1_def q_def connect_flags_bits [OF okc(3)] connect_sent_def
    by (simp add: got_credentials_def got_will_def gotProps_def received_def no_packet_def
        no_connect_def Let_def)
  show ?thesis
    unfolding ConnectDecode_def 1 2 3 4 check_simps prod.case Let_def q_def [symmetric] 5 6
      q1_def [symmetric] 7 8 r ..
qed

end
