(* ===== verification/Mqtt_DecoderSafety.thy ===== *)
theory Mqtt_DecoderSafety
  imports Mqtt_Roundtrip
begin

text \<open>
  Decoders on arbitrary bytes.  A decoder reads bytes that a peer chose, so it must return an
  error and never take a slice or an element out of range.  This holds for every decoder except
  the protocol version 5 branch of \<open>SubscribeDecode\<close>, which indexes the option byte of a filter
  without checking that there is one.
\<close>

definition panics :: "error + 'a \<Rightarrow> bool" where
  "panics r \<longleftrightarrow> r = Inl EPanic"

lemma panics_simps [simp]: "\<not> panics (Inr x)" "panics (Inl e) \<longleftrightarrow> e = EPanic"
  by (simp_all add: panics_def)

lemma panics_check:
  "panics (check r h k) \<longleftrightarrow> (\<exists>e. r = Inl e \<and> h e = EPanic) \<or> (\<exists>x. r = Inr x \<and> panics (k x))"
  by (cases r) auto

named_theorems no_panic

lemma decode_no_panic [no_panic]:
  "decodeUint16 buf off \<noteq> Inl EPanic" "decodeUint32 buf off \<noteq> Inl EPanic"
  "decodeBytes buf off \<noteq> Inl EPanic" "decodeString buf off \<noteq> Inl EPanic"
  "decodeByte buf off \<noteq> Inl EPanic" "decodeByteBool buf off \<noteq> Inl EPanic"
  by (auto simp: decodeUint16_def decodeUint32_def decodeBytes_def decodeString_def decodeByte_def
      decodeByteBool_def split: sum.splits)

lemma DecodeLength_loop_no_panic: "DecodeLength_loop m v bu b \<noteq> Inl EPanic"
  by (induction m v bu b rule: DecodeLength_loop.induct) (auto simp: Let_def)

lemma DecodeLength_no_panic [no_panic]: "DecodeLength b \<noteq> Inl EPanic"
  by (simp add: DecodeLength_def DecodeLength_loop_no_panic)

lemma assign_no_panic: "r \<noteq> Inl EPanic \<Longrightarrow> assign r upd \<noteq> Inl EPanic"
  by (auto simp: assign_def split: sum.splits)

lemma decodeProperty_no_panic [no_panic]: "decodeProperty k bt off p \<noteq> Inl EPanic"
proof -
  have len: "(case DecodeLength (drop off bt) of Inl err \<Rightarrow> Inl err
      | Inr (n, bu, _) \<Rightarrow> Inr (f n, off + bu)) \<noteq> (Inl EPanic :: error + (properties \<times> nat))" for f
    using DecodeLength_no_panic [of "drop off bt"] by (auto split: sum.splits)
  have user: "(case decodeString bt off of Inl err \<Rightarrow> Inl err
      | Inr (ky, offset) \<Rightarrow> assign (decodeString bt offset) (g ky))
      \<noteq> (Inl EPanic :: error + (properties \<times> nat))" for g
    using decode_no_panic(4) by (auto split: sum.splits simp: assign_def)
  show ?thesis
    unfolding decodeProperty_def
    by (simp add: assign_no_panic decode_no_panic len user)
qed

lemma decodeProperties_no_panic: "decodeProperties bt n pkt off p \<noteq> Inl EPanic"
proof (induction bt n pkt off p rule: decodeProperties.induct)
  case (1 bt n pkt off p)
  then show ?case
    using no_panic by (subst decodeProperties.simps) (auto split: sum.splits option.splits)
qed

lemma Properties_Decode_no_panic [no_panic]: "Properties_Decode p pkt b \<noteq> Inl EPanic"
  unfolding Properties_Decode_def
  using DecodeLength_no_panic decodeProperties_no_panic by (auto split: sum.splits)

text \<open>A decoded property block lies inside the buffer it was read from.\<close>

lemma decodeProperties_inside:
  "decodeProperties bt n pkt off p = Inr p' \<Longrightarrow> off \<le> length bt \<Longrightarrow> n \<le> length bt"
proof (induction bt n pkt off p rule: decodeProperties.induct)
  case (1 bt n pkt off p)
  show ?case
  proof (cases "off < n")
    case False
    then show ?thesis using "1.prems" by simp
  next
    case True
    then obtain k o1 p1 o2 m where s: "decodeByte bt off = Inr (k, o1)"
        "m_get validPacketProperties k = Some m" "m_has m pkt" "decodeProperty k bt o1 p = Inr (p1, o2)"
        "decodeProperties bt n pkt o2 p1 = Inr p'"
      using "1.prems" by (subst (asm) decodeProperties.simps) (auto split: sum.splits option.splits if_splits)
    have "o2 \<le> length bt"
      using decodeProperty_advances [OF s(4)] byte_field.dec_advances [OF s(1)] by simp
    then show ?thesis
      using "1.IH" [OF True s(1) refl s(2) _ s(4) refl s(5)] s(3) by simp
  qed
qed

lemma Properties_Decode_inside:
  assumes "Properties_Decode p pkt b = Inr (p', n)"
  shows "n \<le> length b"
proof -
  obtain len bu bt where d: "DecodeLength b = Inr (len, bu, bt)"
    using assms by (auto simp: Properties_Decode_def split: sum.splits)
  have bt: "bt = drop bu b" "bu \<le> length b" using DecodeLength_result [OF d] by simp_all
  have n: "n = len + bu" and "len = 0 \<or> (\<exists>q. decodeProperties bt len pkt 0 p = Inr q)"
    using assms d by (auto simp: Properties_Decode_def split: sum.splits if_splits)
  then show ?thesis using decodeProperties_inside bt by fastforce
qed

lemma decodeProps_safe:
  assumes "off \<le> length buf"
  shows "\<not> panics (decodeProps pk buf off)"
    and "decodeProps pk buf off = Inr (pk', n) \<Longrightarrow> off + n \<le> length buf"
    and "decodeProps pk buf off = Inr (pk', n) \<Longrightarrow> pk' = pkProperties_update (\<lambda>_. pkProperties pk') pk"
proof -
  show "\<not> panics (decodeProps pk buf off)"
    using assms by (auto simp: decodeProps_def slice_from_def panics_check)
  assume "decodeProps pk buf off = Inr (pk', n)"
  then obtain props where "Properties_Decode (pkProperties pk) (fhType (pkFixedHeader pk)) (drop off buf)
      = Inr (props, n)" and pk': "pk' = pkProperties_update (\<lambda>_. props) pk"
    using assms by (auto simp: decodeProps_def slice_from_def result_iff)
  then show "off + n \<le> length buf" using Properties_Decode_inside assms by fastforce
  show "pk' = pkProperties_update (\<lambda>_. pkProperties pk') pk" unfolding pk' by simp
qed

lemma optional_props_safe:
  assumes "off \<le> length buf"
  shows "\<not> panics (if b then check (decodeProps pk buf off) (\<lambda>err. err) (\<lambda>(pk, n). Inr (pk, off + n))
           else Inr (pk, off))"
    and "(if b then check (decodeProps pk buf off) (\<lambda>err. err) (\<lambda>(pk, n). Inr (pk, off + n))
           else Inr (pk, off)) = Inr (pk', off') \<Longrightarrow> off' \<le> length buf"
    and "(if b then check (decodeProps pk buf off) (\<lambda>err. err) (\<lambda>(pk, n). Inr (pk, off + n))
           else Inr (pk, off)) = Inr (pk', off') \<Longrightarrow> pkProtocolVersion pk' = pkProtocolVersion pk"
proof -
  show "\<not> panics (if b then check (decodeProps pk buf off) (\<lambda>err. err) (\<lambda>(pk, n). Inr (pk, off + n))
           else Inr (pk, off))"
    using decodeProps_safe(1) [OF assms, of pk] by (auto simp: check_Inl_iff panics_def)
  assume r: "(if b then check (decodeProps pk buf off) (\<lambda>err. err) (\<lambda>(pk, n). Inr (pk, off + n))
           else Inr (pk, off)) = Inr (pk', off')"
  show "off' \<le> length buf"
    using r assms decodeProps_safe(2) [OF assms] by (auto simp: result_iff split: if_splits)
  show "pkProtocolVersion pk' = pkProtocolVersion pk"
    using r decodeProps_safe(3) [OF assms, of pk]
    by (auto simp: result_iff split: if_splits) (metis packet.select_convs packet.surjective packet.update_convs)
qed

lemma dec_inside:
  "decodeUint16 buf off = Inr (x, off') \<Longrightarrow> off' \<le> length buf"
  "decodeBytes buf off = Inr (b, off') \<Longrightarrow> off' \<le> length buf"
  "decodeString buf off = Inr (b, off') \<Longrightarrow> off' \<le> length buf"
  "decodeByte buf off = Inr (y, off') \<Longrightarrow> off' \<le> length buf"
  "decodeByteBool buf off = Inr (z, off') \<Longrightarrow> off' \<le> length buf"
  by (drule field_advances; simp)+

lemma slice_from_inside: "off \<le> length buf \<Longrightarrow> slice_from buf off = Inr (drop off buf)"
  by (simp add: slice_from_def)

lemmas safe_rules = panics_check Let_def decode_no_panic slice_from_inside

lemma decodeProps_not_panic: "off \<le> length buf \<Longrightarrow> decodeProps pk buf off \<noteq> Inl EPanic"
  using decodeProps_safe(1) by (auto simp: panics_def)

lemma decode_unsubscribe_filters_no_panic: "decode_unsubscribe_filters buf off acc \<noteq> Inl EPanic"
proof (induction buf off acc rule: decode_unsubscribe_filters.induct)
  case (1 buf off acc)
  then show ?case
    by (subst decode_unsubscribe_filters.simps)
       (auto simp: check_Inl_iff decode_unsubscribe_filter_def result_iff split: if_splits)
qed

lemma decode_subscribe_filters_no_panic:
  "v \<noteq> 5 \<Longrightarrow> decode_subscribe_filters v sids buf off acc \<noteq> Inl EPanic"
proof (induction v sids buf off acc rule: decode_subscribe_filters.induct)
  case (1 v sids buf off acc)
  have "decode_subscribe_filter v sids buf off \<noteq> Inl EPanic"
    using "1.prems"
    by (auto simp: decode_subscribe_filter_def check_Inl_iff Let_def decode_no_panic split: if_splits)
  then show ?case
    using 1 by (subst decode_subscribe_filters.simps) (auto simp: check_Inl_iff)
qed

lemma ConnectDecode_will_safe:
  assumes "off \<le> length buf"
  shows "\<not> panics (ConnectDecode_will pk buf off)"
    and "ConnectDecode_will pk buf off = Inr (pk', off') \<Longrightarrow> off' \<le> length buf"
  using assms
  by (auto simp: ConnectDecode_will_def safe_rules result_iff check_Inl_iff dest!: dec_inside
      split: if_splits)

lemma ConnectDecode_credentials_safe: "\<not> panics (ConnectDecode_credentials pk buf off)"
  by (auto simp: ConnectDecode_credentials_def safe_rules check_Inl_iff result_iff split: if_splits)

text \<open>Decoders are sequences of steps: each error is not a panic and each continuation is safe.\<close>

lemma safe_check:
  "(\<And>e. r = Inl e \<Longrightarrow> h e \<noteq> EPanic) \<Longrightarrow> (\<And>x y. r = Inr (x, y) \<Longrightarrow> \<not> panics (k x y)) \<Longrightarrow>
     \<not> panics (check r h (\<lambda>(x, y). k x y))"
  by (auto simp: panics_check)

lemma safe_check_single:
  "(\<And>e. r = Inl e \<Longrightarrow> h e \<noteq> EPanic) \<Longrightarrow> (\<And>x. r = Inr x \<Longrightarrow> \<not> panics (k x)) \<Longrightarrow>
     \<not> panics (check r h k)"
  by (auto simp: panics_check)

lemma optional_props_error:
  "(if b then check (decodeProps pk buf off) (\<lambda>err. err) (\<lambda>(pk, n). Inr (pk, off + n))
    else Inr (pk, off)) = Inl e \<Longrightarrow> off \<le> length buf \<Longrightarrow> e \<noteq> EPanic"
  using optional_props_safe(1) [of off buf b pk] by (auto simp: panics_def)

lemma optional_props_inside:
  "(if b then check (decodeProps pk buf off) (\<lambda>err. err) (\<lambda>(pk, n). Inr (pk, off + n))
    else Inr (pk, off)) = Inr (pk', off') \<Longrightarrow> off \<le> length buf \<Longrightarrow> off' \<le> length buf"
  by (rule optional_props_safe(2))

lemma ConnectDecode_safe: "\<not> panics (ConnectDecode pk buf)"
  unfolding ConnectDecode_def Let_def
  by (intro safe_check ConnectDecode_credentials_safe)
     (auto dest: optional_props_error dec_inside optional_props_inside
       simp: ConnectDecode_will_safe(1) [unfolded panics_def] dec_inside)

lemma PublishDecode_safe: "\<not> panics (PublishDecode pk buf)"
  unfolding PublishDecode_def Let_def
proof (intro safe_check safe_check_single)
  fix topic off x y and pk' :: packet
  let ?opt = "(if fhQos (pkFixedHeader (pkTopicName_update (\<lambda>_. topic) pk)) > 0 then
             check (decodeUint16 buf off) (\<lambda>err. EWrap err ErrMalformedPacketID) (\<lambda>(pid, offset).
             Inr (pkPacketID_update (\<lambda>_. pid) (pkTopicName_update (\<lambda>_. topic) pk), offset))
           else Inr (pkTopicName_update (\<lambda>_. topic) pk, off))"
  assume "decodeString buf 0 = Inr (topic, off)"
  then have off: "off \<le> length buf" by (rule dec_inside)
  show "?opt = Inl e \<Longrightarrow> e \<noteq> EPanic" for e
    by (auto simp: check_Inl_iff split: if_splits)
  assume "?opt = Inr (x, y)"
  then have y: "y \<le> length buf"
    using off by (auto simp: result_iff dest: dec_inside split: if_splits)
  show "(if pkProtocolVersion x = 5 then check (decodeProps x buf y) (\<lambda>err. err)
            (\<lambda>(pk, n). Inr (pk, y + n)) else Inr (x, y)) = Inl e \<Longrightarrow> e \<noteq> EPanic" for e
    using optional_props_error y by blast
  fix z w
  assume "(if pkProtocolVersion x = 5 then check (decodeProps x buf y) (\<lambda>err. err)
            (\<lambda>(pk, n). Inr (pk, y + n)) else Inr (x, y)) = Inr (z, w)"
  then have "w \<le> length buf" using optional_props_safe(2) y by blast
  then show "slice_from buf w = Inl e \<Longrightarrow> e \<noteq> EPanic" for e by (simp add: slice_from_inside)
qed simp_all

lemma ack_decode_safe: "\<not> panics (decodePubAckRelRecComp pk buf)"
  unfolding decodePubAckRelRecComp_def Let_def
  by (auto simp: panics_check decodeProps_not_panic dest!: dec_inside split: if_splits)

lemma ConnackDecode_safe: "\<not> panics (ConnackDecode pk buf)"
  unfolding ConnackDecode_def Let_def
  by (auto simp: panics_check decodeProps_not_panic dest!: dec_inside split: if_splits)

lemma DisconnectDecode_safe: "\<not> panics (DisconnectDecode pk buf)"
  unfolding DisconnectDecode_def Let_def
  by (auto simp: panics_check decodeProps_not_panic dest!: dec_inside split: if_splits)

lemma AuthDecode_safe: "\<not> panics (AuthDecode pk buf)"
  unfolding AuthDecode_def Let_def
  by (auto simp: panics_check decodeProps_not_panic dest!: dec_inside split: if_splits)

lemma UnsubackDecode_safe: "\<not> panics (UnsubackDecode pk buf)"
  unfolding UnsubackDecode_def Let_def
  by (auto simp: panics_check decodeProps_not_panic slice_from_inside decodeProps_safe(2)
      dest!: dec_inside(1) split: if_splits)

lemma SubackDecode_safe: "\<not> panics (SubackDecode pk buf)"
  unfolding SubackDecode_def Let_def
  by (intro safe_check safe_check_single)
     (auto dest: optional_props_error dec_inside optional_props_inside simp: slice_from_inside)

lemma UnsubscribeDecode_safe: "\<not> panics (UnsubscribeDecode pk buf)"
  unfolding UnsubscribeDecode_def Let_def
  by (intro safe_check safe_check_single)
     (auto dest: optional_props_error dec_inside simp: decode_unsubscribe_filters_no_panic)

lemma SubscribeDecode_safe: "pkProtocolVersion pk \<noteq> 5 \<Longrightarrow> \<not> panics (SubscribeDecode pk buf)"
  unfolding SubscribeDecode_def Let_def
  by (auto simp: panics_check decode_subscribe_filters_no_panic)

lemmas decoders_safe = ConnectDecode_safe PublishDecode_safe ack_decode_safe ConnackDecode_safe
  DisconnectDecode_safe AuthDecode_safe UnsubackDecode_safe SubackDecode_safe UnsubscribeDecode_safe

text \<open>
  A protocol version 5 Subscribe that ends after a filter: the option byte is indexed past the end
  of the buffer.
\<close>

lemma SubscribeDecode_short:
  assumes "text_ok t"
  shows "panics (SubscribeDecode (received 5 fh) (encodeUint16 pid @ [0] @ encodeString t))"
proof -
  let ?buf = "encodeUint16 pid @ [0] @ encodeString t"
  have 1: "decodeUint16 ?buf 0 = Inr (pid, 2)"
    using uint16_field.dec_enc_start [where x = pid] by (simp del: append_Cons)
  have 2: "decodeProps (pkPacketID_update (\<lambda>_. pid) (received 5 fh)) ?buf 2
      = Inr (pkPacketID_update (\<lambda>_. pid) (received 5 fh), 1)"
    by (simp add: decodeProps_def slice_from_def Properties_Decode_def DecodeLength_def)
  have 3: "decodeString ?buf 3 = Inr (t, 3 + length (encodeString t))"
    by (rule string_field.dec_enc_at [OF assms, where pre = "encodeUint16 pid @ [0]" and post = "[]"])
       simp_all
  have len: "length ?buf = 3 + length (encodeString t)" by simp
  have 4: "decode_subscribe_filter 5 sids ?buf 3 = Inl EPanic" for sids
    unfolding decode_subscribe_filter_def 3 using len by simp
  have "decode_subscribe_filters 5 sids ?buf 3 [] = Inl EPanic" for sids
    using len by (subst decode_subscribe_filters.simps) (simp add: 4 del: length_append append_Cons)
  then show ?thesis
    using 1 2 unfolding SubscribeDecode_def by (simp add: Let_def numeral_3_eq_3)
qed

end
