(* ===== verification/Mqtt_Inflight.thy ===== *)
theory Mqtt_Inflight
  imports Mqtt_Packets "HOL-Library.Multiset"
begin

text \<open>
  The in-flight messages of a client, \<open>inflight.go\<close>: a map from packet identifiers to packets
  and the two flow-control quotas with their maxima.  The quotas are \<open>int32\<close> in the source; no
  operation can take them outside the range between zero and the maximum, which is the
  invariant below, so they are plain integers here.
\<close>

record inflight =
  iInternal :: "(u16, packet) gomap"
  iReceiveQuota :: int
  iSendQuota :: int
  iMaximumReceiveQuota :: int
  iMaximumSendQuota :: int

definition NewInflights :: inflight where
  "NewInflights = \<lparr>iInternal = [], iReceiveQuota = 0, iSendQuota = 0,
     iMaximumReceiveQuota = 0, iMaximumSendQuota = 0\<rparr>"

definition Inflight_Set :: "packet \<Rightarrow> inflight \<Rightarrow> inflight \<times> bool" where
  "Inflight_Set m i =
    (let ok = m_has (iInternal i) (pkPacketID m)
     in (i\<lparr>iInternal := m_set (pkPacketID m) m (iInternal i)\<rparr>, \<not> ok))"

definition Inflight_Get :: "inflight \<Rightarrow> u16 \<Rightarrow> packet option" where
  "Inflight_Get i k = m_get (iInternal i) k"

definition Inflight_Len :: "inflight \<Rightarrow> nat" where
  "Inflight_Len i = length (iInternal i)"

definition Inflight_Clone :: "inflight \<Rightarrow> inflight" where
  "Inflight_Clone i = NewInflights\<lparr>iInternal := iInternal i\<rparr>"

text \<open>
  The order of the map is the list order, which is arbitrary, so the stable sort stands for the
  source's unstable one.  The key is the creation time cut to 16 bits, as in the source.
\<close>

definition created16 :: "packet \<Rightarrow> u16" where
  "created16 m = word_of_int (pkCreated m)"

definition Inflight_GetAll :: "bool \<Rightarrow> inflight \<Rightarrow> packet list" where
  "Inflight_GetAll immediate i =
     sort_key created16
       (filter (\<lambda>v. \<not> immediate \<or> (immediate \<and> pkExpiry v < 0)) (map snd (iInternal i)))"

definition Inflight_NextImmediate :: "inflight \<Rightarrow> packet option" where
  "Inflight_NextImmediate i =
    (let m = Inflight_GetAll True i in if length m > 0 then Some (m ! 0) else None)"

definition Inflight_Delete :: "u16 \<Rightarrow> inflight \<Rightarrow> inflight \<times> bool" where
  "Inflight_Delete k i =
    (let ok = m_has (iInternal i) k in (i\<lparr>iInternal := m_del k (iInternal i)\<rparr>, ok))"

definition DecreaseReceiveQuota :: "inflight \<Rightarrow> inflight" where
  "DecreaseReceiveQuota i =
    (if iReceiveQuota i > 0 then i\<lparr>iReceiveQuota := iReceiveQuota i + - 1\<rparr> else i)"

definition IncreaseReceiveQuota :: "inflight \<Rightarrow> inflight" where
  "IncreaseReceiveQuota i =
    (if iReceiveQuota i < iMaximumReceiveQuota i
     then i\<lparr>iReceiveQuota := iReceiveQuota i + 1\<rparr> else i)"

definition ResetReceiveQuota :: "int \<Rightarrow> inflight \<Rightarrow> inflight" where
  "ResetReceiveQuota n i = i\<lparr>iReceiveQuota := n, iMaximumReceiveQuota := n\<rparr>"

definition DecreaseSendQuota :: "inflight \<Rightarrow> inflight" where
  "DecreaseSendQuota i =
    (if iSendQuota i > 0 then i\<lparr>iSendQuota := iSendQuota i + - 1\<rparr> else i)"

definition IncreaseSendQuota :: "inflight \<Rightarrow> inflight" where
  "IncreaseSendQuota i =
    (if iSendQuota i < iMaximumSendQuota i then i\<lparr>iSendQuota := iSendQuota i + 1\<rparr> else i)"

definition ResetSendQuota :: "int \<Rightarrow> inflight \<Rightarrow> inflight" where
  "ResetSendQuota n i = i\<lparr>iSendQuota := n, iMaximumSendQuota := n\<rparr>"

lemmas inflight_defs = Inflight_Set_def Inflight_Get_def Inflight_Len_def Inflight_Clone_def
  Inflight_Delete_def DecreaseReceiveQuota_def IncreaseReceiveQuota_def ResetReceiveQuota_def
  DecreaseSendQuota_def IncreaseSendQuota_def ResetSendQuota_def Let_def

section \<open>The invariant\<close>

definition inflight_ok :: "inflight \<Rightarrow> bool" where
  "inflight_ok i \<longleftrightarrow>
     map_ok (iInternal i)
     \<and> list_all (\<lambda>(k, m). pkPacketID m = k) (iInternal i)
     \<and> 0 \<le> iReceiveQuota i \<and> iReceiveQuota i \<le> iMaximumReceiveQuota i
     \<and> 0 \<le> iSendQuota i \<and> iSendQuota i \<le> iMaximumSendQuota i"

lemma list_all_update: "list_all P m \<Longrightarrow> P (k, v) \<Longrightarrow> list_all P (m_set k v m)"
  by (induction m) (auto split: if_splits)

lemma list_all_delete: "list_all P m \<Longrightarrow> list_all P (m_del k m)"
  by (induction m) (auto split: if_splits)

datatype inflight_op =
    OpSet packet
  | OpDelete u16
  | OpTakeReceive
  | OpReturnReceive
  | OpResetReceive u16
  | OpTakeSend
  | OpReturnSend
  | OpResetSend u16

fun inflight_step :: "inflight_op \<Rightarrow> inflight \<Rightarrow> inflight" where
  "inflight_step (OpSet m) i = fst (Inflight_Set m i)"
| "inflight_step (OpDelete k) i = fst (Inflight_Delete k i)"
| "inflight_step OpTakeReceive i = DecreaseReceiveQuota i"
| "inflight_step OpReturnReceive i = IncreaseReceiveQuota i"
| "inflight_step (OpResetReceive n) i = ResetReceiveQuota (uint n) i"
| "inflight_step OpTakeSend i = DecreaseSendQuota i"
| "inflight_step OpReturnSend i = IncreaseSendQuota i"
| "inflight_step (OpResetSend n) i = ResetSendQuota (uint n) i"

lemma inflight_ok_new [simp]: "inflight_ok NewInflights"
  by (simp add: inflight_ok_def NewInflights_def)

lemma inflight_ok_step: "inflight_ok i \<Longrightarrow> inflight_ok (inflight_step op i)"
  by (cases op) (auto simp: inflight_ok_def inflight_defs list_all_update list_all_delete)

lemma inflight_ok_Set: "inflight_ok i \<Longrightarrow> inflight_ok (fst (Inflight_Set m i))"
  using inflight_ok_step [of i "OpSet m"] by simp

lemma inflight_ok_Delete: "inflight_ok i \<Longrightarrow> inflight_ok (fst (Inflight_Delete k i))"
  using inflight_ok_step [of i "OpDelete k"] by simp

lemma inflight_ok_map: "inflight_ok i \<Longrightarrow> map_ok (iInternal i)"
  by (simp add: inflight_ok_def)

lemma inflight_ok_run: "inflight_ok i \<Longrightarrow> inflight_ok (fold inflight_step ops i)"
  by (induction ops arbitrary: i) (simp_all add: inflight_ok_step)

interpretation inflights: counted_store inflight_ok pkPacketID "\<lambda>m. m" Inflight_Get
    "\<lambda>m i. fst (Inflight_Set m i)" "\<lambda>k i. fst (Inflight_Delete k i)" Inflight_Len
  by unfold_locales
     (simp_all add: inflight_ok_Set [unfolded inflight_defs fst_conv]
        inflight_ok_Delete [unfolded inflight_defs fst_conv] inflight_ok_map inflight_defs
        length_set length_del)

lemma Inflight_Set_new: "snd (Inflight_Set m i) \<longleftrightarrow> Inflight_Get i (pkPacketID m) = None"
  by (simp add: inflight_defs)

lemma Inflight_Delete_found: "snd (Inflight_Delete k i) \<longleftrightarrow> Inflight_Get i k \<noteq> None"
  by (simp add: inflight_defs)

lemma Inflight_GetAll_mset:
  "mset (Inflight_GetAll im i) = mset (filter (\<lambda>v. im \<longrightarrow> pkExpiry v < 0) (map snd (iInternal i)))"
  by (cases im) (simp_all add: Inflight_GetAll_def)

lemma sorted_Inflight_GetAll: "sorted (map created16 (Inflight_GetAll im i))"
  by (simp add: Inflight_GetAll_def)

text \<open>All messages, each under its own identifier.\<close>

lemma set_Inflight_GetAll:
  assumes "inflight_ok i"
  shows "m \<in> set (Inflight_GetAll im i) \<longleftrightarrow>
    Inflight_Get i (pkPacketID m) = Some m \<and> (im \<longrightarrow> pkExpiry m < 0)"
proof -
  have "m \<in> snd ` set (iInternal i) \<longleftrightarrow> (pkPacketID m, m) \<in> set (iInternal i)"
    using assms by (force simp: inflight_ok_def list_all_iff)
  also have "\<dots> \<longleftrightarrow> Inflight_Get i (pkPacketID m) = Some m"
    using assms by (simp add: inflight_ok_def Inflight_Get_def m_get_in_set)
  finally show ?thesis by (auto simp: Inflight_GetAll_def)
qed

lemma NextImmediate_Some:
  assumes "inflight_ok i" "Inflight_NextImmediate i = Some m"
  shows "Inflight_Get i (pkPacketID m) = Some m" "pkExpiry m < 0"
    "\<And>p. Inflight_Get i (pkPacketID p) = Some p \<Longrightarrow> pkExpiry p < 0 \<Longrightarrow> created16 m \<le> created16 p"
proof -
  obtain ms where ms: "Inflight_GetAll True i = m # ms"
    using assms(2) by (cases "Inflight_GetAll True i") (auto simp: Inflight_NextImmediate_def Let_def)
  then show "Inflight_Get i (pkPacketID m) = Some m" "pkExpiry m < 0"
    using set_Inflight_GetAll [OF assms(1), of m True] by auto
  fix p assume "Inflight_Get i (pkPacketID p) = Some p" "pkExpiry p < 0"
  then have "p \<in> set (m # ms)" using set_Inflight_GetAll [OF assms(1), of p True] ms by simp
  then show "created16 m \<le> created16 p"
    using sorted_Inflight_GetAll [of True i] ms by auto
qed

lemma NextImmediate_None:
  "inflight_ok i \<Longrightarrow> Inflight_NextImmediate i = None \<longleftrightarrow>
     (\<forall>p. Inflight_Get i (pkPacketID p) = Some p \<longrightarrow> \<not> pkExpiry p < 0)"
  using set_Inflight_GetAll [of i _ True]
  by (cases "Inflight_GetAll True i") (auto simp: Inflight_NextImmediate_def Let_def)

section \<open>Quotas\<close>

text \<open>
  Taking and returning quota: after any sequence of operations that never resets it, the send
  quota is what the takes that succeeded left, and a take is possible exactly when the number
  of messages out is below the maximum.
\<close>

lemma quota_take_return:
  "inflight_ok i \<Longrightarrow> iSendQuota i > 0 \<Longrightarrow> IncreaseSendQuota (DecreaseSendQuota i) = i"
  "inflight_ok i \<Longrightarrow> iReceiveQuota i > 0 \<Longrightarrow> IncreaseReceiveQuota (DecreaseReceiveQuota i) = i"
  by (auto simp: inflight_defs inflight_ok_def)

text \<open>
  The sort key wraps: of two messages created one second apart, the later one comes first when
  the 16-bit clock turns over between them.
\<close>

lemma created16_wraps: "created16 (pkCreated_update (\<lambda>_. 65536) m) < created16 (pkCreated_update (\<lambda>_. 65535) m)"
  by (simp add: created16_def)

end
