(* ===== verification/Mqtt_Subscriptions.thy ===== *)
theory Mqtt_Subscriptions
  imports Mqtt_Packets
begin

text \<open>
  The tables around the topic index, \<open>topics.go\<close>: topic aliases of a connection, the
  subscription maps (by client, by share group and client, and inline), and the result type of
  a topic lookup with its merge operations.
\<close>

section \<open>Topic aliases\<close>

record inbound_aliases =
  ibInternal :: "(u16, gostring) gomap"
  ibMaximum :: u16

record outbound_aliases =
  obInternal :: "(gostring, u16) gomap"
  obCursor :: u32
  obMaximum :: u16

record topic_aliases =
  taInbound :: inbound_aliases
  taOutbound :: outbound_aliases

definition NewInboundTopicAliases :: "u16 \<Rightarrow> inbound_aliases" where
  "NewInboundTopicAliases topicAliasMaximum = \<lparr>ibInternal = [], ibMaximum = topicAliasMaximum\<rparr>"

definition NewOutboundTopicAliases :: "u16 \<Rightarrow> outbound_aliases" where
  "NewOutboundTopicAliases topicAliasMaximum =
     \<lparr>obInternal = [], obCursor = 0, obMaximum = topicAliasMaximum\<rparr>"

definition NewTopicAliases :: "u16 \<Rightarrow> topic_aliases" where
  "NewTopicAliases topicAliasMaximum =
     \<lparr>taInbound = NewInboundTopicAliases topicAliasMaximum,
      taOutbound = NewOutboundTopicAliases topicAliasMaximum\<rparr>"

definition InboundTopicAliases_Set ::
    "u16 \<Rightarrow> gostring \<Rightarrow> inbound_aliases \<Rightarrow> inbound_aliases \<times> gostring" where
  "InboundTopicAliases_Set k topic a =
    (if ibMaximum a = 0 then (a, topic)
     else case m_get (ibInternal a) k of
            Some existing \<Rightarrow>
              (if topic = [] then (a, existing)
               else (a\<lparr>ibInternal := m_set k topic (ibInternal a)\<rparr>, topic))
          | None \<Rightarrow> (a\<lparr>ibInternal := m_set k topic (ibInternal a)\<rparr>, topic))"

definition OutboundTopicAliases_Set ::
    "gostring \<Rightarrow> outbound_aliases \<Rightarrow> outbound_aliases \<times> u16 \<times> bool" where
  "OutboundTopicAliases_Set topic a =
    (if obMaximum a = 0 then (a, 0, False)
     else case m_get (obInternal a) topic of
            Some i \<Rightarrow> (a, i, True)
          | None \<Rightarrow>
              (let i = obCursor a in
               if i + 1 > ucast (obMaximum a) then (a, 0, False)
               else (a\<lparr>obInternal := m_set topic (ucast i + 1) (obInternal a), obCursor := i + 1\<rparr>,
                     ucast i + 1, False)))"

text \<open>
  What the table guarantees: the aliases handed out are the numbers up to the cursor, each for
  one topic, and the cursor stays within the maximum the peer announced.
\<close>

definition outbound_ok :: "outbound_aliases \<Rightarrow> bool" where
  "outbound_ok a \<longleftrightarrow>
     map_ok (obInternal a) \<and> distinct (map snd (obInternal a))
     \<and> unat (obCursor a) \<le> unat (obMaximum a)
     \<and> list_all (\<lambda>(t, i). 0 < i \<and> unat i \<le> unat (obCursor a)) (obInternal a)"

lemma outbound_ok_new [simp]: "outbound_ok (NewOutboundTopicAliases n)"
  by (simp add: outbound_ok_def NewOutboundTopicAliases_def)

lemma m_set_fresh: "m_get m k = None \<Longrightarrow> m_set k v m = m @ [(k, v)]"
  by (induction m) (auto split: if_splits)

lemma ucast_16_32_le: "unat (c :: u32) \<le> unat (m :: u16) \<Longrightarrow> unat (ucast c :: u16) = unat c"
proof -
  assume "unat c \<le> unat m"
  moreover have "unat m < 65536" using unsigned_less [of m] by simp
  ultimately show ?thesis by (simp add: unsigned_ucast_eq take_bit_nat_eq_self)
qed

lemma outbound_fresh:
  assumes ok: "outbound_ok a" and none: "m_get (obInternal a) topic = None"
    and lt: "\<not> obCursor a + 1 > ucast (obMaximum a)"
  defines "i \<equiv> ucast (obCursor a) + 1 :: u16"
  shows "unat (obCursor a + 1) = Suc (unat (obCursor a))" "unat i = Suc (unat (obCursor a))"
    "unat (obCursor a) < unat (obMaximum a)" "i \<notin> snd ` set (obInternal a)"
proof -
  let ?c = "unat (obCursor a)" and ?m = "unat (obMaximum a)"
  have m: "?m < 65536" using unsigned_less [of "obMaximum a"] by simp
  have c: "?c \<le> ?m" using ok by (simp add: outbound_ok_def)
  show c1: "unat (obCursor a + 1) = Suc ?c"
    using c m by (simp add: unat_word_ariths)
  have um: "unat (ucast (obMaximum a) :: u32) = ?m"
    using m by (simp add: unsigned_ucast_eq take_bit_nat_eq_self)
  show cm: "?c < ?m" using lt c1 um by (simp add: word_less_nat_alt not_less)
  show i: "unat i = Suc ?c"
    using ucast_16_32_le [OF c] cm m by (simp add: i_def unat_word_ariths)
  show "i \<notin> snd ` set (obInternal a)"
    using ok i by (auto simp: outbound_ok_def list_all_iff)
qed

lemma outbound_ok_Set:
  assumes "outbound_ok a"
  shows "outbound_ok (fst (OutboundTopicAliases_Set topic a))"
proof (cases "obMaximum a = 0 \<or> m_get (obInternal a) topic \<noteq> None \<or> obCursor a + 1 > ucast (obMaximum a)")
  case True
  then show ?thesis
    using assms by (auto simp: OutboundTopicAliases_Set_def Let_def split: option.splits)
next
  case False
  then have none: "m_get (obInternal a) topic = None" and lt: "\<not> obCursor a + 1 > ucast (obMaximum a)"
    and m0: "obMaximum a \<noteq> 0" by auto
  note f = outbound_fresh [OF assms none lt]
  have "0 < (ucast (obCursor a) + 1 :: u16)" using f(2) by (simp add: word_less_nat_alt)
  moreover have "topic \<notin> fst ` set (obInternal a)" using none by (simp add: map_of_eq_None_iff)
  moreover have "list_all (\<lambda>(t, i). 0 < i \<and> unat i \<le> Suc (unat (obCursor a))) (obInternal a)"
    using assms by (auto simp: outbound_ok_def list_all_iff)
  ultimately show ?thesis
    using assms f m0 none lt
    by (simp add: OutboundTopicAliases_Set_def Let_def m_set_fresh outbound_ok_def map_ok_def)
qed

text \<open>An alias is returned within the maximum, and a topic keeps the alias it got.\<close>

lemma outbound_alias_range:
  assumes "outbound_ok a" "OutboundTopicAliases_Set topic a = (a', i, known)" "i \<noteq> 0"
  shows "unat i \<le> unat (obMaximum a)" "m_get (obInternal a') topic = Some i"
    "known \<longleftrightarrow> m_get (obInternal a) topic = Some i"
proof -
  have ok: "list_all (\<lambda>(t, i). 0 < i \<and> unat i \<le> unat (obCursor a)) (obInternal a)"
      "unat (obCursor a) \<le> unat (obMaximum a)"
    using assms(1) by (simp_all add: outbound_ok_def)
  have "unat i \<le> unat (obMaximum a) \<and> m_get (obInternal a') topic = Some i
    \<and> (known \<longleftrightarrow> m_get (obInternal a) topic = Some i)"
  proof (cases "m_get (obInternal a) topic")
    case None
    then have "\<not> obCursor a + 1 > ucast (obMaximum a)" "i = ucast (obCursor a) + 1" "\<not> known"
        "a' = a\<lparr>obInternal := m_set topic i (obInternal a), obCursor := obCursor a + 1\<rparr>"
      using assms(2,3) by (auto simp: OutboundTopicAliases_Set_def Let_def split: if_splits)
    then show ?thesis using outbound_fresh [OF assms(1) None] None by simp
  next
    case (Some j)
    then have "a' = a" "i = j" "known"
      using assms(2,3) by (auto simp: OutboundTopicAliases_Set_def split: if_splits)
    moreover have "(topic, j) \<in> set (obInternal a)" using Some by (rule map_of_SomeD)
    then have "unat j \<le> unat (obCursor a)" using ok(1) by (auto simp: list_all_iff)
    ultimately show ?thesis using Some ok(2) by auto
  qed
  then show "unat i \<le> unat (obMaximum a)" "m_get (obInternal a') topic = Some i"
    "known \<longleftrightarrow> m_get (obInternal a) topic = Some i" by auto
qed

text \<open>
  The two ends of a connection.  The sender replaces a known topic by the empty string; the
  receiver keeps the inbound table.  \<open>alias_sync\<close> says that every alias the sender has handed
  out is known to the receiver under the same topic.
\<close>

definition alias_sync :: "outbound_aliases \<Rightarrow> inbound_aliases \<Rightarrow> bool" where
  "alias_sync a b \<longleftrightarrow> (\<forall>t i. m_get (obInternal a) t = Some i \<longrightarrow> m_get (ibInternal b) i = Some t)"

fun alias_send :: "outbound_aliases \<Rightarrow> inbound_aliases \<Rightarrow> gostring list \<Rightarrow> gostring list" where
  "alias_send a b [] = []"
| "alias_send a b (t # ts) =
    (let (a', i, known) = OutboundTopicAliases_Set t a;
         wire = (if i > 0 \<and> known then [] else t);
         (b', got) = (if i > 0 then InboundTopicAliases_Set i wire b else (b, wire))
     in got # alias_send a' b' ts)"

lemma alias_send_sync:
  assumes "outbound_ok a" "alias_sync a b" "ibMaximum b \<noteq> 0" "[] \<notin> set ts"
  shows "alias_send a b ts = ts"
  using assms
proof (induction ts arbitrary: a b)
  case Nil
  then show ?case by simp
next
  case (Cons t ts)
  obtain a' i known where s: "OutboundTopicAliases_Set t a = (a', i, known)" by (metis prod_cases3)
  have ok': "outbound_ok a'" using outbound_ok_Set [OF Cons.prems(1), of t] s by simp
  have t: "t \<noteq> []" and ts: "[] \<notin> set ts" using Cons.prems(4) by auto
  show ?case
  proof (cases "i = 0")
    case True
    have "a' = a"
    proof (cases "m_get (obInternal a) t")
      case None
      then show ?thesis
        using s True outbound_fresh(2) [OF Cons.prems(1) None]
        by (auto simp: OutboundTopicAliases_Set_def Let_def split: if_splits)
    next
      case (Some j)
      then show ?thesis using s by (auto simp: OutboundTopicAliases_Set_def split: if_splits)
    qed
    then show ?thesis
      using Cons.IH [OF Cons.prems(1,2,3) ts] True s by simp
  next
    case False
    note r = outbound_alias_range [OF Cons.prems(1) s False]
    have pos: "i > 0" using False by (simp add: word_gt_0)
    show ?thesis
    proof (cases known)
      case True
      then have "m_get (ibInternal b) i = Some t" using r(3) Cons.prems(2) by (simp add: alias_sync_def)
      moreover have "a' = a"
        using s True by (auto simp: OutboundTopicAliases_Set_def Let_def split: option.splits if_splits)
      ultimately show ?thesis
        using Cons.IH [OF Cons.prems(1,2,3) ts] True pos s Cons.prems(3)
        by (simp add: InboundTopicAliases_Set_def)
    next
      case False
      then have none: "m_get (obInternal a) t = None"
        using s pos by (auto simp: OutboundTopicAliases_Set_def Let_def split: option.splits if_splits)
      then have a': "obInternal a' = obInternal a @ [(t, i)]"
        using s False pos by (auto simp: OutboundTopicAliases_Set_def Let_def m_set_fresh split: if_splits)
      define b' where "b' = b\<lparr>ibInternal := m_set i t (ibInternal b)\<rparr>"
      have b': "InboundTopicAliases_Set i t b = (b', t)"
        using t Cons.prems(3) by (auto simp: InboundTopicAliases_Set_def b'_def split: option.splits)
      have dist: "distinct (map snd (obInternal a) @ [i])"
        using ok' by (simp add: outbound_ok_def a')
      have "alias_sync a' b'"
        unfolding alias_sync_def
      proof (intro allI impI)
        fix u j assume "m_get (obInternal a') u = Some j"
        then have "(u, j) \<in> set (obInternal a) \<or> u = t \<and> j = i"
          by (auto simp: a' map_add_def split: option.splits if_splits dest: map_of_SomeD)
        then show "m_get (ibInternal b') j = Some u"
        proof
          assume u: "(u, j) \<in> set (obInternal a)"
          then have "j \<noteq> i" using dist by force
          moreover have "m_get (obInternal a) u = Some j"
            using u Cons.prems(1) by (simp add: outbound_ok_def m_get_in_set)
          ultimately show ?thesis using Cons.prems(2) by (simp add: b'_def alias_sync_def)
        qed (simp add: b'_def)
      qed
      moreover have "ibMaximum b' \<noteq> 0" using Cons.prems(3) by (simp add: b'_def)
      ultimately have "alias_send a' b' ts = ts" by (intro Cons.IH ok' ts)
      then show ?thesis using False s b' pos by simp
    qed
  qed
qed

section \<open>Subscriptions by client\<close>

type_synonym subscriptions = "(gostring, subscription) gomap"

definition NewSubscriptions :: subscriptions where
  "NewSubscriptions = []"

definition Subscriptions_Add :: "gostring \<Rightarrow> subscription \<Rightarrow> subscriptions \<Rightarrow> subscriptions" where
  "Subscriptions_Add k val s = m_set k val s"

definition Subscriptions_GetAll :: "subscriptions \<Rightarrow> subscriptions" where
  "Subscriptions_GetAll s = s"

definition Subscriptions_Get :: "subscriptions \<Rightarrow> gostring \<Rightarrow> subscription option" where
  "Subscriptions_Get s k = m_get s k"

definition Subscriptions_Len :: "subscriptions \<Rightarrow> nat" where
  "Subscriptions_Len s = length s"

definition Subscriptions_Delete :: "gostring \<Rightarrow> subscriptions \<Rightarrow> subscriptions" where
  "Subscriptions_Delete k s = m_del k s"

lemmas Subscriptions_defs = NewSubscriptions_def Subscriptions_Add_def Subscriptions_GetAll_def
  Subscriptions_Get_def Subscriptions_Len_def Subscriptions_Delete_def

interpretation subscription_store: counted_store map_ok fst snd Subscriptions_Get
    "\<lambda>w s. Subscriptions_Add (fst w) (snd w) s" Subscriptions_Delete Subscriptions_Len
  by unfold_locales (auto simp: Subscriptions_defs length_set length_del)

section \<open>Shared subscriptions by group and client\<close>

type_synonym shared_subscriptions = "(gostring, (gostring, subscription) gomap) gomap"

definition NewSharedSubscriptions :: shared_subscriptions where
  "NewSharedSubscriptions = []"

text \<open>\<open>s.internal[group]\<close>: the nil map, which reads as empty, when the group is absent.\<close>

definition shared_group :: "shared_subscriptions \<Rightarrow> gostring \<Rightarrow> (gostring, subscription) gomap" where
  "shared_group s grp = (case m_get s grp of None \<Rightarrow> [] | Some m \<Rightarrow> m)"

definition SharedSubscriptions_Add ::
    "gostring \<Rightarrow> gostring \<Rightarrow> subscription \<Rightarrow> shared_subscriptions \<Rightarrow> shared_subscriptions" where
  "SharedSubscriptions_Add grp k val s =
    (let s = (if m_has s grp then s else m_set grp [] s)
     in m_set grp (m_set k val (shared_group s grp)) s)"

definition SharedSubscriptions_Delete ::
    "gostring \<Rightarrow> gostring \<Rightarrow> shared_subscriptions \<Rightarrow> shared_subscriptions" where
  "SharedSubscriptions_Delete grp k s =
    (let s = (if m_has s grp then m_set grp (m_del k (shared_group s grp)) s else s)
     in if length (shared_group s grp) = 0 then m_del grp s else s)"

definition SharedSubscriptions_Get ::
    "shared_subscriptions \<Rightarrow> gostring \<times> gostring \<Rightarrow> subscription option" where
  "SharedSubscriptions_Get s = (\<lambda>(grp, k).
    if \<not> m_has s grp then None else m_get (shared_group s grp) k)"

definition SharedSubscriptions_GroupLen :: "shared_subscriptions \<Rightarrow> nat" where
  "SharedSubscriptions_GroupLen s = length s"

definition SharedSubscriptions_Len :: "shared_subscriptions \<Rightarrow> nat" where
  "SharedSubscriptions_Len s = fold (\<lambda>(_, grp) n. n + length grp) s 0"

definition SharedSubscriptions_GetAll :: "shared_subscriptions \<Rightarrow> shared_subscriptions" where
  "SharedSubscriptions_GetAll s = s"

definition shared_ok :: "shared_subscriptions \<Rightarrow> bool" where
  "shared_ok s \<longleftrightarrow> map_ok s \<and> list_all (\<lambda>(g, m). map_ok m \<and> m \<noteq> []) s"

lemma SharedSubscriptions_Len_sum:
  "SharedSubscriptions_Len s = sum_list (map (\<lambda>(_, g). length g) s)"
proof -
  have "fold (\<lambda>(_, grp) n. n + length grp) s k = k + sum_list (map (\<lambda>(_, g). length g) s)" for k
    by (induction s arbitrary: k) auto
  then show ?thesis by (simp add: SharedSubscriptions_Len_def)
qed

lemma sum_update:
  "map_ok s \<Longrightarrow> sum_list (map (\<lambda>(_, g). length g) (m_set k m s)) + length (shared_group s k)
     = sum_list (map (\<lambda>(_, g). length g) s) + length m"
  by (induction s) (auto simp: shared_group_def map_ok_Cons split: option.splits if_splits)

lemma sum_delete:
  "map_ok s \<Longrightarrow> sum_list (map (\<lambda>(_, g). length g) (m_del k s)) + length (shared_group s k)
     = sum_list (map (\<lambda>(_, g). length g) s)"
  by (induction s)
     (auto simp: shared_group_def map_ok_Cons m_del_idem split: option.splits if_splits)

lemma shared_group_set: "shared_group (m_set g m s) h = (if h = g then m else shared_group s h)"
  by (simp add: shared_group_def)

lemma shared_group_del: "shared_group (m_del g s) h = (if h = g then [] else shared_group s h)"
  by (simp add: shared_group_def)

lemma m_set_set: "m_set k v (m_set k w m) = m_set k v m"
  by (induction m) auto

lemma SharedSubscriptions_Add_eq:
  "SharedSubscriptions_Add g k v s = m_set g (m_set k v (shared_group s g)) s"
  by (simp add: SharedSubscriptions_Add_def Let_def m_set_set)
     (simp add: shared_group_def)

lemma SharedSubscriptions_Delete_eq:
  assumes "shared_ok s"
  shows "SharedSubscriptions_Delete g k s =
    (if m_del k (shared_group s g) = [] then m_del g s else m_set g (m_del k (shared_group s g)) s)"
proof (cases "m_get s g")
  case None
  then show ?thesis by (simp add: SharedSubscriptions_Delete_def Let_def shared_group_def)
next
  case (Some m)
  have "m_del g (m_set g x s) = m_del g s" for x
    by (induction s) auto
  then show ?thesis
    using Some by (simp add: SharedSubscriptions_Delete_def Let_def shared_group_set)
qed

lemma shared_group_ok: "shared_ok s \<Longrightarrow> map_ok (shared_group s g)"
  by (auto simp: shared_ok_def shared_group_def list_all_iff split: option.splits dest: map_of_SomeD)

lemma list_all_set: "list_all P m \<Longrightarrow> P (k, v) \<Longrightarrow> list_all P (m_set k v m)"
  by (induction m) (auto split: if_splits)

lemma list_all_del: "list_all P m \<Longrightarrow> list_all P (m_del k m)"
  by (induction m) (auto split: if_splits)

lemma m_set_not_Nil: "m_set k v m \<noteq> []"
  by (cases m) (auto split: if_splits)

lemma shared_ok_Add: "shared_ok s \<Longrightarrow> shared_ok (SharedSubscriptions_Add g k v s)"
  using shared_group_ok [of s g]
  by (simp add: SharedSubscriptions_Add_eq) (auto simp: shared_ok_def m_set_not_Nil intro!: list_all_set)

lemma shared_ok_Delete: "shared_ok s \<Longrightarrow> shared_ok (SharedSubscriptions_Delete g k s)"
  using shared_group_ok [of s g]
  by (simp add: SharedSubscriptions_Delete_eq)
     (auto simp: shared_ok_def intro!: list_all_set list_all_del)

lemma SharedSubscriptions_Get_group:
  "SharedSubscriptions_Get s (g, k) = m_get (shared_group s g) k"
  by (auto simp: SharedSubscriptions_Get_def shared_group_def split: option.splits)

interpretation shared_store: counted_store shared_ok "\<lambda>((g, k), v). (g, k)" snd SharedSubscriptions_Get
    "\<lambda>((g, k), v) s. SharedSubscriptions_Add g k v s" "\<lambda>(g, k) s. SharedSubscriptions_Delete g k s"
    SharedSubscriptions_Len
proof unfold_locales
  fix s :: shared_subscriptions and w :: "(gostring \<times> gostring) \<times> subscription"
    and j k :: "gostring \<times> gostring"
  obtain g c v where w: "w = ((g, c), v)" by (metis prod.exhaust)
  obtain h d where k: "k = (h, d)" by (cases k)
  assume ok: "shared_ok s"
  then have mok: "map_ok s" by (simp add: shared_ok_def)
  show "shared_ok ((\<lambda>((g, k), v) s. SharedSubscriptions_Add g k v s) w s)"
    by (simp add: w shared_ok_Add ok)
  show "shared_ok ((\<lambda>(g, k) s. SharedSubscriptions_Delete g k s) k s)"
    by (simp add: k shared_ok_Delete ok)
  show "SharedSubscriptions_Get ((\<lambda>((g, k), v) s. SharedSubscriptions_Add g k v s) w s) j
      = (if j = (\<lambda>((g, k), v). (g, k)) w then Some (snd w) else SharedSubscriptions_Get s j)"
    by (cases j) (auto simp: w ok SharedSubscriptions_Add_eq SharedSubscriptions_Get_group shared_group_set)
  have nil: "m_del d (shared_group s h) = [] \<Longrightarrow> e \<noteq> d \<Longrightarrow> m_get (shared_group s h) e = None" for e
    using m_get_del [of d "shared_group s h" e] by simp
  show "SharedSubscriptions_Get ((\<lambda>(g, k) s. SharedSubscriptions_Delete g k s) k s) j
      = (if j = k then None else SharedSubscriptions_Get s j)"
    using nil by (cases j) (auto simp: k ok SharedSubscriptions_Delete_eq SharedSubscriptions_Get_group
        shared_group_set shared_group_del)
  show "SharedSubscriptions_Len ((\<lambda>((g, k), v) s. SharedSubscriptions_Add g k v s) w s)
      = (if SharedSubscriptions_Get s ((\<lambda>((g, k), v). (g, k)) w) = None
         then Suc (SharedSubscriptions_Len s) else SharedSubscriptions_Len s)"
    using sum_update [OF mok, of g "m_set c v (shared_group s g)"]
    by (simp add: w ok SharedSubscriptions_Add_eq SharedSubscriptions_Len_sum
        SharedSubscriptions_Get_group length_set split: if_splits)
  have pos: "m_get (shared_group s h) d \<noteq> None \<Longrightarrow> length (shared_group s h) > 0"
    by (cases "shared_group s h") auto
  have gl: "length (shared_group s h) \<le> sum_list (map (\<lambda>(_, g). length g) s)"
    using sum_delete [OF mok, of h] by linarith
  have len: "length (shared_group s h) = (if m_get (shared_group s h) d = None
      then length (m_del d (shared_group s h)) else Suc (length (m_del d (shared_group s h))))"
    using length_del [OF shared_group_ok [OF ok], of d h] pos by auto
  show "SharedSubscriptions_Len ((\<lambda>(g, k) s. SharedSubscriptions_Delete g k s) k s)
      = (if SharedSubscriptions_Get s k = None then SharedSubscriptions_Len s
         else SharedSubscriptions_Len s - 1)"
    using sum_delete [OF mok, of h] sum_update [OF mok, of h "m_del d (shared_group s h)"] len
    by (cases "m_get (shared_group s h) d")
       (auto simp: k ok SharedSubscriptions_Delete_eq SharedSubscriptions_Len_sum SharedSubscriptions_Get_group)
qed

section \<open>Inline subscriptions by identifier\<close>

text \<open>The handler is a function value of the embedding program; its identity is a number.\<close>

record inline_subscription =
  isSubscription :: subscription
  isHandler :: nat

type_synonym inline_subscriptions = "(int, inline_subscription) gomap"

definition NewInlineSubscriptions :: inline_subscriptions where
  "NewInlineSubscriptions = []"

definition InlineSubscriptions_Add :: "inline_subscription \<Rightarrow> inline_subscriptions \<Rightarrow> inline_subscriptions" where
  "InlineSubscriptions_Add val s = m_set (sIdentifier (isSubscription val)) val s"

definition InlineSubscriptions_GetAll :: "inline_subscriptions \<Rightarrow> inline_subscriptions" where
  "InlineSubscriptions_GetAll s = s"

definition InlineSubscriptions_Get :: "inline_subscriptions \<Rightarrow> int \<Rightarrow> inline_subscription option" where
  "InlineSubscriptions_Get s k = m_get s k"

definition InlineSubscriptions_Len :: "inline_subscriptions \<Rightarrow> nat" where
  "InlineSubscriptions_Len s = length s"

definition InlineSubscriptions_Delete :: "int \<Rightarrow> inline_subscriptions \<Rightarrow> inline_subscriptions" where
  "InlineSubscriptions_Delete k s = m_del k s"

lemmas InlineSubscriptions_defs = NewInlineSubscriptions_def InlineSubscriptions_Add_def
  InlineSubscriptions_GetAll_def InlineSubscriptions_Get_def InlineSubscriptions_Len_def
  InlineSubscriptions_Delete_def

interpretation inline_store: counted_store map_ok "\<lambda>v. sIdentifier (isSubscription v)" "\<lambda>v. v"
    InlineSubscriptions_Get InlineSubscriptions_Add InlineSubscriptions_Delete InlineSubscriptions_Len
  by unfold_locales (auto simp: InlineSubscriptions_defs length_set length_del)

section \<open>The subscribers of a topic\<close>

record subscribers =
  sbShared :: "(gostring, (gostring, subscription) gomap) gomap"
  sbSharedSelected :: "(gostring, subscription) gomap"
  sbSubscriptions :: "(gostring, subscription) gomap"
  sbInlineSubscriptions :: "(int, inline_subscription) gomap"

text \<open>\<open>cls, ok := m[client]; if !ok {cls = sub}; m[client] = cls.Merge(sub)\<close>.\<close>

definition merge_into ::
    "gostring \<times> subscription \<Rightarrow> (gostring, subscription) gomap \<Rightarrow> (gostring, subscription) gomap" where
  "merge_into = (\<lambda>(client, sub) m.
     let cls = (case m_get m client of Some cls \<Rightarrow> cls | None \<Rightarrow> sub)
     in m_set client (Subscription_Merge cls sub) m)"

text \<open>One client of every group: the first of the map's iteration, which is arbitrary.\<close>

definition SelectShared :: "subscribers \<Rightarrow> subscribers" where
  "SelectShared s =
     s\<lparr>sbSharedSelected :=
        fold (\<lambda>(_, subs) sel. case subs of [] \<Rightarrow> sel | cs # _ \<Rightarrow> merge_into cs sel) (sbShared s) []\<rparr>"

definition MergeSharedSelected :: "subscribers \<Rightarrow> subscribers" where
  "MergeSharedSelected s =
     s\<lparr>sbSubscriptions := fold merge_into (sbSharedSelected s) (sbSubscriptions s)\<rparr>"

lemma Merge_qos: "sQos (Subscription_Merge s n) = max (sQos s) (sQos n)"
  by (auto simp: Subscription_Merge_def Let_def max_def split: option.splits)

lemma Merge_fields:
  "sFilter (Subscription_Merge s n) = sFilter s"
  "sNoLocal (Subscription_Merge s n) \<longleftrightarrow> sNoLocal s \<or> sNoLocal n"
  "sIdentifier (Subscription_Merge s n) = sIdentifier s"
  "sRetainAsPublished (Subscription_Merge s n) = sRetainAsPublished s"
  "sRetainHandling (Subscription_Merge s n) = sRetainHandling s"
  by (simp_all add: Subscription_Merge_def Let_def split: option.splits)

lemma m_get_merge_into:
  "m_get (merge_into (c, sub) m) d =
     (if d = c then Some (Subscription_Merge (case m_get m c of Some cls \<Rightarrow> cls | None \<Rightarrow> sub) sub)
      else m_get m d)"
  by (simp add: merge_into_def Let_def)

lemma map_ok_merge_into: "map_ok m \<Longrightarrow> map_ok (merge_into cs m)"
  by (cases cs) (simp add: merge_into_def Let_def)

lemma merge_all_dom: "m_has (fold merge_into css m) c \<longleftrightarrow> c \<in> fst ` set css \<or> m_has m c"
  by (induction css arbitrary: m) (auto simp: m_get_merge_into split: if_splits)

text \<open>The merged subscription of a client has the highest quality of service of its parts.\<close>

lemma merge_all_qos:
  assumes "m_get (fold merge_into css m) c = Some s"
  shows "(\<forall>(d, t) \<in> set css. d = c \<longrightarrow> sQos t \<le> sQos s) \<and> (\<forall>t. m_get m c = Some t \<longrightarrow> sQos t \<le> sQos s)
    \<and> ((\<exists>t. (c, t) \<in> set css \<and> sQos t = sQos s) \<or> (\<exists>t. m_get m c = Some t \<and> sQos t = sQos s))"
  using assms
proof (induction css arbitrary: m)
  case Nil
  then show ?case by auto
next
  case (Cons dt css)
  obtain d t where dt: "dt = (d, t)" by (cases dt)
  define m' where "m' = merge_into (d, t) m"
  have m': "m_get m' c = (if c = d then Some (Subscription_Merge
      (case m_get m d of Some cls \<Rightarrow> cls | None \<Rightarrow> t) t) else m_get m c)"
    by (simp add: m'_def m_get_merge_into)
  have "m_get (fold merge_into css m') c = Some s" using Cons.prems by (simp add: dt m'_def)
  note IH = Cons.IH [OF this]
  show ?case
  proof (cases "c = d")
    case False
    then show ?thesis using IH m' by (auto simp: dt)
  next
    case True
    define u where "u = Subscription_Merge (case m_get m d of Some cls \<Rightarrow> cls | None \<Rightarrow> t) t"
    have u: "m_get m' c = Some u" using m' True by (simp add: u_def)
    have qu: "sQos u = max (sQos (case m_get m d of Some cls \<Rightarrow> cls | None \<Rightarrow> t)) (sQos t)"
      by (simp add: u_def Merge_qos)
    have "sQos u \<le> sQos s" using IH u by blast
    then have le: "sQos t \<le> sQos s" "\<And>r. m_get m c = Some r \<Longrightarrow> sQos r \<le> sQos s"
      using qu True by auto
    have "sQos u = sQos t \<or> (\<exists>r. m_get m c = Some r \<and> sQos r = sQos u)"
      using qu True by (auto simp: max_def split: option.splits)
    then show ?thesis using IH u le True by (auto simp: dt)
  qed
qed

end
