(* ===== verification/Mqtt_ClientState.thy ===== *)
theory Mqtt_ClientState
  imports Mqtt_Inflight Mqtt_Subscriptions
begin

text \<open>
  The records of \<open>clients.go\<close>: what the broker knows of a client.  The network connection is
  the bytes that arrive and the bytes that were written; the context that keeps the client open
  is a flag.
\<close>

record will =
  wPayload :: "byte list"
  wUser :: "user_property list"
  wTopicName :: gostring
  wFlag :: u32
  wWillDelayInterval :: u32
  wQos :: byte
  wRetain :: bool

record client_properties =
  cpProps :: properties
  cpWill :: will
  cpUsername :: "byte list"
  cpProtocolVersion :: byte
  cpClean :: bool

record client_state =
  csTopicAliases :: topic_aliases
  csStopCause :: "error option"
  csInflight :: inflight
  csSubscriptions :: subscriptions
  csDisconnected :: int
  csOutbound :: "packet list"
  csIsTakenOver :: bool
  csPacketID :: u32
  csOpen :: bool
  csEnded :: bool \<comment> \<open>\<open>endOnce\<close> has run\<close>
  csOutboundQty :: int
  csKeepalive :: u16
  csServerKeepalive :: bool

record client_connection =
  cnConn :: bool \<comment> \<open>the connection is not nil\<close>
  cnIn :: "byte list" \<comment> \<open>the bytes still to be read\<close>
  cnOut :: "byte list" \<comment> \<open>the bytes written to the connection\<close>
  cnFails :: "error option" \<comment> \<open>the error of every write, once the peer is gone\<close>
  cnOutbuf :: "byte list option"
  cnRemote :: gostring
  cnListener :: gostring
  cnInline :: bool

record client =
  clProperties :: client_properties
  clState :: client_state
  clNet :: client_connection
  clID :: gostring

definition no_will :: will where
  "no_will = \<lparr>wPayload = [], wUser = [], wTopicName = [], wFlag = 0, wWillDelayInterval = 0,
     wQos = 0, wRetain = False\<rparr>"

text \<open>\<open>newClient\<close> for a connection that delivers \<open>input\<close>, or for no connection.\<close>

definition newClient :: "(gostring \<times> byte list) option \<Rightarrow> u16 \<Rightarrow> client" where
  "newClient c topicAliasMaximum =
    \<lparr>clProperties = \<lparr>cpProps = no_properties, cpWill = no_will, cpUsername = [],
        cpProtocolVersion = 4, cpClean = False\<rparr>,
     clState = \<lparr>csTopicAliases = NewTopicAliases topicAliasMaximum, csStopCause = None,
        csInflight = NewInflights, csSubscriptions = NewSubscriptions, csDisconnected = 0,
        csOutbound = [], csIsTakenOver = False, csPacketID = 0, csOpen = True, csEnded = False,
        csOutboundQty = 0, csKeepalive = 10, csServerKeepalive = False\<rparr>,
     clNet = (case c of
         Some (remote, input) \<Rightarrow> \<lparr>cnConn = True, cnIn = input, cnOut = [], cnFails = None, cnOutbuf = None,
           cnRemote = remote, cnListener = [], cnInline = False\<rparr>
       | None \<Rightarrow> \<lparr>cnConn = False, cnIn = [], cnOut = [], cnFails = None, cnOutbuf = None, cnRemote = [],
           cnListener = [], cnInline = False\<rparr>),
     clID = []\<rparr>"

section \<open>Configuration of a hook\<close>

text \<open>The argument of \<open>Init(config any)\<close>: nil, a configuration of the hook, anything else.\<close>

datatype 'c config_any = ConfigNil | ConfigOf 'c | ConfigOther

definition ErrInvalidConfigType :: error where
  "ErrInvalidConfigType = ENew (lit ''invalid config type provided'')"

end
