(* ===== verification/Mqtt_Filters.thy ===== *)
theory Mqtt_Filters
  imports Mqtt_Subscriptions
begin

text \<open>
  Topic names and filters as strings, \<open>topics.go\<close>: the extraction of the d-th level of a path and
  the validity of a filter.  \<open>segs\<close> is the specification of the levels: the path split at every
  slash.
\<close>

section \<open>String functions of the Go library\<close>

text \<open>\<open>strings.IndexRune\<close> for an ASCII character: the first index, or -1.\<close>

fun IndexByte :: "gostring \<Rightarrow> byte \<Rightarrow> int" where
  "IndexByte [] c = - 1"
| "IndexByte (b # bs) c =
     (if b = c then 0 else (let i = IndexByte bs c in if i < 0 then - 1 else i + 1))"

definition ContainsByte :: "gostring \<Rightarrow> byte \<Rightarrow> bool" where
  "ContainsByte s c \<longleftrightarrow> IndexByte s c \<ge> 0"

text \<open>
  \<open>strings.EqualFold\<close> with an ASCII string on one side: ASCII letters fold to lower case, and the
  only other characters that fold to ASCII letters are U+017F (long s) and U+212A (Kelvin sign).
\<close>

fun fold_case :: "gostring \<Rightarrow> gostring" where
  "fold_case [] = []"
| "fold_case (c # r) =
    (if c = 0xC5 \<and> r \<noteq> [] \<and> hd r = 0xBF then 115 # fold_case (tl r)
     else if c = 0xE2 \<and> length r \<ge> 2 \<and> hd r = 0x84 \<and> hd (tl r) = 0xAA
     then 107 # fold_case (tl (tl r))
     else if 65 \<le> c \<and> c \<le> 90 then (c + 32) # fold_case r
     else c # fold_case r)"

definition EqualFold :: "gostring \<Rightarrow> gostring \<Rightarrow> bool" where
  "EqualFold s t \<longleftrightarrow> fold_case s = fold_case t"

definition SharePrefix :: gostring where
  "SharePrefix = lit ''$SHARE''"

definition SysPrefix :: gostring where
  "SysPrefix = lit ''$SYS''"

section \<open>Levels\<close>

text \<open>The loop of \<open>isolateParticle\<close>; \<open>next\<close> is 0 throughout.\<close>

function isolate_loop ::
    "int \<Rightarrow> gostring \<Rightarrow> int \<Rightarrow> int \<Rightarrow> gostring \<Rightarrow> bool \<Rightarrow> gostring \<times> bool" where
  "isolate_loop d flt en i particle hasNext =
    (if en > - 1 \<and> i \<le> d then
       (let en = IndexByte flt ch_slash in
        if d > - 1 \<and> i = d \<and> en > - 1 then
          isolate_loop d flt en (i + 1) (take (nat en) flt) True
        else if en > - 1 then
          isolate_loop d (drop (nat en + 1) flt) en (i + 1) particle False
        else isolate_loop d flt en (i + 1) flt False)
     else (particle, hasNext))"
  by pat_completeness auto
termination
  by (relation "measure (\<lambda>(d, _, _, i, _). nat (d + 1 - i))") auto

declare isolate_loop.simps [simp del]

definition isolateParticle :: "gostring \<Rightarrow> int \<Rightarrow> gostring \<times> bool" where
  "isolateParticle flt d = isolate_loop d flt 0 0 [] False"

definition IsSharedFilter :: "gostring \<Rightarrow> bool" where
  "IsSharedFilter flt = (let (prefix, _) = isolateParticle flt 0 in EqualFold prefix SharePrefix)"

definition IsValidFilter :: "gostring \<Rightarrow> bool \<Rightarrow> bool" where
  "IsValidFilter flt forPublish =
    (if \<not> forPublish \<and> length flt = 0 then False
     else if forPublish \<and> length flt \<ge> length SysPrefix
             \<and> EqualFold (gslice flt 0 (length SysPrefix)) SysPrefix then False
     else if forPublish \<and> (ContainsByte flt ch_plus \<or> ContainsByte flt ch_hash) then False
     else
       let wildhash = IndexByte flt ch_hash in
       if wildhash \<ge> 0 \<and> wildhash \<noteq> int (length flt) - 1 then False
       else
         let (prefix, hasNext) = isolateParticle flt 0 in
         if \<not> hasNext \<and> EqualFold prefix SharePrefix then False
         else if hasNext \<and> EqualFold prefix SharePrefix then
           (let (grp, hasNext) = isolateParticle flt 1 in
            if \<not> hasNext then False
            else if ContainsByte grp ch_plus \<or> ContainsByte grp ch_hash then False
            else True)
         else True)"

section \<open>The levels of a path\<close>

fun segs :: "gostring \<Rightarrow> gostring list" where
  "segs [] = [[]]"
| "segs (c # s) = (if c = ch_slash then [] # segs s
                   else (case segs s of [] \<Rightarrow> [[c]] | t # ts \<Rightarrow> (c # t) # ts))"

lemma segs_nonempty [simp]: "segs s \<noteq> []"
  by (induction s) (auto split: list.splits)

lemma length_segs_pos [simp]: "0 < length (segs s)"
  by simp

lemma IndexByte_cases:
  "IndexByte s c = - 1 \<and> c \<notin> set s
   \<or> (\<exists>a b. s = a @ c # b \<and> c \<notin> set a \<and> IndexByte s c = int (length a))"
proof (induction s)
  case (Cons x s)
  show ?case
  proof (cases "x = c")
    case True
    then show ?thesis by (intro disjI2 exI [of _ "[]"] exI [of _ s]) simp
  next
    case False
    from Cons show ?thesis
    proof
      assume "\<exists>a b. s = a @ c # b \<and> c \<notin> set a \<and> IndexByte s c = int (length a)"
      then obtain a b where "s = a @ c # b" "c \<notin> set a" "IndexByte s c = int (length a)" by blast
      then show ?thesis
        using False by (intro disjI2 exI [of _ "x # a"] exI [of _ b]) simp
    qed (use False in simp)
  qed
qed simp

lemma ContainsByte_iff [simp]: "ContainsByte s c \<longleftrightarrow> c \<in> set s"
  using IndexByte_cases [of s c] by (auto simp: ContainsByte_def)

lemma segs_single: "ch_slash \<notin> set s \<Longrightarrow> segs s = [s]"
  by (induction s) auto

lemma segs_split: "ch_slash \<notin> set a \<Longrightarrow> segs (a @ ch_slash # b) = a # segs b"
  by (induction a) (auto split: list.splits)

lemma segs_no_slash: "t \<in> set (segs s) \<Longrightarrow> ch_slash \<notin> set t"
  by (induction s arbitrary: t) (auto split: if_splits list.splits)

text \<open>The inverse of \<open>segs\<close>: levels joined by slashes.\<close>

fun join_segs :: "gostring list \<Rightarrow> gostring" where
  "join_segs [] = []"
| "join_segs [t] = t"
| "join_segs (t # ts) = t @ ch_slash # join_segs ts"

lemma join_segs_segs [simp]: "join_segs (segs s) = s"
proof (induction s)
  case (Cons c s)
  obtain t ts where s: "segs s = t # ts" using segs_nonempty by (metis neq_Nil_conv)
  then show ?case using Cons by (cases ts) auto
qed simp

lemma segs_inject [simp]: "segs s = segs t \<longleftrightarrow> s = t"
  by (metis join_segs_segs)

text \<open>
  The loop returns the d-th level and whether there is another one; past the end it returns the
  last level.
\<close>

lemma isolate_loop_end: "isolate_loop d f (- 1) i p h = (p, h)"
  "i > d \<Longrightarrow> isolate_loop d f e i p h = (p, h)"
  by (subst isolate_loop.simps; simp)+

lemma isolate_loop_segs:
  assumes "e > - 1" "0 \<le> i" "i \<le> d"
  shows "isolate_loop d f e i p h =
    (if nat (d - i) < length (segs f) then (segs f ! nat (d - i), nat (d - i) + 1 < length (segs f))
     else (last (segs f), False))"
  using assms
proof (induction "nat (d - i)" arbitrary: f e i p h)
  case 0
  then have i: "i = d" by simp
  from IndexByte_cases [of f ch_slash] show ?case
  proof (elim disjE exE conjE)
    assume "IndexByte f ch_slash = - 1" "ch_slash \<notin> set f"
    then show ?thesis
      using 0 i by (subst isolate_loop.simps) (simp add: isolate_loop_end segs_single)
  next
    fix a b
    assume "f = a @ ch_slash # b" "ch_slash \<notin> set a" "IndexByte f ch_slash = int (length a)"
    then show ?thesis
      using 0 i by (subst isolate_loop.simps) (simp add: isolate_loop_end segs_split)
  qed
next
  case (Suc n)
  then have i: "i < d" by simp
  have d: "nat (d - i) = Suc (nat (d - (i + 1)))" using i by simp
  from IndexByte_cases [of f ch_slash] show ?case
  proof (elim disjE exE conjE)
    assume "IndexByte f ch_slash = - 1" "ch_slash \<notin> set f"
    then show ?thesis
      using Suc.prems i by (subst isolate_loop.simps) (simp add: isolate_loop_end segs_single)
  next
    fix a b
    assume f: "f = a @ ch_slash # b" "ch_slash \<notin> set a" and ix: "IndexByte f ch_slash = int (length a)"
    have "isolate_loop d b (int (length a)) (i + 1) p False =
      (if nat (d - (i + 1)) < length (segs b)
       then (segs b ! nat (d - (i + 1)), nat (d - (i + 1)) + 1 < length (segs b))
       else (last (segs b), False))"
      using Suc.prems Suc.hyps(2) i by (intro Suc.hyps(1)) auto
    moreover have "isolate_loop d f e i p h = isolate_loop d b (int (length a)) (i + 1) p False"
      using Suc.prems i ix f by (subst isolate_loop.simps) (simp add: Let_def)
    ultimately show ?thesis using f d by (simp add: segs_split)
  qed
qed

lemma isolateParticle_segs:
  "isolateParticle f (int d) =
    (if d < length (segs f) then (segs f ! d, d + 1 < length (segs f)) else (last (segs f), False))"
  using isolate_loop_segs [of 0 0 "int d" f "[]" False] by (simp add: isolateParticle_def)

lemma isolateParticle_0: "isolateParticle f 0 = (hd (segs f), length (segs f) > 1)"
  using isolateParticle_segs [of f 0] by (simp add: hd_conv_nth)

lemma isolateParticle_1:
  "isolateParticle f 1 = (if length (segs f) > 1 then (segs f ! 1, length (segs f) > 2)
    else (last (segs f), False))"
  using isolateParticle_segs [of f 1] by (simp add: numeral_2_eq_2)

text \<open>The levels from \<open>d\<close> on, as a caller that counts \<open>d\<close> up sees them.\<close>

lemma isolateParticle_drop:
  assumes "drop d (segs f) = t # ts"
  shows "isolateParticle f (int d) = (t, ts \<noteq> [])"
proof -
  have d: "d < length (segs f)" using assms by (metis drop_all list.discI not_le)
  then have "segs f ! d = t" "drop (Suc d) (segs f) = ts"
    using assms by (simp_all add: Cons_nth_drop_Suc [symmetric])
  then show ?thesis using d by (auto simp: isolateParticle_segs)
qed

section \<open>Valid filters\<close>

lemma hash_last:
  "IndexByte f c \<ge> 0 \<and> IndexByte f c \<noteq> int (length f) - 1 \<longleftrightarrow> c \<in> set (butlast f)"
proof -
  from IndexByte_cases [of f c] show ?thesis
  proof (elim disjE exE conjE)
    assume "IndexByte f c = - 1" "c \<notin> set f"
    then show ?thesis by (auto dest: in_set_butlastD)
  next
    fix a b
    assume f: "f = a @ c # b" "c \<notin> set a" "IndexByte f c = int (length a)"
    then show ?thesis by (cases b) (simp_all add: butlast_append)
  qed
qed

lemma IsSharedFilter_iff: "IsSharedFilter f \<longleftrightarrow> EqualFold (hd (segs f)) SharePrefix"
  by (simp add: IsSharedFilter_def isolateParticle_0)

text \<open>
  What the function accepts as a subscription filter: not empty, no \<open>#\<close> before the last
  character, and, for a shared subscription, a group without wildcards followed by a level.
\<close>

lemma IsValidFilter_subscribe:
  "IsValidFilter f False \<longleftrightarrow>
     f \<noteq> [] \<and> ch_hash \<notin> set (butlast f)
     \<and> (IsSharedFilter f \<longrightarrow> length (segs f) > 2
          \<and> ch_plus \<notin> set (segs f ! 1) \<and> ch_hash \<notin> set (segs f ! 1))"
  by (auto simp: IsValidFilter_def Let_def hash_last isolateParticle_0 isolateParticle_1
      IsSharedFilter_iff split: if_splits)

lemma IsValidFilter_publish:
  "IsValidFilter f True \<longleftrightarrow>
     \<not> (length f \<ge> 4 \<and> EqualFold (take 4 f) SysPrefix)
     \<and> ch_plus \<notin> set f \<and> ch_hash \<notin> set f
     \<and> (IsSharedFilter f \<longrightarrow> length (segs f) > 2)"
proof -
  have sub: "t \<in> set (segs f) \<Longrightarrow> set t \<subseteq> set f" for t
    by (induction f arbitrary: t) (auto split: if_splits list.splits, blast+)
  have "length (segs f) > 2 \<Longrightarrow> set (segs f ! 1) \<subseteq> set f"
    by (intro sub nth_mem) simp
  moreover have "\<not> (c \<in> set (butlast f))" if "c \<notin> set f" for c
    using that by (auto dest: in_set_butlastD)
  moreover have sys: "length SysPrefix = 4" by (simp add: SysPrefix_def)
  ultimately show ?thesis
    by (auto simp: IsValidFilter_def Let_def hash_last isolateParticle_0 isolateParticle_1
      IsSharedFilter_iff gslice_def sys split: if_splits)
qed

end
