(* ===== verification/Mqtt_Auth.thy ===== *)
theory Mqtt_Auth
  imports Mqtt_ClientState Mqtt_Filters
begin

text \<open>
  The access ledger, \<open>hooks/auth/ledger.go\<close>, and the two authentication hooks: matching of rule
  values and topic rules, the decision for a connection and for a topic.  A Go map of rules is a
  list whose order is the order of the iteration; the decisions are stated for every order.
\<close>

datatype access = Deny | ReadOnly | WriteOnly | ReadWrite

type_synonym filters = "(gostring, access) gomap"

record user_rule =
  urUsername :: gostring
  urPassword :: gostring
  urACL :: filters
  urDisallow :: bool

record auth_rule =
  arClient :: gostring
  arUsername :: gostring
  arRemote :: gostring
  arPassword :: gostring
  arAllow :: bool

record acl_rule =
  aclClient :: gostring
  aclUsername :: gostring
  aclRemote :: gostring
  aclFilters :: filters

record ledger =
  lgUsers :: "(gostring, user_rule) gomap"
  lgAuth :: "auth_rule list"
  lgACL :: "acl_rule list"

section \<open>Matching\<close>

definition RString_Matches :: "gostring \<Rightarrow> gostring \<Rightarrow> bool" where
  "RString_Matches r a =
    (if r = [] \<or> r = [ch_star] \<or> a = r then True
     else
       let i = IndexByte r ch_star in
       if i > 0 \<and> int (length a) > i \<and> take (nat i) r = take (nat i) a then True
       else False)"

text \<open>The loop of \<open>MatchTopic\<close> over the levels of the filter.\<close>

fun MatchTopic_loop ::
    "gostring list \<Rightarrow> gostring list \<Rightarrow> gostring list \<Rightarrow> gostring list \<times> bool" where
  "MatchTopic_loop [] topicParts elements = (elements, True)"
| "MatchTopic_loop (f # fs) topicParts elements =
    (case topicParts of
       [] \<Rightarrow> (elements, False)
     | t # ts \<Rightarrow>
         (if f = [ch_plus] then MatchTopic_loop fs ts (elements @ [t])
          else if f = [ch_hash] then (elements @ [join_segs (t # ts)], True)
          else if f \<noteq> t then (elements, False)
          else MatchTopic_loop fs ts elements))"

definition MatchTopic :: "gostring \<Rightarrow> gostring \<Rightarrow> gostring list \<times> bool" where
  "MatchTopic flt topic = MatchTopic_loop (segs flt) (segs topic) []"

definition RString_FilterMatches :: "gostring \<Rightarrow> gostring \<Rightarrow> bool" where
  "RString_FilterMatches r a = snd (MatchTopic r a)"

section \<open>Decisions\<close>

definition Ledger_Update :: "ledger \<Rightarrow> ledger \<Rightarrow> ledger" where
  "Ledger_Update ln l = l\<lparr>lgAuth := lgAuth ln, lgACL := lgACL ln\<rparr>"

fun AuthOk_rules :: "client \<Rightarrow> packet \<Rightarrow> nat \<Rightarrow> auth_rule list \<Rightarrow> nat \<times> bool" where
  "AuthOk_rules cl pk n [] = (0, False)"
| "AuthOk_rules cl pk n (rule # rules) =
    (if RString_Matches (arClient rule) (clID cl)
        \<and> RString_Matches (arUsername rule) (cpUsername (clProperties cl))
        \<and> RString_Matches (arPassword rule) (cPassword (pkConnect pk))
        \<and> RString_Matches (arRemote rule) (cnRemote (clNet cl))
     then (n, arAllow rule)
     else AuthOk_rules cl pk (n + 1) rules)"

definition AuthOk :: "ledger \<Rightarrow> client \<Rightarrow> packet \<Rightarrow> nat \<times> bool" where
  "AuthOk l cl pk =
    (case m_get (lgUsers l) (cpUsername (clProperties cl)) of
       Some u \<Rightarrow>
         (if urPassword u \<noteq> [] \<and> urPassword u = cPassword (pkConnect pk)
          then (0, \<not> urDisallow u)
          else AuthOk_rules cl pk 0 (lgAuth l))
     | None \<Rightarrow> AuthOk_rules cl pk 0 (lgAuth l))"

definition may :: "bool \<Rightarrow> access \<Rightarrow> bool" where
  "may write access \<longleftrightarrow>
     (if write then access = WriteOnly \<or> access = ReadWrite else access = ReadOnly \<or> access = ReadWrite)"

text \<open>The user's own filters: the first in the iteration that matches decides.\<close>

fun ACLOk_user :: "filters \<Rightarrow> gostring \<Rightarrow> bool \<Rightarrow> bool option" where
  "ACLOk_user [] topic write = None"
| "ACLOk_user ((flt, access) # fs) topic write =
    (if RString_FilterMatches flt topic then
       (if \<not> write \<and> (access = ReadOnly \<or> access = ReadWrite) then Some True
        else if write \<and> (access = WriteOnly \<or> access = ReadWrite) then Some True
        else Some False)
     else ACLOk_user fs topic write)"

fun ACLOk_rules :: "client \<Rightarrow> gostring \<Rightarrow> bool \<Rightarrow> nat \<Rightarrow> acl_rule list \<Rightarrow> nat \<times> bool" where
  "ACLOk_rules cl topic write n [] = (0, True)"
| "ACLOk_rules cl topic write n (rule # rules) =
    (if RString_Matches (aclClient rule) (clID cl)
        \<and> RString_Matches (aclUsername rule) (cpUsername (clProperties cl))
        \<and> RString_Matches (aclRemote rule) (cnRemote (clNet cl))
     then
       (if length (aclFilters rule) = 0 then (n, True)
        else if list_ex (\<lambda>(flt, access). may write access \<and> RString_FilterMatches flt topic) (aclFilters rule)
        then (n, True)
        else if list_ex (\<lambda>(flt, _). RString_FilterMatches flt topic) (aclFilters rule)
        then (n, False)
        else ACLOk_rules cl topic write (n + 1) rules)
     else ACLOk_rules cl topic write (n + 1) rules)"

definition ACLOk :: "ledger \<Rightarrow> client \<Rightarrow> gostring \<Rightarrow> bool \<Rightarrow> nat \<times> bool" where
  "ACLOk l cl topic write =
    (case m_get (lgUsers l) (cpUsername (clProperties cl)) of
       Some u \<Rightarrow>
         (case (if length (urACL u) > 0 then ACLOk_user (urACL u) topic write else None) of
            Some ok \<Rightarrow> (0, ok)
          | None \<Rightarrow> ACLOk_rules cl topic write 0 (lgACL l))
     | None \<Rightarrow> ACLOk_rules cl topic write 0 (lgACL l))"

text \<open>
  Reading a ledger: the decoders of JSON and YAML are parameters, which fill the ledger they are given.
\<close>

definition Ledger_Unmarshal ::
    "(byte list \<Rightarrow> ledger \<Rightarrow> error + ledger) \<Rightarrow> (byte list \<Rightarrow> ledger \<Rightarrow> error + ledger) \<Rightarrow> byte list \<Rightarrow> ledger \<Rightarrow> error + ledger" where
  "Ledger_Unmarshal json yaml data l =
    (if data = [] then Inr l else if data ! 0 = 123 then json data l else yaml data l)"

text \<open>The hooks.\<close>

record auth_options =
  aoData :: "byte list"
  aoLedger :: "ledger option"

definition Auth_Init_empty :: ledger where
  "Auth_Init_empty = \<lparr>lgUsers = [], lgAuth = [], lgACL = []\<rparr>"

text \<open>\<open>Init\<close> of the ledger hook: the ledger that its decisions are made from.\<close>

definition Auth_Init ::
    "(byte list \<Rightarrow> ledger \<Rightarrow> error + ledger) \<Rightarrow> (byte list \<Rightarrow> ledger \<Rightarrow> error + ledger) \<Rightarrow> auth_options config_any \<Rightarrow> error + ledger" where
  "Auth_Init json yaml config =
    (let load = (\<lambda>c. case aoLedger c of
         Some l \<Rightarrow> Inr l
       | None \<Rightarrow> if length (aoData c) > 0 then Ledger_Unmarshal json yaml (aoData c) Auth_Init_empty else Inr Auth_Init_empty)
     in case config of
       ConfigOther \<Rightarrow> Inl ErrInvalidConfigType
     | ConfigNil \<Rightarrow> load \<lparr>aoData = [], aoLedger = None\<rparr>
     | ConfigOf c \<Rightarrow> load c)"

definition AuthHook_OnConnectAuthenticate :: "ledger \<Rightarrow> client \<Rightarrow> packet \<Rightarrow> bool" where
  "AuthHook_OnConnectAuthenticate l cl pk = (if snd (AuthOk l cl pk) then True else False)"

definition AuthHook_OnACLCheck :: "ledger \<Rightarrow> client \<Rightarrow> gostring \<Rightarrow> bool \<Rightarrow> bool" where
  "AuthHook_OnACLCheck l cl topic write = (if snd (ACLOk l cl topic write) then True else False)"

definition AllowHook_OnConnectAuthenticate :: "client \<Rightarrow> packet \<Rightarrow> bool" where
  "AllowHook_OnConnectAuthenticate cl pk = True"

definition AllowHook_OnACLCheck :: "client \<Rightarrow> gostring \<Rightarrow> bool \<Rightarrow> bool" where
  "AllowHook_OnACLCheck cl topic write = True"

section \<open>What a topic rule covers\<close>

text \<open>
  The specification of the rule language, and what the code does: a rule whose levels are used
  up matches, whatever the topic goes on with.
\<close>

fun rule_covers :: "gostring list \<Rightarrow> gostring list \<Rightarrow> bool" where
  "rule_covers [] ts \<longleftrightarrow> True"
| "rule_covers (f # fs) [] \<longleftrightarrow> False"
| "rule_covers (f # fs) (t # ts) \<longleftrightarrow> f = [ch_hash] \<or> (f = [ch_plus] \<or> f = t) \<and> rule_covers fs ts"

lemma MatchTopic_loop_covers: "snd (MatchTopic_loop fs ts es) \<longleftrightarrow> rule_covers fs ts"
proof (induction fs arbitrary: ts es)
  case (Cons f fs)
  then show ?case by (cases ts) auto
qed simp

lemma FilterMatches_covers: "RString_FilterMatches r a \<longleftrightarrow> rule_covers (segs r) (segs a)"
  by (simp add: RString_FilterMatches_def MatchTopic_def MatchTopic_loop_covers)

lemma rule_covers_prefix: "rule_covers fs (fs @ ts)"
  by (induction fs) auto

lemma segs_append_slash: "segs (a @ ch_slash # b) = segs a @ segs b"
proof (induction a)
  case (Cons c a)
  then show ?case by (cases "segs a") auto
qed simp

text \<open>A rule for a topic also covers everything below the topic.\<close>

lemma FilterMatches_below: "RString_FilterMatches r (r @ ch_slash # b)"
  by (simp add: FilterMatches_covers segs_append_slash rule_covers_prefix)

section \<open>Decisions do not depend on the order of the general rules' filters\<close>

lemma list_ex_set: "set xs = set ys \<Longrightarrow> list_ex P xs = list_ex P ys"
  by (simp add: list_ex_iff)

text \<open>
  The decision of the general rules: the first rule for the client that has no filters or has a
  filter for the topic.
\<close>

definition rule_applies :: "client \<Rightarrow> acl_rule \<Rightarrow> bool" where
  "rule_applies cl rule \<longleftrightarrow> RString_Matches (aclClient rule) (clID cl)
     \<and> RString_Matches (aclUsername rule) (cpUsername (clProperties cl))
     \<and> RString_Matches (aclRemote rule) (cnRemote (clNet cl))"

definition rule_decides :: "client \<Rightarrow> gostring \<Rightarrow> acl_rule \<Rightarrow> bool" where
  "rule_decides cl topic rule \<longleftrightarrow> rule_applies cl rule
     \<and> (aclFilters rule = [] \<or> (\<exists>flt \<in> fst ` set (aclFilters rule). RString_FilterMatches flt topic))"

definition rule_allows :: "gostring \<Rightarrow> bool \<Rightarrow> acl_rule \<Rightarrow> bool" where
  "rule_allows topic write rule \<longleftrightarrow> aclFilters rule = []
     \<or> (\<exists>(flt, a) \<in> set (aclFilters rule). may write a \<and> RString_FilterMatches flt topic)"

lemma ACLOk_rules_spec:
  "snd (ACLOk_rules cl topic write n rules) \<longleftrightarrow>
     (case List.find (rule_decides cl topic) rules of None \<Rightarrow> True | Some r \<Rightarrow> rule_allows topic write r)"
proof (induction rules arbitrary: n)
  case (Cons r rules)
  show ?case
  proof (cases "rule_decides cl topic r")
    case True
    then have a: "rule_applies cl r" by (simp add: rule_decides_def)
    have "list_ex (\<lambda>(flt, _). RString_FilterMatches flt topic) (aclFilters r) \<or> aclFilters r = []"
      using True by (force simp: rule_decides_def list_ex_iff)
    then show ?thesis
      using True a by (auto simp: rule_applies_def rule_allows_def list_ex_iff)
  next
    case False
    then have "\<not> rule_applies cl r \<or> aclFilters r \<noteq> [] \<and>
        \<not> list_ex (\<lambda>(flt, _). RString_FilterMatches flt topic) (aclFilters r)"
      by (force simp: rule_decides_def list_ex_iff)
    moreover have "\<not> list_ex (\<lambda>(flt, _). RString_FilterMatches flt topic) fs \<Longrightarrow>
        \<not> list_ex (\<lambda>(flt, access). may write access \<and> RString_FilterMatches flt topic) fs" for fs
      by (auto simp: list_ex_iff)
    ultimately show ?thesis
      using False Cons by (auto simp: rule_applies_def)
  qed
qed simp

text \<open>
  The user's own filters: the decision is one of a matching filter, and it is the same for every
  iteration order exactly when the matching filters agree.
\<close>

lemma ACLOk_user_None:
  "ACLOk_user fs topic write = None \<longleftrightarrow> (\<forall>flt \<in> fst ` set fs. \<not> RString_FilterMatches flt topic)"
  by (induction fs topic "write" rule: ACLOk_user.induct) auto

lemma ACLOk_user_Some:
  "ACLOk_user fs topic write = Some ok \<Longrightarrow>
     \<exists>flt a. (flt, a) \<in> set fs \<and> RString_FilterMatches flt topic \<and> ok = may write a"
  by (induction fs topic "write" rule: ACLOk_user.induct) (auto simp: may_def split: if_splits)

lemma ACLOk_user_agree:
  assumes "(flt, a) \<in> set fs" "RString_FilterMatches flt topic"
    and "\<And>g b. (g, b) \<in> set fs \<Longrightarrow> RString_FilterMatches g topic \<Longrightarrow> may write b = ok"
  shows "ACLOk_user fs topic write = Some ok"
proof (cases "ACLOk_user fs topic write")
  case None
  then show ?thesis using assms(1,2) by (force simp: ACLOk_user_None)
next
  case (Some ok')
  then show ?thesis using ACLOk_user_Some [OF Some] assms(3) by auto
qed

section \<open>Authentication\<close>

definition auth_applies :: "client \<Rightarrow> packet \<Rightarrow> auth_rule \<Rightarrow> bool" where
  "auth_applies cl pk rule \<longleftrightarrow> RString_Matches (arClient rule) (clID cl)
     \<and> RString_Matches (arUsername rule) (cpUsername (clProperties cl))
     \<and> RString_Matches (arPassword rule) (cPassword (pkConnect pk))
     \<and> RString_Matches (arRemote rule) (cnRemote (clNet cl))"

lemma AuthOk_rules_spec:
  "snd (AuthOk_rules cl pk n rules) \<longleftrightarrow>
     (case List.find (auth_applies cl pk) rules of None \<Rightarrow> False | Some r \<Rightarrow> arAllow r)"
  by (induction rules arbitrary: n) (auto simp: auth_applies_def)

text \<open>
  A user of the ledger with a matching password is decided by the user entry; everyone else,
  also a user of the ledger with a wrong password, by the first rule that applies.
\<close>

lemma AuthOk_spec:
  "snd (AuthOk l cl pk) \<longleftrightarrow>
    (case m_get (lgUsers l) (cpUsername (clProperties cl)) of
       Some u \<Rightarrow> if urPassword u \<noteq> [] \<and> urPassword u = cPassword (pkConnect pk) then \<not> urDisallow u
         else (case List.find (auth_applies cl pk) (lgAuth l) of None \<Rightarrow> False | Some r \<Rightarrow> arAllow r)
     | None \<Rightarrow> (case List.find (auth_applies cl pk) (lgAuth l) of None \<Rightarrow> False | Some r \<Rightarrow> arAllow r))"
  by (auto simp: AuthOk_def AuthOk_rules_spec split: option.splits)

text \<open>Rule values: empty, star, the value itself, or a prefix before a star.\<close>

lemma RString_Matches_spec:
  "RString_Matches r a \<longleftrightarrow> r = [] \<or> r = [ch_star] \<or> a = r
     \<or> (\<exists>p q. r = p @ ch_star # q \<and> ch_star \<notin> set p \<and> p \<noteq> [] \<and> (\<exists>c s. a = p @ c # s))"
proof -
  have pre: "length a > length p \<and> p = take (length p) a \<longleftrightarrow> (\<exists>c s. a = p @ c # s)" for p a :: gostring
  proof
    assume h: "length a > length p \<and> p = take (length p) a"
    then obtain c s where "drop (length p) a = c # s" by (metis drop_eq_Nil not_le neq_Nil_conv)
    then have "a = p @ c # s" using h by (metis append_take_drop_id)
    then show "\<exists>c s. a = p @ c # s" by blast
  qed auto
  from IndexByte_cases [of r ch_star] show ?thesis
  proof (elim disjE exE conjE)
    assume "IndexByte r ch_star = - 1" "ch_star \<notin> set r"
    then show ?thesis by (auto simp: RString_Matches_def Let_def)
  next
    fix p q
    assume r: "r = p @ ch_star # q" "ch_star \<notin> set p" "IndexByte r ch_star = int (length p)"
    have uniq: "p' = p" if "p @ ch_star # q = p' @ ch_star # q'" "ch_star \<notin> set p'" for p' q'
      using that r(2) by (auto simp: append_eq_append_conv2 Cons_eq_append_conv append_eq_Cons_conv)
    have "RString_Matches r a \<longleftrightarrow> r = [] \<or> r = [ch_star] \<or> a = r
        \<or> (p \<noteq> [] \<and> length a > length p \<and> p = take (length p) a)"
      unfolding RString_Matches_def Let_def r(3) by (auto simp: r(1))
    also have "\<dots> \<longleftrightarrow> r = [] \<or> r = [ch_star] \<or> a = r \<or> (p \<noteq> [] \<and> (\<exists>c s. a = p @ c # s))"
      by (simp only: pre)
    also have "p \<noteq> [] \<and> (\<exists>c s. a = p @ c # s) \<longleftrightarrow>
        (\<exists>p q. r = p @ ch_star # q \<and> ch_star \<notin> set p \<and> p \<noteq> [] \<and> (\<exists>c s. a = p @ c # s))"
    proof
      assume "p \<noteq> [] \<and> (\<exists>c s. a = p @ c # s)"
      then show "\<exists>p q. r = p @ ch_star # q \<and> ch_star \<notin> set p \<and> p \<noteq> [] \<and> (\<exists>c s. a = p @ c # s)"
        using r(1,2) by (intro exI [of _ p] exI [of _ q]) simp
    next
      assume "\<exists>p q. r = p @ ch_star # q \<and> ch_star \<notin> set p \<and> p \<noteq> [] \<and> (\<exists>c s. a = p @ c # s)"
      then obtain p' q' where o: "r = p' @ ch_star # q'" "ch_star \<notin> set p'" "p' \<noteq> []" "\<exists>c s. a = p' @ c # s"
        by (elim exE conjE) blast
      then have "p' = p" using uniq [of p' q'] r(1) by simp
      then show "p \<noteq> [] \<and> (\<exists>c s. a = p @ c # s)" using o(3,4) by simp
    qed
    finally show ?thesis .
  qed
qed

end
