(* ===== verification/Mqtt_Defense.thy ===== *)
theory Mqtt_Defense
  imports Mqtt_ClientState Mqtt_Filters
begin

text \<open>
  The two defence hooks, \<open>modules/defense/property_validator.go\<close> and
  \<open>modules/defense/auth_defense.go\<close>.  A hook is its state and one function per handler; the
  counters are integers, the 32-bit AUTH counter is a word.  Time is in nanoseconds and is an
  argument of the handlers that read the clock; a timer of \<open>time.AfterFunc\<close> is an entry of the
  state that fires as a step of its own.
\<close>

section \<open>The property validator\<close>

record validator_config =
  MaxProperties :: int
  MaxKeySize :: int
  MaxValueSize :: int
  MaxPropertyPayload :: int
  MaxClientBudget :: int

record validator =
  pvConfig :: validator_config
  pvBudgets :: "(gostring, int) gomap"
  pvChecked :: int
  pvDropped :: int
  pvViolations :: int

definition default_validator_config :: validator_config where
  "default_validator_config = \<lparr>MaxProperties = 10, MaxKeySize = 256, MaxValueSize = 256,
     MaxPropertyPayload = 4096, MaxClientBudget = 32 * 1024\<rparr>"

definition positive_or :: "int \<Rightarrow> int \<Rightarrow> int" where
  "positive_or v d = (if v \<le> 0 then d else v)"

definition Validator_Init :: "validator_config config_any \<Rightarrow> validator \<Rightarrow> error + validator" where
  "Validator_Init config h =
    (case config of
       ConfigNil \<Rightarrow> Inr (h\<lparr>pvConfig := default_validator_config\<rparr>)
     | ConfigOther \<Rightarrow> Inl ErrInvalidConfigType
     | ConfigOf cfg \<Rightarrow> Inr (h\<lparr>pvConfig :=
         \<lparr>MaxProperties = positive_or (MaxProperties cfg) 10,
          MaxKeySize = positive_or (MaxKeySize cfg) 256,
          MaxValueSize = positive_or (MaxValueSize cfg) 256,
          MaxPropertyPayload = positive_or (MaxPropertyPayload cfg) 4096,
          MaxClientBudget = positive_or (MaxClientBudget cfg) (32 * 1024)\<rparr>\<rparr>))"

definition Validator_recordViolation :: "validator \<Rightarrow> validator" where
  "Validator_recordViolation h =
     h\<lparr>pvDropped := pvDropped h + 1, pvViolations := pvViolations h + 1\<rparr>"

definition getClientBudget :: "validator \<Rightarrow> gostring \<Rightarrow> int" where
  "getClientBudget h c = (case m_get (pvBudgets h) c of Some v \<Rightarrow> v | None \<Rightarrow> 0)"

text \<open>The loop over the properties: their total size, or nothing when a key or value is too long.\<close>

fun Validator_sizes :: "validator_config \<Rightarrow> user_property list \<Rightarrow> int \<Rightarrow> int option" where
  "Validator_sizes cfg [] totalSize = Some totalSize"
| "Validator_sizes cfg (p # ps) totalSize =
    (if int (length (Key p)) > MaxKeySize cfg then None
     else if int (length (Val p)) > MaxValueSize cfg then None
     else Validator_sizes cfg ps (totalSize + (int (length (Key p)) + int (length (Val p)))))"

definition Validator_OnPublish ::
    "validator \<Rightarrow> client \<Rightarrow> packet \<Rightarrow> validator \<times> packet \<times> error option" where
  "Validator_OnPublish h0 cl pk =
    (let h = h0\<lparr>pvChecked := pvChecked h0 + 1\<rparr>;
         cfg = pvConfig h;
         props = pUser (pkProperties pk);
         reject = (\<lambda>h'. (Validator_recordViolation h', pk, Some (ECode ErrRejectPacket)))
     in if length props = 0 then (h, pk, None)
        else if int (length props) > MaxProperties cfg then reject h
        else case Validator_sizes cfg props 0 of
          None \<Rightarrow> reject h
        | Some totalSize \<Rightarrow>
            if totalSize > MaxPropertyPayload cfg then reject h
            else
              let newTotal = getClientBudget h (clID cl) + totalSize;
                  h' = h\<lparr>pvBudgets := m_set (clID cl) newTotal (pvBudgets h)\<rparr>
              in if newTotal > MaxClientBudget cfg then reject h' else (h', pk, None))"

definition Validator_OnDisconnect :: "validator \<Rightarrow> client \<Rightarrow> validator" where
  "Validator_OnDisconnect h cl = h\<lparr>pvBudgets := m_del (clID cl) (pvBudgets h)\<rparr>"

definition Validator_Metrics :: "validator \<Rightarrow> int \<times> int \<times> int" where
  "Validator_Metrics h = (pvChecked h, pvDropped h, pvViolations h)"

subsection \<open>What it accepts\<close>

definition user_size :: "user_property list \<Rightarrow> int" where
  "user_size ps = (\<Sum>p\<leftarrow>ps. int (length (Key p)) + int (length (Val p)))"

definition within_limits :: "validator_config \<Rightarrow> user_property list \<Rightarrow> bool" where
  "within_limits cfg ps \<longleftrightarrow> int (length ps) \<le> MaxProperties cfg
     \<and> list_all (\<lambda>p. int (length (Key p)) \<le> MaxKeySize cfg \<and> int (length (Val p)) \<le> MaxValueSize cfg) ps
     \<and> user_size ps \<le> MaxPropertyPayload cfg"

lemma user_size_simps [simp]:
  "user_size [] = 0"
  "user_size (p # ps) = int (length (Key p)) + int (length (Val p)) + user_size ps"
  by (simp_all add: user_size_def)

lemma user_size_nonneg [simp]: "0 \<le> user_size ps"
  by (induction ps) auto

lemma Validator_sizes_spec:
  "Validator_sizes cfg ps n =
    (if list_all (\<lambda>p. int (length (Key p)) \<le> MaxKeySize cfg \<and> int (length (Val p)) \<le> MaxValueSize cfg) ps
     then Some (n + user_size ps) else None)"
  by (induction ps arbitrary: n) auto

definition passed :: "'a \<times> packet \<times> error option \<Rightarrow> bool" where
  "passed r \<longleftrightarrow> snd (snd r) = None"

text \<open>The state after a packet, and the verdict, in one equation.\<close>

lemma Validator_OnPublish_spec:
  "Validator_OnPublish h cl pk =
    (let ps = pUser (pkProperties pk); cfg = pvConfig h;
         newTotal = getClientBudget h (clID cl) + user_size ps;
         charge = ps \<noteq> [] \<and> within_limits cfg ps;
         ok = (ps = [] \<or> within_limits cfg ps \<and> newTotal \<le> MaxClientBudget cfg)
     in (h\<lparr>pvBudgets := (if charge then m_set (clID cl) newTotal (pvBudgets h) else pvBudgets h),
           pvChecked := pvChecked h + 1,
           pvDropped := pvDropped h + (if ok then 0 else 1),
           pvViolations := pvViolations h + (if ok then 0 else 1)\<rparr>,
         pk, if ok then None else Some (ECode ErrRejectPacket)))"
proof (cases "pUser (pkProperties pk) = []")
  case True
  then show ?thesis by (simp add: Validator_OnPublish_def Let_def)
next
  case False
  have b: "getClientBudget (h\<lparr>pvChecked := n\<rparr>) c = getClientBudget h c" for n c
    by (simp add: getClientBudget_def)
  show ?thesis
    using False
    by (auto simp: Validator_OnPublish_def Let_def Validator_recordViolation_def within_limits_def
        Validator_sizes_spec b)
qed

section \<open>Runs of the validator\<close>

datatype validator_event = VPublish client packet | VDisconnect client

definition validator_step :: "validator \<Rightarrow> validator_event \<Rightarrow> validator" where
  "validator_step h e = (case e of
     VPublish cl pk \<Rightarrow> fst (Validator_OnPublish h cl pk)
   | VDisconnect cl \<Rightarrow> Validator_OnDisconnect h cl)"

text \<open>
  The bytes of user properties that the hook let through for the client \<open>c\<close> since it last
  disconnected.
\<close>

fun admitted :: "validator \<Rightarrow> gostring \<Rightarrow> validator_event list \<Rightarrow> int \<Rightarrow> int" where
  "admitted h c [] n = n"
| "admitted h c (e # es) n =
    admitted (validator_step h e) c es
      (case e of
         VPublish cl pk \<Rightarrow>
           if clID cl = c \<and> passed (Validator_OnPublish h cl pk)
           then n + user_size (pUser (pkProperties pk)) else n
       | VDisconnect cl \<Rightarrow> if clID cl = c then 0 else n)"

lemma step_config [simp]: "pvConfig (validator_step h e) = pvConfig h"
  by (cases e)
    (simp_all add: validator_step_def Validator_OnPublish_spec Validator_OnDisconnect_def Let_def)

lemma getClientBudget_step:
  "getClientBudget (validator_step h e) c =
    (case e of
       VPublish cl pk \<Rightarrow>
         if clID cl = c \<and> pUser (pkProperties pk) \<noteq> [] \<and> within_limits (pvConfig h) (pUser (pkProperties pk))
         then getClientBudget h c + user_size (pUser (pkProperties pk)) else getClientBudget h c
     | VDisconnect cl \<Rightarrow> if clID cl = c then 0 else getClientBudget h c)"
  by (cases e)
    (auto simp: validator_step_def Validator_OnPublish_spec Validator_OnDisconnect_def Let_def
      getClientBudget_def)

lemma passed_OnPublish:
  "passed (Validator_OnPublish h cl pk) \<longleftrightarrow> pUser (pkProperties pk) = []
     \<or> within_limits (pvConfig h) (pUser (pkProperties pk))
       \<and> getClientBudget h (clID cl) + user_size (pUser (pkProperties pk)) \<le> MaxClientBudget (pvConfig h)"
  by (simp add: passed_def Validator_OnPublish_spec Let_def)

lemma admitted_bounded:
  assumes "n \<le> MaxClientBudget (pvConfig h)" "n \<le> getClientBudget h c" "0 \<le> n"
    "0 \<le> MaxClientBudget (pvConfig h)"
  shows "admitted h c es n \<le> MaxClientBudget (pvConfig h)"
  using assms
proof (induction es arbitrary: h n)
  case (Cons e es)
  let ?h = "validator_step h e"
  show ?case
  proof (cases e)
    case (VPublish cl pk)
    let ?ps = "pUser (pkProperties pk)"
    show ?thesis
    proof (cases "clID cl = c \<and> passed (Validator_OnPublish h cl pk)")
      case True
      have "n + user_size ?ps \<le> getClientBudget ?h c" "n + user_size ?ps \<le> MaxClientBudget (pvConfig h)"
        using True Cons.prems by (auto simp: getClientBudget_step VPublish passed_OnPublish)
      then show ?thesis
        using Cons.IH [of "n + user_size ?ps" ?h] Cons.prems True by (simp add: VPublish)
    next
      case False
      have "n \<le> getClientBudget ?h c"
        using Cons.prems user_size_nonneg [of ?ps]
        by (auto simp: getClientBudget_step VPublish simp del: user_size_nonneg)
      then show ?thesis
        using Cons.IH [of n ?h] Cons.prems False by (auto simp: VPublish)
    qed
  next
    case (VDisconnect cl)
    show ?thesis
      using Cons.IH [of "if clID cl = c then 0 else n" ?h] Cons.prems
      by (auto simp: VDisconnect getClientBudget_step)
  qed
qed simp

text \<open>The counters: one violation for each dropped packet, never more than were checked.\<close>

definition counters_ok :: "validator \<Rightarrow> bool" where
  "counters_ok h \<longleftrightarrow> pvDropped h = pvViolations h \<and> 0 \<le> pvDropped h \<and> pvDropped h \<le> pvChecked h"

lemma counters_ok_step: "counters_ok h \<Longrightarrow> counters_ok (validator_step h e)"
  by (cases e)
    (auto simp: counters_ok_def validator_step_def Validator_OnPublish_spec Validator_OnDisconnect_def Let_def)

lemma counters_ok_run: "counters_ok h \<Longrightarrow> counters_ok (foldl validator_step h es)"
  by (induction es arbitrary: h) (auto intro: counters_ok_step)

text \<open>A packet refused for the budget is charged too: the client is silenced until it disconnects.\<close>

lemma budget_exhausted:
  assumes "getClientBudget h (clID cl) > MaxClientBudget (pvConfig h)" "pUser (pkProperties pk) \<noteq> []"
  shows "\<not> passed (Validator_OnPublish h cl pk)"
  using assms user_size_nonneg [of "pUser (pkProperties pk)"]
  by (auto simp: passed_OnPublish simp del: user_size_nonneg)

section \<open>Network addresses\<close>

text \<open>
  \<open>net.SplitHostPort\<close> of the Go library: the host, or the text of the address error.
\<close>

definition ch_colon :: byte where [simp]: "ch_colon = 58"
definition ch_open :: byte where [simp]: "ch_open = 91"
definition ch_close :: byte where [simp]: "ch_close = 93"

definition last_index :: "byte list \<Rightarrow> byte \<Rightarrow> int" where
  "last_index s c = (let i = IndexByte (rev s) c in if i < 0 then - 1 else int (length s) - 1 - i)"

fun strings_Contains :: "gostring \<Rightarrow> gostring \<Rightarrow> bool" where
  "strings_Contains [] sub = (sub = [])"
| "strings_Contains (c # s) sub = (take (length sub) (c # s) = sub \<or> strings_Contains s sub)"

definition addr_error :: "gostring \<Rightarrow> string \<Rightarrow> gostring" where
  "addr_error addr why =
     (if addr \<noteq> [] then lit ''address '' @ addr @ lit '': '' @ lit why else lit why)"

definition SplitHostPort :: "gostring \<Rightarrow> gostring + gostring \<times> gostring" where
  "SplitHostPort hostport =
    (let missingPort = ''missing port in address'';
         tooManyColons = ''too many colons in address'';
         err = (\<lambda>why. Inl (addr_error hostport why));
         i = last_index hostport ch_colon;
         close = IndexByte hostport ch_close;
         finish = (\<lambda>host j k.
           if IndexByte (drop j hostport) ch_open \<ge> 0 then err ''unexpected '[' in address''
           else if IndexByte (drop k hostport) ch_close \<ge> 0 then err ''unexpected ']' in address''
           else Inr (host, drop (nat (i + 1)) hostport))
     in if i < 0 then err missingPort
        else if hostport ! 0 = ch_open then
          (if close < 0 then err ''missing ']' in address''
           else if close + 1 = int (length hostport) then err missingPort
           else if close + 1 = i then finish (gslice hostport 1 (nat close)) 1 (nat (close + 1))
           else if hostport ! nat (close + 1) = ch_colon then err tooManyColons
           else err missingPort)
        else
          (let host = take (nat i) hostport
           in if IndexByte host ch_colon \<ge> 0 then err tooManyColons else finish host 0 0))"

definition getIP :: "gostring \<Rightarrow> gostring" where
  "getIP addr =
    (case SplitHostPort addr of
       Inl e \<Rightarrow> if strings_Contains e (lit ''missing port in address'') then addr else lit ''unknown''
     | Inr (host, _) \<Rightarrow> host)"

lemma IndexByte_neg: "IndexByte s c < 0 \<longleftrightarrow> c \<notin> set s"
  using IndexByte_cases [of s c] by auto

lemma IndexByte_nonneg: "0 \<le> IndexByte s c \<longleftrightarrow> c \<in> set s"
  using IndexByte_neg [of s c] by auto

lemma IndexByte_app: "c \<notin> set p \<Longrightarrow> IndexByte (p @ c # q) c = int (length p)"
  by (induction p) (auto simp: Let_def split: if_splits)

lemma last_index_app: "c \<notin> set q \<Longrightarrow> last_index (p @ c # q) c = int (length p)"
  using IndexByte_app [of c "rev q" "rev p"] by (simp add: last_index_def Let_def)

text \<open>An IPv4 address or a name with its port, and an IPv6 address in brackets with its port.\<close>

lemma getIP_plain:
  assumes "set host \<inter> {ch_colon, ch_open, ch_close} = {}" "set port \<inter> {ch_colon, ch_open, ch_close} = {}"
  shows "getIP (host @ ch_colon # port) = host"
proof -
  let ?a = "host @ ch_colon # port"
  have i: "last_index ?a ch_colon = int (length host)"
    using assms by (intro last_index_app) auto
  have h0: "?a ! 0 \<noteq> ch_open"
    using assms by (cases host) auto
  have n: "IndexByte ?a ch_open < 0" "IndexByte ?a ch_close < 0" "IndexByte host ch_colon < 0"
    using assms by (auto simp: IndexByte_neg)
  show ?thesis
    using i h0 n unfolding getIP_def SplitHostPort_def Let_def by simp
qed

lemma getIP_brackets:
  assumes "set host \<inter> {ch_open, ch_close} = {}" "set port \<inter> {ch_colon, ch_open, ch_close} = {}"
  shows "getIP (ch_open # host @ ch_close # ch_colon # port) = host"
proof -
  let ?a = "ch_open # host @ ch_close # ch_colon # port"
  have i: "last_index ?a ch_colon = int (length host) + 2"
    using last_index_app [of ch_colon port "ch_open # host @ [ch_close]"] assms by simp
  have c: "IndexByte ?a ch_close = int (length host) + 1"
    using IndexByte_app [of ch_close "ch_open # host" "ch_colon # port"] assms by simp
  have n: "IndexByte (drop 1 ?a) ch_open < 0"
    using assms by (auto simp: IndexByte_neg)
  have m: "IndexByte (drop (nat (int (length host) + 1 + 1)) ?a) ch_close < 0"
    using assms by (auto simp: IndexByte_neg nat_add_distrib)
  have g: "gslice ?a 1 (nat (int (length host) + 1)) = host"
    by (simp add: gslice_def nat_add_distrib)
  show ?thesis
    using i c n m g unfolding getIP_def SplitHostPort_def Let_def by simp
qed

end
