(* ===== verification/Mqtt_AuthDefense.thy ===== *)
theory Mqtt_AuthDefense
  imports Mqtt_Defense
begin

text \<open>
  The authentication-flood hook, \<open>modules/defense/auth_defense.go\<close>: its handlers, the limit on
  concurrent connections, the rate of connections of an address, the limit on AUTH packets and
  the timeout of connections that do not authenticate.
\<close>

definition second :: int where [simp]: "second = 1000000000"

record auth_defense_config =
  MaxConnPerSec :: int
  MaxConcurrentConn :: int
  MaxAuthPerConn :: int
  ConnTimeout :: int

record ip_tracker =
  itCount :: int
  itReset :: int

record auth_state =
  asCount :: u32
  asTimer :: nat
  asAuthed :: bool

text \<open>A timer holds what its function captured.\<close>

record timer =
  tmClientID :: gostring
  tmClient :: client
  tmAt :: int

record auth_defense =
  adConfig :: auth_defense_config
  adActive :: int
  adRates :: "(gostring, ip_tracker) gomap"
  adClients :: "(gostring, auth_state) gomap"
  adTimers :: "(nat, timer) gomap"
  adNextTimer :: nat
  adReceived :: int
  adBlocked :: int
  adRejected :: int
  adViolations :: int

definition default_auth_config :: auth_defense_config where
  "default_auth_config =
     \<lparr>MaxConnPerSec = 5, MaxConcurrentConn = 20, MaxAuthPerConn = 2, ConnTimeout = 30 * second\<rparr>"

definition AuthDefense_Init :: "auth_defense_config config_any \<Rightarrow> auth_defense \<Rightarrow> error + auth_defense" where
  "AuthDefense_Init config h =
    (case config of
       ConfigNil \<Rightarrow> Inr (h\<lparr>adConfig := default_auth_config\<rparr>)
     | ConfigOther \<Rightarrow> Inl ErrInvalidConfigType
     | ConfigOf cfg \<Rightarrow> Inr (h\<lparr>adConfig :=
         \<lparr>MaxConnPerSec = positive_or (MaxConnPerSec cfg) 5,
          MaxConcurrentConn = positive_or (MaxConcurrentConn cfg) 20,
          MaxAuthPerConn = positive_or (MaxAuthPerConn cfg) 2,
          ConnTimeout = positive_or (ConnTimeout cfg) (30 * second)\<rparr>\<rparr>))"

definition recordConnViolation :: "auth_defense \<Rightarrow> auth_defense" where
  "recordConnViolation h = h\<lparr>adRejected := adRejected h + 1\<rparr>"

definition recordAuthViolation :: "auth_defense \<Rightarrow> auth_defense" where
  "recordAuthViolation h = h\<lparr>adBlocked := adBlocked h + 1, adViolations := adViolations h + 1\<rparr>"

text \<open>The tracker of an address after one more connection at \<open>now\<close>.\<close>

definition track :: "int \<Rightarrow> ip_tracker option \<Rightarrow> ip_tracker" where
  "track now t =
    (let tr = (case t of Some tr \<Rightarrow> tr | None \<Rightarrow> \<lparr>itCount = 0, itReset = now + second\<rparr>);
         tr = (if now > itReset tr then \<lparr>itCount = 0, itReset = now + second\<rparr> else tr)
     in tr\<lparr>itCount := itCount tr + 1\<rparr>)"

definition AuthDefense_OnConnect ::
    "auth_defense \<Rightarrow> int \<Rightarrow> client \<Rightarrow> packet \<Rightarrow> auth_defense \<times> error option" where
  "AuthDefense_OnConnect h0 now cl pk =
    (let h = h0\<lparr>adActive := adActive h0 + 1\<rparr>
     in if adActive h > MaxConcurrentConn (adConfig h) then
          (recordConnViolation (h\<lparr>adActive := adActive h - 1\<rparr>), Some (ENew (lit ''server too busy'')))
        else
          let ip = getIP (cnRemote (clNet cl));
              tr = track now (m_get (adRates h) ip);
              h = h\<lparr>adRates := m_set ip tr (adRates h)\<rparr>
          in if itCount tr > MaxConnPerSec (adConfig h) then
               (recordConnViolation (h\<lparr>adActive := adActive h - 1\<rparr>),
                Some (ENew (lit ''rate limit exceeded'')))
             else
               let k = adNextTimer h;
                   tm = \<lparr>tmClientID = clID cl, tmClient = cl, tmAt = now + ConnTimeout (adConfig h)\<rparr>;
                   st = \<lparr>asCount = 0, asTimer = k, asAuthed = False\<rparr>
               in (h\<lparr>adTimers := m_set k tm (adTimers h), adNextTimer := k + 1,
                     adClients := m_set (clID cl) st (adClients h)\<rparr>, None))"

text \<open>The function of the timer \<open>k\<close>: the client to stop, if any.\<close>

definition AuthDefense_timeout :: "auth_defense \<Rightarrow> nat \<Rightarrow> auth_defense \<times> (client \<times> error) option" where
  "AuthDefense_timeout h k =
    (case m_get (adTimers h) k of
       None \<Rightarrow> (h, None)
     | Some tm \<Rightarrow>
         let h' = h\<lparr>adTimers := m_del k (adTimers h)\<rparr>
         in case m_get (adClients h') (tmClientID tm) of
              None \<Rightarrow> (h', None)
            | Some st \<Rightarrow>
                if \<not> asAuthed st
                then (recordAuthViolation h', Some (tmClient tm, ENew (lit ''authentication timeout'')))
                else (h', None))"

definition AuthDefense_OnDisconnect :: "auth_defense \<Rightarrow> client \<Rightarrow> auth_defense" where
  "AuthDefense_OnDisconnect h0 cl =
    (let h = h0\<lparr>adActive := adActive h0 - 1\<rparr>
     in case m_get (adClients h) (clID cl) of
          Some st \<Rightarrow> h\<lparr>adClients := m_del (clID cl) (adClients h), adTimers := m_del (asTimer st) (adTimers h)\<rparr>
        | None \<Rightarrow> h)"

definition AuthDefense_OnAuthPacket ::
    "auth_defense \<Rightarrow> client \<Rightarrow> packet \<Rightarrow> auth_defense \<times> packet \<times> error option" where
  "AuthDefense_OnAuthPacket h0 cl pk =
    (let h = h0\<lparr>adReceived := adReceived h0 + 1\<rparr>
     in case m_get (adClients h) (clID cl) of
          None \<Rightarrow> (h\<lparr>adBlocked := adBlocked h + 1\<rparr>, pk, Some (ECode ErrRejectPacket))
        | Some st \<Rightarrow>
            let st' = st\<lparr>asCount := asCount st + 1\<rparr>;
                h' = h\<lparr>adClients := m_set (clID cl) st' (adClients h)\<rparr>
            in if sint (asCount st') > sint (word_of_int (MaxAuthPerConn (adConfig h)) :: u32)
               then (recordAuthViolation h', pk, Some (ECode ErrRejectPacket))
               else (h', pk, None))"

definition AuthDefense_OnSessionEstablished :: "auth_defense \<Rightarrow> client \<Rightarrow> auth_defense" where
  "AuthDefense_OnSessionEstablished h cl =
    (case m_get (adClients h) (clID cl) of
       Some st \<Rightarrow> h\<lparr>adClients := m_set (clID cl) (st\<lparr>asAuthed := True\<rparr>) (adClients h),
                    adTimers := m_del (asTimer st) (adTimers h)\<rparr>
     | None \<Rightarrow> h)"

definition AuthDefense_Metrics :: "auth_defense \<Rightarrow> int \<times> int \<times> int \<times> int" where
  "AuthDefense_Metrics h = (adReceived h, adBlocked h, adRejected h, adViolations h)"

section \<open>Runs\<close>

datatype ad_event =
    AConnect int client packet
  | ADisconnect client
  | AAuth client packet
  | AEstablished client
  | ATimeout nat

definition ad_step :: "auth_defense \<Rightarrow> ad_event \<Rightarrow> auth_defense" where
  "ad_step h e = (case e of
     AConnect now cl pk \<Rightarrow> fst (AuthDefense_OnConnect h now cl pk)
   | ADisconnect cl \<Rightarrow> AuthDefense_OnDisconnect h cl
   | AAuth cl pk \<Rightarrow> fst (AuthDefense_OnAuthPacket h cl pk)
   | AEstablished cl \<Rightarrow> AuthDefense_OnSessionEstablished h cl
   | ATimeout k \<Rightarrow> fst (AuthDefense_timeout h k))"

lemmas ad_defs = AuthDefense_OnConnect_def AuthDefense_OnDisconnect_def AuthDefense_OnAuthPacket_def
  AuthDefense_OnSessionEstablished_def AuthDefense_timeout_def recordConnViolation_def
  recordAuthViolation_def Let_def

definition admits :: "auth_defense \<Rightarrow> ad_event \<Rightarrow> bool" where
  "admits h e = (case e of AConnect now cl pk \<Rightarrow> snd (AuthDefense_OnConnect h now cl pk) = None | _ \<Rightarrow> False)"

lemma ad_step_config [simp]: "adConfig (ad_step h e) = adConfig h"
  by (cases e) (auto simp: ad_step_def ad_defs split: option.splits)

lemma ad_step_active:
  "adActive (ad_step h e) =
    (case e of ADisconnect _ \<Rightarrow> adActive h - 1 | _ \<Rightarrow> if admits h e then adActive h + 1 else adActive h)"
  by (cases e) (auto simp: ad_step_def admits_def ad_defs split: option.splits)

lemma admits_active: "admits h e \<Longrightarrow> adActive h < MaxConcurrentConn (adConfig h)"
  by (cases e) (auto simp: admits_def ad_defs split: if_splits)

text \<open>The slots in use are the admitted connections less the disconnections, within the limit.\<close>

fun slots :: "auth_defense \<Rightarrow> ad_event list \<Rightarrow> int \<Rightarrow> int" where
  "slots h [] n = n"
| "slots h (e # es) n =
    slots (ad_step h e) es
      (case e of ADisconnect _ \<Rightarrow> n - 1 | _ \<Rightarrow> if admits h e then n + 1 else n)"

lemma slots_run:
  "adActive (foldl ad_step h es) = slots h es (adActive h)"
proof (induction es arbitrary: h)
  case (Cons e es)
  show ?case using Cons [of "ad_step h e"] by (simp add: ad_step_active)
qed simp

lemma active_bounded:
  "adActive h \<le> MaxConcurrentConn (adConfig h) \<Longrightarrow>
     adActive (foldl ad_step h es) \<le> MaxConcurrentConn (adConfig h)"
proof (induction es arbitrary: h)
  case (Cons e es)
  have "adActive (ad_step h e) \<le> MaxConcurrentConn (adConfig h)"
    using Cons.prems admits_active [of h e] by (cases e) (auto simp: ad_step_active)
  then show ?case using Cons.IH [of "ad_step h e"] by simp
qed simp

section \<open>The rate of an address\<close>

definition conn_ip :: "ad_event \<Rightarrow> gostring option" where
  "conn_ip e = (case e of AConnect now cl pk \<Rightarrow> Some (getIP (cnRemote (clNet cl))) | _ \<Rightarrow> None)"

fun admitted_from :: "gostring \<Rightarrow> auth_defense \<Rightarrow> ad_event list \<Rightarrow> nat" where
  "admitted_from ip h [] = 0"
| "admitted_from ip h (e # es) =
    (if conn_ip e = Some ip \<and> admits h e then 1 else 0) + admitted_from ip (ad_step h e) es"

definition connects_within :: "int \<Rightarrow> int \<Rightarrow> ad_event \<Rightarrow> bool" where
  "connects_within a b e = (case e of AConnect now cl pk \<Rightarrow> a \<le> now \<and> now \<le> b | _ \<Rightarrow> True)"

text \<open>How many more connections of the address the hook can admit until the time \<open>b\<close>.\<close>

definition allowance :: "auth_defense \<Rightarrow> gostring \<Rightarrow> int \<Rightarrow> int" where
  "allowance h ip b =
    (let m = MaxConnPerSec (adConfig h)
     in case m_get (adRates h) ip of
          None \<Rightarrow> m
        | Some tr \<Rightarrow> max 0 (m - itCount tr) + (if itReset tr < b then m else 0))"

lemma ad_step_rates:
  "m_get (adRates (ad_step h e)) ip =
    (case e of
       AConnect now cl pk \<Rightarrow>
         if adActive h < MaxConcurrentConn (adConfig h) \<and> getIP (cnRemote (clNet cl)) = ip
         then Some (track now (m_get (adRates h) ip)) else m_get (adRates h) ip
     | _ \<Rightarrow> m_get (adRates h) ip)"
  by (cases e) (auto simp: ad_step_def ad_defs split: option.splits)

lemma admits_rate:
  "admits h (AConnect now cl pk) \<longleftrightarrow> adActive h < MaxConcurrentConn (adConfig h)
     \<and> itCount (track now (m_get (adRates h) (getIP (cnRemote (clNet cl))))) \<le> MaxConnPerSec (adConfig h)"
  by (auto simp: admits_def ad_defs)

lemma allowance_step:
  assumes "connects_within a b e" "b \<le> a + second" "0 < MaxConnPerSec (adConfig h)"
  shows "(if conn_ip e = Some ip \<and> admits h e then 1 else 0) + allowance (ad_step h e) ip b
           \<le> allowance h ip b"
proof (cases "conn_ip e = Some ip \<and> adActive h < MaxConcurrentConn (adConfig h)")
  case True
  then obtain now cl pk where e: "e = AConnect now cl pk" "getIP (cnRemote (clNet cl)) = ip"
    by (auto simp: conn_ip_def split: ad_event.splits)
  have t: "a \<le> now" "now \<le> b" using assms(1) by (simp_all add: connects_within_def e)
  show ?thesis
  proof (cases "m_get (adRates h) ip")
    case None
    then show ?thesis
      using True e t assms(2,3)
      by (auto simp: allowance_def ad_step_rates admits_rate track_def Let_def)
  next
    case (Some tr)
    then show ?thesis
      using True e t assms(2,3)
      by (auto simp: allowance_def ad_step_rates admits_rate track_def Let_def)
  qed
next
  case False
  have r: "m_get (adRates (ad_step h e)) ip = m_get (adRates h) ip"
    using False by (auto simp: ad_step_rates conn_ip_def split: ad_event.splits)
  have "\<not> (conn_ip e = Some ip \<and> admits h e)"
    using False admits_active [of h e] by auto
  then show ?thesis
    using r by (auto simp: allowance_def)
qed

lemma admitted_allowance:
  assumes "list_all (connects_within a b) es" "b \<le> a + second" "0 < MaxConnPerSec (adConfig h)"
  shows "int (admitted_from ip h es) \<le> allowance h ip b"
  using assms
proof (induction es arbitrary: h)
  case Nil
  then show ?case by (auto simp: allowance_def Let_def split: option.splits)
next
  case (Cons e es)
  have "int (admitted_from ip (ad_step h e) es) \<le> allowance (ad_step h e) ip b"
    using Cons by simp
  then show ?case
    using allowance_step [of a b e h ip] Cons.prems by auto
qed

text \<open>A fixed window lets at most two bursts into any one second.\<close>

lemma rate_bound:
  assumes "list_all (connects_within a b) es" "b \<le> a + second" "0 < MaxConnPerSec (adConfig h)"
    "\<And>tr. m_get (adRates h) ip = Some tr \<Longrightarrow> 0 \<le> itCount tr"
  shows "int (admitted_from ip h es) \<le> 2 * MaxConnPerSec (adConfig h)"
proof -
  have "allowance h ip b \<le> 2 * MaxConnPerSec (adConfig h)"
    using assms(3,4) by (fastforce simp: allowance_def Let_def split: option.splits)
  then show ?thesis using admitted_allowance [OF assms(1-3), of ip] by simp
qed

lemma itCount_run:
  assumes "\<forall>ip tr. m_get (adRates h) ip = Some tr \<longrightarrow> 0 \<le> itCount tr"
  shows "m_get (adRates (foldl ad_step h es)) ip = Some tr \<Longrightarrow> 0 \<le> itCount tr"
  using assms
proof (induction es arbitrary: h)
  case (Cons e es)
  have "\<forall>ip tr. m_get (adRates (ad_step h e)) ip = Some tr \<longrightarrow> 0 \<le> itCount tr"
  proof (intro allI impI)
    fix ip tr assume g: "m_get (adRates (ad_step h e)) ip = Some tr"
    have k: "0 \<le> itCount (track now (m_get (adRates h) ip))" for now
      using Cons.prems(2) by (fastforce simp: track_def Let_def split: option.splits)
    show "0 \<le> itCount tr"
      using g k Cons.prems(2) by (auto simp: ad_step_rates split: ad_event.splits if_splits)
  qed
  then show ?case using Cons.IH [of "ad_step h e"] Cons.prems(1) by simp
qed auto

section \<open>AUTH packets and the timeout\<close>

text \<open>
  Of the AUTH packets of a connection exactly the first \<open>MaxAuthPerConn\<close> get through.
  The verdicts on consecutive AUTH packets of one connection.\<close>

fun auths :: "auth_defense \<Rightarrow> client \<Rightarrow> packet list \<Rightarrow> bool list" where
  "auths h cl [] = []"
| "auths h cl (pk # pks) =
    (let r = AuthDefense_OnAuthPacket h cl pk in passed r # auths (fst r) cl pks)"

lemma sint_of_nat_small: "n < 2 ^ 31 \<Longrightarrow> sint (of_nat n :: u32) = int n"
  by (simp add: sint_uint signed_take_bit_int_eq_self unsigned_of_nat take_bit_nat_eq_self
      signed_of_nat)

lemma auths_spec:
  assumes "m_get (adClients h) (clID cl) = Some st" "asCount st = of_nat n"
    "n + length pks < 2 ^ 31" "0 \<le> MaxAuthPerConn (adConfig h)" "MaxAuthPerConn (adConfig h) < 2 ^ 31"
  shows "auths h cl pks = map (\<lambda>i. int (n + i) \<le> MaxAuthPerConn (adConfig h)) [1 ..< Suc (length pks)]"
  using assms
proof (induction pks arbitrary: h n st)
  case (Cons pk pks)
  let ?r = "AuthDefense_OnAuthPacket h cl pk"
  have m: "sint (word_of_int (MaxAuthPerConn (adConfig h)) :: u32) = MaxAuthPerConn (adConfig h)"
    using sint_of_nat_small [of "nat (MaxAuthPerConn (adConfig h))"] Cons.prems(4,5) by simp
  have c: "asCount st + 1 = of_nat (Suc n)" using Cons.prems(2) by simp
  have s: "sint (asCount st + 1) = int (Suc n)"
    unfolding c by (rule sint_of_nat_small) (use Cons.prems(3) in simp)
  have p: "passed ?r \<longleftrightarrow> int (n + 1) \<le> MaxAuthPerConn (adConfig h)"
    using Cons.prems(1) s by (auto simp: passed_def AuthDefense_OnAuthPacket_def Let_def m)
  have st: "m_get (adClients (fst ?r)) (clID cl) = Some (st\<lparr>asCount := asCount st + 1\<rparr>)"
    "adConfig (fst ?r) = adConfig h"
    using Cons.prems(1) by (auto simp: ad_defs)
  have "auths (fst ?r) cl pks =
      map (\<lambda>i. int (Suc n + i) \<le> MaxAuthPerConn (adConfig h)) [1 ..< Suc (length pks)]"
    using Cons.IH [OF st(1), of "Suc n"] Cons.prems(3-5) st(2) c by simp
  also have "\<dots> = map (\<lambda>i. int (n + i) \<le> MaxAuthPerConn (adConfig h)) (map Suc [1 ..< Suc (length pks)])"
    by (simp add: algebra_simps)
  finally show ?case
    using p unfolding map_Suc_upt by (simp add: Let_def upt_conv_Cons add.commute del: upt_Suc)
qed simp

text \<open>
  A connection that is admitted waits under a timer of its own; the timer stops exactly the
  client it was started for, and only when nothing has authenticated under that identifier.
\<close>

definition timers_fresh :: "auth_defense \<Rightarrow> bool" where
  "timers_fresh h \<longleftrightarrow> (\<forall>k tm. m_get (adTimers h) k = Some tm \<longrightarrow> k < adNextTimer h)
     \<and> (\<forall>c st. m_get (adClients h) c = Some st \<longrightarrow> asTimer st < adNextTimer h)
     \<and> (\<forall>c st tm. m_get (adClients h) c = Some st \<longrightarrow> m_get (adTimers h) (asTimer st) = Some tm \<longrightarrow>
          tmClientID tm = c \<and> \<not> asAuthed st)"

lemma timers_fresh_step:
  assumes "timers_fresh h"
  shows "timers_fresh (ad_step h e)"
proof (cases e)
  case (AConnect now cl pk)
  show ?thesis
    using assms unfolding AConnect ad_step_def
    by (fastforce simp: timers_fresh_def ad_defs split: if_splits)
next
  case (ADisconnect cl)
  show ?thesis
    using assms unfolding ADisconnect ad_step_def
    by (fastforce simp: timers_fresh_def ad_defs split: if_splits option.splits)
next
  case (AAuth cl pk)
  show ?thesis
    using assms unfolding AAuth ad_step_def
    by (fastforce simp: timers_fresh_def ad_defs split: if_splits option.splits)
next
  case (AEstablished cl)
  show ?thesis
    using assms unfolding AEstablished ad_step_def
    by (fastforce simp: timers_fresh_def ad_defs split: if_splits option.splits)
next
  case (ATimeout k)
  show ?thesis
    using assms unfolding ATimeout ad_step_def
    by (fastforce simp: timers_fresh_def ad_defs split: if_splits option.splits)
qed

lemma timers_fresh_run: "timers_fresh h \<Longrightarrow> timers_fresh (foldl ad_step h es)"
  by (induction es arbitrary: h) (auto intro: timers_fresh_step)

lemma timeout_spec:
  assumes "m_get (adClients h) c = Some st" "m_get (adTimers h) (asTimer st) = Some tm" "timers_fresh h"
  shows "snd (AuthDefense_timeout h (asTimer st)) = Some (tmClient tm, ENew (lit ''authentication timeout''))"
  using assms by (auto simp: timers_fresh_def AuthDefense_timeout_def Let_def)

lemma OnConnect_timer:
  assumes "snd (AuthDefense_OnConnect h now cl pk) = None" "h' = fst (AuthDefense_OnConnect h now cl pk)"
  shows "\<exists>st. m_get (adClients h') (clID cl) = Some st
    \<and> m_get (adTimers h') (asTimer st)
        = Some \<lparr>tmClientID = clID cl, tmClient = cl, tmAt = now + ConnTimeout (adConfig h)\<rparr>"
  using assms by (auto simp: ad_defs split: if_splits)

lemma established_not_stopped:
  assumes "m_get (adClients h) (clID cl) = Some st" "timers_fresh h"
    "h' = AuthDefense_OnSessionEstablished h cl"
    "m_get (adTimers h') k = Some tm" "tmClientID tm = clID cl"
  shows "snd (AuthDefense_timeout h' k) = None"
  using assms by (auto simp: AuthDefense_OnSessionEstablished_def AuthDefense_timeout_def Let_def)

end
