(* ===== verification/Mqtt_Routing.thy ===== *)
theory Mqtt_Routing
  imports Mqtt_ClientState "HOL-Library.Multiset"
begin

text \<open>
  The priority hook, \<open>modules/routing/priority_messaging.go\<close>: three queues, a handler that
  enqueues, the step of the scheduler and the tick of the aging loop.  The goroutines are steps
  on the state that the mutex of the hook protects; a run is any sequence of steps.
\<close>

definition PriorityUrgent :: gostring where "PriorityUrgent = lit ''Urgent''"
definition PriorityHigh :: gostring where "PriorityHigh = lit ''High''"
definition PriorityNormal :: gostring where "PriorityNormal = lit ''Normal''"

lemmas priority_names = PriorityUrgent_def PriorityHigh_def PriorityNormal_def

record priority_config =
  AgingThresholdHigh :: int
  AgingThresholdNormal :: int
  SchedulerInterval :: int

record prioritized =
  ppClient :: client
  ppPacket :: packet
  ppEnqueued :: int

record priority_hook =
  phConfig :: priority_config
  phUrgent :: "prioritized list"
  phHigh :: "prioritized list"
  phNormal :: "prioritized list"
  phStop :: bool
  phServer :: bool
  phConfigReady :: bool
  phServerReady :: bool
  phStarted :: bool

section \<open>Start\<close>

definition millisecond :: int where [simp]: "millisecond = 1000000"

definition default_priority_config :: priority_config where
  "default_priority_config = \<lparr>AgingThresholdHigh = 500 * millisecond,
     AgingThresholdNormal = 1000 * millisecond, SchedulerInterval = 10 * millisecond\<rparr>"

text \<open>A new hook, and \<open>ensureQueues\<close>, which the first of \<open>Init\<close> and \<open>SetOpts\<close> runs.\<close>

definition new_priority_hook :: priority_hook where
  "new_priority_hook = \<lparr>phConfig = \<lparr>AgingThresholdHigh = 0, AgingThresholdNormal = 0, SchedulerInterval = 0\<rparr>,
     phUrgent = [], phHigh = [], phNormal = [], phStop = False, phServer = False,
     phConfigReady = False, phServerReady = False, phStarted = False\<rparr>"

text \<open>\<open>maybeStart\<close>: the second component tells whether the loops are started now.\<close>

definition maybeStart :: "priority_hook \<Rightarrow> priority_hook \<times> bool" where
  "maybeStart h =
    (let ready = phConfigReady h \<and> phServerReady h \<and> phServer h \<and> \<not> phStarted h
     in if ready then (h\<lparr>phStarted := True\<rparr>, True) else (h, False))"

definition Priority_Init :: "priority_config config_any \<Rightarrow> priority_hook \<Rightarrow> error + priority_hook \<times> bool" where
  "Priority_Init config h =
    (case config of
       ConfigOther \<Rightarrow> Inl ErrInvalidConfigType
     | ConfigNil \<Rightarrow> Inr (maybeStart (h\<lparr>phConfig := default_priority_config, phConfigReady := True\<rparr>))
     | ConfigOf cfg \<Rightarrow> Inr (maybeStart (h\<lparr>phConfig := cfg, phConfigReady := True\<rparr>)))"

text \<open>\<open>SetOpts\<close> with options whose server is set or nil.\<close>

definition Priority_SetOpts :: "bool \<Rightarrow> priority_hook \<Rightarrow> priority_hook \<times> bool" where
  "Priority_SetOpts server h = maybeStart (h\<lparr>phServer := server, phServerReady := True\<rparr>)"

definition Priority_Stop :: "priority_hook \<Rightarrow> error + priority_hook" where
  "Priority_Stop h = (if phStop h then Inl EPanic else Inr (h\<lparr>phStop := True\<rparr>))"

section \<open>Queueing\<close>

definition processed_property :: user_property where
  "processed_property = \<lparr>Key = lit ''priority-processed'', Val = lit ''true''\<rparr>"

text \<open>The loop over the properties: nothing when the packet is marked, else the last priority.\<close>

fun priority_of :: "user_property list \<Rightarrow> gostring \<Rightarrow> gostring option" where
  "priority_of [] priority = Some priority"
| "priority_of (p # ps) priority =
    (if Key p = lit ''priority-processed'' \<and> Val p = lit ''true'' then None
     else priority_of ps (if Key p = lit ''priority'' then Val p else priority))"

definition Priority_OnPublish ::
    "priority_hook \<Rightarrow> int \<Rightarrow> client \<Rightarrow> packet \<Rightarrow> priority_hook \<times> packet \<times> error option" where
  "Priority_OnPublish h now cl pk =
    (case priority_of (pUser (pkProperties pk)) PriorityNormal of
       None \<Rightarrow> (h, pk, None)
     | Some priority \<Rightarrow>
         let pp = \<lparr>ppClient = cl, ppPacket = pk, ppEnqueued = now\<rparr>;
             h' = (if priority = PriorityUrgent then h\<lparr>phUrgent := phUrgent h @ [pp]\<rparr>
                   else if priority = PriorityHigh then h\<lparr>phHigh := phHigh h @ [pp]\<rparr>
                   else h\<lparr>phNormal := phNormal h @ [pp]\<rparr>)
         in (h', pk, Some (ECode CodeSuccessIgnore)))"

section \<open>The scheduler and the aging loop\<close>

definition mark_processed :: "packet \<Rightarrow> packet" where
  "mark_processed pk =
     pk\<lparr>pkProperties := (pkProperties pk)\<lparr>pUser := pUser (pkProperties pk) @ [processed_property]\<rparr>\<rparr>"

definition take_next :: "priority_hook \<Rightarrow> (prioritized \<times> priority_hook) option" where
  "take_next h =
    (case phUrgent h of
       pp # q \<Rightarrow> Some (pp, h\<lparr>phUrgent := q\<rparr>)
     | [] \<Rightarrow> (case phHigh h of
         pp # q \<Rightarrow> Some (pp, h\<lparr>phHigh := q\<rparr>)
       | [] \<Rightarrow> (case phNormal h of
           pp # q \<Rightarrow> Some (pp, h\<lparr>phNormal := q\<rparr>)
         | [] \<Rightarrow> None)))"

text \<open>
  One turn of \<open>schedulerLoop\<close>: nothing when it waits or has stopped, else the packet that it
  gives to \<open>InjectPublish\<close>.
\<close>

definition scheduler_turn :: "priority_hook \<Rightarrow> priority_hook \<times> (client \<times> packet) option" where
  "scheduler_turn h =
    (if phStop h then (h, None)
     else case take_next h of
       None \<Rightarrow> (h, None)
     | Some (pp, h') \<Rightarrow>
         (h', if phServer h' then Some (ppClient pp, mark_processed (ppPacket pp)) else None))"

fun promote :: "int \<Rightarrow> int \<Rightarrow> prioritized list \<Rightarrow> prioritized list \<Rightarrow> prioritized list \<times> prioritized list" where
  "promote now limit urgent [] = (urgent, [])"
| "promote now limit urgent (pp # q) =
    (if now - ppEnqueued pp \<ge> limit then promote now limit (urgent @ [pp]) q
     else let (urgent', keep) = promote now limit urgent q in (urgent', pp # keep))"

definition aging_tick :: "priority_hook \<Rightarrow> int \<Rightarrow> priority_hook" where
  "aging_tick h now =
    (if phStop h then h
     else
       let (urgent1, keepNormal) = promote now (AgingThresholdNormal (phConfig h)) (phUrgent h) (phNormal h);
           (urgent2, keepHigh) = promote now (AgingThresholdHigh (phConfig h)) urgent1 (phHigh h)
       in h\<lparr>phUrgent := urgent2, phHigh := keepHigh, phNormal := keepNormal\<rparr>)"

section \<open>Runs\<close>

datatype priority_event = PPublish int client packet | PTurn | PTick int

definition priority_step :: "priority_hook \<Rightarrow> priority_event \<Rightarrow> priority_hook" where
  "priority_step h e = (case e of
     PPublish now cl pk \<Rightarrow> fst (Priority_OnPublish h now cl pk)
   | PTurn \<Rightarrow> fst (scheduler_turn h)
   | PTick now \<Rightarrow> aging_tick h now)"

definition injected_by :: "priority_hook \<Rightarrow> priority_event \<Rightarrow> (client \<times> packet) list" where
  "injected_by h e = (case e of
     PTurn \<Rightarrow> (case snd (scheduler_turn h) of Some x \<Rightarrow> [x] | None \<Rightarrow> []) | _ \<Rightarrow> [])"

fun injected :: "priority_hook \<Rightarrow> priority_event list \<Rightarrow> (client \<times> packet) list" where
  "injected h [] = []"
| "injected h (e # es) = injected_by h e @ injected (priority_step h e) es"

definition queued_by :: "priority_event \<Rightarrow> (client \<times> packet) list" where
  "queued_by e = (case e of
     PPublish now cl pk \<Rightarrow>
       if priority_of (pUser (pkProperties pk)) PriorityNormal = None then [] else [(cl, mark_processed pk)]
   | _ \<Rightarrow> [])"

definition waiting :: "priority_hook \<Rightarrow> (client \<times> packet) multiset" where
  "waiting h = image_mset (\<lambda>pp. (ppClient pp, mark_processed (ppPacket pp)))
     (mset (phUrgent h) + mset (phHigh h) + mset (phNormal h))"

lemma promote_spec:
  "promote now limit u q = (u @ filter (\<lambda>pp. now - ppEnqueued pp \<ge> limit) q,
     filter (\<lambda>pp. \<not> now - ppEnqueued pp \<ge> limit) q)"
  by (induction q arbitrary: u) auto

lemma aging_tick_spec:
  "aging_tick h now = (if phStop h then h else
     h\<lparr>phUrgent := phUrgent h
         @ filter (\<lambda>pp. now - ppEnqueued pp \<ge> AgingThresholdNormal (phConfig h)) (phNormal h)
         @ filter (\<lambda>pp. now - ppEnqueued pp \<ge> AgingThresholdHigh (phConfig h)) (phHigh h),
       phHigh := filter (\<lambda>pp. \<not> now - ppEnqueued pp \<ge> AgingThresholdHigh (phConfig h)) (phHigh h),
       phNormal := filter (\<lambda>pp. \<not> now - ppEnqueued pp \<ge> AgingThresholdNormal (phConfig h)) (phNormal h)\<rparr>)"
  by (simp add: aging_tick_def promote_spec)

lemma step_server [simp]: "phServer (priority_step h e) = phServer h"
  by (cases e) (auto simp: priority_step_def Priority_OnPublish_def scheduler_turn_def take_next_def
      aging_tick_spec Let_def split: option.splits list.splits)

lemma mset_filter_split:
  "mset (filter P xs) + mset (filter (\<lambda>x. \<not> P x) xs) = mset xs"
  by (metis mset_filter multiset_partition)

lemma waiting_step:
  assumes "phServer h"
  shows "waiting (priority_step h e) + mset (injected_by h e) = waiting h + mset (queued_by e)"
proof (cases e)
  case (PPublish now cl pk)
  show ?thesis
    by (auto simp: PPublish priority_step_def injected_by_def queued_by_def waiting_def
        Priority_OnPublish_def Let_def split: option.splits)
next
  case PTurn
  show ?thesis
    using assms
    by (auto simp: PTurn priority_step_def injected_by_def queued_by_def waiting_def
        scheduler_turn_def take_next_def split: list.splits)
next
  case (PTick now)
  let ?n = "\<lambda>pp. now - ppEnqueued pp \<ge> AgingThresholdNormal (phConfig h)"
  let ?h = "\<lambda>pp. now - ppEnqueued pp \<ge> AgingThresholdHigh (phConfig h)"
  have "mset (phUrgent h @ filter ?n (phNormal h) @ filter ?h (phHigh h))
      + mset (filter (\<lambda>pp. \<not> ?h pp) (phHigh h)) + mset (filter (\<lambda>pp. \<not> ?n pp) (phNormal h))
      = mset (phUrgent h) + mset (phHigh h) + mset (phNormal h)"
    unfolding mset_append
    by (subst (3) mset_filter_split [of ?h, symmetric], subst (3) mset_filter_split [of ?n, symmetric])
      (simp only: ac_simps)
  then show ?thesis
    by (simp add: PTick priority_step_def injected_by_def queued_by_def waiting_def aging_tick_spec
        del: mset_append mset_filter image_mset_union)
qed

text \<open>No packet is lost or doubled: what was queued is waiting or has been injected.\<close>

lemma waiting_run:
  "phServer h \<Longrightarrow> waiting (foldl priority_step h es) + mset (injected h es)
     = waiting h + mset (concat (map queued_by es))"
proof (induction es arbitrary: h)
  case (Cons e es)
  have a: "waiting (foldl priority_step (priority_step h e) es) + mset (injected (priority_step h e) es)
      = waiting (priority_step h e) + mset (concat (map queued_by es))"
    using Cons by simp
  have b: "waiting (priority_step h e) + mset (injected_by h e) = waiting h + mset (queued_by e)"
    by (rule waiting_step [OF Cons.prems])
  show ?case
    using a b by (simp add: ac_simps)
qed simp

section \<open>Order\<close>

lemma priority_of_append_mark: "priority_of (ps @ [processed_property]) p = None"
  by (induction ps arbitrary: p) (auto simp: processed_property_def)

text \<open>An injected packet passes the hook unchanged, so it is not queued again.\<close>

lemma marked_passes:
  "Priority_OnPublish h now cl (mark_processed pk) = (h, mark_processed pk, None)"
  by (simp add: Priority_OnPublish_def mark_processed_def priority_of_append_mark)

text \<open>
  The urgent queue is served in order and before everything else: the packet at position \<open>i\<close> is
  injected by turn number \<open>i + 1\<close>, whatever is published and whatever ages in between.
\<close>

lemma step_urgent:
  "\<not> phStop h \<Longrightarrow> e \<noteq> PTurn \<Longrightarrow> \<exists>q. phUrgent (priority_step h e) = phUrgent h @ q"
  by (cases e)
    (auto simp: priority_step_def Priority_OnPublish_def aging_tick_spec Let_def split: option.splits)

lemma step_stop [simp]: "phStop (priority_step h e) = phStop h"
  by (cases e) (auto simp: priority_step_def Priority_OnPublish_def scheduler_turn_def take_next_def
      aging_tick_spec Let_def split: option.splits list.splits)

lemma urgent_served:
  assumes "\<not> phStop h" "phServer h" "i < length (phUrgent h)" "length (filter (\<lambda>e. e = PTurn) es) = i + 1"
  shows "length (injected h es) = i + 1
    \<and> last (injected h es) = (ppClient (phUrgent h ! i), mark_processed (ppPacket (phUrgent h ! i)))"
  using assms
proof (induction es arbitrary: h i)
  case (Cons e es)
  show ?case
  proof (cases "e = PTurn")
    case False
    then obtain q where q: "phUrgent (priority_step h e) = phUrgent h @ q"
      using step_urgent Cons.prems(1) by blast
    have "injected_by h e = []" using False by (cases e) (auto simp: injected_by_def)
    moreover have "(phUrgent h @ q) ! i = phUrgent h ! i" using Cons.prems(3) by (simp add: nth_append)
    ultimately show ?thesis
      using Cons.IH [of "priority_step h e" i] Cons.prems q False by simp
  next
    case True
    obtain pp u where u: "phUrgent h = pp # u" using Cons.prems(3) by (cases "phUrgent h") auto
    have j: "injected_by h e = [(ppClient pp, mark_processed (ppPacket pp))]"
      "phUrgent (priority_step h e) = u"
      using Cons.prems(1,2) u
      by (auto simp: True injected_by_def priority_step_def scheduler_turn_def take_next_def)
    show ?thesis
    proof (cases i)
      case 0
      have "injected h' es = []" if "filter (\<lambda>e. e = PTurn) es = []" for h'
        using that
      proof (induction es arbitrary: h')
        case (Cons a es)
        then show ?case by (cases a) (auto simp: injected_by_def split: if_splits)
      qed simp
      then show ?thesis using 0 Cons.prems(4) j u True by simp
    next
      case (Suc k)
      have "length (injected (priority_step h e) es) = k + 1
          \<and> last (injected (priority_step h e) es) = (ppClient (u ! k), mark_processed (ppPacket (u ! k)))"
        using Cons.IH [of "priority_step h e" k] Cons.prems Suc j(2) u True by simp
      then show ?thesis using j u Suc by auto
    qed
  qed
qed simp

text \<open>After a tick nothing old is left outside the urgent queue.\<close>

lemma tick_ages:
  assumes "\<not> phStop h"
  shows "\<forall>pp \<in> set (phNormal (aging_tick h now)). now - ppEnqueued pp < AgingThresholdNormal (phConfig h)"
    and "\<forall>pp \<in> set (phHigh (aging_tick h now)). now - ppEnqueued pp < AgingThresholdHigh (phConfig h)"
  using assms by (auto simp: aging_tick_spec)

text \<open>Strict priority of the scheduler.\<close>

lemma turn_strict:
  assumes "snd (scheduler_turn h) = Some (cl, pk)"
  shows "\<exists>pp. cl = ppClient pp \<and> pk = mark_processed (ppPacket pp)
    \<and> (if phUrgent h \<noteq> [] then pp = hd (phUrgent h)
       else if phHigh h \<noteq> [] then pp = hd (phHigh h) else phNormal h \<noteq> [] \<and> pp = hd (phNormal h))"
  using assms by (auto simp: scheduler_turn_def take_next_def split: list.splits if_splits)

text \<open>The loops start once, and only when configuration and server are there.\<close>

lemma maybeStart_once:
  "snd (maybeStart h) \<Longrightarrow> phConfigReady h \<and> phServerReady h \<and> phServer h \<and> \<not> snd (maybeStart (fst (maybeStart h)))"
  by (auto simp: maybeStart_def Let_def split: if_splits)

end
