(* ===== verification/Mqtt_Security.thy ===== *)
theory Mqtt_Security
  imports Mqtt_ClientState
begin

text \<open>
  The two integrity hooks, \<open>modules/security/message_integrity.go\<close> and
  \<open>modules/security/wildcard_tokens.go\<close>.  The cryptographic and encoding libraries are
  parameters: \<open>mac k d\<close> is the HMAC of \<open>d\<close> under the key \<open>k\<close>, \<open>b64enc\<close> and \<open>b64dec\<close> the standard
  base64 encoding, \<open>marshal\<close> and \<open>unmarshal\<close> the JSON text of a token payload.
\<close>

type_synonym mac_fun = "byte list \<Rightarrow> byte list \<Rightarrow> byte list"

section \<open>Message integrity\<close>

record integrity_config =
  RequireSignature :: bool
  VerifySignature :: bool
  icSecret :: "byte list"

record integrity =
  miConfig :: integrity_config
  miChecked :: int
  miDropped :: int
  miViolations :: int

definition Integrity_Init :: "integrity_config config_any \<Rightarrow> integrity \<Rightarrow> error + integrity" where
  "Integrity_Init config h =
    (case config of
       ConfigNil \<Rightarrow> Inr (h\<lparr>miConfig := \<lparr>RequireSignature = True, VerifySignature = False, icSecret = []\<rparr>\<rparr>)
     | ConfigOther \<Rightarrow> Inl ErrInvalidConfigType
     | ConfigOf cfg \<Rightarrow> Inr (h\<lparr>miConfig := cfg\<rparr>))"

definition Integrity_recordViolation :: "integrity \<Rightarrow> integrity" where
  "Integrity_recordViolation h = h\<lparr>miDropped := miDropped h + 1, miViolations := miViolations h + 1\<rparr>"

definition integrity_key :: gostring where "integrity_key = lit ''integrity-signature''"

definition Integrity_OnPublish ::
    "mac_fun \<Rightarrow> (gostring \<Rightarrow> byte list option) \<Rightarrow> integrity \<Rightarrow> client \<Rightarrow> packet
      \<Rightarrow> integrity \<times> packet \<times> error option" where
  "Integrity_OnPublish mac b64dec h0 cl pk =
    (let h = h0\<lparr>miChecked := miChecked h0 + 1\<rparr>;
         reject = (Integrity_recordViolation h, pk, Some (ECode ErrRejectPacket))
     in if length (clID cl) \<ge> 5 \<and> take 5 (clID cl) = lit ''probe'' then (h, pk, None)
        else case List.find (\<lambda>p. Key p = integrity_key) (pUser (pkProperties pk)) of
          None \<Rightarrow> if RequireSignature (miConfig h) then reject else (h, pk, None)
        | Some sigProp \<Rightarrow>
            if VerifySignature (miConfig h) then
              (let expectedMAC = mac (icSecret (miConfig h)) (pkTopicName pk @ pkPayload pk)
               in case b64dec (Val sigProp) of
                    None \<Rightarrow> reject
                  | Some providedMAC \<Rightarrow> if providedMAC \<noteq> expectedMAC then reject else (h, pk, None))
            else (h, pk, None))"

definition Integrity_Metrics :: "integrity \<Rightarrow> int \<times> int \<times> int" where
  "Integrity_Metrics h = (miChecked h, miDropped h, miViolations h)"

definition is_probe :: "client \<Rightarrow> bool" where
  "is_probe cl \<longleftrightarrow> (\<exists>r. clID cl = lit ''probe'' @ r)"

lemma probe_prefix: "length c \<ge> 5 \<and> take 5 c = lit ''probe'' \<longleftrightarrow> (\<exists>r. c = lit ''probe'' @ r)"
proof
  assume h: "length c \<ge> 5 \<and> take 5 c = lit ''probe''"
  have "take 5 c @ drop 5 c = c" by (rule append_take_drop_id)
  then have "c = lit ''probe'' @ drop 5 c" using h by simp
  then show "\<exists>r. c = lit ''probe'' @ r" by (rule exI)
qed (auto simp: numeral_eq_Suc)

text \<open>What passes, on every configuration.\<close>

lemma Integrity_OnPublish_spec:
  "snd (snd (Integrity_OnPublish mac b64dec h cl pk)) = None \<longleftrightarrow>
    is_probe cl
    \<or> (case List.find (\<lambda>p. Key p = integrity_key) (pUser (pkProperties pk)) of
         None \<Rightarrow> \<not> RequireSignature (miConfig h)
       | Some p \<Rightarrow> VerifySignature (miConfig h) \<longrightarrow>
           b64dec (Val p) = Some (mac (icSecret (miConfig h)) (pkTopicName pk @ pkPayload pk)))"
proof (cases "is_probe cl")
  case True
  then show ?thesis
    unfolding Integrity_OnPublish_def Let_def probe_prefix is_probe_def by simp
next
  case False
  then have n: "\<not> (\<exists>r. clID cl = lit ''probe'' @ r)" by (simp add: is_probe_def)
  show ?thesis
    unfolding Integrity_OnPublish_def Let_def probe_prefix if_not_P [OF n]
    using False by (simp split: option.split)
qed

lemma Integrity_passes_unchanged:
  "Integrity_OnPublish mac b64dec h cl pk = (h', pk', e) \<Longrightarrow> pk' = pk"
  by (auto simp: Integrity_OnPublish_def Let_def split: if_splits option.splits)

text \<open>
  The code authenticates the concatenation of topic and payload: bytes can move from the one to
  the other, the signature of a message is also one of every other split.
\<close>

lemma split_shift:
  assumes "snd (snd (Integrity_OnPublish mac b64dec h cl pk)) = None"
    "pkTopicName pk' @ pkPayload pk' = pkTopicName pk @ pkPayload pk" "pkProperties pk' = pkProperties pk"
  shows "snd (snd (Integrity_OnPublish mac b64dec h cl pk')) = None"
  using assms by (simp add: Integrity_OnPublish_spec split: option.splits)

section \<open>Wildcard tokens\<close>

definition ch_dot :: byte where [simp]: "ch_dot = 46"
definition ch_sharp :: byte where [simp]: "ch_sharp = 35"

record wildcard_config =
  wtSecret :: "byte list"
  Permissions :: "(gostring, gostring list) gomap"

record wildcard =
  wtConfig :: wildcard_config
  activeTokens :: "(gostring, gostring list) gomap"

definition Wildcard_Init :: "wildcard_config config_any \<Rightarrow> wildcard \<Rightarrow> error + wildcard" where
  "Wildcard_Init config h0 =
    (let h = h0\<lparr>activeTokens := []\<rparr>
     in case config of
       ConfigNil \<Rightarrow> Inr (h\<lparr>wtConfig := \<lparr>wtSecret = lit ''default-wildcard-secret'', Permissions = []\<rparr>\<rparr>)
     | ConfigOther \<Rightarrow> Inl ErrInvalidConfigType
     | ConfigOf cfg \<Rightarrow> Inr (h\<lparr>wtConfig := cfg\<rparr>))"

definition generateToken ::
    "mac_fun \<Rightarrow> (byte list \<Rightarrow> gostring) \<Rightarrow> (gostring list \<Rightarrow> byte list) \<Rightarrow> wildcard \<Rightarrow> gostring list \<Rightarrow> gostring" where
  "generateToken mac b64enc marshal h allowed =
    (let data = marshal allowed; signature = mac (wtSecret (wtConfig h)) data
     in b64enc data @ [ch_dot] @ b64enc signature)"

fun strings_Split :: "gostring \<Rightarrow> byte \<Rightarrow> gostring list" where
  "strings_Split [] c = [[]]"
| "strings_Split (b # bs) c =
    (if b = c then [] # strings_Split bs c
     else (case strings_Split bs c of [] \<Rightarrow> [[b]] | s # ss \<Rightarrow> (b # s) # ss))"

definition verifyToken ::
    "mac_fun \<Rightarrow> (gostring \<Rightarrow> byte list option) \<Rightarrow> (byte list \<Rightarrow> gostring list option)
      \<Rightarrow> wildcard \<Rightarrow> gostring \<Rightarrow> error + gostring list" where
  "verifyToken mac b64dec unmarshal h token =
    (case strings_Split token ch_dot of
       [p0, p1] \<Rightarrow>
         (case b64dec p0 of
            None \<Rightarrow> Inl (ENew (lit ''invalid token payload''))
          | Some data \<Rightarrow>
              (case b64dec p1 of
                 None \<Rightarrow> Inl (ENew (lit ''invalid token signature''))
               | Some providedSig \<Rightarrow>
                   if providedSig \<noteq> mac (wtSecret (wtConfig h)) data
                   then Inl (ENew (lit ''token signature mismatch''))
                   else (case unmarshal data of
                           None \<Rightarrow> Inl (ENew (lit ''failed to decode token payload''))
                         | Some allowed \<Rightarrow> Inr allowed)))
     | _ \<Rightarrow> Inl (ENew (lit ''invalid token format'')))"

definition token_key :: gostring where "token_key = lit ''wildcard-token''"

definition HasSuffix :: "gostring \<Rightarrow> gostring \<Rightarrow> bool" where
  "HasSuffix s p \<longleftrightarrow> HasPrefix (rev s) (rev p)"

definition TrimSuffix :: "gostring \<Rightarrow> gostring \<Rightarrow> gostring" where
  "TrimSuffix s p = (if HasSuffix s p then take (length s - length p) s else s)"

text \<open>The permissions of a client: its own entry, or that of the first prefix of the iteration.\<close>

definition permissions_of :: "wildcard \<Rightarrow> client \<Rightarrow> gostring list option" where
  "permissions_of h cl =
    (case m_get (Permissions (wtConfig h)) (clID cl) of
       Some allowed \<Rightarrow> Some allowed
     | None \<Rightarrow>
         map_option snd (List.find
           (\<lambda>(key, _). HasSuffix key [ch_star] \<and> HasPrefix (clID cl) (TrimSuffix key [ch_star]))
           (Permissions (wtConfig h))))"

definition Wildcard_OnPacketEncode ::
    "mac_fun \<Rightarrow> (byte list \<Rightarrow> gostring) \<Rightarrow> (gostring list \<Rightarrow> byte list) \<Rightarrow> wildcard \<Rightarrow> client \<Rightarrow> packet \<Rightarrow> packet" where
  "Wildcard_OnPacketEncode mac b64enc marshal h cl pk =
    (if fhType (pkFixedHeader pk) = Connack \<and> pkReasonCode pk = Code CodeSuccess then
       (case permissions_of h cl of
          Some allowed \<Rightarrow>
            pk\<lparr>pkProperties := (pkProperties pk)\<lparr>pUser := pUser (pkProperties pk) @
              [\<lparr>Key = token_key, Val = generateToken mac b64enc marshal h allowed\<rparr>]\<rparr>\<rparr>
        | None \<Rightarrow> pk)
     else pk)"

definition Wildcard_OnSubscribe ::
    "mac_fun \<Rightarrow> (gostring \<Rightarrow> byte list option) \<Rightarrow> (byte list \<Rightarrow> gostring list option)
      \<Rightarrow> wildcard \<Rightarrow> client \<Rightarrow> packet \<Rightarrow> wildcard \<times> packet" where
  "Wildcard_OnSubscribe mac b64dec unmarshal h cl pk =
    (case List.find (\<lambda>p. Key p = token_key) (pUser (pkProperties pk)) of
       None \<Rightarrow> (h, pk)
     | Some p \<Rightarrow>
         (case verifyToken mac b64dec unmarshal h (Val p) of
            Inr allowed \<Rightarrow> (h\<lparr>activeTokens := m_set (clID cl) allowed (activeTokens h)\<rparr>, pk)
          | Inl _ \<Rightarrow> (h, pk)))"

definition Wildcard_OnACLCheck :: "wildcard \<Rightarrow> client \<Rightarrow> gostring \<Rightarrow> bool \<Rightarrow> bool" where
  "Wildcard_OnACLCheck h cl topic write =
    (if write then True
     else if \<not> ch_plus \<in> set topic \<and> \<not> ch_sharp \<in> set topic then True
     else case m_get (activeTokens h) (clID cl) of
       None \<Rightarrow> False
     | Some allowed \<Rightarrow> list_ex (\<lambda>pattern. pattern = topic) allowed)"

definition Wildcard_OnSubscribed :: "wildcard \<Rightarrow> client \<Rightarrow> wildcard" where
  "Wildcard_OnSubscribed h cl = h\<lparr>activeTokens := m_del (clID cl) (activeTokens h)\<rparr>"

definition Wildcard_OnDisconnect :: "wildcard \<Rightarrow> client \<Rightarrow> wildcard" where
  "Wildcard_OnDisconnect h cl = h\<lparr>activeTokens := m_del (clID cl) (activeTokens h)\<rparr>"

subsection \<open>Tokens\<close>

lemma Split_none: "c \<notin> set s \<Longrightarrow> strings_Split s c = [s]"
  by (induction s) auto

lemma Split_app: "c \<notin> set a \<Longrightarrow> strings_Split (a @ c # b) c = a # strings_Split b c"
  by (induction a) auto

lemma verify_generate:
  assumes "\<And>d. b64dec (b64enc d) = Some d" "\<And>d. ch_dot \<notin> set (b64enc d)"
    "unmarshal (marshal allowed) = Some allowed" "wtSecret (wtConfig h') = wtSecret (wtConfig h)"
  shows "verifyToken mac b64dec unmarshal h' (generateToken mac b64enc marshal h allowed) = Inr allowed"
  using assms
  by (simp add: verifyToken_def generateToken_def Let_def Split_app Split_none del: ch_dot_def)

text \<open>A token that verifies carries the code of its own payload under the secret.\<close>

lemma verify_sound:
  assumes "verifyToken mac b64dec unmarshal h token = Inr allowed"
  shows "\<exists>p0 p1 data. strings_Split token ch_dot = [p0, p1] \<and> b64dec p0 = Some data
    \<and> b64dec p1 = Some (mac (wtSecret (wtConfig h)) data) \<and> unmarshal data = Some allowed"
  using assms unfolding verifyToken_def by (auto split: list.splits option.splits if_splits)

lemma ACLCheck_spec:
  "Wildcard_OnACLCheck h cl topic write \<longleftrightarrow> write \<or> (ch_plus \<notin> set topic \<and> ch_sharp \<notin> set topic)
     \<or> (\<exists>allowed. m_get (activeTokens h) (clID cl) = Some allowed \<and> topic \<in> set allowed)"
  by (auto simp: Wildcard_OnACLCheck_def list_ex_iff split: option.splits)

lemma OnSubscribe_token:
  assumes "\<And>d. b64dec (b64enc d) = Some d" "\<And>d. ch_dot \<notin> set (b64enc d)"
    "unmarshal (marshal allowed) = Some allowed"
    "List.find (\<lambda>p. Key p = token_key) (pUser (pkProperties pk)) = Some p"
    "Val p = generateToken mac b64enc marshal h allowed"
  shows "m_get (activeTokens (fst (Wildcard_OnSubscribe mac b64dec unmarshal h cl pk))) (clID cl) = Some allowed"
proof -
  have "verifyToken mac b64dec unmarshal h (Val p) = Inr allowed"
    unfolding assms(5) by (rule verify_generate) (simp_all add: assms(1-3) del: ch_dot_def)
  then show ?thesis using assms(4) by (simp add: Wildcard_OnSubscribe_def)
qed

text \<open>
  The whole life of a token: the CONNACK of a client with permissions hands it out, a SUBSCRIBE
  that carries it opens exactly the listed wildcard filters, and the end of that SUBSCRIBE closes
  them again.
\<close>

lemma token_life:
  assumes "\<And>d. b64dec (b64enc d) = Some d" "\<And>d. ch_dot \<notin> set (b64enc d)"
    "\<And>a. unmarshal (marshal a) = Some a"
    and ack: "fhType (pkFixedHeader ack) = Connack" "pkReasonCode ack = 0" "permissions_of h cl = Some allowed"
    and sub: "pUser (pkProperties sub) = [last (pUser (pkProperties (Wildcard_OnPacketEncode mac b64enc marshal h cl ack)))]"
    and wild: "ch_plus \<in> set topic \<or> ch_sharp \<in> set topic"
  shows "Wildcard_OnACLCheck (fst (Wildcard_OnSubscribe mac b64dec unmarshal h c sub)) c topic False
           \<longleftrightarrow> topic \<in> set allowed"
    and "\<not> Wildcard_OnACLCheck (Wildcard_OnSubscribed (fst (Wildcard_OnSubscribe mac b64dec unmarshal h c sub)) c)
           c topic False"
proof -
  let ?p = "\<lparr>Key = token_key, Val = generateToken mac b64enc marshal h allowed\<rparr>"
  have "pUser (pkProperties sub) = [?p]"
    using ack sub by (simp add: Wildcard_OnPacketEncode_def)
  then have "List.find (\<lambda>p. Key p = token_key) (pUser (pkProperties sub)) = Some ?p" by simp
  then have "m_get (activeTokens (fst (Wildcard_OnSubscribe mac b64dec unmarshal h c sub))) (clID c) = Some allowed"
    by (rule OnSubscribe_token [where b64enc = b64enc and marshal = marshal and h = h, rotated 3])
      (simp_all add: assms(1-3) del: ch_dot_def)
  with wild show "Wildcard_OnACLCheck (fst (Wildcard_OnSubscribe mac b64dec unmarshal h c sub)) c topic False
      \<longleftrightarrow> topic \<in> set allowed"
    by (auto simp: ACLCheck_spec)
  show "\<not> Wildcard_OnACLCheck (Wildcard_OnSubscribed (fst (Wildcard_OnSubscribe mac b64dec unmarshal h c sub)) c)
      c topic False"
    using wild by (auto simp: ACLCheck_spec Wildcard_OnSubscribed_def)
qed

end
