(* ===== verification/Mqtt_System.thy ===== *)
theory Mqtt_System
  imports Mqtt_Prelude
begin

text \<open>
  The counters of the broker, \<open>system/system.go\<close>.  They are \<open>int64\<close> in the source and count events,
  so they are integers here.
\<close>

record sys_info =
  Version :: gostring
  Started :: int
  SysTime :: int
  Uptime :: int
  BytesReceived :: int
  BytesSent :: int
  ClientsConnected :: int
  ClientsDisconnected :: int
  ClientsMaximum :: int
  ClientsTotal :: int
  MessagesReceived :: int
  MessagesSent :: int
  MessagesDropped :: int
  RetainedCount :: int
  InflightCount :: int
  InflightDropped :: int
  SubscriptionsCount :: int
  PacketsReceived :: int
  PacketsSent :: int
  MemoryAlloc :: int
  Threads :: int

definition no_info :: sys_info where
  "no_info = \<lparr>Version = [], Started = 0, SysTime = 0, Uptime = 0, BytesReceived = 0, BytesSent = 0,
     ClientsConnected = 0, ClientsDisconnected = 0, ClientsMaximum = 0, ClientsTotal = 0,
     MessagesReceived = 0, MessagesSent = 0, MessagesDropped = 0, RetainedCount = 0,
     InflightCount = 0, InflightDropped = 0, SubscriptionsCount = 0, PacketsReceived = 0,
     PacketsSent = 0, MemoryAlloc = 0, Threads = 0\<rparr>"

definition Info_Clone :: "sys_info \<Rightarrow> sys_info" where
  "Info_Clone i = \<lparr>Version = Version i, Started = Started i, SysTime = SysTime i, Uptime = Uptime i,
     BytesReceived = BytesReceived i, BytesSent = BytesSent i,
     ClientsConnected = ClientsConnected i, ClientsDisconnected = ClientsDisconnected i,
     ClientsMaximum = ClientsMaximum i, ClientsTotal = ClientsTotal i,
     MessagesReceived = MessagesReceived i, MessagesSent = MessagesSent i,
     MessagesDropped = MessagesDropped i, RetainedCount = RetainedCount i,
     InflightCount = InflightCount i, InflightDropped = InflightDropped i,
     SubscriptionsCount = SubscriptionsCount i, PacketsReceived = PacketsReceived i,
     PacketsSent = PacketsSent i, MemoryAlloc = MemoryAlloc i, Threads = Threads i\<rparr>"

lemma Info_Clone_same: "Info_Clone i = i"
  by (simp add: Info_Clone_def)

end
