(* ===== verification/Mqtt_Storage.thy ===== *)
theory Mqtt_Storage
  imports Mqtt_ClientState Mqtt_System
begin

text \<open>
  What a store keeps, \<open>hooks/storage/storage.go\<close>: the storable forms of clients, messages,
  subscriptions and counters.  Their JSON form is that of \<open>encoding/json\<close>, which enters the
  definitions that need it as a parameter.
\<close>

definition SubscriptionKey :: gostring where "SubscriptionKey = lit ''SUB''"
definition SysInfoKey :: gostring where "SysInfoKey = lit ''SYS''"
definition RetainedKey :: gostring where "RetainedKey = lit ''RET''"
definition InflightKey :: gostring where "InflightKey = lit ''IFM''"
definition ClientKey :: gostring where "ClientKey = lit ''CL''"

definition ErrDBFileNotOpen :: error where
  "ErrDBFileNotOpen = ENew (lit ''db file not open'')"

record st_client_properties =
  tpAuthenticationData :: "byte list"
  tpUser :: "user_property list"
  tpAuthenticationMethod :: gostring
  tpSessionExpiryInterval :: u32
  tpMaximumPacketSize :: u32
  tpReceiveMaximum :: u16
  tpTopicAliasMaximum :: u16
  tpSessionExpiryIntervalFlag :: bool
  tpRequestProblemInfo :: byte
  tpRequestProblemInfoFlag :: bool
  tpRequestResponseInfo :: byte

text \<open>\<open>ClientWill\<close> has the fields of \<open>Will\<close>, and the code converts one to the other.\<close>

type_synonym st_client_will = will

record st_client =
  tcWill :: st_client_will
  tcProperties :: st_client_properties
  tcUsername :: "byte list"
  tcID :: gostring
  tcT :: gostring
  tcRemote :: gostring
  tcListener :: gostring
  tcProtocolVersion :: byte
  tcClean :: bool

record st_message_properties =
  tmCorrelationData :: "byte list"
  tmSubscriptionIdentifier :: "int list"
  tmUser :: "user_property list"
  tmContentType :: gostring
  tmResponseTopic :: gostring
  tmMessageExpiryInterval :: u32
  tmTopicAlias :: u16
  tmPayloadFormat :: byte
  tmPayloadFormatFlag :: bool

record st_message =
  tsProperties :: st_message_properties
  tsPayload :: "byte list"
  tsT :: gostring
  tsID :: gostring
  tsClient :: gostring
  tsOrigin :: gostring
  tsTopicName :: gostring
  tsFixedHeader :: fixed_header
  tsCreated :: int
  tsSent :: int
  tsPacketID :: u16

record st_subscription =
  tbT :: gostring
  tbID :: gostring
  tbClient :: gostring
  tbFilter :: gostring
  tbIdentifier :: int
  tbRetainHandling :: byte
  tbQos :: byte
  tbRetainAsPublished :: bool
  tbNoLocal :: bool

record st_system_info =
  tyInfo :: sys_info
  tyT :: gostring
  tyID :: gostring

text \<open>
  \<open>UnmarshalBinary\<close> of every record: nothing is decoded from no bytes.  A decoding that fails may
  have filled a part of the record.
\<close>

definition UnmarshalBinary ::
    "(byte list \<Rightarrow> 'a \<Rightarrow> 'a \<times> error option) \<Rightarrow> byte list \<Rightarrow> 'a \<Rightarrow> 'a \<times> error option" where
  "UnmarshalBinary json data d = (if length data = 0 then (d, None) else json data d)"

text \<open>The zero values that are decoded into.\<close>

definition no_st_client :: st_client where
  "no_st_client = \<lparr>tcWill = no_will, tcProperties = \<lparr>tpAuthenticationData = [], tpUser = [],
     tpAuthenticationMethod = [], tpSessionExpiryInterval = 0, tpMaximumPacketSize = 0,
     tpReceiveMaximum = 0, tpTopicAliasMaximum = 0, tpSessionExpiryIntervalFlag = False,
     tpRequestProblemInfo = 0, tpRequestProblemInfoFlag = False, tpRequestResponseInfo = 0\<rparr>,
     tcUsername = [], tcID = [], tcT = [], tcRemote = [], tcListener = [], tcProtocolVersion = 0,
     tcClean = False\<rparr>"

definition no_st_message :: st_message where
  "no_st_message = \<lparr>tsProperties = \<lparr>tmCorrelationData = [], tmSubscriptionIdentifier = [], tmUser = [],
     tmContentType = [], tmResponseTopic = [], tmMessageExpiryInterval = 0, tmTopicAlias = 0,
     tmPayloadFormat = 0, tmPayloadFormatFlag = False\<rparr>, tsPayload = [], tsT = [], tsID = [],
     tsClient = [], tsOrigin = [], tsTopicName = [], tsFixedHeader = no_header, tsCreated = 0,
     tsSent = 0, tsPacketID = 0\<rparr>"

definition no_st_subscription :: st_subscription where
  "no_st_subscription = \<lparr>tbT = [], tbID = [], tbClient = [], tbFilter = [], tbIdentifier = 0,
     tbRetainHandling = 0, tbQos = 0, tbRetainAsPublished = False, tbNoLocal = False\<rparr>"

definition no_st_system_info :: st_system_info where
  "no_st_system_info = \<lparr>tyInfo = no_info, tyT = [], tyID = []\<rparr>"

definition ToPacket :: "st_message \<Rightarrow> packet" where
  "ToPacket d =
    (let p = tsProperties d;
         pk = no_packet\<lparr>
           pkFixedHeader := tsFixedHeader d,
           pkPacketID := tsPacketID d,
           pkTopicName := tsTopicName d,
           pkPayload := tsPayload d,
           pkOrigin := tsOrigin d,
           pkCreated := tsCreated d,
           pkProperties := no_properties\<lparr>
             pPayloadFormat := tmPayloadFormat p,
             pPayloadFormatFlag := tmPayloadFormatFlag p,
             pMessageExpiryInterval := tmMessageExpiryInterval p,
             pContentType := tmContentType p,
             pResponseTopic := tmResponseTopic p,
             pCorrelationData := tmCorrelationData p,
             pSubscriptionIdentifier := tmSubscriptionIdentifier p,
             pTopicAlias := tmTopicAlias p,
             pUser := tmUser p\<rparr>\<rparr>;
         pk = Packet_Copy pk True
     in pk\<lparr>pkFixedHeader := (pkFixedHeader pk)\<lparr>fhDup := fhDup (tsFixedHeader d)\<rparr>\<rparr>)"

end
