(* ===== verification/Mqtt_Hooks.thy ===== *)
theory Mqtt_Hooks
  imports Mqtt_Storage
begin

text \<open>
  The hook chain, \<open>hooks.go\<close>: a hook is the record of its methods over the state \<open>'s\<close> that the
  hooks of a server keep together, \<open>Hooks\<close> is the list of the attached hooks, and every dispatch
  goes through the hooks in order and asks \<open>Provides\<close> first.  Methods that cannot fail return the
  new state; the client is passed as it is at the call.
\<close>

section \<open>Events and hooks\<close>

definition OnSysInfoTick_ev :: byte where "OnSysInfoTick_ev = 1"
definition OnStarted_ev :: byte where "OnStarted_ev = 2"
definition OnStopped_ev :: byte where "OnStopped_ev = 3"
definition OnConnectAuthenticate_ev :: byte where "OnConnectAuthenticate_ev = 4"
definition OnACLCheck_ev :: byte where "OnACLCheck_ev = 5"
definition OnConnect_ev :: byte where "OnConnect_ev = 6"
definition OnSessionEstablish_ev :: byte where "OnSessionEstablish_ev = 7"
definition OnSessionEstablished_ev :: byte where "OnSessionEstablished_ev = 8"
definition OnDisconnect_ev :: byte where "OnDisconnect_ev = 9"
definition OnAuthPacket_ev :: byte where "OnAuthPacket_ev = 10"
definition OnPacketRead_ev :: byte where "OnPacketRead_ev = 11"
definition OnPacketEncode_ev :: byte where "OnPacketEncode_ev = 12"
definition OnPacketSent_ev :: byte where "OnPacketSent_ev = 13"
definition OnPacketProcessed_ev :: byte where "OnPacketProcessed_ev = 14"
definition OnSubscribe_ev :: byte where "OnSubscribe_ev = 15"
definition OnSubscribed_ev :: byte where "OnSubscribed_ev = 16"
definition OnSelectSubscribers_ev :: byte where "OnSelectSubscribers_ev = 17"
definition OnUnsubscribe_ev :: byte where "OnUnsubscribe_ev = 18"
definition OnUnsubscribed_ev :: byte where "OnUnsubscribed_ev = 19"
definition OnPublish_ev :: byte where "OnPublish_ev = 20"
definition OnPublished_ev :: byte where "OnPublished_ev = 21"
definition OnPublishDropped_ev :: byte where "OnPublishDropped_ev = 22"
definition OnRetainMessage_ev :: byte where "OnRetainMessage_ev = 23"
definition OnRetainPublished_ev :: byte where "OnRetainPublished_ev = 24"
definition OnQosPublish_ev :: byte where "OnQosPublish_ev = 25"
definition OnQosComplete_ev :: byte where "OnQosComplete_ev = 26"
definition OnQosDropped_ev :: byte where "OnQosDropped_ev = 27"
definition OnPacketIDExhausted_ev :: byte where "OnPacketIDExhausted_ev = 28"
definition OnWill_ev :: byte where "OnWill_ev = 29"
definition OnWillSent_ev :: byte where "OnWillSent_ev = 30"
definition OnClientExpired_ev :: byte where "OnClientExpired_ev = 31"
definition OnRetainedExpired_ev :: byte where "OnRetainedExpired_ev = 32"

definition StoredClients_ev :: byte where "StoredClients_ev = 33"
definition StoredSubscriptions_ev :: byte where "StoredSubscriptions_ev = 34"
definition StoredInflightMessages_ev :: byte where "StoredInflightMessages_ev = 35"
definition StoredRetainedMessages_ev :: byte where "StoredRetainedMessages_ev = 36"
definition StoredSysInfo_ev :: byte where "StoredSysInfo_ev = 37"

lemmas event_defs = OnSysInfoTick_ev_def OnStarted_ev_def OnStopped_ev_def
  OnConnectAuthenticate_ev_def OnACLCheck_ev_def OnConnect_ev_def OnSessionEstablish_ev_def
  OnSessionEstablished_ev_def OnDisconnect_ev_def OnAuthPacket_ev_def OnPacketRead_ev_def
  OnPacketEncode_ev_def OnPacketSent_ev_def OnPacketProcessed_ev_def OnSubscribe_ev_def
  OnSubscribed_ev_def OnSelectSubscribers_ev_def OnUnsubscribe_ev_def OnUnsubscribed_ev_def
  OnPublish_ev_def OnPublished_ev_def OnPublishDropped_ev_def OnRetainMessage_ev_def
  OnRetainPublished_ev_def OnQosPublish_ev_def OnQosComplete_ev_def OnQosDropped_ev_def
  OnPacketIDExhausted_ev_def OnWill_ev_def OnWillSent_ev_def OnClientExpired_ev_def
  OnRetainedExpired_ev_def StoredClients_ev_def StoredSubscriptions_ev_def
  StoredInflightMessages_ev_def StoredRetainedMessages_ev_def StoredSysInfo_ev_def

type_synonym 's notify = "'s \<Rightarrow> client \<Rightarrow> packet \<Rightarrow> 's"

record 's hook =
  hkID :: gostring
  hkProvides :: "byte \<Rightarrow> bool"
  hkOnConnectAuthenticate :: "'s \<Rightarrow> client \<Rightarrow> packet \<Rightarrow> 's \<times> bool"
  hkOnACLCheck :: "'s \<Rightarrow> client \<Rightarrow> gostring \<Rightarrow> bool \<Rightarrow> 's \<times> bool"
  hkOnConnect :: "'s \<Rightarrow> client \<Rightarrow> packet \<Rightarrow> 's \<times> error option"
  hkOnSessionEstablish :: "'s notify"
  hkOnSessionEstablished :: "'s notify"
  hkOnDisconnect :: "'s \<Rightarrow> client \<Rightarrow> error option \<Rightarrow> bool \<Rightarrow> 's"
  hkOnAuthPacket :: "'s \<Rightarrow> client \<Rightarrow> packet \<Rightarrow> 's \<times> packet \<times> error option"
  hkOnPacketRead :: "'s \<Rightarrow> client \<Rightarrow> packet \<Rightarrow> 's \<times> packet \<times> error option"
  hkOnPacketEncode :: "'s \<Rightarrow> client \<Rightarrow> packet \<Rightarrow> 's \<times> packet"
  hkOnPacketSent :: "'s \<Rightarrow> client \<Rightarrow> packet \<Rightarrow> byte list \<Rightarrow> 's"
  hkOnPacketProcessed :: "'s \<Rightarrow> client \<Rightarrow> packet \<Rightarrow> error option \<Rightarrow> 's"
  hkOnSubscribe :: "'s \<Rightarrow> client \<Rightarrow> packet \<Rightarrow> 's \<times> packet"
  hkOnSubscribed :: "'s \<Rightarrow> client \<Rightarrow> packet \<Rightarrow> byte list \<Rightarrow> 's"
  hkOnSelectSubscribers :: "'s \<Rightarrow> subscribers \<Rightarrow> packet \<Rightarrow> 's \<times> subscribers"
  hkOnUnsubscribe :: "'s \<Rightarrow> client \<Rightarrow> packet \<Rightarrow> 's \<times> packet"
  hkOnUnsubscribed :: "'s notify"
  hkOnPublish :: "'s \<Rightarrow> client \<Rightarrow> packet \<Rightarrow> 's \<times> packet \<times> error option"
  hkOnPublished :: "'s notify"
  hkOnPublishDropped :: "'s notify"
  hkOnRetainMessage :: "'s \<Rightarrow> client \<Rightarrow> packet \<Rightarrow> int \<Rightarrow> 's"
  hkOnRetainPublished :: "'s notify"
  hkOnQosPublish :: "'s \<Rightarrow> client \<Rightarrow> packet \<Rightarrow> int \<Rightarrow> int \<Rightarrow> 's"
  hkOnQosComplete :: "'s notify"
  hkOnQosDropped :: "'s notify"
  hkOnPacketIDExhausted :: "'s notify"
  hkOnWill :: "'s \<Rightarrow> client \<Rightarrow> will \<Rightarrow> 's \<times> will \<times> error option"
  hkOnWillSent :: "'s notify"
  hkOnClientExpired :: "'s \<Rightarrow> client \<Rightarrow> 's"
  hkOnRetainedExpired :: "'s \<Rightarrow> gostring \<Rightarrow> 's"
  hkOnSysInfoTick :: "'s \<Rightarrow> sys_info \<Rightarrow> 's"
  hkOnStarted :: "'s \<Rightarrow> 's"
  hkOnStopped :: "'s \<Rightarrow> 's"
  hkStop :: "'s \<Rightarrow> 's \<times> error option"
  hkStoredClients :: "'s \<Rightarrow> error + st_client list"
  hkStoredSubscriptions :: "'s \<Rightarrow> error + st_subscription list"
  hkStoredInflightMessages :: "'s \<Rightarrow> error + st_message list"
  hkStoredRetainedMessages :: "'s \<Rightarrow> error + st_message list"
  hkStoredSysInfo :: "'s \<Rightarrow> error + st_system_info"

text \<open>\<open>HookBase\<close>: the defaults that every hook embeds.\<close>

definition quiet :: "'s notify" where "quiet s cl pk = s"

definition HookBase :: "'s hook" where
  "HookBase = \<lparr>
     hkID = lit ''base'', hkProvides = (\<lambda>b. False),
     hkOnConnectAuthenticate = (\<lambda>s cl pk. (s, False)),
     hkOnACLCheck = (\<lambda>s cl topic write. (s, False)),
     hkOnConnect = (\<lambda>s cl pk. (s, None)),
     hkOnSessionEstablish = quiet, hkOnSessionEstablished = quiet,
     hkOnDisconnect = (\<lambda>s cl err expire. s),
     hkOnAuthPacket = (\<lambda>s cl pk. (s, pk, None)),
     hkOnPacketRead = (\<lambda>s cl pk. (s, pk, None)),
     hkOnPacketEncode = (\<lambda>s cl pk. (s, pk)),
     hkOnPacketSent = (\<lambda>s cl pk b. s),
     hkOnPacketProcessed = (\<lambda>s cl pk err. s),
     hkOnSubscribe = (\<lambda>s cl pk. (s, pk)),
     hkOnSubscribed = (\<lambda>s cl pk reasonCodes. s),
     hkOnSelectSubscribers = (\<lambda>s subs pk. (s, subs)),
     hkOnUnsubscribe = (\<lambda>s cl pk. (s, pk)),
     hkOnUnsubscribed = quiet,
     hkOnPublish = (\<lambda>s cl pk. (s, pk, None)),
     hkOnPublished = quiet, hkOnPublishDropped = quiet,
     hkOnRetainMessage = (\<lambda>s cl pk r. s),
     hkOnRetainPublished = quiet,
     hkOnQosPublish = (\<lambda>s cl pk sent resends. s),
     hkOnQosComplete = quiet, hkOnQosDropped = quiet, hkOnPacketIDExhausted = quiet,
     hkOnWill = (\<lambda>s cl will. (s, will, None)),
     hkOnWillSent = quiet,
     hkOnClientExpired = (\<lambda>s cl. s),
     hkOnRetainedExpired = (\<lambda>s topic. s),
     hkOnSysInfoTick = (\<lambda>s sys. s), hkOnStarted = (\<lambda>s. s), hkOnStopped = (\<lambda>s. s),
     hkStop = (\<lambda>s. (s, None)),
     hkStoredClients = (\<lambda>s. Inr []), hkStoredSubscriptions = (\<lambda>s. Inr []),
     hkStoredInflightMessages = (\<lambda>s. Inr []), hkStoredRetainedMessages = (\<lambda>s. Inr []),
     hkStoredSysInfo = (\<lambda>s. Inr no_st_system_info)\<rparr>"

section \<open>Dispatch\<close>

definition Hooks_Provides :: "'s hook list \<Rightarrow> byte list \<Rightarrow> bool" where
  "Hooks_Provides hs bs = list_ex (\<lambda>h. list_ex (\<lambda>hb. hkProvides h hb) bs) hs"

definition Hooks_Len :: "'s hook list \<Rightarrow> nat" where
  "Hooks_Len hs = length hs"

text \<open>\<open>Add\<close>: \<open>init\<close> is the hook's \<open>Init\<close> with its configuration.\<close>

definition Hooks_Add ::
    "'s hook \<Rightarrow> ('s \<Rightarrow> 's \<times> error option) \<Rightarrow> 's hook list \<Rightarrow> 's \<Rightarrow> error option \<times> 's hook list \<times> 's" where
  "Hooks_Add h init hs s =
    (case init s of
       (s', Some err) \<Rightarrow> (Some (ECtx (lit ''failed initialising '' @ hkID h @ lit '' hook: '') err), hs, s')
     | (s', None) \<Rightarrow> (None, hs @ [h], s'))"

text \<open>\<open>Stop\<close>: every hook is stopped, in order, whatever the others return.\<close>

definition Hooks_Stop :: "'s hook list \<Rightarrow> 's \<Rightarrow> 's" where
  "Hooks_Stop hs s = fold (\<lambda>h s. fst (hkStop h s)) hs s"

text \<open>Handlers that only tell the hooks, and handlers that pass a value through them.\<close>

definition notify_all :: "byte \<Rightarrow> ('s hook \<Rightarrow> 's \<Rightarrow> 's) \<Rightarrow> 's hook list \<Rightarrow> 's \<Rightarrow> 's" where
  "notify_all ev f hs s = fold (\<lambda>h s. if hkProvides h ev then f h s else s) hs s"

definition pass_through ::
    "byte \<Rightarrow> ('s hook \<Rightarrow> 's \<Rightarrow> 'p \<Rightarrow> 's \<times> 'p) \<Rightarrow> 's hook list \<Rightarrow> 's \<Rightarrow> 'p \<Rightarrow> 's \<times> 'p" where
  "pass_through ev f hs s p = fold (\<lambda>h (s, p). if hkProvides h ev then f h s p else (s, p)) hs (s, p)"

fun Hooks_OnConnect :: "'s hook list \<Rightarrow> 's \<Rightarrow> client \<Rightarrow> packet \<Rightarrow> 's \<times> error option" where
  "Hooks_OnConnect [] s cl pk = (s, None)"
| "Hooks_OnConnect (h # hs) s cl pk =
    (if hkProvides h OnConnect_ev then
       (case hkOnConnect h s cl pk of
          (s', Some err) \<Rightarrow> (s', Some err)
        | (s', None) \<Rightarrow> Hooks_OnConnect hs s' cl pk)
     else Hooks_OnConnect hs s cl pk)"

definition Hooks_OnSessionEstablish :: "'s hook list \<Rightarrow> 's notify" where
  "Hooks_OnSessionEstablish hs s cl pk =
     notify_all OnSessionEstablish_ev (\<lambda>h s. hkOnSessionEstablish h s cl pk) hs s"

definition Hooks_OnSessionEstablished :: "'s hook list \<Rightarrow> 's notify" where
  "Hooks_OnSessionEstablished hs s cl pk =
     notify_all OnSessionEstablished_ev (\<lambda>h s. hkOnSessionEstablished h s cl pk) hs s"

definition Hooks_OnDisconnect :: "'s hook list \<Rightarrow> 's \<Rightarrow> client \<Rightarrow> error option \<Rightarrow> bool \<Rightarrow> 's" where
  "Hooks_OnDisconnect hs s cl err expire =
     notify_all OnDisconnect_ev (\<lambda>h s. hkOnDisconnect h s cl err expire) hs s"

text \<open>
  \<open>OnPacketRead\<close>: a rejection ends the chain with the packet as it came; any other error of a
  hook is passed over.
\<close>

fun OnPacketRead_loop ::
    "'s hook list \<Rightarrow> 's \<Rightarrow> client \<Rightarrow> packet \<Rightarrow> packet \<Rightarrow> 's \<times> packet \<times> error option" where
  "OnPacketRead_loop [] s cl pk pkx = (s, pkx, None)"
| "OnPacketRead_loop (h # hs) s cl pk pkx =
    (if hkProvides h OnPacketRead_ev then
       (case hkOnPacketRead h s cl pkx of
          (s', npk, Some err) \<Rightarrow>
            if errors_Is err ErrRejectPacket then (s', pk, Some err)
            else OnPacketRead_loop hs s' cl pk pkx
        | (s', npk, None) \<Rightarrow> OnPacketRead_loop hs s' cl pk npk)
     else OnPacketRead_loop hs s cl pk pkx)"

definition Hooks_OnPacketRead :: "'s hook list \<Rightarrow> 's \<Rightarrow> client \<Rightarrow> packet \<Rightarrow> 's \<times> packet \<times> error option" where
  "Hooks_OnPacketRead hs s cl pk = OnPacketRead_loop hs s cl pk pk"

fun OnAuthPacket_loop ::
    "'s hook list \<Rightarrow> 's \<Rightarrow> client \<Rightarrow> packet \<Rightarrow> packet \<Rightarrow> 's \<times> packet \<times> error option" where
  "OnAuthPacket_loop [] s cl pk pkx = (s, pkx, None)"
| "OnAuthPacket_loop (h # hs) s cl pk pkx =
    (if hkProvides h OnAuthPacket_ev then
       (case hkOnAuthPacket h s cl pkx of
          (s', npk, Some err) \<Rightarrow> (s', pk, Some err)
        | (s', npk, None) \<Rightarrow> OnAuthPacket_loop hs s' cl pk npk)
     else OnAuthPacket_loop hs s cl pk pkx)"

definition Hooks_OnAuthPacket :: "'s hook list \<Rightarrow> 's \<Rightarrow> client \<Rightarrow> packet \<Rightarrow> 's \<times> packet \<times> error option" where
  "Hooks_OnAuthPacket hs s cl pk = OnAuthPacket_loop hs s cl pk pk"

definition Hooks_OnPacketEncode :: "'s hook list \<Rightarrow> 's \<Rightarrow> client \<Rightarrow> packet \<Rightarrow> 's \<times> packet" where
  "Hooks_OnPacketEncode hs s cl pk =
     pass_through OnPacketEncode_ev (\<lambda>h s pk. hkOnPacketEncode h s cl pk) hs s pk"

definition Hooks_OnPacketProcessed :: "'s hook list \<Rightarrow> 's \<Rightarrow> client \<Rightarrow> packet \<Rightarrow> error option \<Rightarrow> 's" where
  "Hooks_OnPacketProcessed hs s cl pk err =
     notify_all OnPacketProcessed_ev (\<lambda>h s. hkOnPacketProcessed h s cl pk err) hs s"

definition Hooks_OnPacketSent :: "'s hook list \<Rightarrow> 's \<Rightarrow> client \<Rightarrow> packet \<Rightarrow> byte list \<Rightarrow> 's" where
  "Hooks_OnPacketSent hs s cl pk b =
     notify_all OnPacketSent_ev (\<lambda>h s. hkOnPacketSent h s cl pk b) hs s"

definition Hooks_OnSubscribe :: "'s hook list \<Rightarrow> 's \<Rightarrow> client \<Rightarrow> packet \<Rightarrow> 's \<times> packet" where
  "Hooks_OnSubscribe hs s cl pk =
     pass_through OnSubscribe_ev (\<lambda>h s pk. hkOnSubscribe h s cl pk) hs s pk"

definition Hooks_OnSubscribed :: "'s hook list \<Rightarrow> 's \<Rightarrow> client \<Rightarrow> packet \<Rightarrow> byte list \<Rightarrow> 's" where
  "Hooks_OnSubscribed hs s cl pk reasonCodes =
     notify_all OnSubscribed_ev (\<lambda>h s. hkOnSubscribed h s cl pk reasonCodes) hs s"

definition Hooks_OnSelectSubscribers :: "'s hook list \<Rightarrow> 's \<Rightarrow> subscribers \<Rightarrow> packet \<Rightarrow> 's \<times> subscribers" where
  "Hooks_OnSelectSubscribers hs s subs pk =
     pass_through OnSelectSubscribers_ev (\<lambda>h s subs. hkOnSelectSubscribers h s subs pk) hs s subs"

definition Hooks_OnUnsubscribe :: "'s hook list \<Rightarrow> 's \<Rightarrow> client \<Rightarrow> packet \<Rightarrow> 's \<times> packet" where
  "Hooks_OnUnsubscribe hs s cl pk =
     pass_through OnUnsubscribe_ev (\<lambda>h s pk. hkOnUnsubscribe h s cl pk) hs s pk"

definition Hooks_OnUnsubscribed :: "'s hook list \<Rightarrow> 's notify" where
  "Hooks_OnUnsubscribed hs s cl pk =
     notify_all OnUnsubscribed_ev (\<lambda>h s. hkOnUnsubscribed h s cl pk) hs s"

text \<open>\<open>OnPublish\<close>: the first error ends the chain, and the packet goes back as it came.\<close>

fun OnPublish_loop ::
    "'s hook list \<Rightarrow> 's \<Rightarrow> client \<Rightarrow> packet \<Rightarrow> packet \<Rightarrow> 's \<times> packet \<times> error option" where
  "OnPublish_loop [] s cl pk pkx = (s, pkx, None)"
| "OnPublish_loop (h # hs) s cl pk pkx =
    (if hkProvides h OnPublish_ev then
       (case hkOnPublish h s cl pkx of
          (s', npk, Some err) \<Rightarrow> (s', pk, Some err)
        | (s', npk, None) \<Rightarrow> OnPublish_loop hs s' cl pk npk)
     else OnPublish_loop hs s cl pk pkx)"

definition Hooks_OnPublish :: "'s hook list \<Rightarrow> 's \<Rightarrow> client \<Rightarrow> packet \<Rightarrow> 's \<times> packet \<times> error option" where
  "Hooks_OnPublish hs s cl pk = OnPublish_loop hs s cl pk pk"

definition Hooks_OnPublished :: "'s hook list \<Rightarrow> 's notify" where
  "Hooks_OnPublished hs s cl pk = notify_all OnPublished_ev (\<lambda>h s. hkOnPublished h s cl pk) hs s"

definition Hooks_OnPublishDropped :: "'s hook list \<Rightarrow> 's notify" where
  "Hooks_OnPublishDropped hs s cl pk =
     notify_all OnPublishDropped_ev (\<lambda>h s. hkOnPublishDropped h s cl pk) hs s"

definition Hooks_OnRetainMessage :: "'s hook list \<Rightarrow> 's \<Rightarrow> client \<Rightarrow> packet \<Rightarrow> int \<Rightarrow> 's" where
  "Hooks_OnRetainMessage hs s cl pk r =
     notify_all OnRetainMessage_ev (\<lambda>h s. hkOnRetainMessage h s cl pk r) hs s"

definition Hooks_OnRetainPublished :: "'s hook list \<Rightarrow> 's notify" where
  "Hooks_OnRetainPublished hs s cl pk =
     notify_all OnRetainPublished_ev (\<lambda>h s. hkOnRetainPublished h s cl pk) hs s"

definition Hooks_OnQosPublish :: "'s hook list \<Rightarrow> 's \<Rightarrow> client \<Rightarrow> packet \<Rightarrow> int \<Rightarrow> int \<Rightarrow> 's" where
  "Hooks_OnQosPublish hs s cl pk sent resends =
     notify_all OnQosPublish_ev (\<lambda>h s. hkOnQosPublish h s cl pk sent resends) hs s"

definition Hooks_OnQosComplete :: "'s hook list \<Rightarrow> 's notify" where
  "Hooks_OnQosComplete hs s cl pk = notify_all OnQosComplete_ev (\<lambda>h s. hkOnQosComplete h s cl pk) hs s"

definition Hooks_OnQosDropped :: "'s hook list \<Rightarrow> 's notify" where
  "Hooks_OnQosDropped hs s cl pk = notify_all OnQosDropped_ev (\<lambda>h s. hkOnQosDropped h s cl pk) hs s"

definition Hooks_OnPacketIDExhausted :: "'s hook list \<Rightarrow> 's notify" where
  "Hooks_OnPacketIDExhausted hs s cl pk =
     notify_all OnPacketIDExhausted_ev (\<lambda>h s. hkOnPacketIDExhausted h s cl pk) hs s"

text \<open>\<open>OnWill\<close>: a hook that fails is passed over.\<close>

definition Hooks_OnWill :: "'s hook list \<Rightarrow> 's \<Rightarrow> client \<Rightarrow> will \<Rightarrow> 's \<times> will" where
  "Hooks_OnWill hs s cl w =
     pass_through OnWill_ev (\<lambda>h s w. case hkOnWill h s cl w of
         (s', mlwt, Some err) \<Rightarrow> (s', w) | (s', mlwt, None) \<Rightarrow> (s', mlwt)) hs s w"

definition Hooks_OnWillSent :: "'s hook list \<Rightarrow> 's notify" where
  "Hooks_OnWillSent hs s cl pk = notify_all OnWillSent_ev (\<lambda>h s. hkOnWillSent h s cl pk) hs s"

definition Hooks_OnClientExpired :: "'s hook list \<Rightarrow> 's \<Rightarrow> client \<Rightarrow> 's" where
  "Hooks_OnClientExpired hs s cl = notify_all OnClientExpired_ev (\<lambda>h s. hkOnClientExpired h s cl) hs s"

definition Hooks_OnRetainedExpired :: "'s hook list \<Rightarrow> 's \<Rightarrow> gostring \<Rightarrow> 's" where
  "Hooks_OnRetainedExpired hs s flt =
     notify_all OnRetainedExpired_ev (\<lambda>h s. hkOnRetainedExpired h s flt) hs s"

definition Hooks_OnSysInfoTick :: "'s hook list \<Rightarrow> 's \<Rightarrow> sys_info \<Rightarrow> 's" where
  "Hooks_OnSysInfoTick hs s sys = notify_all OnSysInfoTick_ev (\<lambda>h s. hkOnSysInfoTick h s sys) hs s"

definition Hooks_OnStarted :: "'s hook list \<Rightarrow> 's \<Rightarrow> 's" where
  "Hooks_OnStarted hs s = notify_all OnStarted_ev (\<lambda>h s. hkOnStarted h s) hs s"

definition Hooks_OnStopped :: "'s hook list \<Rightarrow> 's \<Rightarrow> 's" where
  "Hooks_OnStopped hs s = notify_all OnStopped_ev (\<lambda>h s. hkOnStopped h s) hs s"

text \<open>What is stored: the first hook that fails or has something answers.\<close>

fun first_stored :: "byte \<Rightarrow> ('s hook \<Rightarrow> error + 'a list) \<Rightarrow> 's hook list \<Rightarrow> error + 'a list" where
  "first_stored ev f [] = Inr []"
| "first_stored ev f (h # hs) =
    (if hkProvides h ev then
       (case f h of
          Inl err \<Rightarrow> Inl err
        | Inr v \<Rightarrow> if length v > 0 then Inr v else first_stored ev f hs)
     else first_stored ev f hs)"

definition Hooks_StoredClients :: "'s hook list \<Rightarrow> 's \<Rightarrow> error + st_client list" where
  "Hooks_StoredClients hs s = first_stored StoredClients_ev (\<lambda>h. hkStoredClients h s) hs"

definition Hooks_StoredSubscriptions :: "'s hook list \<Rightarrow> 's \<Rightarrow> error + st_subscription list" where
  "Hooks_StoredSubscriptions hs s = first_stored StoredSubscriptions_ev (\<lambda>h. hkStoredSubscriptions h s) hs"

definition Hooks_StoredInflightMessages :: "'s hook list \<Rightarrow> 's \<Rightarrow> error + st_message list" where
  "Hooks_StoredInflightMessages hs s =
     first_stored StoredInflightMessages_ev (\<lambda>h. hkStoredInflightMessages h s) hs"

definition Hooks_StoredRetainedMessages :: "'s hook list \<Rightarrow> 's \<Rightarrow> error + st_message list" where
  "Hooks_StoredRetainedMessages hs s =
     first_stored StoredRetainedMessages_ev (\<lambda>h. hkStoredRetainedMessages h s) hs"

fun Hooks_StoredSysInfo :: "'s hook list \<Rightarrow> 's \<Rightarrow> error + st_system_info" where
  "Hooks_StoredSysInfo [] s = Inr no_st_system_info"
| "Hooks_StoredSysInfo (h # hs) s =
    (if hkProvides h StoredSysInfo_ev then
       (case hkStoredSysInfo h s of
          Inl err \<Rightarrow> Inl err
        | Inr v \<Rightarrow> if Version (tyInfo v) \<noteq> [] then Inr v else Hooks_StoredSysInfo hs s)
     else Hooks_StoredSysInfo hs s)"

text \<open>The two questions: one hook that says yes is enough.\<close>

fun Hooks_OnConnectAuthenticate :: "'s hook list \<Rightarrow> 's \<Rightarrow> client \<Rightarrow> packet \<Rightarrow> 's \<times> bool" where
  "Hooks_OnConnectAuthenticate [] s cl pk = (s, False)"
| "Hooks_OnConnectAuthenticate (h # hs) s cl pk =
    (if hkProvides h OnConnectAuthenticate_ev then
       (case hkOnConnectAuthenticate h s cl pk of
          (s', ok) \<Rightarrow> if ok then (s', True) else Hooks_OnConnectAuthenticate hs s' cl pk)
     else Hooks_OnConnectAuthenticate hs s cl pk)"

fun Hooks_OnACLCheck :: "'s hook list \<Rightarrow> 's \<Rightarrow> client \<Rightarrow> gostring \<Rightarrow> bool \<Rightarrow> 's \<times> bool" where
  "Hooks_OnACLCheck [] s cl topic write = (s, False)"
| "Hooks_OnACLCheck (h # hs) s cl topic write =
    (if hkProvides h OnACLCheck_ev then
       (case hkOnACLCheck h s cl topic write of
          (s', ok) \<Rightarrow> if ok then (s', True) else Hooks_OnACLCheck hs s' cl topic write)
     else Hooks_OnACLCheck hs s cl topic write)"

section \<open>Laws\<close>

text \<open>
  A hook that lets a published packet through unchanged: what a filter promises.  A chain of
  filters is a filter.
\<close>

locale publish_filter =
  fixes onp :: "'s \<Rightarrow> client \<Rightarrow> packet \<Rightarrow> 's \<times> packet \<times> error option"
  assumes passes_unchanged: "onp s cl pk = (s', pk', None) \<Longrightarrow> pk' = pk"
begin

lemma verdict: "onp s cl pk = (s', pk', e) \<Longrightarrow> pk' = pk \<or> e \<noteq> None"
  using passes_unchanged by (cases e) blast+

end

lemma OnPublish_loop_unchanged:
  assumes "\<And>h. h \<in> set hs \<Longrightarrow> publish_filter (hkOnPublish h)"
  shows "OnPublish_loop hs s cl pk pk = (s', pk', e) \<Longrightarrow> pk' = pk"
  using assms
proof (induction hs arbitrary: s)
  case (Cons h hs)
  obtain s1 npk e1 where h: "hkOnPublish h s cl pk = (s1, npk, e1)" by (metis prod_cases3)
  have "e1 = None \<Longrightarrow> npk = pk"
    using publish_filter.passes_unchanged [OF Cons.prems(2) [of h], of s cl pk s1 npk] h by simp
  then show ?case using Cons h by (auto split: if_splits option.splits)
qed simp

lemma publish_chain:
  assumes "\<And>h. h \<in> set hs \<Longrightarrow> publish_filter (hkOnPublish h)"
  shows "publish_filter (Hooks_OnPublish hs)"
  unfolding Hooks_OnPublish_def using OnPublish_loop_unchanged [OF assms] by (simp add: publish_filter_def)

text \<open>A rejection anywhere ends the chain: the later hooks do not run.\<close>

lemma OnPublish_rejects:
  assumes "hkProvides h OnPublish_ev" "hkOnPublish h s cl pk = (s', npk, Some err)"
  shows "Hooks_OnPublish (h # hs) s cl pk = (s', pk, Some err)"
  using assms by (simp add: Hooks_OnPublish_def)

text \<open>
  Permission is a disjunction over the hooks: a hook that answers yes to every write opens every
  topic, whatever the hooks after it would say.
\<close>

lemma ACLCheck_first_yes:
  assumes "hkProvides h OnACLCheck_ev" "snd (hkOnACLCheck h s cl topic write)"
  shows "snd (Hooks_OnACLCheck (h # hs) s cl topic write)"
  using assms by (cases "hkOnACLCheck h s cl topic write") simp

lemma ACLCheck_stateless:
  assumes "\<And>h s. h \<in> set hs \<Longrightarrow> fst (hkOnACLCheck h s cl topic write) = s"
  shows "Hooks_OnACLCheck hs s cl topic write =
    (s, \<exists>h \<in> set hs. hkProvides h OnACLCheck_ev \<and> snd (hkOnACLCheck h s cl topic write))"
  using assms
proof (induction hs)
  case (Cons h hs)
  obtain s1 ok where h: "hkOnACLCheck h s cl topic write = (s1, ok)" by fastforce
  then have "s1 = s" using Cons.prems [of h s] by simp
  then show ?case using Cons h by auto
qed simp

lemma no_hooks [simp]:
  "Hooks_OnPublish [] s cl pk = (s, pk, None)" "Hooks_OnPacketRead [] s cl pk = (s, pk, None)"
  "Hooks_OnPacketEncode [] s cl pk = (s, pk)" "Hooks_OnPacketSent [] s cl pk b = s"
  by (simp_all add: Hooks_OnPublish_def Hooks_OnPacketRead_def Hooks_OnPacketEncode_def
      Hooks_OnPacketSent_def pass_through_def notify_all_def)

end
