(* ===== verification/Mqtt_Options.thy ===== *)
theory Mqtt_Options
  imports Mqtt_Hooks
begin

text \<open>
  What the server hands to its clients, the \<open>ops\<close> of \<open>server.go\<close>: the options with the
  capabilities, the counters and the hooks with their state.
\<close>

record compatibilities =
  ObscureNotAuthorized :: bool
  PassiveClientDisconnect :: bool
  AlwaysReturnResponseInfo :: bool
  RestoreSysInfoOnRestart :: bool
  NoInheritedPropertiesOnAck :: bool

record capabilities =
  MaximumClients :: int
  MaximumMessageExpiryInterval :: int
  MaximumClientWritesPending :: nat
  MaximumSessionExpiryInterval :: u32
  MaximumPacketSize :: u32
  maximumPacketID :: u32
  ReceiveMaximum :: u16
  MaximumInflight :: u16
  TopicAliasMaximum :: u16
  SharedSubAvailable :: byte
  MinimumProtocolVersion :: byte
  Compatibilities :: compatibilities
  MaximumQos :: byte
  RetainAvailable :: byte
  WildcardSubAvailable :: byte
  SubIDAvailable :: byte

record options =
  oCapabilities :: capabilities
  oClientNetWriteBufferSize :: nat
  oClientNetReadBufferSize :: nat
  oSysTopicResendInterval :: int
  oInlineClient :: bool

definition NewDefaultServerCapabilities :: capabilities where
  "NewDefaultServerCapabilities =
    \<lparr>MaximumClients = 9223372036854775807, MaximumMessageExpiryInterval = 60 * 60 * 24,
     MaximumClientWritesPending = 1024 * 8, MaximumSessionExpiryInterval = 4294967295,
     MaximumPacketSize = 0, maximumPacketID = 65535, ReceiveMaximum = 1024,
     MaximumInflight = 1024 * 8, TopicAliasMaximum = 65535, SharedSubAvailable = 1,
     MinimumProtocolVersion = 3,
     Compatibilities = \<lparr>ObscureNotAuthorized = False, PassiveClientDisconnect = False,
       AlwaysReturnResponseInfo = False, RestoreSysInfoOnRestart = False,
       NoInheritedPropertiesOnAck = False\<rparr>,
     MaximumQos = 2, RetainAvailable = 1, WildcardSubAvailable = 1, SubIDAvailable = 1\<rparr>"

text \<open>\<open>ensureDefaults\<close>, with the capabilities the caller gave, if any.\<close>

definition ensureDefaults :: "capabilities option \<Rightarrow> options \<Rightarrow> options" where
  "ensureDefaults caps o1 =
    (let c = (case caps of Some c \<Rightarrow> c | None \<Rightarrow> NewDefaultServerCapabilities);
         c = c\<lparr>maximumPacketID := 65535\<rparr>;
         c = (if MaximumInflight c = 0 then c\<lparr>MaximumInflight := 1024 * 8\<rparr> else c)
     in o1\<lparr>oCapabilities := c,
          oSysTopicResendInterval := (if oSysTopicResendInterval o1 = 0 then 1 else oSysTopicResendInterval o1),
          oClientNetWriteBufferSize :=
            (if oClientNetWriteBufferSize o1 = 0 then 1024 * 2 else oClientNetWriteBufferSize o1),
          oClientNetReadBufferSize :=
            (if oClientNetReadBufferSize o1 = 0 then 1024 * 2 else oClientNetReadBufferSize o1)\<rparr>)"

record 's ops =
  opOptions :: options
  opInfo :: sys_info
  opHooks :: "'s hook list"
  opState :: 's

abbreviation caps :: "'s ops \<Rightarrow> capabilities" where
  "caps op \<equiv> oCapabilities (opOptions op)"

abbreviation info_update :: "(sys_info \<Rightarrow> sys_info) \<Rightarrow> 's ops \<Rightarrow> 's ops" where
  "info_update \<equiv> opInfo_update"

abbreviation tell :: "('s hook list \<Rightarrow> 's \<Rightarrow> 's) \<Rightarrow> 's ops \<Rightarrow> 's ops" where
  "tell f op \<equiv> op\<lparr>opState := f (opHooks op) (opState op)\<rparr>"

end
