(* ===== verification/Mqtt_Client.thy ===== *)
theory Mqtt_Client
  imports Mqtt_Options Mqtt_Roundtrip
begin

text \<open>
  A client of the broker, \<open>clients.go\<close>: the table of clients, the parameters of a connection,
  packet identifiers, reading and writing of packets, the in-flight messages and the end of a
  client.  The clock is the argument \<open>now\<close>, in seconds; after an error nothing more is read from
  a connection, so a failed read leaves the input as it is.
\<close>

section \<open>The table of clients\<close>

type_synonym 'c clients = "(gostring, 'c) gomap"

definition NewClients :: "'c clients" where "NewClients = []"

definition Clients_Add :: "gostring \<times> 'c \<Rightarrow> 'c clients \<Rightarrow> 'c clients" where
  "Clients_Add v cl = m_set (fst v) (snd v) cl"

definition Clients_GetAll :: "'c clients \<Rightarrow> 'c clients" where
  "Clients_GetAll cl = cl"

definition Clients_Get :: "'c clients \<Rightarrow> gostring \<Rightarrow> 'c option" where
  "Clients_Get cl k = m_get cl k"

definition Clients_Len :: "'c clients \<Rightarrow> nat" where
  "Clients_Len cl = length cl"

definition Clients_Delete :: "gostring \<Rightarrow> 'c clients \<Rightarrow> 'c clients" where
  "Clients_Delete k cl = m_del k cl"

lemmas Clients_defs = NewClients_def Clients_Add_def Clients_GetAll_def Clients_Get_def
  Clients_Len_def Clients_Delete_def

interpretation client_table: counted_store map_ok fst snd Clients_Get Clients_Add Clients_Delete Clients_Len
  by unfold_locales (auto simp: Clients_defs length_set length_del)

section \<open>State of a client\<close>

abbreviation clInflight :: "client \<Rightarrow> inflight" where
  "clInflight cl \<equiv> csInflight (clState cl)"

abbreviation upd_state :: "(client_state \<Rightarrow> client_state) \<Rightarrow> client \<Rightarrow> client" where
  "upd_state \<equiv> clState_update"

abbreviation upd_inflight :: "(inflight \<Rightarrow> inflight) \<Rightarrow> client \<Rightarrow> client" where
  "upd_inflight f \<equiv> clState_update (csInflight_update f)"

abbreviation upd_net :: "(client_connection \<Rightarrow> client_connection) \<Rightarrow> client \<Rightarrow> client" where
  "upd_net \<equiv> clNet_update"

definition Closed :: "client \<Rightarrow> bool" where
  "Closed cl \<longleftrightarrow> \<not> csOpen (clState cl)"

definition IsTakenOver :: "client \<Rightarrow> bool" where
  "IsTakenOver cl = csIsTakenOver (clState cl)"

definition StopCause :: "client \<Rightarrow> error option" where
  "StopCause cl = csStopCause (clState cl)"

definition StopTime :: "client \<Rightarrow> int" where
  "StopTime cl = csDisconnected (clState cl)"

text \<open>\<open>Stop\<close>: what it does happens once.\<close>

definition Stop :: "int \<Rightarrow> error option \<Rightarrow> client \<Rightarrow> client" where
  "Stop now err cl =
    (if csEnded (clState cl) then cl
     else upd_state (\<lambda>st. st\<lparr>csEnded := True,
            csStopCause := (case err of Some e \<Rightarrow> Some e | None \<Rightarrow> csStopCause st),
            csOpen := False, csDisconnected := now\<rparr>) cl)"

definition GetByListener :: "gostring \<Rightarrow> client clients \<Rightarrow> client list" where
  "GetByListener lid cl = filter (\<lambda>c. cnListener (clNet c) = lid \<and> \<not> Closed c) (map snd cl)"

text \<open>The seconds after which a silent connection is closed; zero is no limit.\<close>

definition refreshDeadline :: "int \<Rightarrow> u16 \<Rightarrow> int option" where
  "refreshDeadline now keepalive =
    (if keepalive > 0 then Some (now + uint (keepalive + keepalive div 2)) else None)"

definition defaultKeepalive :: u16 where "defaultKeepalive = 10"
definition defaultClientProtocolVersion :: byte where "defaultClientProtocolVersion = 4"

text \<open>\<open>ParseConnect\<close>; \<open>fresh\<close> is the identifier that \<open>xid.New\<close> makes.\<close>

definition ParseConnect_will :: "packet \<Rightarrow> will \<Rightarrow> will" where
  "ParseConnect_will pk w =
    (let c = pkConnect pk; wp = cWillProperties c; p = pkProperties pk
     in if cWillFlag c then
          \<lparr>wPayload = cWillPayload c, wUser = pUser wp, wTopicName = cWillTopic c, wFlag = 1,
           wWillDelayInterval =
             (if pSessionExpiryIntervalFlag p \<and> pSessionExpiryInterval p < pWillDelayInterval wp
              then pSessionExpiryInterval p else pWillDelayInterval wp),
           wQos = cWillQos c, wRetain = cWillRetain c\<rparr>
        else w)"

definition ParseConnect :: "'s ops \<Rightarrow> gostring \<Rightarrow> gostring \<Rightarrow> packet \<Rightarrow> client \<Rightarrow> client" where
  "ParseConnect op fresh lid pk cl =
    (let c = pkConnect pk;
         props = Properties_Copy (pkProperties pk) False;
         props = (if pReceiveMaximum props > MaximumInflight (caps op)
                  then props\<lparr>pReceiveMaximum := MaximumInflight (caps op)\<rparr> else props);
         ident = (if cClientIdentifier c = [] then fresh else cClientIdentifier c);
         quotas = ResetSendQuota (uint (pReceiveMaximum props))
                  \<circ> ResetReceiveQuota (uint (ReceiveMaximum (caps op)));
         outbound = NewOutboundTopicAliases (pTopicAliasMaximum props);
         props = (if cClientIdentifier c = [] then props\<lparr>pAssignedClientID := fresh\<rparr> else props)
     in cl\<lparr>clNet := (clNet cl)\<lparr>cnListener := lid\<rparr>,
           clProperties := (clProperties cl)\<lparr>cpProtocolVersion := pkProtocolVersion pk,
             cpUsername := cUsername c, cpClean := cClean c, cpProps := props,
             cpWill := ParseConnect_will pk (cpWill (clProperties cl))\<rparr>,
           clState := (clState cl)\<lparr>csKeepalive := cKeepalive c,
             csInflight := quotas (csInflight (clState cl)),
             csTopicAliases := (csTopicAliases (clState cl))\<lparr>taOutbound := outbound\<rparr>\<rparr>,
           clID := ident\<rparr>)"

section \<open>Packet identifiers\<close>

text \<open>
  The loop of \<open>NextPacketID\<close> over the identifiers: \<open>used\<close> tells which are in flight.  None is a
  loop that does not end.
\<close>

partial_function (option) NextPacketID_loop ::
    "(u16 \<Rightarrow> bool) \<Rightarrow> u32 \<Rightarrow> u32 \<Rightarrow> bool \<Rightarrow> u32 \<Rightarrow> (error + u32) option" where
  "NextPacketID_loop used maximum started overflowed i =
    (if overflowed \<and> i = started then Some (Inl (ECode ErrQuotaExceeded))
     else if i \<ge> maximum then NextPacketID_loop used maximum started True 0
     else if \<not> used (ucast (i + 1)) then Some (Inr (i + 1))
     else NextPacketID_loop used maximum started overflowed (i + 1))"

definition NextPacketID :: "'s ops \<Rightarrow> client \<Rightarrow> (client \<times> (error + u32)) option" where
  "NextPacketID op cl =
    (let i = csPacketID (clState cl)
     in case NextPacketID_loop (\<lambda>k. Inflight_Get (clInflight cl) k \<noteq> None) (maximumPacketID (caps op)) i False i of
          None \<Rightarrow> None
        | Some (Inl e) \<Rightarrow> Some (cl, Inl e)
        | Some (Inr j) \<Rightarrow> Some (upd_state (csPacketID_update (\<lambda>_. j)) cl, Inr j))"

section \<open>Reading\<close>

definition ErrConnectionClosed :: error where
  "ErrConnectionClosed = ENew (lit ''connection not open'')"

definition ReadFixedHeader :: "client \<Rightarrow> 's ops \<Rightarrow> (error + fixed_header) \<times> client \<times> 's ops" where
  "ReadFixedHeader cl op =
    (if \<not> cnConn (clNet cl) then (Inl ErrConnectionClosed, cl, op)
     else case cnIn (clNet cl) of
       [] \<Rightarrow> (Inl EEOF, cl, op)
     | b # input \<Rightarrow>
         (case FixedHeader_Decode no_header b of
            Inl err \<Rightarrow> (Inl err, cl, op)
          | Inr fh \<Rightarrow>
              (case DecodeLength input of
                 Inl err \<Rightarrow> (Inl err, cl, op)
               | Inr (n, bu, rest) \<Rightarrow>
                   let fh = fh\<lparr>fhRemaining := n\<rparr>
                   in if MaximumPacketSize (caps op) > 0 \<and> (of_nat (n + 1) :: u32) > MaximumPacketSize (caps op)
                      then (Inl (ECode ErrPacketTooLarge), cl, op)
                      else (Inr fh, upd_net (cnIn_update (\<lambda>_. rest)) cl,
                            info_update (BytesReceived_update (\<lambda>x. x + int (bu + 1))) op))))"

definition decode_packet :: "packet \<Rightarrow> byte list \<Rightarrow> error + packet" where
  "decode_packet pk px =
    (let t = fhType (pkFixedHeader pk)
     in if t = Connect then ConnectDecode pk px
        else if t = Disconnect then DisconnectDecode pk px
        else if t = Connack then ConnackDecode pk px
        else if t = Publish then PublishDecode pk px
        else if t = Puback then PubackDecode pk px
        else if t = Pubrec then PubrecDecode pk px
        else if t = Pubrel then PubrelDecode pk px
        else if t = Pubcomp then PubcompDecode pk px
        else if t = Subscribe then SubscribeDecode pk px
        else if t = Suback then SubackDecode pk px
        else if t = Unsubscribe then UnsubscribeDecode pk px
        else if t = Unsuback then UnsubackDecode pk px
        else if t = Pingreq then Inr pk
        else if t = Pingresp then Inr pk
        else if t = Auth then AuthDecode pk px
        else Inl (ENew (lit ''invalid packet type; '' @ FormatUint (unat t))))"

definition ReadPacket :: "fixed_header \<Rightarrow> client \<Rightarrow> 's ops \<Rightarrow> (error + packet) \<times> client \<times> 's ops" where
  "ReadPacket fh cl op =
    (let op = info_update (PacketsReceived_update (\<lambda>x. x + 1)) op;
         pk = no_packet\<lparr>pkProtocolVersion := cpProtocolVersion (clProperties cl), pkFixedHeader := fh\<rparr>;
         n = fhRemaining fh;
         input = cnIn (clNet cl)
     in if length input < n then (Inl (if input = [] then EEOF else EUnexpectedEOF), cl, op)
        else
          let px = take n input;
              cl = upd_net (cnIn_update (\<lambda>_. drop n input)) cl;
              op = info_update (BytesReceived_update (\<lambda>x. x + int n)) op
          in case decode_packet pk px of
               Inl err \<Rightarrow> (Inl err, cl, op)
             | Inr pk \<Rightarrow>
                 let op = (if fhType fh = Publish then info_update (MessagesReceived_update (\<lambda>x. x + 1)) op else op)
                 in case Hooks_OnPacketRead (opHooks op) (opState op) cl pk of
                      (s, pk', Some err) \<Rightarrow> (Inl err, cl, op\<lparr>opState := s\<rparr>)
                    | (s, pk', None) \<Rightarrow> (Inr pk', cl, op\<lparr>opState := s\<rparr>))"

section \<open>Writing\<close>

definition flushOutbuf :: "client \<Rightarrow> client \<times> error option" where
  "flushOutbuf cl =
    (case cnOutbuf (clNet cl) of
       None \<Rightarrow> (cl, None)
     | Some b \<Rightarrow>
         (case cnFails (clNet cl) of
            Some e \<Rightarrow> (cl, Some e)
          | None \<Rightarrow> (upd_net (\<lambda>n. n\<lparr>cnOut := cnOut n @ b, cnOutbuf := None\<rparr>) cl, None)))"

definition conn_write :: "byte list \<Rightarrow> client \<Rightarrow> client \<times> error option" where
  "conn_write b cl =
    (case cnFails (clNet cl) of
       Some e \<Rightarrow> (cl, Some e)
     | None \<Rightarrow> (upd_net (cnOut_update (\<lambda>out. out @ b)) cl, None))"

text \<open>The locked part of \<open>WritePacket\<close>: to the connection, or to the buffer while more is queued.\<close>

definition write_bytes :: "nat \<Rightarrow> byte list \<Rightarrow> client \<Rightarrow> client \<times> error option" where
  "write_bytes bufsize b cl =
    (let buffered = (\<lambda>cl. case cnOutbuf (clNet cl) of None \<Rightarrow> [] | Some ob \<Rightarrow> ob);
         add = (\<lambda>cl. upd_net (cnOutbuf_update (\<lambda>_. Some (buffered cl @ b))) cl)
     in if csOutbound (clState cl) = [] then
          (if cnOutbuf (clNet cl) = None then conn_write b cl else flushOutbuf (add cl))
        else if cnOutbuf (clNet cl) = None \<and> length b \<ge> bufsize then conn_write b cl
        else
          let cl = add cl
          in if length (buffered cl) < bufsize then (cl, None) else flushOutbuf cl)"

definition encode_packet :: "packet \<Rightarrow> error + (packet \<times> byte list)" where
  "encode_packet pk =
    (let t = fhType (pkFixedHeader pk)
     in if t = Connect then ConnectEncode pk
        else if t = Connack then ConnackEncode pk
        else if t = Publish then PublishEncode pk
        else if t = Puback then PubackEncode pk
        else if t = Pubrec then PubrecEncode pk
        else if t = Pubrel then PubrelEncode pk
        else if t = Pubcomp then PubcompEncode pk
        else if t = Subscribe then SubscribeEncode pk
        else if t = Suback then SubackEncode pk
        else if t = Unsubscribe then UnsubscribeEncode pk
        else if t = Unsuback then UnsubackEncode pk
        else if t = Pingreq then PingreqEncode pk
        else if t = Pingresp then PingrespEncode pk
        else if t = Disconnect then DisconnectEncode pk
        else if t = Auth then AuthEncode pk
        else Inl (ENew (lit ''no valid packet available: '' @ FormatUint (unat t))))"

text \<open>What \<open>WritePacket\<close> sets in the packet before the hooks see it.\<close>

definition prepare :: "int \<Rightarrow> client \<Rightarrow> 's ops \<Rightarrow> packet \<Rightarrow> packet" where
  "prepare now cl op pk =
    (let props = cpProps (clProperties cl);
         pk = (if pkExpiry pk > 0 then
                 (let expiry = pkExpiry pk - now; expiry = (if expiry < 1 then 1 else expiry)
                  in pkProperties_update (pMessageExpiryInterval_update (\<lambda>_. word_of_int expiry)) pk)
               else pk);
         pk = pkProtocolVersion_update (\<lambda>_. cpProtocolVersion (clProperties cl)) pk;
         pk = (if mMaxSize (pkMods pk) = 0
               then pkMods_update (mMaxSize_update (\<lambda>_. pMaximumPacketSize props)) pk else pk);
         pk = (if pRequestProblemInfoFlag props \<and> pRequestProblemInfo props = 0
               then pkMods_update (mDisallowProblemInfo_update (\<lambda>_. True)) pk else pk)
     in if fhType (pkFixedHeader pk) \<noteq> Connack \<or> pRequestResponseInfo props = 1
          \<or> AlwaysReturnResponseInfo (Compatibilities (caps op))
        then pkMods_update (mAllowResponseInfo_update (\<lambda>_. True)) pk else pk)"

definition WritePacket :: "int \<Rightarrow> packet \<Rightarrow> client \<Rightarrow> 's ops \<Rightarrow> error option \<times> client \<times> 's ops" where
  "WritePacket now pk cl op =
    (if Closed cl then (Some ErrConnectionClosed, cl, op)
     else if \<not> cnConn (clNet cl) then (None, cl, op)
     else
       let (s, pk) = Hooks_OnPacketEncode (opHooks op) (opState op) cl (prepare now cl op pk);
           op = op\<lparr>opState := s\<rparr>
       in case encode_packet pk of
            Inl err \<Rightarrow> (Some err, cl, op)
          | Inr (pk, buf) \<Rightarrow>
              if mMaxSize (pkMods pk) > 0 \<and> (of_nat (length buf) :: u32) > mMaxSize (pkMods pk)
              then (Some (ECode ErrPacketTooLarge), cl, op)
              else case write_bytes (oClientNetWriteBufferSize (opOptions op)) buf cl of
                (cl, Some err) \<Rightarrow> (Some err, cl, op)
              | (cl, None) \<Rightarrow>
                  let op = info_update (\<lambda>i. i\<lparr>BytesSent := BytesSent i + int (length buf),
                             PacketsSent := PacketsSent i + 1,
                             MessagesSent := (if fhType (pkFixedHeader pk) = Publish
                               then MessagesSent i + 1 else MessagesSent i)\<rparr>) op
                  in (None, cl, tell (\<lambda>hs s. Hooks_OnPacketSent hs s cl pk buf) op))"

text \<open>One turn of \<open>WriteLoop\<close>.\<close>

definition WriteLoop_turn :: "int \<Rightarrow> client \<Rightarrow> 's ops \<Rightarrow> client \<times> 's ops" where
  "WriteLoop_turn now cl op =
    (if Closed cl then (cl, op)
     else case csOutbound (clState cl) of
       [] \<Rightarrow> (cl, op)
     | pk # q \<Rightarrow>
         let (_, cl, op) = WritePacket now pk (upd_state (csOutbound_update (\<lambda>_. q)) cl) op
         in (upd_state (csOutboundQty_update (\<lambda>n. n - 1)) cl, op))"

section \<open>In-flight messages\<close>

text \<open>\<open>ResendInflightMessages\<close>: over the messages as they are at the start.\<close>

fun Resend_loop :: "int \<Rightarrow> packet list \<Rightarrow> client \<Rightarrow> 's ops \<Rightarrow> error option \<times> client \<times> 's ops" where
  "Resend_loop now [] cl op = (None, cl, op)"
| "Resend_loop now (tk # tks) cl op =
    (let tk = (if fhType (pkFixedHeader tk) = Publish
               then pkFixedHeader_update (fhDup_update (\<lambda>_. True)) tk else tk);
         op = tell (\<lambda>hs s. Hooks_OnQosPublish hs s cl tk (pkCreated tk) 0) op
     in case WritePacket now tk cl op of
          (Some err, cl, op) \<Rightarrow> (Some err, cl, op)
        | (None, cl, op) \<Rightarrow>
            if fhType (pkFixedHeader tk) = Puback \<or> fhType (pkFixedHeader tk) = Pubcomp then
              (let (i, ok) = Inflight_Delete (pkPacketID tk) (clInflight cl);
                   cl = upd_inflight (\<lambda>_. i) cl;
                   op = (if ok then info_update (InflightCount_update (\<lambda>x. x - 1))
                           (tell (\<lambda>hs s. Hooks_OnQosComplete hs s cl tk) op) else op)
               in Resend_loop now tks cl op)
            else Resend_loop now tks cl op)"

definition ResendInflightMessages :: "int \<Rightarrow> client \<Rightarrow> 's ops \<Rightarrow> error option \<times> client \<times> 's ops" where
  "ResendInflightMessages now cl op =
    (if Inflight_Len (clInflight cl) = 0 then (None, cl, op)
     else Resend_loop now (Inflight_GetAll False (clInflight cl)) cl op)"

text \<open>Deletion of one message, told to the hooks as dropped and counted.\<close>

definition drop_inflight :: "packet \<Rightarrow> client \<times> 's ops \<Rightarrow> client \<times> 's ops" where
  "drop_inflight tk = (\<lambda>(cl, op).
    (let (i, ok) = Inflight_Delete (pkPacketID tk) (clInflight cl);
         cl = upd_inflight (\<lambda>_. i) cl
     in (cl, if ok then info_update (InflightCount_update (\<lambda>x. x - 1))
               (tell (\<lambda>hs s. Hooks_OnQosDropped hs s cl tk) op) else op)))"

definition ClearInflights :: "client \<Rightarrow> 's ops \<Rightarrow> client \<times> 's ops" where
  "ClearInflights cl op = fold drop_inflight (Inflight_GetAll False (clInflight cl)) (cl, op)"

definition inflight_expired :: "int \<Rightarrow> int \<Rightarrow> packet \<Rightarrow> bool" where
  "inflight_expired now maximumExpiry tk \<longleftrightarrow>
     (pkProtocolVersion tk = 5 \<and> pkExpiry tk > 0 \<and> pkExpiry tk < now)
     \<or> (maximumExpiry > 0 \<and> now - pkCreated tk > maximumExpiry)"

fun ClearExpired_loop ::
    "int \<Rightarrow> int \<Rightarrow> packet list \<Rightarrow> client \<times> 's ops \<Rightarrow> u16 list \<Rightarrow> (client \<times> 's ops) \<times> u16 list" where
  "ClearExpired_loop now maximumExpiry [] s deleted = (s, deleted)"
| "ClearExpired_loop now maximumExpiry (tk # tks) s deleted =
    (if inflight_expired now maximumExpiry tk \<and> Inflight_Get (clInflight (fst s)) (pkPacketID tk) \<noteq> None
     then ClearExpired_loop now maximumExpiry tks (drop_inflight tk s) (deleted @ [pkPacketID tk])
     else ClearExpired_loop now maximumExpiry tks s deleted)"

definition ClearExpiredInflights ::
    "int \<Rightarrow> int \<Rightarrow> client \<Rightarrow> 's ops \<Rightarrow> (client \<times> 's ops) \<times> u16 list" where
  "ClearExpiredInflights now maximumExpiry cl op =
     ClearExpired_loop now maximumExpiry (Inflight_GetAll False (clInflight cl)) (cl, op) []"

end
