(* ===== verification/Mqtt_Store.thy ===== *)
theory Mqtt_Store
  imports Mqtt_Client "HOL-Library.List_Lexorder"
begin

text \<open>
  What the storage hooks have in common, \<open>hooks/storage/*/*.go\<close>: the keys and the records they
  write, and their handlers.  The four hooks write the same records under the same keys; a handler
  is written once here over the writes of a hook (\<open>writer\<close>), and each hook's own theory says how it
  writes, reads and what it does differently.  The JSON coding of the records is a parameter.
\<close>

section \<open>Keys\<close>

definition ch_under :: byte where [simp]: "ch_under = 95"
definition ch_colon :: byte where [simp]: "ch_colon = 58"

text \<open>
  The key functions of a hook; whether it stores the packet identifier of a message; whether it
  writes a client again when it disconnects; how it tells that the session was taken over.
\<close>

record scheme =
  skClient :: "client \<Rightarrow> gostring"
  skSubscription :: "client \<Rightarrow> gostring \<Rightarrow> gostring"
  skRetained :: "gostring \<Rightarrow> gostring"
  skInflight :: "client \<Rightarrow> packet \<Rightarrow> gostring"
  skIdentified :: bool
  skUpdates :: bool
  skTaken :: "client \<Rightarrow> bool"

text \<open>The keys in a file, where one space of keys holds all records.\<close>

definition clientKey :: "client \<Rightarrow> gostring" where
  "clientKey cl = ClientKey @ [ch_under] @ clID cl"

definition subscriptionKey :: "client \<Rightarrow> gostring \<Rightarrow> gostring" where
  "subscriptionKey cl flt = SubscriptionKey @ [ch_under] @ clID cl @ [ch_colon] @ flt"

definition retainedKey :: "gostring \<Rightarrow> gostring" where
  "retainedKey topic = RetainedKey @ [ch_under] @ topic"

definition inflightKey :: "client \<Rightarrow> packet \<Rightarrow> gostring" where
  "inflightKey cl pk = InflightKey @ [ch_under] @ clID cl @ [ch_colon] @ FormatID pk"

definition sysInfoKey :: gostring where
  "sysInfoKey = SysInfoKey"

text \<open>\<open>errors.Is\<close> finds the code under wrappings, \<open>==\<close> does not.\<close>

definition taken_Is :: "client \<Rightarrow> bool" where
  "taken_Is cl = (case StopCause cl of None \<Rightarrow> False | Some err \<Rightarrow> errors_Is err ErrSessionTakenOver)"

definition taken_eq :: "client \<Rightarrow> bool" where
  "taken_eq cl \<longleftrightarrow> StopCause cl = Some (ECode ErrSessionTakenOver)"

section \<open>Records\<close>

definition stored_client :: "client \<Rightarrow> st_client" where
  "stored_client cl =
    (let p = clProperties cl; props = Properties_Copy (cpProps p) False
     in no_st_client\<lparr>tcID := clID cl, tcT := ClientKey, tcRemote := cnRemote (clNet cl),
          tcListener := cnListener (clNet cl), tcUsername := cpUsername p, tcClean := cpClean p,
          tcProtocolVersion := cpProtocolVersion p,
          tcProperties := (tcProperties no_st_client)\<lparr>
            tpSessionExpiryInterval := pSessionExpiryInterval props,
            tpAuthenticationMethod := pAuthenticationMethod props,
            tpAuthenticationData := pAuthenticationData props,
            tpRequestProblemInfo := pRequestProblemInfo props,
            tpRequestResponseInfo := pRequestResponseInfo props,
            tpReceiveMaximum := pReceiveMaximum props,
            tpTopicAliasMaximum := pTopicAliasMaximum props,
            tpUser := pUser props,
            tpMaximumPacketSize := pMaximumPacketSize props\<rparr>,
          tcWill := cpWill p\<rparr>)"

definition stored_subscription :: "scheme \<Rightarrow> client \<Rightarrow> subscription \<Rightarrow> byte \<Rightarrow> st_subscription" where
  "stored_subscription sk cl sub code = no_st_subscription\<lparr>
     tbID := skSubscription sk cl (sFilter sub), tbT := SubscriptionKey, tbClient := clID cl, tbQos := code,
     tbFilter := sFilter sub, tbIdentifier := sIdentifier sub, tbNoLocal := sNoLocal sub,
     tbRetainHandling := sRetainHandling sub, tbRetainAsPublished := sRetainAsPublished sub\<rparr>"

definition stored_properties :: "packet \<Rightarrow> st_message_properties" where
  "stored_properties pk =
    (let props = Properties_Copy (pkProperties pk) False
     in (tsProperties no_st_message)\<lparr>
          tmPayloadFormat := pPayloadFormat props,
          tmMessageExpiryInterval := pMessageExpiryInterval props,
          tmContentType := pContentType props,
          tmResponseTopic := pResponseTopic props,
          tmCorrelationData := pCorrelationData props,
          tmSubscriptionIdentifier := pSubscriptionIdentifier props,
          tmTopicAlias := pTopicAlias props,
          tmUser := pUser props\<rparr>)"

definition stored_retained :: "scheme \<Rightarrow> client \<Rightarrow> packet \<Rightarrow> st_message" where
  "stored_retained sk cl pk = no_st_message\<lparr>
     tsID := skRetained sk (pkTopicName pk), tsT := RetainedKey, tsFixedHeader := pkFixedHeader pk,
     tsTopicName := pkTopicName pk, tsPayload := pkPayload pk, tsCreated := pkCreated pk,
     tsClient := clID cl, tsOrigin := pkOrigin pk, tsProperties := stored_properties pk\<rparr>"

definition stored_inflight :: "scheme \<Rightarrow> client \<Rightarrow> packet \<Rightarrow> int \<Rightarrow> st_message" where
  "stored_inflight sk cl pk sent = no_st_message\<lparr>
     tsID := skInflight sk cl pk, tsT := InflightKey, tsClient := clID cl, tsOrigin := pkOrigin pk,
     tsPacketID := (if skIdentified sk then pkPacketID pk else 0),
     tsFixedHeader := pkFixedHeader pk, tsTopicName := pkTopicName pk, tsPayload := pkPayload pk,
     tsSent := sent, tsCreated := pkCreated pk, tsProperties := stored_properties pk\<rparr>"

definition stored_info :: "sys_info \<Rightarrow> st_system_info" where
  "stored_info sys = \<lparr>tyInfo = sys, tyT = SysInfoKey, tyID = sysInfoKey\<rparr>"

section \<open>Coding\<close>

text \<open>
  \<open>MarshalBinary\<close> and the decoding behind \<open>UnmarshalBinary\<close>, which fills a record and may fail
  half-way.
\<close>

record coding =
  ecClient :: "st_client \<Rightarrow> byte list"
  ecMessage :: "st_message \<Rightarrow> byte list"
  ecSubscription :: "st_subscription \<Rightarrow> byte list"
  ecInfo :: "st_system_info \<Rightarrow> byte list"
  dcClient :: "byte list \<Rightarrow> st_client \<Rightarrow> st_client \<times> error option"
  dcMessage :: "byte list \<Rightarrow> st_message \<Rightarrow> st_message \<times> error option"
  dcSubscription :: "byte list \<Rightarrow> st_subscription \<Rightarrow> st_subscription \<times> error option"
  dcInfo :: "byte list \<Rightarrow> st_system_info \<Rightarrow> st_system_info \<times> error option"

text \<open>A decoder into a fresh record of every kind.\<close>

definition read_client :: "coding \<Rightarrow> byte list \<Rightarrow> st_client \<times> error option" where
  "read_client cd data = UnmarshalBinary (dcClient cd) data no_st_client"

definition read_message :: "coding \<Rightarrow> byte list \<Rightarrow> st_message \<times> error option" where
  "read_message cd data = UnmarshalBinary (dcMessage cd) data no_st_message"

definition read_subscription :: "coding \<Rightarrow> byte list \<Rightarrow> st_subscription \<times> error option" where
  "read_subscription cd data = UnmarshalBinary (dcSubscription cd) data no_st_subscription"

definition read_info :: "coding \<Rightarrow> byte list \<Rightarrow> st_system_info \<times> error option" where
  "read_info cd data = UnmarshalBinary (dcInfo cd) data no_st_system_info"

section \<open>Handlers\<close>

text \<open>
  How a hook writes: a table (the kind of the record), a key and a value.  The errors of a write
  are only logged.
\<close>

record 'd writer =
  wSet :: "gostring \<Rightarrow> gostring \<Rightarrow> byte list \<Rightarrow> 'd \<Rightarrow> 'd"
  wDel :: "gostring \<Rightarrow> gostring \<Rightarrow> 'd \<Rightarrow> 'd"

text \<open>Every handler does nothing without a database.\<close>

definition if_open :: "('d \<Rightarrow> 'd) \<Rightarrow> 'd option \<Rightarrow> 'd option" where
  "if_open f db = (case db of None \<Rightarrow> None | Some d \<Rightarrow> Some (f d))"

definition put_client :: "'d writer \<Rightarrow> coding \<Rightarrow> scheme \<Rightarrow> client \<Rightarrow> 'd \<Rightarrow> 'd" where
  "put_client w cd sk cl = wSet w ClientKey (skClient sk cl) (ecClient cd (stored_client cl))"

text \<open>\<open>OnDisconnect\<close> with a database.\<close>

definition disconnect_client :: "'d writer \<Rightarrow> coding \<Rightarrow> scheme \<Rightarrow> client \<Rightarrow> bool \<Rightarrow> 'd \<Rightarrow> 'd" where
  "disconnect_client w cd sk cl expire d =
    (let d = (if skUpdates sk then put_client w cd sk cl d else d)
     in if \<not> expire then d else if skTaken sk cl then d else wDel w ClientKey (skClient sk cl) d)"

definition del_client :: "'d writer \<Rightarrow> scheme \<Rightarrow> client \<Rightarrow> 'd \<Rightarrow> 'd" where
  "del_client w sk cl = wDel w ClientKey (skClient sk cl)"

text \<open>The server passes as many reason codes as the packet has filters.\<close>

definition put_subscriptions ::
    "'d writer \<Rightarrow> coding \<Rightarrow> scheme \<Rightarrow> client \<Rightarrow> packet \<Rightarrow> byte list \<Rightarrow> 'd \<Rightarrow> 'd" where
  "put_subscriptions w cd sk cl pk reasonCodes = fold (\<lambda>(sub, code).
     wSet w SubscriptionKey (skSubscription sk cl (sFilter sub))
       (ecSubscription cd (stored_subscription sk cl sub code)))
     (zip (pkFilters pk) reasonCodes)"

definition del_subscriptions :: "'d writer \<Rightarrow> scheme \<Rightarrow> client \<Rightarrow> packet \<Rightarrow> 'd \<Rightarrow> 'd" where
  "del_subscriptions w sk cl pk =
     fold (\<lambda>sub. wDel w SubscriptionKey (skSubscription sk cl (sFilter sub))) (pkFilters pk)"

definition del_retained :: "'d writer \<Rightarrow> scheme \<Rightarrow> gostring \<Rightarrow> 'd \<Rightarrow> 'd" where
  "del_retained w sk topic = wDel w RetainedKey (skRetained sk topic)"

definition put_retained :: "'d writer \<Rightarrow> coding \<Rightarrow> scheme \<Rightarrow> client \<Rightarrow> packet \<Rightarrow> int \<Rightarrow> 'd \<Rightarrow> 'd" where
  "put_retained w cd sk cl pk r =
    (if r = - 1 then del_retained w sk (pkTopicName pk)
     else wSet w RetainedKey (skRetained sk (pkTopicName pk)) (ecMessage cd (stored_retained sk cl pk)))"

definition put_inflight :: "'d writer \<Rightarrow> coding \<Rightarrow> scheme \<Rightarrow> client \<Rightarrow> packet \<Rightarrow> int \<Rightarrow> 'd \<Rightarrow> 'd" where
  "put_inflight w cd sk cl pk sent =
     wSet w InflightKey (skInflight sk cl pk) (ecMessage cd (stored_inflight sk cl pk sent))"

definition del_inflight_record :: "'d writer \<Rightarrow> scheme \<Rightarrow> client \<Rightarrow> packet \<Rightarrow> 'd \<Rightarrow> 'd" where
  "del_inflight_record w sk cl pk = wDel w InflightKey (skInflight sk cl pk)"

definition put_info :: "'d writer \<Rightarrow> coding \<Rightarrow> sys_info \<Rightarrow> 'd \<Rightarrow> 'd" where
  "put_info w cd sys = wSet w SysInfoKey sysInfoKey (ecInfo cd (stored_info sys))"

text \<open>The events that the storage hooks provide.\<close>

definition storage_events :: "byte list" where
  "storage_events = [OnSessionEstablished_ev, OnDisconnect_ev, OnSubscribed_ev, OnUnsubscribed_ev,
     OnRetainMessage_ev, OnWillSent_ev, OnQosPublish_ev, OnQosComplete_ev, OnQosDropped_ev,
     OnSysInfoTick_ev, OnClientExpired_ev, OnRetainedExpired_ev, StoredClients_ev,
     StoredInflightMessages_ev, StoredRetainedMessages_ev, StoredSubscriptions_ev, StoredSysInfo_ev]"

end
