(* ===== verification/Mqtt_StoreSpec.thy ===== *)
theory Mqtt_StoreSpec
  imports Mqtt_Store
begin

text \<open>
  What a storage hook promises: the calls of the server leave in the database exactly the last
  record of every client, subscription, retained and in-flight message that was not deleted since.
  \<open>contents\<close> is that promise, five maps of records; \<open>layout\<close> is what the keys of a hook must satisfy
  for it, and its lemma \<open>refines\<close> the simulation.
\<close>

section \<open>Calls\<close>

datatype store_call =
    CEstablished client packet
  | CWillSent client packet
  | CDisconnected client "error option" bool
  | CSubscribed client packet "byte list"
  | CUnsubscribed client packet
  | CRetained client packet int
  | CQosPublish client packet int int
  | CQosComplete client packet
  | CQosDropped client packet
  | CTick sys_info
  | CRetainedExpired gostring
  | CClientExpired client

text \<open>A call as the server makes it on a hook, and what the handlers make of it over a writer.\<close>

fun hook_call :: "'s hook \<Rightarrow> store_call \<Rightarrow> 's \<Rightarrow> 's" where
  "hook_call h (CEstablished cl pk) s = hkOnSessionEstablished h s cl pk"
| "hook_call h (CWillSent cl pk) s = hkOnWillSent h s cl pk"
| "hook_call h (CDisconnected cl err expire) s = hkOnDisconnect h s cl err expire"
| "hook_call h (CSubscribed cl pk codes) s = hkOnSubscribed h s cl pk codes"
| "hook_call h (CUnsubscribed cl pk) s = hkOnUnsubscribed h s cl pk"
| "hook_call h (CRetained cl pk r) s = hkOnRetainMessage h s cl pk r"
| "hook_call h (CQosPublish cl pk sent resends) s = hkOnQosPublish h s cl pk sent resends"
| "hook_call h (CQosComplete cl pk) s = hkOnQosComplete h s cl pk"
| "hook_call h (CQosDropped cl pk) s = hkOnQosDropped h s cl pk"
| "hook_call h (CTick sys) s = hkOnSysInfoTick h s sys"
| "hook_call h (CRetainedExpired flt) s = hkOnRetainedExpired h s flt"
| "hook_call h (CClientExpired cl) s = hkOnClientExpired h s cl"

definition hook_calls :: "'s hook \<Rightarrow> store_call list \<Rightarrow> 's \<Rightarrow> 's" where
  "hook_calls h = fold (hook_call h)"

fun store_step :: "'d writer \<Rightarrow> coding \<Rightarrow> scheme \<Rightarrow> store_call \<Rightarrow> 'd \<Rightarrow> 'd" where
  "store_step w cd sk (CEstablished cl pk) = put_client w cd sk cl"
| "store_step w cd sk (CWillSent cl pk) = put_client w cd sk cl"
| "store_step w cd sk (CDisconnected cl err expire) = disconnect_client w cd sk cl expire"
| "store_step w cd sk (CSubscribed cl pk codes) = put_subscriptions w cd sk cl pk codes"
| "store_step w cd sk (CUnsubscribed cl pk) = del_subscriptions w sk cl pk"
| "store_step w cd sk (CRetained cl pk r) = put_retained w cd sk cl pk r"
| "store_step w cd sk (CQosPublish cl pk sent resends) = put_inflight w cd sk cl pk sent"
| "store_step w cd sk (CQosComplete cl pk) = del_inflight_record w sk cl pk"
| "store_step w cd sk (CQosDropped cl pk) = del_inflight_record w sk cl pk"
| "store_step w cd sk (CTick sys) = put_info w cd sys"
| "store_step w cd sk (CRetainedExpired flt) = del_retained w sk flt"
| "store_step w cd sk (CClientExpired cl) = del_client w sk cl"

section \<open>Contents\<close>

record contents =
  caClients :: "gostring \<Rightarrow> st_client option"
  caSubscriptions :: "gostring \<Rightarrow> st_subscription option"
  caRetained :: "gostring \<Rightarrow> st_message option"
  caInflight :: "gostring \<Rightarrow> st_message option"
  caInfo :: "st_system_info option"

definition no_contents :: contents where
  "no_contents = \<lparr>caClients = (\<lambda>_. None), caSubscriptions = (\<lambda>_. None), caRetained = (\<lambda>_. None),
     caInflight = (\<lambda>_. None), caInfo = None\<rparr>"

definition set_caClients :: "gostring \<Rightarrow> st_client option \<Rightarrow> contents \<Rightarrow> contents" where
  "set_caClients k x = caClients_update (\<lambda>m. m(k := x))"

definition set_caSubscriptions :: "gostring \<Rightarrow> st_subscription option \<Rightarrow> contents \<Rightarrow> contents" where
  "set_caSubscriptions k x = caSubscriptions_update (\<lambda>m. m(k := x))"

definition set_caRetained :: "gostring \<Rightarrow> st_message option \<Rightarrow> contents \<Rightarrow> contents" where
  "set_caRetained k x = caRetained_update (\<lambda>m. m(k := x))"

definition set_caInflight :: "gostring \<Rightarrow> st_message option \<Rightarrow> contents \<Rightarrow> contents" where
  "set_caInflight k x = caInflight_update (\<lambda>m. m(k := x))"

lemmas set_ca_defs = set_caClients_def set_caSubscriptions_def set_caRetained_def set_caInflight_def

fun apply_call :: "scheme \<Rightarrow> store_call \<Rightarrow> contents \<Rightarrow> contents" where
  "apply_call sk (CEstablished cl pk) A = set_caClients (skClient sk cl) (Some (stored_client cl)) A"
| "apply_call sk (CWillSent cl pk) A = set_caClients (skClient sk cl) (Some (stored_client cl)) A"
| "apply_call sk (CDisconnected cl err expire) A =
    (if expire \<and> \<not> skTaken sk cl then set_caClients (skClient sk cl) None A
     else if skUpdates sk then set_caClients (skClient sk cl) (Some (stored_client cl)) A else A)"
| "apply_call sk (CSubscribed cl pk codes) A = fold (\<lambda>(sub, code).
     set_caSubscriptions (skSubscription sk cl (sFilter sub)) (Some (stored_subscription sk cl sub code)))
     (zip (pkFilters pk) codes) A"
| "apply_call sk (CUnsubscribed cl pk) A =
     fold (\<lambda>sub. set_caSubscriptions (skSubscription sk cl (sFilter sub)) None) (pkFilters pk) A"
| "apply_call sk (CRetained cl pk r) A = set_caRetained (skRetained sk (pkTopicName pk))
     (if r = - 1 then None else Some (stored_retained sk cl pk)) A"
| "apply_call sk (CQosPublish cl pk sent resends) A =
     set_caInflight (skInflight sk cl pk) (Some (stored_inflight sk cl pk sent)) A"
| "apply_call sk (CQosComplete cl pk) A = set_caInflight (skInflight sk cl pk) None A"
| "apply_call sk (CQosDropped cl pk) A = set_caInflight (skInflight sk cl pk) None A"
| "apply_call sk (CTick sys) A = A\<lparr>caInfo := Some (stored_info sys)\<rparr>"
| "apply_call sk (CRetainedExpired flt) A = set_caRetained (skRetained sk flt) None A"
| "apply_call sk (CClientExpired cl) A = set_caClients (skClient sk cl) None A"

definition contents_of :: "scheme \<Rightarrow> store_call list \<Rightarrow> contents" where
  "contents_of sk cs = fold (apply_call sk) cs no_contents"

section \<open>The simulation\<close>

definition tables :: "gostring set" where
  "tables = {ClientKey, SubscriptionKey, RetainedKey, InflightKey, SysInfoKey}"

lemma tables_distinct [simp]:
  "ClientKey \<noteq> SubscriptionKey" "ClientKey \<noteq> RetainedKey" "ClientKey \<noteq> InflightKey" "ClientKey \<noteq> SysInfoKey"
  "SubscriptionKey \<noteq> ClientKey" "SubscriptionKey \<noteq> RetainedKey" "SubscriptionKey \<noteq> InflightKey" "SubscriptionKey \<noteq> SysInfoKey"
  "RetainedKey \<noteq> ClientKey" "RetainedKey \<noteq> SubscriptionKey" "RetainedKey \<noteq> InflightKey" "RetainedKey \<noteq> SysInfoKey"
  "InflightKey \<noteq> ClientKey" "InflightKey \<noteq> SubscriptionKey" "InflightKey \<noteq> RetainedKey" "InflightKey \<noteq> SysInfoKey"
  "SysInfoKey \<noteq> ClientKey" "SysInfoKey \<noteq> SubscriptionKey" "SysInfoKey \<noteq> RetainedKey" "SysInfoKey \<noteq> InflightKey"
  by (simp_all add: ClientKey_def SubscriptionKey_def RetainedKey_def InflightKey_def SysInfoKey_def)

text \<open>A record of table \<open>t\<close> with key \<open>k\<close> lies at \<open>loc t k\<close> of the database.\<close>

definition writes_at ::
    "'d writer \<Rightarrow> ('d \<Rightarrow> 'l \<Rightarrow> byte list option) \<Rightarrow> (gostring \<Rightarrow> gostring \<Rightarrow> 'l) \<Rightarrow> bool" where
  "writes_at w view loc \<longleftrightarrow>
     (\<forall>t k data d. view (wSet w t k data d) = (view d)(loc t k := Some data))
   \<and> (\<forall>t k d. view (wDel w t k d) = (view d)(loc t k := None))"

definition stored_as ::
    "coding \<Rightarrow> (gostring \<Rightarrow> gostring \<Rightarrow> 'l) \<Rightarrow> (gostring \<Rightarrow> gostring \<Rightarrow> bool) \<Rightarrow> ('l \<Rightarrow> byte list option) \<Rightarrow> contents \<Rightarrow> bool" where
  "stored_as cd loc kind m A \<longleftrightarrow>
     (\<forall>k. kind ClientKey k \<longrightarrow> m (loc ClientKey k) = map_option (ecClient cd) (caClients A k))
   \<and> (\<forall>k. kind SubscriptionKey k \<longrightarrow> m (loc SubscriptionKey k) = map_option (ecSubscription cd) (caSubscriptions A k))
   \<and> (\<forall>k. kind RetainedKey k \<longrightarrow> m (loc RetainedKey k) = map_option (ecMessage cd) (caRetained A k))
   \<and> (\<forall>k. kind InflightKey k \<longrightarrow> m (loc InflightKey k) = map_option (ecMessage cd) (caInflight A k))
   \<and> m (loc SysInfoKey sysInfoKey) = map_option (ecInfo cd) (caInfo A)
   \<and> (\<forall>l. m l \<noteq> None \<longrightarrow> (\<exists>t \<in> tables. \<exists>k. kind t k \<and> l = loc t k))"

locale layout =
  fixes sk :: scheme and loc :: "gostring \<Rightarrow> gostring \<Rightarrow> 'l" and kind :: "gostring \<Rightarrow> gostring \<Rightarrow> bool"
  assumes kinds: "kind ClientKey (skClient sk cl)" "kind SubscriptionKey (skSubscription sk cl flt)"
      "kind RetainedKey (skRetained sk topic)" "kind InflightKey (skInflight sk cl pk)" "kind SysInfoKey sysInfoKey"
    and apart: "t \<in> tables \<Longrightarrow> t' \<in> tables \<Longrightarrow> kind t k \<Longrightarrow> kind t' k' \<Longrightarrow> loc t k = loc t' k' \<longleftrightarrow> t = t' \<and> k = k'"
begin

lemma locations:
  assumes "stored_as cd loc kind m A"
  shows "kind ClientKey k \<Longrightarrow> stored_as cd loc kind (m(loc ClientKey k := map_option (ecClient cd) x)) (set_caClients k x A)"
    and "kind SubscriptionKey k \<Longrightarrow>
      stored_as cd loc kind (m(loc SubscriptionKey k := map_option (ecSubscription cd) y)) (set_caSubscriptions k y A)"
    and "kind RetainedKey k \<Longrightarrow> stored_as cd loc kind (m(loc RetainedKey k := map_option (ecMessage cd) z)) (set_caRetained k z A)"
    and "kind InflightKey k \<Longrightarrow> stored_as cd loc kind (m(loc InflightKey k := map_option (ecMessage cd) z)) (set_caInflight k z A)"
    and "stored_as cd loc kind (m(loc SysInfoKey sysInfoKey := map_option (ecInfo cd) i)) (A\<lparr>caInfo := i\<rparr>)"
proof -
  have t: "ClientKey \<in> tables" "SubscriptionKey \<in> tables" "RetainedKey \<in> tables" "InflightKey \<in> tables"
    "SysInfoKey \<in> tables" by (simp_all add: tables_def)
  show "kind ClientKey k \<Longrightarrow> stored_as cd loc kind (m(loc ClientKey k := map_option (ecClient cd) x)) (set_caClients k x A)"
    "kind SubscriptionKey k \<Longrightarrow>
      stored_as cd loc kind (m(loc SubscriptionKey k := map_option (ecSubscription cd) y)) (set_caSubscriptions k y A)"
    "kind RetainedKey k \<Longrightarrow> stored_as cd loc kind (m(loc RetainedKey k := map_option (ecMessage cd) z)) (set_caRetained k z A)"
    "kind InflightKey k \<Longrightarrow> stored_as cd loc kind (m(loc InflightKey k := map_option (ecMessage cd) z)) (set_caInflight k z A)"
    "stored_as cd loc kind (m(loc SysInfoKey sysInfoKey := map_option (ecInfo cd) i)) (A\<lparr>caInfo := i\<rparr>)"
    using assms kinds(5) t unfolding stored_as_def set_ca_defs by (simp add: apart; blast)+
qed

lemma location_some:
  assumes "stored_as cd loc kind m A"
  shows "kind ClientKey k \<Longrightarrow> stored_as cd loc kind (m(loc ClientKey k := Some (ecClient cd x))) (set_caClients k (Some x) A)"
    and "kind SubscriptionKey k \<Longrightarrow>
      stored_as cd loc kind (m(loc SubscriptionKey k := Some (ecSubscription cd y))) (set_caSubscriptions k (Some y) A)"
    and "kind RetainedKey k \<Longrightarrow> stored_as cd loc kind (m(loc RetainedKey k := Some (ecMessage cd z))) (set_caRetained k (Some z) A)"
    and "kind InflightKey k \<Longrightarrow> stored_as cd loc kind (m(loc InflightKey k := Some (ecMessage cd z))) (set_caInflight k (Some z) A)"
    and "stored_as cd loc kind (m(loc SysInfoKey sysInfoKey := Some (ecInfo cd i))) (A\<lparr>caInfo := Some i\<rparr>)"
  using locations(1) [OF assms, of k "Some x"] locations(2) [OF assms, of k "Some y"]
    locations(3,4) [OF assms, of k "Some z"] locations(5) [OF assms, of "Some i"] by simp_all

lemma location_none:
  assumes "stored_as cd loc kind m A"
  shows "kind ClientKey k \<Longrightarrow> stored_as cd loc kind (m(loc ClientKey k := None)) (set_caClients k None A)"
    and "kind SubscriptionKey k \<Longrightarrow> stored_as cd loc kind (m(loc SubscriptionKey k := None)) (set_caSubscriptions k None A)"
    and "kind RetainedKey k \<Longrightarrow> stored_as cd loc kind (m(loc RetainedKey k := None)) (set_caRetained k None A)"
    and "kind InflightKey k \<Longrightarrow> stored_as cd loc kind (m(loc InflightKey k := None)) (set_caInflight k None A)"
  using locations(1) [OF assms, of k None] locations(2) [OF assms, of k None]
    locations(3,4) [OF assms, of k None] by simp_all

lemmas location_updates = location_some location_none

lemma stored_fold:
  assumes "\<And>x d A. x \<in> set xs \<Longrightarrow> stored_as cd loc kind (view d) A \<Longrightarrow> stored_as cd loc kind (view (f x d)) (g x A)"
    and "stored_as cd loc kind (view d) A"
  shows "stored_as cd loc kind (view (fold f xs d)) (fold g xs A)"
  using assms by (induction xs arbitrary: d A) simp_all

text \<open>The handlers write what the calls promise.\<close>

lemma step_refines:
  assumes w: "writes_at w view loc" and st: "stored_as cd loc kind (view d) A"
  shows "stored_as cd loc kind (view (store_step w cd sk c d)) (apply_call sk c A)"
proof (cases c)
  case (CSubscribed cl pk codes)
  have "stored_as cd loc kind (view (put_subscriptions w cd sk cl pk codes d)) (apply_call sk c A)"
    unfolding put_subscriptions_def CSubscribed apply_call.simps using w
    by (intro stored_fold [where view = view] st) (simp add: writes_at_def location_updates kinds case_prod_beta)
  then show ?thesis by (simp add: CSubscribed)
next
  case (CUnsubscribed cl pk)
  have "stored_as cd loc kind (view (del_subscriptions w sk cl pk d)) (apply_call sk c A)"
    unfolding del_subscriptions_def CUnsubscribed apply_call.simps using w
    by (intro stored_fold [where view = view] st) (simp add: writes_at_def location_updates kinds)
  then show ?thesis by (simp add: CUnsubscribed)
next
  case (CDisconnected cl err expire)
  have "stored_as cd loc kind ((view d)(loc ClientKey (skClient sk cl) := None)) (set_caClients (skClient sk cl) None A)"
    by (simp add: location_updates kinds st)
  moreover have "(m(l := a))(l := b) = m(l := b)" for m and l :: 'l and a b :: "byte list option" by simp
  ultimately show ?thesis using w st
    by (simp add: CDisconnected disconnect_client_def put_client_def writes_at_def Let_def location_updates kinds)
qed (use w st in \<open>simp_all add: writes_at_def put_client_def del_client_def put_retained_def
      del_retained_def put_inflight_def del_inflight_record_def put_info_def location_updates kinds\<close>)

theorem refines:
  assumes "writes_at w view loc" "\<And>l. view d l = None"
  shows "stored_as cd loc kind (view (fold (store_step w cd sk) cs d)) (contents_of sk cs)"
proof -
  have "stored_as cd loc kind (view d) no_contents"
    by (simp add: stored_as_def no_contents_def assms(2))
  then show ?thesis unfolding contents_of_def using step_refines [OF assms(1)] by (intro stored_fold)
qed

text \<open>The keys of the contents are those of the scheme, and there are finitely many.\<close>

definition well_keyed :: "contents \<Rightarrow> bool" where
  "well_keyed A \<longleftrightarrow>
     finite (dom (caClients A)) \<and> (\<forall>k \<in> dom (caClients A). kind ClientKey k)
   \<and> finite (dom (caSubscriptions A)) \<and> (\<forall>k \<in> dom (caSubscriptions A). kind SubscriptionKey k)
   \<and> finite (dom (caRetained A)) \<and> (\<forall>k \<in> dom (caRetained A). kind RetainedKey k)
   \<and> finite (dom (caInflight A)) \<and> (\<forall>k \<in> dom (caInflight A). kind InflightKey k)"

lemma well_keyed_updates:
  assumes "well_keyed A"
  shows "kind ClientKey k \<Longrightarrow> well_keyed (set_caClients k x A)"
    and "kind SubscriptionKey k \<Longrightarrow> well_keyed (set_caSubscriptions k y A)"
    and "kind RetainedKey k \<Longrightarrow> well_keyed (set_caRetained k z A)"
    and "kind InflightKey k \<Longrightarrow> well_keyed (set_caInflight k z A)"
    and "well_keyed (A\<lparr>caInfo := i\<rparr>)"
  using assms by (auto simp: well_keyed_def set_ca_defs)

lemma well_keyed_fold:
  "(\<And>x A. x \<in> set xs \<Longrightarrow> well_keyed A \<Longrightarrow> well_keyed (g x A)) \<Longrightarrow> well_keyed A \<Longrightarrow> well_keyed (fold g xs A)"
  by (induction xs arbitrary: A) simp_all

lemma apply_call_keyed: "well_keyed A \<Longrightarrow> well_keyed (apply_call sk c A)"
  by (cases c) (auto simp: well_keyed_updates kinds intro!: well_keyed_fold split: prod.splits)

lemma contents_keyed: "well_keyed (contents_of sk cs)"
proof -
  have "well_keyed no_contents" by (simp add: well_keyed_def no_contents_def)
  then show ?thesis unfolding contents_of_def using apply_call_keyed by (rule well_keyed_fold [rotated])
qed

end

text \<open>The records of a map of the contents, by key; and that each is decoded to itself again.\<close>

definition records :: "(gostring \<Rightarrow> 'v option) \<Rightarrow> 'v list" where
  "records m = map (the \<circ> m) (sorted_list_of_set (dom m))"

definition decoded :: "(byte list \<Rightarrow> 'v \<times> error option) \<Rightarrow> ('v \<Rightarrow> byte list) \<Rightarrow> 'v set \<Rightarrow> bool" where
  "decoded decode enc X \<longleftrightarrow> (\<forall>x \<in> X. decode (enc x) = (x, None))"

definition decodes :: "coding \<Rightarrow> contents \<Rightarrow> bool" where
  "decodes cd A \<longleftrightarrow>
     decoded (read_client cd) (ecClient cd) (ran (caClients A))
   \<and> decoded (read_subscription cd) (ecSubscription cd) (ran (caSubscriptions A))
   \<and> decoded (read_message cd) (ecMessage cd) (ran (caRetained A))
   \<and> decoded (read_message cd) (ecMessage cd) (ran (caInflight A))
   \<and> decoded (read_info cd) (ecInfo cd) (set_option (caInfo A))"

lemma set_records: "finite (dom m) \<Longrightarrow> set (records m) = ran m"
  by (force simp: records_def ran_def)

end
