(* ===== verification/Mqtt_Database.thy ===== *)
theory Mqtt_Database
  imports Mqtt_StoreSpec
begin

text \<open>
  The databases behind the storage hooks that keep their records in files (badger, bolt, pebble):
  ordered stores of keys and values, third-party code, here the parameter \<open>database\<close>.  What is
  documented of them is \<open>lawful_db\<close>: a write or a deletion changes its key only, a lookup and an
  iterator show what was written, an iterator in the order of the keys.
\<close>

section \<open>The parameter\<close>

record 'd database =
  dbSet :: "gostring \<Rightarrow> byte list \<Rightarrow> 'd \<Rightarrow> error option \<times> 'd"
  dbDelete :: "gostring \<Rightarrow> 'd \<Rightarrow> error option \<times> 'd"
  dbGet :: "gostring \<Rightarrow> 'd \<Rightarrow> error + byte list option" \<comment> \<open>None: the key is not there\<close>
  dbCopy :: "gostring \<Rightarrow> 'd \<Rightarrow> error option" \<comment> \<open>why the value at the key cannot be copied\<close>
  dbFrom :: "gostring \<Rightarrow> 'd \<Rightarrow> (gostring \<times> byte list) list" \<comment> \<open>an iterator from the key on\<close>
  dbClose :: "'d \<Rightarrow> error option \<times> 'd"
  dbKeyNotFound :: error

type_synonym 'd view = "'d \<Rightarrow> gostring \<Rightarrow> byte list option"

definition keys_from :: "(gostring \<Rightarrow> byte list option) \<Rightarrow> gostring \<Rightarrow> gostring list" where
  "keys_from m p = sorted_list_of_set {k \<in> dom m. p \<le> k}"

definition lawful_db :: "'d database \<Rightarrow> 'd view \<Rightarrow> bool" where
  "lawful_db db view \<longleftrightarrow>
     (\<forall>k v d. view (snd (dbSet db k v d)) = (view d)(k := Some v))
   \<and> (\<forall>k d. view (snd (dbDelete db k d)) = (view d)(k := None))
   \<and> (\<forall>k d. dbGet db k d = Inr (view d k) \<and> dbCopy db k d = None)
   \<and> (\<forall>d. finite (dom (view d)))
   \<and> (\<forall>p d. dbFrom db p d = map (\<lambda>k. (k, the (view d k))) (keys_from (view d) p))"

lemma lawful_writes:
  assumes "lawful_db db view"
  shows "view (snd (dbSet db k v d)) = (view d)(k := Some v)" "view (snd (dbDelete db k d)) = (view d)(k := None)"
  using assms by (simp_all add: lawful_db_def)

section \<open>Keys in order\<close>

lemma HasPrefix_ge: "HasPrefix k p \<Longrightarrow> p \<le> (k :: gostring)"
proof (induction p arbitrary: k)
  case (Cons c p)
  then show ?case by (cases k) auto
qed simp

lemma HasPrefix_between: "p \<le> x \<Longrightarrow> x \<le> y \<Longrightarrow> HasPrefix y p \<Longrightarrow> HasPrefix (x :: gostring) p"
proof (induction p arbitrary: x y)
  case (Cons c p)
  then show ?case by (cases x; cases y) auto
qed simp

lemma takeWhile_sorted:
  "sorted xs \<Longrightarrow> \<forall>x \<in> set xs. \<forall>y \<in> set xs. x \<le> y \<longrightarrow> P y \<longrightarrow> P x \<Longrightarrow> takeWhile P xs = filter P xs"
proof (induction xs)
  case (Cons a xs)
  have "\<not> P a \<Longrightarrow> filter P xs = []" using Cons.prems by (auto simp: filter_empty_conv)
  moreover have "takeWhile P xs = filter P xs"
    using Cons.prems by (intro Cons.IH) (simp, meson list.set_intros(2))
  ultimately show ?case by simp
qed simp

lemma filter_sorted_set:
  assumes "finite A"
  shows "filter P (sorted_list_of_set A) = sorted_list_of_set {x \<in> A. P x}"
proof (rule sorted_distinct_set_unique)
  show "sorted (filter P (sorted_list_of_set A))" by (simp add: sorted_wrt_filter)
  show "distinct (filter P (sorted_list_of_set A))" by simp
  have fin: "finite {x \<in> A. P x}" using assms by simp
  show "sorted (sorted_list_of_set {x \<in> A. P x})" "distinct (sorted_list_of_set {x \<in> A. P x})" by simp_all
  show "set (filter P (sorted_list_of_set A)) = set (sorted_list_of_set {x \<in> A. P x})"
    using assms fin by auto
qed

definition keys_with :: "(gostring \<Rightarrow> 'v option) \<Rightarrow> gostring \<Rightarrow> gostring list" where
  "keys_with m p = sorted_list_of_set {k \<in> dom m. HasPrefix k p}"

lemma set_keys_with: "finite (dom m) \<Longrightarrow> set (keys_with m p) = {k \<in> dom m. HasPrefix k p}"
  by (simp add: keys_with_def)

lemma set_keys_from: "finite (dom m) \<Longrightarrow> set (keys_from m p) = {k \<in> dom m. p \<le> k}"
  by (simp add: keys_from_def)

lemma keys_with_cong:
  assumes "\<And>k. HasPrefix k p \<Longrightarrow> (m k = None) = (m' k = None)"
  shows "keys_with m p = keys_with m' p"
proof -
  have "{k \<in> dom m. HasPrefix k p} = {k \<in> dom m'. HasPrefix k p}" 
    by (rule Collect_cong) (metis assms domIff)
  then show ?thesis by (simp add: keys_with_def)
qed

text \<open>The keys with a prefix are the first ones of an iterator that starts at the prefix.\<close>

lemma keys_prefix:
  assumes "finite (dom m)"
  shows "takeWhile (\<lambda>k. HasPrefix k p) (keys_from m p) = keys_with m p"
proof -
  have "takeWhile (\<lambda>k. HasPrefix k p) (keys_from m p) = filter (\<lambda>k. HasPrefix k p) (keys_from m p)"
  proof (rule takeWhile_sorted)
    show "sorted (keys_from m p)" by (simp add: keys_from_def)
    show "\<forall>x \<in> set (keys_from m p). \<forall>y \<in> set (keys_from m p). x \<le> y \<longrightarrow> HasPrefix y p \<longrightarrow> HasPrefix x p"
      using HasPrefix_between [of p] assms by (auto simp: set_keys_from)
  qed
  also have "\<dots> = keys_with m p"
    using assms HasPrefix_ge [of _ p]
    by (auto simp: keys_from_def keys_with_def filter_sorted_set intro!: arg_cong [where f = sorted_list_of_set])
  finally show ?thesis .
qed

section \<open>The keys of a file\<close>

text \<open>All records share one space of keys; the prefix of a key tells its table.\<close>

definition in_file :: "gostring \<Rightarrow> gostring \<Rightarrow> gostring" where "in_file t k = k"

lemma table_of_key: "t \<in> tables \<Longrightarrow> t' \<in> tables \<Longrightarrow> HasPrefix k t \<Longrightarrow> HasPrefix k t' \<Longrightarrow> t = t'"
  by (cases k; cases "tl k")
    (auto simp: tables_def ClientKey_def SubscriptionKey_def RetainedKey_def InflightKey_def SysInfoKey_def)

lemma file_keys:
  "HasPrefix (clientKey cl) ClientKey" "HasPrefix (subscriptionKey cl flt) SubscriptionKey"
  "HasPrefix (retainedKey topic) RetainedKey" "HasPrefix (inflightKey cl pk) InflightKey"
  "HasPrefix sysInfoKey SysInfoKey"
  using HasPrefix_append [of SysInfoKey "[]"]
  by (simp_all add: clientKey_def subscriptionKey_def retainedKey_def inflightKey_def sysInfoKey_def)

lemma file_layout:
  assumes "skClient sk = clientKey" "skSubscription sk = subscriptionKey" "skRetained sk = retainedKey"
    "skInflight sk = inflightKey"
  shows "layout sk in_file (\<lambda>t k. HasPrefix k t)"
  by unfold_locales (auto simp: assms file_keys in_file_def dest: table_of_key)

lemma keys_with_records:
  assumes "\<forall>k \<in> dom m. HasPrefix k p"
  shows "map (the \<circ> m) (keys_with m p) = records m"
proof -
  have "{k \<in> dom m. HasPrefix k p} = dom m" using assms by auto
  then show ?thesis by (simp add: keys_with_def records_def)
qed

text \<open>What a database holds of one table, and that it holds the five tables of the contents.\<close>

definition table_holds ::
    "gostring \<Rightarrow> ('v \<Rightarrow> byte list) \<Rightarrow> (gostring \<Rightarrow> byte list option) \<Rightarrow> (gostring \<Rightarrow> 'v option) \<Rightarrow> bool" where
  "table_holds p enc v m \<longleftrightarrow> finite (dom v)
     \<and> (\<forall>k. HasPrefix k p \<longrightarrow> v k = map_option enc (m k)) \<and> (\<forall>k \<in> dom m. HasPrefix k p)"

definition holds_contents :: "coding \<Rightarrow> (gostring \<Rightarrow> byte list option) \<Rightarrow> contents \<Rightarrow> bool" where
  "holds_contents cd v A \<longleftrightarrow>
     table_holds ClientKey (ecClient cd) v (caClients A)
   \<and> table_holds SubscriptionKey (ecSubscription cd) v (caSubscriptions A)
   \<and> table_holds RetainedKey (ecMessage cd) v (caRetained A)
   \<and> table_holds InflightKey (ecMessage cd) v (caInflight A)
   \<and> v SysInfoKey = map_option (ecInfo cd) (caInfo A)
   \<and> (\<forall>k. v k \<noteq> None \<longrightarrow> (\<exists>t \<in> tables. HasPrefix k t))"

lemma file_holds:
  assumes lay: "layout sk in_file (\<lambda>t k. HasPrefix k t)" and w: "writes_at w view in_file"
    and "\<And>k. view d k = None" "finite (dom (view (fold (store_step w cd sk) cs d)))"
  shows "holds_contents cd (view (fold (store_step w cd sk) cs d)) (contents_of sk cs)"
  using layout.refines [OF lay w, of d cd cs] layout.contents_keyed [OF lay, of cs] assms(3,4)
  by (simp add: holds_contents_def table_holds_def stored_as_def layout.well_keyed_def [OF lay] in_file_def
      sysInfoKey_def)

text \<open>No key after the first one with a table's prefix is shorter than the prefix.\<close>

definition long_keys :: "gostring \<Rightarrow> (gostring \<Rightarrow> byte list option) \<Rightarrow> bool" where
  "long_keys p v \<longleftrightarrow> (\<forall>k. v k \<noteq> None \<and> p \<le> k \<longrightarrow> length p \<le> length k)"

lemma table_keys_long: "p \<in> tables \<Longrightarrow> t \<in> tables \<Longrightarrow> HasPrefix k t \<Longrightarrow> p \<le> k \<Longrightarrow> length p \<le> length k"
  by (cases k; cases "tl k"; cases "tl (tl k)")
    (auto simp: tables_def ClientKey_def SubscriptionKey_def RetainedKey_def InflightKey_def SysInfoKey_def)

lemma holds_long_keys: "holds_contents cd v A \<Longrightarrow> p \<in> tables \<Longrightarrow> long_keys p v"
  using table_keys_long by (auto simp: holds_contents_def long_keys_def)

section \<open>Reading records\<close>

text \<open>
  A hook reads all records under a prefix: \<open>scan\<close>.  Its contract is what the lookups say: one record
  for every key with the prefix, in the order of the keys, as long as every value can be decoded
  and the hook can stand the keys (\<open>readable\<close>).
\<close>

locale record_file =
  go_store store_ok fst snd "\<lambda>k. k" get put del
  for store_ok :: "'s \<Rightarrow> bool" and get :: "'s \<Rightarrow> gostring \<Rightarrow> byte list option"
    and put :: "gostring \<times> byte list \<Rightarrow> 's \<Rightarrow> 's" and del :: "gostring \<Rightarrow> 's \<Rightarrow> 's" +
  fixes readable :: "gostring \<Rightarrow> 's \<Rightarrow> bool"
    and scan :: "gostring \<Rightarrow> (byte list \<Rightarrow> 'a \<times> error option) \<Rightarrow> 's \<Rightarrow> error + 'a list"
  assumes scan_values: "store_ok s \<Longrightarrow> readable p s \<Longrightarrow>
      (\<And>k v. get s k = Some v \<Longrightarrow> HasPrefix k p \<Longrightarrow> snd (decode v) = None) \<Longrightarrow>
      scan p decode s = Inr (map (\<lambda>k. fst (decode (the (get s k)))) (keys_with (get s) p))"
begin

text \<open>So a scan returns the records whose coded forms are stored.\<close>

lemma scan_records:
  assumes "store_ok s" "readable p s" "\<And>k. HasPrefix k p \<Longrightarrow> get s k = map_option enc (m k)"
    and "\<And>k x. HasPrefix k p \<Longrightarrow> m k = Some x \<Longrightarrow> decode (enc x) = (x, None)"
    and "finite (dom (get s))"
  shows "scan p decode s = Inr (map (the \<circ> m) (keys_with m p))"
proof -
  have keys: "keys_with (get s) p = keys_with m p" by (rule keys_with_cong) (simp add: assms(3))
  have vals: "fst (decode (the (get s k))) = the (m k)" if "k \<in> set (keys_with (get s) p)" for k
    using that assms by (auto simp: set_keys_with)
  have "scan p decode s = Inr (map (\<lambda>k. fst (decode (the (get s k)))) (keys_with (get s) p))"
    using assms(3,4) by (intro scan_values [OF assms(1,2)]) fastforce
  also have "map (\<lambda>k. fst (decode (the (get s k)))) (keys_with (get s) p) = map (the \<circ> m) (keys_with m p)"
    using vals by (simp add: keys)
  finally show ?thesis .
qed

lemma scan_table:
  assumes "store_ok s" "readable p s" "table_holds p enc (get s) m" "decoded decode enc (ran m)"
  shows "scan p decode s = Inr (records m)"
  using scan_records [OF assms(1,2), of enc m decode] assms(3,4) keys_with_records [of m p]
  by (simp add: table_holds_def decoded_def ran_def) blast

end

section \<open>A database in memory\<close>

text \<open>A log of writes that is never compacted: the database of the examples.\<close>

type_synonym log = "(gostring \<times> byte list option) list"

definition log_view :: "log view" where
  "log_view d k = (case m_get d k of Some v \<Rightarrow> v | None \<Rightarrow> None)"

definition log_keys :: "log \<Rightarrow> gostring list" where
  "log_keys d = sort (remdups (filter (\<lambda>k. log_view d k \<noteq> None) (map fst d)))"

definition mem_db :: "log database" where
  "mem_db = \<lparr>dbSet = (\<lambda>k v d. (None, (k, Some v) # d)), dbDelete = (\<lambda>k d. (None, (k, None) # d)),
     dbGet = (\<lambda>k d. Inr (log_view d k)), dbCopy = (\<lambda>k d. None),
     dbFrom = (\<lambda>p d. map (\<lambda>k. (k, the (log_view d k))) (filter (\<lambda>k. p \<le> k) (log_keys d))),
     dbClose = (\<lambda>d. (None, d)), dbKeyNotFound = ENew (lit ''key not found'')\<rparr>"

lemma dom_log_view: "dom (log_view d) = set (log_keys d)"
proof -
  have "k \<in> fst ` set d" if "log_view d k \<noteq> None" for k
    using that by (cases "m_get d k") (auto simp: log_view_def dest!: map_of_SomeD intro: rev_image_eqI)
  then show ?thesis by (auto simp: log_keys_def dom_def)
qed

lemma log_keys_from: "filter (\<lambda>k. p \<le> k) (log_keys d) = keys_from (log_view d) p"
  unfolding keys_from_def dom_log_view
  by (rule sorted_distinct_set_unique) (simp_all add: log_keys_def sorted_wrt_filter)

lemma mem_db_lawful: "lawful_db mem_db log_view"
  by (auto simp: lawful_db_def mem_db_def log_keys_from dom_log_view log_view_def fun_eq_iff)

end
