(* ===== verification/Mqtt_Badger.thy ===== *)
theory Mqtt_Badger
  imports Mqtt_Database Complex_Main
begin

text \<open>The storage hook over badger, \<open>hooks/storage/badger/badger.go\<close>.  Its state is the database, None for nil.\<close>

section \<open>The database\<close>

definition badger_setKv :: "'d database \<Rightarrow> gostring \<Rightarrow> byte list \<Rightarrow> 'd \<Rightarrow> error option \<times> 'd" where
  "badger_setKv db k data d = dbSet db k data d"

definition badger_delKv :: "'d database \<Rightarrow> gostring \<Rightarrow> 'd \<Rightarrow> error option \<times> 'd" where
  "badger_delKv db k d = dbDelete db k d"

definition badger_getKv ::
    "'d database \<Rightarrow> (byte list \<Rightarrow> 'a \<times> error option) \<Rightarrow> 'a \<Rightarrow> gostring \<Rightarrow> 'd \<Rightarrow> 'a \<times> error option" where
  "badger_getKv db decode v k d =
    (case dbGet db k d of
       Inl err \<Rightarrow> (v, Some err)
     | Inr None \<Rightarrow> (v, Some (dbKeyNotFound db))
     | Inr (Some data) \<Rightarrow> (case dbCopy db k d of Some err \<Rightarrow> (v, Some err) | None \<Rightarrow> decode data))"

text \<open>The loop of \<open>iterKv\<close> with the visitor that appends what it decodes.\<close>

fun badger_loop ::
    "(gostring \<Rightarrow> error option) \<Rightarrow> gostring \<Rightarrow> (byte list \<Rightarrow> 'a \<times> error option)
      \<Rightarrow> (gostring \<times> byte list) list \<Rightarrow> 'a list \<times> error option" where
  "badger_loop copied p decode [] = ([], None)"
| "badger_loop copied p decode ((k, data) # items) =
    (if \<not> HasPrefix k p then ([], None)
     else case copied k of
       Some err \<Rightarrow> ([], Some err)
     | None \<Rightarrow>
         (case decode data of
            (obj, Some err) \<Rightarrow> ([], Some err)
          | (obj, None) \<Rightarrow> (case badger_loop copied p decode items of (v, err) \<Rightarrow> (obj # v, err))))"

definition badger_iterKv ::
    "'d database \<Rightarrow> gostring \<Rightarrow> (byte list \<Rightarrow> 'a \<times> error option) \<Rightarrow> 'd \<Rightarrow> 'a list \<times> error option" where
  "badger_iterKv db p decode d = badger_loop (\<lambda>k. dbCopy db k d) p decode (dbFrom db p d)"

definition badger_writer :: "'d database \<Rightarrow> 'd writer" where
  "badger_writer db = \<lparr>wSet = (\<lambda>t k data d. snd (badger_setKv db k data d)),
     wDel = (\<lambda>t k d. snd (badger_delKv db k d))\<rparr>"

definition badger_scheme :: scheme where
  "badger_scheme = \<lparr>skClient = clientKey, skSubscription = subscriptionKey, skRetained = retainedKey,
     skInflight = inflightKey, skIdentified = True, skUpdates = True, skTaken = taken_Is\<rparr>"

section \<open>Starting and stopping\<close>

record badger_options =
  baPath :: gostring
  baGcInterval :: int
  baGcDiscardRatio :: rat

definition badger_defaults :: "badger_options \<Rightarrow> badger_options" where
  "badger_defaults c =
    (let c = (if length (baPath c) = 0 then c\<lparr>baPath := lit ''.badger''\<rparr> else c);
         c = (if baGcInterval c = 0 then c\<lparr>baGcInterval := 5 * 60\<rparr> else c)
     in if baGcDiscardRatio c \<le> 0 \<or> baGcDiscardRatio c \<ge> 1 then c\<lparr>baGcDiscardRatio := 1 / 2\<rparr> else c)"

text \<open>\<open>open_db\<close> is \<open>badgerdb.Open\<close>; a ticker with a negative interval panics.\<close>

definition badger_Init ::
    "(badger_options \<Rightarrow> error + 'd) \<Rightarrow> badger_options config_any \<Rightarrow> 'd option \<Rightarrow> 'd option \<times> error option" where
  "badger_Init open_db config s =
    (case config of
       ConfigOther \<Rightarrow> (s, Some ErrInvalidConfigType)
     | _ \<Rightarrow>
         let c = badger_defaults (case config of ConfigOf c \<Rightarrow> c
                   | _ \<Rightarrow> \<lparr>baPath = [], baGcInterval = 0, baGcDiscardRatio = 0\<rparr>)
         in case open_db c of
              Inl err \<Rightarrow> (None, Some err)
            | Inr d \<Rightarrow> (Some d, if baGcInterval c < 0 then Some EPanic else None))"

definition badger_Stop :: "'d database \<Rightarrow> 'd option \<Rightarrow> 'd option \<times> error option" where
  "badger_Stop db s =
    (case s of None \<Rightarrow> (None, Some EPanic) | Some d \<Rightarrow> (case dbClose db d of (err, d) \<Rightarrow> (Some d, err)))"

section \<open>Handlers\<close>

definition badger_updateClient :: "'d database \<Rightarrow> coding \<Rightarrow> client \<Rightarrow> 'd option \<Rightarrow> 'd option" where
  "badger_updateClient db cd cl = if_open (put_client (badger_writer db) cd badger_scheme cl)"

definition badger_OnSessionEstablished :: "'d database \<Rightarrow> coding \<Rightarrow> 'd option notify" where
  "badger_OnSessionEstablished db cd s cl pk = badger_updateClient db cd cl s"

definition badger_OnWillSent :: "'d database \<Rightarrow> coding \<Rightarrow> 'd option notify" where
  "badger_OnWillSent db cd s cl pk = badger_updateClient db cd cl s"

definition badger_OnDisconnect ::
    "'d database \<Rightarrow> coding \<Rightarrow> 'd option \<Rightarrow> client \<Rightarrow> error option \<Rightarrow> bool \<Rightarrow> 'd option" where
  "badger_OnDisconnect db cd s cl err expire = if_open (disconnect_client (badger_writer db) cd badger_scheme cl expire) s"

definition badger_OnSubscribed :: "'d database \<Rightarrow> coding \<Rightarrow> 'd option \<Rightarrow> client \<Rightarrow> packet \<Rightarrow> byte list \<Rightarrow> 'd option" where
  "badger_OnSubscribed db cd s cl pk reasonCodes =
     if_open (put_subscriptions (badger_writer db) cd badger_scheme cl pk reasonCodes) s"

definition badger_OnUnsubscribed :: "'d database \<Rightarrow> 'd option notify" where
  "badger_OnUnsubscribed db s cl pk = if_open (del_subscriptions (badger_writer db) badger_scheme cl pk) s"

definition badger_OnRetainMessage :: "'d database \<Rightarrow> coding \<Rightarrow> 'd option \<Rightarrow> client \<Rightarrow> packet \<Rightarrow> int \<Rightarrow> 'd option" where
  "badger_OnRetainMessage db cd s cl pk r = if_open (put_retained (badger_writer db) cd badger_scheme cl pk r) s"

definition badger_OnQosPublish ::
    "'d database \<Rightarrow> coding \<Rightarrow> 'd option \<Rightarrow> client \<Rightarrow> packet \<Rightarrow> int \<Rightarrow> int \<Rightarrow> 'd option" where
  "badger_OnQosPublish db cd s cl pk sent resends = if_open (put_inflight (badger_writer db) cd badger_scheme cl pk sent) s"

definition badger_OnQosComplete :: "'d database \<Rightarrow> 'd option notify" where
  "badger_OnQosComplete db s cl pk = if_open (del_inflight_record (badger_writer db) badger_scheme cl pk) s"

definition badger_OnQosDropped :: "'d database \<Rightarrow> 'd option notify" where
  "badger_OnQosDropped db s cl pk = badger_OnQosComplete db s cl pk"

definition badger_OnSysInfoTick :: "'d database \<Rightarrow> coding \<Rightarrow> 'd option \<Rightarrow> sys_info \<Rightarrow> 'd option" where
  "badger_OnSysInfoTick db cd s sys = if_open (put_info (badger_writer db) cd (Info_Clone sys)) s"

definition badger_OnRetainedExpired :: "'d database \<Rightarrow> 'd option \<Rightarrow> gostring \<Rightarrow> 'd option" where
  "badger_OnRetainedExpired db s flt = if_open (del_retained (badger_writer db) badger_scheme flt) s"

definition badger_OnClientExpired :: "'d database \<Rightarrow> 'd option \<Rightarrow> client \<Rightarrow> 'd option" where
  "badger_OnClientExpired db s cl = if_open (del_client (badger_writer db) badger_scheme cl) s"

section \<open>Reading\<close>

definition badger_read ::
    "'d database \<Rightarrow> gostring \<Rightarrow> (byte list \<Rightarrow> 'a \<times> error option) \<Rightarrow> 'd option \<Rightarrow> error + 'a list" where
  "badger_read db p decode s =
    (case s of
       None \<Rightarrow> Inr []
     | Some d \<Rightarrow> (case badger_iterKv db p decode d of (v, None) \<Rightarrow> Inr v | (v, Some err) \<Rightarrow> Inl err))"

definition badger_StoredClients :: "'d database \<Rightarrow> coding \<Rightarrow> 'd option \<Rightarrow> error + st_client list" where
  "badger_StoredClients db cd = badger_read db ClientKey (read_client cd)"

definition badger_StoredSubscriptions :: "'d database \<Rightarrow> coding \<Rightarrow> 'd option \<Rightarrow> error + st_subscription list" where
  "badger_StoredSubscriptions db cd = badger_read db SubscriptionKey (read_subscription cd)"

definition badger_StoredRetainedMessages :: "'d database \<Rightarrow> coding \<Rightarrow> 'd option \<Rightarrow> error + st_message list" where
  "badger_StoredRetainedMessages db cd = badger_read db RetainedKey (read_message cd)"

definition badger_StoredInflightMessages :: "'d database \<Rightarrow> coding \<Rightarrow> 'd option \<Rightarrow> error + st_message list" where
  "badger_StoredInflightMessages db cd = badger_read db InflightKey (read_message cd)"

definition badger_StoredSysInfo :: "'d database \<Rightarrow> coding \<Rightarrow> 'd option \<Rightarrow> error + st_system_info" where
  "badger_StoredSysInfo db cd s =
    (case s of
       None \<Rightarrow> Inr no_st_system_info
     | Some d \<Rightarrow>
         (case badger_getKv db (read_info cd) no_st_system_info SysInfoKey d of
            (v, None) \<Rightarrow> Inr v
          | (v, Some err) \<Rightarrow> if err \<noteq> dbKeyNotFound db then Inl err else Inr v))"

definition badger_hook :: "'d database \<Rightarrow> coding \<Rightarrow> 'd option hook" where
  "badger_hook db cd = HookBase\<lparr>
     hkID := lit ''badger-db'', hkProvides := (\<lambda>b. b \<in> set storage_events),
     hkOnSessionEstablished := badger_OnSessionEstablished db cd, hkOnWillSent := badger_OnWillSent db cd,
     hkOnDisconnect := badger_OnDisconnect db cd, hkOnSubscribed := badger_OnSubscribed db cd,
     hkOnUnsubscribed := badger_OnUnsubscribed db, hkOnRetainMessage := badger_OnRetainMessage db cd,
     hkOnQosPublish := badger_OnQosPublish db cd, hkOnQosComplete := badger_OnQosComplete db,
     hkOnQosDropped := badger_OnQosDropped db, hkOnSysInfoTick := badger_OnSysInfoTick db cd,
     hkOnRetainedExpired := badger_OnRetainedExpired db, hkOnClientExpired := badger_OnClientExpired db,
     hkStop := badger_Stop db,
     hkStoredClients := badger_StoredClients db cd, hkStoredSubscriptions := badger_StoredSubscriptions db cd,
     hkStoredRetainedMessages := badger_StoredRetainedMessages db cd,
     hkStoredInflightMessages := badger_StoredInflightMessages db cd,
     hkStoredSysInfo := badger_StoredSysInfo db cd\<rparr>"

section \<open>Laws\<close>

lemma badger_writes: "lawful_db db view \<Longrightarrow> writes_at (badger_writer db) view in_file"
  by (simp add: lawful_db_def writes_at_def badger_writer_def badger_setKv_def badger_delKv_def in_file_def)

interpretation badger_layout: layout badger_scheme in_file "\<lambda>t k. HasPrefix k t"
  by (rule file_layout) (simp_all add: badger_scheme_def)

lemma badger_step: "hook_call (badger_hook db cd) c (Some d) = Some (store_step (badger_writer db) cd badger_scheme c d)"
  by (cases c) (simp_all add: badger_hook_def badger_OnSessionEstablished_def badger_OnWillSent_def badger_updateClient_def
      badger_OnDisconnect_def badger_OnSubscribed_def badger_OnUnsubscribed_def badger_OnRetainMessage_def
      badger_OnQosPublish_def badger_OnQosComplete_def badger_OnQosDropped_def badger_OnSysInfoTick_def Info_Clone_same
      badger_OnRetainedExpired_def badger_OnClientExpired_def if_open_def)

lemma badger_run: "hook_calls (badger_hook db cd) cs (Some d) = Some (fold (store_step (badger_writer db) cd badger_scheme) cs d)"
  unfolding hook_calls_def by (induction cs arbitrary: d) (simp_all add: badger_step)

lemma badger_loop_values:
  assumes "\<And>k. copied k = None" "\<And>k. k \<in> set (takeWhile (\<lambda>k. HasPrefix k p) ks) \<Longrightarrow> snd (decode (f k)) = None"
  shows "badger_loop copied p decode (map (\<lambda>k. (k, f k)) ks)
    = (map (\<lambda>k. fst (decode (f k))) (takeWhile (\<lambda>k. HasPrefix k p) ks), None)"
  using assms(2)
proof (induction ks)
  case (Cons k ks)
  then show ?case using Cons.prems [of k] by (cases "decode (f k)") (auto simp: assms(1))
qed simp

lemma badger_read_values:
  assumes law: "lawful_db db view"
    and dec: "\<And>k v. view d k = Some v \<Longrightarrow> HasPrefix k p \<Longrightarrow> snd (decode v) = None"
  shows "badger_read db p decode (Some d) = Inr (map (\<lambda>k. fst (decode (the (view d k)))) (keys_with (view d) p))"
proof -
  have keys: "takeWhile (\<lambda>k. HasPrefix k p) (keys_from (view d) p) = keys_with (view d) p"
    and fin: "finite (dom (view d))"
    using law keys_prefix by (auto simp: lawful_db_def)
  have "badger_iterKv db p decode d = (map (\<lambda>k. fst (decode (the (view d k)))) (keys_with (view d) p), None)"
    using law dec badger_loop_values [of "\<lambda>k. dbCopy db k d" p "keys_from (view d) p" decode "\<lambda>k. the (view d k)"] fin
    by (force simp: badger_iterKv_def lawful_db_def keys set_keys_with)
  then show ?thesis by (simp add: badger_read_def)
qed

interpretation badger_file: record_file "\<lambda>(db, view, d). lawful_db db view" "\<lambda>(db, view, d). view d"
    "\<lambda>(k, data) (db, view, d). (db, view, snd (badger_setKv db k data d))"
    "\<lambda>k (db, view, d). (db, view, snd (badger_delKv db k d))"
    "\<lambda>p s. True" "\<lambda>p decode (db, view, d). badger_read db p decode (Some d)"
  by unfold_locales
    (auto simp: lawful_writes badger_setKv_def badger_delKv_def intro!: badger_read_values)

theorem badger_stores:
  fixes db :: "'d database" and cd :: coding and cs :: "store_call list" and d :: 'd and view :: "'d view"
  defines "A \<equiv> contents_of badger_scheme cs" and "s \<equiv> hook_calls (badger_hook db cd) cs (Some d)"
  assumes law: "lawful_db db view" and empty: "\<And>k. view d k = None"
  shows "decoded (read_client cd) (ecClient cd) (ran (caClients A)) \<Longrightarrow>
      badger_StoredClients db cd s = Inr (records (caClients A))"
    and "decoded (read_subscription cd) (ecSubscription cd) (ran (caSubscriptions A)) \<Longrightarrow>
      badger_StoredSubscriptions db cd s = Inr (records (caSubscriptions A))"
    and "decoded (read_message cd) (ecMessage cd) (ran (caRetained A)) \<Longrightarrow>
      badger_StoredRetainedMessages db cd s = Inr (records (caRetained A))"
    and "decoded (read_message cd) (ecMessage cd) (ran (caInflight A)) \<Longrightarrow>
      badger_StoredInflightMessages db cd s = Inr (records (caInflight A))"
    and "decoded (read_info cd) (ecInfo cd) (set_option (caInfo A)) \<Longrightarrow>
      badger_StoredSysInfo db cd s = Inr (case caInfo A of Some i \<Rightarrow> i | None \<Rightarrow> no_st_system_info)"
proof -
  define e where "e = fold (store_step (badger_writer db) cd badger_scheme) cs d"
  have s: "s = Some e" by (simp add: s_def badger_run e_def)
  have holds: "holds_contents cd (view e) A"
    unfolding A_def e_def using law
    by (intro file_holds badger_writes badger_layout.layout_axioms) (auto simp: A_def lawful_db_def empty)
  have get: "dbGet db k e = Inr (view e k)" "dbCopy db k e = None" for k
    using law by (auto simp: lawful_db_def)
  note reads = badger_file.scan_table [of "(db, view, e)", simplified, OF law]
  show "decoded (read_client cd) (ecClient cd) (ran (caClients A)) \<Longrightarrow>
      badger_StoredClients db cd s = Inr (records (caClients A))"
    "decoded (read_subscription cd) (ecSubscription cd) (ran (caSubscriptions A)) \<Longrightarrow>
      badger_StoredSubscriptions db cd s = Inr (records (caSubscriptions A))"
    "decoded (read_message cd) (ecMessage cd) (ran (caRetained A)) \<Longrightarrow>
      badger_StoredRetainedMessages db cd s = Inr (records (caRetained A))"
    "decoded (read_message cd) (ecMessage cd) (ran (caInflight A)) \<Longrightarrow>
      badger_StoredInflightMessages db cd s = Inr (records (caInflight A))"
    using holds by (auto simp: holds_contents_def s badger_StoredClients_def badger_StoredSubscriptions_def
        badger_StoredRetainedMessages_def badger_StoredInflightMessages_def intro: reads)
  show "decoded (read_info cd) (ecInfo cd) (set_option (caInfo A)) \<Longrightarrow>
      badger_StoredSysInfo db cd s = Inr (case caInfo A of Some i \<Rightarrow> i | None \<Rightarrow> no_st_system_info)"
    using holds by (cases "caInfo A")
      (simp_all add: badger_StoredSysInfo_def s badger_getKv_def get holds_contents_def decoded_def)
qed

end
