(* ===== verification/Mqtt_Bolt.thy ===== *)
theory Mqtt_Bolt
  imports Mqtt_Database
begin

text \<open>
  The storage hook over bolt, \<open>hooks/storage/bolt/bolt.go\<close>.  Its state is the database, None for
  nil; the parameter \<open>db\<close> is the bucket of the configuration.
\<close>

section \<open>The database\<close>

definition bolt_setKv :: "'d database \<Rightarrow> gostring \<Rightarrow> byte list \<Rightarrow> 'd \<Rightarrow> error option \<times> 'd" where
  "bolt_setKv db k data d = dbSet db k data d"

definition bolt_delKv :: "'d database \<Rightarrow> gostring \<Rightarrow> 'd \<Rightarrow> error option \<times> 'd" where
  "bolt_delKv db k d = dbDelete db k d"

definition bolt_ErrKeyNotFound :: error where
  "bolt_ErrKeyNotFound = ENew (lit ''key not found'')"

definition bolt_getKv ::
    "'d database \<Rightarrow> (byte list \<Rightarrow> 'a \<times> error option) \<Rightarrow> 'a \<Rightarrow> gostring \<Rightarrow> 'd \<Rightarrow> 'a \<times> error option" where
  "bolt_getKv db decode v k d =
    (case dbGet db k d of
       Inl err \<Rightarrow> (v, Some err)
     | Inr None \<Rightarrow> (v, Some bolt_ErrKeyNotFound)
     | Inr (Some data) \<Rightarrow> decode data)"

text \<open>
  The loop of \<open>iterKv\<close> with the visitor that appends what it decodes.  The condition slices the key
  before it compares: a key shorter than the prefix panics.
\<close>

fun bolt_loop ::
    "gostring \<Rightarrow> (byte list \<Rightarrow> 'a \<times> error option) \<Rightarrow> (gostring \<times> byte list) list \<Rightarrow> 'a list \<times> error option" where
  "bolt_loop p decode [] = ([], None)"
| "bolt_loop p decode ((k, data) # items) =
    (if length k < length p then ([], Some EPanic)
     else if take (length p) k \<noteq> p then ([], None)
     else case decode data of
       (obj, Some err) \<Rightarrow> ([], Some err)
     | (obj, None) \<Rightarrow> (case bolt_loop p decode items of (v, err) \<Rightarrow> (obj # v, err)))"

definition bolt_iterKv ::
    "'d database \<Rightarrow> gostring \<Rightarrow> (byte list \<Rightarrow> 'a \<times> error option) \<Rightarrow> 'd \<Rightarrow> 'a list \<times> error option" where
  "bolt_iterKv db p decode d = bolt_loop p decode (dbFrom db p d)"

definition bolt_writer :: "'d database \<Rightarrow> 'd writer" where
  "bolt_writer db = \<lparr>wSet = (\<lambda>t k data d. snd (bolt_setKv db k data d)),
     wDel = (\<lambda>t k d. snd (bolt_delKv db k d))\<rparr>"

definition bolt_scheme :: scheme where
  "bolt_scheme = \<lparr>skClient = clientKey, skSubscription = subscriptionKey, skRetained = retainedKey,
     skInflight = inflightKey, skIdentified = False, skUpdates = False, skTaken = taken_eq\<rparr>"

section \<open>Starting and stopping\<close>

record bolt_options =
  boBucket :: gostring
  boPath :: gostring

definition bolt_defaults :: "bolt_options \<Rightarrow> bolt_options" where
  "bolt_defaults c =
    (let c = (if length (boPath c) = 0 then c\<lparr>boPath := lit ''.bolt''\<rparr> else c)
     in if length (boBucket c) = 0 then c\<lparr>boBucket := lit ''mochi''\<rparr> else c)"

text \<open>\<open>open_db\<close> is \<open>bbolt.Open\<close>, \<open>create_bucket\<close> the transaction that makes the bucket.\<close>

definition bolt_Init ::
    "(bolt_options \<Rightarrow> error + 'd) \<Rightarrow> (gostring \<Rightarrow> 'd \<Rightarrow> error option \<times> 'd)
      \<Rightarrow> bolt_options config_any \<Rightarrow> 'd option \<Rightarrow> 'd option \<times> error option" where
  "bolt_Init open_db create_bucket config s =
    (case config of
       ConfigOther \<Rightarrow> (s, Some ErrInvalidConfigType)
     | _ \<Rightarrow>
         let c = bolt_defaults (case config of ConfigOf c \<Rightarrow> c | _ \<Rightarrow> \<lparr>boBucket = [], boPath = []\<rparr>)
         in case open_db c of
              Inl err \<Rightarrow> (None, Some err)
            | Inr d \<Rightarrow> (case create_bucket (boBucket c) d of (err, d) \<Rightarrow> (Some d, err)))"

definition bolt_Stop :: "'d database \<Rightarrow> 'd option \<Rightarrow> 'd option \<times> error option" where
  "bolt_Stop db s =
    (case s of None \<Rightarrow> (None, Some EPanic) | Some d \<Rightarrow> (case dbClose db d of (err, d) \<Rightarrow> (None, err)))"

section \<open>Handlers\<close>

definition bolt_updateClient :: "'d database \<Rightarrow> coding \<Rightarrow> client \<Rightarrow> 'd option \<Rightarrow> 'd option" where
  "bolt_updateClient db cd cl = if_open (put_client (bolt_writer db) cd bolt_scheme cl)"

definition bolt_OnSessionEstablished :: "'d database \<Rightarrow> coding \<Rightarrow> 'd option notify" where
  "bolt_OnSessionEstablished db cd s cl pk = bolt_updateClient db cd cl s"

definition bolt_OnWillSent :: "'d database \<Rightarrow> coding \<Rightarrow> 'd option notify" where
  "bolt_OnWillSent db cd s cl pk = bolt_updateClient db cd cl s"

definition bolt_OnDisconnect ::
    "'d database \<Rightarrow> coding \<Rightarrow> 'd option \<Rightarrow> client \<Rightarrow> error option \<Rightarrow> bool \<Rightarrow> 'd option" where
  "bolt_OnDisconnect db cd s cl err expire = if_open (disconnect_client (bolt_writer db) cd bolt_scheme cl expire) s"

definition bolt_OnSubscribed :: "'d database \<Rightarrow> coding \<Rightarrow> 'd option \<Rightarrow> client \<Rightarrow> packet \<Rightarrow> byte list \<Rightarrow> 'd option" where
  "bolt_OnSubscribed db cd s cl pk reasonCodes =
     if_open (put_subscriptions (bolt_writer db) cd bolt_scheme cl pk reasonCodes) s"

definition bolt_OnUnsubscribed :: "'d database \<Rightarrow> 'd option notify" where
  "bolt_OnUnsubscribed db s cl pk = if_open (del_subscriptions (bolt_writer db) bolt_scheme cl pk) s"

definition bolt_OnRetainMessage :: "'d database \<Rightarrow> coding \<Rightarrow> 'd option \<Rightarrow> client \<Rightarrow> packet \<Rightarrow> int \<Rightarrow> 'd option" where
  "bolt_OnRetainMessage db cd s cl pk r = if_open (put_retained (bolt_writer db) cd bolt_scheme cl pk r) s"

definition bolt_OnQosPublish ::
    "'d database \<Rightarrow> coding \<Rightarrow> 'd option \<Rightarrow> client \<Rightarrow> packet \<Rightarrow> int \<Rightarrow> int \<Rightarrow> 'd option" where
  "bolt_OnQosPublish db cd s cl pk sent resends = if_open (put_inflight (bolt_writer db) cd bolt_scheme cl pk sent) s"

definition bolt_OnQosComplete :: "'d database \<Rightarrow> 'd option notify" where
  "bolt_OnQosComplete db s cl pk = if_open (del_inflight_record (bolt_writer db) bolt_scheme cl pk) s"

definition bolt_OnQosDropped :: "'d database \<Rightarrow> 'd option notify" where
  "bolt_OnQosDropped db s cl pk = bolt_OnQosComplete db s cl pk"

definition bolt_OnSysInfoTick :: "'d database \<Rightarrow> coding \<Rightarrow> 'd option \<Rightarrow> sys_info \<Rightarrow> 'd option" where
  "bolt_OnSysInfoTick db cd s sys = if_open (put_info (bolt_writer db) cd sys) s"

definition bolt_OnRetainedExpired :: "'d database \<Rightarrow> 'd option \<Rightarrow> gostring \<Rightarrow> 'd option" where
  "bolt_OnRetainedExpired db s flt = if_open (del_retained (bolt_writer db) bolt_scheme flt) s"

definition bolt_OnClientExpired :: "'d database \<Rightarrow> 'd option \<Rightarrow> client \<Rightarrow> 'd option" where
  "bolt_OnClientExpired db s cl = if_open (del_client (bolt_writer db) bolt_scheme cl) s"

section \<open>Reading\<close>

definition bolt_read ::
    "'d database \<Rightarrow> gostring \<Rightarrow> (byte list \<Rightarrow> 'a \<times> error option) \<Rightarrow> 'd option \<Rightarrow> error + 'a list" where
  "bolt_read db p decode s =
    (case s of
       None \<Rightarrow> Inl ErrDBFileNotOpen
     | Some d \<Rightarrow> (case bolt_iterKv db p decode d of (v, None) \<Rightarrow> Inr v | (v, Some err) \<Rightarrow> Inl err))"

text \<open>The clients that come before one that cannot be decoded, without its error.\<close>

definition bolt_StoredClients :: "'d database \<Rightarrow> coding \<Rightarrow> 'd option \<Rightarrow> error + st_client list" where
  "bolt_StoredClients db cd s =
    (case s of
       None \<Rightarrow> Inl ErrDBFileNotOpen
     | Some d \<Rightarrow>
         (case bolt_iterKv db ClientKey (read_client cd) d of
            (v, Some EPanic) \<Rightarrow> Inl EPanic
          | (v, _) \<Rightarrow> Inr v))"

definition bolt_StoredSubscriptions :: "'d database \<Rightarrow> coding \<Rightarrow> 'd option \<Rightarrow> error + st_subscription list" where
  "bolt_StoredSubscriptions db cd = bolt_read db SubscriptionKey (read_subscription cd)"

definition bolt_StoredRetainedMessages :: "'d database \<Rightarrow> coding \<Rightarrow> 'd option \<Rightarrow> error + st_message list" where
  "bolt_StoredRetainedMessages db cd = bolt_read db RetainedKey (read_message cd)"

definition bolt_StoredInflightMessages :: "'d database \<Rightarrow> coding \<Rightarrow> 'd option \<Rightarrow> error + st_message list" where
  "bolt_StoredInflightMessages db cd = bolt_read db InflightKey (read_message cd)"

definition bolt_StoredSysInfo :: "'d database \<Rightarrow> coding \<Rightarrow> 'd option \<Rightarrow> error + st_system_info" where
  "bolt_StoredSysInfo db cd s =
    (case s of
       None \<Rightarrow> Inl ErrDBFileNotOpen
     | Some d \<Rightarrow>
         (case bolt_getKv db (read_info cd) no_st_system_info SysInfoKey d of
            (v, None) \<Rightarrow> Inr v
          | (v, Some err) \<Rightarrow> if err \<noteq> bolt_ErrKeyNotFound then Inl err else Inr v))"

definition bolt_hook :: "'d database \<Rightarrow> coding \<Rightarrow> 'd option hook" where
  "bolt_hook db cd = HookBase\<lparr>
     hkID := lit ''bolt-db'', hkProvides := (\<lambda>b. b \<in> set storage_events),
     hkOnSessionEstablished := bolt_OnSessionEstablished db cd, hkOnWillSent := bolt_OnWillSent db cd,
     hkOnDisconnect := bolt_OnDisconnect db cd, hkOnSubscribed := bolt_OnSubscribed db cd,
     hkOnUnsubscribed := bolt_OnUnsubscribed db, hkOnRetainMessage := bolt_OnRetainMessage db cd,
     hkOnQosPublish := bolt_OnQosPublish db cd, hkOnQosComplete := bolt_OnQosComplete db,
     hkOnQosDropped := bolt_OnQosDropped db, hkOnSysInfoTick := bolt_OnSysInfoTick db cd,
     hkOnRetainedExpired := bolt_OnRetainedExpired db, hkOnClientExpired := bolt_OnClientExpired db,
     hkStop := bolt_Stop db,
     hkStoredClients := bolt_StoredClients db cd, hkStoredSubscriptions := bolt_StoredSubscriptions db cd,
     hkStoredRetainedMessages := bolt_StoredRetainedMessages db cd,
     hkStoredInflightMessages := bolt_StoredInflightMessages db cd,
     hkStoredSysInfo := bolt_StoredSysInfo db cd\<rparr>"

section \<open>Laws\<close>

lemma bolt_writes: "lawful_db db view \<Longrightarrow> writes_at (bolt_writer db) view in_file"
  by (simp add: lawful_db_def writes_at_def bolt_writer_def bolt_setKv_def bolt_delKv_def in_file_def)

interpretation bolt_layout: layout bolt_scheme in_file "\<lambda>t k. HasPrefix k t"
  by (rule file_layout) (simp_all add: bolt_scheme_def)

lemma bolt_step: "hook_call (bolt_hook db cd) c (Some d) = Some (store_step (bolt_writer db) cd bolt_scheme c d)"
  by (cases c) (simp_all add: bolt_hook_def bolt_OnSessionEstablished_def bolt_OnWillSent_def bolt_updateClient_def
      bolt_OnDisconnect_def bolt_OnSubscribed_def bolt_OnUnsubscribed_def bolt_OnRetainMessage_def
      bolt_OnQosPublish_def bolt_OnQosComplete_def bolt_OnQosDropped_def bolt_OnSysInfoTick_def
      bolt_OnRetainedExpired_def bolt_OnClientExpired_def if_open_def)

lemma bolt_run: "hook_calls (bolt_hook db cd) cs (Some d) = Some (fold (store_step (bolt_writer db) cd bolt_scheme) cs d)"
  unfolding hook_calls_def by (induction cs arbitrary: d) (simp_all add: bolt_step)

lemma bolt_loop_values:
  assumes "\<And>k. k \<in> set ks \<Longrightarrow> length p \<le> length k"
    and "\<And>k. k \<in> set (takeWhile (\<lambda>k. HasPrefix k p) ks) \<Longrightarrow> snd (decode (f k)) = None"
  shows "bolt_loop p decode (map (\<lambda>k. (k, f k)) ks)
    = (map (\<lambda>k. fst (decode (f k))) (takeWhile (\<lambda>k. HasPrefix k p) ks), None)"
  using assms
proof (induction ks)
  case (Cons k ks)
  then show ?case using Cons.prems(2) [of k] Cons.prems(1) [of k]
    by (cases "decode (f k)") (auto simp: HasPrefix_def not_less)
qed simp

lemma bolt_iterKv_values:
  assumes law: "lawful_db db view" and long: "long_keys p (view d)"
    and dec: "\<And>k v. view d k = Some v \<Longrightarrow> HasPrefix k p \<Longrightarrow> snd (decode v) = None"
  shows "bolt_iterKv db p decode d = (map (\<lambda>k. fst (decode (the (view d k)))) (keys_with (view d) p), None)"
proof -
  have keys: "takeWhile (\<lambda>k. HasPrefix k p) (keys_from (view d) p) = keys_with (view d) p"
    and fin: "finite (dom (view d))"
    using law keys_prefix by (auto simp: lawful_db_def)
  show ?thesis
    using law dec long bolt_loop_values [of "keys_from (view d) p" p decode "\<lambda>k. the (view d k)"] fin
    by (force simp: bolt_iterKv_def lawful_db_def keys set_keys_with set_keys_from long_keys_def)
qed

interpretation bolt_file: record_file "\<lambda>(db, view, d). lawful_db db view" "\<lambda>(db, view, d). view d"
    "\<lambda>(k, data) (db, view, d). (db, view, snd (bolt_setKv db k data d))"
    "\<lambda>k (db, view, d). (db, view, snd (bolt_delKv db k d))"
    "\<lambda>p (db, view, d). long_keys p (view d)" "\<lambda>p decode (db, view, d). bolt_read db p decode (Some d)"
  by unfold_locales
    (auto simp: lawful_writes bolt_setKv_def bolt_delKv_def bolt_read_def bolt_iterKv_values)

theorem bolt_stores:
  fixes db :: "'d database" and cd :: coding and cs :: "store_call list" and d :: 'd and view :: "'d view"
  defines "A \<equiv> contents_of bolt_scheme cs" and "s \<equiv> hook_calls (bolt_hook db cd) cs (Some d)"
  assumes law: "lawful_db db view" and empty: "\<And>k. view d k = None"
  shows "decoded (read_client cd) (ecClient cd) (ran (caClients A)) \<Longrightarrow>
      bolt_StoredClients db cd s = Inr (records (caClients A))"
    and "decoded (read_subscription cd) (ecSubscription cd) (ran (caSubscriptions A)) \<Longrightarrow>
      bolt_StoredSubscriptions db cd s = Inr (records (caSubscriptions A))"
    and "decoded (read_message cd) (ecMessage cd) (ran (caRetained A)) \<Longrightarrow>
      bolt_StoredRetainedMessages db cd s = Inr (records (caRetained A))"
    and "decoded (read_message cd) (ecMessage cd) (ran (caInflight A)) \<Longrightarrow>
      bolt_StoredInflightMessages db cd s = Inr (records (caInflight A))"
    and "decoded (read_info cd) (ecInfo cd) (set_option (caInfo A)) \<Longrightarrow>
      bolt_StoredSysInfo db cd s = Inr (case caInfo A of Some i \<Rightarrow> i | None \<Rightarrow> no_st_system_info)"
proof -
  define e where "e = fold (store_step (bolt_writer db) cd bolt_scheme) cs d"
  have s: "s = Some e" by (simp add: s_def bolt_run e_def)
  have holds: "holds_contents cd (view e) A"
    unfolding A_def e_def using law
    by (intro file_holds bolt_writes bolt_layout.layout_axioms) (auto simp: A_def lawful_db_def empty)
  have get: "dbGet db k e = Inr (view e k)" "dbCopy db k e = None" for k
    using law by (auto simp: lawful_db_def)
  note reads = bolt_file.scan_table [of "(db, view, e)", simplified, OF law holds_long_keys [OF holds]]
  have "decoded (read_client cd) (ecClient cd) (ran (caClients A)) \<Longrightarrow>
      bolt_read db ClientKey (read_client cd) s = Inr (records (caClients A))"
    using holds by (auto simp: holds_contents_def s tables_def intro: reads)
  then show "decoded (read_client cd) (ecClient cd) (ran (caClients A)) \<Longrightarrow>
      bolt_StoredClients db cd s = Inr (records (caClients A))"
    by (auto simp: bolt_StoredClients_def bolt_read_def s split: prod.splits option.splits)
  show "decoded (read_subscription cd) (ecSubscription cd) (ran (caSubscriptions A)) \<Longrightarrow>
      bolt_StoredSubscriptions db cd s = Inr (records (caSubscriptions A))"
    "decoded (read_message cd) (ecMessage cd) (ran (caRetained A)) \<Longrightarrow>
      bolt_StoredRetainedMessages db cd s = Inr (records (caRetained A))"
    "decoded (read_message cd) (ecMessage cd) (ran (caInflight A)) \<Longrightarrow>
      bolt_StoredInflightMessages db cd s = Inr (records (caInflight A))"
    using holds by (auto simp: holds_contents_def s tables_def bolt_StoredSubscriptions_def
        bolt_StoredRetainedMessages_def bolt_StoredInflightMessages_def intro: reads)
  show "decoded (read_info cd) (ecInfo cd) (set_option (caInfo A)) \<Longrightarrow>
      bolt_StoredSysInfo db cd s = Inr (case caInfo A of Some i \<Rightarrow> i | None \<Rightarrow> no_st_system_info)"
    using holds by (cases "caInfo A")
      (simp_all add: bolt_StoredSysInfo_def s bolt_getKv_def get holds_contents_def decoded_def)
qed

end
