(* ===== verification/Mqtt_Pebble.thy ===== *)
theory Mqtt_Pebble
  imports Mqtt_Database
begin

text \<open>The storage hook over pebble, \<open>hooks/storage/pebble/pebble.go\<close>.  Its state is the database, None for nil.\<close>

section \<open>The database\<close>

definition pebble_setKv :: "'d database \<Rightarrow> gostring \<Rightarrow> byte list \<Rightarrow> 'd \<Rightarrow> error option \<times> 'd" where
  "pebble_setKv db k data d = dbSet db k data d"

definition pebble_delKv :: "'d database \<Rightarrow> gostring \<Rightarrow> 'd \<Rightarrow> error option \<times> 'd" where
  "pebble_delKv db k d = dbDelete db k d"

definition pebble_getKv ::
    "'d database \<Rightarrow> (byte list \<Rightarrow> 'a \<times> error option) \<Rightarrow> 'a \<Rightarrow> gostring \<Rightarrow> 'd \<Rightarrow> 'a \<times> error option" where
  "pebble_getKv db decode v k d =
    (case dbGet db k d of
       Inl err \<Rightarrow> (v, Some err)
     | Inr None \<Rightarrow> (v, Some (dbKeyNotFound db))
     | Inr (Some data) \<Rightarrow> decode data)"

text \<open>
  The bound of an iteration: the last byte that can be incremented is, and what follows it is cut
  off; None (nil) when every byte is 255.  The loop runs from the end of the slice.
\<close>

fun bump :: "byte list \<Rightarrow> byte list option" where
  "bump [] = None"
| "bump (c # cs) = (if c + 1 \<noteq> 0 then Some (rev ((c + 1) # cs)) else bump cs)"

definition keyUpperBound :: "byte list \<Rightarrow> byte list option" where
  "keyUpperBound b = bump (rev b)"

text \<open>The values of an iteration between the bounds of a prefix, and the loop over them: what cannot be decoded is left out.\<close>

definition pebble_values :: "'d database \<Rightarrow> gostring \<Rightarrow> 'd \<Rightarrow> byte list list" where
  "pebble_values db p d = map snd (takeWhile (\<lambda>(k, _).
     case keyUpperBound p of None \<Rightarrow> True | Some ub \<Rightarrow> k < ub) (dbFrom db p d))"

fun pebble_loop :: "(byte list \<Rightarrow> 'a \<times> error option) \<Rightarrow> byte list list \<Rightarrow> 'a list" where
  "pebble_loop decode [] = []"
| "pebble_loop decode (data # items) =
    (case decode data of
       (item, None) \<Rightarrow> item # pebble_loop decode items
     | (item, Some err) \<Rightarrow> pebble_loop decode items)"

definition pebble_writer :: "'d database \<Rightarrow> 'd writer" where
  "pebble_writer db = \<lparr>wSet = (\<lambda>t k data d. snd (pebble_setKv db k data d)),
     wDel = (\<lambda>t k d. snd (pebble_delKv db k d))\<rparr>"

definition pebble_scheme :: scheme where
  "pebble_scheme = \<lparr>skClient = clientKey, skSubscription = subscriptionKey, skRetained = retainedKey,
     skInflight = inflightKey, skIdentified = True, skUpdates = True, skTaken = taken_Is\<rparr>"

section \<open>Starting and stopping\<close>

record pebble_options =
  poPath :: gostring
  poMode :: gostring

definition pebble_defaults :: "pebble_options \<Rightarrow> pebble_options" where
  "pebble_defaults c = (if length (poPath c) = 0 then c\<lparr>poPath := lit ''.pebble''\<rparr> else c)"

text \<open>\<open>open_db\<close> is \<open>pebbledb.Open\<close>; how writes reach the disk (\<open>mode\<close>) is up to the database.\<close>

definition pebble_Init ::
    "(pebble_options \<Rightarrow> error + 'd) \<Rightarrow> pebble_options config_any \<Rightarrow> 'd option \<Rightarrow> 'd option \<times> error option" where
  "pebble_Init open_db config s =
    (case config of
       ConfigOther \<Rightarrow> (s, Some ErrInvalidConfigType)
     | _ \<Rightarrow>
         let c = pebble_defaults (case config of ConfigOf c \<Rightarrow> c | _ \<Rightarrow> \<lparr>poPath = [], poMode = []\<rparr>)
         in case open_db c of Inl err \<Rightarrow> (None, Some err) | Inr d \<Rightarrow> (Some d, None))"

definition pebble_Stop :: "'d database \<Rightarrow> 'd option \<Rightarrow> 'd option \<times> error option" where
  "pebble_Stop db s =
    (case s of None \<Rightarrow> (None, Some EPanic) | Some d \<Rightarrow> (case dbClose db d of (err, d) \<Rightarrow> (None, err)))"

section \<open>Handlers\<close>

definition pebble_updateClient :: "'d database \<Rightarrow> coding \<Rightarrow> client \<Rightarrow> 'd option \<Rightarrow> 'd option" where
  "pebble_updateClient db cd cl = if_open (put_client (pebble_writer db) cd pebble_scheme cl)"

definition pebble_OnSessionEstablished :: "'d database \<Rightarrow> coding \<Rightarrow> 'd option notify" where
  "pebble_OnSessionEstablished db cd s cl pk = pebble_updateClient db cd cl s"

definition pebble_OnWillSent :: "'d database \<Rightarrow> coding \<Rightarrow> 'd option notify" where
  "pebble_OnWillSent db cd s cl pk = pebble_updateClient db cd cl s"

definition pebble_OnDisconnect ::
    "'d database \<Rightarrow> coding \<Rightarrow> 'd option \<Rightarrow> client \<Rightarrow> error option \<Rightarrow> bool \<Rightarrow> 'd option" where
  "pebble_OnDisconnect db cd s cl err expire = if_open (disconnect_client (pebble_writer db) cd pebble_scheme cl expire) s"

definition pebble_OnSubscribed :: "'d database \<Rightarrow> coding \<Rightarrow> 'd option \<Rightarrow> client \<Rightarrow> packet \<Rightarrow> byte list \<Rightarrow> 'd option" where
  "pebble_OnSubscribed db cd s cl pk reasonCodes =
     if_open (put_subscriptions (pebble_writer db) cd pebble_scheme cl pk reasonCodes) s"

definition pebble_OnUnsubscribed :: "'d database \<Rightarrow> 'd option notify" where
  "pebble_OnUnsubscribed db s cl pk = if_open (del_subscriptions (pebble_writer db) pebble_scheme cl pk) s"

definition pebble_OnRetainMessage :: "'d database \<Rightarrow> coding \<Rightarrow> 'd option \<Rightarrow> client \<Rightarrow> packet \<Rightarrow> int \<Rightarrow> 'd option" where
  "pebble_OnRetainMessage db cd s cl pk r = if_open (put_retained (pebble_writer db) cd pebble_scheme cl pk r) s"

definition pebble_OnQosPublish ::
    "'d database \<Rightarrow> coding \<Rightarrow> 'd option \<Rightarrow> client \<Rightarrow> packet \<Rightarrow> int \<Rightarrow> int \<Rightarrow> 'd option" where
  "pebble_OnQosPublish db cd s cl pk sent resends = if_open (put_inflight (pebble_writer db) cd pebble_scheme cl pk sent) s"

definition pebble_OnQosComplete :: "'d database \<Rightarrow> 'd option notify" where
  "pebble_OnQosComplete db s cl pk = if_open (del_inflight_record (pebble_writer db) pebble_scheme cl pk) s"

definition pebble_OnQosDropped :: "'d database \<Rightarrow> 'd option notify" where
  "pebble_OnQosDropped db s cl pk = pebble_OnQosComplete db s cl pk"

definition pebble_OnSysInfoTick :: "'d database \<Rightarrow> coding \<Rightarrow> 'd option \<Rightarrow> sys_info \<Rightarrow> 'd option" where
  "pebble_OnSysInfoTick db cd s sys = if_open (put_info (pebble_writer db) cd (Info_Clone sys)) s"

definition pebble_OnRetainedExpired :: "'d database \<Rightarrow> 'd option \<Rightarrow> gostring \<Rightarrow> 'd option" where
  "pebble_OnRetainedExpired db s flt = if_open (del_retained (pebble_writer db) pebble_scheme flt) s"

definition pebble_OnClientExpired :: "'d database \<Rightarrow> 'd option \<Rightarrow> client \<Rightarrow> 'd option" where
  "pebble_OnClientExpired db s cl = if_open (del_client (pebble_writer db) pebble_scheme cl) s"

section \<open>Reading\<close>

definition pebble_read ::
    "'d database \<Rightarrow> gostring \<Rightarrow> (byte list \<Rightarrow> 'a \<times> error option) \<Rightarrow> 'd option \<Rightarrow> error + 'a list" where
  "pebble_read db p decode s =
    (case s of None \<Rightarrow> Inr [] | Some d \<Rightarrow> Inr (pebble_loop decode (pebble_values db p d)))"

definition pebble_StoredClients :: "'d database \<Rightarrow> coding \<Rightarrow> 'd option \<Rightarrow> error + st_client list" where
  "pebble_StoredClients db cd = pebble_read db ClientKey (read_client cd)"

definition pebble_StoredSubscriptions :: "'d database \<Rightarrow> coding \<Rightarrow> 'd option \<Rightarrow> error + st_subscription list" where
  "pebble_StoredSubscriptions db cd = pebble_read db SubscriptionKey (read_subscription cd)"

definition pebble_StoredRetainedMessages :: "'d database \<Rightarrow> coding \<Rightarrow> 'd option \<Rightarrow> error + st_message list" where
  "pebble_StoredRetainedMessages db cd = pebble_read db RetainedKey (read_message cd)"

definition pebble_StoredInflightMessages :: "'d database \<Rightarrow> coding \<Rightarrow> 'd option \<Rightarrow> error + st_message list" where
  "pebble_StoredInflightMessages db cd = pebble_read db InflightKey (read_message cd)"

definition pebble_StoredSysInfo :: "'d database \<Rightarrow> coding \<Rightarrow> 'd option \<Rightarrow> error + st_system_info" where
  "pebble_StoredSysInfo db cd s =
    (case s of
       None \<Rightarrow> Inr no_st_system_info
     | Some d \<Rightarrow>
         (case pebble_getKv db (read_info cd) no_st_system_info SysInfoKey d of
            (v, None) \<Rightarrow> Inr v
          | (v, Some err) \<Rightarrow> if err \<noteq> dbKeyNotFound db then Inl err else Inr v))"

definition pebble_hook :: "'d database \<Rightarrow> coding \<Rightarrow> 'd option hook" where
  "pebble_hook db cd = HookBase\<lparr>
     hkID := lit ''pebble-db'', hkProvides := (\<lambda>b. b \<in> set storage_events),
     hkOnSessionEstablished := pebble_OnSessionEstablished db cd, hkOnWillSent := pebble_OnWillSent db cd,
     hkOnDisconnect := pebble_OnDisconnect db cd, hkOnSubscribed := pebble_OnSubscribed db cd,
     hkOnUnsubscribed := pebble_OnUnsubscribed db, hkOnRetainMessage := pebble_OnRetainMessage db cd,
     hkOnQosPublish := pebble_OnQosPublish db cd, hkOnQosComplete := pebble_OnQosComplete db,
     hkOnQosDropped := pebble_OnQosDropped db, hkOnSysInfoTick := pebble_OnSysInfoTick db cd,
     hkOnRetainedExpired := pebble_OnRetainedExpired db, hkOnClientExpired := pebble_OnClientExpired db,
     hkStop := pebble_Stop db,
     hkStoredClients := pebble_StoredClients db cd, hkStoredSubscriptions := pebble_StoredSubscriptions db cd,
     hkStoredRetainedMessages := pebble_StoredRetainedMessages db cd,
     hkStoredInflightMessages := pebble_StoredInflightMessages db cd,
     hkStoredSysInfo := pebble_StoredSysInfo db cd\<rparr>"

section \<open>Laws\<close>

lemma pebble_writes: "lawful_db db view \<Longrightarrow> writes_at (pebble_writer db) view in_file"
  by (simp add: lawful_db_def writes_at_def pebble_writer_def pebble_setKv_def pebble_delKv_def in_file_def)

interpretation pebble_layout: layout pebble_scheme in_file "\<lambda>t k. HasPrefix k t"
  by (rule file_layout) (simp_all add: pebble_scheme_def)

lemma pebble_step: "hook_call (pebble_hook db cd) c (Some d) = Some (store_step (pebble_writer db) cd pebble_scheme c d)"
  by (cases c) (simp_all add: pebble_hook_def pebble_OnSessionEstablished_def pebble_OnWillSent_def pebble_updateClient_def
      pebble_OnDisconnect_def pebble_OnSubscribed_def pebble_OnUnsubscribed_def pebble_OnRetainMessage_def
      pebble_OnQosPublish_def pebble_OnQosComplete_def pebble_OnQosDropped_def pebble_OnSysInfoTick_def Info_Clone_same
      pebble_OnRetainedExpired_def pebble_OnClientExpired_def if_open_def)

lemma pebble_run: "hook_calls (pebble_hook db cd) cs (Some d) = Some (fold (store_step (pebble_writer db) cd pebble_scheme) cs d)"
  unfolding hook_calls_def by (induction cs arbitrary: d) (simp_all add: pebble_step)

text \<open>The bound is exact: the keys from a prefix up to its bound are the keys with the prefix.\<close>

lemma bump_snoc:
  "bump (cs @ [c]) = (case bump cs of Some ub \<Rightarrow> Some (c # ub) | None \<Rightarrow> if c + 1 \<noteq> 0 then Some [c + 1] else None)"
  by (induction cs) auto

lemma keyUpperBound_Cons:
  "keyUpperBound (c # p) =
    (case keyUpperBound p of Some ub \<Rightarrow> Some (c # ub) | None \<Rightarrow> if c + 1 \<noteq> 0 then Some [c + 1] else None)"
  by (simp add: keyUpperBound_def bump_snoc)

lemma byte_above: "(c :: byte) + 1 \<noteq> 0 \<Longrightarrow> d < c + 1 \<longleftrightarrow> d \<le> c"
  using unatSuc [of c] by (simp add: word_less_nat_alt word_le_nat_alt add.commute less_Suc_eq_le)

lemma upper_bound_exact:
  "p \<le> k \<and> (case keyUpperBound p of None \<Rightarrow> True | Some ub \<Rightarrow> k < ub) \<longleftrightarrow> HasPrefix k p"
proof (induction p arbitrary: k)
  case Nil
  then show ?case by (simp add: keyUpperBound_def)
next
  case (Cons c p)
  have top: "c + 1 = 0 \<Longrightarrow> \<not> c < d" for d :: byte
    using word_order.extremum [of d] by (simp add: eq_neg_iff_add_eq_0 [symmetric] not_less)
  show ?case
  proof (cases k)
    case (Cons d k')
    then show ?thesis using Cons.IH [of k'] byte_above [of c d] top [of d]
      by (cases "keyUpperBound p") (auto simp: keyUpperBound_Cons)
  qed simp
qed

lemma pebble_loop_values:
  "(\<And>v. v \<in> set vs \<Longrightarrow> snd (decode v) = None) \<Longrightarrow> pebble_loop decode vs = map (\<lambda>v. fst (decode v)) vs"
proof (induction vs)
  case (Cons v vs)
  then show ?case using Cons.prems [of v] by (cases "decode v") auto
qed simp

lemma pebble_read_values:
  assumes law: "lawful_db db view"
    and dec: "\<And>k v. view d k = Some v \<Longrightarrow> HasPrefix k p \<Longrightarrow> snd (decode v) = None"
  shows "pebble_read db p decode (Some d) = Inr (map (\<lambda>k. fst (decode (the (view d k)))) (keys_with (view d) p))"
proof -
  have fin: "finite (dom (view d))" and iter: "dbFrom db p d = map (\<lambda>k. (k, the (view d k))) (keys_from (view d) p)"
    using law by (auto simp: lawful_db_def)
  have "takeWhile (\<lambda>k. case keyUpperBound p of None \<Rightarrow> True | Some ub \<Rightarrow> k < ub) (keys_from (view d) p)
      = takeWhile (\<lambda>k. HasPrefix k p) (keys_from (view d) p)"
    using upper_bound_exact [of p] fin by (intro takeWhile_cong) (auto simp: set_keys_from)
  then have "pebble_values db p d = map (\<lambda>k. the (view d k)) (keys_with (view d) p)"
    by (simp add: pebble_values_def iter takeWhile_map comp_def keys_prefix fin)
  then show ?thesis
    using pebble_loop_values [of "pebble_values db p d" decode] dec fin
    by (force simp: pebble_read_def set_keys_with)
qed

interpretation pebble_file: record_file "\<lambda>(db, view, d). lawful_db db view" "\<lambda>(db, view, d). view d"
    "\<lambda>(k, data) (db, view, d). (db, view, snd (pebble_setKv db k data d))"
    "\<lambda>k (db, view, d). (db, view, snd (pebble_delKv db k d))"
    "\<lambda>p s. True" "\<lambda>p decode (db, view, d). pebble_read db p decode (Some d)"
  by unfold_locales
    (auto simp: lawful_writes pebble_setKv_def pebble_delKv_def intro!: pebble_read_values)

theorem pebble_stores:
  fixes db :: "'d database" and cd :: coding and cs :: "store_call list" and d :: 'd and view :: "'d view"
  defines "A \<equiv> contents_of pebble_scheme cs" and "s \<equiv> hook_calls (pebble_hook db cd) cs (Some d)"
  assumes law: "lawful_db db view" and empty: "\<And>k. view d k = None"
  shows "decoded (read_client cd) (ecClient cd) (ran (caClients A)) \<Longrightarrow>
      pebble_StoredClients db cd s = Inr (records (caClients A))"
    and "decoded (read_subscription cd) (ecSubscription cd) (ran (caSubscriptions A)) \<Longrightarrow>
      pebble_StoredSubscriptions db cd s = Inr (records (caSubscriptions A))"
    and "decoded (read_message cd) (ecMessage cd) (ran (caRetained A)) \<Longrightarrow>
      pebble_StoredRetainedMessages db cd s = Inr (records (caRetained A))"
    and "decoded (read_message cd) (ecMessage cd) (ran (caInflight A)) \<Longrightarrow>
      pebble_StoredInflightMessages db cd s = Inr (records (caInflight A))"
    and "decoded (read_info cd) (ecInfo cd) (set_option (caInfo A)) \<Longrightarrow>
      pebble_StoredSysInfo db cd s = Inr (case caInfo A of Some i \<Rightarrow> i | None \<Rightarrow> no_st_system_info)"
proof -
  define e where "e = fold (store_step (pebble_writer db) cd pebble_scheme) cs d"
  have s: "s = Some e" by (simp add: s_def pebble_run e_def)
  have holds: "holds_contents cd (view e) A"
    unfolding A_def e_def using law
    by (intro file_holds pebble_writes pebble_layout.layout_axioms) (auto simp: A_def lawful_db_def empty)
  have get: "dbGet db k e = Inr (view e k)" "dbCopy db k e = None" for k
    using law by (auto simp: lawful_db_def)
  note reads = pebble_file.scan_table [of "(db, view, e)", simplified, OF law]
  show "decoded (read_client cd) (ecClient cd) (ran (caClients A)) \<Longrightarrow>
      pebble_StoredClients db cd s = Inr (records (caClients A))"
    "decoded (read_subscription cd) (ecSubscription cd) (ran (caSubscriptions A)) \<Longrightarrow>
      pebble_StoredSubscriptions db cd s = Inr (records (caSubscriptions A))"
    "decoded (read_message cd) (ecMessage cd) (ran (caRetained A)) \<Longrightarrow>
      pebble_StoredRetainedMessages db cd s = Inr (records (caRetained A))"
    "decoded (read_message cd) (ecMessage cd) (ran (caInflight A)) \<Longrightarrow>
      pebble_StoredInflightMessages db cd s = Inr (records (caInflight A))"
    using holds by (auto simp: holds_contents_def s pebble_StoredClients_def pebble_StoredSubscriptions_def
        pebble_StoredRetainedMessages_def pebble_StoredInflightMessages_def intro: reads)
  show "decoded (read_info cd) (ecInfo cd) (set_option (caInfo A)) \<Longrightarrow>
      pebble_StoredSysInfo db cd s = Inr (case caInfo A of Some i \<Rightarrow> i | None \<Rightarrow> no_st_system_info)"
    using holds by (cases "caInfo A")
      (simp_all add: pebble_StoredSysInfo_def s pebble_getKv_def get holds_contents_def decoded_def)
qed

end
