(* ===== verification/Mqtt_Redis.thy ===== *)
theory Mqtt_Redis
  imports Mqtt_StoreSpec
begin

text \<open>
  The storage hook over Redis, \<open>hooks/storage/redis/redis.go\<close>.  Every kind of record has its own hash,
  so the keys need no prefix.  The server process is the parameter \<open>redis\<close>; the state of the hook is
  the connection, None for nil, and \<open>hp\<close> the prefix of the configuration.
\<close>

section \<open>The parameter\<close>

record 'd redis =
  rdHSet :: "gostring \<Rightarrow> gostring \<Rightarrow> byte list \<Rightarrow> 'd \<Rightarrow> error option \<times> 'd"
  rdHDel :: "gostring \<Rightarrow> gostring \<Rightarrow> 'd \<Rightarrow> error option \<times> 'd"
  rdHGetAll :: "gostring \<Rightarrow> 'd \<Rightarrow> error + (gostring \<times> byte list) list"
  rdHGet :: "gostring \<Rightarrow> gostring \<Rightarrow> 'd \<Rightarrow> error + byte list option" \<comment> \<open>None: \<open>redis.Nil\<close>\<close>
  rdClose :: "'d \<Rightarrow> error option \<times> 'd"

text \<open>What is documented of it; \<open>HGetAll\<close> returns the fields in no particular order.\<close>

definition lawful_redis :: "'d redis \<Rightarrow> ('d \<Rightarrow> gostring \<times> gostring \<Rightarrow> byte list option) \<Rightarrow> bool" where
  "lawful_redis rd view \<longleftrightarrow>
     (\<forall>h k v d. view (snd (rdHSet rd h k v d)) = (view d)((h, k) := Some v))
   \<and> (\<forall>h k d. view (snd (rdHDel rd h k d)) = (view d)((h, k) := None))
   \<and> (\<forall>h d. \<exists>ks. distinct ks \<and> (\<forall>k. k \<in> set ks \<longleftrightarrow> view d (h, k) \<noteq> None)
        \<and> rdHGetAll rd h d = Inr (map (\<lambda>k. (k, the (view d (h, k)))) ks))
   \<and> (\<forall>h k d. rdHGet rd h k d = Inr (view d (h, k)))"

section \<open>Keys\<close>

definition redis_clientKey :: "client \<Rightarrow> gostring" where
  "redis_clientKey cl = clID cl"

definition redis_subscriptionKey :: "client \<Rightarrow> gostring \<Rightarrow> gostring" where
  "redis_subscriptionKey cl flt = clID cl @ [ch_colon] @ flt"

definition redis_retainedKey :: "gostring \<Rightarrow> gostring" where
  "redis_retainedKey topic = topic"

definition redis_inflightKey :: "client \<Rightarrow> packet \<Rightarrow> gostring" where
  "redis_inflightKey cl pk = clID cl @ [ch_colon] @ FormatID pk"

definition hKey :: "gostring \<Rightarrow> gostring \<Rightarrow> gostring" where
  "hKey hp t = hp @ t"

definition redis_writer :: "'d redis \<Rightarrow> gostring \<Rightarrow> 'd writer" where
  "redis_writer rd hp = \<lparr>wSet = (\<lambda>t k data d. snd (rdHSet rd (hKey hp t) k data d)),
     wDel = (\<lambda>t k d. snd (rdHDel rd (hKey hp t) k d))\<rparr>"

definition redis_scheme :: scheme where
  "redis_scheme = \<lparr>skClient = redis_clientKey, skSubscription = redis_subscriptionKey,
     skRetained = redis_retainedKey, skInflight = redis_inflightKey, skIdentified = False, skUpdates = False,
     skTaken = taken_eq\<rparr>"

section \<open>Starting and stopping\<close>

text \<open>
  The options of the hook, and the options for the client of the library when the configuration has
  none: its address is overwritten with the configured one, whatever that is.
\<close>

record redis_client_options =
  rcAddr :: gostring
  rcDB :: int
  rcUsername :: gostring
  rcPassword :: gostring

record redis_options =
  roAddress :: gostring
  roUsername :: gostring
  roPassword :: gostring
  roDatabase :: int
  roHPrefix :: gostring
  roOptions :: "redis_client_options option"

definition redis_defaults :: "redis_options \<Rightarrow> redis_options" where
  "redis_defaults c =
    (let c = (if roOptions c = None then
           (let o1 = \<lparr>rcAddr = lit ''localhost:6379'', rcDB = 0, rcUsername = [], rcPassword = []\<rparr>;
                o2 = o1\<lparr>rcAddr := roAddress c, rcDB := roDatabase c, rcUsername := roUsername c,
                     rcPassword := roPassword c\<rparr>
            in c\<lparr>roOptions := Some o2\<rparr>)
         else c)
     in if roHPrefix c = [] then c\<lparr>roHPrefix := lit ''mochi-''\<rparr> else c)"

text \<open>\<open>connect\<close> is \<open>redis.NewClient\<close>, \<open>ping\<close> what the service answers.\<close>

definition redis_Init ::
    "(redis_client_options option \<Rightarrow> 'd) \<Rightarrow> ('d \<Rightarrow> error option) \<Rightarrow> redis_options config_any \<Rightarrow> 'd option
      \<Rightarrow> 'd option \<times> error option" where
  "redis_Init connect ping config s =
    (case config of
       ConfigOther \<Rightarrow> (s, Some ErrInvalidConfigType)
     | _ \<Rightarrow>
         let c = redis_defaults (case config of ConfigOf c \<Rightarrow> c
                   | _ \<Rightarrow> \<lparr>roAddress = [], roUsername = [], roPassword = [], roDatabase = 0, roHPrefix = [],
                          roOptions = None\<rparr>);
             d = connect (roOptions c)
         in case ping d of
              Some err \<Rightarrow> (Some d, Some (ECtx (lit ''failed to ping service: '') err))
            | None \<Rightarrow> (Some d, None))"

definition redis_Stop :: "'d redis \<Rightarrow> 'd option \<Rightarrow> 'd option \<times> error option" where
  "redis_Stop rd s =
    (case s of None \<Rightarrow> (None, Some EPanic) | Some d \<Rightarrow> (case rdClose rd d of (err, d) \<Rightarrow> (Some d, err)))"

section \<open>Handlers\<close>

definition redis_updateClient :: "'d redis \<Rightarrow> gostring \<Rightarrow> coding \<Rightarrow> client \<Rightarrow> 'd option \<Rightarrow> 'd option" where
  "redis_updateClient rd hp cd cl = if_open (put_client (redis_writer rd hp) cd redis_scheme cl)"

definition redis_OnSessionEstablished :: "'d redis \<Rightarrow> gostring \<Rightarrow> coding \<Rightarrow> 'd option notify" where
  "redis_OnSessionEstablished rd hp cd s cl pk = redis_updateClient rd hp cd cl s"

definition redis_OnWillSent :: "'d redis \<Rightarrow> gostring \<Rightarrow> coding \<Rightarrow> 'd option notify" where
  "redis_OnWillSent rd hp cd s cl pk = redis_updateClient rd hp cd cl s"

definition redis_OnDisconnect ::
    "'d redis \<Rightarrow> gostring \<Rightarrow> coding \<Rightarrow> 'd option \<Rightarrow> client \<Rightarrow> error option \<Rightarrow> bool \<Rightarrow> 'd option" where
  "redis_OnDisconnect rd hp cd s cl err expire = if_open (disconnect_client (redis_writer rd hp) cd redis_scheme cl expire) s"

definition redis_OnSubscribed :: "'d redis \<Rightarrow> gostring \<Rightarrow> coding \<Rightarrow> 'd option \<Rightarrow> client \<Rightarrow> packet \<Rightarrow> byte list \<Rightarrow> 'd option" where
  "redis_OnSubscribed rd hp cd s cl pk reasonCodes =
     if_open (put_subscriptions (redis_writer rd hp) cd redis_scheme cl pk reasonCodes) s"

definition redis_OnUnsubscribed :: "'d redis \<Rightarrow> gostring \<Rightarrow> 'd option notify" where
  "redis_OnUnsubscribed rd hp s cl pk = if_open (del_subscriptions (redis_writer rd hp) redis_scheme cl pk) s"

definition redis_OnRetainMessage :: "'d redis \<Rightarrow> gostring \<Rightarrow> coding \<Rightarrow> 'd option \<Rightarrow> client \<Rightarrow> packet \<Rightarrow> int \<Rightarrow> 'd option" where
  "redis_OnRetainMessage rd hp cd s cl pk r = if_open (put_retained (redis_writer rd hp) cd redis_scheme cl pk r) s"

definition redis_OnQosPublish ::
    "'d redis \<Rightarrow> gostring \<Rightarrow> coding \<Rightarrow> 'd option \<Rightarrow> client \<Rightarrow> packet \<Rightarrow> int \<Rightarrow> int \<Rightarrow> 'd option" where
  "redis_OnQosPublish rd hp cd s cl pk sent resends = if_open (put_inflight (redis_writer rd hp) cd redis_scheme cl pk sent) s"

definition redis_OnQosComplete :: "'d redis \<Rightarrow> gostring \<Rightarrow> 'd option notify" where
  "redis_OnQosComplete rd hp s cl pk = if_open (del_inflight_record (redis_writer rd hp) redis_scheme cl pk) s"

definition redis_OnQosDropped :: "'d redis \<Rightarrow> gostring \<Rightarrow> 'd option notify" where
  "redis_OnQosDropped rd hp s cl pk = redis_OnQosComplete rd hp s cl pk"

definition redis_OnSysInfoTick :: "'d redis \<Rightarrow> gostring \<Rightarrow> coding \<Rightarrow> 'd option \<Rightarrow> sys_info \<Rightarrow> 'd option" where
  "redis_OnSysInfoTick rd hp cd s sys = if_open (put_info (redis_writer rd hp) cd sys) s"

definition redis_OnRetainedExpired :: "'d redis \<Rightarrow> gostring \<Rightarrow> 'd option \<Rightarrow> gostring \<Rightarrow> 'd option" where
  "redis_OnRetainedExpired rd hp s flt = if_open (del_retained (redis_writer rd hp) redis_scheme flt) s"

definition redis_OnClientExpired :: "'d redis \<Rightarrow> gostring \<Rightarrow> 'd option \<Rightarrow> client \<Rightarrow> 'd option" where
  "redis_OnClientExpired rd hp s cl = if_open (del_client (redis_writer rd hp) redis_scheme cl) s"

section \<open>Reading\<close>

text \<open>A row that cannot be decoded is logged and appended as far as it was filled.\<close>

definition redis_read ::
    "'d redis \<Rightarrow> gostring \<Rightarrow> (byte list \<Rightarrow> 'a \<times> error option) \<Rightarrow> 'd option \<Rightarrow> error + 'a list" where
  "redis_read rd h decode s =
    (case s of
       None \<Rightarrow> Inr []
     | Some d \<Rightarrow>
         (case rdHGetAll rd h d of
            Inl err \<Rightarrow> Inl err
          | Inr rows \<Rightarrow> Inr (map (\<lambda>(_, row). fst (decode row)) rows)))"

definition redis_StoredClients :: "'d redis \<Rightarrow> gostring \<Rightarrow> coding \<Rightarrow> 'd option \<Rightarrow> error + st_client list" where
  "redis_StoredClients rd hp cd = redis_read rd (hKey hp ClientKey) (read_client cd)"

definition redis_StoredSubscriptions ::
    "'d redis \<Rightarrow> gostring \<Rightarrow> coding \<Rightarrow> 'd option \<Rightarrow> error + st_subscription list" where
  "redis_StoredSubscriptions rd hp cd = redis_read rd (hKey hp SubscriptionKey) (read_subscription cd)"

definition redis_StoredRetainedMessages ::
    "'d redis \<Rightarrow> gostring \<Rightarrow> coding \<Rightarrow> 'd option \<Rightarrow> error + st_message list" where
  "redis_StoredRetainedMessages rd hp cd = redis_read rd (hKey hp RetainedKey) (read_message cd)"

definition redis_StoredInflightMessages ::
    "'d redis \<Rightarrow> gostring \<Rightarrow> coding \<Rightarrow> 'd option \<Rightarrow> error + st_message list" where
  "redis_StoredInflightMessages rd hp cd = redis_read rd (hKey hp InflightKey) (read_message cd)"

text \<open>\<open>redis.Nil\<close> leaves an empty row, from which nothing is decoded.\<close>

definition redis_StoredSysInfo :: "'d redis \<Rightarrow> gostring \<Rightarrow> coding \<Rightarrow> 'd option \<Rightarrow> error + st_system_info" where
  "redis_StoredSysInfo rd hp cd s =
    (case s of
       None \<Rightarrow> Inr no_st_system_info
     | Some d \<Rightarrow>
         (case rdHGet rd (hKey hp SysInfoKey) SysInfoKey d of
            Inl err \<Rightarrow> Inl err
          | Inr row \<Rightarrow> Inr (fst (read_info cd (case row of None \<Rightarrow> [] | Some row \<Rightarrow> row)))))"

definition redis_hook :: "'d redis \<Rightarrow> gostring \<Rightarrow> coding \<Rightarrow> 'd option hook" where
  "redis_hook rd hp cd = HookBase\<lparr>
     hkID := lit ''redis-db'', hkProvides := (\<lambda>b. b \<in> set storage_events),
     hkOnSessionEstablished := redis_OnSessionEstablished rd hp cd, hkOnWillSent := redis_OnWillSent rd hp cd,
     hkOnDisconnect := redis_OnDisconnect rd hp cd, hkOnSubscribed := redis_OnSubscribed rd hp cd,
     hkOnUnsubscribed := redis_OnUnsubscribed rd hp, hkOnRetainMessage := redis_OnRetainMessage rd hp cd,
     hkOnQosPublish := redis_OnQosPublish rd hp cd, hkOnQosComplete := redis_OnQosComplete rd hp,
     hkOnQosDropped := redis_OnQosDropped rd hp, hkOnSysInfoTick := redis_OnSysInfoTick rd hp cd,
     hkOnRetainedExpired := redis_OnRetainedExpired rd hp, hkOnClientExpired := redis_OnClientExpired rd hp,
     hkStop := redis_Stop rd,
     hkStoredClients := redis_StoredClients rd hp cd, hkStoredSubscriptions := redis_StoredSubscriptions rd hp cd,
     hkStoredRetainedMessages := redis_StoredRetainedMessages rd hp cd,
     hkStoredInflightMessages := redis_StoredInflightMessages rd hp cd,
     hkStoredSysInfo := redis_StoredSysInfo rd hp cd\<rparr>"

section \<open>Laws\<close>

text \<open>A record lies in the hash of its table.\<close>

definition in_hash :: "gostring \<Rightarrow> gostring \<Rightarrow> gostring \<Rightarrow> gostring \<times> gostring" where
  "in_hash hp t k = (hKey hp t, k)"

definition hash_kind :: "gostring \<Rightarrow> gostring \<Rightarrow> bool" where
  "hash_kind t k \<longleftrightarrow> True"

lemma redis_writes: "lawful_redis rd view \<Longrightarrow> writes_at (redis_writer rd hp) view (in_hash hp)"
  by (simp add: lawful_redis_def writes_at_def redis_writer_def in_hash_def)

interpretation redis_layout: layout redis_scheme "in_hash hp" hash_kind
  by unfold_locales (auto simp: hash_kind_def in_hash_def hKey_def)

lemma redis_step: "hook_call (redis_hook rd hp cd) c (Some d) = Some (store_step (redis_writer rd hp) cd redis_scheme c d)"
  by (cases c) (simp_all add: redis_hook_def redis_OnSessionEstablished_def redis_OnWillSent_def redis_updateClient_def
      redis_OnDisconnect_def redis_OnSubscribed_def redis_OnUnsubscribed_def redis_OnRetainMessage_def
      redis_OnQosPublish_def redis_OnQosComplete_def redis_OnQosDropped_def redis_OnSysInfoTick_def
      redis_OnRetainedExpired_def redis_OnClientExpired_def if_open_def)

lemma redis_run:
  "hook_calls (redis_hook rd hp cd) cs (Some d) = Some (fold (store_step (redis_writer rd hp) cd redis_scheme) cs d)"
  unfolding hook_calls_def by (induction cs arbitrary: d) (simp_all add: redis_step)

lemma redis_read_values:
  assumes law: "lawful_redis rd view" and fin: "finite (dom m)"
    and st: "\<And>k. view d (h, k) = map_option enc (m k)"
    and dec: "\<And>x. x \<in> ran m \<Longrightarrow> decode (enc x) = (x, None)"
  shows "\<exists>v. redis_read rd h decode (Some d) = Inr v \<and> mset v = mset (records m)"
proof -
  obtain ks where ks: "distinct ks" "\<And>k. k \<in> set ks \<longleftrightarrow> view d (h, k) \<noteq> None"
    "rdHGetAll rd h d = Inr (map (\<lambda>k. (k, the (view d (h, k)))) ks)"
    using law unfolding lawful_redis_def by blast
  have "set ks = dom m" using ks(2) st by auto
  then have perm: "mset ks = mset (sorted_list_of_set (dom m))"
    using ks(1) fin by (simp add: set_eq_iff_mset_eq_distinct [symmetric])
  have "redis_read rd h decode (Some d) = Inr (map (\<lambda>k. fst (decode (the (view d (h, k))))) ks)"
    by (simp add: redis_read_def ks(3) comp_def)
  moreover have "map (\<lambda>k. fst (decode (the (view d (h, k))))) ks = map (the \<circ> m) ks"
    using ks(2) st dec by (fastforce simp: ran_def)
  ultimately show ?thesis using perm by (simp add: records_def mset_map)
qed

theorem redis_stores:
  fixes rd :: "'d redis" and hp :: gostring and cd :: coding and cs :: "store_call list" and d :: 'd
    and view :: "'d \<Rightarrow> gostring \<times> gostring \<Rightarrow> byte list option"
  defines "A \<equiv> contents_of redis_scheme cs" and "s \<equiv> hook_calls (redis_hook rd hp cd) cs (Some d)"
  assumes law: "lawful_redis rd view" and empty: "\<And>l. view d l = None"
  shows "decoded (read_client cd) (ecClient cd) (ran (caClients A)) \<Longrightarrow>
      \<exists>v. redis_StoredClients rd hp cd s = Inr v \<and> mset v = mset (records (caClients A))"
    and "decoded (read_subscription cd) (ecSubscription cd) (ran (caSubscriptions A)) \<Longrightarrow>
      \<exists>v. redis_StoredSubscriptions rd hp cd s = Inr v \<and> mset v = mset (records (caSubscriptions A))"
    and "decoded (read_message cd) (ecMessage cd) (ran (caRetained A)) \<Longrightarrow>
      \<exists>v. redis_StoredRetainedMessages rd hp cd s = Inr v \<and> mset v = mset (records (caRetained A))"
    and "decoded (read_message cd) (ecMessage cd) (ran (caInflight A)) \<Longrightarrow>
      \<exists>v. redis_StoredInflightMessages rd hp cd s = Inr v \<and> mset v = mset (records (caInflight A))"
    and "decoded (read_info cd) (ecInfo cd) (set_option (caInfo A)) \<Longrightarrow>
      redis_StoredSysInfo rd hp cd s = Inr (case caInfo A of Some i \<Rightarrow> i | None \<Rightarrow> no_st_system_info)"
proof -
  define e where "e = fold (store_step (redis_writer rd hp) cd redis_scheme) cs d"
  have s: "s = Some e" by (simp add: s_def redis_run e_def)
  have st: "stored_as cd (in_hash hp) hash_kind (view e) A"
    unfolding A_def e_def by (rule redis_layout.refines [OF redis_writes [OF law] empty])
  have wk: "redis_layout.well_keyed A" unfolding A_def by (rule redis_layout.contents_keyed)
  note facts = st wk
  show "decoded (read_client cd) (ecClient cd) (ran (caClients A)) \<Longrightarrow>
      \<exists>v. redis_StoredClients rd hp cd s = Inr v \<and> mset v = mset (records (caClients A))"
    "decoded (read_subscription cd) (ecSubscription cd) (ran (caSubscriptions A)) \<Longrightarrow>
      \<exists>v. redis_StoredSubscriptions rd hp cd s = Inr v \<and> mset v = mset (records (caSubscriptions A))"
    "decoded (read_message cd) (ecMessage cd) (ran (caRetained A)) \<Longrightarrow>
      \<exists>v. redis_StoredRetainedMessages rd hp cd s = Inr v \<and> mset v = mset (records (caRetained A))"
    "decoded (read_message cd) (ecMessage cd) (ran (caInflight A)) \<Longrightarrow>
      \<exists>v. redis_StoredInflightMessages rd hp cd s = Inr v \<and> mset v = mset (records (caInflight A))"
    unfolding redis_StoredClients_def redis_StoredSubscriptions_def redis_StoredRetainedMessages_def
      redis_StoredInflightMessages_def s
    using facts by (auto intro!: redis_read_values [OF law]
      simp: stored_as_def hash_kind_def in_hash_def redis_layout.well_keyed_def decoded_def)
  show "decoded (read_info cd) (ecInfo cd) (set_option (caInfo A)) \<Longrightarrow>
      redis_StoredSysInfo rd hp cd s = Inr (case caInfo A of Some i \<Rightarrow> i | None \<Rightarrow> no_st_system_info)"
    using st law by (cases "caInfo A")
      (auto simp: redis_StoredSysInfo_def s stored_as_def in_hash_def sysInfoKey_def lawful_redis_def decoded_def
        read_info_def UnmarshalBinary_def)
qed

section \<open>A server in memory\<close>

type_synonym redis_log = "((gostring \<times> gostring) \<times> byte list option) list"

definition redis_log_view :: "redis_log \<Rightarrow> gostring \<times> gostring \<Rightarrow> byte list option" where
  "redis_log_view d l = (case m_get d l of Some v \<Rightarrow> v | None \<Rightarrow> None)"

definition redis_log_fields :: "gostring \<Rightarrow> redis_log \<Rightarrow> gostring list" where
  "redis_log_fields h d = filter (\<lambda>k. redis_log_view d (h, k) \<noteq> None) (remdups (map (\<lambda>x. snd (fst x)) d))"

definition mem_redis :: "redis_log redis" where
  "mem_redis = \<lparr>rdHSet = (\<lambda>h k v d. (None, ((h, k), Some v) # d)), rdHDel = (\<lambda>h k d. (None, ((h, k), None) # d)),
     rdHGetAll = (\<lambda>h d. Inr (map (\<lambda>k. (k, the (redis_log_view d (h, k)))) (redis_log_fields h d))),
     rdHGet = (\<lambda>h k d. Inr (redis_log_view d (h, k))), rdClose = (\<lambda>d. (None, d))\<rparr>"

lemma redis_log_fields_set: "k \<in> set (redis_log_fields h d) \<longleftrightarrow> redis_log_view d (h, k) \<noteq> None"
proof -
  have "k \<in> (\<lambda>x. snd (fst x)) ` set d" if "redis_log_view d (h, k) \<noteq> None"
    using that by (cases "m_get d (h, k)") (auto simp: redis_log_view_def dest!: map_of_SomeD intro: rev_image_eqI)
  then show ?thesis by (auto simp: redis_log_fields_def)
qed

lemma mem_redis_lawful: "lawful_redis mem_redis redis_log_view"
proof -
  have "distinct (redis_log_fields h d)" for h d by (simp add: redis_log_fields_def)
  then show ?thesis
    by (auto simp: lawful_redis_def mem_redis_def redis_log_view_def fun_eq_iff redis_log_fields_set
        intro!: exI [of _ "redis_log_fields _ _"])
qed

end
