(* ===== verification/Mqtt_Topics.thy ===== *)
theory Mqtt_Topics
  imports Mqtt_Filters
begin

text \<open>
  The topic index, \<open>topics.go\<close>: a tree of particles that holds, at the end of the path of a
  filter, the client, shared and inline subscriptions to the filter, and the path of the
  retained message of a topic.

  A pointer to a particle is the list of the keys on the way to it, its own key first, so that
  the tail of the list is the parent pointer and the empty list is the root.  Writing through a
  pointer is \<open>update_at\<close>, reading is \<open>node_at\<close>.
\<close>

section \<open>Particles\<close>

record particle_data =
  ptKey :: gostring
  ptSubscriptions :: subscriptions
  ptShared :: shared_subscriptions
  ptInline :: inline_subscriptions
  ptRetainPath :: gostring

datatype particle = Particle (ptData: particle_data) (ptParticles: "(gostring \<times> particle) list")

type_synonym pointer = "gostring list"

definition newParticle :: "gostring \<Rightarrow> particle" where
  "newParticle k = Particle
     \<lparr>ptKey = k, ptSubscriptions = NewSubscriptions, ptShared = NewSharedSubscriptions,
      ptInline = NewInlineSubscriptions, ptRetainPath = []\<rparr> []"

text \<open>The map of child particles.\<close>

definition particles_add :: "particle \<Rightarrow> (gostring \<times> particle) list \<Rightarrow> (gostring \<times> particle) list" where
  "particles_add val p = m_set (ptKey (ptData val)) val p"

definition particles_getAll :: "(gostring \<times> particle) list \<Rightarrow> (gostring \<times> particle) list" where
  "particles_getAll p = p"

definition particles_get :: "(gostring \<times> particle) list \<Rightarrow> gostring \<Rightarrow> particle option" where
  "particles_get p k = m_get p k"

definition particles_len :: "(gostring \<times> particle) list \<Rightarrow> nat" where
  "particles_len p = length p"

definition particles_delete :: "gostring \<Rightarrow> (gostring \<times> particle) list \<Rightarrow> (gostring \<times> particle) list" where
  "particles_delete k p = m_del k p"

lemmas particles_defs = particles_add_def particles_getAll_def particles_get_def particles_len_def
  particles_delete_def

definition map_particles ::
    "((gostring \<times> particle) list \<Rightarrow> (gostring \<times> particle) list) \<Rightarrow> particle \<Rightarrow> particle" where
  "map_particles f n = Particle (ptData n) (f (ptParticles n))"

definition map_data :: "(particle_data \<Rightarrow> particle_data) \<Rightarrow> particle \<Rightarrow> particle" where
  "map_data f n = Particle (f (ptData n)) (ptParticles n)"

lemma map_particles_simps [simp]:
  "ptData (map_particles f n) = ptData n" "ptParticles (map_particles f n) = f (ptParticles n)"
  "ptData (map_data g n) = g (ptData n)" "ptParticles (map_data g n) = ptParticles n"
  by (simp_all add: map_particles_def map_data_def)

fun node_at :: "pointer \<Rightarrow> particle \<Rightarrow> particle option" where
  "node_at [] root = Some root"
| "node_at (k # parent) root =
    (case node_at parent root of None \<Rightarrow> None | Some n \<Rightarrow> particles_get (ptParticles n) k)"

fun update_at :: "pointer \<Rightarrow> (particle \<Rightarrow> particle) \<Rightarrow> particle \<Rightarrow> particle" where
  "update_at [] f root = f root"
| "update_at (k # parent) f root =
    update_at parent
      (map_particles (\<lambda>kids. case m_get kids k of None \<Rightarrow> kids | Some c \<Rightarrow> m_set k (f c) kids)) root"

section \<open>The index\<close>

record topics_index =
  tiRetained :: "(gostring, packet) gomap"
  tiRoot :: particle

definition NewTopicsIndex :: topics_index where
  "NewTopicsIndex = \<lparr>tiRetained = NewPackets, tiRoot = newParticle []\<rparr>"

text \<open>The loop of \<open>set\<close>: from pointer \<open>n\<close>, create what is missing of the path from level \<open>d\<close>.\<close>

lemma isolateParticle_next: "snd (isolateParticle f (int d)) \<Longrightarrow> Suc d < length (segs f)"
  by (simp add: isolateParticle_segs split: if_splits)

function set_loop :: "gostring \<Rightarrow> nat \<Rightarrow> pointer \<Rightarrow> particle \<Rightarrow> pointer \<times> particle" where
  "set_loop topic d n root =
    (let key = fst (isolateParticle topic (int d)); hasNext = snd (isolateParticle topic (int d));
         root' = (case node_at (key # n) root of
                    Some _ \<Rightarrow> root
                  | None \<Rightarrow> update_at n (map_particles (particles_add (newParticle key))) root)
     in if hasNext then set_loop topic (d + 1) (key # n) root' else (key # n, root'))"
  by pat_completeness auto
termination
  by (relation "measure (\<lambda>(topic, d, _, _). length (segs topic) - d)")
     (auto dest: isolateParticle_next)

declare set_loop.simps [simp del]

definition index_set :: "gostring \<Rightarrow> nat \<Rightarrow> topics_index \<Rightarrow> pointer \<times> topics_index" where
  "index_set topic d x =
    (let (n, root) = set_loop topic d [] (tiRoot x) in (n, x\<lparr>tiRoot := root\<rparr>))"

function seek_loop :: "gostring \<Rightarrow> nat \<Rightarrow> pointer \<Rightarrow> particle \<Rightarrow> pointer option" where
  "seek_loop flt d n root =
    (let key = fst (isolateParticle flt (int d)); hasNext = snd (isolateParticle flt (int d))
     in case node_at (key # n) root of
          None \<Rightarrow> None
        | Some _ \<Rightarrow> (if hasNext then seek_loop flt (d + 1) (key # n) root else Some (key # n)))"
  by pat_completeness auto
termination
  by (relation "measure (\<lambda>(flt, d, _, _). length (segs flt) - d)")
     (auto dest: isolateParticle_next)

declare seek_loop.simps [simp del]

definition index_seek :: "gostring \<Rightarrow> nat \<Rightarrow> topics_index \<Rightarrow> pointer option" where
  "index_seek flt d x = seek_loop flt d [] (tiRoot x)"

text \<open>
  \<open>trim\<close> climbs from a particle to the root and removes the empty ones.  The key it deletes from
  the parent is the key field of the particle.
\<close>

definition vacant :: "particle \<Rightarrow> bool" where
  "vacant n \<longleftrightarrow> ptRetainPath (ptData n) = []
     \<and> particles_len (ptParticles n) + Subscriptions_Len (ptSubscriptions (ptData n))
       + SharedSubscriptions_Len (ptShared (ptData n))
       + InlineSubscriptions_Len (ptInline (ptData n)) = 0"

fun trim :: "pointer \<Rightarrow> particle \<Rightarrow> particle" where
  "trim [] root = root"
| "trim (k # parent) root =
    (case node_at (k # parent) root of
       None \<Rightarrow> root
     | Some n \<Rightarrow>
         (if vacant n
          then trim parent (update_at parent (map_particles (particles_delete (ptKey (ptData n)))) root)
          else root))"

definition index_trim :: "pointer \<Rightarrow> topics_index \<Rightarrow> topics_index" where
  "index_trim n x = x\<lparr>tiRoot := trim n (tiRoot x)\<rparr>"

definition data_at :: "pointer \<Rightarrow> topics_index \<Rightarrow> particle_data" where
  "data_at n x = (case node_at n (tiRoot x) of Some p \<Rightarrow> ptData p | None \<Rightarrow> ptData (newParticle []))"

definition write_at :: "pointer \<Rightarrow> (particle_data \<Rightarrow> particle_data) \<Rightarrow> topics_index \<Rightarrow> topics_index" where
  "write_at n f x = x\<lparr>tiRoot := update_at n (map_data f) (tiRoot x)\<rparr>"

section \<open>The operations\<close>

definition TopicsIndex_InlineSubscribe :: "inline_subscription \<Rightarrow> topics_index \<Rightarrow> topics_index \<times> bool" where
  "TopicsIndex_InlineSubscribe sub x =
    (let (n, x) = index_set (sFilter (isSubscription sub)) 0 x;
         existed = InlineSubscriptions_Get (ptInline (data_at n x)) (sIdentifier (isSubscription sub)) \<noteq> None
     in (write_at n (ptInline_update (InlineSubscriptions_Add sub)) x, \<not> existed))"

definition TopicsIndex_InlineUnsubscribe :: "int \<Rightarrow> gostring \<Rightarrow> topics_index \<Rightarrow> topics_index \<times> bool" where
  "TopicsIndex_InlineUnsubscribe k flt x =
    (case index_seek flt 0 x of
       None \<Rightarrow> (x, False)
     | Some n \<Rightarrow>
         (let x = write_at n (ptInline_update (InlineSubscriptions_Delete k)) x;
              x = (if InlineSubscriptions_Len (ptInline (data_at n x)) = 0 then index_trim n x else x)
          in (x, True)))"

definition TopicsIndex_Subscribe :: "gostring \<Rightarrow> subscription \<Rightarrow> topics_index \<Rightarrow> topics_index \<times> bool" where
  "TopicsIndex_Subscribe client sub x =
    (let prefix = fst (isolateParticle (sFilter sub) 0) in
     if EqualFold prefix SharePrefix then
       (let grp = fst (isolateParticle (sFilter sub) 1);
            (n, x) = index_set (sFilter sub) 2 x;
            existed = SharedSubscriptions_Get (ptShared (data_at n x)) (grp, client) \<noteq> None
        in (write_at n (ptShared_update (SharedSubscriptions_Add grp client sub)) x, \<not> existed))
     else
       (let (n, x) = index_set (sFilter sub) 0 x;
            existed = Subscriptions_Get (ptSubscriptions (data_at n x)) client \<noteq> None
        in (write_at n (ptSubscriptions_update (Subscriptions_Add client sub)) x, \<not> existed)))"

definition TopicsIndex_Unsubscribe :: "gostring \<Rightarrow> gostring \<Rightarrow> topics_index \<Rightarrow> topics_index \<times> bool" where
  "TopicsIndex_Unsubscribe flt client x =
    (let prefix = fst (isolateParticle flt 0);
         shareSub = EqualFold prefix SharePrefix;
         d = (if shareSub then 2 else 0)
     in case index_seek flt d x of
          None \<Rightarrow> (x, False)
        | Some n \<Rightarrow>
            (let x = (if shareSub
                      then (let grp = fst (isolateParticle flt 1)
                            in write_at n (ptShared_update (SharedSubscriptions_Delete grp client)) x)
                      else write_at n (ptSubscriptions_update (Subscriptions_Delete client)) x)
             in (index_trim n x, True)))"

definition TopicsIndex_RetainMessage :: "packet \<Rightarrow> topics_index \<Rightarrow> topics_index \<times> int" where
  "TopicsIndex_RetainMessage pk x =
    (let (n, x) = index_set (pkTopicName pk) 0 x in
     if length (pkPayload pk) > 0 then
       (let x = write_at n (ptRetainPath_update (\<lambda>_. pkTopicName pk)) x
        in (x\<lparr>tiRetained := Packets_Add (pkTopicName pk) pk (tiRetained x)\<rparr>, 1))
     else
       (let out = (case Packets_Get (pkTopicName pk) (tiRetained x) of
                     Some pke \<Rightarrow> (if length (pkPayload pke) > 0 \<and> fhRetain (pkFixedHeader pke)
                                 then - 1 else 0)
                   | None \<Rightarrow> 0);
            x = write_at n (ptRetainPath_update (\<lambda>_. [])) x;
            x = x\<lparr>tiRetained := Packets_Delete (pkTopicName pk) (tiRetained x)\<rparr>
        in (index_trim n x, out)))"

section \<open>Retained messages for a filter\<close>

lemma size_child: "m_get (ptParticles n) k = Some c \<Longrightarrow> size c < size n"
proof (cases n)
  case (Particle d kids)
  assume "m_get (ptParticles n) k = Some c"
  then have "(k, c) \<in> set kids" by (simp add: Particle map_of_SomeD)
  then have "size c < Suc (size_list (size_prod (\<lambda>_. 0) size) kids)"
    by (induction kids) auto
  then show ?thesis by (simp add: Particle)
qed

lemma size_member: "(k, c) \<in> set (ptParticles n) \<Longrightarrow> size c < size n"
proof (cases n)
  case (Particle d kids)
  assume "(k, c) \<in> set (ptParticles n)"
  then have "size c < Suc (size_list (size_prod (\<lambda>_. 0) size) kids)"
    unfolding Particle by simp (induction kids, auto)
  then show ?thesis by (simp add: Particle)
qed

function scanMessages ::
    "(gostring, packet) gomap \<Rightarrow> gostring \<Rightarrow> int \<Rightarrow> particle \<Rightarrow> packet list \<Rightarrow> packet list" where
  "scanMessages retained flt d n pks =
    (if length flt = 0 \<or> Packets_Len retained = 0 then pks
     else if \<not> ContainsByte flt ch_hash \<and> \<not> ContainsByte flt ch_plus then
       (case Packets_Get flt retained of Some pk \<Rightarrow> pks @ [pk] | None \<Rightarrow> pks)
     else
       let key = fst (isolateParticle flt d); hasNext = snd (isolateParticle flt d) in
       if key = [ch_plus] \<or> key = [ch_hash] \<or> d = - 1 then
         fold (\<lambda>(_, adjacent) pks.
                 if d = 0 \<and> ptKey (ptData adjacent) = SysPrefix then pks
                 else
                   let pks = (if \<not> hasNext \<and> ptRetainPath (ptData adjacent) \<noteq> [] then
                                (case Packets_Get (ptRetainPath (ptData adjacent)) retained of
                                   Some pk \<Rightarrow> pks @ [pk] | None \<Rightarrow> pks)
                              else pks)
                   in if hasNext \<or> (d \<ge> 0 \<and> key = [ch_hash])
                      then scanMessages retained flt (d + 1) adjacent pks else pks)
              (particles_getAll (ptParticles n)) pks
       else
         (case particles_get (ptParticles n) key of
            None \<Rightarrow> pks
          | Some particle \<Rightarrow>
              (if hasNext then scanMessages retained flt (d + 1) particle pks
               else (case Packets_Get (ptRetainPath (ptData particle)) retained of
                       Some pk \<Rightarrow> pks @ [pk] | None \<Rightarrow> pks))))"
  by pat_completeness auto
termination
  by (relation "measure (\<lambda>(_, _, _, n, _). size n)")
     (auto simp: particles_defs dest: size_child size_member)

declare scanMessages.simps [simp del]

definition TopicsIndex_Messages :: "gostring \<Rightarrow> topics_index \<Rightarrow> packet list" where
  "TopicsIndex_Messages flt x = scanMessages (tiRetained x) flt 0 (tiRoot x) []"

section \<open>Subscribers of a topic\<close>

definition no_subscribers :: subscribers where
  "no_subscribers = \<lparr>sbShared = [], sbSharedSelected = [], sbSubscriptions = [],
     sbInlineSubscriptions = []\<rparr>"

text \<open>The exclusion of topics that start with a dollar sign from top-level wildcards.\<close>

definition dollar_excluded :: "gostring \<Rightarrow> subscription \<Rightarrow> bool" where
  "dollar_excluded topic sub \<longleftrightarrow>
     length (sFilter sub) > 0 \<and> topic ! 0 = ch_dollar
     \<and> (sFilter sub ! 0 = ch_plus \<or> sFilter sub ! 0 = ch_hash)"

definition gatherSubscriptions :: "gostring \<Rightarrow> particle \<Rightarrow> subscribers \<Rightarrow> subscribers" where
  "gatherSubscriptions topic particle subs =
     sbSubscriptions_update
       (fold (\<lambda>(client, sub) m. if dollar_excluded topic sub then m else merge_into (client, sub) m)
         (Subscriptions_GetAll (ptSubscriptions (ptData particle)))) subs"

definition gatherSharedSubscriptions :: "particle \<Rightarrow> subscribers \<Rightarrow> subscribers" where
  "gatherSharedSubscriptions particle subs =
     sbShared_update
       (fold (\<lambda>(_, shares). fold (\<lambda>(client, sub) m.
            let m = (if m_has m (sFilter sub) then m else m_set (sFilter sub) [] m)
            in m_set (sFilter sub) (m_set client sub (shared_group m (sFilter sub))) m) shares)
         (SharedSubscriptions_GetAll (ptShared (ptData particle)))) subs"

definition gatherInlineSubscriptions :: "particle \<Rightarrow> subscribers \<Rightarrow> subscribers" where
  "gatherInlineSubscriptions particle subs =
     sbInlineSubscriptions_update
       (fold (\<lambda>(k, inline) m. m_set k inline m)
         (InlineSubscriptions_GetAll (ptInline (ptData particle)))) subs"

function scanSubscribers :: "gostring \<Rightarrow> nat \<Rightarrow> particle \<Rightarrow> subscribers \<Rightarrow> subscribers" where
  "scanSubscribers topic d n subs =
    (if length topic = 0 then subs
     else
       let key = fst (isolateParticle topic (int d)); hasNext = snd (isolateParticle topic (int d));
           subs = fold (\<lambda>partKey subs.
             case particles_get (ptParticles n) partKey of
               None \<Rightarrow> subs
             | Some particle \<Rightarrow>
                 (if hasNext then scanSubscribers topic (d + 1) particle subs
                  else
                    let subs = gatherSubscriptions topic particle subs;
                        subs = gatherSharedSubscriptions particle subs;
                        subs = gatherInlineSubscriptions particle subs
                    in case particles_get (ptParticles particle) [ch_hash] of
                         None \<Rightarrow> subs
                       | Some wild \<Rightarrow>
                           (if partKey \<noteq> [ch_plus] then
                              let subs = gatherSubscriptions topic wild subs;
                                  subs = gatherSharedSubscriptions wild subs
                              in gatherInlineSubscriptions particle subs
                            else subs))) [key, [ch_plus]] subs
       in case particles_get (ptParticles n) [ch_hash] of
            None \<Rightarrow> subs
          | Some particle \<Rightarrow>
              gatherInlineSubscriptions particle
                (gatherSharedSubscriptions particle (gatherSubscriptions topic particle subs)))"
  by pat_completeness auto
termination
  by (relation "measure (\<lambda>(_, _, n, _). size n)")
     (auto simp: particles_defs dest: size_child)

declare scanSubscribers.simps [simp del]

definition TopicsIndex_Subscribers :: "gostring \<Rightarrow> topics_index \<Rightarrow> subscribers" where
  "TopicsIndex_Subscribers topic x = scanSubscribers topic 0 (tiRoot x) no_subscribers"

end
