(* ===== verification/Mqtt_Server.thy ===== *)
theory Mqtt_Server
  imports Mqtt_Client Mqtt_Topics
begin

text \<open>
  The server, \<open>server.go\<close>: its state and the routing of published messages.  The code shares
  clients by pointer: the table of clients, a connection that is being taken over and the inline
  client can all be the same client.  So a client is a reference into the store \<open>svHeap\<close>, and the
  table maps identifiers to references.  The handlers of inline subscriptions belong to the
  program that embeds the server; their calls are recorded in \<open>svDelivered\<close>.  The clock is the
  argument \<open>now\<close>, one reading for an operation.
\<close>

section \<open>State\<close>

type_synonym cref = nat

record 's server =
  svOps :: "'s ops"
  svTopics :: topics_index
  svClients :: "cref clients"
  svHeap :: "cref \<Rightarrow> client"
  svNext :: cref \<comment> \<open>the next reference that is free\<close>
  svWillDelayed :: "(gostring, packet) gomap"
  svInlineClient :: "cref option"
  svDelivered :: "(inline_subscription \<times> packet) list"
  svDone :: bool

abbreviation the_client :: "'s server \<Rightarrow> cref \<Rightarrow> client" where
  "the_client sv r \<equiv> svHeap sv r"

abbreviation svCaps :: "'s server \<Rightarrow> capabilities" where
  "svCaps sv \<equiv> caps (svOps sv)"

abbreviation svInfo :: "'s server \<Rightarrow> sys_info" where
  "svInfo sv \<equiv> opInfo (svOps sv)"

definition set_client :: "cref \<Rightarrow> client \<Rightarrow> 's server \<Rightarrow> 's server" where
  "set_client r cl sv = sv\<lparr>svHeap := (svHeap sv)(r := cl)\<rparr>"

definition upd_client :: "cref \<Rightarrow> (client \<Rightarrow> client) \<Rightarrow> 's server \<Rightarrow> 's server" where
  "upd_client r f sv = set_client r (f (svHeap sv r)) sv"

definition upd_ops :: "('s ops \<Rightarrow> 's ops) \<Rightarrow> 's server \<Rightarrow> 's server" where
  "upd_ops f sv = sv\<lparr>svOps := f (svOps sv)\<rparr>"

definition tally :: "(sys_info \<Rightarrow> sys_info) \<Rightarrow> 's server \<Rightarrow> 's server" where
  "tally f sv = upd_ops (info_update f) sv"

text \<open>A call of the hooks that only tells them something.\<close>

definition notify :: "('s hook list \<Rightarrow> 's \<Rightarrow> 's) \<Rightarrow> 's server \<Rightarrow> 's server" where
  "notify f sv = upd_ops (tell f) sv"

text \<open>A call of the hooks with an answer.\<close>

definition ask :: "('s hook list \<Rightarrow> 's \<Rightarrow> 's \<times> 'a) \<Rightarrow> 's server \<Rightarrow> 'a \<times> 's server" where
  "ask f sv = (let (s, a) = f (opHooks (svOps sv)) (opState (svOps sv))
    in (a, upd_ops (\<lambda>op. op\<lparr>opState := s\<rparr>) sv))"

text \<open>A method of a client that also uses the server's options, counters and hooks.\<close>

definition on_client :: "cref \<Rightarrow> (client \<Rightarrow> 's ops \<Rightarrow> 'a \<times> client \<times> 's ops) \<Rightarrow> 's server \<Rightarrow> 'a \<times> 's server" where
  "on_client r f sv =
    (let (a, cl, op) = f (svHeap sv r) (svOps sv) in (a, sv\<lparr>svHeap := (svHeap sv)(r := cl), svOps := op\<rparr>))"

definition WriteTo :: "int \<Rightarrow> cref \<Rightarrow> packet \<Rightarrow> 's server \<Rightarrow> error option \<times> 's server" where
  "WriteTo now r pk sv = on_client r (WritePacket now pk) sv"

definition set_inflight :: "cref \<Rightarrow> packet \<Rightarrow> 's server \<Rightarrow> bool \<times> 's server" where
  "set_inflight r m sv =
    (let (i, isnew) = Inflight_Set m (clInflight (svHeap sv r))
     in (isnew, upd_client r (upd_inflight (\<lambda>_. i)) sv))"

definition del_inflight :: "cref \<Rightarrow> u16 \<Rightarrow> 's server \<Rightarrow> bool \<times> 's server" where
  "del_inflight r k sv =
    (let (i, ok) = Inflight_Delete k (clInflight (svHeap sv r))
     in (ok, upd_client r (upd_inflight (\<lambda>_. i)) sv))"

lemmas store_defs = set_client_def upd_client_def upd_ops_def tally_def notify_def ask_def on_client_def
  WriteTo_def set_inflight_def del_inflight_def

text \<open>\<open>New\<close> and \<open>NewClient\<close>; \<open>conn\<close> is the remote address and the bytes that will arrive.\<close>

definition NewClient ::
    "(gostring \<times> byte list) option \<Rightarrow> gostring \<Rightarrow> gostring \<Rightarrow> bool \<Rightarrow> 's server \<Rightarrow> cref \<times> 's server" where
  "NewClient conn listener name inline sv =
    (let cl = newClient conn (TopicAliasMaximum (svCaps sv));
         cl = cl\<lparr>clID := name, clNet := (clNet cl)\<lparr>cnListener := listener\<rparr>\<rparr>;
         cl = (if inline
               then upd_inflight (ResetReceiveQuota 2147483647) (upd_net (cnInline_update (\<lambda>_. True)) cl)
               else cl)
     in (svNext sv, (set_client (svNext sv) cl sv)\<lparr>svNext := svNext sv + 1\<rparr>))"

definition LocalListener :: gostring where "LocalListener = lit ''local''"
definition InlineClientId :: gostring where "InlineClientId = lit ''inline''"

definition New :: "int \<Rightarrow> capabilities option \<Rightarrow> options \<Rightarrow> 's \<Rightarrow> 's server" where
  "New now given opts s =
    (let opts = ensureDefaults given opts;
         sv = \<lparr>svOps = \<lparr>opOptions = opts,
                 opInfo = no_info\<lparr>Version := lit ''2.7.9'', Started := now\<rparr>,
                 opHooks = [], opState = s\<rparr>,
               svTopics = NewTopicsIndex, svClients = NewClients, svHeap = (\<lambda>_. newClient None 0),
               svNext = 0, svWillDelayed = NewPackets, svInlineClient = None, svDelivered = [],
               svDone = False\<rparr>
     in if oInlineClient opts then
          (let (r, sv) = NewClient None LocalListener InlineClientId True sv
           in sv\<lparr>svInlineClient := Some r,
                 svClients := Clients_Add (clID (svHeap sv r), r) (svClients sv)\<rparr>)
        else sv)"

text \<open>\<open>AddHook\<close>: \<open>setOpts\<close> and \<open>init\<close> are the hook's \<open>SetOpts\<close> and \<open>Init\<close>.\<close>

definition AddHook ::
    "'s hook \<Rightarrow> ('s \<Rightarrow> 's) \<Rightarrow> ('s \<Rightarrow> 's \<times> error option) \<Rightarrow> 's server \<Rightarrow> error option \<times> 's server" where
  "AddHook h setOpts init sv =
    (case Hooks_Add h init (opHooks (svOps sv)) (setOpts (opState (svOps sv))) of
       (err, hs, s) \<Rightarrow> (err, upd_ops (\<lambda>op. op\<lparr>opHooks := hs, opState := s\<rparr>) sv))"

fun AddHooksFromConfig ::
    "('s hook \<times> ('s \<Rightarrow> 's) \<times> ('s \<Rightarrow> 's \<times> error option)) list \<Rightarrow> 's server \<Rightarrow> error option \<times> 's server" where
  "AddHooksFromConfig [] sv = (None, sv)"
| "AddHooksFromConfig ((h, setOpts, init) # cs) sv =
    (case AddHook h setOpts init sv of
       (Some err, sv) \<Rightarrow> (Some err, sv)
     | (None, sv) \<Rightarrow> AddHooksFromConfig cs sv)"

section \<open>Helpers\<close>

definition minimum :: "int \<Rightarrow> int \<Rightarrow> int" where
  "minimum a b =
    (if a \<noteq> 0 then (if b \<noteq> 0 \<and> b < a then b else a) else if b \<noteq> 0 then b else 0)"

text \<open>The expiry of a message created at \<open>created\<close>, zero for none.\<close>

definition expiry_of :: "capabilities \<Rightarrow> packet \<Rightarrow> int" where
  "expiry_of c pk =
     minimum (MaximumMessageExpiryInterval c) (uint (pMessageExpiryInterval (pkProperties pk)))"

definition buildAck :: "int \<Rightarrow> capabilities \<Rightarrow> u16 \<Rightarrow> byte \<Rightarrow> byte \<Rightarrow> properties \<Rightarrow> code \<Rightarrow> packet" where
  "buildAck now c packetID pkt qos props reason =
    (let props = (if NoInheritedPropertiesOnAck (Compatibilities c) then no_properties else props);
         props = (if Code reason \<ge> Code ErrUnspecifiedError
                  then props\<lparr>pReasonString := Reason reason\<rparr> else props)
     in no_packet\<lparr>pkFixedHeader := no_header\<lparr>fhType := pkt, fhQos := qos\<rparr>, pkPacketID := packetID,
          pkReasonCode := Code reason, pkProperties := props, pkCreated := now,
          pkExpiry := now + MaximumMessageExpiryInterval c\<rparr>)"

definition DisconnectClient :: "int \<Rightarrow> cref \<Rightarrow> code \<Rightarrow> 's server \<Rightarrow> error option \<times> 's server" where
  "DisconnectClient now r code sv =
    (let out = no_packet\<lparr>pkFixedHeader := no_header\<lparr>fhType := Disconnect\<rparr>, pkReasonCode := Code code\<rparr>;
         out = (if Code code \<ge> Code ErrUnspecifiedError
                then pkProperties_update (pReasonString_update (\<lambda>_. Reason code)) out else out);
         (err, sv) = WriteTo now r out sv
     in if \<not> PassiveClientDisconnect (Compatibilities (svCaps sv)) then
          (let sv = upd_client r (Stop now (Some (ECode code))) sv
           in if Code code \<ge> Code ErrUnspecifiedError then (Some (ECode code), sv) else (err, sv))
        else (err, sv))"

section \<open>Publishing\<close>

text \<open>The packet for a subscriber, before its identifier is chosen.\<close>

definition retain_for :: "client \<Rightarrow> subscription \<Rightarrow> packet \<Rightarrow> packet" where
  "retain_for cl sub out =
    (if \<not> sFwdRetainedFlag sub
        \<and> ((cpProtocolVersion (clProperties cl) = 5 \<and> \<not> sRetainAsPublished sub)
           \<or> cpProtocolVersion (clProperties cl) < 5)
     then pkFixedHeader_update (fhRetain_update (\<lambda>_. False)) out else out)"

definition identifiers_for :: "subscription \<Rightarrow> packet \<Rightarrow> packet" where
  "identifiers_for sub out =
    (case sIdentifiers sub of
       None \<Rightarrow> out
     | Some ids \<Rightarrow>
         if length ids > 0
         then pkProperties_update (pSubscriptionIdentifier_update (\<lambda>_. sort (map snd ids))) out else out)"

definition qos_for :: "capabilities \<Rightarrow> subscription \<Rightarrow> packet \<Rightarrow> packet" where
  "qos_for c sub out =
    (let cut = (\<lambda>q out. if fhQos (pkFixedHeader out) > q
                        then pkFixedHeader_update (fhQos_update (\<lambda>_. q)) out else out)
     in cut (MaximumQos c) (cut (sQos sub) out))"

definition alias_for :: "packet \<Rightarrow> client \<Rightarrow> packet \<Rightarrow> packet \<times> client" where
  "alias_for pk cl out =
    (if pTopicAliasMaximum (cpProps (clProperties cl)) > 0 then
       (let (a, k, aliasExists) = OutboundTopicAliases_Set (pkTopicName pk) (taOutbound (csTopicAliases (clState cl)));
            cl = upd_state (csTopicAliases_update (taOutbound_update (\<lambda>_. a))) cl;
            out = pkProperties_update (pTopicAlias_update (\<lambda>_. k)) out;
            out = (if k > 0
                   then (let out = pkProperties_update (pTopicAliasFlag_update (\<lambda>_. True)) out
                         in if aliasExists then pkTopicName_update (\<lambda>_. []) out else out)
                   else out)
        in (out, cl))
     else (out, cl))"

text \<open>
  The part for quality of service above zero: the packet with its identifier, in flight; the
  flag tells whether it is held back until the quota allows it.  \<open>NextPacketID\<close> returns for every
  client of the server, so its None stands for a panic here.
\<close>

definition track_qos :: "int \<Rightarrow> cref \<Rightarrow> packet \<Rightarrow> packet \<Rightarrow> 's server \<Rightarrow> (packet \<times> error option \<times> bool) \<times> 's server" where
  "track_qos now r pk out sv =
    (if int (Inflight_Len (clInflight (svHeap sv r))) \<ge> uint (MaximumInflight (svCaps sv)) then
       ((out, Some (ECode ErrQuotaExceeded), False), tally (InflightDropped_update (\<lambda>n. n + 1)) sv)
     else case NextPacketID (svOps sv) (svHeap sv r) of
       None \<Rightarrow> ((out, Some EPanic, False), sv)
     | Some (cl, Inl err) \<Rightarrow>
         ((out, Some (ECode ErrQuotaExceeded), False),
          tally (InflightDropped_update (\<lambda>n. n + 1))
            (notify (\<lambda>hs s. Hooks_OnPacketIDExhausted hs s cl pk) (set_client r cl sv)))
     | Some (cl, Inr i) \<Rightarrow>
         (let sv = set_client r cl sv;
              out = pkPacketID_update (\<lambda>_. ucast i) out;
              sentQuota = iSendQuota (clInflight cl);
              (isnew, sv) = set_inflight r out sv;
              sv = (if isnew then
                      upd_client r (upd_inflight DecreaseSendQuota)
                        (notify (\<lambda>hs s. Hooks_OnQosPublish hs s (svHeap sv r) out (pkCreated out) 0)
                          (tally (InflightCount_update (\<lambda>n. n + 1)) sv))
                    else sv)
          in if sentQuota = 0 \<and> iMaximumSendQuota (clInflight (svHeap sv r)) > 0 then
               (let out = pkExpiry_update (\<lambda>_. - 1) out; (_, sv) = set_inflight r out sv
                in ((out, None, True), sv))
             else ((out, None, False), sv)))"

text \<open>The hand-over to the client's queue.\<close>

definition enqueue :: "cref \<Rightarrow> packet \<Rightarrow> packet \<Rightarrow> 's server \<Rightarrow> (packet \<times> error option) \<times> 's server" where
  "enqueue r pk out sv =
    (let cl = svHeap sv r
     in if \<not> cnConn (clNet cl) \<or> Closed cl then ((out, Some (ECode CodeDisconnect)), sv)
        else if length (csOutbound (clState cl)) < MaximumClientWritesPending (svCaps sv) then
          ((out, None), upd_client r (upd_state (\<lambda>st. st\<lparr>csOutbound := csOutbound st @ [out],
             csOutboundQty := csOutboundQty st + 1\<rparr>)) sv)
        else
          (let sv = notify (\<lambda>hs s. Hooks_OnPublishDropped hs s cl pk)
                      (tally (MessagesDropped_update (\<lambda>n. n + 1)) sv);
               sv = (if fhQos (pkFixedHeader out) > 0
                     then upd_client r (upd_inflight IncreaseSendQuota) (snd (del_inflight r (pkPacketID out) sv))
                     else sv)
           in ((out, Some (ECode ErrPendingClientWritesExceeded)), sv)))"

definition publishToClient ::
    "int \<Rightarrow> cref \<Rightarrow> subscription \<Rightarrow> packet \<Rightarrow> 's server \<Rightarrow> (packet \<times> error option) \<times> 's server" where
  "publishToClient now r sub pk sv =
    (let cl = svHeap sv r
     in if sNoLocal sub \<and> pkOrigin pk = clID cl then ((pk, None), sv)
        else
          let out = Packet_Copy pk False;
              (allowed, sv) = ask (\<lambda>hs s. Hooks_OnACLCheck hs s cl (pkTopicName pk) False) sv
          in if \<not> allowed then ((out, Some (ECode ErrNotAuthorized)), sv)
             else
               let out = qos_for (svCaps sv) sub (identifiers_for sub (retain_for cl sub out));
                   (out, cl) = alias_for pk cl out;
                   sv = set_client r cl sv
               in if fhQos (pkFixedHeader out) > 0 then
                    (case track_qos now r pk out sv of
                       ((out, Some err, _), sv) \<Rightarrow> ((out, Some err), sv)
                     | ((out, None, True), sv) \<Rightarrow> ((out, None), sv)
                     | ((out, None, False), sv) \<Rightarrow> enqueue r pk out sv)
                  else enqueue r pk out sv)"

text \<open>One subscriber of a message: a client that is gone gets nothing.\<close>

definition deliver :: "int \<Rightarrow> packet \<Rightarrow> gostring \<times> subscription \<Rightarrow> 's server \<Rightarrow> 's server" where
  "deliver now pk = (\<lambda>(name, sub) sv.
    (case Clients_Get (svClients sv) name of
       None \<Rightarrow> sv | Some r \<Rightarrow> snd (publishToClient now r sub pk sv)))"

definition select_subscribers :: "packet \<Rightarrow> subscribers \<Rightarrow> 's server \<Rightarrow> subscribers \<times> 's server" where
  "select_subscribers pk subs sv =
    (if length (sbShared subs) > 0 then
       (let (subs, sv) = ask (\<lambda>hs s. Hooks_OnSelectSubscribers hs s subs pk) sv;
            subs = (if length (sbSharedSelected subs) = 0 then SelectShared subs else subs)
        in (MergeSharedSelected subs, sv))
     else (subs, sv))"

definition stamp :: "int \<Rightarrow> capabilities \<Rightarrow> packet \<Rightarrow> packet" where
  "stamp now c pk =
    (let pk = (if pkCreated pk = 0 then pk\<lparr>pkCreated := now\<rparr> else pk)
     in if pkExpiry pk = 0 \<and> expiry_of c pk > 0
        then pk\<lparr>pkExpiry := pkCreated pk + expiry_of c pk\<rparr> else pk)"

definition publishToSubscribers :: "int \<Rightarrow> packet \<Rightarrow> 's server \<Rightarrow> 's server" where
  "publishToSubscribers now pk sv =
    (if pkIgnore pk then sv
     else
       let pk = stamp now (svCaps sv) pk;
           (subs, sv) = select_subscribers pk (TopicsIndex_Subscribers (pkTopicName pk) (svTopics sv)) sv;
           sv = sv\<lparr>svDelivered := svDelivered sv @ map (\<lambda>(_, s). (s, pk)) (sbInlineSubscriptions subs)\<rparr>
       in fold (deliver now pk) (sbSubscriptions subs) sv)"

definition retainMessage :: "cref \<Rightarrow> packet \<Rightarrow> 's server \<Rightarrow> 's server" where
  "retainMessage r pk sv =
    (if RetainAvailable (svCaps sv) = 0 \<or> pkIgnore pk then sv
     else
       let (x, k) = TopicsIndex_RetainMessage (Packet_Copy pk False) (svTopics sv);
           sv = sv\<lparr>svTopics := x\<rparr>;
           sv = notify (\<lambda>hs s. Hooks_OnRetainMessage hs s (svHeap sv r) pk k) sv
       in tally (RetainedCount_update (\<lambda>_. int (Packets_Len (tiRetained x)))) sv)"

definition publish_retained :: "int \<Rightarrow> cref \<Rightarrow> subscription \<Rightarrow> packet \<Rightarrow> 's server \<Rightarrow> 's server" where
  "publish_retained now r sub pkv sv =
    (case publishToClient now r sub pkv sv of
       ((_, Some err), sv) \<Rightarrow> sv
     | ((_, None), sv) \<Rightarrow> notify (\<lambda>hs s. Hooks_OnRetainPublished hs s (svHeap sv r) pkv) sv)"

definition publishRetainedToClient :: "int \<Rightarrow> cref \<Rightarrow> subscription \<Rightarrow> bool \<Rightarrow> 's server \<Rightarrow> 's server" where
  "publishRetainedToClient now r sub existed sv =
    (if IsSharedFilter (sFilter sub) then sv
     else if sRetainHandling sub = 1 \<and> existed \<or> sRetainHandling sub = 2 then sv
     else fold (publish_retained now r (sub\<lparr>sFwdRetainedFlag := True\<rparr>))
            (TopicsIndex_Messages (sFilter sub) (svTopics sv)) sv)"

definition InjectPublish :: "int \<Rightarrow> cref option \<Rightarrow> packet \<Rightarrow> 's server \<Rightarrow> 's server" where
  "InjectPublish now r pk sv =
    (let pk = pk\<lparr>pkIgnore := False\<rparr>;
         sv = publishToSubscribers now pk sv
     in case r of None \<Rightarrow> sv | Some r \<Rightarrow> notify (\<lambda>hs s. Hooks_OnPublished hs s (svHeap sv r) pk) sv)"

end
