(* ===== verification/Mqtt_Handlers.thy ===== *)
theory Mqtt_Handlers
  imports Mqtt_Server
begin

text \<open>
  What the server does with a packet of a client: the handlers of \<open>server.go\<close> for every packet
  type, the dispatch, and the calls an embedding program can make.  A handler returns the error
  that ends the connection, or None.
\<close>

section \<open>Last will\<close>

definition sendLWT :: "int \<Rightarrow> cref \<Rightarrow> 's server \<Rightarrow> 's server" where
  "sendLWT now r sv =
    (let cl = svHeap sv r; w = cpWill (clProperties cl)
     in if wFlag w = 0 then sv
        else
          let (m, sv) = ask (\<lambda>hs s. Hooks_OnWill hs s cl w) sv;
              pk = no_packet\<lparr>
                pkFixedHeader := no_header\<lparr>fhType := Publish, fhRetain := wRetain m, fhQos := wQos m\<rparr>,
                pkTopicName := wTopicName m, pkPayload := wPayload m,
                pkProperties := no_properties\<lparr>pUser := wUser m\<rparr>, pkOrigin := clID cl, pkCreated := now\<rparr>
          in if wWillDelayInterval w > 0 then
               (let pk = pk\<lparr>pkConnect := no_connect\<lparr>cWillProperties :=
                           no_properties\<lparr>pWillDelayInterval := wWillDelayInterval w\<rparr>\<rparr>,
                         pkExpiry := now + uint (wWillDelayInterval w)\<rparr>
                in sv\<lparr>svWillDelayed := Packets_Add (clID cl) pk (svWillDelayed sv)\<rparr>)
             else
               let sv = (if fhRetain (pkFixedHeader pk) then retainMessage r pk sv else sv);
                   sv = publishToSubscribers now pk sv;
                   sv = upd_client r (clProperties_update (cpWill_update (wFlag_update (\<lambda>_. 0)))) sv
               in notify (\<lambda>hs s. Hooks_OnWillSent hs s (svHeap sv r) pk) sv)"

section \<open>Publish\<close>

definition publish_denied :: "int \<Rightarrow> cref \<Rightarrow> packet \<Rightarrow> 's server \<Rightarrow> error option \<times> 's server" where
  "publish_denied now r pk sv =
    (if fhQos (pkFixedHeader pk) = 0 then (None, sv)
     else if cpProtocolVersion (clProperties (svHeap sv r)) \<noteq> 5 then DisconnectClient now r ErrNotAuthorized sv
     else
       let ackType = (if fhQos (pkFixedHeader pk) = 2 then Pubrec else Puback)
       in WriteTo now r (buildAck now (svCaps sv) (pkPacketID pk) ackType 0 (pkProperties pk) ErrNotAuthorized) sv)"

text \<open>
  A packet identifier that is in flight already: None when the message goes on, else what the
  handler returns.
\<close>

definition reuse_identifier ::
    "int \<Rightarrow> cref \<Rightarrow> packet \<Rightarrow> 's server \<Rightarrow> error option option \<times> 's server" where
  "reuse_identifier now r pk sv =
    (case Inflight_Get (clInflight (svHeap sv r)) (pkPacketID pk) of
       None \<Rightarrow> (None, sv)
     | Some pki \<Rightarrow>
         if fhType (pkFixedHeader pki) = Pubrec then
           (let (err, sv) = WriteTo now r (buildAck now (svCaps sv) (pkPacketID pk) Pubrec 0 (pkProperties pk)
                              ErrPacketIdentifierInUse) sv
            in (Some err, sv))
         else
           (let (ok, sv) = del_inflight r (pkPacketID pk) sv
            in (None, if ok then tally (InflightCount_update (\<lambda>n. n - 1)) sv else sv)))"

definition inbound_alias :: "cref \<Rightarrow> packet \<Rightarrow> 's server \<Rightarrow> packet \<times> 's server" where
  "inbound_alias r pk sv =
    (let p = pkProperties pk
     in if pTopicAliasFlag p \<and> pTopicAlias p > 0 then
          (let (a, topic) = InboundTopicAliases_Set (pTopicAlias p) (pkTopicName pk)
                              (taInbound (csTopicAliases (clState (svHeap sv r))))
           in (pk\<lparr>pkTopicName := topic\<rparr>,
               upd_client r (upd_state (csTopicAliases_update (taInbound_update (\<lambda>_. a)))) sv))
        else (pk, sv))"

definition qos_code :: "byte \<Rightarrow> code" where
  "qos_code q = (case m_get QosCodes q of Some c \<Rightarrow> c | None \<Rightarrow> mk_code 0 [])"

text \<open>The acknowledgement of an accepted message, and its way to the subscribers.\<close>

definition publish_accepted :: "int \<Rightarrow> cref \<Rightarrow> packet \<Rightarrow> 's server \<Rightarrow> error option \<times> 's server" where
  "publish_accepted now r pk sv =
    (let sv = (if fhRetain (pkFixedHeader pk) then retainMessage r pk sv else sv);
         published = (\<lambda>sv. let sv = publishToSubscribers now pk sv
                           in notify (\<lambda>hs s. Hooks_OnPublished hs s (svHeap sv r) pk) sv);
         qos = fhQos (pkFixedHeader pk)
     in if qos = 0 \<or> cnInline (clNet (svHeap sv r)) then (None, published sv)
        else
          let sv = upd_client r (upd_inflight DecreaseReceiveQuota) sv;
              ack = (if qos = 2
                     then buildAck now (svCaps sv) (pkPacketID pk) Pubrec 0 (pkProperties pk) CodeSuccess
                     else buildAck now (svCaps sv) (pkPacketID pk) Puback 0 (pkProperties pk) (qos_code qos));
              (isnew, sv) = set_inflight r ack sv;
              sv = (if isnew then notify (\<lambda>hs s. Hooks_OnQosPublish hs s (svHeap sv r) ack (pkCreated ack) 0)
                      (tally (InflightCount_update (\<lambda>n. n + 1)) sv) else sv)
          in case WriteTo now r ack sv of
               (Some err, sv) \<Rightarrow> (Some err, sv)
             | (None, sv) \<Rightarrow>
                 let sv = (if qos = 1 then
                     (let (ok, sv) = del_inflight r (pkPacketID ack) sv;
                          sv = (if ok then tally (InflightCount_update (\<lambda>n. n - 1)) sv else sv);
                          sv = upd_client r (upd_inflight IncreaseReceiveQuota) sv
                      in notify (\<lambda>hs s. Hooks_OnQosComplete hs s (svHeap sv r) ack) sv)
                   else sv)
                 in (None, published sv))"

text \<open>What follows from the answer of the hooks.\<close>

definition publish_checked ::
    "int \<Rightarrow> cref \<Rightarrow> packet \<Rightarrow> packet \<times> error option \<Rightarrow> 's server \<Rightarrow> error option \<times> 's server" where
  "publish_checked now r pk answer sv =
    (case answer of
       (pkx, None) \<Rightarrow> publish_accepted now r pkx sv
     | (pkx, Some err) \<Rightarrow>
         if errors_Is err ErrRejectPacket then (None, sv)
         else if errors_Is err CodeSuccessIgnore then publish_accepted now r (pk\<lparr>pkIgnore := True\<rparr>) sv
         else if cpProtocolVersion (clProperties (svHeap sv r)) = 5 \<and> fhQos (pkFixedHeader pk) > 0
                 \<and> errors_As_code err then
           (case as_code err of
              None \<Rightarrow> (Some EPanic, sv)
            | Some c \<Rightarrow> WriteTo now r (buildAck now (svCaps sv) (pkPacketID pk) Puback 0 (pkProperties pk) c) sv)
         else publish_accepted now r pk sv)"

definition processPublish :: "int \<Rightarrow> cref \<Rightarrow> packet \<Rightarrow> 's server \<Rightarrow> error option \<times> 's server" where
  "processPublish now r pk sv =
    (let cl = svHeap sv r; inline = cnInline (clNet cl)
     in if \<not> inline \<and> \<not> IsValidFilter (pkTopicName pk) True then (None, sv)
        else if iReceiveQuota (clInflight cl) = 0 then DisconnectClient now r ErrReceiveMaximum sv
        else
          let (allowed, sv) = (if inline then (True, sv)
                else ask (\<lambda>hs s. Hooks_OnACLCheck hs s cl (pkTopicName pk) True) sv)
          in if \<not> allowed then publish_denied now r pk sv
             else
               let pk = pk\<lparr>pkOrigin := clID cl, pkCreated := now\<rparr>;
                   pk = (if expiry_of (svCaps sv) pk > 0
                         then pk\<lparr>pkExpiry := now + expiry_of (svCaps sv) pk\<rparr> else pk)
               in case (if inline then (None, sv) else reuse_identifier now r pk sv) of
                    (Some result, sv) \<Rightarrow> (result, sv)
                  | (None, sv) \<Rightarrow>
                      let (pk, sv) = inbound_alias r pk sv;
                          pk = (if fhQos (pkFixedHeader pk) > MaximumQos (svCaps sv)
                                then pkFixedHeader_update (fhQos_update (\<lambda>_. MaximumQos (svCaps sv))) pk else pk);
                          (answer, sv) = ask (\<lambda>hs s. Hooks_OnPublish hs s (svHeap sv r) pk) sv
                      in publish_checked now r pk answer sv)"

section \<open>Acknowledgements\<close>

definition processPuback :: "int \<Rightarrow> cref \<Rightarrow> packet \<Rightarrow> 's server \<Rightarrow> error option \<times> 's server" where
  "processPuback now r pk sv =
    (if Inflight_Get (clInflight (svHeap sv r)) (pkPacketID pk) = None then (None, sv)
     else
       let (ok, sv) = del_inflight r (pkPacketID pk) sv
       in (None, if ok then
            (let sv = tally (InflightCount_update (\<lambda>n. n - 1)) (upd_client r (upd_inflight IncreaseSendQuota) sv)
             in notify (\<lambda>hs s. Hooks_OnQosComplete hs s (svHeap sv r) pk) sv)
          else sv))"

text \<open>A message that ends with an error.\<close>

definition drop_message :: "cref \<Rightarrow> packet \<Rightarrow> 's server \<Rightarrow> 's server" where
  "drop_message r pk sv =
    (let (ok, sv) = del_inflight r (pkPacketID pk) sv;
         sv = (if ok then tally (InflightCount_update (\<lambda>n. n - 1)) sv else sv)
     in notify (\<lambda>hs s. Hooks_OnQosDropped hs s (svHeap sv r) pk) sv)"

definition processPubrec :: "int \<Rightarrow> cref \<Rightarrow> packet \<Rightarrow> 's server \<Rightarrow> error option \<times> 's server" where
  "processPubrec now r pk sv =
    (if Inflight_Get (clInflight (svHeap sv r)) (pkPacketID pk) = None then
       WriteTo now r (buildAck now (svCaps sv) (pkPacketID pk) Pubrel 1 (pkProperties pk) ErrPacketIdentifierNotFound) sv
     else if pkReasonCode pk \<ge> Code ErrUnspecifiedError \<or> \<not> ReasonCodeValid pk then
       (None, drop_message r pk sv)
     else
       let ack = buildAck now (svCaps sv) (pkPacketID pk) Pubrel 1 (pkProperties pk) CodeSuccess;
           sv = upd_client r (upd_inflight DecreaseReceiveQuota) sv;
           (_, sv) = set_inflight r ack sv
       in WriteTo now r ack sv)"

text \<open>The end of an exchange: both quotas are given back and the message is forgotten.\<close>

definition complete_message :: "cref \<Rightarrow> packet \<Rightarrow> 's server \<Rightarrow> 's server" where
  "complete_message r pk sv =
    (let sv = upd_client r (upd_inflight (IncreaseSendQuota \<circ> IncreaseReceiveQuota)) sv;
         (ok, sv) = del_inflight r (pkPacketID pk) sv
     in if ok then
          (let sv = tally (InflightCount_update (\<lambda>n. n - 1)) sv
           in notify (\<lambda>hs s. Hooks_OnQosComplete hs s (svHeap sv r) pk) sv)
        else sv)"

definition processPubrel :: "int \<Rightarrow> cref \<Rightarrow> packet \<Rightarrow> 's server \<Rightarrow> error option \<times> 's server" where
  "processPubrel now r pk sv =
    (if Inflight_Get (clInflight (svHeap sv r)) (pkPacketID pk) = None then
       WriteTo now r (buildAck now (svCaps sv) (pkPacketID pk) Pubcomp 0 (pkProperties pk) ErrPacketIdentifierNotFound) sv
     else if pkReasonCode pk \<ge> Code ErrUnspecifiedError \<or> \<not> ReasonCodeValid pk then
       (None, drop_message r pk sv)
     else
       let ack = buildAck now (svCaps sv) (pkPacketID pk) Pubcomp 0 (pkProperties pk) CodeSuccess;
           (_, sv) = set_inflight r ack sv
       in case WriteTo now r ack sv of
            (Some err, sv) \<Rightarrow> (Some err, sv)
          | (None, sv) \<Rightarrow> (None, complete_message r pk sv))"

definition processPubcomp :: "int \<Rightarrow> cref \<Rightarrow> packet \<Rightarrow> 's server \<Rightarrow> error option \<times> 's server" where
  "processPubcomp now r pk sv = (None, complete_message r pk sv)"

section \<open>Subscriptions\<close>

text \<open>
  One filter of a SUBSCRIBE: the reason code and whether the subscription existed.  \<open>code\<close> is the
  verdict on the packet identifier.
\<close>

definition subscribe_one ::
    "cref \<Rightarrow> code \<Rightarrow> subscription \<Rightarrow> 's server \<Rightarrow> (byte \<times> bool) \<times> 's server" where
  "subscribe_one r code sub sv =
    (let cl = svHeap sv r;
         v3 = (\<lambda>c. if c > Code CodeGrantedQos2 \<and> cpProtocolVersion (clProperties cl) < 5
                   then Code ErrUnspecifiedError else c)
     in if code \<noteq> CodeSuccess then ((Code code, False), sv)
        else if \<not> IsValidFilter (sFilter sub) False then ((v3 (Code ErrTopicFilterInvalid), False), sv)
        else if sNoLocal sub \<and> IsSharedFilter (sFilter sub) then
          ((v3 (Code ErrProtocolViolationInvalidSharedNoLocal), False), sv)
        else
          let (allowed, sv) = ask (\<lambda>hs s. Hooks_OnACLCheck hs s cl (sFilter sub) False) sv
          in if \<not> allowed then
               ((v3 (if ObscureNotAuthorized (Compatibilities (svCaps sv)) then Code ErrUnspecifiedError
                     else Code ErrNotAuthorized), False), sv)
             else
               let (x, isNew) = TopicsIndex_Subscribe (clID cl) sub (svTopics sv);
                   sv = sv\<lparr>svTopics := x\<rparr>;
                   sv = (if isNew then tally (SubscriptionsCount_update (\<lambda>n. n + 1)) sv else sv);
                   sv = upd_client r (upd_state (csSubscriptions_update (Subscriptions_Add (sFilter sub) sub))) sv;
                   qos = (if sQos sub > MaximumQos (svCaps sv) then MaximumQos (svCaps sv) else sQos sub)
               in ((v3 qos, \<not> isNew), sv))"

fun subscribe_all ::
    "cref \<Rightarrow> code \<Rightarrow> subscription list \<Rightarrow> 's server \<Rightarrow> (byte \<times> bool) list \<times> 's server" where
  "subscribe_all r code [] sv = ([], sv)"
| "subscribe_all r code (sub # subs) sv =
    (let (c, sv) = subscribe_one r code sub sv; (cs, sv) = subscribe_all r code subs sv in (c # cs, sv))"

text \<open>The acknowledgement of a SUBSCRIBE or UNSUBSCRIBE.\<close>

definition codes_ack :: "byte \<Rightarrow> packet \<Rightarrow> byte list \<Rightarrow> code \<Rightarrow> packet" where
  "codes_ack ty pk reasonCodes code =
    (let ack = no_packet\<lparr>pkFixedHeader := no_header\<lparr>fhType := ty\<rparr>, pkPacketID := pkPacketID pk,
           pkReasonCodes := reasonCodes,
           pkProperties := no_properties\<lparr>pUser := pUser (pkProperties pk)\<rparr>\<rparr>
     in if Code code \<ge> Code ErrUnspecifiedError
        then pkProperties_update (pReasonString_update (\<lambda>_. Reason code)) ack else ack)"

definition identifier_code :: "cref \<Rightarrow> packet \<Rightarrow> 's server \<Rightarrow> code" where
  "identifier_code r pk sv =
    (if Inflight_Get (clInflight (svHeap sv r)) (pkPacketID pk) \<noteq> None
     then ErrPacketIdentifierInUse else CodeSuccess)"

definition processSubscribe :: "int \<Rightarrow> cref \<Rightarrow> packet \<Rightarrow> 's server \<Rightarrow> error option \<times> 's server" where
  "processSubscribe now r pk sv =
    (let (pk, sv) = ask (\<lambda>hs s. Hooks_OnSubscribe hs s (svHeap sv r) pk) sv;
         code = identifier_code r pk sv;
         (results, sv) = subscribe_all r code (pkFilters pk) sv;
         ack = codes_ack Suback pk (map fst results) code;
         sv = notify (\<lambda>hs s. Hooks_OnSubscribed hs s (svHeap sv r) pk (map fst results)) sv
     in case WriteTo now r ack sv of
          (Some err, sv) \<Rightarrow> (Some err, sv)
        | (None, sv) \<Rightarrow>
            (None, fold (\<lambda>(sub, c, existed) sv.
               if c \<ge> Code ErrUnspecifiedError then sv else publishRetainedToClient now r sub existed sv)
               (zip (pkFilters pk) results) sv))"

definition unsubscribe_one :: "cref \<Rightarrow> code \<Rightarrow> subscription \<Rightarrow> 's server \<Rightarrow> byte \<times> 's server" where
  "unsubscribe_one r code sub sv =
    (if code \<noteq> CodeSuccess then (Code code, sv)
     else
       let (x, q) = TopicsIndex_Unsubscribe (sFilter sub) (clID (svHeap sv r)) (svTopics sv);
           sv = sv\<lparr>svTopics := x\<rparr>;
           sv = (if q then tally (SubscriptionsCount_update (\<lambda>n. n - 1)) sv else sv)
       in (if q then Code CodeSuccess else Code CodeNoSubscriptionExisted,
           upd_client r (upd_state (csSubscriptions_update (Subscriptions_Delete (sFilter sub)))) sv))"

fun unsubscribe_all :: "cref \<Rightarrow> code \<Rightarrow> subscription list \<Rightarrow> 's server \<Rightarrow> byte list \<times> 's server" where
  "unsubscribe_all r code [] sv = ([], sv)"
| "unsubscribe_all r code (sub # subs) sv =
    (let (c, sv) = unsubscribe_one r code sub sv; (cs, sv) = unsubscribe_all r code subs sv in (c # cs, sv))"

definition processUnsubscribe :: "int \<Rightarrow> cref \<Rightarrow> packet \<Rightarrow> 's server \<Rightarrow> error option \<times> 's server" where
  "processUnsubscribe now r pk sv =
    (let code = identifier_code r pk sv;
         (pk, sv) = ask (\<lambda>hs s. Hooks_OnUnsubscribe hs s (svHeap sv r) pk) sv;
         (reasonCodes, sv) = unsubscribe_all r code (pkFilters pk) sv;
         sv = notify (\<lambda>hs s. Hooks_OnUnsubscribed hs s (svHeap sv r) pk) sv
     in WriteTo now r (codes_ack Unsuback pk reasonCodes code) sv)"

definition drop_subscription :: "gostring \<Rightarrow> gostring \<Rightarrow> 's server \<Rightarrow> 's server" where
  "drop_subscription name flt sv =
    (let (x, q) = TopicsIndex_Unsubscribe flt name (svTopics sv);
         sv = sv\<lparr>svTopics := x\<rparr>
     in if q then tally (SubscriptionsCount_update (\<lambda>n. n - 1)) sv else sv)"

definition UnsubscribeClient :: "cref \<Rightarrow> 's server \<Rightarrow> 's server" where
  "UnsubscribeClient r sv =
    (let filterMap = Subscriptions_GetAll (csSubscriptions (clState (svHeap sv r)));
         sv = upd_client r (upd_state (csSubscriptions_update
                (fold (\<lambda>(k, _). Subscriptions_Delete k) filterMap))) sv
     in if IsTakenOver (svHeap sv r) then sv
        else
          let sv = fold (\<lambda>(k, _). drop_subscription (clID (svHeap sv r)) k) filterMap sv
          in notify (\<lambda>hs s. Hooks_OnUnsubscribed hs s (svHeap sv r)
               (no_packet\<lparr>pkFixedHeader := no_header\<lparr>fhType := Unsubscribe\<rparr>,
                  pkFilters := map snd filterMap\<rparr>)) sv)"

section \<open>The other packets\<close>

definition processConnect :: "int \<Rightarrow> cref \<Rightarrow> packet \<Rightarrow> 's server \<Rightarrow> error option \<times> 's server" where
  "processConnect now r pk sv = (Some (ECode ErrProtocolViolationSecondConnect), sendLWT now r sv)"

definition processPingreq :: "int \<Rightarrow> cref \<Rightarrow> packet \<Rightarrow> 's server \<Rightarrow> error option \<times> 's server" where
  "processPingreq now r pk sv = WriteTo now r (no_packet\<lparr>pkFixedHeader := no_header\<lparr>fhType := Pingresp\<rparr>\<rparr>) sv"

definition processAuth :: "int \<Rightarrow> cref \<Rightarrow> packet \<Rightarrow> 's server \<Rightarrow> error option \<times> 's server" where
  "processAuth now r pk sv =
    (let ((_, err), sv) = ask (\<lambda>hs s. Hooks_OnAuthPacket hs s (svHeap sv r) pk) sv in (err, sv))"

definition processDisconnect :: "int \<Rightarrow> cref \<Rightarrow> packet \<Rightarrow> 's server \<Rightarrow> error option \<times> 's server" where
  "processDisconnect now r pk sv =
    (let p = pkProperties pk;
         session = (\<lambda>cl. clProperties_update (cpProps_update (\<lambda>props. props\<lparr>
           pSessionExpiryInterval := pSessionExpiryInterval p, pSessionExpiryIntervalFlag := True\<rparr>)) cl)
     in if pSessionExpiryIntervalFlag p \<and> pSessionExpiryInterval p > 0
           \<and> pSessionExpiryInterval (cpProps (clProperties (svHeap sv r))) = 0
        then (Some (ECode ErrProtocolViolationZeroNonZeroExpiry), sv)
        else
          let sv = (if pSessionExpiryIntervalFlag p then upd_client r session sv else sv)
          in if pkReasonCode pk = Code CodeDisconnectWillMessage then (Some (ECode CodeDisconnectWillMessage), sv)
             else
               let sv = sv\<lparr>svWillDelayed := Packets_Delete (clID (svHeap sv r)) (svWillDelayed sv)\<rparr>
               in (None, upd_client r (Stop now (Some (ECode CodeDisconnect))) sv))"

section \<open>Dispatch\<close>

definition dispatch :: "int \<Rightarrow> cref \<Rightarrow> packet \<Rightarrow> 's server \<Rightarrow> error option \<times> 's server" where
  "dispatch now r pk sv =
    (let t = fhType (pkFixedHeader pk)
     in if t = Connect then processConnect now r pk sv
        else if t = Disconnect then processDisconnect now r pk sv
        else if t = Pingreq then processPingreq now r pk sv
        else if t = Publish then processPublish now r pk sv
        else if t = Puback then processPuback now r pk sv
        else if t = Pubrec then processPubrec now r pk sv
        else if t = Pubrel then processPubrel now r pk sv
        else if t = Pubcomp then processPubcomp now r pk sv
        else if t = Subscribe then processSubscribe now r pk sv
        else if t = Unsubscribe then processUnsubscribe now r pk sv
        else processAuth now r pk sv)"

text \<open>What is refused before a handler runs: malformed requests and types that no server receives.\<close>

definition refusal :: "capabilities \<Rightarrow> packet \<Rightarrow> error option" where
  "refusal c pk =
    (let t = fhType (pkFixedHeader pk);
         verdict = (\<lambda>code. if code \<noteq> CodeSuccess then Some (ECode code) else None)
     in if t = Publish then verdict (PublishValidate pk (TopicAliasMaximum c))
        else if t = Subscribe then verdict (SubscribeValidate pk)
        else if t = Unsubscribe then verdict (UnsubscribeValidate pk)
        else if t = Auth then verdict (AuthValidate pk)
        else if t \<in> {Connect, Disconnect, Pingreq, Puback, Pubrec, Pubrel, Pubcomp} then None
        else Some (ENew (lit ''no valid packet available; '' @ FormatUint (unat t))))"

text \<open>The message that waits for the quota, after every packet that was processed.\<close>

definition send_held :: "int \<Rightarrow> cref \<Rightarrow> 's server \<Rightarrow> 's server" where
  "send_held now r sv =
    (let i = clInflight (svHeap sv r)
     in if Inflight_Len i > 0 \<and> iSendQuota i > 0 then
          (case Inflight_NextImmediate i of
             None \<Rightarrow> sv
           | Some nxt \<Rightarrow>
               let (_, sv) = WriteTo now r nxt sv;
                   (ok, sv) = del_inflight r (pkPacketID nxt) sv;
                   sv = (if ok then tally (InflightCount_update (\<lambda>n. n - 1)) sv else sv)
               in upd_client r (upd_inflight DecreaseSendQuota) sv)
        else sv)"

definition processPacket :: "int \<Rightarrow> cref \<Rightarrow> packet \<Rightarrow> 's server \<Rightarrow> error option \<times> 's server" where
  "processPacket now r pk sv =
    (case refusal (svCaps sv) pk of
       Some err \<Rightarrow> (Some err, sv)
     | None \<Rightarrow>
         let (err, sv) = dispatch now r pk sv;
             sv = notify (\<lambda>hs s. Hooks_OnPacketProcessed hs s (svHeap sv r) pk err) sv
         in case err of Some e \<Rightarrow> (Some e, sv) | None \<Rightarrow> (None, send_held now r sv))"

definition receivePacket :: "int \<Rightarrow> cref \<Rightarrow> packet \<Rightarrow> 's server \<Rightarrow> error option \<times> 's server" where
  "receivePacket now r pk sv =
    (case processPacket now r pk sv of
       (None, sv) \<Rightarrow> (None, sv)
     | (Some err, sv) \<Rightarrow>
         (case as_code err of
            Some code \<Rightarrow>
              if cpProtocolVersion (clProperties (svHeap sv r)) = 5 \<and> Code code \<ge> Code ErrUnspecifiedError
              then (Some err, snd (DisconnectClient now r code sv)) else (Some err, sv)
          | None \<Rightarrow> (Some err, sv)))"

section \<open>Calls of the embedding program\<close>

definition ErrInlineClientNotEnabled :: error where
  "ErrInlineClientNotEnabled = ENew (lit ''please set Options.InlineClient=true to use this feature'')"

definition InjectPacket :: "int \<Rightarrow> cref \<Rightarrow> packet \<Rightarrow> 's server \<Rightarrow> error option \<times> 's server" where
  "InjectPacket now r pk sv =
    (let pk = pk\<lparr>pkProtocolVersion := cpProtocolVersion (clProperties (svHeap sv r))\<rparr>
     in case processPacket now r pk sv of
          (Some err, sv) \<Rightarrow> (Some err, sv)
        | (None, sv) \<Rightarrow>
            (None, tally (\<lambda>i. i\<lparr>PacketsReceived := PacketsReceived i + 1,
               MessagesReceived := (if fhType (pkFixedHeader pk) = Publish
                 then MessagesReceived i + 1 else MessagesReceived i)\<rparr>) sv))"

definition Server_Publish ::
    "int \<Rightarrow> gostring \<Rightarrow> byte list \<Rightarrow> bool \<Rightarrow> byte \<Rightarrow> 's server \<Rightarrow> error option \<times> 's server" where
  "Server_Publish now topic payload retain qos sv =
    (if \<not> oInlineClient (opOptions (svOps sv)) then (Some ErrInlineClientNotEnabled, sv)
     else case svInlineClient sv of
       None \<Rightarrow> (Some EPanic, sv)
     | Some r \<Rightarrow> InjectPacket now r (no_packet\<lparr>
         pkFixedHeader := no_header\<lparr>fhType := Publish, fhQos := qos, fhRetain := retain\<rparr>,
         pkTopicName := topic, pkPayload := payload, pkPacketID := ucast qos\<rparr>) sv)"

definition Server_Subscribe ::
    "gostring \<Rightarrow> int \<Rightarrow> nat option \<Rightarrow> 's server \<Rightarrow> error option \<times> 's server" where
  "Server_Subscribe flt subscriptionId handler sv =
    (if \<not> oInlineClient (opOptions (svOps sv)) then (Some ErrInlineClientNotEnabled, sv)
     else case handler of
       None \<Rightarrow> (Some (ECode ErrInlineSubscriptionHandlerInvalid), sv)
     | Some handler \<Rightarrow>
         if \<not> IsValidFilter flt False then (Some (ECode ErrTopicFilterInvalid), sv)
         else case svInlineClient sv of
           None \<Rightarrow> (Some EPanic, sv)
         | Some r \<Rightarrow>
             let sub = no_subscription\<lparr>sIdentifier := subscriptionId, sFilter := flt\<rparr>;
                 (pk, sv) = ask (\<lambda>hs s. Hooks_OnSubscribe hs s (svHeap sv r)
                   (no_packet\<lparr>pkOrigin := clID (svHeap sv r),
                      pkFixedHeader := no_header\<lparr>fhType := Subscribe\<rparr>, pkFilters := [sub]\<rparr>)) sv;
                 inline = \<lparr>isSubscription = sub, isHandler = handler\<rparr>;
                 sv = sv\<lparr>svTopics := fst (TopicsIndex_InlineSubscribe inline (svTopics sv))\<rparr>;
                 sv = notify (\<lambda>hs s. Hooks_OnSubscribed hs s (svHeap sv r) pk [Code CodeSuccess]) sv
             in (None, sv\<lparr>svDelivered := svDelivered sv
                   @ map (\<lambda>pkv. (inline, pkv)) (TopicsIndex_Messages flt (svTopics sv))\<rparr>))"

definition Server_Unsubscribe :: "gostring \<Rightarrow> int \<Rightarrow> 's server \<Rightarrow> error option \<times> 's server" where
  "Server_Unsubscribe flt subscriptionId sv =
    (if \<not> oInlineClient (opOptions (svOps sv)) then (Some ErrInlineClientNotEnabled, sv)
     else if \<not> IsValidFilter flt False then (Some (ECode ErrTopicFilterInvalid), sv)
     else case svInlineClient sv of
       None \<Rightarrow> (Some EPanic, sv)
     | Some r \<Rightarrow>
         let (pk, sv) = ask (\<lambda>hs s. Hooks_OnUnsubscribe hs s (svHeap sv r)
               (no_packet\<lparr>pkOrigin := clID (svHeap sv r),
                  pkFixedHeader := no_header\<lparr>fhType := Unsubscribe\<rparr>,
                  pkFilters := [no_subscription\<lparr>sIdentifier := subscriptionId, sFilter := flt\<rparr>]\<rparr>)) sv;
             sv = sv\<lparr>svTopics := fst (TopicsIndex_InlineUnsubscribe subscriptionId flt (svTopics sv))\<rparr>
         in (None, notify (\<lambda>hs s. Hooks_OnUnsubscribed hs s (svHeap sv r) pk) sv))"

end
