(* ===== verification/Mqtt_Session.thy ===== *)
theory Mqtt_Session
  imports Mqtt_Handlers
begin

text \<open>
  The life of a connection, \<open>attachClient\<close> and what it calls in \<open>server.go\<close>: the CONNECT packet, the
  checks, the take-over of an existing session, the loop that reads packets, and the end of the
  client.  The input of a client is all the bytes its peer ever sends, followed by the end of the
  stream.  Deadlines of the connection are not part of the state.
\<close>

section \<open>Connecting\<close>

definition readConnectionPacket :: "cref \<Rightarrow> 's server \<Rightarrow> (error + packet) \<times> 's server" where
  "readConnectionPacket r sv =
    (case on_client r ReadFixedHeader sv of
       (Inl err, sv) \<Rightarrow> (Inl err, sv)
     | (Inr fh, sv) \<Rightarrow>
         if fhType fh \<noteq> Connect then (Inl (ECode ErrProtocolViolationRequireFirstConnect), sv)
         else on_client r (ReadPacket fh) sv)"

definition validateConnect :: "capabilities \<Rightarrow> client \<Rightarrow> packet \<Rightarrow> code" where
  "validateConnect c cl pk =
    (let code = ConnectValidate pk; p = clProperties cl
     in if code \<noteq> CodeSuccess then code
        else if cpProtocolVersion p < 5 \<and> \<not> cClean (pkConnect pk) \<and> cClientIdentifier (pkConnect pk) = []
        then ErrUnspecifiedError
        else if cpProtocolVersion p < MinimumProtocolVersion c then ErrUnsupportedProtocolVersion
        else if wQos (cpWill p) > MaximumQos c then ErrQosNotSupported
        else if wRetain (cpWill p) \<and> RetainAvailable c = 0 then ErrRetainNotSupported
        else code)"

text \<open>The properties of a CONNACK with any reason, and with a reason that is no error.\<close>

definition connack_base :: "capabilities \<Rightarrow> client \<Rightarrow> properties option \<Rightarrow> properties" where
  "connack_base c cl given =
    (let p = (case given of None \<Rightarrow> no_properties | Some p \<Rightarrow> p)\<lparr>pReceiveMaximum := ReceiveMaximum c\<rparr>
     in if csServerKeepalive (clState cl)
        then p\<lparr>pServerKeepAlive := csKeepalive (clState cl), pServerKeepAliveFlag := True\<rparr> else p)"

definition connack_granted :: "capabilities \<Rightarrow> client \<Rightarrow> properties \<Rightarrow> properties" where
  "connack_granted c cl p =
    (let p = (if MaximumQos c < 2 then p\<lparr>pMaximumQos := MaximumQos c, pMaximumQosFlag := True\<rparr> else p);
         ident = pAssignedClientID (cpProps (clProperties cl));
         p = (if ident \<noteq> [] then p\<lparr>pAssignedClientID := ident\<rparr> else p)
     in if pSessionExpiryInterval (cpProps (clProperties cl)) > MaximumSessionExpiryInterval c
        then p\<lparr>pSessionExpiryInterval := MaximumSessionExpiryInterval c, pSessionExpiryIntervalFlag := True\<rparr>
        else p)"

definition cap_session_expiry :: "capabilities \<Rightarrow> client \<Rightarrow> client" where
  "cap_session_expiry c cl =
    (if pSessionExpiryInterval (cpProps (clProperties cl)) > MaximumSessionExpiryInterval c
     then clProperties_update (cpProps_update (\<lambda>p. p\<lparr>
            pSessionExpiryInterval := MaximumSessionExpiryInterval c, pSessionExpiryIntervalFlag := True\<rparr>)) cl
     else cl)"

definition SendConnack ::
    "int \<Rightarrow> cref \<Rightarrow> code \<Rightarrow> bool \<Rightarrow> properties option \<Rightarrow> 's server \<Rightarrow> error option \<times> 's server" where
  "SendConnack now r reason present given sv =
    (let cl = svHeap sv r; c = svCaps sv;
         p = connack_base c cl given;
         ack = no_packet\<lparr>pkFixedHeader := no_header\<lparr>fhType := Connack\<rparr>\<rparr>
     in if Code reason \<ge> Code ErrUnspecifiedError then
          (let reason = (if cpProtocolVersion (clProperties cl) < 5
                 then (case m_get V5CodesToV3 reason of Some v3 \<Rightarrow> v3 | None \<Rightarrow> reason) else reason)
           in WriteTo now r (ack\<lparr>pkSessionPresent := False, pkReasonCode := Code reason,
                pkProperties := p\<lparr>pReasonString := Reason reason\<rparr>\<rparr>) sv)
        else
          WriteTo now r (ack\<lparr>pkSessionPresent := present, pkReasonCode := Code reason,
            pkProperties := connack_granted c cl p\<rparr>) (upd_client r (cap_session_expiry c) sv))"

section \<open>Taking over a session\<close>

text \<open>\<open>Client.ClearInflights\<close> of the client behind a reference.\<close>

definition clear_inflights :: "cref \<Rightarrow> 's server \<Rightarrow> 's server" where
  "clear_inflights r sv =
    (let (cl, op) = ClearInflights (svHeap sv r) (svOps sv)
     in sv\<lparr>svHeap := (svHeap sv)(r := cl), svOps := op\<rparr>)"

definition mark_taken_over :: "cref \<Rightarrow> 's server \<Rightarrow> 's server" where
  "mark_taken_over r sv = upd_client r (upd_state (csIsTakenOver_update (\<lambda>_. True))) sv"

text \<open>The in-flight messages of the old client, with quotas of the new connection.\<close>

definition inherit_inflight :: "cref \<Rightarrow> cref \<Rightarrow> 's server \<Rightarrow> 's server" where
  "inherit_inflight existing r sv =
    (if Inflight_Len (clInflight (svHeap sv existing)) > 0 then
       (let i = Inflight_Clone (clInflight (svHeap sv existing));
            rm = ReceiveMaximum (svCaps sv);
            i = (if iMaximumReceiveQuota i = 0 \<and> rm \<noteq> 0
                 then ResetSendQuota (uint (pReceiveMaximum (cpProps (clProperties (svHeap sv r)))))
                        (ResetReceiveQuota (uint rm) i)
                 else i)
        in upd_client r (upd_inflight (\<lambda>_. i)) sv)
     else sv)"

definition inherit_subscription :: "cref \<Rightarrow> gostring \<times> subscription \<Rightarrow> 's server \<Rightarrow> 's server" where
  "inherit_subscription r = (\<lambda>(_, sub) sv.
    (let (x, isNew) = TopicsIndex_Subscribe (clID (svHeap sv r)) sub (svTopics sv);
         sv = sv\<lparr>svTopics := x\<rparr>;
         sv = (if isNew then tally (SubscriptionsCount_update (\<lambda>n. n + 1)) sv else sv)
     in upd_client r (upd_state (csSubscriptions_update (Subscriptions_Add (sFilter sub) sub))) sv))"

definition inheritClientSession :: "int \<Rightarrow> packet \<Rightarrow> cref \<Rightarrow> 's server \<Rightarrow> bool \<times> 's server" where
  "inheritClientSession now pk r sv =
    (case Clients_Get (svClients sv) (clID (svHeap sv r)) of
       Some existing \<Rightarrow>
         let (_, sv) = DisconnectClient now existing ErrSessionTakenOver sv;
             p = clProperties (svHeap sv existing)
         in if cClean (pkConnect pk) \<or> (cpClean p \<and> cpProtocolVersion p < 5) then
              (False, mark_taken_over existing (clear_inflights existing (UnsubscribeClient existing sv)))
            else
              let sv = mark_taken_over existing sv;
                  sv = inherit_inflight existing r sv;
                  sv = fold (inherit_subscription r)
                         (Subscriptions_GetAll (csSubscriptions (clState (svHeap sv existing)))) sv
              in (True, clear_inflights existing (UnsubscribeClient existing sv))
     | None \<Rightarrow>
         (False, if ClientsConnected (svInfo sv) > ClientsMaximum (svInfo sv)
                 then tally (ClientsMaximum_update (\<lambda>n. n + 1)) sv else sv))"

section \<open>Establishing a session\<close>

text \<open>
  How \<open>attachClient\<close> goes on after its first part: it returns at once, it returns after the
  client was counted as connected, or it reads packets.
\<close>

datatype attached = Refused error | Broken error | Attached packet

text \<open>From the point where the client is authenticated.\<close>

definition open_session :: "int \<Rightarrow> packet \<Rightarrow> cref \<Rightarrow> 's server \<Rightarrow> attached \<times> 's server" where
  "open_session now pk r sv =
    (let sv = tally (ClientsConnected_update (\<lambda>n. n + 1)) sv;
         sv = notify (\<lambda>hs s. Hooks_OnSessionEstablish hs s (svHeap sv r) pk) sv;
         (sessionPresent, sv) = inheritClientSession now pk r sv;
         sv = sv\<lparr>svClients := Clients_Add (clID (svHeap sv r), r) (svClients sv)\<rparr>
     in case SendConnack now r CodeSuccess sessionPresent None sv of
          (Some err, sv) \<Rightarrow> (Broken (ECtx (lit ''ack connection packet: '') err), sv)
        | (None, sv) \<Rightarrow>
            let sv = sv\<lparr>svWillDelayed := Packets_Delete (clID (svHeap sv r)) (svWillDelayed sv)\<rparr>
            in case (if sessionPresent then on_client r (ResendInflightMessages now) sv else (None, sv)) of
                 (Some err, sv) \<Rightarrow> (Broken (ECtx (lit ''resend inflight: '') err), sv)
               | (None, sv) \<Rightarrow>
                   (Attached pk, notify (\<lambda>hs s. Hooks_OnSessionEstablished hs s (svHeap sv r) pk) sv))"

definition refuse :: "int \<Rightarrow> cref \<Rightarrow> code \<Rightarrow> 's server \<Rightarrow> attached \<times> 's server" where
  "refuse now r code sv =
    (case SendConnack now r code False None sv of
       (Some err, sv) \<Rightarrow> (Refused (ECtx (lit ''invalid connection send ack: '') err), sv)
     | (None, sv) \<Rightarrow> (Refused (ECode code), sv))"

text \<open>From the point where the CONNECT packet was read and parsed.\<close>

definition admit :: "int \<Rightarrow> packet \<Rightarrow> cref \<Rightarrow> 's server \<Rightarrow> attached \<times> 's server" where
  "admit now pk r sv =
    (if ClientsConnected (svInfo sv) \<ge> MaximumClients (svCaps sv) then
       (let code = (if cpProtocolVersion (clProperties (svHeap sv r)) < 5
                    then ErrServerUnavailable else ErrServerBusy)
        in (Refused (ECode ErrServerBusy), snd (SendConnack now r code False None sv)))
     else
       let code = validateConnect (svCaps sv) (svHeap sv r) pk
       in if code \<noteq> CodeSuccess then refuse now r code sv
          else case ask (\<lambda>hs s. Hooks_OnConnect hs s (svHeap sv r) pk) sv of
            (Some err, sv) \<Rightarrow> (Refused err, sv)
          | (None, sv) \<Rightarrow>
              let (ok, sv) = ask (\<lambda>hs s. Hooks_OnConnectAuthenticate hs s (svHeap sv r) pk) sv
              in if \<not> ok then refuse now r ErrBadUsernameOrPassword sv
                 else open_session now pk r sv)"

definition establish :: "int \<Rightarrow> gostring \<Rightarrow> gostring \<Rightarrow> cref \<Rightarrow> 's server \<Rightarrow> attached \<times> 's server" where
  "establish now fresh listener r sv =
    (case readConnectionPacket r sv of
       (Inl err, sv) \<Rightarrow> (Refused (ECtx (lit ''read connection: '') err), sv)
     | (Inr pk, sv) \<Rightarrow> admit now pk r (upd_client r (ParseConnect (svOps sv) fresh listener pk) sv))"

section \<open>Reading\<close>

text \<open>One turn of \<open>Client.Read\<close>: None to go on, else what the loop returns.\<close>

definition Read_turn :: "int \<Rightarrow> cref \<Rightarrow> 's server \<Rightarrow> error option option \<times> 's server" where
  "Read_turn now r sv =
    (if Closed (svHeap sv r) then (Some None, sv)
     else case on_client r ReadFixedHeader sv of
       (Inl err, sv) \<Rightarrow> (Some (Some err), sv)
     | (Inr fh, sv) \<Rightarrow>
         (case on_client r (ReadPacket fh) sv of
            (Inl err, sv) \<Rightarrow> (Some (Some err), sv)
          | (Inr pk, sv) \<Rightarrow>
              (case receivePacket now r pk sv of
                 (Some err, sv) \<Rightarrow> (Some (Some err), sv)
               | (None, sv) \<Rightarrow> (None, sv))))"

text \<open>One turn of the goroutine that writes what is queued for a client.\<close>

definition Write_turn :: "int \<Rightarrow> cref \<Rightarrow> 's server \<Rightarrow> 's server" where
  "Write_turn now r sv =
    (let (cl, op) = WriteLoop_turn now (svHeap sv r) (svOps sv)
     in sv\<lparr>svHeap := (svHeap sv)(r := cl), svOps := op\<rparr>)"

text \<open>The loop, with the time of every turn; a loop that does not end is None.\<close>

partial_function (option) Read ::
    "(nat \<Rightarrow> int) \<Rightarrow> nat \<Rightarrow> cref \<Rightarrow> 's server \<Rightarrow> (error option \<times> 's server) option" where
  "Read clock k r sv =
    (case Read_turn (clock k) r sv of
       (Some result, sv) \<Rightarrow> Some (result, sv)
     | (None, sv) \<Rightarrow> Read clock (k + 1) r sv)"

section \<open>The end of a client\<close>

text \<open>The connection ends at the time \<open>finish\<close>.\<close>

definition expires :: "client_properties \<Rightarrow> bool" where
  "expires p \<longleftrightarrow> (cpProtocolVersion p = 5 \<and> pSessionExpiryInterval (cpProps p) = 0)
     \<or> (cpProtocolVersion p < 5 \<and> cpClean p)"

text \<open>The deferred calls of \<open>attachClient\<close>.\<close>

definition leave :: "int \<Rightarrow> bool \<Rightarrow> cref \<Rightarrow> 's server \<Rightarrow> 's server" where
  "leave now counted r sv =
    (let sv = (if counted then tally (ClientsConnected_update (\<lambda>n. n - 1)) sv else sv)
     in upd_client r (Stop now None) sv)"

definition end_session :: "int \<Rightarrow> cref \<Rightarrow> error option \<Rightarrow> 's server \<Rightarrow> 's server" where
  "end_session now r err sv =
    (let sv = (case err of
                 Some e \<Rightarrow> upd_client r (Stop now (Some e)) (sendLWT now r sv)
               | None \<Rightarrow> upd_client r (clProperties_update (cpWill_update (\<lambda>_. no_will))) sv);
         expire = expires (clProperties (svHeap sv r));
         sv = notify (\<lambda>hs s. Hooks_OnDisconnect hs s (svHeap sv r) err expire) sv;
         sv = (if expire \<and> \<not> IsTakenOver (svHeap sv r) then
                 (let sv = UnsubscribeClient r (clear_inflights r sv)
                  in sv\<lparr>svClients := Clients_Delete (clID (svHeap sv r)) (svClients sv)\<rparr>)
               else sv)
     in leave now True r sv)"

definition attachClient ::
    "(nat \<Rightarrow> int) \<Rightarrow> int \<Rightarrow> gostring \<Rightarrow> gostring \<Rightarrow> cref \<Rightarrow> 's server \<Rightarrow> (error option \<times> 's server) option" where
  "attachClient clock finish fresh listener r sv =
    (case establish (clock 0) fresh listener r sv of
       (Refused err, sv) \<Rightarrow> Some (Some err, leave finish False r sv)
     | (Broken err, sv) \<Rightarrow> Some (Some err, leave finish True r sv)
     | (Attached pk, sv) \<Rightarrow>
         (case Read clock 1 r sv of
            None \<Rightarrow> None
          | Some (err, sv) \<Rightarrow> Some (err, end_session finish r err sv)))"

definition EstablishConnection ::
    "(nat \<Rightarrow> int) \<Rightarrow> int \<Rightarrow> gostring \<Rightarrow> gostring \<Rightarrow> gostring \<times> byte list \<Rightarrow> 's server
      \<Rightarrow> (error option \<times> 's server) option" where
  "EstablishConnection clock finish fresh listener conn sv =
    (let (r, sv) = NewClient (Some conn) listener [] False sv in attachClient clock finish fresh listener r sv)"

end
