(* ===== verification/Mqtt_Housekeeping.thy ===== *)
theory Mqtt_Housekeeping
  imports Mqtt_Session
begin

text \<open>
  What the server does on its own, \<open>server.go\<close>: the ticks of its event loop (expiry of sessions,
  retained messages and in-flight messages, delayed wills, the \<open>$SYS\<close> topics), the restore from a
  store, starting and closing.
\<close>

section \<open>Expiry\<close>

text \<open>The expiry interval that counts for a disconnected client.\<close>

definition session_expiry :: "capabilities \<Rightarrow> client \<Rightarrow> u32" where
  "session_expiry c cl =
    (let p = clProperties cl
     in if cpProtocolVersion p = 5 \<and> pSessionExpiryIntervalFlag (cpProps p)
        then pSessionExpiryInterval (cpProps p) else MaximumSessionExpiryInterval c)"

definition session_expired :: "int \<Rightarrow> capabilities \<Rightarrow> client \<Rightarrow> bool" where
  "session_expired dt c cl \<longleftrightarrow>
     StopTime cl \<noteq> 0 \<and> StopTime cl + uint (session_expiry c cl) < dt"

definition expire_client :: "int \<Rightarrow> gostring \<times> cref \<Rightarrow> 's server \<Rightarrow> 's server" where
  "expire_client dt = (\<lambda>(name, r) sv.
    (if session_expired dt (svCaps sv) (svHeap sv r) then
       (let sv = notify (\<lambda>hs s. Hooks_OnClientExpired hs s (svHeap sv r)) sv
        in sv\<lparr>svClients := Clients_Delete name (svClients sv)\<rparr>)
     else sv))"

definition clearExpiredClients :: "int \<Rightarrow> 's server \<Rightarrow> 's server" where
  "clearExpiredClients dt sv = fold (expire_client dt) (Clients_GetAll (svClients sv)) sv"

definition retained_expired :: "int \<Rightarrow> capabilities \<Rightarrow> packet \<Rightarrow> bool" where
  "retained_expired now c pk \<longleftrightarrow>
     (pkProtocolVersion pk = 5 \<and> pkExpiry pk > 0 \<and> pkExpiry pk < now)
     \<or> (MaximumMessageExpiryInterval c > 0 \<and> now - pkCreated pk > MaximumMessageExpiryInterval c)"

definition expire_retained :: "int \<Rightarrow> gostring \<times> packet \<Rightarrow> 's server \<Rightarrow> 's server" where
  "expire_retained now = (\<lambda>(flt, pk) sv.
    (if retained_expired now (svCaps sv) pk then
       notify (\<lambda>hs s. Hooks_OnRetainedExpired hs s flt)
         (sv\<lparr>svTopics := (svTopics sv)\<lparr>tiRetained := Packets_Delete flt (tiRetained (svTopics sv))\<rparr>\<rparr>)
     else sv))"

definition clearExpiredRetainedMessages :: "int \<Rightarrow> 's server \<Rightarrow> 's server" where
  "clearExpiredRetainedMessages now sv =
     fold (expire_retained now) (Packets_GetAll (tiRetained (svTopics sv))) sv"

definition expire_inflights :: "int \<Rightarrow> gostring \<times> cref \<Rightarrow> 's server \<Rightarrow> 's server" where
  "expire_inflights now = (\<lambda>(_, r) sv.
    (let ((cl, op), deleted) = ClearExpiredInflights now (MaximumMessageExpiryInterval (svCaps sv))
                                 (svHeap sv r) (svOps sv);
         sv = sv\<lparr>svHeap := (svHeap sv)(r := cl), svOps := op\<rparr>
     in fold (\<lambda>k. notify (\<lambda>hs s. Hooks_OnQosDropped hs s cl (no_packet\<lparr>pkPacketID := k\<rparr>))) deleted sv))"

definition clearExpiredInflights :: "int \<Rightarrow> 's server \<Rightarrow> 's server" where
  "clearExpiredInflights now sv = fold (expire_inflights now) (Clients_GetAll (svClients sv)) sv"

section \<open>Delayed wills\<close>

definition send_delayed :: "int \<Rightarrow> int \<Rightarrow> gostring \<times> packet \<Rightarrow> 's server \<Rightarrow> 's server" where
  "send_delayed now dt = (\<lambda>(name, pk) sv.
    (if dt > pkExpiry pk then
       (let sv = publishToSubscribers now pk sv;
            sv = (case Clients_Get (svClients sv) name of
                    None \<Rightarrow> sv
                  | Some r \<Rightarrow>
                      let sv = (if fhRetain (pkFixedHeader pk) then retainMessage r pk sv else sv);
                          sv = upd_client r (clProperties_update (cpWill_update (\<lambda>_. no_will))) sv
                      in notify (\<lambda>hs s. Hooks_OnWillSent hs s (svHeap sv r) pk) sv)
        in sv\<lparr>svWillDelayed := Packets_Delete name (svWillDelayed sv)\<rparr>)
     else sv))"

definition sendDelayedLWT :: "int \<Rightarrow> 's server \<Rightarrow> 's server" where
  "sendDelayedLWT dt sv = fold (send_delayed dt dt) (Packets_GetAll (svWillDelayed sv)) sv"

section \<open>System topics\<close>

definition ch_minus :: byte where [simp]: "ch_minus = 45"

definition Int64toa :: "int \<Rightarrow> gostring" where
  "Int64toa v = (if v < 0 then ch_minus # FormatUint (nat (- v)) else FormatUint (nat v))"

definition sys_topics :: "sys_info \<Rightarrow> (gostring \<times> gostring) list" where
  "sys_topics i = map (\<lambda>(topic, v). (SysPrefix @ lit topic, v))
    [(''/broker/version'', Version i),
     (''/broker/time'', Int64toa (SysTime i)),
     (''/broker/uptime'', Int64toa (Uptime i)),
     (''/broker/started'', Int64toa (Started i)),
     (''/broker/load/bytes/received'', Int64toa (BytesReceived i)),
     (''/broker/load/bytes/sent'', Int64toa (BytesSent i)),
     (''/broker/clients/connected'', Int64toa (ClientsConnected i)),
     (''/broker/clients/disconnected'', Int64toa (ClientsDisconnected i)),
     (''/broker/clients/maximum'', Int64toa (ClientsMaximum i)),
     (''/broker/clients/total'', Int64toa (ClientsTotal i)),
     (''/broker/packets/received'', Int64toa (PacketsReceived i)),
     (''/broker/packets/sent'', Int64toa (PacketsSent i)),
     (''/broker/messages/received'', Int64toa (MessagesReceived i)),
     (''/broker/messages/sent'', Int64toa (MessagesSent i)),
     (''/broker/messages/dropped'', Int64toa (MessagesDropped i)),
     (''/broker/messages/inflight'', Int64toa (InflightCount i)),
     (''/broker/retained'', Int64toa (RetainedCount i)),
     (''/broker/subscriptions'', Int64toa (SubscriptionsCount i)),
     (''/broker/system/memory'', Int64toa (MemoryAlloc i)),
     (''/broker/system/threads'', Int64toa (Threads i))]"

definition publish_sys :: "int \<Rightarrow> gostring \<times> gostring \<Rightarrow> 's server \<Rightarrow> 's server" where
  "publish_sys now = (\<lambda>(topic, payload) sv.
    (let pk = no_packet\<lparr>pkFixedHeader := no_header\<lparr>fhType := Publish, fhRetain := True\<rparr>,
                pkCreated := now, pkTopicName := topic, pkPayload := payload\<rparr>;
         sv = sv\<lparr>svTopics := fst (TopicsIndex_RetainMessage (Packet_Copy pk False) (svTopics sv))\<rparr>
     in publishToSubscribers now pk sv))"

text \<open>\<open>mem\<close> and \<open>threads\<close> are what the Go runtime reports.\<close>

definition publishSysTopics :: "int \<Rightarrow> int \<Rightarrow> int \<Rightarrow> 's server \<Rightarrow> 's server" where
  "publishSysTopics mem threads now sv =
    (let total = int (Clients_Len (svClients sv));
         sv = tally (\<lambda>i. i\<lparr>MemoryAlloc := mem, Threads := threads, SysTime := now,
                Uptime := now - Started i, ClientsTotal := total,
                ClientsDisconnected := total - ClientsConnected i\<rparr>) sv;
         info = Info_Clone (svInfo sv);
         sv = fold (publish_sys now) (sys_topics info) sv
     in notify (\<lambda>hs s. Hooks_OnSysInfoTick hs s info) sv)"

section \<open>Restoring from a store\<close>

definition loadServerInfo :: "sys_info \<Rightarrow> 's server \<Rightarrow> 's server" where
  "loadServerInfo v sv =
    (let sv = (if RestoreSysInfoOnRestart (Compatibilities (svCaps sv)) then
           tally (\<lambda>i. i\<lparr>BytesReceived := BytesReceived v, BytesSent := BytesSent v,
             ClientsMaximum := ClientsMaximum v, ClientsTotal := ClientsTotal v,
             ClientsDisconnected := ClientsDisconnected v, MessagesReceived := MessagesReceived v,
             MessagesSent := MessagesSent v, MessagesDropped := MessagesDropped v,
             PacketsReceived := PacketsReceived v, PacketsSent := PacketsSent v,
             InflightDropped := InflightDropped v\<rparr>) sv
         else sv)
     in tally (\<lambda>i. i\<lparr>RetainedCount := RetainedCount v, InflightCount := InflightCount v,
          SubscriptionsCount := SubscriptionsCount v\<rparr>) sv)"

definition restored_subscription :: "st_subscription \<Rightarrow> subscription" where
  "restored_subscription sub = no_subscription\<lparr>sFilter := tbFilter sub,
     sRetainHandling := tbRetainHandling sub, sQos := tbQos sub,
     sRetainAsPublished := tbRetainAsPublished sub, sNoLocal := tbNoLocal sub,
     sIdentifier := tbIdentifier sub\<rparr>"

definition load_subscription :: "st_subscription \<Rightarrow> 's server \<Rightarrow> 's server" where
  "load_subscription sub sv =
    (let sb = restored_subscription sub;
         (x, isNew) = TopicsIndex_Subscribe (tbClient sub) sb (svTopics sv);
         sv = sv\<lparr>svTopics := x\<rparr>
     in if isNew then
          (case Clients_Get (svClients sv) (tbClient sub) of
             None \<Rightarrow> sv
           | Some r \<Rightarrow> upd_client r (upd_state (csSubscriptions_update (Subscriptions_Add (tbFilter sub) sb))) sv)
        else sv)"

definition loadSubscriptions :: "st_subscription list \<Rightarrow> 's server \<Rightarrow> 's server" where
  "loadSubscriptions v sv = fold load_subscription v sv"

definition restored_properties :: "st_client_properties \<Rightarrow> properties" where
  "restored_properties p = no_properties\<lparr>
     pSessionExpiryInterval := tpSessionExpiryInterval p,
     pSessionExpiryIntervalFlag := tpSessionExpiryIntervalFlag p,
     pAuthenticationMethod := tpAuthenticationMethod p,
     pAuthenticationData := tpAuthenticationData p,
     pRequestProblemInfoFlag := tpRequestProblemInfoFlag p,
     pRequestProblemInfo := tpRequestProblemInfo p,
     pRequestResponseInfo := tpRequestResponseInfo p,
     pReceiveMaximum := tpReceiveMaximum p,
     pTopicAliasMaximum := tpTopicAliasMaximum p,
     pUser := tpUser p,
     pMaximumPacketSize := tpMaximumPacketSize p\<rparr>"

definition load_client :: "int \<Rightarrow> st_client \<Rightarrow> 's server \<Rightarrow> 's server" where
  "load_client now c sv =
    (let (r, sv) = NewClient None (tcListener c) (tcID c) False sv;
         sv = upd_client r (clProperties_update (\<lambda>p. p\<lparr>cpUsername := tcUsername c, cpClean := tcClean c,
                cpProtocolVersion := tcProtocolVersion c, cpProps := restored_properties (tcProperties c),
                cpWill := tcWill c\<rparr>)) sv;
         sv = upd_client r (Stop now (Some (ECode ErrServerShuttingDown))) sv;
         expire = expires (clProperties (svHeap sv r));
         sv = notify (\<lambda>hs s. Hooks_OnDisconnect hs s (svHeap sv r) (Some (ECode ErrServerShuttingDown)) expire) sv
     in if expire then UnsubscribeClient r (clear_inflights r sv)
        else sv\<lparr>svClients := Clients_Add (clID (svHeap sv r), r) (svClients sv)\<rparr>)"

definition loadClients :: "int \<Rightarrow> st_client list \<Rightarrow> 's server \<Rightarrow> 's server" where
  "loadClients now v sv = fold (load_client now) v sv"

definition load_inflight :: "st_message \<Rightarrow> 's server \<Rightarrow> 's server" where
  "load_inflight msg sv =
    (case Clients_Get (svClients sv) (tsClient msg) of
       None \<Rightarrow> sv | Some r \<Rightarrow> snd (set_inflight r (ToPacket msg) sv))"

definition loadInflight :: "st_message list \<Rightarrow> 's server \<Rightarrow> 's server" where
  "loadInflight v sv = fold load_inflight v sv"

definition loadRetained :: "st_message list \<Rightarrow> 's server \<Rightarrow> 's server" where
  "loadRetained v sv =
     fold (\<lambda>msg sv. sv\<lparr>svTopics := fst (TopicsIndex_RetainMessage (ToPacket msg) (svTopics sv))\<rparr>) v sv"

text \<open>One part of \<open>readStore\<close>: nothing without a hook that provides it.\<close>

definition restore ::
    "byte \<Rightarrow> string \<Rightarrow> ('s hook list \<Rightarrow> 's \<Rightarrow> error + 'v) \<Rightarrow> ('v \<Rightarrow> 's server \<Rightarrow> 's server)
      \<Rightarrow> error option \<times> 's server \<Rightarrow> error option \<times> 's server" where
  "restore ev what stored load = (\<lambda>(err, sv).
    (case err of
       Some e \<Rightarrow> (Some e, sv)
     | None \<Rightarrow>
         if Hooks_Provides (opHooks (svOps sv)) [ev] then
           (case stored (opHooks (svOps sv)) (opState (svOps sv)) of
              Inl e \<Rightarrow> (Some (ECtx (lit what) e), sv)
            | Inr v \<Rightarrow> (None, load v sv))
         else (None, sv)))"

definition readStore :: "int \<Rightarrow> 's server \<Rightarrow> error option \<times> 's server" where
  "readStore now sv =
    restore StoredSysInfo_ev ''load server info; '' Hooks_StoredSysInfo (\<lambda>v. loadServerInfo (tyInfo v))
      (restore StoredRetainedMessages_ev ''load retained; '' Hooks_StoredRetainedMessages loadRetained
        (restore StoredInflightMessages_ev ''load inflight; '' Hooks_StoredInflightMessages loadInflight
          (restore StoredSubscriptions_ev ''load subscriptions; '' Hooks_StoredSubscriptions loadSubscriptions
            (restore StoredClients_ev ''failed to load clients; '' Hooks_StoredClients (loadClients now)
              (None, sv)))))"

section \<open>Starting and closing\<close>

text \<open>
  \<open>Serve\<close> without its listeners: hooks of the configuration, the store, the first system topics.
\<close>

definition Serve ::
    "int \<Rightarrow> int \<Rightarrow> int \<Rightarrow> ('s hook \<times> ('s \<Rightarrow> 's) \<times> ('s \<Rightarrow> 's \<times> error option)) list
      \<Rightarrow> 's server \<Rightarrow> error option \<times> 's server" where
  "Serve mem threads now hookConfigs sv =
    (case AddHooksFromConfig hookConfigs sv of
       (Some err, sv) \<Rightarrow> (Some err, sv)
     | (None, sv) \<Rightarrow>
         (case (if Hooks_Provides (opHooks (svOps sv)) [StoredClients_ev, StoredInflightMessages_ev,
                     StoredRetainedMessages_ev, StoredSubscriptions_ev, StoredSysInfo_ev]
                then readStore now sv else (None, sv)) of
            (Some err, sv) \<Rightarrow> (Some err, sv)
          | (None, sv) \<Rightarrow> (None, notify Hooks_OnStarted (publishSysTopics mem threads now sv))))"

definition closeListenerClients :: "int \<Rightarrow> gostring \<Rightarrow> 's server \<Rightarrow> 's server" where
  "closeListenerClients now listener sv =
    fold (\<lambda>(_, r) sv. snd (DisconnectClient now r ErrServerShuttingDown sv))
      (filter (\<lambda>(_, r). cnListener (clNet (svHeap sv r)) = listener \<and> \<not> Closed (svHeap sv r)) (svClients sv)) sv"

text \<open>\<open>Close\<close> with the listeners in the order in which they close their clients.\<close>

definition Close :: "int \<Rightarrow> gostring list \<Rightarrow> 's server \<Rightarrow> error option \<times> 's server" where
  "Close now listenerIDs sv =
    (if svDone sv then (Some EPanic, sv)
     else
       let sv = sv\<lparr>svDone := True\<rparr>;
           sv = fold (closeListenerClients now) listenerIDs sv;
           sv = notify Hooks_OnStopped sv
       in (None, notify Hooks_Stop sv))"

text \<open>A tick of the event loop.\<close>

datatype tick = SysTopicsTick int int | ClientExpiryTick | RetainedExpiryTick | WillDelayTick | InflightExpiryTick

definition eventLoop_turn :: "int \<Rightarrow> tick \<Rightarrow> 's server \<Rightarrow> 's server" where
  "eventLoop_turn now t sv =
    (if svDone sv then sv
     else case t of
       SysTopicsTick mem threads \<Rightarrow> publishSysTopics mem threads now sv
     | ClientExpiryTick \<Rightarrow> clearExpiredClients now sv
     | RetainedExpiryTick \<Rightarrow> clearExpiredRetainedMessages now sv
     | WillDelayTick \<Rightarrow> sendDelayedLWT now sv
     | InflightExpiryTick \<Rightarrow> clearExpiredInflights now sv)"

end
