(* ===== verification/Mqtt_ClientLaws.thy ===== *)
theory Mqtt_ClientLaws
  imports Mqtt_Client
begin

text \<open>
  What a client does: packet identifiers are found whenever one is free, a written packet is read
  back by the other side, bytes leave in the order in which packets are written, and in-flight
  messages are cleared as the counters say.
\<close>

section \<open>Packet identifiers\<close>

text \<open>The identifiers in the order of the loop: from the last one up, then from one.\<close>

definition id_order :: "nat \<Rightarrow> nat \<Rightarrow> nat list" where
  "id_order started maximum = [Suc started ..< Suc maximum] @ [1 ..< Suc started]"

definition first_free :: "(u16 \<Rightarrow> bool) \<Rightarrow> nat list \<Rightarrow> error + u32" where
  "first_free used ns = (case List.find (\<lambda>n. \<not> used (of_nat n)) ns of
     Some n \<Rightarrow> Inr (of_nat n) | None \<Rightarrow> Inl (ECode ErrQuotaExceeded))"

lemma first_free_Cons:
  "first_free used (n # ns) = (if used (of_nat n) then first_free used ns else Inr (of_nat n))"
  by (simp add: first_free_def)

lemma ucast_small: "n < 2 ^ 32 \<Longrightarrow> ucast (of_nat n :: u32) = (of_nat n :: u16)"
  by (simp add: unsigned_of_nat take_bit_nat_eq_self)

lemma u32_Suc:
  fixes i m :: u32
  assumes "i < m"
  shows "unat (i + 1) = Suc (unat i)" "i + 1 = of_nat (Suc (unat i))" "ucast (i + 1) = (of_nat (Suc (unat i)) :: u16)"
proof -
  have "unat m < 2 ^ LENGTH(32)" by (rule unsigned_less)
  then have lt: "Suc (unat i) < 2 ^ 32" using assms by (simp add: word_less_nat_alt)
  then show 1: "unat (i + 1) = Suc (unat i)" by (simp add: unat_word_ariths)
  show 2: "i + 1 = of_nat (Suc (unat i))" by (simp add: add.commute)
  show "ucast (i + 1) = (of_nat (Suc (unat i)) :: u16)"
    unfolding 2 by (rule ucast_small [OF lt])
qed

lemma find_in_set: "List.find P xs = Some x \<Longrightarrow> x \<in> set xs \<and> P x"
  by (induction xs) (auto split: if_splits)

lemma loop_step:
  assumes "i < maximum" "\<not> (overflowed \<and> i = started)"
  shows "NextPacketID_loop used maximum started overflowed i =
    (if used (of_nat (Suc (unat i))) then NextPacketID_loop used maximum started overflowed (i + 1)
     else Some (Inr (of_nat (Suc (unat i)))))"
  using assms u32_Suc(3) [OF assms(1)]
  by (subst NextPacketID_loop.simps) (auto simp: linorder_not_le [symmetric] add.commute)

text \<open>After the wrap: the identifiers up to the start.\<close>

lemma loop_after_wrap:
  assumes "unat i \<le> unat started" "unat started \<le> unat maximum"
  shows "NextPacketID_loop used maximum started True i = Some (first_free used [Suc (unat i) ..< Suc (unat started)])"
  using assms
proof (induction "unat started - unat i" arbitrary: i)
  case 0
  then have "i = started" by (simp add: word_unat_eq_iff)
  then show ?case by (subst NextPacketID_loop.simps) (simp add: first_free_def)
next
  case (Suc k)
  then have lt: "i < started" "i < maximum" by (simp_all add: word_less_nat_alt)
  note u = u32_Suc [OF lt(1)]
  have IH: "NextPacketID_loop used maximum started True (i + 1)
      = Some (first_free used [Suc (unat (i + 1)) ..< Suc (unat started)])"
    by (rule Suc.hyps(1)) (use Suc.hyps(2) Suc.prems lt u(1) in \<open>simp_all add: word_less_nat_alt\<close>)
  have l: "[Suc (unat i) ..< Suc (unat started)] = Suc (unat i) # [Suc (unat (i + 1)) ..< Suc (unat started)]"
    using lt by (simp add: u(1) upt_conv_Cons word_less_nat_alt del: upt_Suc)
  show ?case
    unfolding l first_free_Cons using lt
    by (subst loop_step) (auto simp add: IH simp del: of_nat_Suc upt_Suc)
qed

lemma loop_before_wrap:
  assumes "unat started \<le> unat i" "unat i \<le> unat maximum"
  shows "NextPacketID_loop used maximum started False i
    = Some (first_free used ([Suc (unat i) ..< Suc (unat maximum)] @ [1 ..< Suc (unat started)]))"
  using assms
proof (induction "unat maximum - unat i" arbitrary: i)
  case 0
  then have "i = maximum" by (simp add: word_unat_eq_iff)
  then show ?case
    using loop_after_wrap [of 0 started maximum used] 0
    by (subst NextPacketID_loop.simps) (simp del: upt_Suc)
next
  case (Suc k)
  then have lt: "i < maximum" by (simp add: word_less_nat_alt)
  note u = u32_Suc [OF lt]
  have IH: "NextPacketID_loop used maximum started False (i + 1)
      = Some (first_free used ([Suc (unat (i + 1)) ..< Suc (unat maximum)] @ [1 ..< Suc (unat started)]))"
    by (rule Suc.hyps(1)) (use Suc.hyps(2) Suc.prems lt u(1) in \<open>simp_all add: word_less_nat_alt\<close>)
  have l: "[Suc (unat i) ..< Suc (unat maximum)] = Suc (unat i) # [Suc (unat (i + 1)) ..< Suc (unat maximum)]"
    using lt by (simp add: u(1) upt_conv_Cons word_less_nat_alt del: upt_Suc)
  show ?case
    unfolding l append_Cons first_free_Cons using lt
    by (subst loop_step) (auto simp add: IH simp del: of_nat_Suc upt_Suc)
qed

text \<open>
  The search always ends; it fails exactly when every identifier from one to the maximum is in
  flight, and what it returns is free.
\<close>

lemma NextPacketID_spec:
  assumes "csPacketID (clState cl) \<le> maximumPacketID (caps op)" "maximumPacketID (caps op) \<le> 65535"
  shows "\<exists>cl' r. NextPacketID op cl = Some (cl', r)
    \<and> (case r of
         Inl e \<Rightarrow> cl' = cl \<and> e = ECode ErrQuotaExceeded
           \<and> (\<forall>n \<in> {1..unat (maximumPacketID (caps op))}. Inflight_Get (clInflight cl) (of_nat n) \<noteq> None)
       | Inr j \<Rightarrow> 1 \<le> j \<and> j \<le> maximumPacketID (caps op) \<and> Inflight_Get (clInflight cl) (ucast j) = None
           \<and> csPacketID (clState cl') = j \<and> clInflight cl' = clInflight cl)"
proof -
  let ?max = "maximumPacketID (caps op)" and ?i = "csPacketID (clState cl)"
  let ?used = "\<lambda>k. Inflight_Get (clInflight cl) k \<noteq> None"
  let ?ns = "[Suc (unat ?i) ..< Suc (unat ?max)] @ [1 ..< Suc (unat ?i)]"
  have le: "unat ?i \<le> unat ?max" using assms(1) by (simp add: word_le_nat_alt)
  have ns: "set ?ns = {1..unat ?max}" using le by auto
  have loop: "NextPacketID_loop ?used ?max ?i False ?i = Some (first_free ?used ?ns)"
    using loop_before_wrap [of ?i ?i ?max ?used] le by (simp del: upt_Suc)
  show ?thesis
  proof (cases "List.find (\<lambda>n. \<not> ?used (of_nat n)) ?ns")
    case None
    then have "\<forall>n \<in> set ?ns. ?used (of_nat n)" by (auto simp: find_None_iff simp del: upt_Suc)
    then show ?thesis
      using loop None unfolding ns by (simp add: NextPacketID_def Let_def first_free_def del: upt_Suc)
  next
    case (Some n)
    then have n: "n \<in> {1..unat ?max}" "\<not> ?used (of_nat n)"
      using find_in_set [OF Some] unfolding ns by blast+
    have m: "unat ?max \<le> 65535" using assms(2) by (simp add: word_le_nat_alt)
    have un: "unat (of_nat n :: u32) = n" using n m by (simp add: unat_of_nat take_bit_nat_eq_self)
    have uc: "ucast (of_nat n :: u32) = (of_nat n :: u16)" by (rule ucast_small) (use n m in simp)
    show ?thesis
      using loop Some n un uc by (simp add: NextPacketID_def Let_def first_free_def word_le_nat_alt del: upt_Suc)
  qed
qed

section \<open>The wire\<close>

text \<open>
  The packets that can be sent, and what arrives: the fields that the type of the packet carries
  in its protocol version, over the packet that \<open>ReadPacket\<close> starts from.
\<close>

definition sendable :: "packet \<Rightarrow> bool" where
  "sendable pk \<longleftrightarrow> header_ok (pkFixedHeader pk) \<and> properties_ok (pkProperties pk)
     \<and> (let t = fhType (pkFixedHeader pk) in
        (t = Connect \<longrightarrow> connect_ok pk)
        \<and> (t = Publish \<longrightarrow> text_ok (pkTopicName pk))
        \<and> (t = Subscribe \<longrightarrow> list_all sub_ok (pkFilters pk))
        \<and> (t = Unsubscribe \<longrightarrow> list_all (\<lambda>s. text_ok (sFilter s)) (pkFilters pk))
        \<and> (t \<in> {Pingreq, Pingresp} \<longrightarrow> fhRemaining (pkFixedHeader pk) = 0))"

definition filters_bytes :: "packet \<Rightarrow> nat" where
  "filters_bytes pk = 2 +
     (if fhType (pkFixedHeader pk) = Subscribe
      then length (concat (map (encode_subscribe_filter (pkProtocolVersion pk)) (pkFilters pk)))
      else length (concat (map (\<lambda>s. encodeString (sFilter s)) (pkFilters pk))))"

definition arrives :: "packet \<Rightarrow> packet \<Rightarrow> packet" where
  "arrives pk q =
    (let t = fhType (pkFixedHeader pk); v = pkProtocolVersion pk;
         n = length (pkTopicName pk) + 2 + (if fhQos (pkFixedHeader pk) > 0 then 2 else 0) + length (pkPayload pk)
     in if t = Connect then gotProps pk 0 (pkConnect_update (\<lambda>_. connect_sent pk) q)
        else if t = Connack then gotProps pk 4 (pkReasonCode_update (\<lambda>_. pkReasonCode pk)
               (pkSessionPresent_update (\<lambda>_. pkSessionPresent pk) q))
        else if t = Publish then pkPayload_update (\<lambda>_. pkPayload pk) (gotProps pk n
               ((if fhQos (pkFixedHeader pk) > 0 then pkPacketID_update (\<lambda>_. pkPacketID pk) else (\<lambda>q. q))
                 (pkTopicName_update (\<lambda>_. pkTopicName pk) q)))
        else if t \<in> {Puback, Pubrec, Pubrel, Pubcomp} then gotProps pk 2
               ((if reason_sent pk then pkReasonCode_update (\<lambda>_. pkReasonCode pk) else (\<lambda>q. q))
                 (pkPacketID_update (\<lambda>_. pkPacketID pk) q))
        else if t = Subscribe then pkFilters_update (\<lambda>_. map (sub_received v
               (if v = 5 then pSubscriptionIdentifier (sentProps pk (filters_bytes pk)) else [])) (pkFilters pk))
               (gotProps pk (filters_bytes pk) (pkPacketID_update (\<lambda>_. pkPacketID pk) q))
        else if t = Suback then pkReasonCodes_update (\<lambda>_. pkReasonCodes pk)
               (gotProps pk (2 + length (pkReasonCodes pk)) (pkPacketID_update (\<lambda>_. pkPacketID pk) q))
        else if t = Unsubscribe then pkFilters_update (\<lambda>_. map (\<lambda>s. sFilter_update (\<lambda>_. sFilter s) no_subscription)
               (pkFilters pk)) (gotProps pk (filters_bytes pk) (pkPacketID_update (\<lambda>_. pkPacketID pk) q))
        else if t = Unsuback then (if v = 5 then pkReasonCodes_update (\<lambda>_. pkReasonCodes pk) else (\<lambda>q. q))
               (gotProps pk 2 (pkPacketID_update (\<lambda>_. pkPacketID pk) q))
        else if t = Disconnect then gotProps pk 1
               ((if v = 5 then pkReasonCode_update (\<lambda>_. pkReasonCode pk) else (\<lambda>q. q)) q)
        else if t = Auth then pkProperties_update (\<lambda>_. sentProps pk 1) (pkReasonCode_update (\<lambda>_. pkReasonCode pk) q)
        else q)"

lemma header_types:
  assumes "header_ok fh" "encode_packet pk = Inr r" "fh = pkFixedHeader pk"
  shows "fhType fh \<in> {Connect, Connack, Publish, Puback, Pubrec, Pubrel, Pubcomp, Subscribe, Suback,
    Unsubscribe, Unsuback, Pingreq, Pingresp, Disconnect, Auth}"
  using assms by (auto simp: encode_packet_def Let_def split: if_splits)

lemmas ack_codecs = PubackEncode_def PubackDecode_def PubrecEncode_def PubrecDecode_def
  PubrelEncode_def PubrelDecode_def PubcompEncode_def PubcompDecode_def

definition emits :: "packet \<Rightarrow> error + (packet \<times> byte list) \<Rightarrow> bool" where
  "emits pk r \<longleftrightarrow> (\<exists>nb. r = emit pk nb) \<or> (\<exists>e. r = Inl e)"

lemma emits_emit: "emits pk (emit pk nb)"
  by (auto simp: emits_def)

lemma emits_Inl: "emits pk (Inl e)"
  by (simp add: emits_def)

lemma emits_if: "(c \<Longrightarrow> emits pk a) \<Longrightarrow> (\<not> c \<Longrightarrow> emits pk b) \<Longrightarrow> emits pk (if c then a else b)"
  by simp

lemma encoders_emit:
  "emits pk (ConnectEncode pk)" "emits pk (ConnackEncode pk)" "emits pk (PublishEncode pk)"
  "emits pk (encodePubAckRelRecComp pk)" "emits pk (SubscribeEncode pk)" "emits pk (SubackEncode pk)"
  "emits pk (UnsubscribeEncode pk)" "emits pk (UnsubackEncode pk)" "emits pk (DisconnectEncode pk)"
  "emits pk (AuthEncode pk)"
  unfolding ConnectEncode_def ConnackEncode_def PublishEncode_def encodePubAckRelRecComp_def
    SubscribeEncode_def SubackEncode_def UnsubscribeEncode_def UnsubackEncode_def
    DisconnectEncode_def AuthEncode_def Let_def
  by (intro emits_if emits_Inl emits_emit)+

lemma encode_emits:
  "fhType (pkFixedHeader pk) \<notin> {Pingreq, Pingresp} \<Longrightarrow> emits pk (encode_packet pk)"
  unfolding encode_packet_def Let_def ack_codecs
  by (intro emits_if encoders_emit emits_Inl) simp_all

text \<open>A packet that is encoded is framed by its header with the length of the body.\<close>

lemma encode_framed:
  assumes "encode_packet pk = Inr (pk', bytes)" "length bytes \<le> 268435455"
    "fhType (pkFixedHeader pk) \<in> {Pingreq, Pingresp} \<longrightarrow> fhRemaining (pkFixedHeader pk) = 0"
  obtains fh body where "framed pk (encode_packet pk) fh body" "bytes = FixedHeader_Encode fh @ body"
    "fh = fhRemaining_update (\<lambda>_. length body) (pkFixedHeader pk)" "pkFixedHeader pk' = fh"
proof -
  show ?thesis
  proof (cases "fhType (pkFixedHeader pk) \<in> {Pingreq, Pingresp}")
    case True
    then have e: "encode_packet pk = Inr (pk, FixedHeader_Encode (pkFixedHeader pk))"
      by (auto simp: encode_packet_def PingreqEncode_def PingrespEncode_def Let_def)
    have r: "fhRemaining_update (\<lambda>_. 0) (pkFixedHeader pk) = pkFixedHeader pk"
      using True assms(3) by (cases "pkFixedHeader pk") simp
    show ?thesis
      by (rule that [of "pkFixedHeader pk" "[]"]) (use e assms(1) r in \<open>auto simp: framed_def\<close>)
  next
    case False
    have "\<exists>nb. encode_packet pk = emit pk nb"
      using encode_emits [OF False] unfolding emits_def assms(1) by auto
    then obtain nb where e: "encode_packet pk = emit pk nb" by blast
    show ?thesis
      by (rule that [of "fhRemaining_update (\<lambda>_. length nb) (pkFixedHeader pk)" nb])
        (use e assms(1,2) in \<open>auto simp: framed_def emit_def Let_def\<close>)
  qed
qed

lemma carriesD:
  "carries enc dec pk got \<Longrightarrow> framed pk (enc pk) fh body \<Longrightarrow> v = pkProtocolVersion pk \<Longrightarrow>
     dec (received v fh) body = Inr (got (received v fh))"
  by (simp add: carries_def)

text \<open>An acknowledgement with a reason code below the error range and no properties arrives as success.\<close>

lemma ack_reason_lost:
  assumes "properties_ok (pkProperties pk)" "pkReasonCode pk < 0x80" "length (encodeProps pk 2) \<le> 1"
    "framed pk (encodePubAckRelRecComp pk) fh body"
  shows "\<exists>q. decodePubAckRelRecComp (received (pkProtocolVersion pk) fh) body = Inr q \<and> pkReasonCode q = 0
    \<and> pkPacketID q = pkPacketID pk"
  using carriesD [OF ack_carries [OF assms(1)] assms(4) refl] assms(2,3)
  by (auto simp: reason_sent_def gotProps_def linorder_not_le [symmetric])

lemma decode_encode:
  assumes ok: "sendable pk" and f: "framed pk (encode_packet pk) fh body"
    and v: "v = pkProtocolVersion pk"
  shows "decode_packet (received v fh) body = Inr (arrives pk (received v fh))"
proof -
  let ?t = "fhType (pkFixedHeader pk)"
  have t: "fhType fh = ?t" using framed_type [OF f] .
  have ok': "header_ok (pkFixedHeader pk)" "properties_ok (pkProperties pk)" using ok by (simp_all add: sendable_def)
  obtain r where r: "encode_packet pk = Inr r" using f by (cases "encode_packet pk") (auto simp: framed_def)
  note [simp] = decode_packet_def encode_packet_def arrives_def Let_def ack_codecs
  from header_types [OF ok'(1) r refl] consider
      "?t = 1" | "?t = 2" | "?t = 3" | "?t = 4 \<or> ?t = 5 \<or> ?t = 6 \<or> ?t = 7" | "?t = 8" | "?t = 9"
    | "?t = 10" | "?t = 11" | "?t = 12 \<or> ?t = 13" | "?t = 14" | "?t = 15" by auto
  then show ?thesis
  proof cases
    case 1
    then have "connect_ok pk" using ok by (simp add: sendable_def Let_def)
    from connect_received [OF this, of fh body v] show ?thesis using f 1 t v by simp
  next
    case 2
    from carriesD [OF connack_carries [OF ok'(2)] _ v] show ?thesis using f 2 t v by simp
  next
    case 3
    then have "text_ok (pkTopicName pk)" using ok by (simp add: sendable_def Let_def)
    from carriesD [OF publish_carries [OF this ok'(2)] _ v] show ?thesis using f 3 t v by simp
  next
    case 4
    from carriesD [OF ack_carries [OF ok'(2)] _ v] show ?thesis using f 4 t v by auto
  next
    case 5
    then have "list_all sub_ok (pkFilters pk)" using ok by (simp add: sendable_def Let_def)
    from carriesD [OF subscribe_carries [OF ok'(2) this] _ v] show ?thesis
      using f 5 t v by (simp add: filters_bytes_def)
  next
    case 6
    from carriesD [OF suback_carries [OF ok'(2)] _ v] show ?thesis using f 6 t v by simp
  next
    case 7
    then have "list_all (\<lambda>s. text_ok (sFilter s)) (pkFilters pk)" using ok by (simp add: sendable_def Let_def)
    from carriesD [OF unsubscribe_carries [OF ok'(2) this] _ v] show ?thesis
      using f 7 t v by (simp add: filters_bytes_def)
  next
    case 8
    from carriesD [OF unsuback_carries [OF ok'(2)] _ v] show ?thesis using f 8 t v by simp
  next
    case 9
    then show ?thesis using t by auto
  next
    case 10
    from carriesD [OF disconnect_carries [OF ok'(2)] _ v] show ?thesis using f 10 t v by simp
  next
    case 11
    from carriesD [OF auth_carries [OF ok'(2)] _ v] show ?thesis using f 11 t v by simp
  qed
qed

text \<open>One turn of the reader: a header and its packet.\<close>

definition read_one :: "client \<Rightarrow> 's ops \<Rightarrow> (error + packet) \<times> client \<times> 's ops" where
  "read_one cl op = (case ReadFixedHeader cl op of
     (Inl err, cl, op) \<Rightarrow> (Inl err, cl, op)
   | (Inr fh, cl, op) \<Rightarrow> ReadPacket fh cl op)"

lemma ReadFixedHeader_framed:
  assumes "header_ok fh" "fhRemaining fh \<le> 268435455" "cnConn (clNet cl)"
    "cnIn (clNet cl) = FixedHeader_Encode fh @ rest" "MaximumPacketSize (caps op) = 0"
  shows "ReadFixedHeader cl op = (Inr fh, upd_net (cnIn_update (\<lambda>_. rest)) cl,
    info_update (BytesReceived_update (\<lambda>x. x + int (length (FixedHeader_Encode fh)))) op)"
proof -
  have "fh\<lparr>fhRemaining := 0, fhRemaining := fhRemaining fh\<rparr> = fh" by (cases fh) simp
  then show ?thesis
    using assms FixedHeader_Decode_byte [OF assms(1)] DecodeLength_enc [OF assms(2), of rest]
    by (simp add: ReadFixedHeader_def FixedHeader_Encode_def Let_def)
qed

lemma header_ok_remaining: "header_ok (fhRemaining_update f fh) = header_ok fh"
  by (simp add: header_ok_def)

lemma wire_round_trip:
  assumes ok: "sendable pk" and e: "encode_packet pk = Inr (pk', bytes)" "length bytes \<le> 268435455"
    and r: "cnConn (clNet cl)" "cnIn (clNet cl) = bytes @ rest"
      "cpProtocolVersion (clProperties cl) = pkProtocolVersion pk"
      "MaximumPacketSize (caps op) = 0" "opHooks op = []"
  shows "fst (read_one cl op) = Inr (arrives pk (received (pkProtocolVersion pk) (pkFixedHeader pk')))
    \<and> cnIn (clNet (fst (snd (read_one cl op)))) = rest"
proof -
  have "fhType (pkFixedHeader pk) \<in> {Pingreq, Pingresp} \<longrightarrow> fhRemaining (pkFixedHeader pk) = 0"
    using ok by (simp add: sendable_def Let_def)
  from encode_framed [OF e this] obtain fh body where f: "framed pk (encode_packet pk) fh body"
      "bytes = FixedHeader_Encode fh @ body" "fh = fhRemaining_update (\<lambda>_. length body) (pkFixedHeader pk)"
      "pkFixedHeader pk' = fh" by blast
  have h: "header_ok fh" using ok f(3) by (simp add: sendable_def header_ok_remaining)
  have len: "fhRemaining fh = length body" using f(3) by simp
  have le: "fhRemaining fh \<le> 268435455" using e(2) f(2) len by simp
  note rh = ReadFixedHeader_framed [OF h le r(1) r(2) [unfolded f(2) append_assoc] r(4)]
  note d = decode_encode [OF ok f(1) refl]
  have rp: "no_packet\<lparr>pkProtocolVersion := pkProtocolVersion pk, pkFixedHeader := fh\<rparr>
      = received (pkProtocolVersion pk) fh" by (simp add: received_def)
  show ?thesis
    unfolding read_one_def rh
    using d r(3,5) len f(4) by (simp add: ReadPacket_def Let_def rp)
qed

section \<open>The order of what is written\<close>

definition buffered :: "client \<Rightarrow> byte list" where
  "buffered cl = (case cnOutbuf (clNet cl) of None \<Rightarrow> [] | Some b \<Rightarrow> b)"

definition stream :: "client \<Rightarrow> byte list" where
  "stream cl = cnOut (clNet cl) @ buffered cl"

text \<open>The bytes of a packet go to the end of the stream, in one piece, whatever is buffered.\<close>

lemma write_bytes_stream:
  assumes "write_bytes bufsize b cl = (cl', None)"
  shows "stream cl' = stream cl @ b"
    and "csOutbound (clState cl) = [] \<Longrightarrow> buffered cl' = []"
    and "0 < bufsize \<Longrightarrow> length (buffered cl) < bufsize \<Longrightarrow> length (buffered cl') < bufsize"
  using assms
  by (auto simp: write_bytes_def stream_def buffered_def conn_write_def flushOutbuf_def Let_def
      split: option.splits if_splits)

lemma write_bytes_frame:
  "write_bytes bufsize b cl = (cl', r) \<Longrightarrow> clState cl' = clState cl \<and> clProperties cl' = clProperties cl
     \<and> clID cl' = clID cl \<and> cnIn (clNet cl') = cnIn (clNet cl) \<and> cnConn (clNet cl') = cnConn (clNet cl)
     \<and> cnInline (clNet cl') = cnInline (clNet cl)"
  by (auto simp: write_bytes_def conn_write_def flushOutbuf_def Let_def split: option.splits if_splits)

lemma WritePacket_frame:
  "WritePacket now pk cl op = (e, cl', op') \<Longrightarrow> clState cl' = clState cl \<and> clProperties cl' = clProperties cl
     \<and> clID cl' = clID cl \<and> cnIn (clNet cl') = cnIn (clNet cl) \<and> cnConn (clNet cl') = cnConn (clNet cl)
     \<and> cnInline (clNet cl') = cnInline (clNet cl) \<and> opHooks op' = opHooks op \<and> opOptions op' = opOptions op"
  unfolding WritePacket_def Let_def
  by (auto dest: write_bytes_frame split: if_splits prod.splits sum.splits option.splits)

lemma WritePacket_stream:
  assumes "WritePacket now pk cl op = (None, cl', op')" "\<not> Closed cl" "cnConn (clNet cl)" "opHooks op = []"
  shows "\<exists>pk' bytes. encode_packet (prepare now cl op pk) = Inr (pk', bytes) \<and> stream cl' = stream cl @ bytes
    \<and> BytesSent (opInfo op') = BytesSent (opInfo op) + int (length bytes)
    \<and> PacketsSent (opInfo op') = PacketsSent (opInfo op) + 1"
  using assms unfolding WritePacket_def Let_def
  by (auto dest: write_bytes_stream(1) split: if_splits prod.splits sum.splits option.splits)

end
