(* ===== verification/Mqtt_TopicTree.thy ===== *)
theory Mqtt_TopicTree
  imports Mqtt_Topics
begin

text \<open>
  The topic tree as a table.  \<open>content\<close> reads what is stored at a path, with nothing stored where
  there is no particle; the operations are shown to change the content at one path only and to
  keep the tree well formed and without empty particles.
\<close>

section \<open>Reading and writing through a pointer\<close>

text \<open>What of a particle is its own: the data and the keys of its children.\<close>

definition view :: "pointer \<Rightarrow> particle \<Rightarrow> (particle_data \<times> gostring list) option" where
  "view p root = map_option (\<lambda>n. (ptData n, map fst (ptParticles n))) (node_at p root)"

lemma node_at_append:
  "node_at (r @ q) root = (case node_at q root of None \<Rightarrow> None | Some n \<Rightarrow> node_at r n)"
  by (induction r) (auto split: option.splits)

lemma node_at_view: "node_at p root = None \<longleftrightarrow> view p root = None"
  by (simp add: view_def)

lemma node_at_update_here: "node_at q (update_at q f root) = map_option f (node_at q root)"
proof (induction q arbitrary: f)
  case (Cons k q)
  show ?case
    by (cases "node_at q root") (auto simp: Cons.IH particles_defs split: option.splits)
qed simp

lemma node_at_update_below:
  "node_at (r @ q) (update_at q f root)
    = (case node_at q root of None \<Rightarrow> None | Some n \<Rightarrow> node_at r (f n))"
  by (simp add: node_at_append node_at_update_here split: option.splits)

lemma node_at_map_data: "r \<noteq> [] \<Longrightarrow> node_at r (map_data g n) = node_at r n"
  by (induction r rule: rev_induct) (auto simp: node_at_append split: option.splits)

lemma node_at_Cons_child:
  "node_at (r @ [k]) n = (case m_get (ptParticles n) k of None \<Rightarrow> None | Some c \<Rightarrow> node_at r c)"
  by (simp add: node_at_append particles_defs split: option.splits)

lemma map_fst_update: "m_has m k \<Longrightarrow> map fst (m_set k v m) = map fst m"
  by (induction m) auto

lemma map_fst_delete: "map fst (m_del k m) = filter (\<lambda>j. j \<noteq> k) (map fst m)"
  by (induction m) auto

definition below :: "pointer \<Rightarrow> pointer \<Rightarrow> bool" where
  "below p q \<longleftrightarrow> (\<exists>r. p = r @ q)"

lemma belowI [intro]: "below (r @ q) q" and below_refl [simp]: "below q q"
  by (auto simp: below_def)

lemma below_Cons: "below p (k # q) \<Longrightarrow> below p q"
  by (auto simp: below_def)

lemma below_length: "below p q \<Longrightarrow> length q \<le> length p"
  by (auto simp: below_def)

lemma view_update_other:
  "\<not> below p q \<Longrightarrow> view p (update_at q f root) = view p root"
proof (induction q arbitrary: f)
  case Nil
  then show ?case by (simp add: below_def)
next
  case (Cons k q)
  let ?g = "map_particles (\<lambda>kids. case m_get kids k of None \<Rightarrow> kids | Some c \<Rightarrow> m_set k (f c) kids)"
  show ?case
  proof (cases "below p q")
    case False
    then show ?thesis using Cons.IH by simp
  next
    case True
    then obtain r where p: "p = r @ q" by (auto simp: below_def)
    show ?thesis
    proof (cases r rule: rev_cases)
      case Nil
      then show ?thesis
        by (cases "node_at q root")
           (auto simp: p view_def node_at_update_here map_fst_update split: option.splits)
    next
      case (snoc r' j)
      then have "j \<noteq> k" using Cons.prems by (auto simp: p below_def)
      then have "node_at r (?g n) = node_at r n" for n
        by (simp add: snoc node_at_Cons_child split: option.splits)
      then show ?thesis
        by (simp add: p view_def node_at_append node_at_update_here split: option.splits)
    qed
  qed
qed

lemma view_write:
  "view p (update_at q (map_data g) root)
    = (if p = q then map_option (apfst g) (view p root) else view p root)"
proof (cases "below p q")
  case False
  then have "p \<noteq> q" by auto
  then show ?thesis using view_update_other [OF False] by simp
next
  case True
  then obtain r where p: "p = r @ q" by (auto simp: below_def)
  show ?thesis
  proof (cases "r = []")
    case True
    then show ?thesis
      by (cases "node_at q root") (simp_all add: p view_def node_at_update_here)
  next
    case False
    then show ?thesis
      by (simp add: p view_def node_at_append node_at_update_here node_at_map_data split: option.splits)
  qed
qed

text \<open>Adding a new child under an existing particle.\<close>

lemma m_get_append_fresh: "m_get m k = None \<Longrightarrow> m_get (m @ [(k, v)]) j = (if j = k then Some v else m_get m j)"
  by (induction m) (auto split: if_splits)

lemma node_at_leaf: "ptParticles n = [] \<Longrightarrow> r \<noteq> [] \<Longrightarrow> node_at r n = None"
  by (cases r rule: rev_cases) (auto simp: node_at_Cons_child)

lemma view_add:
  assumes q: "node_at q root = Some n" and k: "node_at (k # q) root = None"
  shows "view p (update_at q (map_particles (particles_add (newParticle k))) root) =
    (if p = q then Some (ptData n, map fst (ptParticles n) @ [k])
     else if p = k # q then Some (ptData (newParticle k), [])
     else view p root)"
proof (cases "below p q")
  case False
  then have "p \<noteq> q" "p \<noteq> k # q" by (auto simp: below_def)
  then show ?thesis using view_update_other [OF False] by simp
next
  case True
  then obtain r where p: "p = r @ q" by (auto simp: below_def)
  have key: "ptKey (ptData (newParticle k)) = k" by (simp add: newParticle_def)
  have fresh: "m_get (ptParticles n) k = None" using q k by (simp add: particles_defs)
  have add: "particles_add (newParticle k) (ptParticles n) = ptParticles n @ [(k, newParticle k)]"
    by (simp add: particles_add_def key m_set_fresh fresh)
  have get_add: "m_get (particles_add (newParticle k) (ptParticles n)) j
      = (if j = k then Some (newParticle k) else m_get (ptParticles n) j)" for j
    unfolding add by (rule m_get_append_fresh [OF fresh])
  show ?thesis
  proof (cases r rule: rev_cases)
    case Nil
    then show ?thesis by (simp add: p q view_def node_at_update_here add)
  next
    case (snoc r' j)
    have leaf: "ptParticles (newParticle k) = []" by (simp add: newParticle_def)
    have "view p (update_at q (map_particles (particles_add (newParticle k))) root)
        = map_option (\<lambda>n. (ptData n, map fst (ptParticles n)))
            (case if j = k then Some (newParticle k) else m_get (ptParticles n) j of
               None \<Rightarrow> None | Some c \<Rightarrow> node_at r' c)"
      by (simp add: p q view_def node_at_update_below snoc node_at_Cons_child get_add
          del: append_assoc)
    moreover have "view p root = map_option (\<lambda>n. (ptData n, map fst (ptParticles n)))
        (case m_get (ptParticles n) j of None \<Rightarrow> None | Some c \<Rightarrow> node_at r' c)"
      by (simp add: p q view_def node_at_append snoc node_at_Cons_child particles_defs
          split: option.splits)
    ultimately show ?thesis
      using fresh leaf node_at_leaf [OF leaf, of r']
      by (cases "r' = []"; cases "j = k") (auto simp: p snoc)
  qed
qed

text \<open>Deleting a child.\<close>

lemma view_delete:
  "view p (update_at q (map_particles (particles_delete k)) root) =
    (if below p (k # q) then None
     else if p = q then map_option (apsnd (filter (\<lambda>j. j \<noteq> k))) (view p root)
     else view p root)"
proof (cases "below p q")
  case False
  then have "p \<noteq> q" "\<not> below p (k # q)" using below_Cons by auto
  then show ?thesis using view_update_other [OF False] by simp
next
  case True
  then obtain r where p: "p = r @ q" by (auto simp: below_def)
  show ?thesis
  proof (cases r rule: rev_cases)
    case Nil
    then have "\<not> below p (k # q)" using below_length [of p "k # q"] by (auto simp: p)
    then show ?thesis
      using Nil by (cases "node_at q root")
        (simp_all add: p view_def node_at_update_here particles_defs map_fst_delete)
  next
    case (snoc r' j)
    have "below p (k # q) \<longleftrightarrow> j = k"
      by (auto simp: p snoc below_def)
    then show ?thesis
      by (auto simp: p snoc view_def node_at_update_here node_at_append node_at_Cons_child
          particles_defs split: option.splits)
  qed
qed

section \<open>The invariant and the content\<close>

definition data_ok :: "particle_data \<Rightarrow> bool" where
  "data_ok d \<longleftrightarrow> map_ok (ptSubscriptions d) \<and> shared_ok (ptShared d) \<and> map_ok (ptInline d)"

text \<open>
  Well formed: the children of a particle are a map, every particle carries the key under which
  it is stored, and its tables are maps.
\<close>

definition trie_ok :: "particle \<Rightarrow> bool" where
  "trie_ok root \<longleftrightarrow> (\<forall>p d ks. view p root = Some (d, ks) \<longrightarrow>
     distinct ks \<and> data_ok d \<and> (\<forall>k q. p = k # q \<longrightarrow> ptKey d = k))"

lemma trie_okD:
  assumes "trie_ok root" "view p root = Some (d, ks)"
  shows "distinct ks" "data_ok d" "p = k # q \<Longrightarrow> ptKey d = k"
  using assms by (auto simp: trie_ok_def)

definition empty_data :: particle_data where
  "empty_data = ptData (newParticle [])"

text \<open>What is stored at a path, whether or not there is a particle; the key is left out.\<close>

definition content :: "pointer \<Rightarrow> particle \<Rightarrow> particle_data" where
  "content p root = (case view p root of None \<Rightarrow> empty_data | Some (d, _) \<Rightarrow> d\<lparr>ptKey := []\<rparr>)"

text \<open>No particle but the root is empty.\<close>

definition tidy :: "particle \<Rightarrow> bool" where
  "tidy root \<longleftrightarrow> (\<forall>p d ks. p \<noteq> [] \<longrightarrow> view p root = Some (d, ks) \<longrightarrow>
     ks \<noteq> [] \<or> d\<lparr>ptKey := []\<rparr> \<noteq> empty_data)"

lemma newParticle_data: "ptData (newParticle k) = empty_data\<lparr>ptKey := k\<rparr>"
  by (simp add: newParticle_def empty_data_def)

lemma empty_data_key [simp]: "empty_data\<lparr>ptKey := []\<rparr> = empty_data"
  by (simp add: newParticle_def empty_data_def)

lemma data_ok_empty [simp]: "data_ok (empty_data\<lparr>ptKey := k\<rparr>)"
  by (simp add: data_ok_def empty_data_def newParticle_def Subscriptions_defs
      NewSharedSubscriptions_def InlineSubscriptions_defs shared_ok_def)

lemma shared_len_0: "shared_ok s \<Longrightarrow> SharedSubscriptions_Len s = 0 \<longleftrightarrow> s = []"
  by (cases s) (auto simp: SharedSubscriptions_Len_sum shared_ok_def)

lemma vacant_iff:
  assumes "data_ok (ptData n)"
  shows "vacant n \<longleftrightarrow> ptParticles n = [] \<and> (ptData n)\<lparr>ptKey := []\<rparr> = empty_data"
proof -
  obtain k s sh i r where d: "ptData n = \<lparr>ptKey = k, ptSubscriptions = s, ptShared = sh, ptInline = i,
      ptRetainPath = r\<rparr>" by (cases "ptData n")
  have "shared_ok sh" using assms by (simp add: d data_ok_def)
  then show ?thesis
    by (auto simp: d vacant_def empty_data_def newParticle_def particles_defs Subscriptions_defs
        NewSharedSubscriptions_def InlineSubscriptions_defs shared_len_0)
qed

lemma content_write:
  assumes "view q root \<noteq> None" "\<And>d. g (d\<lparr>ptKey := []\<rparr>) = (g d)\<lparr>ptKey := []\<rparr>"
  shows "content p (update_at q (map_data g) root) = (if p = q then g (content p root) else content p root)"
  using assms by (auto simp: content_def view_write split: option.splits)

lemma trie_ok_write:
  assumes "trie_ok root" "\<And>d. data_ok d \<Longrightarrow> data_ok (g d)" "\<And>d. ptKey (g d) = ptKey d"
  shows "trie_ok (update_at q (map_data g) root)"
  unfolding trie_ok_def
proof (intro allI impI)
  fix p d ks
  assume "view p (update_at q (map_data g) root) = Some (d, ks)"
  then obtain d' where v: "view p root = Some (d', ks)" "d = d' \<or> d = g d'"
    by (auto simp: view_write split: if_splits)
  then show "distinct ks \<and> data_ok d \<and> (\<forall>k q. p = k # q \<longrightarrow> ptKey d = k)"
    using trie_okD [OF assms(1) v(1)] assms(2,3) by auto
qed

lemma content_add:
  assumes "node_at q root = Some n" "node_at (k # q) root = None"
  shows "content p (update_at q (map_particles (particles_add (newParticle k))) root) = content p root"
proof -
  have "view q root = Some (ptData n, map fst (ptParticles n))" "view (k # q) root = None"
    using assms by (simp_all add: view_def)
  then show ?thesis
    by (auto simp: content_def view_add [OF assms] newParticle_data)
qed

lemma trie_ok_add:
  assumes "trie_ok root" and q: "node_at q root = Some n" and k: "node_at (k # q) root = None"
  shows "trie_ok (update_at q (map_particles (particles_add (newParticle k))) root)"
proof -
  have v: "view q root = Some (ptData n, map fst (ptParticles n))" using q by (simp add: view_def)
  have "k \<notin> set (map fst (ptParticles n))" using q k by (simp add: particles_defs map_of_eq_None_iff)
  then show ?thesis
    unfolding trie_ok_def view_add [OF q k]
    using trie_okD [OF assms(1) v] trie_okD [OF assms(1)]
    by (auto simp: newParticle_data split: if_splits)
qed

section \<open>Creating, finding and removing paths\<close>

text \<open>
  \<open>set\<close>: afterwards the particle of the path exists, nothing stored has changed, the tree is
  well formed, and the only particles that can be empty are on the path.
\<close>

definition path_of :: "gostring \<Rightarrow> nat \<Rightarrow> pointer" where
  "path_of topic d = (if d < length (segs topic) then rev (drop d (segs topic)) else [last (segs topic)])"

lemma path_of_0: "path_of f 0 = rev (segs f)"
  by (simp add: path_of_def)

lemma path_of_Suc: "Suc d < length (segs f) \<Longrightarrow> path_of f d = path_of f (Suc d) @ [segs f ! d]"
  by (simp add: path_of_def Cons_nth_drop_Suc [symmetric])

lemma path_of_last: "\<not> Suc d < length (segs f) \<Longrightarrow> path_of f d = [fst (isolateParticle f (int d))]"
  by (auto simp: path_of_def isolateParticle_segs) (metis Cons_nth_drop_Suc drop_all not_less_eq_eq not_le
      rev_singleton_conv less_Suc_eq_le)

lemma below_self_Cons: "below (k # q) q"
  using belowI [of "[k]" q] by simp

lemma set_loop_step:
  fixes key :: gostring
  assumes "trie_ok root" "node_at n root = Some m"
  defines "root' \<equiv> (case node_at (key # n) root of Some _ \<Rightarrow> root
                  | None \<Rightarrow> update_at n (map_particles (particles_add (newParticle key))) root)"
  shows "trie_ok root'" "node_at (key # n) root' \<noteq> None" "content p root' = content p root"
    "\<not> below (key # n) q \<Longrightarrow> view q root' = view q root"
proof -
  show "\<not> below (key # n) q \<Longrightarrow> view q root' = view q root"
    using below_self_Cons [of key n]
    by (auto simp: root'_def view_add [OF assms(2)] split: option.splits)
  show "trie_ok root'" "content p root' = content p root"
    using assms(1) trie_ok_add [OF assms(1,2)] content_add [OF assms(2)]
    by (auto simp: root'_def split: option.splits)
  show "node_at (key # n) root' \<noteq> None"
  proof (cases "node_at (key # n) root")
    case None
    then have "view (key # n) root' \<noteq> None"
      unfolding root'_def by (simp add: view_add [OF assms(2)])
    then show ?thesis by (simp only: node_at_view not_False_eq_True)
  qed (simp add: root'_def)
qed

lemma set_loop_spec:
  assumes "trie_ok root" "node_at n root = Some m" "set_loop topic d n root = (n', root')"
  shows "n' = path_of topic d @ n \<and> trie_ok root' \<and> node_at n' root' \<noteq> None
    \<and> (\<forall>p. content p root' = content p root)
    \<and> (\<forall>q. \<not> below n' q \<longrightarrow> view q root' = view q root)"
  using assms
proof (induction topic d n root arbitrary: m n' root' rule: set_loop.induct)
  case (1 topic d n root)
  define key where "key = fst (isolateParticle topic (int d))"
  define r where "r = (case node_at (key # n) root of Some _ \<Rightarrow> root
                  | None \<Rightarrow> update_at n (map_particles (particles_add (newParticle key))) root)"
  note st = set_loop_step [OF "1.prems"(1,2), where key = key, folded r_def]
  have loop: "set_loop topic d n root =
      (if snd (isolateParticle topic (int d)) then set_loop topic (d + 1) (key # n) r else (key # n, r))"
    by (subst set_loop.simps) (simp only: Let_def key_def r_def)
  show ?case
  proof (cases "snd (isolateParticle topic (int d))")
    case True
    then obtain m' where m': "node_at (key # n) r = Some m'" using st(2) by blast
    have "n' = path_of topic (d + 1) @ key # n \<and> trie_ok root' \<and> node_at n' root' \<noteq> None
        \<and> (\<forall>p. content p root' = content p r) \<and> (\<forall>q. \<not> below n' q \<longrightarrow> view q root' = view q r)"
      using True loop "1.prems"(3)
      by (intro "1.IH" [OF key_def refl r_def True st(1) m']) simp
    moreover have "key = segs topic ! d" "Suc d < length (segs topic)"
      using isolateParticle_next [OF True] by (auto simp: key_def isolateParticle_segs)
    moreover have "below (path_of topic (d + 1) @ key # n) q" if "below (key # n) q" for q
      using that by (auto simp: below_def)
    ultimately show ?thesis using st(3,4) path_of_Suc [of d topic] by auto
  next
    case False
    then have "\<not> Suc d < length (segs topic)" by (auto simp: isolateParticle_segs split: if_splits)
    then have "path_of topic d = [key]" by (simp add: path_of_last key_def)
    then show ?thesis using False loop "1.prems"(3) st by auto
  qed
qed

lemma seek_loop_spec:
  "seek_loop flt d n root = (if node_at (path_of flt d @ n) root = None then None else Some (path_of flt d @ n))"
proof (induction flt d n root rule: seek_loop.induct)
  case (1 flt d n root)
  define key where "key = fst (isolateParticle flt (int d))"
  have loop: "seek_loop flt d n root = (case node_at (key # n) root of None \<Rightarrow> None
      | Some _ \<Rightarrow> (if snd (isolateParticle flt (int d)) then seek_loop flt (d + 1) (key # n) root
                  else Some (key # n)))"
    by (subst seek_loop.simps) (simp only: Let_def key_def)
  show ?case
  proof (cases "snd (isolateParticle flt (int d))")
    case True
    then have s: "key = segs flt ! d" "Suc d < length (segs flt)"
      using isolateParticle_next [OF True] by (auto simp: key_def isolateParticle_segs)
    have p: "path_of flt d @ n = path_of flt (Suc d) @ key # n" using s path_of_Suc [of d flt] by simp
    show ?thesis
    proof (cases "node_at (key # n) root")
      case None
      then have "node_at (path_of flt d @ n) root = None"
        unfolding p using node_at_append [of "path_of flt (Suc d)" "key # n" root] by simp
      then show ?thesis using None loop by simp
    next
      case (Some m)
      have "seek_loop flt (d + 1) (key # n) root =
        (if node_at (path_of flt (d + 1) @ key # n) root = None then None
         else Some (path_of flt (d + 1) @ key # n))"
        by (rule "1.IH" [OF key_def refl Some True])
      then show ?thesis using Some True loop p by simp
    qed
  next
    case False
    then have "\<not> Suc d < length (segs flt)" by (auto simp: isolateParticle_segs split: if_splits)
    then have "path_of flt d = [key]" by (simp add: path_of_last key_def)
    then show ?thesis using False loop by (auto split: option.splits)
  qed
qed

text \<open>\<open>trim\<close> keeps what is stored and leaves no empty particle, if only the path had any.\<close>

definition tidy_except :: "pointer \<Rightarrow> particle \<Rightarrow> bool" where
  "tidy_except n root \<longleftrightarrow> (\<forall>p d ks. p \<noteq> [] \<longrightarrow> \<not> below n p \<longrightarrow> view p root = Some (d, ks) \<longrightarrow>
     ks \<noteq> [] \<or> d\<lparr>ptKey := []\<rparr> \<noteq> empty_data)"

lemma ancestor_children:
  assumes "view (r @ p) root \<noteq> None" "r \<noteq> []" "view p root = Some (d, ks)"
  shows "ks \<noteq> []"
proof -
  obtain r' j where r: "r = r' @ [j]" using assms(2) by (metis rev_exhaust)
  obtain n where n: "node_at p root = Some n" "ks = map fst (ptParticles n)"
    using assms(3) by (auto simp: view_def)
  have "node_at (r' @ [j]) n \<noteq> None"
    using assms(1) n by (auto simp: r view_def node_at_append simp del: append_assoc split: option.splits)
  then show ?thesis using n(2) by (auto simp: node_at_Cons_child split: option.splits)
qed

lemma tidy_from_leaf:
  assumes "tidy_except n root" "view n root = Some (d0, ks0)"
    and "n \<noteq> [] \<Longrightarrow> ks0 \<noteq> [] \<or> d0\<lparr>ptKey := []\<rparr> \<noteq> empty_data"
  shows "tidy root"
  unfolding tidy_def
proof (intro allI impI)
  fix p d ks
  assume p: "p \<noteq> []" "view p root = Some (d, ks)"
  show "ks \<noteq> [] \<or> d\<lparr>ptKey := []\<rparr> \<noteq> empty_data"
  proof (cases "below n p")
    case False
    then show ?thesis using assms(1) p by (auto simp: tidy_except_def)
  next
    case True
    then obtain r where n: "n = r @ p" by (auto simp: below_def)
    show ?thesis
    proof (cases "r = []")
      case True
      then show ?thesis using n p assms(2,3) by auto
    next
      case False
      then show ?thesis using ancestor_children [OF _ False p(2)] assms(2) n by auto
    qed
  qed
qed

lemma tidy_imp_except: "tidy root \<Longrightarrow> tidy_except n root"
  by (auto simp: tidy_def tidy_except_def)

lemma trim_spec:
  assumes "trie_ok root" "node_at n root \<noteq> None" "tidy_except n root"
  shows "trie_ok (trim n root) \<and> tidy (trim n root) \<and> (\<forall>p. content p (trim n root) = content p root)"
  using assms
proof (induction n arbitrary: root)
  case Nil
  then have "tidy root" by (auto simp: tidy_def tidy_except_def below_def)
  then show ?case using Nil by simp
next
  case (Cons k q)
  then obtain m where m: "node_at (k # q) root = Some m" by blast
  then have v: "view (k # q) root = Some (ptData m, map fst (ptParticles m))" by (simp add: view_def)
  note ok = trie_okD [OF Cons.prems(1) v]
  show ?case
  proof (cases "vacant m")
    case False
    then have "tidy root"
      using vacant_iff [OF ok(2)] by (intro tidy_from_leaf [OF Cons.prems(3) v]) auto
    then show ?thesis using Cons.prems(1) m False by simp
  next
    case True
    then have vac: "ptParticles m = []" "(ptData m)\<lparr>ptKey := []\<rparr> = empty_data"
      using vacant_iff [OF ok(2)] by simp_all
    define root1 where "root1 = update_at q (map_particles (particles_delete k)) root"
    have trim: "trim (k # q) root = trim q root1"
      using m True ok(3) by (simp add: root1_def)
    note vd = view_delete [of _ q k root, folded root1_def]
    have leaf: "view p root = None" if bel: "below p (k # q)" and ne: "p \<noteq> k # q" for p
    proof -
      obtain r where r: "p = r @ k # q" using bel by (auto simp: below_def)
      then have "r \<noteq> []" using ne by auto
      then have "node_at p root = None"
        unfolding r node_at_append m using node_at_leaf [OF vac(1)] by simp
      then show ?thesis by (simp add: view_def)
    qed
    have content: "content p root1 = content p root" for p
      using leaf [of p] vac(2) v by (cases "p = k # q") (auto simp: content_def vd split: option.splits)
    have "trie_ok root1"
      unfolding trie_ok_def vd using trie_okD [OF Cons.prems(1)]
      by (auto split: if_splits)
    moreover have "view q root \<noteq> None"
      using m by (auto simp: view_def split: option.splits)
    then have "view q root1 \<noteq> None"
      using below_length [of q "k # q"] by (auto simp: vd)
    then have "node_at q root1 \<noteq> None" by (simp only: node_at_view not_False_eq_True)
    moreover have "tidy_except q root1"
      unfolding tidy_except_def
    proof (intro allI impI)
      fix p d ks
      assume p: "p \<noteq> []" "\<not> below q p" "view p root1 = Some (d, ks)"
      have nb: "\<not> below p (k # q)" and pq: "p \<noteq> q" using p by (auto simp: vd split: if_splits)
      then have "view p root = Some (d, ks)" using p(3) by (simp add: vd)
      moreover have "\<not> below (k # q) p"
      proof
        assume "below (k # q) p"
        then obtain r where "k # q = r @ p" by (auto simp: below_def)
        then show False using nb p(2) by (cases r) (auto simp: below_def)
      qed
      ultimately show "ks \<noteq> [] \<or> d\<lparr>ptKey := []\<rparr> \<noteq> empty_data"
        using Cons.prems(3) p(1) by (auto simp: tidy_except_def)
    qed
    ultimately have "trie_ok (trim q root1) \<and> tidy (trim q root1)
        \<and> (\<forall>p. content p (trim q root1) = content p root1)"
      by (rule Cons.IH)
    then show ?thesis by (simp add: trim content del: trim.simps)
  qed
qed

end
