(* ===== verification/Mqtt_TopicSpec.thy ===== *)
theory Mqtt_TopicSpec
  imports Mqtt_TopicTree
begin

text \<open>
  The topic index as a store of subscriptions.  A subscription lives in a slot: the levels of its
  filter and the client, and for a shared filter also the group.  The index with Subscribe and
  Unsubscribe is an instance of the keyed store of the prelude, so a lookup after any sequence
  of operations returns the last write; and it never keeps an empty particle.
\<close>

section \<open>Operations and the content of the tree\<close>

definition index_ok :: "topics_index \<Rightarrow> bool" where
  "index_ok x \<longleftrightarrow> trie_ok (tiRoot x) \<and> tidy (tiRoot x)"

lemma view_root: "view [] root = Some (ptData root, map fst (ptParticles root))"
  by (simp add: view_def)

lemma index_ok_new: "index_ok NewTopicsIndex"
proof -
  have leaf: "ptParticles (newParticle []) = []" by (simp add: newParticle_def)
  have "view p (newParticle []) = (if p = [] then Some (empty_data, []) else None)" for p
    using node_at_leaf [OF leaf, of p] by (auto simp: view_def empty_data_def newParticle_def)
  then show ?thesis
    using data_ok_empty [of "[]"]
    by (auto simp: index_ok_def NewTopicsIndex_def trie_ok_def tidy_def split: if_splits)
qed

text \<open>The updates the operations make, in one form.\<close>

definition good_write :: "(particle_data \<Rightarrow> particle_data) \<Rightarrow> bool" where
  "good_write g \<longleftrightarrow> (\<forall>d. g (d\<lparr>ptKey := []\<rparr>) = (g d)\<lparr>ptKey := []\<rparr>)
     \<and> (\<forall>d. data_ok d \<longrightarrow> data_ok (g d)) \<and> (\<forall>d. ptKey (g d) = ptKey d)"

lemma good_writes [simp]:
  "good_write (ptSubscriptions_update (Subscriptions_Add c s))"
  "good_write (ptSubscriptions_update (Subscriptions_Delete c))"
  "good_write (ptShared_update (SharedSubscriptions_Add g c s))"
  "good_write (ptShared_update (SharedSubscriptions_Delete g c))"
  "good_write (ptInline_update (InlineSubscriptions_Add i))"
  "good_write (ptInline_update (InlineSubscriptions_Delete k))"
  "good_write (ptRetainPath_update (\<lambda>_. t))"
  by (simp_all add: good_write_def data_ok_def shared_ok_Add shared_ok_Delete Subscriptions_defs
      InlineSubscriptions_defs)

lemma data_ok_content: "trie_ok root \<Longrightarrow> data_ok (content p root)"
  using data_ok_empty [of "[]"]
  by (auto simp: content_def data_ok_def dest!: trie_okD(2) split: option.splits)

lemma set_write:
  assumes ok: "index_ok x" and g: "good_write g" and set: "index_set flt d x = (n, x1)"
  defines "x2 \<equiv> write_at n g x1"
  shows "n = path_of flt d" "trie_ok (tiRoot x2)" "tidy_except n (tiRoot x2)"
    "node_at n (tiRoot x2) \<noteq> None" "tiRetained x2 = tiRetained x"
    "(data_at n x1)\<lparr>ptKey := []\<rparr> = content n (tiRoot x)"
    "content p (tiRoot x2) = (if p = n then g (content p (tiRoot x)) else content p (tiRoot x))"
proof -
  obtain root1 where s: "set_loop flt d [] (tiRoot x) = (n, root1)" and x1: "x1 = x\<lparr>tiRoot := root1\<rparr>"
    using set by (auto simp: index_set_def split: prod.splits)
  have spec: "n = path_of flt d @ [] \<and> trie_ok root1 \<and> node_at n root1 \<noteq> None
      \<and> (\<forall>p. content p root1 = content p (tiRoot x))
      \<and> (\<forall>q. \<not> below n q \<longrightarrow> view q root1 = view q (tiRoot x))"
    using ok by (intro set_loop_spec [OF _ _ s]) (simp_all add: index_ok_def)
  then show "n = path_of flt d" by simp
  have x2: "tiRoot x2 = update_at n (map_data g) root1" "tiRetained x2 = tiRetained x"
    by (simp_all add: x2_def write_at_def x1)
  then show "tiRetained x2 = tiRetained x" by simp
  show "trie_ok (tiRoot x2)" unfolding x2 using spec g by (intro trie_ok_write) (auto simp: good_write_def)
  have "node_at n root1 \<noteq> None" using spec by blast
  then have vn: "view n root1 \<noteq> None" by (simp only: node_at_view not_False_eq_True)
  have v2: "view q (tiRoot x2) = (if q = n then map_option (apfst g) (view q root1) else view q root1)" for q
    unfolding x2 by (rule view_write)
  show "node_at n (tiRoot x2) \<noteq> None"
    using vn by (simp add: node_at_view v2)
  show "content p (tiRoot x2) = (if p = n then g (content p (tiRoot x)) else content p (tiRoot x))"
    unfolding x2 using spec vn g by (subst content_write) (auto simp: good_write_def)
  show "tidy_except n (tiRoot x2)"
    unfolding tidy_except_def
  proof (intro allI impI)
    fix q d' ks
    assume q: "q \<noteq> []" "\<not> below n q" "view q (tiRoot x2) = Some (d', ks)"
    then have "q \<noteq> n" by auto
    then have "view q (tiRoot x) = Some (d', ks)" using q spec by (simp add: v2)
    then show "ks \<noteq> [] \<or> d'\<lparr>ptKey := []\<rparr> \<noteq> empty_data"
      using ok q(1) unfolding index_ok_def tidy_def by blast
  qed
  obtain m where m: "node_at n root1 = Some m" using spec by blast
  then have "(ptData m)\<lparr>ptKey := []\<rparr> = content n root1" by (simp add: content_def view_def)
  then show "(data_at n x1)\<lparr>ptKey := []\<rparr> = content n (tiRoot x)"
    using spec m by (simp add: data_at_def x1)
qed

lemma content_at_node:
  "node_at n root = Some m \<Longrightarrow> content n root = (ptData m)\<lparr>ptKey := []\<rparr>"
  by (simp add: content_def view_def)

lemma tidy_write:
  assumes "tidy_except n root" "node_at n root \<noteq> None" "content n root \<noteq> empty_data"
  shows "tidy root"
proof -
  obtain m where m: "node_at n root = Some m" using assms(2) by blast
  then have "view n root = Some (ptData m, map fst (ptParticles m))" by (simp add: view_def)
  then show ?thesis
    using assms(1,3) content_at_node [OF m] by (intro tidy_from_leaf [OF assms(1)]) auto
qed

lemma set_write_ok:
  assumes "index_ok x" "good_write g" "index_set flt d x = (n, x1)"
    and "g (content n (tiRoot x)) \<noteq> empty_data"
  shows "index_ok (write_at n g x1)"
  using set_write [OF assms(1-3)] assms(4) tidy_write by (simp add: index_ok_def)

lemma seek_write:
  assumes ok: "index_ok x" and g: "good_write g" and seek: "index_seek flt d x = Some n"
  defines "x2 \<equiv> write_at n g x"
  shows "n = path_of flt d" "trie_ok (tiRoot x2)" "tidy_except n (tiRoot x2)"
    "node_at n (tiRoot x2) \<noteq> None" "tiRetained x2 = tiRetained x"
    "content p (tiRoot x2) = (if p = n then g (content p (tiRoot x)) else content p (tiRoot x))"
proof -
  have s: "n = path_of flt d" "node_at n (tiRoot x) \<noteq> None"
    using seek by (auto simp: index_seek_def seek_loop_spec split: if_splits)
  then show "n = path_of flt d" by simp
  have x2: "tiRoot x2 = update_at n (map_data g) (tiRoot x)" "tiRetained x2 = tiRetained x"
    by (simp_all add: x2_def write_at_def)
  then show "tiRetained x2 = tiRetained x" by simp
  have tr: "trie_ok (tiRoot x)" "tidy (tiRoot x)" using ok by (simp_all add: index_ok_def)
  show "trie_ok (tiRoot x2)" unfolding x2 using tr g by (intro trie_ok_write) (auto simp: good_write_def)
  have vn: "view n (tiRoot x) \<noteq> None" using s(2) by (simp only: node_at_view not_False_eq_True)
  have v2: "view q (tiRoot x2) = (if q = n then map_option (apfst g) (view q (tiRoot x)) else view q (tiRoot x))" for q
    unfolding x2 by (rule view_write)
  show "node_at n (tiRoot x2) \<noteq> None" using vn by (simp add: node_at_view v2)
  show "content p (tiRoot x2) = (if p = n then g (content p (tiRoot x)) else content p (tiRoot x))"
    unfolding x2 using vn g by (subst content_write) (auto simp: good_write_def)
  show "tidy_except n (tiRoot x2)"
    using tr(2) unfolding tidy_except_def tidy_def v2 by (auto split: if_splits)
qed

lemma content_seek_none:
  assumes "index_seek flt d x = None"
  shows "content (path_of flt d) (tiRoot x) = empty_data"
  using assms by (auto simp: index_seek_def seek_loop_spec content_def view_def split: if_splits option.splits)

lemma index_trim_spec:
  assumes "trie_ok (tiRoot x)" "node_at n (tiRoot x) \<noteq> None" "tidy_except n (tiRoot x)"
  shows "index_ok (index_trim n x)" "content p (tiRoot (index_trim n x)) = content p (tiRoot x)"
    "tiRetained (index_trim n x) = tiRetained x"
  using trim_spec [OF assms] by (simp_all add: index_trim_def index_ok_def)

section \<open>Slots\<close>

datatype slot =
    PlainSlot pointer gostring
  | SharedSlot pointer gostring gostring

definition slot :: "gostring \<Rightarrow> gostring \<Rightarrow> slot" where
  "slot flt client =
    (if IsSharedFilter flt then SharedSlot (path_of flt 2) (fst (isolateParticle flt 1)) client
     else PlainSlot (path_of flt 0) client)"

fun index_get :: "topics_index \<Rightarrow> slot \<Rightarrow> subscription option" where
  "index_get x (PlainSlot p c) = Subscriptions_Get (ptSubscriptions (content p (tiRoot x))) c"
| "index_get x (SharedSlot p g c) = SharedSubscriptions_Get (ptShared (content p (tiRoot x))) (g, c)"

lemma empty_data_fields [simp]:
  "ptSubscriptions empty_data = []" "ptShared empty_data = []" "ptInline empty_data = []"
  "ptRetainPath empty_data = []"
  by (simp_all add: empty_data_def newParticle_def NewSubscriptions_def NewSharedSubscriptions_def
      NewInlineSubscriptions_def)

lemma IsShared_prefix: "EqualFold (fst (isolateParticle flt 0)) SharePrefix = IsSharedFilter flt"
  by (simp add: IsSharedFilter_def split: prod.splits)

lemma content_shared_ok:
  "index_ok x \<Longrightarrow> shared_ok (ptShared (content p (tiRoot x)))"
  "index_ok x \<Longrightarrow> map_ok (ptSubscriptions (content p (tiRoot x)))"
  using data_ok_content [of "tiRoot x" p] by (simp_all add: index_ok_def data_ok_def)

lemma Subscribe_eq:
  "fst (TopicsIndex_Subscribe c sub x) =
    (let shared = IsSharedFilter (sFilter sub);
         (n, x1) = index_set (sFilter sub) (if shared then 2 else 0) x
     in write_at n (if shared then ptShared_update (SharedSubscriptions_Add
                                     (fst (isolateParticle (sFilter sub) 1)) c sub)
                    else ptSubscriptions_update (Subscriptions_Add c sub)) x1)"
  by (simp add: TopicsIndex_Subscribe_def Let_def IsShared_prefix split: prod.splits)

lemma index_ok_Subscribe:
  assumes "index_ok x"
  shows "index_ok (fst (TopicsIndex_Subscribe c sub x))"
proof -
  let ?sh = "IsSharedFilter (sFilter sub)"
  obtain n x1 where s: "index_set (sFilter sub) (if ?sh then 2 else 0) x = (n, x1)" by (metis prod.exhaust)
  let ?g = "if ?sh then ptShared_update (SharedSubscriptions_Add (fst (isolateParticle (sFilter sub) 1)) c sub)
      else ptSubscriptions_update (Subscriptions_Add c sub)"
  have "ptShared (?g d) \<noteq> [] \<or> ptSubscriptions (?g d) \<noteq> []" for d
    by (simp add: SharedSubscriptions_Add_eq m_set_not_Nil Subscriptions_defs)
  then have "?g (content n (tiRoot x)) \<noteq> empty_data" by (metis empty_data_fields(1,2))
  then have "index_ok (write_at n ?g x1)" by (intro set_write_ok [OF assms _ s]) simp_all
  then show ?thesis unfolding Subscribe_eq Let_def s by simp
qed

lemma index_get_Subscribe:
  assumes "index_ok x"
  shows "index_get (fst (TopicsIndex_Subscribe c sub x)) k
    = (if k = slot (sFilter sub) c then Some sub else index_get x k)"
proof -
  let ?sh = "IsSharedFilter (sFilter sub)"
  obtain n x1 where s: "index_set (sFilter sub) (if ?sh then 2 else 0) x = (n, x1)" by (metis prod.exhaust)
  let ?g = "if ?sh then ptShared_update (SharedSubscriptions_Add (fst (isolateParticle (sFilter sub) 1)) c sub)
      else ptSubscriptions_update (Subscriptions_Add c sub)"
  have gw: "good_write ?g" by simp
  have x2: "fst (TopicsIndex_Subscribe c sub x) = write_at n ?g x1"
    unfolding Subscribe_eq Let_def s by simp
  note w = set_write [OF assms gw s]
  have n: "n = (if ?sh then path_of (sFilter sub) 2 else path_of (sFilter sub) 0)" using w(1) by auto
  show ?thesis
    unfolding x2
  proof (cases k)
    case (PlainSlot p d)
    then show "index_get (write_at n ?g x1) k
        = (if k = slot (sFilter sub) c then Some sub else index_get x k)"
      using subscription_store.get_put [OF content_shared_ok(2) [OF assms]]
      by (simp only: index_get.simps w(7)) (auto simp: n slot_def)
  next
    case (SharedSlot p h d)
    then show "index_get (write_at n ?g x1) k
        = (if k = slot (sFilter sub) c then Some sub else index_get x k)"
      using shared_store.get_put [OF content_shared_ok(1) [OF assms]]
      by (simp only: index_get.simps w(7)) (auto simp: n slot_def)
  qed
qed

lemma Subscribe_new:
  assumes "index_ok x"
  shows "snd (TopicsIndex_Subscribe c sub x) \<longleftrightarrow> index_get x (slot (sFilter sub) c) = None"
proof -
  let ?sh = "IsSharedFilter (sFilter sub)"
  obtain n x1 where s: "index_set (sFilter sub) (if ?sh then 2 else 0) x = (n, x1)" by (metis prod.exhaust)
  note w = set_write [OF assms good_writes(7) [of "[]"] s]
  have "ptShared (data_at n x1) = ptShared (content n (tiRoot x))"
      "ptSubscriptions (data_at n x1) = ptSubscriptions (content n (tiRoot x))"
    by (simp_all flip: w(6))
  moreover have "n = path_of (sFilter sub) (if ?sh then 2 else 0)" by (rule w(1))
  ultimately show ?thesis
    using s by (auto simp: TopicsIndex_Subscribe_def Let_def IsShared_prefix slot_def)
qed

text \<open>Unsubscribe.\<close>

lemma Unsubscribe_none:
  "index_seek flt (if IsSharedFilter flt then 2 else 0) x = None \<Longrightarrow>
     TopicsIndex_Unsubscribe flt c x = (x, False)"
  by (simp add: TopicsIndex_Unsubscribe_def Let_def IsShared_prefix)

lemma Unsubscribe_some:
  "index_seek flt (if IsSharedFilter flt then 2 else 0) x = Some n \<Longrightarrow>
     TopicsIndex_Unsubscribe flt c x = (index_trim n (write_at n
       (if IsSharedFilter flt
        then ptShared_update (SharedSubscriptions_Delete (fst (isolateParticle flt 1)) c)
        else ptSubscriptions_update (Subscriptions_Delete c)) x), True)"
  by (simp add: TopicsIndex_Unsubscribe_def Let_def IsShared_prefix)

lemma index_ok_Unsubscribe:
  assumes "index_ok x"
  shows "index_ok (fst (TopicsIndex_Unsubscribe flt c x))"
proof (cases "index_seek flt (if IsSharedFilter flt then 2 else 0) x")
  case None
  then show ?thesis using assms by (simp add: Unsubscribe_none)
next
  case (Some n)
  then show ?thesis
    unfolding Unsubscribe_some [OF Some] fst_conv
    by (intro index_trim_spec seek_write [OF assms _ Some]) simp_all
qed

lemma index_get_Unsubscribe:
  assumes "index_ok x"
  shows "index_get (fst (TopicsIndex_Unsubscribe flt c x)) k
    = (if k = slot flt c then None else index_get x k)"
proof (cases "index_seek flt (if IsSharedFilter flt then 2 else 0) x")
  case None
  have "index_get x (slot flt c) = None"
    using content_seek_none [OF None]
    by (simp add: slot_def Subscriptions_defs SharedSubscriptions_Get_def split: if_splits)
  then show ?thesis using None by (simp add: Unsubscribe_none)
next
  case (Some n)
  let ?g = "if IsSharedFilter flt
    then ptShared_update (SharedSubscriptions_Delete (fst (isolateParticle flt 1)) c)
    else ptSubscriptions_update (Subscriptions_Delete c)"
  have gw: "good_write ?g" by simp
  note w = seek_write [OF assms gw Some]
  have content: "content p (tiRoot (fst (TopicsIndex_Unsubscribe flt c x)))
      = (if p = n then ?g (content p (tiRoot x)) else content p (tiRoot x))" for p
    unfolding Unsubscribe_some [OF Some] fst_conv index_trim_spec(2) [OF w(2,4,3)] by (rule w(6))
  have n: "n = (if IsSharedFilter flt then path_of flt 2 else path_of flt 0)" using w(1) by auto
  show ?thesis
  proof (cases k)
    case (PlainSlot p d)
    then show ?thesis
      using subscription_store.get_del [OF content_shared_ok(2) [OF assms]]
      by (simp only: index_get.simps content) (auto simp: n slot_def)
  next
    case (SharedSlot p h d)
    then show ?thesis
      using shared_store.get_del [OF content_shared_ok(1) [OF assms]]
      by (simp only: index_get.simps content) (auto simp: n slot_def)
  qed
qed

text \<open>The index is a store of subscriptions.\<close>

interpretation index_store: go_store index_ok "\<lambda>(c, s). slot (sFilter s) c" snd "\<lambda>(flt, c). slot flt c"
    index_get "\<lambda>(c, s) x. fst (TopicsIndex_Subscribe c s x)"
    "\<lambda>(flt, c) x. fst (TopicsIndex_Unsubscribe flt c x)"
  by unfold_locales
     (auto simp: index_get_Subscribe index_get_Unsubscribe index_ok_Subscribe index_ok_Unsubscribe)

section \<open>Inline subscriptions and retained messages\<close>

lemma InlineSubscribe_spec:
  fixes i :: inline_subscription
  assumes "index_ok x"
  defines "flt \<equiv> sFilter (isSubscription i)"
  shows "index_ok (fst (TopicsIndex_InlineSubscribe i x))"
    "content p (tiRoot (fst (TopicsIndex_InlineSubscribe i x))) =
      (if p = path_of flt 0 then ptInline_update (InlineSubscriptions_Add i) (content p (tiRoot x))
       else content p (tiRoot x))"
    "tiRetained (fst (TopicsIndex_InlineSubscribe i x)) = tiRetained x"
proof -
  obtain n x1 where s: "index_set flt 0 x = (n, x1)" by (metis prod.exhaust)
  let ?g = "ptInline_update (InlineSubscriptions_Add i)"
  have x2: "fst (TopicsIndex_InlineSubscribe i x) = write_at n ?g x1"
    using s by (simp add: TopicsIndex_InlineSubscribe_def flt_def Let_def)
  note w = set_write [OF assms(1) good_writes(5) [of i] s]
  have "ptInline (?g d) \<noteq> []" for d by (simp add: InlineSubscriptions_defs m_set_not_Nil)
  then have ne: "?g (content n (tiRoot x)) \<noteq> empty_data" by (metis empty_data_fields(3))
  show "index_ok (fst (TopicsIndex_InlineSubscribe i x))"
    unfolding x2 by (rule set_write_ok [OF assms(1) good_writes(5) s ne])
  show "content p (tiRoot (fst (TopicsIndex_InlineSubscribe i x))) =
      (if p = path_of flt 0 then ptInline_update (InlineSubscriptions_Add i) (content p (tiRoot x))
       else content p (tiRoot x))"
    unfolding x2 w(7) by (simp add: w(1))
  show "tiRetained (fst (TopicsIndex_InlineSubscribe i x)) = tiRetained x"
    unfolding x2 by (rule w(5))
qed

lemma InlineUnsubscribe_spec:
  assumes "index_ok x"
  shows "index_ok (fst (TopicsIndex_InlineUnsubscribe k flt x))"
    "content p (tiRoot (fst (TopicsIndex_InlineUnsubscribe k flt x))) =
      (if p = path_of flt 0 then ptInline_update (InlineSubscriptions_Delete k) (content p (tiRoot x))
       else content p (tiRoot x))"
    "tiRetained (fst (TopicsIndex_InlineUnsubscribe k flt x)) = tiRetained x"
proof -
  let ?g = "ptInline_update (InlineSubscriptions_Delete k)"
  let ?x' = "fst (TopicsIndex_InlineUnsubscribe k flt x)"
  have "index_ok ?x' \<and> tiRetained ?x' = tiRetained x \<and>
    (\<forall>p. content p (tiRoot ?x') = (if p = path_of flt 0 then ?g (content p (tiRoot x)) else content p (tiRoot x)))"
  proof (cases "index_seek flt 0 x")
    case None
    have "?g empty_data = empty_data"
      by (simp add: empty_data_def newParticle_def InlineSubscriptions_defs)
    then show ?thesis
      using assms content_seek_none [OF None] None by (simp add: TopicsIndex_InlineUnsubscribe_def)
  next
    case (Some n)
    note w = seek_write [OF assms good_writes(6) [of k] Some]
    define x2 where "x2 = write_at n ?g x"
    have eq: "?x' = (if InlineSubscriptions_Len (ptInline (data_at n x2)) = 0 then index_trim n x2 else x2)"
      using Some by (simp add: TopicsIndex_InlineUnsubscribe_def Let_def x2_def)
    have cont: "\<forall>p. content p (tiRoot x2)
        = (if p = path_of flt 0 then ?g (content p (tiRoot x)) else content p (tiRoot x))"
      unfolding x2_def w(6) by (simp add: w(1))
    show ?thesis
    proof (cases "InlineSubscriptions_Len (ptInline (data_at n x2)) = 0")
      case True
      then show ?thesis
        using index_trim_spec [OF w(2,4,3)] cont w(5) by (simp add: eq x2_def)
    next
      case False
      obtain m where m: "node_at n (tiRoot x2) = Some m" using w(4) x2_def by blast
      then have "content n (tiRoot x2) \<noteq> empty_data"
        using False by (auto simp: content_at_node [OF m] data_at_def InlineSubscriptions_Len_def
            dest: arg_cong [where f = ptInline])
      then have "tidy (tiRoot x2)" using tidy_write w(3,4) by (simp add: x2_def)
      then show ?thesis using False cont w(2,5) by (simp add: eq index_ok_def x2_def)
    qed
  qed
  then show "index_ok ?x'" "tiRetained ?x' = tiRetained x"
    "content p (tiRoot ?x') = (if p = path_of flt 0 then ?g (content p (tiRoot x)) else content p (tiRoot x))"
    by auto
qed

lemma RetainMessage_spec:
  fixes pk :: packet
  assumes "index_ok x" "pkTopicName pk \<noteq> []"
  defines "t \<equiv> pkTopicName pk" and "path \<equiv> (if pkPayload pk = [] then [] else pkTopicName pk)"
  shows "index_ok (fst (TopicsIndex_RetainMessage pk x))"
    "content p (tiRoot (fst (TopicsIndex_RetainMessage pk x))) =
      (if p = path_of t 0 then ptRetainPath_update (\<lambda>_. path) (content p (tiRoot x))
       else content p (tiRoot x))"
    "tiRetained (fst (TopicsIndex_RetainMessage pk x)) =
      (if pkPayload pk = [] then Packets_Delete t (tiRetained x) else Packets_Add t pk (tiRetained x))"
proof -
  let ?g = "ptRetainPath_update (\<lambda>_. path)"
  let ?x' = "fst (TopicsIndex_RetainMessage pk x)"
  obtain n x1 where s: "index_set t 0 x = (n, x1)" by (metis prod.exhaust)
  note w = set_write [OF assms(1) good_writes(7) [of path] s]
  have ret: "content p (tiRoot (x\<lparr>tiRetained := r\<rparr>)) = content p (tiRoot x)" for r p and x :: topics_index
    by simp
  have "index_ok ?x' \<and> tiRetained ?x' = (if pkPayload pk = [] then Packets_Delete t (tiRetained x)
      else Packets_Add t pk (tiRetained x)) \<and>
    (\<forall>p. content p (tiRoot ?x') = (if p = path_of t 0 then ?g (content p (tiRoot x)) else content p (tiRoot x)))"
  proof (cases "pkPayload pk = []")
    case False
    then have eq: "?x' = (write_at n ?g x1)\<lparr>tiRetained := Packets_Add t pk (tiRetained (write_at n ?g x1))\<rparr>"
      using s by (simp add: TopicsIndex_RetainMessage_def Let_def t_def path_def write_at_def)
    have "?g (content n (tiRoot x)) \<noteq> empty_data"
      using False assms(2) by (auto simp: path_def dest: arg_cong [where f = ptRetainPath])
    then have "index_ok (write_at n ?g x1)" by (intro set_write_ok [OF assms(1) _ s]) simp_all
    then show ?thesis
      using False w(5,7) by (simp add: eq index_ok_def) (simp add: w(1))
  next
    case True
    define x2 where "x2 = (write_at n ?g x1)\<lparr>tiRetained := Packets_Delete t (tiRetained (write_at n ?g x1))\<rparr>"
    have eq: "?x' = index_trim n x2"
      using True s by (simp add: TopicsIndex_RetainMessage_def Let_def t_def path_def x2_def)
    have root: "tiRoot x2 = tiRoot (write_at n ?g x1)" by (simp add: x2_def)
    have "content p (tiRoot x2) = (if p = path_of t 0 then ?g (content p (tiRoot x)) else content p (tiRoot x))" for p
      unfolding root w(7) by (simp add: w(1))
    then show ?thesis
      using True index_trim_spec [of x2 n] w(2-5) unfolding eq root by (simp add: x2_def)
  qed
  then show "index_ok ?x'"
    "content p (tiRoot ?x') = (if p = path_of t 0 then ?g (content p (tiRoot x)) else content p (tiRoot x))"
    "tiRetained ?x' = (if pkPayload pk = [] then Packets_Delete t (tiRetained x)
      else Packets_Add t pk (tiRetained x))"
    by auto
qed

section \<open>Histories of the index\<close>

text \<open>
  \<open>OpForget\<close> is the server's deletion of an expired retained message, which goes to the map and
  leaves the path in the tree.
\<close>

datatype index_op =
    OpSubscribe gostring subscription
  | OpUnsubscribe gostring gostring
  | OpInlineSubscribe inline_subscription
  | OpInlineUnsubscribe int gostring
  | OpRetain packet
  | OpForget gostring

fun index_step :: "index_op \<Rightarrow> topics_index \<Rightarrow> topics_index" where
  "index_step (OpSubscribe c s) x = fst (TopicsIndex_Subscribe c s x)"
| "index_step (OpUnsubscribe f c) x = fst (TopicsIndex_Unsubscribe f c x)"
| "index_step (OpInlineSubscribe i) x = fst (TopicsIndex_InlineSubscribe i x)"
| "index_step (OpInlineUnsubscribe k f) x = fst (TopicsIndex_InlineUnsubscribe k f x)"
| "index_step (OpRetain pk) x = fst (TopicsIndex_RetainMessage pk x)"
| "index_step (OpForget t) x = tiRetained_update (Packets_Delete t) x"

fun op_ok :: "index_op \<Rightarrow> bool" where
  "op_ok (OpRetain pk) \<longleftrightarrow> pkTopicName pk \<noteq> []"
| "op_ok _ \<longleftrightarrow> True"

text \<open>What the history says about a slot and about a retained topic.\<close>

fun slot_history :: "index_op list \<Rightarrow> slot \<Rightarrow> subscription option \<Rightarrow> subscription option" where
  "slot_history [] k v0 = v0"
| "slot_history (OpSubscribe c s # ops) k v0 =
     slot_history ops k (if slot (sFilter s) c = k then Some s else v0)"
| "slot_history (OpUnsubscribe f c # ops) k v0 =
     slot_history ops k (if slot f c = k then None else v0)"
| "slot_history (_ # ops) k v0 = slot_history ops k v0"

fun retained_history :: "index_op list \<Rightarrow> gostring \<Rightarrow> packet option \<Rightarrow> packet option" where
  "retained_history [] t v0 = v0"
| "retained_history (OpRetain pk # ops) t v0 =
     retained_history ops t
       (if pkTopicName pk = t then (if pkPayload pk = [] then None else Some pk) else v0)"
| "retained_history (OpForget u # ops) t v0 = retained_history ops t (if u = t then None else v0)"
| "retained_history (_ # ops) t v0 = retained_history ops t v0"

text \<open>
  Retained messages: a path stored in a particle is the path of the particle, and every retained
  message is reachable through the particle of its topic.
\<close>

definition retain_ok :: "topics_index \<Rightarrow> bool" where
  "retain_ok x \<longleftrightarrow>
     (\<forall>p. ptRetainPath (content p (tiRoot x)) \<noteq> [] \<longrightarrow>
        p = path_of (ptRetainPath (content p (tiRoot x))) 0)
     \<and> (\<forall>t pk. Packets_Get t (tiRetained x) = Some pk \<longrightarrow> t \<noteq> [] \<and> pkTopicName pk = t
          \<and> ptRetainPath (content (path_of t 0) (tiRoot x)) = t)"

definition index_inv :: "topics_index \<Rightarrow> bool" where
  "index_inv x \<longleftrightarrow> index_ok x \<and> retain_ok x"

lemma index_get_content:
  "(\<And>p. ptSubscriptions (content p (tiRoot y)) = ptSubscriptions (content p (tiRoot x))) \<Longrightarrow>
   (\<And>p. ptShared (content p (tiRoot y)) = ptShared (content p (tiRoot x))) \<Longrightarrow>
     index_get y k = index_get x k"
  by (cases k) simp_all

lemma retain_ok_content:
  assumes "retain_ok x" "\<And>p. ptRetainPath (content p (tiRoot y)) = ptRetainPath (content p (tiRoot x))"
    and "tiRetained y = tiRetained x"
  shows "retain_ok y"
  using assms by (simp add: retain_ok_def)

lemma path_of_inject: "path_of s 0 = path_of t 0 \<longleftrightarrow> s = t"
  by (simp add: path_of_0)

lemma Subscribe_frame:
  assumes "index_ok x"
  shows "ptRetainPath (content p (tiRoot (fst (TopicsIndex_Subscribe c sub x)))) = ptRetainPath (content p (tiRoot x))"
    "tiRetained (fst (TopicsIndex_Subscribe c sub x)) = tiRetained x"
    "ptInline (content p (tiRoot (fst (TopicsIndex_Subscribe c sub x)))) = ptInline (content p (tiRoot x))"
proof -
  let ?sh = "IsSharedFilter (sFilter sub)"
  obtain n x1 where s: "index_set (sFilter sub) (if ?sh then 2 else 0) x = (n, x1)" by (metis prod.exhaust)
  let ?g = "if ?sh then ptShared_update (SharedSubscriptions_Add (fst (isolateParticle (sFilter sub) 1)) c sub)
      else ptSubscriptions_update (Subscriptions_Add c sub)"
  have gw: "good_write ?g" by simp
  have x2: "fst (TopicsIndex_Subscribe c sub x) = write_at n ?g x1"
    unfolding Subscribe_eq Let_def s by simp
  note w = set_write [OF assms gw s]
  show "ptRetainPath (content p (tiRoot (fst (TopicsIndex_Subscribe c sub x)))) = ptRetainPath (content p (tiRoot x))"
    "ptInline (content p (tiRoot (fst (TopicsIndex_Subscribe c sub x)))) = ptInline (content p (tiRoot x))"
    unfolding x2 w(7) by simp_all
  show "tiRetained (fst (TopicsIndex_Subscribe c sub x)) = tiRetained x" unfolding x2 by (rule w(5))
qed

lemma Unsubscribe_frame:
  assumes "index_ok x"
  shows "ptRetainPath (content p (tiRoot (fst (TopicsIndex_Unsubscribe flt c x)))) = ptRetainPath (content p (tiRoot x))"
    "tiRetained (fst (TopicsIndex_Unsubscribe flt c x)) = tiRetained x"
    "ptInline (content p (tiRoot (fst (TopicsIndex_Unsubscribe flt c x)))) = ptInline (content p (tiRoot x))"
proof -
  let ?x' = "fst (TopicsIndex_Unsubscribe flt c x)"
  have "tiRetained ?x' = tiRetained x \<and>
    ptRetainPath (content p (tiRoot ?x')) = ptRetainPath (content p (tiRoot x)) \<and>
    ptInline (content p (tiRoot ?x')) = ptInline (content p (tiRoot x))"
  proof (cases "index_seek flt (if IsSharedFilter flt then 2 else 0) x")
    case (Some n)
    let ?g = "if IsSharedFilter flt
      then ptShared_update (SharedSubscriptions_Delete (fst (isolateParticle flt 1)) c)
      else ptSubscriptions_update (Subscriptions_Delete c)"
    have gw: "good_write ?g" by simp
    note w = seek_write [OF assms gw Some]
    show ?thesis
      unfolding Unsubscribe_some [OF Some] fst_conv index_trim_spec(2,3) [OF w(2,4,3)] w(5,6) by simp
  qed (simp add: Unsubscribe_none)
  then show "tiRetained ?x' = tiRetained x"
    "ptRetainPath (content p (tiRoot ?x')) = ptRetainPath (content p (tiRoot x))"
    "ptInline (content p (tiRoot ?x')) = ptInline (content p (tiRoot x))" by simp_all
qed

lemma index_inv_step:
  assumes inv: "index_inv x" and op: "op_ok op"
  shows "index_inv (index_step op x)"
proof -
  have ok: "index_ok x" and r: "retain_ok x" using inv by (simp_all add: index_inv_def)
  show ?thesis
  proof (cases op)
    case (OpSubscribe c s)
    then show ?thesis
      using index_ok_Subscribe [OF ok] retain_ok_content [OF r Subscribe_frame(1,2) [OF ok]]
      by (simp add: index_inv_def)
  next
    case (OpUnsubscribe f c)
    then show ?thesis
      using index_ok_Unsubscribe [OF ok] retain_ok_content [OF r Unsubscribe_frame(1,2) [OF ok]]
      by (simp add: index_inv_def)
  next
    case (OpInlineSubscribe i)
    note sp = InlineSubscribe_spec [OF ok, where i = i]
    have "retain_ok (fst (TopicsIndex_InlineSubscribe i x))"
      by (rule retain_ok_content [OF r _ sp(3)]) (simp add: sp(2))
    then show ?thesis using OpInlineSubscribe sp(1) by (simp add: index_inv_def)
  next
    case (OpInlineUnsubscribe k f)
    note sp = InlineUnsubscribe_spec [OF ok, where k = k and flt = f]
    have "retain_ok (fst (TopicsIndex_InlineUnsubscribe k f x))"
      by (rule retain_ok_content [OF r _ sp(3)]) (simp add: sp(2))
    then show ?thesis using OpInlineUnsubscribe sp(1) by (simp add: index_inv_def)
  next
    case (OpRetain pk)
    then have t: "pkTopicName pk \<noteq> []" using op by simp
    note sp = RetainMessage_spec [OF ok t]
    have "retain_ok (fst (TopicsIndex_RetainMessage pk x))"
      unfolding retain_ok_def sp(2,3) using r t
      by (auto simp: retain_ok_def path_of_inject Packets_defs)
    then show ?thesis using OpRetain sp(1) by (simp add: index_inv_def)
  next
    case (OpForget u)
    then show ?thesis
      using ok r by (auto simp: index_inv_def index_ok_def retain_ok_def Packets_defs)
  qed
qed

lemma index_inv_new: "index_inv NewTopicsIndex"
proof -
  have leaf: "ptParticles (newParticle []) = []" by (simp add: newParticle_def)
  have "content p (newParticle []) = empty_data" for p
    using node_at_leaf [OF leaf, of p]
    by (cases "p = []") (simp_all add: content_def view_def empty_data_def newParticle_def)
  then show ?thesis
    using index_ok_new by (simp add: index_inv_def retain_ok_def NewTopicsIndex_def Packets_defs)
qed

definition index_run :: "index_op list \<Rightarrow> topics_index" where
  "index_run ops = fold index_step ops NewTopicsIndex"

lemma index_inv_fold: "index_inv x \<Longrightarrow> list_all op_ok ops \<Longrightarrow> index_inv (fold index_step ops x)"
  by (induction ops arbitrary: x) (simp_all add: index_inv_step)

lemma index_inv_run: "list_all op_ok ops \<Longrightarrow> index_inv (index_run ops)"
  unfolding index_run_def by (rule index_inv_fold [OF index_inv_new])

lemma index_get_step:
  assumes "index_ok x" "op_ok op"
  shows "index_get (index_step op x) k = slot_history [op] k (index_get x k)"
proof (cases op)
  case (OpSubscribe c s)
  then show ?thesis using index_get_Subscribe [OF assms(1)] by auto
next
  case (OpUnsubscribe f c)
  then show ?thesis using index_get_Unsubscribe [OF assms(1)] by auto
next
  case (OpInlineSubscribe i)
  have "index_get (fst (TopicsIndex_InlineSubscribe i x)) k = index_get x k"
    by (rule index_get_content) (simp_all add: InlineSubscribe_spec(2) [OF assms(1)])
  then show ?thesis using OpInlineSubscribe by simp
next
  case (OpInlineUnsubscribe j f)
  have "index_get (fst (TopicsIndex_InlineUnsubscribe j f x)) k = index_get x k"
    by (rule index_get_content) (simp_all add: InlineUnsubscribe_spec(2) [OF assms(1)])
  then show ?thesis using OpInlineUnsubscribe by simp
next
  case (OpRetain pk)
  then have "index_get (fst (TopicsIndex_RetainMessage pk x)) k = index_get x k"
    using assms(2) by (intro index_get_content) (simp_all add: RetainMessage_spec(2) [OF assms(1)])
  then show ?thesis using OpRetain by simp
next
  case (OpForget t)
  then show ?thesis by (cases k) simp_all
qed

lemma slot_history_Cons: "slot_history (op # ops) k v = slot_history ops k (slot_history [op] k v)"
  by (cases op) simp_all

lemma retained_history_Cons:
  "retained_history (op # ops) t v = retained_history ops t (retained_history [op] t v)"
  by (cases op) simp_all

lemma index_get_fold:
  "index_inv x \<Longrightarrow> list_all op_ok ops \<Longrightarrow>
     index_get (fold index_step ops x) k = slot_history ops k (index_get x k)"
proof (induction ops arbitrary: x)
  case (Cons op ops)
  then show ?case
    using index_get_step [of x op k] index_inv_step [of x op]
    by (simp add: slot_history_Cons [of op ops] index_inv_def del: slot_history.simps)
qed simp

lemma retained_step:
  assumes "index_ok x" "op_ok op"
  shows "Packets_Get t (tiRetained (index_step op x)) = retained_history [op] t (Packets_Get t (tiRetained x))"
proof (cases op)
  case (OpRetain pk)
  then show ?thesis
    using assms by (auto simp: RetainMessage_spec(3) Packets_defs)
qed (use assms in \<open>auto simp: Subscribe_frame(2) Unsubscribe_frame(2) InlineSubscribe_spec(3)
      InlineUnsubscribe_spec(3) Packets_defs\<close>)

lemma retained_fold:
  "index_inv x \<Longrightarrow> list_all op_ok ops \<Longrightarrow>
     Packets_Get t (tiRetained (fold index_step ops x)) = retained_history ops t (Packets_Get t (tiRetained x))"
proof (induction ops arbitrary: x)
  case (Cons op ops)
  then show ?case
    using retained_step [of x op t] index_inv_step [of x op]
    by (simp add: retained_history_Cons [of op ops] index_inv_def del: retained_history.simps)
qed simp

lemma index_get_new: "index_get NewTopicsIndex k = None"
proof -
  have leaf: "ptParticles (newParticle []) = []" by (simp add: newParticle_def)
  have "content p (newParticle []) = empty_data" for p
    using node_at_leaf [OF leaf, of p]
    by (cases "p = []") (simp_all add: content_def view_def empty_data_def newParticle_def)
  then show ?thesis
    by (cases k) (simp_all add: NewTopicsIndex_def Subscriptions_defs SharedSubscriptions_Get_def)
qed

lemma index_get_run: "list_all op_ok ops \<Longrightarrow> index_get (index_run ops) k = slot_history ops k None"
  using index_get_fold [OF index_inv_new, of ops k] by (simp add: index_run_def index_get_new)

lemma retained_run:
  "list_all op_ok ops \<Longrightarrow> Packets_Get t (tiRetained (index_run ops)) = retained_history ops t None"
  using retained_fold [OF index_inv_new, of ops t]
  by (simp add: index_run_def NewTopicsIndex_def Packets_defs)

text \<open>Nothing stored, nothing kept: an index with empty content has no particle but the root.\<close>

lemma no_content_no_particles:
  assumes "tidy root" "\<And>p. content p root = empty_data"
  shows "ptParticles root = []"
proof (rule ccontr)
  assume "ptParticles root \<noteq> []"
  have "\<exists>p. p \<noteq> [] \<and> (\<exists>d. view (p @ q) root = Some (d, []))"
    if "node_at q root = Some n" "ptParticles n \<noteq> []" for n q
    using that
  proof (induction "size n" arbitrary: n q rule: less_induct)
    case less
    then obtain kc rest where "ptParticles n = kc # rest" by (cases "ptParticles n") auto
    then have "m_get (ptParticles n) (fst kc) = Some (snd kc)" by simp
    then obtain k c where kc: "m_get (ptParticles n) k = Some c" by blast
    have c: "node_at (k # q) root = Some c" using less.prems(1) kc by (simp add: particles_defs)
    show ?case
    proof (cases "ptParticles c = []")
      case True
      then have "view ([k] @ q) root = Some (ptData c, [])" using c by (simp add: view_def)
      then show ?thesis by blast
    next
      case False
      then obtain p d where "p \<noteq> []" "view (p @ k # q) root = Some (d, [])"
        using less.hyps [OF size_child [OF kc] c] by blast
      then have "view ((p @ [k]) @ q) root = Some (d, [])" by simp
      then show ?thesis by blast
    qed
  qed
  from this [of "[]" root] obtain p d where p: "p \<noteq> []" "view p root = Some (d, [])"
    using \<open>ptParticles root \<noteq> []\<close> by auto
  then have "d\<lparr>ptKey := []\<rparr> = empty_data" using assms(2) [of p] by (simp add: content_def)
  then show False using assms(1) p unfolding tidy_def by blast
qed

end
