(* ===== verification/Mqtt_TopicMatch.thy ===== *)
theory Mqtt_TopicMatch
  imports Mqtt_TopicSpec
begin

text \<open>
  Which subscriptions a topic finds and which retained messages a filter finds.  The scans of the
  tree are shown to compute a matching relation between levels, and the relation is compared
  with the one of the protocol, section 4.7 of the specification.
\<close>

section \<open>Matching\<close>

text \<open>The protocol: \<open>+\<close> is one level, a final \<open>#\<close> is any number of levels, including none.\<close>

fun mqtt_match :: "gostring list \<Rightarrow> gostring list \<Rightarrow> bool" where
  "mqtt_match [] ts \<longleftrightarrow> ts = []"
| "mqtt_match (f # fs) ts \<longleftrightarrow>
     (f = [ch_hash] \<and> fs = [])
     \<or> (ts \<noteq> [] \<and> (f = hd ts \<or> f = [ch_plus]) \<and> mqtt_match fs (tl ts))"

text \<open>The scan for subscribers: the parent level of \<open>#\<close> counts only after a literal level.\<close>

fun code_match :: "gostring list \<Rightarrow> gostring list \<Rightarrow> bool" where
  "code_match fs [] \<longleftrightarrow> False"
| "code_match [] (t # ts) \<longleftrightarrow> False"
| "code_match (f # fs) (t # ts) \<longleftrightarrow>
     (f = [ch_hash] \<and> fs = [])
     \<or> (f = t \<or> f = [ch_plus]) \<and> (if ts = [] then fs = [] else code_match fs ts)
     \<or> ts = [] \<and> f = t \<and> f \<noteq> [ch_plus] \<and> fs = [[ch_hash]]"

text \<open>Inline subscriptions are gathered without the parent level of \<open>#\<close>.\<close>

fun inline_match :: "gostring list \<Rightarrow> gostring list \<Rightarrow> bool" where
  "inline_match fs [] \<longleftrightarrow> False"
| "inline_match [] (t # ts) \<longleftrightarrow> False"
| "inline_match (f # fs) (t # ts) \<longleftrightarrow>
     (f = [ch_hash] \<and> fs = [])
     \<or> (f = t \<or> f = [ch_plus]) \<and> (if ts = [] then fs = [] else inline_match fs ts)"

definition plus_parent :: "gostring list \<Rightarrow> gostring list \<Rightarrow> bool" where
  "plus_parent fs ts \<longleftrightarrow> length fs = Suc (length ts) \<and> fs ! (length ts - 1) = [ch_plus]"

lemma code_match_mqtt:
  assumes "ts \<noteq> []" "[ch_plus] \<notin> set ts" "[ch_hash] \<notin> set ts"
  shows "code_match fs ts \<longleftrightarrow> mqtt_match fs ts \<and> \<not> plus_parent fs ts"
  using assms
proof (induction fs ts rule: code_match.induct)
  case (3 f fs t ts)
  show ?case
  proof (cases "ts = []")
    case True
    then show ?thesis
      using "3.prems" by (cases fs) (auto simp: plus_parent_def)
  next
    case False
    then have IH: "code_match fs ts \<longleftrightarrow> mqtt_match fs ts \<and> \<not> plus_parent fs ts"
      using "3.prems" "3.IH" by (cases "f = [ch_hash] \<and> fs = []") auto
    have pp: "plus_parent (f # fs) (t # ts) \<longleftrightarrow> plus_parent fs ts"
      using False by (cases ts) (auto simp: plus_parent_def)
    have "\<not> plus_parent [] ts" by (simp add: plus_parent_def)
    then show ?thesis using False "3.prems" IH pp by auto
  qed
qed (simp_all add: plus_parent_def)

lemma inline_match_mqtt:
  assumes "ts \<noteq> []" "[ch_plus] \<notin> set ts" "[ch_hash] \<notin> set ts"
  shows "inline_match fs ts \<longleftrightarrow> mqtt_match fs ts \<and> length fs \<noteq> Suc (length ts)"
  using assms
proof (induction fs ts rule: inline_match.induct)
  case (3 f fs t ts)
  show ?case
  proof (cases "ts = []")
    case True
    then show ?thesis using "3.prems" by (cases fs) auto
  next
    case False
    then have "inline_match fs ts \<longleftrightarrow> mqtt_match fs ts \<and> length fs \<noteq> Suc (length ts)"
      using "3.prems" "3.IH" by (cases "f = [ch_hash] \<and> fs = []") auto
    then show ?thesis using False "3.prems" by auto
  qed
qed simp_all

section \<open>The particles a topic visits\<close>

definition wild :: "particle \<Rightarrow> particle list" where
  "wild n = (case particles_get (ptParticles n) [ch_hash] of None \<Rightarrow> [] | Some w \<Rightarrow> [w])"

fun hits :: "gostring list \<Rightarrow> particle \<Rightarrow> particle list" where
  "hits [] n = []"
| "hits (t # ts) n =
    concat (map (\<lambda>k. case particles_get (ptParticles n) k of None \<Rightarrow> []
       | Some c \<Rightarrow> (if ts \<noteq> [] then hits ts c
                    else c # (if k \<noteq> [ch_plus] then wild c else []))) [t, [ch_plus]])
    @ wild n"

fun inline_hits :: "gostring list \<Rightarrow> particle \<Rightarrow> particle list" where
  "inline_hits [] n = []"
| "inline_hits (t # ts) n =
    concat (map (\<lambda>k. case particles_get (ptParticles n) k of None \<Rightarrow> []
       | Some c \<Rightarrow> (if ts \<noteq> [] then inline_hits ts c
                    else c # (if k \<noteq> [ch_plus] \<and> wild c \<noteq> [] then [c] else []))) [t, [ch_plus]])
    @ wild n"

definition gather_all :: "gostring \<Rightarrow> particle list \<Rightarrow> particle list \<Rightarrow> subscribers \<Rightarrow> subscribers" where
  "gather_all topic ps is subs =
     fold gatherInlineSubscriptions is
       (fold gatherSharedSubscriptions ps (fold (gatherSubscriptions topic) ps subs))"

lemma gather_commute:
  "gatherSharedSubscriptions p (gatherInlineSubscriptions q s)
     = gatherInlineSubscriptions q (gatherSharedSubscriptions p s)"
  "gatherSubscriptions t p (gatherInlineSubscriptions q s)
     = gatherInlineSubscriptions q (gatherSubscriptions t p s)"
  "gatherSubscriptions t p (gatherSharedSubscriptions q s)
     = gatherSharedSubscriptions q (gatherSubscriptions t p s)"
  by (simp_all add: gatherSubscriptions_def gatherSharedSubscriptions_def gatherInlineSubscriptions_def)

lemma fold_commute_apply_all:
  assumes "\<And>p q s. f p (g q s) = g q (f p s)"
  shows "fold f ps (fold g qs s) = fold g qs (fold f ps s)"
proof (induction ps arbitrary: s)
  case (Cons p ps)
  have "f p (fold g qs s) = fold g qs (f p s)" for s
    by (induction qs arbitrary: s) (simp_all add: assms)
  then show ?case using Cons by simp
qed simp

lemma gather_all_append:
  "gather_all topic (ps @ ps') (is @ is') subs = gather_all topic ps' is' (gather_all topic ps is subs)"
  by (simp add: gather_all_def gather_commute
      fold_commute_apply_all [of gatherSharedSubscriptions gatherInlineSubscriptions]
      fold_commute_apply_all [of "gatherSubscriptions topic" gatherInlineSubscriptions]
      fold_commute_apply_all [of "gatherSubscriptions topic" gatherSharedSubscriptions])

lemma gather_all_Nil [simp]: "gather_all topic [] [] subs = subs"
  by (simp add: gather_all_def)

lemma gather_all_one:
  "gatherInlineSubscriptions q (gatherSharedSubscriptions p (gatherSubscriptions topic p subs))
     = gather_all topic [p] [q] subs"
  by (simp add: gather_all_def)

lemma scanSubscribers_hits:
  assumes "topic \<noteq> []" "drop d (segs topic) = ts" "ts \<noteq> []"
  shows "scanSubscribers topic d n subs = gather_all topic (hits ts n) (inline_hits ts n) subs"
  using assms(2,3)
proof (induction ts arbitrary: d n subs)
  case (Cons t ts)
  have iso: "isolateParticle topic (int d) = (t, ts \<noteq> [])"
    by (rule isolateParticle_drop [OF Cons.prems(1)])
  have IH: "ts \<noteq> [] \<Longrightarrow> scanSubscribers topic (Suc d) c s = gather_all topic (hits ts c) (inline_hits ts c) s" for c s
    using Cons.IH [of "Suc d"] Cons.prems(1) by (simp add: drop_Suc drop_tl)
  define step where "step = (\<lambda>k s. case particles_get (ptParticles n) k of None \<Rightarrow> s
      | Some c \<Rightarrow> (if ts \<noteq> [] then gather_all topic (hits ts c) (inline_hits ts c) s
          else gather_all topic (c # (if k \<noteq> [ch_plus] then wild c else []))
                 (c # (if k \<noteq> [ch_plus] \<and> wild c \<noteq> [] then [c] else [])) s))"
  have g2: "gather_all topic [p, w] [q, r] s = gather_all topic [w] [r] (gather_all topic [p] [q] s)" for p w q r s
    using gather_all_append [of topic "[p]" "[w]" "[q]" "[r]" s] by simp
  have scan: "scanSubscribers topic d n subs =
      (case particles_get (ptParticles n) [ch_hash] of None \<Rightarrow> fold step [t, [ch_plus]] subs
       | Some w \<Rightarrow> gather_all topic [w] [w] (fold step [t, [ch_plus]] subs))"
    using assms(1)
    by (subst scanSubscribers.simps)
       (auto simp: iso IH step_def gather_all_one g2 Let_def wild_def split: option.splits)
  have step: "step k s = gather_all topic
      (case particles_get (ptParticles n) k of None \<Rightarrow> []
       | Some c \<Rightarrow> (if ts \<noteq> [] then hits ts c else c # (if k \<noteq> [ch_plus] then wild c else [])))
      (case particles_get (ptParticles n) k of None \<Rightarrow> []
       | Some c \<Rightarrow> (if ts \<noteq> [] then inline_hits ts c
                    else c # (if k \<noteq> [ch_plus] \<and> wild c \<noteq> [] then [c] else []))) s" for k s
    by (simp add: step_def split: option.splits)
  have w: "gather_all topic (wild n) (wild n) s = (case particles_get (ptParticles n) [ch_hash] of
      None \<Rightarrow> s | Some w \<Rightarrow> gather_all topic [w] [w] s)" for s
    by (simp add: wild_def split: option.splits)
  have "gather_all topic (hits (t # ts) n) (inline_hits (t # ts) n) subs
      = gather_all topic (wild n) (wild n) (fold step [t, [ch_plus]] subs)"
    by (simp add: gather_all_append step)
  then show ?case unfolding scan w by (rule sym)
qed simp

lemma wild_iff: "w \<in> set (wild n) \<longleftrightarrow> m_get (ptParticles n) [ch_hash] = Some w"
  by (auto simp: wild_def particles_defs split: option.splits)

lemma walk_Cons: "node_at (rev (k # p)) n = (case m_get (ptParticles n) k of None \<Rightarrow> None
    | Some c \<Rightarrow> node_at (rev p) c)"
  by (simp add: node_at_Cons_child)

lemma walk_Cons_iff: "node_at (rev (k # p)) n = Some w \<longleftrightarrow>
    (\<exists>c. m_get (ptParticles n) k = Some c \<and> node_at (rev p) c = Some w)"
  unfolding walk_Cons by (auto split: option.splits)

lemma visit_iff:
  "w \<in> set (case particles_get kids k of None \<Rightarrow> [] | Some c \<Rightarrow> visit c) \<longleftrightarrow>
     (\<exists>c. m_get kids k = Some c \<and> w \<in> set (visit c))"
  by (cases "m_get kids k") (auto simp: particles_defs)

lemma two_visits: "set (concat (map f [a, b])) = set (f a) \<union> set (f b)"
  by simp

lemma hits_Cons_iff:
  "w \<in> set (hits (t # ts) n) \<longleftrightarrow>
     (\<exists>k c. (k = t \<or> k = [ch_plus]) \<and> m_get (ptParticles n) k = Some c \<and>
        (if ts \<noteq> [] then w \<in> set (hits ts c)
         else w = c \<or> k \<noteq> [ch_plus] \<and> m_get (ptParticles c) [ch_hash] = Some w))
     \<or> m_get (ptParticles n) [ch_hash] = Some w"
proof -
  have v: "w \<in> set (if ts \<noteq> [] then A else c # (if k \<noteq> [ch_plus] then wild c else [])) \<longleftrightarrow>
      (if ts \<noteq> [] then w \<in> set A
       else w = c \<or> k \<noteq> [ch_plus] \<and> m_get (ptParticles c) [ch_hash] = Some w)" for A c k
    by (simp add: wild_iff)
  show ?thesis
    unfolding hits.simps set_append Un_iff two_visits visit_iff v wild_iff by blast
qed

lemma inline_hits_Cons_iff:
  "w \<in> set (inline_hits (t # ts) n) \<longleftrightarrow>
     (\<exists>k c. (k = t \<or> k = [ch_plus]) \<and> m_get (ptParticles n) k = Some c \<and>
        (if ts \<noteq> [] then w \<in> set (inline_hits ts c) else w = c))
     \<or> m_get (ptParticles n) [ch_hash] = Some w"
proof -
  have v: "w \<in> set (if ts \<noteq> [] then A else c # (if k \<noteq> [ch_plus] \<and> wild c \<noteq> [] then [c] else [])) \<longleftrightarrow>
      (if ts \<noteq> [] then w \<in> set A else w = c)" for A c k
    by auto
  show ?thesis
    unfolding inline_hits.simps set_append Un_iff two_visits visit_iff v wild_iff by blast
qed

lemma walk_Nil: "node_at (rev []) c = Some w \<longleftrightarrow> c = w"
  by simp

lemma walk_one: "node_at (rev [k]) c = Some w \<longleftrightarrow> m_get (ptParticles c) k = Some w"
  unfolding walk_Cons_iff walk_Nil by blast

lemma last_level:
  "(\<exists>f fs c. (f = h \<and> fs = [] \<or> (f = t \<or> f = p) \<and> fs = [] \<or> f = t \<and> f \<noteq> p \<and> fs = [h])
       \<and> G f = Some c \<and> N (rev fs) c) \<longleftrightarrow>
   (\<exists>c. G h = Some c \<and> N (rev []) c) \<or> (\<exists>f c. (f = t \<or> f = p) \<and> G f = Some c \<and> N (rev []) c)
     \<or> (\<exists>c. t \<noteq> p \<and> G t = Some c \<and> N (rev [h]) c)"
  by blast

text \<open>The particles visited are those at the paths that match.\<close>

lemma hits_iff:
  "w \<in> set (hits ts n) \<longleftrightarrow> (\<exists>p. code_match p ts \<and> node_at (rev p) n = Some w)"
proof (induction ts arbitrary: n)
  case (Cons t ts)
  have split: "(\<exists>p. code_match p (t # ts) \<and> node_at (rev p) n = Some w) \<longleftrightarrow>
      (\<exists>f fs c. code_match (f # fs) (t # ts) \<and> m_get (ptParticles n) f = Some c
         \<and> node_at (rev fs) c = Some w)"
  proof -
    have "code_match p (t # ts) \<Longrightarrow> \<exists>f fs. p = f # fs" for p by (cases p) auto
    then have "(\<exists>p. code_match p (t # ts) \<and> node_at (rev p) n = Some w) \<longleftrightarrow>
      (\<exists>f fs. code_match (f # fs) (t # ts) \<and> node_at (rev (f # fs)) n = Some w)" by metis
    then show ?thesis unfolding walk_Cons_iff by blast
  qed
  show ?case
  proof (cases "ts = []")
    case False
    have m: "code_match (f # fs) (t # ts) \<longleftrightarrow>
        f = [ch_hash] \<and> fs = [] \<or> (f = t \<or> f = [ch_plus]) \<and> code_match fs ts" for f fs
      using False by simp
    show ?thesis
      unfolding split hits_Cons_iff m Cons.IH using False walk_Nil by (simp only: simp_thms if_True) metis
  next
    case True
    have m: "code_match (f # fs) (t # ts) \<longleftrightarrow> f = [ch_hash] \<and> fs = [] \<or> (f = t \<or> f = [ch_plus]) \<and> fs = []
        \<or> f = t \<and> f \<noteq> [ch_plus] \<and> fs = [[ch_hash]]" for f fs
      using True by simp
    note ll = last_level [of "[ch_hash]" t "[ch_plus]" "m_get (ptParticles n)" "\<lambda>p c. node_at p c = Some w"]
    have h: "w \<in> set (hits (t # ts) n) \<longleftrightarrow>
       (\<exists>k c. (k = t \<or> k = [ch_plus]) \<and> m_get (ptParticles n) k = Some c \<and>
         (w = c \<or> k \<noteq> [ch_plus] \<and> m_get (ptParticles c) [ch_hash] = Some w))
       \<or> m_get (ptParticles n) [ch_hash] = Some w"
      unfolding hits_Cons_iff using True by simp
    show ?thesis
      unfolding split m ll walk_Nil walk_one h by blast
  qed
qed simp

lemma inline_hits_iff:
  "w \<in> set (inline_hits ts n) \<longleftrightarrow> (\<exists>p. inline_match p ts \<and> node_at (rev p) n = Some w)"
proof (induction ts arbitrary: n)
  case (Cons t ts)
  have split: "(\<exists>p. inline_match p (t # ts) \<and> node_at (rev p) n = Some w) \<longleftrightarrow>
      (\<exists>f fs c. inline_match (f # fs) (t # ts) \<and> m_get (ptParticles n) f = Some c
         \<and> node_at (rev fs) c = Some w)"
  proof -
    have "inline_match p (t # ts) \<Longrightarrow> \<exists>f fs. p = f # fs" for p by (cases p) auto
    then have "(\<exists>p. inline_match p (t # ts) \<and> node_at (rev p) n = Some w) \<longleftrightarrow>
      (\<exists>f fs. inline_match (f # fs) (t # ts) \<and> node_at (rev (f # fs)) n = Some w)" by metis
    then show ?thesis unfolding walk_Cons_iff by blast
  qed
  show ?case
  proof (cases "ts = []")
    case False
    have m: "inline_match (f # fs) (t # ts) \<longleftrightarrow>
        f = [ch_hash] \<and> fs = [] \<or> (f = t \<or> f = [ch_plus]) \<and> inline_match fs ts" for f fs
      using False by simp
    show ?thesis
      unfolding split inline_hits_Cons_iff m Cons.IH using False walk_Nil
      by (simp only: simp_thms if_True) metis
  next
    case True
    have m: "inline_match (f # fs) (t # ts) \<longleftrightarrow>
        fs = [] \<and> (f = [ch_hash] \<or> f = t \<or> f = [ch_plus])" for f fs
      using True by auto
    show ?thesis
      unfolding split inline_hits_Cons_iff m using True walk_Nil by (simp only: simp_thms if_False) metis
  qed
qed simp

section \<open>The result of a lookup\<close>

definition contributions :: "gostring \<Rightarrow> particle list \<Rightarrow> (gostring \<times> subscription) list" where
  "contributions topic ps = concat (map (\<lambda>p. filter (\<lambda>(_, sub). \<not> dollar_excluded topic sub)
     (ptSubscriptions (ptData p))) ps)"

definition shared_contributions :: "particle list \<Rightarrow> (gostring \<times> subscription) list" where
  "shared_contributions ps = concat (map (\<lambda>p. concat (map snd (ptShared (ptData p)))) ps)"

definition inline_contributions :: "particle list \<Rightarrow> (int \<times> inline_subscription) list" where
  "inline_contributions ps = concat (map (\<lambda>p. ptInline (ptData p)) ps)"

lemma fold_filter:
  "fold (\<lambda>(c, s) m. if P s then m else f (c, s) m) xs m = fold f (filter (\<lambda>(_, s). \<not> P s) xs) m"
  by (induction xs arbitrary: m) auto

lemma fold_fields:
  "sbSubscriptions (fold (gatherSubscriptions topic) ps subs)
     = fold merge_into (contributions topic ps) (sbSubscriptions subs)"
  "sbShared (fold (gatherSubscriptions topic) ps subs) = sbShared subs"
  "sbInlineSubscriptions (fold (gatherSubscriptions topic) ps subs) = sbInlineSubscriptions subs"
  "sbSubscriptions (fold gatherSharedSubscriptions ps subs) = sbSubscriptions subs"
  "sbInlineSubscriptions (fold gatherSharedSubscriptions ps subs) = sbInlineSubscriptions subs"
  "sbSubscriptions (fold gatherInlineSubscriptions ps subs) = sbSubscriptions subs"
  "sbShared (fold gatherInlineSubscriptions ps subs) = sbShared subs"
  "sbInlineSubscriptions (fold gatherInlineSubscriptions ps subs)
     = fold (\<lambda>(k, i). m_set k i) (inline_contributions ps) (sbInlineSubscriptions subs)"
  by (induction ps arbitrary: subs)
     (simp_all add: gatherSubscriptions_def gatherSharedSubscriptions_def gatherInlineSubscriptions_def
       contributions_def inline_contributions_def fold_filter Subscriptions_defs InlineSubscriptions_defs)

lemma shared_into:
  "(let m = (if m_has m F then m else m_set F [] m) in m_set F (m_set c s (shared_group m F)) m)
     = SharedSubscriptions_Add F c s m"
  by (simp add: SharedSubscriptions_Add_def)

lemma fold_concat_snd: "fold (\<lambda>(_, xs). fold f xs) ys m = fold f (concat (map snd ys)) m"
  by (induction ys arbitrary: m) auto

lemma fold_shared:
  "sbShared (fold gatherSharedSubscriptions ps subs)
     = fold (\<lambda>(c, s). SharedSubscriptions_Add (sFilter s) c s) (shared_contributions ps) (sbShared subs)"
proof (induction ps arbitrary: subs)
  case (Cons p ps)
  have "sbShared (gatherSharedSubscriptions p subs)
      = fold (\<lambda>(c, s). SharedSubscriptions_Add (sFilter s) c s) (concat (map snd (ptShared (ptData p)))) (sbShared subs)"
    unfolding gatherSharedSubscriptions_def SharedSubscriptions_GetAll_def shared_into
    by (simp add: fold_concat_snd)
  then show ?case using Cons by (simp add: shared_contributions_def)
qed (simp add: shared_contributions_def)

lemma shared_add_dom:
  "m_has (shared_group (fold (\<lambda>(c, s). SharedSubscriptions_Add (sFilter s) c s) css m) F) c \<longleftrightarrow>
     (\<exists>s. (c, s) \<in> set css \<and> sFilter s = F) \<or> m_has (shared_group m F) c"
proof (induction css arbitrary: m)
  case (Cons ds css)
  obtain d s where ds: "ds = (d, s)" by (cases ds)
  show ?case
    unfolding ds fold_Cons comp_def prod.case Cons.IH
    by (auto simp: SharedSubscriptions_Add_eq shared_group_set)
qed simp

lemma inline_add_dom: "m_has (fold (\<lambda>(k, i). m_set k i) kis m) k \<longleftrightarrow> k \<in> fst ` set kis \<or> m_has m k"
  by (induction kis arbitrary: m) (auto split: if_splits)

lemma Subscribers_fields:
  assumes "topic \<noteq> []"
  shows "sbSubscriptions (TopicsIndex_Subscribers topic x)
      = fold merge_into (contributions topic (hits (segs topic) (tiRoot x))) []"
    "sbShared (TopicsIndex_Subscribers topic x)
      = fold (\<lambda>(c, s). SharedSubscriptions_Add (sFilter s) c s)
          (shared_contributions (hits (segs topic) (tiRoot x))) []"
    "sbInlineSubscriptions (TopicsIndex_Subscribers topic x)
      = fold (\<lambda>(k, i). m_set k i) (inline_contributions (inline_hits (segs topic) (tiRoot x))) []"
  using scanSubscribers_hits [OF assms, of 0 "segs topic" "tiRoot x" no_subscribers]
  by (simp_all add: TopicsIndex_Subscribers_def gather_all_def fold_fields fold_shared no_subscribers_def)

lemma shared_get_in:
  assumes "shared_ok sh"
  shows "SharedSubscriptions_Get sh (g, c) = Some s \<longleftrightarrow> (\<exists>m. (g, m) \<in> set sh \<and> (c, s) \<in> set m)"
proof -
  have ok: "map_ok sh" "\<And>m. (g, m) \<in> set sh \<Longrightarrow> map_ok m"
    using assms by (auto simp: shared_ok_def list_all_iff)
  have "SharedSubscriptions_Get sh (g, c) = Some s \<longleftrightarrow> (\<exists>m. m_get sh g = Some m \<and> m_get m c = Some s)"
    by (simp add: SharedSubscriptions_Get_group shared_group_def split: option.splits)
  also have "\<dots> \<longleftrightarrow> (\<exists>m. (g, m) \<in> set sh \<and> m_get m c = Some s)"
    by (simp add: m_get_in_set [OF ok(1)])
  also have "\<dots> \<longleftrightarrow> (\<exists>m. (g, m) \<in> set sh \<and> (c, s) \<in> set m)"
    using m_get_in_set [OF ok(2)] by blast
  finally show ?thesis .
qed

text \<open>The contributions of the particles at matching paths, in terms of slots.\<close>

lemma node_content:
  assumes "node_at p root = Some n"
  shows "ptSubscriptions (content p root) = ptSubscriptions (ptData n)"
    "ptShared (content p root) = ptShared (ptData n)" "ptInline (content p root) = ptInline (ptData n)"
    "ptRetainPath (content p root) = ptRetainPath (ptData n)"
  by (simp_all add: content_at_node [OF assms])

lemma node_content_none: "node_at p root = None \<Longrightarrow> content p root = empty_data"
  by (simp add: content_def view_def)

lemma contributions_iff:
  assumes "index_ok x"
  shows "(c, s) \<in> set (contributions topic (hits ts (tiRoot x))) \<longleftrightarrow>
    (\<exists>p. code_match p ts \<and> index_get x (PlainSlot (rev p) c) = Some s) \<and> \<not> dollar_excluded topic s"
proof -
  have "(c, s) \<in> set (ptSubscriptions (ptData n)) \<longleftrightarrow> index_get x (PlainSlot q c) = Some s"
    if "node_at q (tiRoot x) = Some n" for q n
    using content_shared_ok(2) [OF assms, of q]
    by (simp add: node_content [OF that] Subscriptions_Get_def m_get_in_set)
  moreover have "node_at q (tiRoot x) \<noteq> None" if "index_get x (PlainSlot q c) = Some s" for q
    by (rule notI) (use that in \<open>simp add: node_content_none Subscriptions_Get_def\<close>)
  ultimately have "(\<exists>w. (\<exists>p. code_match p ts \<and> node_at (rev p) (tiRoot x) = Some w) \<and> (c, s) \<in> set (ptSubscriptions (ptData w)))
      \<longleftrightarrow> (\<exists>p. code_match p ts \<and> index_get x (PlainSlot (rev p) c) = Some s)"
    by (metis not_Some_eq)
  moreover have c: "(c, s) \<in> set (contributions topic ps) \<longleftrightarrow>
      (\<exists>w. w \<in> set ps \<and> (c, s) \<in> set (ptSubscriptions (ptData w))) \<and> \<not> dollar_excluded topic s" for ps
    unfolding contributions_def by auto
  ultimately show ?thesis
    unfolding c hits_iff by simp
qed

lemma shared_contributions_iff:
  assumes "index_ok x"
  shows "(c, s) \<in> set (shared_contributions (hits ts (tiRoot x))) \<longleftrightarrow>
    (\<exists>p g. code_match p ts \<and> index_get x (SharedSlot (rev p) g c) = Some s)"
proof -
  have "(\<exists>m. m \<in> snd ` set (ptShared (ptData n)) \<and> (c, s) \<in> set m) \<longleftrightarrow>
      (\<exists>g. index_get x (SharedSlot q g c) = Some s)"
    if n: "node_at q (tiRoot x) = Some n" for q n
  proof -
    have ok: "shared_ok (ptShared (ptData n))"
      using content_shared_ok(1) [OF assms, of q] by (simp add: node_content [OF n])
    have "index_get x (SharedSlot q g c) = Some s \<longleftrightarrow> (\<exists>m. (g, m) \<in> set (ptShared (ptData n)) \<and> (c, s) \<in> set m)" for g
      by (simp add: node_content [OF n] shared_get_in [OF ok])
    then show ?thesis by force
  qed
  moreover have "node_at q (tiRoot x) \<noteq> None" if "index_get x (SharedSlot q g c) = Some s" for q g
    by (rule notI) (use that in \<open>simp add: node_content_none SharedSubscriptions_Get_def\<close>)
  ultimately have "(\<exists>w. (\<exists>p. code_match p ts \<and> node_at (rev p) (tiRoot x) = Some w)
        \<and> (\<exists>m. m \<in> snd ` set (ptShared (ptData w)) \<and> (c, s) \<in> set m))
      \<longleftrightarrow> (\<exists>p g. code_match p ts \<and> index_get x (SharedSlot (rev p) g c) = Some s)"
    by (metis not_Some_eq)
  moreover have c: "(c, s) \<in> set (shared_contributions ps) \<longleftrightarrow>
      (\<exists>w. w \<in> set ps \<and> (\<exists>m. m \<in> snd ` set (ptShared (ptData w)) \<and> (c, s) \<in> set m))" for ps
    unfolding shared_contributions_def by auto
  ultimately show ?thesis
    unfolding c hits_iff by simp
qed

text \<open>Exactly the clients with a matching subscription, with the highest quality of service.\<close>

lemma Subscribers_exact:
  assumes "index_ok x" "topic \<noteq> []"
  shows "m_has (sbSubscriptions (TopicsIndex_Subscribers topic x)) c \<longleftrightarrow>
    (\<exists>p s. code_match p (segs topic) \<and> index_get x (PlainSlot (rev p) c) = Some s
       \<and> \<not> dollar_excluded topic s)"
proof -
  have "m_has (sbSubscriptions (TopicsIndex_Subscribers topic x)) c \<longleftrightarrow>
      (\<exists>s. (c, s) \<in> set (contributions topic (hits (segs topic) (tiRoot x))))"
    unfolding Subscribers_fields(1) [OF assms(2)] merge_all_dom by force
  then show ?thesis unfolding contributions_iff [OF assms(1)] by blast
qed

lemma Subscribers_qos:
  assumes "index_ok x" "topic \<noteq> []"
    and "m_get (sbSubscriptions (TopicsIndex_Subscribers topic x)) c = Some r"
  shows "(\<forall>p s. code_match p (segs topic) \<longrightarrow> index_get x (PlainSlot (rev p) c) = Some s
           \<longrightarrow> \<not> dollar_excluded topic s \<longrightarrow> sQos s \<le> sQos r)
    \<and> (\<exists>p s. code_match p (segs topic) \<and> index_get x (PlainSlot (rev p) c) = Some s
           \<and> \<not> dollar_excluded topic s \<and> sQos s = sQos r)"
proof -
  let ?css = "contributions topic (hits (segs topic) (tiRoot x))"
  have "m_get (fold merge_into ?css []) c = Some r"
    using assms(3) unfolding Subscribers_fields(1) [OF assms(2)] .
  from merge_all_qos [OF this]
  have "\<And>s. (c, s) \<in> set ?css \<Longrightarrow> sQos s \<le> sQos r" "\<exists>s. (c, s) \<in> set ?css \<and> sQos s = sQos r"
    by auto
  then show ?thesis unfolding contributions_iff [OF assms(1)] by blast
qed

lemma Subscribers_shared_exact:
  assumes "index_ok x" "topic \<noteq> []"
  shows "m_has (shared_group (sbShared (TopicsIndex_Subscribers topic x)) F) c \<longleftrightarrow>
    (\<exists>p g s. code_match p (segs topic) \<and> index_get x (SharedSlot (rev p) g c) = Some s \<and> sFilter s = F)"
  unfolding Subscribers_fields(2) [OF assms(2)] shared_add_dom shared_contributions_iff [OF assms(1)]
  by (auto simp: shared_group_def)

lemma Subscribers_inline_exact:
  assumes "topic \<noteq> []"
  shows "m_has (sbInlineSubscriptions (TopicsIndex_Subscribers topic x)) k \<longleftrightarrow>
    (\<exists>p. inline_match p (segs topic) \<and> InlineSubscriptions_Get (ptInline (content (rev p) (tiRoot x))) k \<noteq> None)"
proof -
  have "k \<in> fst ` set (ptInline (ptData n)) \<longleftrightarrow> InlineSubscriptions_Get (ptInline (content q (tiRoot x))) k \<noteq> None"
    if "node_at q (tiRoot x) = Some n" for q n
    by (simp add: node_content [OF that] InlineSubscriptions_Get_def map_of_eq_None_iff)
  moreover have "node_at q (tiRoot x) \<noteq> None"
    if "InlineSubscriptions_Get (ptInline (content q (tiRoot x))) k \<noteq> None" for q
    by (rule notI) (use that in \<open>simp add: node_content_none InlineSubscriptions_Get_def\<close>)
  ultimately have "(\<exists>w. (\<exists>p. inline_match p (segs topic) \<and> node_at (rev p) (tiRoot x) = Some w)
        \<and> k \<in> fst ` set (ptInline (ptData w)))
      \<longleftrightarrow> (\<exists>p. inline_match p (segs topic) \<and> InlineSubscriptions_Get (ptInline (content (rev p) (tiRoot x))) k \<noteq> None)"
    by (metis not_Some_eq)
  moreover have "k \<in> fst ` set (inline_contributions (inline_hits (segs topic) (tiRoot x))) \<longleftrightarrow>
      (\<exists>w. (\<exists>p. inline_match p (segs topic) \<and> node_at (rev p) (tiRoot x) = Some w)
        \<and> k \<in> fst ` set (ptInline (ptData w)))"
    unfolding inline_contributions_def inline_hits_iff [symmetric] by (auto simp: image_Union)
  ultimately show ?thesis
    unfolding Subscribers_fields(3) [OF assms] inline_add_dom by simp
qed

end
