(* ===== verification/Mqtt_RetainMatch.thy ===== *)
theory Mqtt_RetainMatch
  imports Mqtt_TopicMatch
begin

text \<open>
  The retained messages a filter finds: \<open>scanMessages\<close> walks the tree along the filter and
  collects the messages of the topics that match.  A final \<open>#\<close> does not find the parent level
  here, which is the relation \<open>inline_match\<close>.
\<close>

definition levels :: "gostring \<Rightarrow> nat \<Rightarrow> gostring list" where
  "levels flt d = (if d < length (segs flt) then drop d (segs flt) else [last (segs flt)])"

lemma levels_0: "levels flt 0 = segs flt"
  by (simp add: levels_def)

lemma levels_nonempty [simp]: "levels flt d \<noteq> []"
  by (simp add: levels_def)

lemma isolate_levels: "isolateParticle flt (int d) = (hd (levels flt d), tl (levels flt d) \<noteq> [])"
proof (cases "d < length (segs flt)")
  case True
  then obtain t ts where "drop d (segs flt) = t # ts" by (metis drop_eq_Nil not_le neq_Nil_conv)
  then show ?thesis using True isolateParticle_drop [of d flt t ts] by (simp add: levels_def)
next
  case False
  then show ?thesis by (simp add: isolateParticle_segs levels_def)
qed

lemma levels_Suc: "levels flt d = f # fs \<Longrightarrow> levels flt (Suc d) = (if fs = [] then [f] else fs)"
proof (cases "d < length (segs flt)")
  case True
  assume l: "levels flt d = f # fs"
  then have d: "drop d (segs flt) = f # fs" using True by (simp add: levels_def)
  then have fs: "drop (Suc d) (segs flt) = fs" by (simp add: drop_Suc drop_tl)
  show ?thesis
  proof (cases "fs = []")
    case True
    then have "last (segs flt) = f" using d by (metis last_drop last_ConsL drop_eq_Nil list.discI not_le)
    then show ?thesis using True fs by (simp add: levels_def)
  next
    case False
    then have "Suc d < length (segs flt)" using fs by (metis drop_all not_le)
    then show ?thesis using False fs by (simp add: levels_def)
  qed
qed (auto simp: levels_def)

lemma fold_collect:
  assumes "\<And>kc pks. kc \<in> set kids \<Longrightarrow> pk \<in> set (F kc pks) \<longleftrightarrow> pk \<in> set pks \<or> Q kc"
  shows "pk \<in> set (fold F kids pks) \<longleftrightarrow> pk \<in> set pks \<or> (\<exists>kc \<in> set kids. Q kc)"
  using assms by (induction kids arbitrary: pks) auto

lemma trie_ok_child:
  assumes "trie_ok n" "m_get (ptParticles n) k = Some c"
  shows "trie_ok c" "ptKey (ptData c) = k"
proof -
  have child: "node_at (q @ [k]) n = node_at q c" for q
    using assms(2) by (simp add: node_at_Cons_child)
  have v: "view (q @ [k]) n = view q c" for q by (simp add: view_def child)
  show "trie_ok c"
    unfolding trie_ok_def v [symmetric]
  proof (intro allI impI)
    fix p d ks
    assume p: "view (p @ [k]) n = Some (d, ks)"
    have "ptKey d = j" if "p = j # q" for j q
      using trie_okD(3) [OF assms(1) p, of j "q @ [k]"] that by simp
    then show "distinct ks \<and> data_ok d \<and> (\<forall>j q. p = j # q \<longrightarrow> ptKey d = j)"
      using trie_okD(1,2) [OF assms(1) p] by blast
  qed
  have "view [k] n = Some (ptData c, map fst (ptParticles c))"
    using child [of "[]"] by (simp add: view_def)
  then show "ptKey (ptData c) = k" using trie_okD(3) [OF assms(1), of "[k]"] by blast
qed

lemma trie_ok_kids: "trie_ok n \<Longrightarrow> map_ok (ptParticles n)"
  using trie_okD(1) [of n "[]"] by (simp add: view_def map_ok_def)

text \<open>What a scan from a particle adds.\<close>

definition finds :: "(gostring, packet) gomap \<Rightarrow> gostring list \<Rightarrow> nat \<Rightarrow> particle \<Rightarrow> packet \<Rightarrow> bool" where
  "finds ret fs d n pk \<longleftrightarrow> (\<exists>p w. inline_match fs p \<and> node_at (rev p) n = Some w
     \<and> Packets_Get (ptRetainPath (ptData w)) ret = Some pk
     \<and> \<not> (d = 0 \<and> hd fs \<in> {[ch_plus], [ch_hash]} \<and> hd p = SysPrefix))"

lemma inline_match_Cons:
  "inline_match (f # fs) p \<longleftrightarrow> (\<exists>t ts. p = t # ts \<and>
     (f = [ch_hash] \<and> fs = [] \<or> (f = t \<or> f = [ch_plus]) \<and> (if ts = [] then fs = [] else inline_match fs ts)))"
  by (cases p) auto

lemma ex_Cons:
  "(\<exists>p w. (\<exists>t ts. p = t # ts \<and> A t ts) \<and> B p w) \<longleftrightarrow> (\<exists>t ts w. A t ts \<and> B (t # ts) w)"
  by blast

lemma finds_Cons:
  "finds ret (f # fs) d n pk \<longleftrightarrow> (\<exists>t c. m_get (ptParticles n) t = Some c \<and>
     \<not> (d = 0 \<and> f \<in> {[ch_plus], [ch_hash]} \<and> t = SysPrefix) \<and>
     (\<exists>ts w. node_at (rev ts) c = Some w \<and> Packets_Get (ptRetainPath (ptData w)) ret = Some pk \<and>
       (f = [ch_hash] \<and> fs = [] \<or> (f = t \<or> f = [ch_plus]) \<and> (if ts = [] then fs = [] else inline_match fs ts))))"
proof -
  have "finds ret (f # fs) d n pk \<longleftrightarrow> (\<exists>t ts w.
     (f = [ch_hash] \<and> fs = [] \<or> (f = t \<or> f = [ch_plus]) \<and> (if ts = [] then fs = [] else inline_match fs ts))
     \<and> node_at (rev (t # ts)) n = Some w \<and> Packets_Get (ptRetainPath (ptData w)) ret = Some pk
     \<and> \<not> (d = 0 \<and> f \<in> {[ch_plus], [ch_hash]} \<and> t = SysPrefix))"
    unfolding finds_def inline_match_Cons ex_Cons list.sel by blast
  then show ?thesis unfolding walk_Cons_iff by blast
qed

lemma inline_match_Nil [simp]: "\<not> inline_match [] p" "\<not> inline_match fs []"
  by (cases p; simp)+

lemma walk_cases:
  "(\<exists>ts w. node_at (rev ts) c = Some w \<and> G w) \<longleftrightarrow>
     G c \<or> (\<exists>ts w. ts \<noteq> [] \<and> node_at (rev ts) c = Some w \<and> G w)"
  by (metis walk_Nil)

lemma scanMessages_finds:
  assumes "flt \<noteq> []" "ch_hash \<in> set flt \<or> ch_plus \<in> set flt" "Packets_Get [] ret = None"
    and "trie_ok n" "[ch_hash] \<notin> set (butlast (levels flt d))"
  shows "pk \<in> set (scanMessages ret flt (int d) n pks) \<longleftrightarrow> pk \<in> set pks \<or> finds ret (levels flt d) d n pk"
  using assms(4,5)
proof (induction "size n" arbitrary: n d pks rule: less_induct)
  case less
  obtain f fs where l: "levels flt d = f # fs" by (metis levels_nonempty neq_Nil_conv)
  have iso: "fst (isolateParticle flt (int d)) = f" "snd (isolateParticle flt (int d)) \<longleftrightarrow> fs \<noteq> []"
    by (simp_all add: isolate_levels l)
  have next_levels: "levels flt (Suc d) = (if fs = [] then [f] else fs)" by (rule levels_Suc [OF l])
  have hash: "[ch_hash] \<notin> set (butlast (levels flt (Suc d)))" and fh: "f = [ch_hash] \<Longrightarrow> fs = []"
    using less.prems(2) by (auto simp: next_levels l split: if_splits)
  have IH: "pk \<in> set (scanMessages ret flt (int d + 1) c qs) \<longleftrightarrow>
      pk \<in> set qs \<or> finds ret (if fs = [] then [f] else fs) (Suc d) c pk"
    if "m_get (ptParticles n) k = Some c" for k c qs
    using less.hyps [OF size_child [OF that] trie_ok_child(1) [OF less.prems(1) that] hash, of qs]
    by (simp add: next_levels add.commute)
  have fl: "finds ret gs (Suc d) c pk \<longleftrightarrow> (\<exists>p w. inline_match gs p \<and> node_at (rev p) c = Some w
     \<and> Packets_Get (ptRetainPath (ptData w)) ret = Some pk)" for gs c
    by (simp add: finds_def)
  show ?case
  proof (cases "Packets_Len ret = 0")
    case True
    then have "\<And>t. Packets_Get t ret = None" by (simp add: Packets_defs)
    then show ?thesis using True by (subst scanMessages.simps) (simp add: finds_def)
  next
    case len: False
    show ?thesis
    proof (cases "f = [ch_plus] \<or> f = [ch_hash]")
      case wc: True
      define F where "F = (\<lambda>(_ :: gostring, adjacent) pks.
                 if int d = 0 \<and> ptKey (ptData adjacent) = SysPrefix then pks
                 else
                   let pks = (if \<not> fs \<noteq> [] \<and> ptRetainPath (ptData adjacent) \<noteq> [] then
                                (case Packets_Get (ptRetainPath (ptData adjacent)) ret of
                                   Some pk \<Rightarrow> pks @ [pk] | None \<Rightarrow> pks)
                              else pks)
                   in if fs \<noteq> [] \<or> (int d \<ge> 0 \<and> f = [ch_hash])
                      then scanMessages ret flt (int d + 1) adjacent pks else pks)"
      define Q where "Q = (\<lambda>(k, c). \<not> (d = 0 \<and> k = SysPrefix) \<and>
        (fs = [] \<and> Packets_Get (ptRetainPath (ptData c)) ret = Some pk
         \<or> (fs \<noteq> [] \<or> f = [ch_hash]) \<and> finds ret (if fs = [] then [f] else fs) (Suc d) c pk))"
      have scan: "scanMessages ret flt (int d) n pks = fold F (ptParticles n) pks"
        using assms(1,2) len wc
        by (subst scanMessages.simps) (auto simp: iso F_def particles_getAll_def Let_def [of "fs \<noteq> []"])
      have step: "pk \<in> set (F (k, c) qs) \<longleftrightarrow> pk \<in> set qs \<or> Q (k, c)"
        if "m_get (ptParticles n) k = Some c" for k c qs
      proof -
        have key: "ptKey (ptData c) = k" by (rule trie_ok_child(2) [OF less.prems(1) that])
        have "pk \<in> set (if \<not> fs \<noteq> [] \<and> ptRetainPath (ptData c) \<noteq> [] then
              (case Packets_Get (ptRetainPath (ptData c)) ret of Some pk \<Rightarrow> qs @ [pk] | None \<Rightarrow> qs) else qs)
          \<longleftrightarrow> pk \<in> set qs \<or> fs = [] \<and> Packets_Get (ptRetainPath (ptData c)) ret = Some pk"
          using assms(3) by (cases "ptRetainPath (ptData c) = []") (auto split: option.splits)
        then show ?thesis
          unfolding F_def Q_def prod.case key Let_def using IH [OF that] by auto
      qed
      have "pk \<in> set (fold F (ptParticles n) pks) \<longleftrightarrow> pk \<in> set pks \<or> (\<exists>kc \<in> set (ptParticles n). Q kc)"
      proof (rule fold_collect)
        fix kc qs
        assume "kc \<in> set (ptParticles n)"
        then have "m_get (ptParticles n) (fst kc) = Some (snd kc)"
          using m_get_in_set [OF trie_ok_kids [OF less.prems(1)], of "fst kc" "snd kc"] by simp
        then show "pk \<in> set (F kc qs) \<longleftrightarrow> pk \<in> set qs \<or> Q kc" using step by (cases kc) simp
      qed
      also have "(\<exists>kc \<in> set (ptParticles n). Q kc) \<longleftrightarrow>
          (\<exists>k c. m_get (ptParticles n) k = Some c \<and> Q (k, c))"
        by (auto simp: m_get_in_set [OF trie_ok_kids [OF less.prems(1)]])
      also have "\<dots> \<longleftrightarrow> finds ret (f # fs) d n pk"
      proof -
        have Qeq: "Q (k, c) \<longleftrightarrow> \<not> (d = 0 \<and> f \<in> {[ch_plus], [ch_hash]} \<and> k = SysPrefix) \<and>
          (\<exists>ts w. node_at (rev ts) c = Some w \<and> Packets_Get (ptRetainPath (ptData w)) ret = Some pk \<and>
            (f = [ch_hash] \<and> fs = [] \<or> (f = k \<or> f = [ch_plus])
               \<and> (if ts = [] then fs = [] else inline_match fs ts)))" for k c
        proof (cases "f = [ch_hash]")
          case True
          then have fs: "fs = []" by (rule fh)
          have im: "inline_match [[ch_hash]] p \<longleftrightarrow> p \<noteq> []" for p by (cases p) auto
          have e: "Q (k, c) \<longleftrightarrow> \<not> (d = 0 \<and> k = SysPrefix)
              \<and> (\<exists>ts w. node_at (rev ts) c = Some w \<and> Packets_Get (ptRetainPath (ptData w)) ret = Some pk)"
            unfolding Q_def fl prod.case True fs
              walk_cases [of c "\<lambda>w. Packets_Get (ptRetainPath (ptData w)) ret = Some pk"]
            by (simp only: im simp_thms if_True)
          show ?thesis unfolding e True fs by blast
        next
          case False
          then have plus: "f = [ch_plus]" using wc by simp
          show ?thesis
          proof (cases "fs = []")
            case True
            have "(\<exists>ts w. node_at (rev ts) c = Some w \<and> Packets_Get (ptRetainPath (ptData w)) ret = Some pk
                \<and> (if ts = [] then fs = [] else inline_match fs ts))
              \<longleftrightarrow> Packets_Get (ptRetainPath (ptData c)) ret = Some pk"
              using True by (metis inline_match_Nil(1) node_at.simps(1) rev.simps(1) option.inject)
            then show ?thesis using True plus unfolding Q_def prod.case by simp
          next
            case False
            have "(\<exists>ts w. node_at (rev ts) c = Some w \<and> Packets_Get (ptRetainPath (ptData w)) ret = Some pk
                \<and> (if ts = [] then fs = [] else inline_match fs ts))
              \<longleftrightarrow> finds ret fs (Suc d) c pk"
              unfolding fl using False by (metis inline_match_Nil(2))
            then show ?thesis using False plus unfolding Q_def prod.case by simp
          qed
        qed
        show ?thesis unfolding finds_Cons Qeq by (rule refl)
      qed
      finally show ?thesis unfolding scan l .
    next
      case lit: False
      have fnd: "finds ret (f # fs) d n pk \<longleftrightarrow> (\<exists>c. m_get (ptParticles n) f = Some c \<and>
          (\<exists>ts w. node_at (rev ts) c = Some w \<and> Packets_Get (ptRetainPath (ptData w)) ret = Some pk \<and>
             (if ts = [] then fs = [] else inline_match fs ts)))"
        using lit unfolding finds_Cons by auto
      show ?thesis
      proof (cases "m_get (ptParticles n) f")
        case None
        then show ?thesis
          using assms(1,2) len lit unfolding l fnd
          by (subst scanMessages.simps) (auto simp: iso Let_def particles_get_def)
      next
        case (Some c)
        show ?thesis
        proof (cases "fs = []")
          case True
          have "(\<exists>ts w. node_at (rev ts) c = Some w \<and> Packets_Get (ptRetainPath (ptData w)) ret = Some pk
                \<and> (if ts = [] then fs = [] else inline_match fs ts))
              \<longleftrightarrow> Packets_Get (ptRetainPath (ptData c)) ret = Some pk"
            using True by (metis inline_match_Nil(1) node_at.simps(1) rev.simps(1) option.inject)
          then show ?thesis
            using assms(1,2) len lit Some True unfolding l fnd
            by (subst scanMessages.simps) (auto simp: iso Let_def particles_get_def split: option.splits)
        next
          case False
          have "(\<exists>ts w. node_at (rev ts) c = Some w \<and> Packets_Get (ptRetainPath (ptData w)) ret = Some pk
                \<and> (if ts = [] then fs = [] else inline_match fs ts))
              \<longleftrightarrow> finds ret fs (Suc d) c pk"
            unfolding fl using False by (metis inline_match_Nil(2))
          then show ?thesis
            using assms(1,2) len lit Some False IH [OF Some, of pks] unfolding l fnd
            by (subst scanMessages.simps) (auto simp: iso Let_def particles_get_def)
        qed
      qed
    qed
  qed
qed

text \<open>The messages of a filter with wildcards, and of a plain topic.\<close>

lemma Messages_wildcard:
  assumes "index_inv x" "flt \<noteq> []" "ch_hash \<in> set flt \<or> ch_plus \<in> set flt"
    and "[ch_hash] \<notin> set (butlast (segs flt))"
  shows "pk \<in> set (TopicsIndex_Messages flt x) \<longleftrightarrow>
    (\<exists>t. Packets_Get t (tiRetained x) = Some pk \<and> inline_match (segs flt) (segs t)
       \<and> \<not> (hd (segs flt) \<in> {[ch_plus], [ch_hash]} \<and> hd (segs t) = SysPrefix))"
proof -
  let ?R = "tiRetained x"
  have ok: "trie_ok (tiRoot x)" and r: "retain_ok x"
    using assms(1) by (simp_all add: index_inv_def index_ok_def)
  have nil: "Packets_Get [] ?R = None"
    using r by (cases "Packets_Get [] ?R") (auto simp: retain_ok_def)
  have h: "[ch_hash] \<notin> set (butlast (levels flt 0))" using assms(4) by (simp add: levels_0)
  have "pk \<in> set (TopicsIndex_Messages flt x) \<longleftrightarrow> finds ?R (segs flt) 0 (tiRoot x) pk"
    using scanMessages_finds [OF assms(2,3) nil ok h, of pk "[]"]
    by (simp add: TopicsIndex_Messages_def levels_0)
  also have "\<dots> \<longleftrightarrow> (\<exists>t. Packets_Get t ?R = Some pk \<and> inline_match (segs flt) (segs t)
       \<and> \<not> (hd (segs flt) \<in> {[ch_plus], [ch_hash]} \<and> hd (segs t) = SysPrefix))"
  proof
    assume "finds ?R (segs flt) 0 (tiRoot x) pk"
    then obtain p w where p: "inline_match (segs flt) p" "node_at (rev p) (tiRoot x) = Some w"
        "Packets_Get (ptRetainPath (ptData w)) ?R = Some pk"
        "\<not> (hd (segs flt) \<in> {[ch_plus], [ch_hash]} \<and> hd p = SysPrefix)"
      by (auto simp: finds_def)
    define t where "t = ptRetainPath (ptData w)"
    have "t \<noteq> []" using p(3) nil t_def by auto
    moreover have "ptRetainPath (content (rev p) (tiRoot x)) = t" by (simp add: node_content [OF p(2)] t_def)
    ultimately have "rev p = path_of t 0" using r unfolding retain_ok_def by metis
    then have "p = segs t" by (simp add: path_of_0)
    then show "\<exists>t. Packets_Get t ?R = Some pk \<and> inline_match (segs flt) (segs t)
       \<and> \<not> (hd (segs flt) \<in> {[ch_plus], [ch_hash]} \<and> hd (segs t) = SysPrefix)"
      using p t_def by blast
  next
    assume "\<exists>t. Packets_Get t ?R = Some pk \<and> inline_match (segs flt) (segs t)
       \<and> \<not> (hd (segs flt) \<in> {[ch_plus], [ch_hash]} \<and> hd (segs t) = SysPrefix)"
    then obtain t where t: "Packets_Get t ?R = Some pk" "inline_match (segs flt) (segs t)"
        "\<not> (hd (segs flt) \<in> {[ch_plus], [ch_hash]} \<and> hd (segs t) = SysPrefix)" by blast
    then have c: "ptRetainPath (content (rev (segs t)) (tiRoot x)) = t" "t \<noteq> []"
      using r unfolding retain_ok_def path_of_0 by blast+
    then obtain w where w: "node_at (rev (segs t)) (tiRoot x) = Some w"
      using node_content_none by fastforce
    then have "ptRetainPath (ptData w) = t" using c(1) by (simp add: node_content [OF w])
    then show "finds ?R (segs flt) 0 (tiRoot x) pk"
      unfolding finds_def using t w by blast
  qed
  finally show ?thesis .
qed

lemma Messages_plain:
  assumes "flt \<noteq> []" "ch_hash \<notin> set flt" "ch_plus \<notin> set flt"
  shows "TopicsIndex_Messages flt x =
    (case Packets_Get flt (tiRetained x) of Some pk \<Rightarrow> [pk] | None \<Rightarrow> [])"
  using assms unfolding TopicsIndex_Messages_def
  by (subst scanMessages.simps) (auto simp: Packets_defs split: option.splits)

end
