(* ===== verification/Mqtt_TopicHistory.thy ===== *)
theory Mqtt_TopicHistory
  imports Mqtt_RetainMatch
begin

text \<open>
  The index seen from outside: what a topic finds after any sequence of operations, told by the
  sequence alone.  A client holds a filter when its last subscription to that filter was not
  followed by an unsubscription.
\<close>

definition holds :: "index_op list \<Rightarrow> gostring \<Rightarrow> subscription \<Rightarrow> bool" where
  "holds ops c s \<longleftrightarrow> slot_history ops (slot (sFilter s) c) None = Some s"

lemma slot_history_origin:
  "slot_history ops k v = Some s \<Longrightarrow> v = Some s \<or> (\<exists>c. slot (sFilter s) c = k)"
  by (induction ops k v rule: slot_history.induct) (fastforce split: if_splits)+

lemma slot_plain: "slot f c = PlainSlot p d \<longleftrightarrow> \<not> IsSharedFilter f \<and> rev p = segs f \<and> c = d"
  by (cases "segs f" rule: rev_cases) (auto simp: slot_def path_of_0 rev_swap)

lemma rev_path_of: "rev (path_of f d) = levels f d"
  by (simp add: path_of_def levels_def)

lemma slot_shared: "slot f c = SharedSlot p g d \<Longrightarrow> c = d \<and> IsSharedFilter f \<and> rev p = levels f 2"
  by (auto simp: slot_def rev_path_of split: if_splits)

lemma slot_of_shared: "IsSharedFilter f \<Longrightarrow> \<exists>g. slot f c = SharedSlot (rev (levels f 2)) g c"
  by (simp add: slot_def flip: rev_path_of)

lemma history_plain:
  "slot_history ops (PlainSlot (rev p) c) None = Some s \<longleftrightarrow>
     holds ops c s \<and> \<not> IsSharedFilter (sFilter s) \<and> p = segs (sFilter s)"
proof
  assume h: "slot_history ops (PlainSlot (rev p) c) None = Some s"
  then obtain d where d: "slot (sFilter s) d = PlainSlot (rev p) c"
    using slot_history_origin by blast
  then have "\<not> IsSharedFilter (sFilter s)" "p = segs (sFilter s)" "d = c" by (auto simp: slot_plain)
  then show "holds ops c s \<and> \<not> IsSharedFilter (sFilter s) \<and> p = segs (sFilter s)"
    using d h by (simp add: holds_def)
next
  assume a: "holds ops c s \<and> \<not> IsSharedFilter (sFilter s) \<and> p = segs (sFilter s)"
  then have "slot (sFilter s) c = PlainSlot (rev p) c" by (simp add: slot_def path_of_0)
  then show "slot_history ops (PlainSlot (rev p) c) None = Some s" using a by (simp add: holds_def)
qed

definition plain_topic :: "gostring \<Rightarrow> bool" where
  "plain_topic t \<longleftrightarrow> t \<noteq> [] \<and> [ch_plus] \<notin> set (segs t) \<and> [ch_hash] \<notin> set (segs t)"

text \<open>The filters of the protocol that the scan follows.\<close>

definition finds_filter :: "gostring \<Rightarrow> gostring \<Rightarrow> bool" where
  "finds_filter f t \<longleftrightarrow> mqtt_match (segs f) (segs t) \<and> \<not> plus_parent (segs f) (segs t)"

lemma code_match_finds: "plain_topic t \<Longrightarrow> code_match (segs f) (segs t) \<longleftrightarrow> finds_filter f t"
  by (simp add: plain_topic_def finds_filter_def code_match_mqtt)

text \<open>A topic that begins with a dollar is hidden from filters that begin with a wildcard.\<close>

definition hidden_from :: "gostring \<Rightarrow> gostring \<Rightarrow> bool" where
  "hidden_from flt t \<longleftrightarrow> take 1 t = [ch_dollar] \<and> (take 1 flt = [ch_plus] \<or> take 1 flt = [ch_hash])"

lemma hidden_iff: "plain_topic t \<Longrightarrow> dollar_excluded t s \<longleftrightarrow> hidden_from (sFilter s) t"
  by (cases t; cases "sFilter s") (auto simp: plain_topic_def dollar_excluded_def hidden_from_def)

lemma history_ok: "list_all op_ok ops \<Longrightarrow> index_ok (index_run ops)"
  using index_inv_run by (simp add: index_inv_def)

lemma Subscribers_history:
  assumes "list_all op_ok ops" "plain_topic t"
  shows "m_has (sbSubscriptions (TopicsIndex_Subscribers t (index_run ops))) c \<longleftrightarrow>
    (\<exists>s. holds ops c s \<and> \<not> IsSharedFilter (sFilter s) \<and> finds_filter (sFilter s) t
       \<and> \<not> dollar_excluded t s)"
proof -
  have t: "t \<noteq> []" using assms(2) by (simp add: plain_topic_def)
  show ?thesis
    unfolding Subscribers_exact [OF history_ok [OF assms(1)] t] index_get_run [OF assms(1)] history_plain
    using code_match_finds [OF assms(2)] by auto
qed

lemma Subscribers_qos_history:
  assumes "list_all op_ok ops" "plain_topic t"
    and "m_get (sbSubscriptions (TopicsIndex_Subscribers t (index_run ops))) c = Some r"
  shows "\<forall>s. holds ops c s \<longrightarrow> \<not> IsSharedFilter (sFilter s) \<longrightarrow> finds_filter (sFilter s) t \<longrightarrow>
           \<not> dollar_excluded t s \<longrightarrow> sQos s \<le> sQos r"
    and "\<exists>s. holds ops c s \<and> \<not> IsSharedFilter (sFilter s) \<and> finds_filter (sFilter s) t
           \<and> \<not> dollar_excluded t s \<and> sQos s = sQos r"
proof -
  have t: "t \<noteq> []" using assms(2) by (simp add: plain_topic_def)
  note q = Subscribers_qos [OF history_ok [OF assms(1)] t assms(3), unfolded index_get_run [OF assms(1)] history_plain]
  show "\<forall>s. holds ops c s \<longrightarrow> \<not> IsSharedFilter (sFilter s) \<longrightarrow> finds_filter (sFilter s) t \<longrightarrow>
           \<not> dollar_excluded t s \<longrightarrow> sQos s \<le> sQos r"
    using conjunct1 [OF q] code_match_finds [OF assms(2)] by blast
  obtain p s where p: "code_match p (segs t)" "holds ops c s" "\<not> IsSharedFilter (sFilter s)"
      "p = segs (sFilter s)" "\<not> dollar_excluded t s" "sQos s = sQos r"
    using conjunct2 [OF q] by (elim exE conjE) blast
  then show "\<exists>s. holds ops c s \<and> \<not> IsSharedFilter (sFilter s) \<and> finds_filter (sFilter s) t
           \<and> \<not> dollar_excluded t s \<and> sQos s = sQos r"
    using code_match_finds [OF assms(2)] by (intro exI [of _ s]) simp
qed

text \<open>
  Shared subscriptions, one candidate list for each filter: the levels after the share name are
  matched.
\<close>

lemma Shared_history:
  assumes "list_all op_ok ops" "plain_topic t"
  shows "m_has (shared_group (sbShared (TopicsIndex_Subscribers t (index_run ops))) F) c \<longleftrightarrow>
    (\<exists>s. holds ops c s \<and> sFilter s = F \<and> IsSharedFilter F \<and> code_match (levels F 2) (segs t))"
    (is "?l \<longleftrightarrow> ?r")
proof -
  have t: "t \<noteq> []" using assms(2) by (simp add: plain_topic_def)
  have l: "?l \<longleftrightarrow> (\<exists>p g s. code_match p (segs t) \<and> slot_history ops (SharedSlot (rev p) g c) None = Some s
      \<and> sFilter s = F)"
    unfolding Subscribers_shared_exact [OF history_ok [OF assms(1)] t] index_get_run [OF assms(1)] ..
  show ?thesis
  proof
    assume ?l
    then obtain p g s where p: "code_match p (segs t)"
        "slot_history ops (SharedSlot (rev p) g c) None = Some s" "sFilter s = F"
      unfolding l by (elim exE conjE) blast
    then obtain d where d: "slot F d = SharedSlot (rev p) g c" using slot_history_origin by blast
    from slot_shared [OF d] p d show ?r by (auto simp: holds_def intro!: exI [of _ s])
  next
    assume ?r
    then obtain s where s: "holds ops c s" "sFilter s = F" "IsSharedFilter F" "code_match (levels F 2) (segs t)"
      by (elim exE conjE) blast
    obtain g where "slot F c = SharedSlot (rev (levels F 2)) g c" using slot_of_shared [OF s(3)] by blast
    with s show ?l unfolding l holds_def by (intro exI [of _ "levels F 2"] exI [of _ g] exI [of _ s]) simp
  qed
qed

text \<open>Retained messages.\<close>

definition finds_topic :: "gostring \<Rightarrow> gostring \<Rightarrow> bool" where
  "finds_topic f t \<longleftrightarrow> inline_match (segs f) (segs t)
     \<and> \<not> (hd (segs f) \<in> {[ch_plus], [ch_hash]} \<and> hd (segs t) = SysPrefix)"

lemma Messages_history:
  assumes "list_all op_ok ops" "flt \<noteq> []" "ch_hash \<in> set flt \<or> ch_plus \<in> set flt"
    "[ch_hash] \<notin> set (butlast (segs flt))"
  shows "pk \<in> set (TopicsIndex_Messages flt (index_run ops)) \<longleftrightarrow>
    (\<exists>t. retained_history ops t None = Some pk \<and> finds_topic flt t)"
  using Messages_wildcard [OF index_inv_run [OF assms(1)] assms(2-4), of pk] retained_run [OF assms(1)]
  by (simp add: finds_topic_def)

lemma Messages_plain_history:
  assumes "list_all op_ok ops" "flt \<noteq> []" "ch_hash \<notin> set flt" "ch_plus \<notin> set flt"
  shows "TopicsIndex_Messages flt (index_run ops) =
    (case retained_history ops flt None of Some pk \<Rightarrow> [pk] | None \<Rightarrow> [])"
  using Messages_plain [OF assms(2-4)] retained_run [OF assms(1)] by simp

text \<open>A subscription is new exactly when the client did not hold the filter.\<close>

lemma Subscribe_new_history:
  assumes "list_all op_ok ops"
  shows "snd (TopicsIndex_Subscribe c s (index_run ops)) \<longleftrightarrow> slot_history ops (slot (sFilter s) c) None = None"
  using Subscribe_new [OF history_ok [OF assms]] index_get_run [OF assms] by simp

text \<open>No particle is kept that neither holds anything nor leads to one that does.\<close>

lemma no_leak:
  assumes "list_all op_ok ops" "\<And>p. content p (tiRoot (index_run ops)) = empty_data"
  shows "ptParticles (tiRoot (index_run ops)) = []"
  using no_content_no_particles [of "tiRoot (index_run ops)"] history_ok [OF assms(1)] assms(2)
  by (simp add: index_ok_def)

text \<open>
  In particular a history of subscriptions and unsubscriptions after which nobody holds anything
  leaves the bare root.
\<close>

fun client_op :: "index_op \<Rightarrow> bool" where
  "client_op (OpSubscribe _ _) = True"
| "client_op (OpUnsubscribe _ _) = True"
| "client_op _ = False"

lemma client_op_frame:
  "list_all client_op ops \<Longrightarrow> index_inv x \<Longrightarrow>
     ptRetainPath (content p (tiRoot (fold index_step ops x))) = ptRetainPath (content p (tiRoot x))
     \<and> ptInline (content p (tiRoot (fold index_step ops x))) = ptInline (content p (tiRoot x))"
proof (induction ops arbitrary: x)
  case (Cons op ops)
  have "op_ok op" using Cons.prems(1) by (cases op) simp_all
  then have inv: "index_inv (index_step op x)" using Cons.prems(2) index_inv_step by blast
  have ok: "index_ok x" using Cons.prems(2) by (simp add: index_inv_def)
  have "ptRetainPath (content p (tiRoot (index_step op x))) = ptRetainPath (content p (tiRoot x))
      \<and> ptInline (content p (tiRoot (index_step op x))) = ptInline (content p (tiRoot x))"
    using Cons.prems(1) by (cases op) (simp_all add: Subscribe_frame [OF ok] Unsubscribe_frame [OF ok])
  then show ?case using Cons.IH [OF _ inv] Cons.prems(1) by simp
qed simp

lemma shared_none_empty:
  assumes "shared_ok s" "\<And>g c. SharedSubscriptions_Get s (g, c) = None"
  shows "s = []"
proof -
  have "m_get s g = None" for g
  proof (rule ccontr)
    assume "m_get s g \<noteq> None"
    then obtain m where m: "m_get s g = Some m" by blast
    then have "m \<noteq> []" using assms(1) by (auto simp: shared_ok_def list_all_iff dest: map_of_SomeD)
    moreover have "\<forall>c. m_get m c = None"
      using assms(2) [of g] m by (simp add: SharedSubscriptions_Get_group shared_group_def)
    ultimately show False by (simp add: m_get_empty_iff)
  qed
  then show ?thesis by (simp flip: m_get_empty_iff)
qed

lemma content_new: "content p (tiRoot NewTopicsIndex) = empty_data"
proof -
  have leaf: "ptParticles (newParticle []) = []" by (simp add: newParticle_def)
  show ?thesis
    using node_at_leaf [OF leaf, of p]
    by (cases "p = []") (simp_all add: content_def view_def empty_data_def newParticle_def NewTopicsIndex_def)
qed

lemma all_unsubscribed:
  assumes "list_all client_op ops" "\<And>k. slot_history ops k None = None"
  shows "ptParticles (tiRoot (index_run ops)) = []"
proof (rule no_leak)
  have "op_ok op" if "client_op op" for op using that by (cases op) simp_all
  then show ok: "list_all op_ok ops" using assms(1) by (simp add: list_all_iff)
  fix p
  let ?d = "content p (tiRoot (index_run ops))"
  have frame: "ptRetainPath ?d = []" "ptInline ?d = []"
    using client_op_frame [OF assms(1) index_inv_new, of p]
    by (simp_all add: index_run_def content_new empty_data_def newParticle_def NewInlineSubscriptions_def)
  have get: "index_get (index_run ops) k = None" for k
    using index_get_run [OF ok] assms(2) by simp
  have "m_get (ptSubscriptions ?d) c = None" for c
    using get [of "PlainSlot p c"] by (simp add: Subscriptions_defs)
  then have subs: "ptSubscriptions ?d = []" by (simp flip: m_get_empty_iff)
  have shared: "ptShared ?d = []"
    using get by (intro shared_none_empty content_shared_ok(1) history_ok ok)
      (metis index_get.simps(2))
  have "ptKey ?d = []" by (simp add: content_def empty_data_def newParticle_def split: option.split)
  then show "?d = empty_data"
    using frame subs shared by (cases ?d) (simp add: empty_data_def newParticle_def NewSubscriptions_def
        NewSharedSubscriptions_def NewInlineSubscriptions_def)
qed

end
