(* ===== verification/Mqtt_ServerFrame.thy ===== *)
theory Mqtt_ServerFrame
  imports Mqtt_Housekeeping Mqtt_ClientLaws Mqtt_TopicHistory
begin

text \<open>
  What the server never changes behind the back of a client.  The contract is a locale: a relation
  between a client before and after that is reflexive, transitive and closed under the few updates
  that the handlers make.  Every handler then relates every client of the store to itself, and
  leaves the options and the list of hooks alone.
\<close>

section \<open>Relating two servers\<close>

definition keeps :: "(client \<Rightarrow> client \<Rightarrow> bool) \<Rightarrow> (cref clients \<Rightarrow> bool) \<Rightarrow> 's server \<Rightarrow> 's server \<Rightarrow> bool" where
  "keeps rel T sv sv' \<longleftrightarrow> (\<forall>r. rel (svHeap sv r) (svHeap sv' r))
     \<and> opOptions (svOps sv') = opOptions (svOps sv) \<and> opHooks (svOps sv') = opHooks (svOps sv)
     \<and> (\<exists>ops. svTopics sv' = fold index_step ops (svTopics sv))
     \<and> T (svClients sv') \<and> svNext sv' = svNext sv \<and> svInlineClient sv' = svInlineClient sv"

lemma keepsD: "keeps rel T sv sv' \<Longrightarrow> rel (svHeap sv r) (svHeap sv' r)"
  by (simp add: keeps_def)

lemma keeps_setup:
  "keeps rel T sv sv' \<Longrightarrow> opOptions (svOps sv') = opOptions (svOps sv)"
  "keeps rel T sv sv' \<Longrightarrow> opHooks (svOps sv') = opHooks (svOps sv)"
  by (simp_all add: keeps_def)

lemma keeps_topics: "keeps rel T sv sv' \<Longrightarrow> \<exists>ops. svTopics sv' = fold index_step ops (svTopics sv)"
  by (simp add: keeps_def)

lemma keeps_table:
  "keeps rel T sv sv' \<Longrightarrow> T (svClients sv')"
  "keeps rel T sv sv' \<Longrightarrow> svNext sv' = svNext sv"
  "keeps rel T sv sv' \<Longrightarrow> svInlineClient sv' = svInlineClient sv"
  by (simp_all add: keeps_def)

lemma keeps_mono: "keeps rel T sv sv' \<Longrightarrow> (\<And>c. T c \<Longrightarrow> T' c) \<Longrightarrow> keeps rel T' sv sv'"
  by (simp add: keeps_def)

lemma keeps_tally: "keeps rel T s0 sv \<Longrightarrow> keeps rel T s0 (tally f sv)"
  by (simp add: keeps_def store_defs)

lemma keeps_notify: "keeps rel T s0 sv \<Longrightarrow> keeps rel T s0 (notify f sv)"
  by (simp add: keeps_def store_defs)

lemma keeps_ask: "keeps rel T s0 sv \<Longrightarrow> keeps rel T s0 (snd (ask f sv))"
  by (auto simp: keeps_def store_defs split: prod.splits)

lemma ask_heap [simp]: "svHeap (snd (ask f sv)) = svHeap sv"
  by (auto simp: store_defs split: prod.splits)

text \<open>Changes of the index are operations of the index.\<close>

lemma keeps_step: "keeps rel T s0 sv \<Longrightarrow> keeps rel T s0 (sv\<lparr>svTopics := index_step op (svTopics sv)\<rparr>)"
proof -
  assume k: "keeps rel T s0 sv"
  then obtain ops where "svTopics sv = fold index_step ops (svTopics s0)" using keeps_topics by blast
  then have "index_step op (svTopics sv) = fold index_step (ops @ [op]) (svTopics s0)" by simp
  with k show ?thesis unfolding keeps_def by (auto simp del: fold_append)
qed

lemmas keeps_index = keeps_step [of rel T s0 sv "OpSubscribe c s" for rel T s0 sv c s, unfolded index_step.simps]
  keeps_step [of rel T s0 sv "OpUnsubscribe f c" for rel T s0 sv f c, unfolded index_step.simps]
  keeps_step [of rel T s0 sv "OpInlineSubscribe i" for rel T s0 sv i, unfolded index_step.simps]
  keeps_step [of rel T s0 sv "OpInlineUnsubscribe k f" for rel T s0 sv k f, unfolded index_step.simps]
  keeps_step [of rel T s0 sv "OpRetain pk" for rel T s0 sv pk, unfolded index_step.simps]

lemma keeps_forget: "keeps rel T s0 sv \<Longrightarrow>
    keeps rel T s0 (sv\<lparr>svTopics := (svTopics sv)\<lparr>tiRetained := Packets_Delete t (tiRetained (svTopics sv))\<rparr>\<rparr>)"
  using keeps_step [of rel T s0 sv "OpForget t"] by (cases "svTopics sv") simp

lemma keeps_fields:
  "keeps rel T s0 sv \<Longrightarrow> keeps rel T s0 (sv\<lparr>svWillDelayed := w\<rparr>)"
  "keeps rel T s0 sv \<Longrightarrow> keeps rel T s0 (sv\<lparr>svDelivered := d\<rparr>)"
  "keeps rel T s0 sv \<Longrightarrow> keeps rel T s0 (sv\<lparr>svDone := b\<rparr>)"
  by (simp_all add: keeps_def)

text \<open>What is known of the table of clients may survive the removal and the entry of a client.\<close>

definition removable :: "(cref clients \<Rightarrow> bool) \<Rightarrow> bool" where
  "removable T \<longleftrightarrow> (\<forall>c n. T c \<longrightarrow> T (Clients_Delete n c))"

definition enterable :: "(cref clients \<Rightarrow> bool) \<Rightarrow> 's server \<Rightarrow> cref \<Rightarrow> bool" where
  "enterable T sv r \<longleftrightarrow> (\<forall>c. T c \<longrightarrow> T (Clients_Add (clID (svHeap sv r), r) c))"

lemma keeps_remove: "removable T \<Longrightarrow> keeps rel T s0 sv \<Longrightarrow>
    keeps rel T s0 (sv\<lparr>svClients := Clients_Delete n (svClients sv)\<rparr>)"
  by (simp add: keeps_def removable_def)

lemma keeps_fold:
  "(\<And>x s. x \<in> set xs \<Longrightarrow> keeps rel T s0 s \<Longrightarrow> keeps rel T s0 (f x s)) \<Longrightarrow> keeps rel T s0 sv \<Longrightarrow> keeps rel T s0 (fold f xs sv)"
  by (induction xs arbitrary: sv) simp_all

text \<open>Branches and results, as rules: no case is split before its state is needed.\<close>

lemma keeps_if: "keeps rel T s0 a \<Longrightarrow> keeps rel T s0 b \<Longrightarrow> keeps rel T s0 (if c then a else b)"
  by simp

lemma keeps_snd_if: "keeps rel T s0 (snd a) \<Longrightarrow> keeps rel T s0 (snd b) \<Longrightarrow> keeps rel T s0 (snd (if c then a else b))"
  by simp

lemma keeps_snd_pair: "keeps rel T s0 sv \<Longrightarrow> keeps rel T s0 (snd (a, sv))"
  by simp

lemma keeps_option: "keeps rel T s0 a \<Longrightarrow> (\<And>x. y = Some x \<Longrightarrow> keeps rel T s0 (b x)) \<Longrightarrow>
    keeps rel T s0 (case y of None \<Rightarrow> a | Some x \<Rightarrow> b x)"
  by (cases y) simp_all

lemma keeps_snd_option: "keeps rel T s0 (snd a) \<Longrightarrow> (\<And>x. y = Some x \<Longrightarrow> keeps rel T s0 (snd (b x))) \<Longrightarrow>
    keeps rel T s0 (snd (case y of None \<Rightarrow> a | Some x \<Rightarrow> b x))"
  by (cases y) simp_all

lemma keeps_snd_sum: "(\<And>x. y = Inl x \<Longrightarrow> keeps rel T s0 (snd (a x))) \<Longrightarrow> (\<And>x. y = Inr x \<Longrightarrow> keeps rel T s0 (snd (b x))) \<Longrightarrow>
    keeps rel T s0 (snd (case y of Inl x \<Rightarrow> a x | Inr x \<Rightarrow> b x))"
  by (cases y) simp_all

lemmas keeps_branch = keeps_if keeps_snd_if keeps_snd_pair keeps_option keeps_snd_option keeps_snd_sum

lemmas keeps_basic = keeps_tally keeps_notify keeps_ask keeps_fields keeps_index keeps_forget

section \<open>The contract\<close>

lemma WritePacket_change:
  "WritePacket now pk cl op = (e, cl', op') \<Longrightarrow>
    cl' = cl \<or> (\<not> Closed cl \<and> cnConn (clNet cl) \<and> (\<exists>n b e. write_bytes n b cl = (cl', e)))"
  unfolding WritePacket_def Let_def by (auto split: if_splits prod.splits sum.splits option.splits)

lemma NextPacketID_change:
  "NextPacketID op cl = Some (cl', x) \<Longrightarrow> cl' = cl \<or> (\<exists>j. cl' = upd_state (csPacketID_update (\<lambda>_. j)) cl)"
  by (auto simp: NextPacketID_def Let_def split: option.splits sum.splits)

text \<open>The changes of the in-flight messages and their quotas.\<close>

datatype inflight_change = ISet packet | IDelete u16 | ITakeReceive | IReturnReceive | ITakeSend | IReturnSend

fun change_inflight :: "inflight_change \<Rightarrow> inflight \<Rightarrow> inflight" where
  "change_inflight (ISet m) i = fst (Inflight_Set m i)"
| "change_inflight (IDelete k) i = fst (Inflight_Delete k i)"
| "change_inflight ITakeReceive i = DecreaseReceiveQuota i"
| "change_inflight IReturnReceive i = IncreaseReceiveQuota i"
| "change_inflight ITakeSend i = DecreaseSendQuota i"
| "change_inflight IReturnSend i = IncreaseSendQuota i"

lemma change_fun: "change_inflight ITakeSend = DecreaseSendQuota" "change_inflight IReturnSend = IncreaseSendQuota"
  "change_inflight ITakeReceive = DecreaseReceiveQuota" "change_inflight IReturnReceive = IncreaseReceiveQuota"
  by (simp_all add: fun_eq_iff)

lemma upd_const: "upd_inflight (\<lambda>_. f (clInflight cl)) cl = upd_inflight f cl"
  by (cases cl) simp

locale client_relation =
  fixes rel :: "client \<Rightarrow> client \<Rightarrow> bool"
  assumes rel_refl: "rel cl cl"
    and rel_trans: "rel cl cl1 \<Longrightarrow> rel cl1 cl2 \<Longrightarrow> rel cl cl2"
    and rel_name: "rel cl cl' \<Longrightarrow> clID cl' = clID cl"
    and rel_write: "write_bytes n b cl = (cl', e) \<Longrightarrow> \<not> Closed cl \<Longrightarrow> cnConn (clNet cl) \<Longrightarrow> rel cl cl'"
    and rel_inflight: "rel cl (upd_inflight (change_inflight c) cl)"
    and rel_packet_id: "rel cl (upd_state (csPacketID_update (\<lambda>_. j)) cl)"
    and rel_aliases: "rel cl (upd_state (csTopicAliases_update ta) cl)"
    and rel_queue: "\<not> Closed cl \<Longrightarrow> rel cl (upd_state (\<lambda>st. st\<lparr>csOutbound := csOutbound st @ [out],
          csOutboundQty := csOutboundQty st + 1\<rparr>) cl)"
    and rel_will: "rel cl (clProperties_update (cpWill_update w) cl)"
    and rel_session: "rel cl (clProperties_update (cpProps_update p) cl)"
    and rel_subscribe: "rel cl (upd_state (csSubscriptions_update (Subscriptions_Add (sFilter sub) sub)) cl)"
    and rel_unsubscribe: "rel cl (upd_state (csSubscriptions_update (Subscriptions_Delete k)) cl)"
    and rel_stop: "rel cl (Stop now err cl)"
begin

lemma keeps_refl: "T (svClients sv) \<Longrightarrow> keeps rel T sv sv"
  by (auto simp: keeps_def rel_refl intro!: exI [of _ "[]"])

lemma keeps_enter: "enterable T s0 r \<Longrightarrow> keeps rel T s0 sv \<Longrightarrow>
    keeps rel T s0 (sv\<lparr>svClients := Clients_Add (clID (svHeap sv r), r) (svClients sv)\<rparr>)"
  using rel_name [OF keepsD [of rel T s0 sv r]] by (auto simp: keeps_def enterable_def)

lemma keeps_trans: "keeps rel T' a b \<Longrightarrow> keeps rel T b c \<Longrightarrow> keeps rel T a c"
proof -
  assume a: "keeps rel T' a b" and b: "keeps rel T b c"
  obtain o1 o2 where "svTopics b = fold index_step o1 (svTopics a)" "svTopics c = fold index_step o2 (svTopics b)"
    using keeps_topics [OF a] keeps_topics [OF b] by blast
  then have "svTopics c = fold index_step (o1 @ o2) (svTopics a)" by simp
  then have t: "\<exists>ops. svTopics c = fold index_step ops (svTopics a)" ..
  show ?thesis
    using a b t unfolding keeps_def by (metis rel_trans)
qed

lemma keeps_set:
  "keeps rel T s0 sv \<Longrightarrow> rel (svHeap sv r) cl \<Longrightarrow> keeps rel T s0 (set_client r cl sv)"
  unfolding keeps_def set_client_def using rel_trans by auto

lemma keeps_upd: "keeps rel T s0 sv \<Longrightarrow> rel (svHeap sv r) (f (svHeap sv r)) \<Longrightarrow> keeps rel T s0 (upd_client r f sv)"
  unfolding upd_client_def by (rule keeps_set)

lemma keeps_write: "keeps rel T s0 sv \<Longrightarrow> keeps rel T s0 (snd (WriteTo now r pk sv))"
proof -
  assume k: "keeps rel T s0 sv"
  obtain e cl op where p: "WritePacket now pk (svHeap sv r) (svOps sv) = (e, cl, op)"
    by (metis prod_cases3)
  have c: "rel (svHeap sv r) cl"
    using WritePacket_change [OF p] rel_write rel_refl by blast
  have f: "opHooks op = opHooks (svOps sv)" "opOptions op = opOptions (svOps sv)"
    using WritePacket_frame [OF p] by simp_all
  show ?thesis
    using k c f rel_trans by (auto simp: keeps_def WriteTo_def on_client_def p)
qed

lemma keeps_inflight:
  "keeps rel T s0 sv \<Longrightarrow> keeps rel T s0 (upd_client r (upd_inflight (\<lambda>_. change_inflight c (clInflight (svHeap sv r)))) sv)"
  by (rule keeps_upd) (simp_all add: rel_inflight upd_const)

lemma keeps_quotas:
  "keeps rel T s0 sv \<Longrightarrow> keeps rel T s0 (upd_client r (upd_inflight DecreaseSendQuota) sv)"
  "keeps rel T s0 sv \<Longrightarrow> keeps rel T s0 (upd_client r (upd_inflight IncreaseSendQuota) sv)"
  "keeps rel T s0 sv \<Longrightarrow> keeps rel T s0 (upd_client r (upd_inflight DecreaseReceiveQuota) sv)"
  "keeps rel T s0 sv \<Longrightarrow> keeps rel T s0 (upd_client r (upd_inflight IncreaseReceiveQuota) sv)"
  using rel_inflight [of _ ITakeSend] rel_inflight [of _ IReturnSend] rel_inflight [of _ ITakeReceive]
    rel_inflight [of _ IReturnReceive]
  by (auto intro!: keeps_upd simp: change_fun)

lemma keeps_both_quotas:
  "keeps rel T s0 sv \<Longrightarrow> keeps rel T s0 (upd_client r (upd_inflight (IncreaseSendQuota \<circ> IncreaseReceiveQuota)) sv)"
proof (rule keeps_upd)
  have "rel (svHeap sv r) (upd_inflight (change_inflight IReturnSend)
      (upd_inflight (change_inflight IReturnReceive) (svHeap sv r)))"
    by (rule rel_trans) (rule rel_inflight)+
  then show "rel (svHeap sv r) (upd_inflight (IncreaseSendQuota \<circ> IncreaseReceiveQuota) (svHeap sv r))"
    by (simp add: change_fun comp_def)
qed

lemma keeps_set_inflight: "keeps rel T s0 sv \<Longrightarrow> keeps rel T s0 (snd (set_inflight r m sv))"
  using keeps_inflight [of T s0 sv r "ISet m"] by (simp add: set_inflight_def split_beta)

lemma keeps_del_inflight: "keeps rel T s0 sv \<Longrightarrow> keeps rel T s0 (snd (del_inflight r k sv))"
  using keeps_inflight [of T s0 sv r "IDelete k"] by (simp add: del_inflight_def split_beta)

lemmas keeps_client = keeps_basic keeps_write keeps_quotas keeps_both_quotas keeps_set_inflight keeps_del_inflight

subsection \<open>Publishing\<close>

lemma rel_alias_for: "rel cl (snd (alias_for pk cl out))"
  by (auto simp: alias_for_def Let_def rel_aliases rel_refl split: prod.splits)

lemma rel_NextPacketID: "NextPacketID op cl = Some (cl', x) \<Longrightarrow> rel cl cl'"
  using NextPacketID_change [of op cl cl' x] rel_packet_id rel_refl by auto

lemma keeps_track: "keeps rel T s0 sv \<Longrightarrow> keeps rel T s0 (snd (track_qos now r pk out sv))"
  unfolding track_qos_def Let_def split_beta
  by (auto split: option.splits sum.splits intro!: keeps_client intro: keeps_set rel_NextPacketID)

lemma keeps_enqueue: "keeps rel T s0 sv \<Longrightarrow> keeps rel T s0 (snd (enqueue r pk out sv))"
  unfolding enqueue_def Let_def split_beta by (auto intro!: keeps_client keeps_upd rel_queue)

lemma keeps_publishToClient: "keeps rel T s0 sv \<Longrightarrow> keeps rel T s0 (snd (publishToClient now r sub pk sv))"
  unfolding publishToClient_def Let_def split_beta
  by (auto split: option.splits bool.splits intro!: keeps_basic keeps_enqueue keeps_track keeps_set rel_alias_for)

lemma keeps_deliver: "keeps rel T s0 sv \<Longrightarrow> keeps rel T s0 (deliver now pk x sv)"
  by (auto simp: deliver_def split_beta split: option.splits intro!: keeps_publishToClient)

lemma keeps_select: "keeps rel T s0 sv \<Longrightarrow> keeps rel T s0 (snd (select_subscribers pk subs sv))"
  by (auto simp: select_subscribers_def Let_def split_beta intro!: keeps_basic)

lemma keeps_publishToSubscribers: "keeps rel T s0 sv \<Longrightarrow> keeps rel T s0 (publishToSubscribers now pk sv)"
  by (auto simp: publishToSubscribers_def Let_def split_beta
      intro!: keeps_fold keeps_deliver keeps_basic keeps_select)

lemma keeps_retainMessage: "keeps rel T s0 sv \<Longrightarrow> keeps rel T s0 (retainMessage r pk sv)"
  by (auto simp: retainMessage_def Let_def split_beta intro!: keeps_basic)

lemma keeps_publish_retained: "keeps rel T s0 sv \<Longrightarrow> keeps rel T s0 (publish_retained now r sub pk sv)"
  by (auto simp: publish_retained_def split_beta split: option.splits intro!: keeps_basic keeps_publishToClient)

lemma keeps_publishRetained: "keeps rel T s0 sv \<Longrightarrow> keeps rel T s0 (publishRetainedToClient now r sub b sv)"
  by (auto simp: publishRetainedToClient_def intro!: keeps_fold keeps_publish_retained)

lemma keeps_sendLWT: "keeps rel T s0 sv \<Longrightarrow> keeps rel T s0 (sendLWT now r sv)"
  by (auto simp: sendLWT_def Let_def split_beta
      intro!: keeps_basic keeps_upd rel_will keeps_publishToSubscribers keeps_retainMessage)

lemma keeps_Disconnect: "keeps rel T s0 sv \<Longrightarrow> keeps rel T s0 (snd (DisconnectClient now r code sv))"
  by (auto simp: DisconnectClient_def Let_def split_beta intro!: keeps_upd rel_stop keeps_write)

lemmas keeps_routing = keeps_client keeps_publishToSubscribers keeps_retainMessage keeps_Disconnect

subsection \<open>Handlers\<close>

lemma keeps_denied: "keeps rel T s0 sv \<Longrightarrow> keeps rel T s0 (snd (publish_denied now r pk sv))"
  by (auto simp: publish_denied_def Let_def intro!: keeps_routing)

lemma keeps_reuse: "keeps rel T s0 sv \<Longrightarrow> keeps rel T s0 (snd (reuse_identifier now r pk sv))"
  by (auto simp: reuse_identifier_def Let_def split_beta split: option.splits intro!: keeps_routing)

lemma keeps_inbound: "keeps rel T s0 sv \<Longrightarrow> keeps rel T s0 (snd (inbound_alias r pk sv))"
  by (auto simp: inbound_alias_def Let_def split_beta intro!: keeps_upd rel_aliases)

lemma keeps_accepted: "keeps rel T s0 sv \<Longrightarrow> keeps rel T s0 (snd (publish_accepted now r pk sv))"
  unfolding publish_accepted_def Let_def split_beta by (intro keeps_branch keeps_routing)

lemma keeps_checked: "keeps rel T s0 sv \<Longrightarrow> keeps rel T s0 (snd (publish_checked now r pk answer sv))"
  unfolding publish_checked_def
  by (auto split: prod.splits option.splits intro!: keeps_accepted keeps_write)

lemma keeps_processPublish: "keeps rel T s0 sv \<Longrightarrow> keeps rel T s0 (snd (processPublish now r pk sv))"
  unfolding processPublish_def Let_def split_beta
  by (auto split: option.splits intro!: keeps_Disconnect keeps_denied keeps_checked keeps_inbound
      keeps_reuse keeps_basic)

lemma keeps_drop: "keeps rel T s0 sv \<Longrightarrow> keeps rel T s0 (drop_message r pk sv)"
  by (auto simp: drop_message_def Let_def split_beta intro!: keeps_client)

lemma keeps_complete: "keeps rel T s0 sv \<Longrightarrow> keeps rel T s0 (complete_message r pk sv)"
  by (auto simp: complete_message_def Let_def split_beta intro!: keeps_client)

lemma keeps_acks:
  "keeps rel T s0 sv \<Longrightarrow> keeps rel T s0 (snd (processPuback now r pk sv))"
  "keeps rel T s0 sv \<Longrightarrow> keeps rel T s0 (snd (processPubrec now r pk sv))"
  "keeps rel T s0 sv \<Longrightarrow> keeps rel T s0 (snd (processPubrel now r pk sv))"
  "keeps rel T s0 sv \<Longrightarrow> keeps rel T s0 (snd (processPubcomp now r pk sv))"
  by (auto simp: processPuback_def processPubrec_def processPubrel_def processPubcomp_def Let_def split_beta
      split: option.splits intro!: keeps_client keeps_drop keeps_complete)

lemma keeps_subscribe_one: "keeps rel T s0 sv \<Longrightarrow> keeps rel T s0 (snd (subscribe_one r code sub sv))"
  unfolding subscribe_one_def Let_def split_beta
  by (auto intro!: keeps_basic keeps_upd rel_subscribe)

lemma keeps_subscribe_all: "keeps rel T s0 sv \<Longrightarrow> keeps rel T s0 (snd (subscribe_all r code subs sv))"
  by (induction subs arbitrary: sv) (auto simp: split_beta Let_def intro!: keeps_subscribe_one)

lemma keeps_processSubscribe: "keeps rel T s0 sv \<Longrightarrow> keeps rel T s0 (snd (processSubscribe now r pk sv))"
  unfolding processSubscribe_def Let_def split_beta
  by (auto split: option.splits intro!: keeps_client keeps_fold keeps_publishRetained keeps_subscribe_all)

lemma keeps_unsubscribe_one: "keeps rel T s0 sv \<Longrightarrow> keeps rel T s0 (snd (unsubscribe_one r code sub sv))"
  unfolding unsubscribe_one_def Let_def split_beta
  by (auto intro!: keeps_basic keeps_upd rel_unsubscribe)

lemma keeps_unsubscribe_all: "keeps rel T s0 sv \<Longrightarrow> keeps rel T s0 (snd (unsubscribe_all r code subs sv))"
  by (induction subs arbitrary: sv) (auto simp: split_beta Let_def intro!: keeps_unsubscribe_one)

lemma keeps_processUnsubscribe: "keeps rel T s0 sv \<Longrightarrow> keeps rel T s0 (snd (processUnsubscribe now r pk sv))"
  unfolding processUnsubscribe_def Let_def split_beta by (auto intro!: keeps_client keeps_unsubscribe_all)

lemma rel_unsubscribe_all: "rel cl (upd_state (csSubscriptions_update (fold (\<lambda>(k, _). Subscriptions_Delete k) m)) cl)"
proof (induction m arbitrary: cl)
  case (Cons x m)
  have "rel cl (upd_state (csSubscriptions_update (Subscriptions_Delete (fst x))) cl)" by (rule rel_unsubscribe)
  from rel_trans [OF this Cons] show ?case by (simp add: split_beta comp_def)
next
  case Nil
  have "upd_state (csSubscriptions_update (\<lambda>m. m)) cl = cl"
    by (intro client.equality client_state.equality) simp_all
  then show ?case by (simp only: fold_simps(1) rel_refl)
qed

lemma keeps_UnsubscribeClient: "keeps rel T s0 sv \<Longrightarrow> keeps rel T s0 (UnsubscribeClient r sv)"
  unfolding UnsubscribeClient_def Let_def
  by (auto simp: drop_subscription_def Let_def split_beta
      intro!: keeps_basic keeps_fold keeps_upd rel_unsubscribe_all)

lemma keeps_processDisconnect: "keeps rel T s0 sv \<Longrightarrow> keeps rel T s0 (snd (processDisconnect now r pk sv))"
  unfolding processDisconnect_def Let_def by (auto intro!: keeps_basic keeps_upd rel_stop rel_session)

lemma keeps_dispatch: "keeps rel T s0 sv \<Longrightarrow> keeps rel T s0 (snd (dispatch now r pk sv))"
  unfolding dispatch_def Let_def
  by (auto simp: processConnect_def processPingreq_def processAuth_def Let_def split_beta
      intro!: keeps_basic keeps_write keeps_sendLWT keeps_processDisconnect keeps_processPublish keeps_acks
        keeps_processSubscribe keeps_processUnsubscribe)

lemma keeps_send_held: "keeps rel T s0 sv \<Longrightarrow> keeps rel T s0 (send_held now r sv)"
  unfolding send_held_def Let_def split_beta by (auto split: option.splits intro!: keeps_client)

lemma keeps_processPacket: "keeps rel T s0 sv \<Longrightarrow> keeps rel T s0 (snd (processPacket now r pk sv))"
  unfolding processPacket_def Let_def split_beta
  by (auto split: option.splits intro!: keeps_basic keeps_send_held keeps_dispatch)

lemma keeps_receivePacket: "keeps rel T s0 sv \<Longrightarrow> keeps rel T s0 (snd (receivePacket now r pk sv))"
  unfolding receivePacket_def Let_def split_beta
  by (auto split: option.splits intro!: keeps_Disconnect keeps_processPacket)

lemma keeps_InjectPacket: "keeps rel T s0 sv \<Longrightarrow> keeps rel T s0 (snd (InjectPacket now r pk sv))"
  unfolding InjectPacket_def Let_def split_beta
  by (auto split: option.splits intro!: keeps_basic keeps_processPacket)

lemma keeps_InjectPublish: "keeps rel T s0 sv \<Longrightarrow> keeps rel T s0 (InjectPublish now c pk sv)"
  unfolding InjectPublish_def Let_def by (auto split: option.splits intro!: keeps_basic keeps_publishToSubscribers)

lemma keeps_embedded:
  "keeps rel T s0 sv \<Longrightarrow> keeps rel T s0 (snd (Server_Publish now topic payload retain qos sv))"
  "keeps rel T s0 sv \<Longrightarrow> keeps rel T s0 (snd (Server_Subscribe flt n handler sv))"
  "keeps rel T s0 sv \<Longrightarrow> keeps rel T s0 (snd (Server_Unsubscribe flt n sv))"
  unfolding Server_Publish_def Server_Subscribe_def Server_Unsubscribe_def Let_def split_beta
  by (auto split: option.splits intro!: keeps_basic keeps_InjectPacket)

end

end
