(* ===== verification/Mqtt_SessionFrame.thy ===== *)
theory Mqtt_SessionFrame
  imports Mqtt_ServerFrame
begin

text \<open>
  The same contract for the life of a connection and for what the server does on its own.  A
  session can take the in-flight messages of another client, so the relation comes with a property
  of a single client that it preserves.
\<close>

definition inherited :: "int \<Rightarrow> int \<Rightarrow> inflight \<Rightarrow> inflight" where
  "inherited rm sm i = ResetSendQuota sm (ResetReceiveQuota rm (Inflight_Clone i))"

locale session_relation = client_relation +
  fixes good :: "client \<Rightarrow> bool"
  assumes good_rel: "good cl \<Longrightarrow> rel cl cl' \<Longrightarrow> good cl'"
    and rel_input: "rel cl (upd_net (cnIn_update (\<lambda>_. input)) cl)"
    and rel_taken: "rel cl (upd_state (csIsTakenOver_update (\<lambda>_. True)) cl)"
    and rel_clone: "good cl0 \<Longrightarrow> rel cl (upd_inflight (\<lambda>_. Inflight_Clone (clInflight cl0)) cl)"
    and rel_inherit: "good cl0 \<Longrightarrow> 0 \<le> rm \<Longrightarrow> 0 \<le> sm \<Longrightarrow>
          rel cl (upd_inflight (\<lambda>_. inherited rm sm (clInflight cl0)) cl)"
    and rel_dequeue: "\<not> Closed cl \<Longrightarrow> rel cl (upd_state (csOutbound_update q) cl)"
    and rel_queued: "rel cl (upd_state (csOutboundQty_update n) cl)"
begin

definition all_good :: "'s server \<Rightarrow> bool" where
  "all_good sv \<longleftrightarrow> (\<forall>r. good (svHeap sv r))"

lemma good_keeps: "all_good s0 \<Longrightarrow> keeps rel T s0 sv \<Longrightarrow> all_good sv"
  unfolding all_good_def keeps_def using good_rel by blast

section \<open>Methods of a client\<close>

lemma keeps_on_client:
  assumes "keeps rel T s0 sv"
    and "\<And>a cl op. f (svHeap sv r) (svOps sv) = (a, cl, op) \<Longrightarrow>
      rel (svHeap sv r) cl \<and> opOptions op = opOptions (svOps sv) \<and> opHooks op = opHooks (svOps sv)"
  shows "keeps rel T s0 (snd (on_client r f sv))"
proof -
  obtain a cl op where e: "f (svHeap sv r) (svOps sv) = (a, cl, op)" by (metis prod_cases3)
  show ?thesis using assms(1) assms(2) [OF e] rel_trans by (auto simp: keeps_def on_client_def e)
qed

lemma keeps_both:
  assumes "keeps rel T s0 sv" "rel (svHeap sv r) cl"
    "opOptions op = opOptions (svOps sv)" "opHooks op = opHooks (svOps sv)"
  shows "keeps rel T s0 (sv\<lparr>svHeap := (svHeap sv)(r := cl), svOps := op\<rparr>)"
  using assms rel_trans by (auto simp: keeps_def)

end

lemma ReadFixedHeader_frame:
  "ReadFixedHeader cl op = (a, cl', op') \<Longrightarrow>
    (\<exists>i. cl' = upd_net (cnIn_update (\<lambda>_. i)) cl) \<and> opOptions op' = opOptions op \<and> opHooks op' = opHooks op"
proof -
  have same: "\<exists>i. cl = upd_net (cnIn_update (\<lambda>_. i)) cl"
    by (rule exI [of _ "cnIn (clNet cl)"]) simp
  assume "ReadFixedHeader cl op = (a, cl', op')"
  then show ?thesis
    using same by (auto simp: ReadFixedHeader_def Let_def split: if_splits list.splits sum.splits prod.splits)
qed

lemma ReadPacket_frame:
  "ReadPacket fh cl op = (a, cl', op') \<Longrightarrow>
    (\<exists>i. cl' = upd_net (cnIn_update (\<lambda>_. i)) cl) \<and> opOptions op' = opOptions op \<and> opHooks op' = opHooks op"
proof -
  have same: "\<exists>i. cl = upd_net (cnIn_update (\<lambda>_. i)) cl"
    by (rule exI [of _ "cnIn (clNet cl)"]) simp
  assume "ReadPacket fh cl op = (a, cl', op')"
  then show ?thesis
    using same by (auto simp: ReadPacket_def Let_def split: if_splits sum.splits prod.splits option.splits)
qed

lemma drop_frame:
  "opOptions (snd (drop_inflight tk s)) = opOptions (snd s)" "opHooks (snd (drop_inflight tk s)) = opHooks (snd s)"
  by (auto simp: drop_inflight_def split_beta Let_def)

lemma drop_change: "fst (drop_inflight tk s) = upd_inflight (change_inflight (IDelete (pkPacketID tk))) (fst s)"
  by (cases "fst s") (simp add: drop_inflight_def split_beta Let_def)

context session_relation
begin

lemma rel_drop: "rel (fst s) (fst (drop_inflight tk s))"
  unfolding drop_change by (rule rel_inflight)

lemma drops:
  "rel (fst s) (fst (fold drop_inflight tks s)) \<and> opOptions (snd (fold drop_inflight tks s)) = opOptions (snd s)
     \<and> opHooks (snd (fold drop_inflight tks s)) = opHooks (snd s)"
proof (induction tks arbitrary: s)
  case (Cons tk tks)
  from Cons [of "drop_inflight tk s"] show ?case
    using rel_trans [OF rel_drop [of s tk]] by (auto simp: drop_frame)
qed (simp add: rel_refl)

lemma ClearInflights_rel:
  "ClearInflights cl op = (cl', op') \<Longrightarrow> rel cl cl' \<and> opOptions op' = opOptions op \<and> opHooks op' = opHooks op"
  using drops [of "(cl, op)" "Inflight_GetAll False (clInflight cl)"] by (auto simp: ClearInflights_def)

lemma ClearExpired_rel:
  "ClearExpired_loop now m tks s ks = (s', ks') \<Longrightarrow>
     rel (fst s) (fst s') \<and> opOptions (snd s') = opOptions (snd s) \<and> opHooks (snd s') = opHooks (snd s)"
proof (induction tks arbitrary: s ks)
  case (Cons tk tks)
  show ?case
  proof (cases "inflight_expired now m tk \<and> Inflight_Get (clInflight (fst s)) (pkPacketID tk) \<noteq> None")
    case True
    then show ?thesis
      using Cons.IH [of "drop_inflight tk s"] Cons.prems rel_trans [OF rel_drop [of s tk]]
      by (auto simp: drop_frame)
  next
    case False
    then show ?thesis using Cons.IH [of s] Cons.prems by auto
  qed
qed (simp add: rel_refl)

lemma write_rel:
  assumes "WritePacket now pk cl op = (e, cl', op')"
  shows "rel cl cl'" "opOptions op' = opOptions op" "opHooks op' = opHooks op"
  using WritePacket_change [OF assms] rel_write rel_refl WritePacket_frame [OF assms] by auto

lemma Resend_rel:
  "Resend_loop now tks cl op = (e, cl', op') \<Longrightarrow>
     rel cl cl' \<and> opOptions op' = opOptions op \<and> opHooks op' = opHooks op"
proof (induction tks arbitrary: cl op)
  case (Cons tk tks)
  define tk' where "tk' = (if fhType (pkFixedHeader tk) = Publish
    then pkFixedHeader_update (fhDup_update (\<lambda>_. True)) tk else tk)"
  define op1 where "op1 = tell (\<lambda>hs s. Hooks_OnQosPublish hs s cl tk' (pkCreated tk') 0) op"
  obtain e1 cl1 op2 where w: "WritePacket now tk' cl op1 = (e1, cl1, op2)" by (metis prod_cases3)
  have o1: "opOptions op1 = opOptions op" "opHooks op1 = opHooks op" by (simp_all add: op1_def)
  note wr = write_rel [OF w, unfolded o1]
  define cl2 where "cl2 = upd_inflight (change_inflight (IDelete (pkPacketID tk'))) cl1"
  have d: "rel cl cl2" unfolding cl2_def by (rule rel_trans [OF wr(1) rel_inflight])
  have cl2: "upd_inflight (\<lambda>_. fst (Inflight_Delete (pkPacketID tk') (clInflight cl1))) cl1 = cl2"
    by (cases cl1) (simp add: cl2_def)
  define op3 where "op3 = (if snd (Inflight_Delete (pkPacketID tk') (clInflight cl1))
    then info_update (InflightCount_update (\<lambda>x. x - 1)) (tell (\<lambda>hs s. Hooks_OnQosComplete hs s cl2 tk') op2) else op2)"
  have o3: "opOptions op3 = opOptions op2" "opHooks op3 = opHooks op2" by (simp_all add: op3_def)
  have step: "Resend_loop now (tk # tks) cl op = (case (e1, cl1, op2) of
        (Some err, cl, op) \<Rightarrow> (Some err, cl, op)
      | (None, cl, op) \<Rightarrow> if fhType (pkFixedHeader tk') = Puback \<or> fhType (pkFixedHeader tk') = Pubcomp
          then Resend_loop now tks cl2 op3 else Resend_loop now tks cl op)"
    unfolding Resend_loop.simps Let_def tk'_def [symmetric] op1_def [symmetric] w split_beta fst_conv snd_conv
      cl2 op3_def ..
  show ?case
  proof (cases e1)
    case (Some err)
    then show ?thesis using Cons.prems wr unfolding step by simp
  next
    case None
    consider "Resend_loop now tks cl1 op2 = (e, cl', op')" | "Resend_loop now tks cl2 op3 = (e, cl', op')"
      using Cons.prems unfolding step None by (simp split: if_splits)
    then show ?thesis
    proof cases
      case 1
      from Cons.IH [OF this] wr show ?thesis using rel_trans [OF wr(1)] by auto
    next
      case 2
      from Cons.IH [OF 2] o3 wr show ?thesis using rel_trans [OF d] by auto
    qed
  qed
qed (simp add: rel_refl)

section \<open>Connections\<close>

lemma keeps_ReadFixedHeader: "keeps rel T s0 sv \<Longrightarrow> keeps rel T s0 (snd (on_client r ReadFixedHeader sv))"
  by (rule keeps_on_client) (auto dest!: ReadFixedHeader_frame intro: rel_input)

lemma keeps_ReadPacket: "keeps rel T s0 sv \<Longrightarrow> keeps rel T s0 (snd (on_client r (ReadPacket fh) sv))"
  by (rule keeps_on_client) (auto dest!: ReadPacket_frame intro: rel_input)

lemma ResendInflight_rel:
  "ResendInflightMessages now cl op = (e, cl', op') \<Longrightarrow>
     rel cl cl' \<and> opOptions op' = opOptions op \<and> opHooks op' = opHooks op"
  unfolding ResendInflightMessages_def using rel_refl by (auto split: if_splits dest: Resend_rel)

lemma keeps_Resend: "keeps rel T s0 sv \<Longrightarrow> keeps rel T s0 (snd (on_client r (ResendInflightMessages now) sv))"
  by (rule keeps_on_client) (simp_all only: ResendInflight_rel)

lemma keeps_clear: "keeps rel T s0 sv \<Longrightarrow> keeps rel T s0 (clear_inflights r sv)"
proof -
  assume k: "keeps rel T s0 sv"
  obtain cl op where e: "ClearInflights (svHeap sv r) (svOps sv) = (cl, op)" by (metis prod.exhaust)
  show ?thesis using ClearInflights_rel [OF e] by (auto simp: clear_inflights_def e intro!: keeps_both k)
qed

lemma keeps_read_connection: "keeps rel T s0 sv \<Longrightarrow> keeps rel T s0 (snd (readConnectionPacket r sv))"
  using keeps_ReadFixedHeader [of T s0 sv r] keeps_ReadPacket [of T s0 "snd (on_client r ReadFixedHeader sv)" r]
  by (auto simp: readConnectionPacket_def split: sum.splits prod.splits)

lemma rel_cap: "rel cl (cap_session_expiry c cl)"
  by (simp add: cap_session_expiry_def rel_session rel_refl)

lemma keeps_SendConnack: "keeps rel T s0 sv \<Longrightarrow> keeps rel T s0 (snd (SendConnack now r reason b given sv))"
  unfolding SendConnack_def Let_def by (intro keeps_branch keeps_write keeps_upd rel_cap)

lemma keeps_refuse: "keeps rel T s0 sv \<Longrightarrow> keeps rel T s0 (snd (refuse now r code sv))"
  using keeps_SendConnack [of T s0 sv now r code False None] by (auto simp: refuse_def split: prod.splits option.splits)

lemma keeps_mark: "keeps rel T s0 sv \<Longrightarrow> keeps rel T s0 (mark_taken_over r sv)"
  unfolding mark_taken_over_def by (intro keeps_upd rel_taken)

lemma keeps_inherit_inflight:
  assumes "all_good s0" "keeps rel T s0 sv"
  shows "keeps rel T s0 (inherit_inflight existing r sv)"
proof -
  have g: "good (svHeap sv existing)" using good_keeps [OF assms] by (simp add: all_good_def)
  show ?thesis
    unfolding inherit_inflight_def Let_def
    using rel_clone [OF g] rel_inherit [OF g, unfolded inherited_def] assms(2)
    by (auto intro!: keeps_upd)
qed

lemma keeps_inherit_subscription: "keeps rel T s0 sv \<Longrightarrow> keeps rel T s0 (inherit_subscription r x sv)"
  unfolding inherit_subscription_def Let_def split_beta
  by (intro keeps_upd rel_subscribe keeps_if keeps_basic)

lemma keeps_inherit:
  assumes "all_good s0" "keeps rel T s0 sv"
  shows "keeps rel T s0 (snd (inheritClientSession now pk r sv))"
  unfolding inheritClientSession_def Let_def split_beta
  by (intro keeps_branch keeps_mark keeps_clear keeps_UnsubscribeClient keeps_fold keeps_inherit_subscription
      keeps_inherit_inflight keeps_Disconnect keeps_basic assms)

lemma keeps_open:
  assumes "all_good s0" "enterable T s0 r" "keeps rel T s0 sv"
  shows "keeps rel T s0 (snd (open_session now pk r sv))"
  unfolding open_session_def Let_def split_beta
  by (intro keeps_branch keeps_basic keeps_enter keeps_Resend keeps_SendConnack keeps_inherit assms)

lemma keeps_admit:
  assumes "all_good s0" "enterable T s0 r" "keeps rel T s0 sv"
  shows "keeps rel T s0 (snd (admit now pk r sv))"
  unfolding admit_def Let_def split_beta
  by (intro keeps_branch keeps_basic keeps_refuse keeps_open keeps_SendConnack assms)

lemma keeps_Read_turn: "keeps rel T s0 sv \<Longrightarrow> keeps rel T s0 (snd (Read_turn now r sv))"
  unfolding Read_turn_def split_beta
  by (intro keeps_branch keeps_receivePacket keeps_ReadPacket keeps_ReadFixedHeader)

lemma keeps_Write_turn:
  assumes "keeps rel T s0 sv"
  shows "keeps rel T s0 (Write_turn now r sv)"
proof (cases "Closed (svHeap sv r) \<or> csOutbound (clState (svHeap sv r)) = []")
  case True
  then have "WriteLoop_turn now (svHeap sv r) (svOps sv) = (svHeap sv r, svOps sv)"
    by (auto simp: WriteLoop_turn_def)
  then show ?thesis using assms by (simp add: Write_turn_def)
next
  case False
  then obtain pk q where q: "csOutbound (clState (svHeap sv r)) = pk # q" by (auto simp: neq_Nil_conv)
  obtain e cl op where w: "WritePacket now pk (upd_state (csOutbound_update (\<lambda>_. q)) (svHeap sv r)) (svOps sv) = (e, cl, op)"
    by (metis prod_cases3)
  have t: "WriteLoop_turn now (svHeap sv r) (svOps sv) = (upd_state (csOutboundQty_update (\<lambda>n. n - 1)) cl, op)"
    using False q w by (simp add: WriteLoop_turn_def)
  have "rel (svHeap sv r) (upd_state (csOutboundQty_update (\<lambda>n. n - 1)) cl)"
    using False by (intro rel_trans [OF rel_trans [OF rel_dequeue write_rel(1) [OF w]] rel_queued]) simp
  then show ?thesis
    unfolding Write_turn_def t Let_def split by (intro keeps_both assms write_rel [OF w])
qed

lemma keeps_leave: "keeps rel T s0 sv \<Longrightarrow> keeps rel T s0 (leave now b r sv)"
  unfolding leave_def Let_def by (intro keeps_if keeps_upd rel_stop keeps_basic)

lemma keeps_end: "removable T \<Longrightarrow> keeps rel T s0 sv \<Longrightarrow> keeps rel T s0 (end_session now r err sv)"
  unfolding end_session_def Let_def
  by (intro keeps_leave keeps_branch keeps_remove keeps_UnsubscribeClient keeps_clear keeps_basic keeps_upd
      rel_stop rel_will keeps_sendLWT)

section \<open>Housekeeping\<close>

lemma keeps_expire_client: "removable T \<Longrightarrow> keeps rel T s0 sv \<Longrightarrow> keeps rel T s0 (expire_client dt x sv)"
  unfolding expire_client_def Let_def split_beta by (intro keeps_if keeps_remove keeps_basic)

lemma keeps_clearExpiredClients: "removable T \<Longrightarrow> keeps rel T s0 sv \<Longrightarrow> keeps rel T s0 (clearExpiredClients dt sv)"
  unfolding clearExpiredClients_def by (intro keeps_fold keeps_expire_client)

lemma keeps_clearExpiredRetained: "keeps rel T s0 sv \<Longrightarrow> keeps rel T s0 (clearExpiredRetainedMessages now sv)"
  unfolding clearExpiredRetainedMessages_def
  by (intro keeps_fold) (auto simp: expire_retained_def split_beta intro!: keeps_notify keeps_forget)

lemma keeps_expire_inflights: "keeps rel T s0 sv \<Longrightarrow> keeps rel T s0 (expire_inflights now x sv)"
proof -
  assume k: "keeps rel T s0 sv"
  obtain cl op d where e: "ClearExpiredInflights now (MaximumMessageExpiryInterval (svCaps sv))
      (svHeap sv (snd x)) (svOps sv) = ((cl, op), d)" by (metis prod.exhaust)
  have "keeps rel T s0 (sv\<lparr>svHeap := (svHeap sv)(snd x := cl), svOps := op\<rparr>)"
    using ClearExpired_rel [OF e [unfolded ClearExpiredInflights_def]] by (intro keeps_both k) simp_all
  then show ?thesis
    by (auto simp: expire_inflights_def split_beta e Let_def intro!: keeps_fold keeps_notify)
qed

lemma keeps_clearExpiredInflights: "keeps rel T s0 sv \<Longrightarrow> keeps rel T s0 (clearExpiredInflights now sv)"
  unfolding clearExpiredInflights_def by (intro keeps_fold keeps_expire_inflights)

lemma keeps_send_delayed: "keeps rel T s0 sv \<Longrightarrow> keeps rel T s0 (send_delayed now dt x sv)"
  unfolding send_delayed_def Let_def split_beta
  by (intro keeps_branch keeps_basic keeps_upd rel_will keeps_retainMessage keeps_publishToSubscribers)

lemma keeps_sendDelayed: "keeps rel T s0 sv \<Longrightarrow> keeps rel T s0 (sendDelayedLWT dt sv)"
  unfolding sendDelayedLWT_def by (intro keeps_fold keeps_send_delayed)

lemma keeps_publishSysTopics: "keeps rel T s0 sv \<Longrightarrow> keeps rel T s0 (publishSysTopics mem th now sv)"
  unfolding publishSysTopics_def Let_def
  by (intro keeps_basic keeps_fold) (auto simp: publish_sys_def Let_def split_beta
      intro!: keeps_publishToSubscribers keeps_index keeps_tally)

lemma keeps_tick: "removable T \<Longrightarrow> keeps rel T s0 sv \<Longrightarrow> keeps rel T s0 (eventLoop_turn now t sv)"
  unfolding eventLoop_turn_def
  by (auto split: tick.splits intro!: keeps_publishSysTopics keeps_clearExpiredClients keeps_clearExpiredRetained
      keeps_sendDelayed keeps_clearExpiredInflights)

lemma keeps_Close: "keeps rel T s0 sv \<Longrightarrow> keeps rel T s0 (snd (Close now ids sv))"
  unfolding Close_def closeListenerClients_def Let_def split_beta
  by (intro keeps_branch keeps_basic keeps_fold keeps_Disconnect)

end

end
