(* ===== verification/Mqtt_ServerRun.thy ===== *)
theory Mqtt_ServerRun
  imports Mqtt_SessionFrame
begin

text \<open>
  The server as a state machine: the steps of its goroutines, and what holds in every state that
  they reach.  A connection takes three kinds of steps (it is established, it reads one packet, it
  ends) and one for the goroutine that writes; between them anything can happen.
\<close>

section \<open>Quotas\<close>

lemma inflight_ok_change: "inflight_ok i \<Longrightarrow> inflight_ok (change_inflight c i)"
  using inflight_ok_step [of i "OpSet m" for m] inflight_ok_step [of i "OpDelete k" for k]
    inflight_ok_step [of i OpTakeReceive] inflight_ok_step [of i OpReturnReceive]
    inflight_ok_step [of i OpTakeSend] inflight_ok_step [of i OpReturnSend]
  by (cases c) simp_all

lemma inflight_ok_inherited:
  "inflight_ok i \<Longrightarrow> inflight_ok (Inflight_Clone i)"
  "inflight_ok i \<Longrightarrow> 0 \<le> rm \<Longrightarrow> 0 \<le> sm \<Longrightarrow> inflight_ok (inherited rm sm i)"
  by (simp_all add: inflight_ok_def inherited_def inflight_defs NewInflights_def)

text \<open>A client in order: quotas in bounds, every message and every subscription under its own key.\<close>

definition subscriptions_ok :: "subscriptions \<Rightarrow> bool" where
  "subscriptions_ok m \<longleftrightarrow> map_ok m \<and> list_all (\<lambda>(f, s). sFilter s = f) m"

lemma subscriptions_ok_changes [simp]:
  "subscriptions_ok m \<Longrightarrow> subscriptions_ok (Subscriptions_Add (sFilter s) s m)"
  "subscriptions_ok m \<Longrightarrow> subscriptions_ok (Subscriptions_Delete k m)"
  by (simp_all add: subscriptions_ok_def Subscriptions_defs list_all_update list_all_delete)

lemma Closed_upd_net [simp]: "Closed (upd_net f cl) \<longleftrightarrow> Closed cl"
  by (simp add: Closed_def)

definition client_ok :: "client \<Rightarrow> bool" where
  "client_ok cl \<longleftrightarrow> inflight_ok (clInflight cl) \<and> subscriptions_ok (csSubscriptions (clState cl))
     \<and> (csEnded (clState cl) \<longrightarrow> Closed cl)"

interpretation quotas: session_relation "\<lambda>cl cl'. clID cl' = clID cl \<and> (client_ok cl \<longrightarrow> client_ok cl')" client_ok
  by unfold_locales
     (auto simp: client_ok_def Stop_def Closed_def inflight_ok_change inflight_ok_inherited dest: write_bytes_frame)

section \<open>Input\<close>

text \<open>No handler reads from a connection, or changes what it is.\<close>

interpretation input: client_relation "\<lambda>cl cl'. clID cl' = clID cl \<and> cnIn (clNet cl') = cnIn (clNet cl)
    \<and> cnInline (clNet cl') = cnInline (clNet cl) \<and> cnConn (clNet cl') = cnConn (clNet cl)"
  by unfold_locales (auto simp: Stop_def dest: write_bytes_frame)

section \<open>Silence\<close>

text \<open>
  A client that was stopped stays stopped for the same reason and since the same time, and nothing
  is written or queued for it; a session that was taken over is not given back.
\<close>

definition silent_since :: "client \<Rightarrow> client \<Rightarrow> bool" where
  "silent_since cl cl' \<longleftrightarrow> clID cl' = clID cl \<and> (IsTakenOver cl \<longrightarrow> IsTakenOver cl')
     \<and> (csEnded (clState cl) \<longrightarrow> csEnded (clState cl') \<and> StopCause cl' = StopCause cl \<and> StopTime cl' = StopTime cl)
     \<and> (Closed cl \<longrightarrow> Closed cl' \<and> cnOut (clNet cl') = cnOut (clNet cl)
         \<and> cnOutbuf (clNet cl') = cnOutbuf (clNet cl) \<and> csOutbound (clState cl') = csOutbound (clState cl))"

interpretation silence: session_relation silent_since "\<lambda>_. True"
  by unfold_locales
     (auto simp: silent_since_def Stop_def Closed_def IsTakenOver_def StopCause_def StopTime_def dest: write_bytes_frame)

section \<open>Steps\<close>

inductive server_step :: "'s server \<Rightarrow> 's server \<Rightarrow> bool" where
  Accepted: "NewClient (Some conn) listener [] False sv = (r, sv1) \<Longrightarrow>
    server_step sv (snd (establish now fresh listener r sv1))"
| Reading: "server_step sv (snd (Read_turn now r sv))"
| Writing: "server_step sv (Write_turn now r sv)"
| Ended: "server_step sv (end_session now r err sv)"
| Left: "server_step sv (leave now counted r sv)"
| Ticked: "server_step sv (eventLoop_turn now t sv)"
| Published: "server_step sv (InjectPublish now origin pk sv)"
| Injected: "server_step sv (snd (InjectPacket now r pk sv))"
| EmbeddedPublish: "server_step sv (snd (Server_Publish now topic payload retain qos sv))"
| EmbeddedSubscribe: "server_step sv (snd (Server_Subscribe flt k handler sv))"
| EmbeddedUnsubscribe: "server_step sv (snd (Server_Unsubscribe flt k sv))"
| HookAdded: "server_step sv (snd (AddHook h setOpts init sv))"
| Served: "server_step sv (snd (Serve mem threads now configs sv))"
| Stopped: "server_step sv (snd (Close now listeners sv))"

inductive reachable :: "'s server \<Rightarrow> bool" where
  Start: "reachable (New now given opts s)"
| Step: "reachable sv \<Longrightarrow> server_step sv sv' \<Longrightarrow> reachable sv'"

text \<open>
  Every client has its quotas in bounds, the table names clients that exist by their own identifier,
  and the index is what its operations made of the empty one.
\<close>

definition table_ok :: "'s server \<Rightarrow> cref clients \<Rightarrow> bool" where
  "table_ok sv c \<longleftrightarrow> map_ok c \<and> (\<forall>name r. Clients_Get c name = Some r \<longrightarrow> clID (svHeap sv r) = name \<and> r < svNext sv)"

lemma table_okD:
  assumes "table_ok sv c" "Clients_Get c name = Some r"
  shows "clID (svHeap sv r) = name" "r < svNext sv"
  using assms unfolding table_ok_def by blast+

definition server_ok :: "'s server \<Rightarrow> bool" where
  "server_ok sv \<longleftrightarrow> quotas.all_good sv \<and> table_ok sv (svClients sv) \<and> (\<exists>ops. svTopics sv = index_run ops)"

abbreviation keeps_quotas :: "(cref clients \<Rightarrow> bool) \<Rightarrow> 's server \<Rightarrow> 's server \<Rightarrow> bool" where
  "keeps_quotas \<equiv> keeps (\<lambda>cl cl'. clID cl' = clID cl \<and> (client_ok cl \<longrightarrow> client_ok cl'))"

lemma table_removable: "removable (table_ok sv)"
  by (auto simp: removable_def table_ok_def Clients_defs)

lemma table_enterable: "r < svNext sv \<Longrightarrow> enterable (table_ok sv) sv r"
  by (auto simp: enterable_def table_ok_def Clients_defs)

lemma server_ok_keeps:
  assumes "server_ok s0" "keeps_quotas (table_ok s0) s0 sv"
  shows "server_ok sv"
proof -
  have g: "quotas.all_good sv" using assms quotas.good_keeps by (auto simp: server_ok_def)
  have h: "clID (svHeap sv r) = clID (svHeap s0 r)" for r using keepsD [OF assms(2), of r] by simp
  have t: "table_ok sv (svClients sv)"
    using keeps_table [OF assms(2)] h by (simp add: table_ok_def)
  obtain o1 o2 where "svTopics s0 = index_run o1" "svTopics sv = fold index_step o2 (svTopics s0)"
    using assms(1) keeps_topics [OF assms(2)] unfolding server_ok_def by blast
  then have "svTopics sv = index_run (o1 @ o2)" by (simp add: index_run_def)
  with g t show ?thesis unfolding server_ok_def by blast
qed

lemma keeps_here: "server_ok sv \<Longrightarrow> keeps_quotas (table_ok sv) sv sv"
  by (simp add: quotas.keeps_refl server_ok_def)

text \<open>New clients.\<close>

lemma quotas_new: "client_ok (newClient conn m)"
  by (simp add: client_ok_def newClient_def subscriptions_ok_def NewSubscriptions_def)

lemma NewClient_fields:
  assumes "NewClient conn listener name inline sv = (r, sv')"
  shows "r = svNext sv" "svNext sv' = svNext sv + 1" "svClients sv' = svClients sv" "svTopics sv' = svTopics sv"
    "svOps sv' = svOps sv" "svDelivered sv' = svDelivered sv"
    "q \<noteq> svNext sv \<Longrightarrow> svHeap sv' q = svHeap sv q" "client_ok (svHeap sv' r)" "clID (svHeap sv' r) = name"
  using assms quotas_new [of conn "TopicAliasMaximum (svCaps sv)"]
  by (auto simp: NewClient_def Let_def set_client_def client_ok_def inflight_ok_def ResetReceiveQuota_def newClient_def)

lemma server_ok_NewClient:
  assumes "server_ok sv" "NewClient conn listener name inline sv = (r, sv')"
  shows "server_ok sv'" "r < svNext sv'"
proof -
  note f = NewClient_fields [OF assms(2)]
  have "quotas.all_good sv'"
    unfolding quotas.all_good_def using assms(1) f(1,7,8)
    by (metis quotas.all_good_def server_ok_def)
  moreover have "table_ok sv' (svClients sv')"
    using assms(1) f(7) by (fastforce simp: server_ok_def table_ok_def f(2,3))
  ultimately show "server_ok sv'" using assms(1) by (simp add: server_ok_def f(4))
  show "r < svNext sv'" by (simp add: f(1,2))
qed

text \<open>A client that is not in the table yet may change its name.\<close>

lemma server_ok_fresh:
  assumes "server_ok sv" "client_ok (f (svHeap sv r))" "\<And>name. Clients_Get (svClients sv) name \<noteq> Some r"
  shows "server_ok (upd_client r f sv)"
  using assms by (auto simp: server_ok_def quotas.all_good_def table_ok_def store_defs)

lemma quotas_Parse: "client_ok cl \<Longrightarrow> client_ok (ParseConnect op fresh listener pk cl)"
  by (simp add: client_ok_def Closed_def ParseConnect_def Let_def inflight_ok_def inflight_defs)

lemma server_ok_establish:
  assumes "server_ok sv" "r < svNext sv" "\<And>name. Clients_Get (svClients sv) name \<noteq> Some r"
  shows "server_ok (snd (establish now fresh listener r sv))"
proof -
  obtain res sv1 where e: "readConnectionPacket r sv = (res, sv1)" by (metis prod.exhaust)
  let ?T = "\<lambda>c. table_ok sv c \<and> c = svClients sv"
  have k: "keeps_quotas ?T sv sv1"
    using quotas.keeps_read_connection [of ?T sv sv r] assms(1) e
    by (simp add: quotas.keeps_refl server_ok_def)
  have s1: "server_ok sv1" by (rule server_ok_keeps [OF assms(1) keeps_mono [OF k]]) simp
  have c1: "svClients sv1 = svClients sv" "svNext sv1 = svNext sv" using keeps_table [OF k] by simp_all
  show ?thesis
  proof (cases res)
    case (Inl err)
    then show ?thesis using s1 by (simp add: establish_def e)
  next
    case (Inr pk)
    define sv2 where "sv2 = upd_client r (ParseConnect (svOps sv1) fresh listener pk) sv1"
    have s2: "server_ok sv2"
      unfolding sv2_def using s1 assms(3) c1
      by (intro server_ok_fresh quotas_Parse) (auto simp: server_ok_def quotas.all_good_def)
    have "keeps_quotas (table_ok sv2) sv2 (snd (admit now pk r sv2))"
      using s2 assms(2) c1(2)
      by (intro quotas.keeps_admit table_enterable keeps_here)
         (simp_all add: server_ok_def, simp add: sv2_def store_defs)
    then have "server_ok (snd (admit now pk r sv2))" by (rule server_ok_keeps [OF s2])
    then show ?thesis by (simp add: establish_def e Inr sv2_def)
  qed
qed

section \<open>Restoring\<close>

lemma server_ok_basic:
  assumes "server_ok sv"
  shows "server_ok (tally f sv)" "server_ok (notify g sv)" "server_ok (upd_ops h sv)"
    "server_ok (sv\<lparr>svTopics := index_step op (svTopics sv)\<rparr>)"
proof -
  show "server_ok (tally f sv)" "server_ok (notify g sv)" "server_ok (upd_ops h sv)"
    using assms by (simp_all add: server_ok_def quotas.all_good_def table_ok_def store_defs)
  obtain ops where "svTopics sv = index_run ops" using assms unfolding server_ok_def by blast
  then have "index_step op (svTopics sv) = index_run (ops @ [op])" by (simp add: index_run_def)
  then show "server_ok (sv\<lparr>svTopics := index_step op (svTopics sv)\<rparr>)"
    using assms by (auto simp: server_ok_def quotas.all_good_def table_ok_def)
qed

lemma server_ok_fold: "(\<And>x sv. server_ok sv \<Longrightarrow> server_ok (f x sv)) \<Longrightarrow> server_ok sv \<Longrightarrow> server_ok (fold f xs sv)"
  by (induction xs arbitrary: sv) simp_all

lemma server_ok_load_client:
  assumes "server_ok sv"
  shows "server_ok (load_client now c sv)"
proof -
  obtain r sv1 where e: "NewClient None (tcListener c) (tcID c) False sv = (r, sv1)" by (metis prod.exhaust)
  note s1 = server_ok_NewClient [OF assms e]
  have free: "Clients_Get (svClients sv1) name \<noteq> Some r" for name
    using assms NewClient_fields(1,3) [OF e] by (force simp: server_ok_def table_ok_def)
  define sv2 where "sv2 = upd_client r (clProperties_update (\<lambda>p. p\<lparr>cpUsername := tcUsername c, cpClean := tcClean c,
    cpProtocolVersion := tcProtocolVersion c, cpProps := restored_properties (tcProperties c), cpWill := tcWill c\<rparr>)) sv1"
  have s2: "server_ok sv2"
    unfolding sv2_def using s1 free
    by (intro server_ok_fresh) (auto simp: server_ok_def quotas.all_good_def client_ok_def Closed_def)
  have n: "r < svNext sv2" using s1(2) by (simp add: sv2_def store_defs)
  have "keeps_quotas (table_ok sv2) sv2 (load_client now c sv)"
    unfolding load_client_def Let_def e split sv2_def [symmetric]
    by (intro keeps_if quotas.keeps_UnsubscribeClient quotas.keeps_clear quotas.keeps_enter table_enterable n
        keeps_notify quotas.keeps_upd quotas.rel_stop keeps_here s2)
  then show ?thesis by (rule server_ok_keeps [OF s2])
qed

lemma restored_filter: "sFilter (restored_subscription x) = tbFilter x"
  by (simp add: restored_subscription_def)

lemma server_ok_load:
  assumes "server_ok sv"
  shows "server_ok (loadServerInfo i sv)" "server_ok (loadSubscriptions subs sv)" "server_ok (loadClients now cls sv)"
    "server_ok (loadInflight ms sv)" "server_ok (loadRetained ms sv)"
proof -
  show "server_ok (loadServerInfo i sv)"
    using assms by (simp add: loadServerInfo_def Let_def server_ok_basic)
  show "server_ok (loadClients now cls sv)"
    unfolding loadClients_def by (intro server_ok_fold server_ok_load_client assms)
  have sub: "server_ok (load_subscription x sv)" if s: "server_ok sv" for x and sv :: "'a server"
  proof -
    note restored_rel = quotas.rel_subscribe [where sub = "restored_subscription x", unfolded restored_filter]
    have "keeps_quotas (table_ok sv) sv (load_subscription x sv)"
      unfolding load_subscription_def Let_def split_beta
      by (intro keeps_if keeps_option keeps_index quotas.keeps_upd restored_rel keeps_here s)
    then show ?thesis by (rule server_ok_keeps [OF s])
  qed
  show "server_ok (loadSubscriptions subs sv)"
    unfolding loadSubscriptions_def by (intro server_ok_fold sub assms)
  have inf: "server_ok (load_inflight x sv)" if s: "server_ok sv" for x and sv :: "'a server"
  proof -
    have "keeps_quotas (table_ok sv) sv (load_inflight x sv)"
      unfolding load_inflight_def by (intro keeps_option quotas.keeps_set_inflight keeps_here s)
    then show ?thesis by (rule server_ok_keeps [OF s])
  qed
  show "server_ok (loadInflight ms sv)"
    unfolding loadInflight_def by (intro server_ok_fold inf assms)
  have ret: "server_ok (sv\<lparr>svTopics := fst (TopicsIndex_RetainMessage pk (svTopics sv))\<rparr>)"
    if s: "server_ok sv" for pk and sv :: "'a server"
    using server_ok_basic(4) [OF s, of "OpRetain pk"] by simp
  show "server_ok (loadRetained ms sv)"
    unfolding loadRetained_def by (intro server_ok_fold ret assms)
qed

lemma server_ok_restore:
  assumes "\<And>v sv. server_ok sv \<Longrightarrow> server_ok (load v sv)" "server_ok (snd x)"
  shows "server_ok (snd (restore ev what stored load x))"
  using assms by (auto simp: restore_def split: prod.splits option.splits sum.splits)

lemma server_ok_readStore: "server_ok sv \<Longrightarrow> server_ok (snd (readStore now sv))"
  unfolding readStore_def by (intro server_ok_restore server_ok_load) simp_all

lemma server_ok_AddHook: "server_ok sv \<Longrightarrow> server_ok (snd (AddHook h setOpts init sv))"
  by (auto simp: AddHook_def server_ok_basic split: prod.splits)

lemma server_ok_AddHooks: "server_ok sv \<Longrightarrow> server_ok (snd (AddHooksFromConfig cs sv))"
proof (induction cs sv rule: AddHooksFromConfig.induct)
  case (2 h setOpts init cs sv)
  obtain e sv1 where a: "AddHook h setOpts init sv = (e, sv1)" by (metis prod.exhaust)
  then have "server_ok sv1" using server_ok_AddHook [OF "2.prems", of h setOpts init] by simp
  then show ?case using "2.IH" a by (auto split: option.splits)
qed simp

lemma server_ok_Serve: "server_ok sv \<Longrightarrow> server_ok (snd (Serve mem threads now configs sv))"
proof -
  assume ok: "server_ok sv"
  obtain e1 sv1 where a: "AddHooksFromConfig configs sv = (e1, sv1)" by (metis prod.exhaust)
  have s1: "server_ok sv1" using server_ok_AddHooks [OF ok, of configs] a by simp
  obtain e2 sv2 where b: "(if Hooks_Provides (opHooks (svOps sv1)) [StoredClients_ev, StoredInflightMessages_ev,
      StoredRetainedMessages_ev, StoredSubscriptions_ev, StoredSysInfo_ev] then readStore now sv1 else (None, sv1)) = (e2, sv2)"
    by (metis prod.exhaust)
  have s2: "server_ok sv2" using server_ok_readStore [OF s1, of now] s1 b by (auto split: if_splits)
  have "server_ok (publishSysTopics mem threads now sv2)"
    by (rule server_ok_keeps [OF s2 quotas.keeps_publishSysTopics [OF keeps_here [OF s2]]])
  then show ?thesis
    using s1 s2 by (cases e1; cases e2) (simp_all add: Serve_def a b server_ok_basic)
qed

section \<open>The invariant\<close>

lemma server_ok_New: "server_ok (New now given opts s)"
proof -
  have base: "server_ok \<lparr>svOps = op, svTopics = NewTopicsIndex, svClients = NewClients, svHeap = (\<lambda>_. newClient None 0),
      svNext = 0, svWillDelayed = w, svInlineClient = None, svDelivered = d, svDone = b\<rparr>" for op w d b
    by (auto simp: server_ok_def quotas.all_good_def quotas_new table_ok_def Clients_defs index_run_def intro!: exI [of _ "[]"])
  show ?thesis
  proof (cases "oInlineClient (ensureDefaults given opts)")
    case False
    then show ?thesis using base by (simp add: New_def Let_def)
  next
    case True
    define sv where "sv = \<lparr>svOps = \<lparr>opOptions = ensureDefaults given opts,
        opInfo = no_info\<lparr>Version := lit ''2.7.9'', Started := now\<rparr>, opHooks = [], opState = s\<rparr>,
      svTopics = NewTopicsIndex, svClients = NewClients, svHeap = (\<lambda>_. newClient None 0),
      svNext = 0, svWillDelayed = NewPackets, svInlineClient = None, svDelivered = [], svDone = False\<rparr>"
    obtain r sv1 where e: "NewClient None LocalListener InlineClientId True sv = (r, sv1)" by (metis prod.exhaust)
    have "server_ok sv" unfolding sv_def by (rule base)
    note s1 = server_ok_NewClient [OF this e]
    have n: "New now given opts s = sv1\<lparr>svInlineClient := Some r, svClients := Clients_Add (clID (svHeap sv1 r), r) (svClients sv1)\<rparr>"
      using True e by (simp add: New_def Let_def sv_def del: lit_chars)
    have "table_ok sv1 (Clients_Add (clID (svHeap sv1 r), r) (svClients sv1))"
      using s1(1) table_enterable [OF s1(2)] by (simp add: server_ok_def enterable_def)
    then have "server_ok (sv1\<lparr>svInlineClient := Some r, svClients := Clients_Add (clID (svHeap sv1 r), r) (svClients sv1)\<rparr>)"
      using s1(1) by (simp add: server_ok_def quotas.all_good_def table_ok_def)
    then show ?thesis unfolding n .
  qed
qed

lemma server_ok_step: "server_step sv sv' \<Longrightarrow> server_ok sv \<Longrightarrow> server_ok sv'"
proof (induction rule: server_step.induct)
  case (Accepted conn listener sv r sv1 now fresh)
  note s1 = server_ok_NewClient [OF Accepted(2) Accepted(1)]
  have "Clients_Get (svClients sv1) name \<noteq> Some r" for name
    using Accepted(2) NewClient_fields(1,3) [OF Accepted(1)] by (force simp: server_ok_def table_ok_def)
  then show ?case by (rule server_ok_establish [OF s1])
next
  case (HookAdded sv h setOpts init)
  then show ?case by (rule server_ok_AddHook)
next
  case (Served sv mem threads now configs)
  then show ?case by (rule server_ok_Serve)
qed (rule server_ok_keeps, assumption, intro keeps_here table_removable quotas.keeps_Read_turn quotas.keeps_Write_turn
  quotas.keeps_end quotas.keeps_leave quotas.keeps_tick quotas.keeps_InjectPublish quotas.keeps_InjectPacket
  quotas.keeps_embedded quotas.keeps_Close, assumption)+

lemma reachable_ok: "reachable sv \<Longrightarrow> server_ok sv"
  by (induction rule: reachable.induct) (simp_all add: server_ok_New server_ok_step)

section \<open>Clients over time\<close>

definition evolves :: "'s server \<Rightarrow> 's server \<Rightarrow> bool" where
  "evolves sv sv' \<longleftrightarrow> svNext sv \<le> svNext sv' \<and> (\<forall>r < svNext sv. silent_since (svHeap sv r) (svHeap sv' r))"

lemma evolves_refl [simp]: "evolves sv sv"
  by (simp add: evolves_def silence.rel_refl)

lemma evolves_trans: "evolves a b \<Longrightarrow> evolves b c \<Longrightarrow> evolves a c"
  unfolding evolves_def by (meson order_less_le_trans order_trans silence.rel_trans)

lemma evolves_keeps: "keeps silent_since T sv sv' \<Longrightarrow> evolves sv sv'"
  by (simp add: evolves_def keeps_def)

lemma evolves_NewClient: "NewClient conn listener name inline sv = (r, sv') \<Longrightarrow> evolves sv sv'"
  using NewClient_fields(2,7) by (fastforce simp: evolves_def silence.rel_refl)

lemma evolves_upd: "svNext sv \<le> r \<Longrightarrow> evolves sv sv' \<Longrightarrow> evolves sv (upd_client r f sv')"
  by (simp add: evolves_def store_defs)

lemma silence_good [simp]: "silence.all_good sv"
  by (simp add: silence.all_good_def)

abbreviation any_table :: "cref clients \<Rightarrow> bool" where
  "any_table \<equiv> \<lambda>_. True"

lemma any_ok [simp]: "removable any_table" "enterable any_table sv r"
  by (simp_all add: removable_def enterable_def)

lemma evolves_fold: "(\<And>x sv. evolves sv (f x sv)) \<Longrightarrow> evolves sv (fold f xs sv)"
  by (induction xs arbitrary: sv) (auto intro: evolves_trans)

lemma evolves_establish: "svNext sv \<le> r \<Longrightarrow> evolves sv sv1 \<Longrightarrow> evolves sv (snd (establish now fresh listener r sv1))"
proof -
  assume r: "svNext sv \<le> r" and e: "evolves sv sv1"
  obtain res sv2 where c: "readConnectionPacket r sv1 = (res, sv2)" by (metis prod.exhaust)
  have "keeps silent_since any_table sv1 (snd (readConnectionPacket r sv1))"
    by (intro silence.keeps_read_connection silence.keeps_refl) simp
  then have e2: "evolves sv sv2" using evolves_trans [OF e evolves_keeps] c by simp
  have "keeps silent_since any_table sv3 (snd (admit now pk r sv3))" for pk sv3
    by (intro silence.keeps_admit silence.keeps_refl) simp_all
  then have "evolves sv (snd (admit now pk r (upd_client r f sv2)))" for pk f
    using evolves_trans [OF evolves_upd [OF r e2] evolves_keeps] by blast
  with e2 show ?thesis by (simp add: establish_def c split: sum.split)
qed

lemma evolves_load_client: "evolves sv (load_client now c sv)"
proof -
  obtain r sv1 where e: "NewClient None (tcListener c) (tcID c) False sv = (r, sv1)" by (metis prod.exhaust)
  define sv2 where "sv2 = upd_client r (clProperties_update (\<lambda>p. p\<lparr>cpUsername := tcUsername c, cpClean := tcClean c,
    cpProtocolVersion := tcProtocolVersion c, cpProps := restored_properties (tcProperties c), cpWill := tcWill c\<rparr>)) sv1"
  have 1: "evolves sv sv2"
    unfolding sv2_def using evolves_NewClient [OF e] NewClient_fields(1) [OF e] by (simp add: evolves_upd)
  have "keeps silent_since any_table sv2 (load_client now c sv)"
    unfolding load_client_def Let_def e split sv2_def [symmetric]
    by (intro keeps_if silence.keeps_UnsubscribeClient silence.keeps_clear silence.keeps_enter
        keeps_notify silence.keeps_upd silence.rel_stop silence.keeps_refl) simp_all
  then show ?thesis using evolves_trans [OF 1 evolves_keeps] by blast
qed

lemma evolves_load:
  "evolves sv (loadServerInfo i sv)" "evolves sv (loadSubscriptions subs sv)" "evolves sv (loadClients now cls sv)"
  "evolves sv (loadInflight ms sv)" "evolves sv (loadRetained ms sv)"
proof -
  have "keeps silent_since any_table sv (loadServerInfo i sv)"
    unfolding loadServerInfo_def Let_def by (intro keeps_if keeps_tally silence.keeps_refl) simp_all
  then show "evolves sv (loadServerInfo i sv)" by (rule evolves_keeps)
  have "keeps silent_since any_table sv (loadSubscriptions subs sv)"
    unfolding loadSubscriptions_def load_subscription_def Let_def split_beta
    by (intro keeps_fold keeps_if keeps_option keeps_index silence.keeps_upd silence.rel_subscribe
        [where sub = "restored_subscription x" for x, unfolded restored_filter] silence.keeps_refl) simp_all
  then show "evolves sv (loadSubscriptions subs sv)" by (rule evolves_keeps)
  show "evolves sv (loadClients now cls sv)"
    unfolding loadClients_def by (intro evolves_fold evolves_load_client)
  have "keeps silent_since any_table sv (loadInflight ms sv)"
    unfolding loadInflight_def load_inflight_def
    by (intro keeps_fold keeps_option silence.keeps_set_inflight silence.keeps_refl) simp_all
  then show "evolves sv (loadInflight ms sv)" by (rule evolves_keeps)
  have "keeps silent_since any_table sv (loadRetained ms sv)"
    unfolding loadRetained_def by (intro keeps_fold keeps_index silence.keeps_refl) simp_all
  then show "evolves sv (loadRetained ms sv)" by (rule evolves_keeps)
qed

lemma evolves_restore:
  "evolves s0 (snd x) \<Longrightarrow> (\<And>v sv. evolves sv (load v sv)) \<Longrightarrow> evolves s0 (snd (restore ev what stored load x))"
  by (auto simp: restore_def split: prod.splits option.splits sum.splits intro: evolves_trans)

lemma evolves_readStore: "evolves sv (snd (readStore now sv))"
  unfolding readStore_def by (intro evolves_restore evolves_load) simp_all

lemma evolves_AddHook: "evolves sv (snd (AddHook h setOpts init sv))"
  by (auto simp: AddHook_def evolves_def upd_ops_def silence.rel_refl split: prod.splits)

lemma evolves_AddHooks: "evolves sv (snd (AddHooksFromConfig cs sv))"
proof (induction cs sv rule: AddHooksFromConfig.induct)
  case (2 h setOpts init cs sv)
  obtain e sv1 where a: "AddHook h setOpts init sv = (e, sv1)" by (metis prod.exhaust)
  then have "evolves sv sv1" using evolves_AddHook [of sv h setOpts init] by simp
  then show ?case using "2.IH" a by (auto split: option.splits intro: evolves_trans)
qed simp

lemma evolves_Serve: "evolves sv (snd (Serve mem threads now configs sv))"
proof -
  obtain e1 sv1 where a: "AddHooksFromConfig configs sv = (e1, sv1)" by (metis prod.exhaust)
  have 1: "evolves sv sv1" using evolves_AddHooks [of sv configs] a by simp
  obtain e2 sv2 where b: "(if Hooks_Provides (opHooks (svOps sv1)) [StoredClients_ev, StoredInflightMessages_ev,
      StoredRetainedMessages_ev, StoredSubscriptions_ev, StoredSysInfo_ev] then readStore now sv1 else (None, sv1)) = (e2, sv2)"
    by (metis prod.exhaust)
  have 2: "evolves sv sv2"
    using evolves_trans [OF 1 evolves_readStore [of sv1 now]] 1 b by (auto split: if_splits)
  have "keeps silent_since any_table sv2 (notify Hooks_OnStarted (publishSysTopics mem threads now sv2))"
    by (intro keeps_notify silence.keeps_publishSysTopics silence.keeps_refl) simp
  from evolves_trans [OF 2 evolves_keeps [OF this]] 1 2 show ?thesis
    by (cases e1; cases e2) (simp_all add: Serve_def a b)
qed

lemma evolves_step: "server_step sv sv' \<Longrightarrow> evolves sv sv'"
proof (induction rule: server_step.induct)
  case (Accepted conn listener sv r sv1 now fresh)
  then show ?case
    using NewClient_fields(1) [OF Accepted] by (intro evolves_establish evolves_NewClient [OF Accepted]) simp
next
  case (HookAdded sv h setOpts init)
  then show ?case by (rule evolves_AddHook)
next
  case (Served sv mem threads now configs)
  then show ?case by (rule evolves_Serve)
qed (rule evolves_keeps [where T = any_table], (intro silence.keeps_refl any_ok silence.keeps_Read_turn
  silence.keeps_Write_turn silence.keeps_end silence.keeps_leave silence.keeps_tick silence.keeps_InjectPublish
  silence.keeps_InjectPacket silence.keeps_embedded silence.keeps_Close TrueI))+

lemma evolves_steps: "server_step\<^sup>*\<^sup>* sv sv' \<Longrightarrow> evolves sv sv'"
  by (induction rule: rtranclp_induct) (auto intro: evolves_trans evolves_step)

section \<open>The read loop\<close>

text \<open>A turn that does not end the loop took at least one byte from the input.\<close>

abbreviation pending_input :: "cref \<Rightarrow> 's server \<Rightarrow> nat" where
  "pending_input r sv \<equiv> length (cnIn (clNet (svHeap sv r)))"

lemma ReadFixedHeader_consumes:
  "ReadFixedHeader cl op = (Inr fh, cl', op') \<Longrightarrow> length (cnIn (clNet cl')) < length (cnIn (clNet cl))"
  unfolding ReadFixedHeader_def Let_def
  by (auto split: if_splits list.splits sum.splits prod.splits dest!: DecodeLength_result(5))

lemma ReadPacket_consumes:
  "ReadPacket fh cl op = (res, cl', op') \<Longrightarrow> length (cnIn (clNet cl')) \<le> length (cnIn (clNet cl))"
  unfolding ReadPacket_def Let_def by (auto split: if_splits sum.splits prod.splits option.splits)

lemma receivePacket_input: "cnIn (clNet (svHeap (snd (receivePacket now r pk sv)) q)) = cnIn (clNet (svHeap sv q))"
proof -
  show ?thesis
    using keepsD [OF input.keeps_receivePacket [OF input.keeps_refl [of any_table sv]], where r = q] by simp
qed

lemma on_client_consumes:
  assumes "on_client r f sv = (res, sv')"
    and "\<And>cl' op'. f (svHeap sv r) (svOps sv) = (res, cl', op') \<Longrightarrow> P (length (cnIn (clNet cl')))"
  shows "P (pending_input r sv')"
  using assms by (auto simp: on_client_def split: prod.splits)

lemma Read_turn_consumes: "Read_turn now r sv = (None, sv') \<Longrightarrow> pending_input r sv' < pending_input r sv"
proof -
  assume t: "Read_turn now r sv = (None, sv')"
  obtain h sv1 where h: "on_client r ReadFixedHeader sv = (h, sv1)" by (metis prod.exhaust)
  obtain fh where fh: "h = Inr fh" using t h by (cases h) (auto simp: Read_turn_def split: if_splits)
  obtain p sv2 where p: "on_client r (ReadPacket fh) sv1 = (p, sv2)" by (metis prod.exhaust)
  obtain pk where pk: "p = Inr pk" using t h fh p by (cases p) (auto simp: Read_turn_def split: if_splits)
  have "pending_input r sv1 < pending_input r sv"
    using on_client_consumes [OF h, of "\<lambda>n. n < pending_input r sv"] ReadFixedHeader_consumes fh by blast
  moreover have "pending_input r sv2 \<le> pending_input r sv1"
    using on_client_consumes [OF p, of "\<lambda>n. n \<le> pending_input r sv1"] ReadPacket_consumes by blast
  moreover have "sv' = snd (receivePacket now r pk sv2)"
    using t h fh p pk by (auto simp: Read_turn_def split: if_splits prod.splits option.splits)
  ultimately show ?thesis by (simp add: receivePacket_input)
qed

lemma Read_step:
  "Read clock k r sv = (case fst (Read_turn (clock k) r sv) of
     Some result \<Rightarrow> Some (result, snd (Read_turn (clock k) r sv))
   | None \<Rightarrow> Read clock (k + 1) r (snd (Read_turn (clock k) r sv)))"
  by (subst Read.simps) (simp add: split_beta split: option.split)

lemma Read_returns: "\<exists>err sv'. Read clock k r sv = Some (err, sv') \<and> server_step\<^sup>*\<^sup>* sv sv'"
proof (induction "pending_input r sv" arbitrary: k sv rule: less_induct)
  case less
  obtain t sv1 where t: "Read_turn (clock k) r sv = (t, sv1)" by (metis prod.exhaust)
  have s: "server_step sv sv1" using server_step.Reading [of sv "clock k" r] t by simp
  show ?case
  proof (cases t)
    case None
    then have "pending_input r sv1 < pending_input r sv" using Read_turn_consumes t by blast
    from less [OF this, of "k + 1"] obtain err sv' where
      "Read clock (k + 1) r sv1 = Some (err, sv')" "server_step\<^sup>*\<^sup>* sv1 sv'" by blast
    with s show ?thesis
      by (subst Read_step) (auto simp: t None intro: converse_rtranclp_into_rtranclp)
  next
    case (Some res)
    with s show ?thesis by (subst Read_step) (auto simp: t)
  qed
qed

lemma EstablishConnection_returns:
  "\<exists>err sv'. EstablishConnection clock finish fresh listener conn sv = Some (err, sv') \<and> server_step\<^sup>*\<^sup>* sv sv'"
proof -
  obtain r sv1 where e: "NewClient (Some conn) listener [] False sv = (r, sv1)" by (metis prod.exhaust)
  obtain a sv2 where a: "establish (clock 0) fresh listener r sv1 = (a, sv2)" by (metis prod.exhaust)
  have s: "server_step sv sv2" using server_step.Accepted [OF e, of "clock 0" fresh] a by simp
  show ?thesis
  proof (cases a)
    case (Attached pk)
    obtain err sv3 where r: "Read clock 1 r sv2 = Some (err, sv3)" "server_step\<^sup>*\<^sup>* sv2 sv3"
      using Read_returns [of clock 1 r sv2] by blast
    have "server_step\<^sup>*\<^sup>* sv (end_session finish r err sv3)"
      using s r(2) server_step.Ended [of sv3 finish r err]
      by (meson converse_rtranclp_into_rtranclp rtranclp.rtrancl_into_rtrancl)
    then show ?thesis by (simp add: EstablishConnection_def attachClient_def e a Attached r(1) [simplified])
  next
    case (Refused err)
    have "server_step\<^sup>*\<^sup>* sv (leave finish False r sv2)"
      using s server_step.Left [of sv2 finish False r] by (meson r_into_rtranclp rtranclp.rtrancl_into_rtrancl)
    then show ?thesis by (simp add: EstablishConnection_def attachClient_def e a Refused)
  next
    case (Broken err)
    have "server_step\<^sup>*\<^sup>* sv (leave finish True r sv2)"
      using s server_step.Left [of sv2 finish True r] by (meson r_into_rtranclp rtranclp.rtrancl_into_rtrancl)
    then show ?thesis by (simp add: EstablishConnection_def attachClient_def e a Broken)
  qed
qed

end
