(* ===== verification/Mqtt_Exchange.thy ===== *)
theory Mqtt_Exchange
  imports Mqtt_ServerRun
begin

text \<open>
  The exchanges of quality of service 1 and 2 at the server: what is in flight survives every
  delivery, a message is taken once, and the quotas are given back.
\<close>

section \<open>Deliveries and what is in flight\<close>

lemma NextPacketID_loop_free:
  "NextPacketID_loop used m started overflowed i = Some y \<Longrightarrow> \<forall>j. y = Inr j \<longrightarrow> \<not> used (ucast j)"
  by (erule NextPacketID_loop.raw_induct
        [where P = "\<lambda>used m s ov i y. \<forall>j. y = Inr j \<longrightarrow> \<not> used (ucast j)", rotated])
     (fastforce split: if_splits)

lemma NextPacketID_free:
  assumes "NextPacketID op cl = Some (cl', Inr j)"
  shows "Inflight_Get (clInflight cl) (ucast j) = None" "clInflight cl' = clInflight cl"
    "iReceiveQuota (clInflight cl') = iReceiveQuota (clInflight cl)"
  using assms NextPacketID_loop_free [where used = "\<lambda>k. Inflight_Get (clInflight cl) k \<noteq> None"]
  by (auto simp: NextPacketID_def Let_def split: option.splits sum.splits)

text \<open>What a delivery leaves alone: the messages in flight before it, and the receive quota.\<close>

definition spares :: "inflight \<Rightarrow> inflight \<Rightarrow> bool" where
  "spares i i' \<longleftrightarrow> (\<forall>k p. Inflight_Get i k = Some p \<longrightarrow> Inflight_Get i' k = Some p)
     \<and> iReceiveQuota i' = iReceiveQuota i \<and> iMaximumReceiveQuota i' = iMaximumReceiveQuota i"

lemma spares_refl [simp]: "spares i i"
  by (simp add: spares_def)

lemma spares_trans: "spares i j \<Longrightarrow> spares j k \<Longrightarrow> spares i k"
  by (simp add: spares_def)

definition spares_all :: "'s server \<Rightarrow> 's server \<Rightarrow> bool" where
  "spares_all sv sv' \<longleftrightarrow> (\<forall>q. spares (clInflight (svHeap sv q)) (clInflight (svHeap sv' q)))"

lemma spares_all_refl [simp]: "spares_all sv sv"
  by (simp add: spares_all_def)

lemma spares_all_trans: "spares_all a b \<Longrightarrow> spares_all b c \<Longrightarrow> spares_all a c"
  unfolding spares_all_def using spares_trans by blast

lemma spares_same: "svHeap sv' = svHeap sv \<Longrightarrow> spares_all sv sv'"
  by (simp add: spares_all_def)

lemma heap_tally [simp]: "svHeap (tally f sv) = svHeap sv" "svHeap (notify g sv) = svHeap sv"
  by (simp_all add: store_defs)

lemma Inflight_sent:
  "Inflight_Get (DecreaseSendQuota i) k = Inflight_Get i k" "Inflight_Get (IncreaseSendQuota i) k = Inflight_Get i k"
  "iReceiveQuota (DecreaseSendQuota i) = iReceiveQuota i" "iReceiveQuota (IncreaseSendQuota i) = iReceiveQuota i"
  "iMaximumReceiveQuota (DecreaseSendQuota i) = iMaximumReceiveQuota i"
  "iMaximumReceiveQuota (IncreaseSendQuota i) = iMaximumReceiveQuota i"
  by (simp_all add: inflight_defs)

text \<open>
  A new message takes an identifier that was free; a delivery that fails gives up that one only.
  \<open>k\<close> is the identifier.
\<close>

definition only_new :: "u16 \<Rightarrow> inflight \<Rightarrow> inflight \<Rightarrow> bool" where
  "only_new k i i' \<longleftrightarrow> Inflight_Get i k = None \<and> (\<forall>j. j \<noteq> k \<longrightarrow> Inflight_Get i' j = Inflight_Get i j)
     \<and> iReceiveQuota i' = iReceiveQuota i \<and> iMaximumReceiveQuota i' = iMaximumReceiveQuota i"

lemma only_new_spares: "only_new k i i' \<Longrightarrow> spares i i'"
  unfolding only_new_def spares_def by (metis option.distinct(1))

definition adds :: "cref \<Rightarrow> u16 \<Rightarrow> 's server \<Rightarrow> 's server \<Rightarrow> bool" where
  "adds r k s0 sv \<longleftrightarrow> only_new k (clInflight (svHeap s0 r)) (clInflight (svHeap sv r))
     \<and> (\<forall>q. q \<noteq> r \<longrightarrow> svHeap sv q = svHeap s0 q)"

lemma adds_spares: "adds r k s0 sv \<Longrightarrow> spares_all s0 sv"
  unfolding adds_def spares_all_def using only_new_spares spares_refl by metis

lemma adds_changes:
  assumes "adds r k s0 sv"
  shows "adds r k s0 (tally f sv)" "adds r k s0 (notify g sv)"
    "pkPacketID m = k \<Longrightarrow> adds r k s0 (snd (set_inflight r m sv))"
    "adds r k s0 (snd (del_inflight r k sv))"
    "adds r k s0 (upd_client r (upd_inflight DecreaseSendQuota) sv)"
    "adds r k s0 (upd_client r (upd_inflight IncreaseSendQuota) sv)"
    "(\<And>st. csInflight (u st) = csInflight st) \<Longrightarrow> adds r k s0 (upd_client r (upd_state u) sv)"
  using assms by (simp_all add: adds_def only_new_def store_defs inflight_defs)

lemma adds_if: "adds r k s0 a \<Longrightarrow> adds r k s0 b \<Longrightarrow> adds r k s0 (if c then a else b)"
  by simp

lemma track_qos_new:
  assumes t: "track_qos now r pk out sv = ((out', None, held), sv')"
  shows "adds r (pkPacketID out') sv sv'"
proof -
  obtain cl i where n: "NextPacketID (svOps sv) (svHeap sv r) = Some (cl, Inr i)"
    using t by (auto simp: track_qos_def Let_def split: if_splits option.splits sum.splits prod.splits)
  let ?k = "ucast i :: u16" and ?m = "pkPacketID_update (\<lambda>_. ucast i) out"
  define s1 where "s1 = set_client r cl sv"
  define s2 where "s2 = snd (set_inflight r ?m s1)"
  define s3 where "s3 = (if fst (set_inflight r ?m s1) then upd_client r (upd_inflight DecreaseSendQuota)
      (notify (\<lambda>hs s. Hooks_OnQosPublish hs s (svHeap (tally (InflightCount_update (\<lambda>n. n + 1)) s2) r) ?m (pkCreated ?m) 0)
        (tally (InflightCount_update (\<lambda>n. n + 1)) s2)) else s2)"
  have "adds r ?k sv s1"
    using NextPacketID_free [OF n] by (simp add: adds_def only_new_def s1_def store_defs)
  then have s3: "adds r ?k sv s3"
    unfolding s3_def s2_def by (intro adds_if adds_changes) simp_all
  have "sv' = s3 \<and> pkPacketID out' = ?k \<or> sv' = snd (set_inflight r (pkExpiry_update (\<lambda>_. - 1) ?m) s3) \<and> pkPacketID out' = ?k"
    using t unfolding track_qos_def n
    by (auto simp: Let_def split_beta s3_def s2_def s1_def split: if_splits)
  then show ?thesis using s3 adds_changes(3) [OF s3, of "pkExpiry_update (\<lambda>_. - 1) ?m"] by auto
qed

lemma track_qos_error:
  "track_qos now r pk out sv = ((out', Some e, held), sv') \<Longrightarrow> spares_all sv sv'"
  by (auto simp: track_qos_def Let_def spares_all_def store_defs NextPacketID_def
      split: if_splits option.splits sum.splits prod.splits)

lemma track_qos_qos: "track_qos now r pk out sv = ((out', e, held), sv') \<Longrightarrow>
    fhQos (pkFixedHeader out') = fhQos (pkFixedHeader out)"
  by (auto simp: track_qos_def Let_def split: if_splits option.splits sum.splits prod.splits)

text \<open>The four ends of the hand-over to a queue.\<close>

lemma enqueue_cases:
  fixes sv :: "'s server" and r :: cref and pk out :: packet
  defines "d \<equiv> notify (\<lambda>hs s. Hooks_OnPublishDropped hs s (svHeap sv r) pk) (tally (MessagesDropped_update (\<lambda>n. n + 1)) sv)"
  shows "snd (enqueue r pk out sv) = sv
    \<or> snd (enqueue r pk out sv) = upd_client r (upd_state (\<lambda>st. st\<lparr>csOutbound := csOutbound st @ [out],
          csOutboundQty := csOutboundQty st + 1\<rparr>)) sv
    \<or> snd (enqueue r pk out sv) = d
    \<or> fhQos (pkFixedHeader out) > 0
       \<and> snd (enqueue r pk out sv) = upd_client r (upd_inflight IncreaseSendQuota) (snd (del_inflight r (pkPacketID out) d))"
  by (simp add: enqueue_def Let_def split_beta d_def)

lemma enqueue_adds: "adds r (pkPacketID out) s0 sv \<Longrightarrow> adds r (pkPacketID out) s0 (snd (enqueue r pk out sv))"
  using enqueue_cases [of r pk out sv] by (elim disjE conjE) (simp_all add: adds_changes)

lemma enqueue_spares:
  assumes "fhQos (pkFixedHeader out) = 0"
  shows "spares_all sv (snd (enqueue r pk out sv))"
  using enqueue_cases [of r pk out sv] assms
  by (elim disjE conjE) (simp_all add: spares_all_def upd_client_def set_client_def)

lemma alias_inflight: "clState (snd (alias_for pk cl out)) = csTopicAliases_update (\<lambda>_. csTopicAliases (clState (snd (alias_for pk cl out)))) (clState cl)"
  by (auto simp: alias_for_def Let_def split: prod.splits)

lemma alias_clInflight [simp]: "clInflight (snd (alias_for pk cl out)) = clInflight cl"
  by (subst alias_inflight) simp

lemma spares_publishToClient: "spares_all sv (snd (publishToClient now r sub pk sv))"
proof -
  obtain allowed sv1 where a: "ask (\<lambda>hs s. Hooks_OnACLCheck hs s (svHeap sv r) (pkTopicName pk) False) sv = (allowed, sv1)"
    by (metis prod.exhaust)
  have h1: "svHeap sv1 = svHeap sv" using ask_heap [of _ sv] a by (metis snd_conv)
  obtain out cl where o: "alias_for pk (svHeap sv r) (qos_for (svCaps sv1) sub (identifiers_for sub
      (retain_for (svHeap sv r) sub (Packet_Copy pk False)))) = (out, cl)" by (metis prod.exhaust)
  have cl: "clInflight cl = clInflight (svHeap sv r)" using alias_clInflight [of pk "svHeap sv r"] o by (metis snd_conv)
  define sv2 where "sv2 = set_client r cl sv1"
  have s2: "spares_all sv sv2" using cl h1 by (simp add: spares_all_def sv2_def store_defs)
  show ?thesis
  proof (cases "(sNoLocal sub \<and> pkOrigin pk = clID (svHeap sv r)) \<or> \<not> allowed")
    case True
    then show ?thesis using a h1 by (auto simp: publishToClient_def Let_def spares_same)
  next
    case False
    have e: "snd (publishToClient now r sub pk sv) = snd (if fhQos (pkFixedHeader out) > 0 then
        (case track_qos now r pk out sv2 of
           ((out, Some err, _), sv) \<Rightarrow> ((out, Some err), sv)
         | ((out, None, True), sv) \<Rightarrow> ((out, None), sv)
         | ((out, None, False), sv) \<Rightarrow> enqueue r pk out sv) else enqueue r pk out sv2)"
      using False by (auto simp: publishToClient_def Let_def sv2_def a o)
    obtain out' err held sv3 where t: "track_qos now r pk out sv2 = ((out', err, held), sv3)"
      by (metis prod.exhaust)
    have "spares_all sv2 (snd (publishToClient now r sub pk sv))"
    proof (cases "fhQos (pkFixedHeader out) > 0")
      case True
      show ?thesis
      proof (cases err)
        case None
        note n = track_qos_new [OF t [unfolded None]]
        show ?thesis
          using adds_spares [OF n] adds_spares [OF enqueue_adds [OF n, of pk]] True
          by (cases held) (simp_all add: e t None)
      next
        case (Some x)
        then show ?thesis using track_qos_error t True by (simp add: e)
      qed
    next
      case False
      then show ?thesis using enqueue_spares [of out sv2] by (simp add: e word_gt_0)
    qed
    then show ?thesis by (rule spares_all_trans [OF s2])
  qed
qed

lemma spares_fold: "(\<And>x sv. spares_all sv (f x sv)) \<Longrightarrow> spares_all sv (fold f xs sv)"
  by (induction xs arbitrary: sv) (auto intro: spares_all_trans)

lemma spares_publishToSubscribers: "spares_all sv (publishToSubscribers now pk sv)"
proof -
  have d: "spares_all sv (deliver now pk x sv)" for pk x and sv :: "'a server"
    by (auto simp: deliver_def split: prod.splits option.splits intro: spares_publishToClient)
  have s: "svHeap (snd (select_subscribers pk subs sv)) = svHeap sv" for pk subs and sv :: "'a server"
    by (simp add: select_subscribers_def Let_def split_beta)
  show ?thesis
    unfolding publishToSubscribers_def Let_def split_beta
    by (auto intro: spares_all_trans [OF spares_same spares_fold [OF d]] simp: s)
qed

section \<open>Taking a message\<close>

lemma WriteTo_frame:
  assumes "WriteTo now r pk sv = (e, sv')"
  shows "q \<noteq> r \<Longrightarrow> svHeap sv' q = svHeap sv q" "clState (svHeap sv' q) = clState (svHeap sv q)"
    "clProperties (svHeap sv' q) = clProperties (svHeap sv q)" "clID (svHeap sv' q) = clID (svHeap sv q)"
    "cnInline (clNet (svHeap sv' q)) = cnInline (clNet (svHeap sv q))"
    "svTopics sv' = svTopics sv" "svDelivered sv' = svDelivered sv" "svClients sv' = svClients sv"
    "svWillDelayed sv' = svWillDelayed sv" "opOptions (svOps sv') = opOptions (svOps sv)"
    "opHooks (svOps sv') = opHooks (svOps sv)"
  using assms by (auto simp: WriteTo_def on_client_def dest!: WritePacket_frame split: prod.splits if_splits)

text \<open>A server that differs at most in the connection, the end and the counters of one client.\<close>

definition only_answers :: "cref \<Rightarrow> 's server \<Rightarrow> 's server \<Rightarrow> bool" where
  "only_answers r sv sv' \<longleftrightarrow> svTopics sv' = svTopics sv \<and> svDelivered sv' = svDelivered sv
     \<and> svClients sv' = svClients sv \<and> svWillDelayed sv' = svWillDelayed sv
     \<and> (\<forall>q. q \<noteq> r \<longrightarrow> svHeap sv' q = svHeap sv q)
     \<and> csOutbound (clState (svHeap sv' r)) = csOutbound (clState (svHeap sv r))
     \<and> clInflight (svHeap sv' r) = clInflight (svHeap sv r)
     \<and> csSubscriptions (clState (svHeap sv' r)) = csSubscriptions (clState (svHeap sv r))
     \<and> cpWill (clProperties (svHeap sv' r)) = cpWill (clProperties (svHeap sv r))"

lemma answers_refl [simp]: "only_answers r sv sv"
  by (simp add: only_answers_def)

lemma answers_trans: "only_answers r a b \<Longrightarrow> only_answers r b c \<Longrightarrow> only_answers r a c"
  by (simp add: only_answers_def)

lemma answers_write: "only_answers r sv (snd (WriteTo now r pk sv))"
proof -
  obtain e sv' where w: "WriteTo now r pk sv = (e, sv')" by (metis prod.exhaust)
  show ?thesis
    using WriteTo_frame [OF w] WriteTo_frame(2,3) [OF w, of r] by (simp add: only_answers_def w)
qed

lemma answers_stop: "only_answers r sv (upd_client r (Stop now e) sv)"
  by (simp add: only_answers_def upd_client_def set_client_def Stop_def)

lemma answers_ask: "only_answers r sv (snd (ask f sv))"
  by (auto simp: only_answers_def store_defs split: prod.splits)

lemma answers_branch:
  "only_answers r sv (snd a) \<Longrightarrow> only_answers r sv (snd b) \<Longrightarrow> only_answers r sv (snd (if c then a else b))"
  "only_answers r sv sv' \<Longrightarrow> only_answers r sv (snd (x, sv'))"
  by simp_all

lemma answers_Disconnect: "only_answers r sv (snd (DisconnectClient now r code sv))"
  unfolding DisconnectClient_def Let_def split_beta
  by (intro answers_branch answers_write answers_trans [OF answers_write answers_stop])

lemma duplicate_answers:
  assumes "Inflight_Get (clInflight (svHeap sv r)) (pkPacketID pk) = Some held" "fhType (pkFixedHeader held) = Pubrec"
    "\<not> cnInline (clNet (svHeap sv r))"
  shows "only_answers r sv (snd (processPublish now r pk sv))"
proof -
  obtain allowed sv1 where a: "ask (\<lambda>hs s. Hooks_OnACLCheck hs s (svHeap sv r) (pkTopicName pk) True) sv = (allowed, sv1)"
    by (metis prod.exhaust)
  have h1: "only_answers r sv sv1" "svHeap sv1 = svHeap sv"
    using answers_ask [of r sv] ask_heap [of _ sv] a by (metis snd_conv)+
  have d: "only_answers r sv1 (snd (publish_denied now r pk sv1))"
    by (simp add: publish_denied_def answers_Disconnect answers_write Let_def)
  have u: "\<exists>res. reuse_identifier now r p sv1 = (Some res, snd (reuse_identifier now r p sv1))
      \<and> only_answers r sv1 (snd (reuse_identifier now r p sv1))"
    if "pkPacketID p = pkPacketID pk" for p
    using that assms(1,2) answers_write [of r sv1] by (simp add: reuse_identifier_def h1(2) split_beta Let_def)
  define p where "p = (let p = pk\<lparr>pkOrigin := clID (svHeap sv r), pkCreated := now\<rparr>
    in if expiry_of (svCaps sv1) p > 0 then p\<lparr>pkExpiry := now + expiry_of (svCaps sv1) p\<rparr> else p)"
  have p: "pkPacketID p = pkPacketID pk" by (simp add: p_def Let_def)
  show ?thesis
  proof (cases "IsValidFilter (pkTopicName pk) True \<and> iReceiveQuota (clInflight (svHeap sv r)) \<noteq> 0")
    case True
    obtain res sv2 where e: "reuse_identifier now r p sv1 = (Some res, sv2)" "only_answers r sv1 sv2"
      using u [OF p] by (metis snd_conv)
    have "snd (processPublish now r pk sv) = (if allowed then sv2 else snd (publish_denied now r pk sv1))"
      using True assms(3) e(1) [unfolded p_def Let_def] by (simp add: processPublish_def Let_def a)
    then show ?thesis using answers_trans [OF h1(1) d] answers_trans [OF h1(1) e(2)] by simp
  next
    case False
    then show ?thesis using assms(3) by (auto simp: processPublish_def Let_def answers_Disconnect)
  qed
qed

section \<open>Accepting a message\<close>

lemma retain_heap [simp]: "svHeap (retainMessage r pk sv) = svHeap sv"
  by (simp add: retainMessage_def Let_def split_beta)

lemma set_inflight_heap:
  "svHeap (snd (set_inflight r m sv)) = (svHeap sv)(r := upd_inflight (\<lambda>_. fst (Inflight_Set m (clInflight (svHeap sv r)))) (svHeap sv r))"
  by (simp add: set_inflight_def split_beta upd_client_def set_client_def)

lemma del_inflight_heap:
  "svHeap (snd (del_inflight r k sv)) = (svHeap sv)(r := upd_inflight (\<lambda>_. fst (Inflight_Delete k (clInflight (svHeap sv r)))) (svHeap sv r))"
  by (simp add: del_inflight_def split_beta upd_client_def set_client_def)

lemma upd_heap: "svHeap (upd_client r f sv) = (svHeap sv)(r := f (svHeap sv r))"
  by (simp add: upd_client_def set_client_def)

lemma published_spares:
  "spares_all sv (notify f (publishToSubscribers now pk sv))"
  using spares_publishToSubscribers [of sv now pk] by (simp add: spares_all_def)

definition published_ack :: "int \<Rightarrow> capabilities \<Rightarrow> packet \<Rightarrow> packet" where
  "published_ack now c pk =
    (if fhQos (pkFixedHeader pk) = 2
     then buildAck now c (pkPacketID pk) Pubrec 0 (pkProperties pk) CodeSuccess
     else buildAck now c (pkPacketID pk) Puback 0 (pkProperties pk) (qos_code (fhQos (pkFixedHeader pk))))"

lemma published_ack_fields:
  "pkPacketID (published_ack now c pk) = pkPacketID pk"
  "fhQos (pkFixedHeader pk) = 2 \<Longrightarrow> fhType (pkFixedHeader (published_ack now c pk)) = Pubrec"
  by (simp_all add: published_ack_def buildAck_def Let_def)

text \<open>What an accepted message leaves in flight before it is handed on.\<close>

lemma accepted_inflight:
  assumes acc: "publish_accepted now r pk sv = (None, sv')" and inline: "\<not> cnInline (clNet (svHeap sv r))"
    and q: "fhQos (pkFixedHeader pk) \<noteq> 0"
  defines "ack \<equiv> published_ack now (svCaps sv) pk"
  defines "i \<equiv> fst (Inflight_Set ack (DecreaseReceiveQuota (clInflight (svHeap sv r))))"
  shows "spares (if fhQos (pkFixedHeader pk) = 1 then IncreaseReceiveQuota (fst (Inflight_Delete (pkPacketID pk) i)) else i)
    (clInflight (svHeap sv' r))"
proof -
  define sv1 where "sv1 = (if fhRetain (pkFixedHeader pk) then retainMessage r pk sv else sv)"
  have h1: "svHeap sv1 = svHeap sv" "svCaps sv1 = svCaps sv"
    by (simp_all add: sv1_def retainMessage_def Let_def split_beta store_defs)
  define sv2 where "sv2 = upd_client r (upd_inflight DecreaseReceiveQuota) sv1"
  have c2: "svCaps sv2 = svCaps sv" by (simp add: sv2_def upd_client_def set_client_def h1)
  obtain isnew sv3 where s3: "set_inflight r ack sv2 = (isnew, sv3)" by (metis prod.exhaust)
  define sv4 where "sv4 = (if isnew then notify (\<lambda>hs s. Hooks_OnQosPublish hs s (svHeap sv3 r) ack (pkCreated ack) 0)
       (tally (InflightCount_update (\<lambda>n. n + 1)) sv3) else sv3)"
  have i4: "clInflight (svHeap sv4 r) = i"
    using set_inflight_heap [of r ack sv2] s3
    by (simp add: sv4_def i_def sv2_def upd_heap h1)
  obtain e sv5 where w: "WriteTo now r ack sv4 = (e, sv5)" by (metis prod.exhaust)
  have i5: "clInflight (svHeap sv5 r) = i" using WriteTo_frame(2) [OF w, of r] i4 by simp
  let ?qos = "fhQos (pkFixedHeader pk)"
  obtain ok sv6 where d: "del_inflight r (pkPacketID ack) sv5 = (ok, sv6)" by (metis prod.exhaust)
  define sv7 where "sv7 = upd_client r (upd_inflight IncreaseReceiveQuota)
    (if ok then tally (InflightCount_update (\<lambda>n. n - 1)) sv6 else sv6)"
  have i7: "clInflight (svHeap sv7 r) = IncreaseReceiveQuota (fst (Inflight_Delete (pkPacketID pk) i))"
    using del_inflight_heap [of r "pkPacketID ack" sv5] d
    by (simp add: sv7_def upd_heap i5 ack_def published_ack_fields)
  have res: "publish_accepted now r pk sv = (case e of Some err \<Rightarrow> (Some err, sv5)
    | None \<Rightarrow> (let sv8 = (if ?qos = 1 then notify (\<lambda>hs s. Hooks_OnQosComplete hs s (svHeap sv7 r) ack) sv7 else sv5);
                   sv9 = publishToSubscribers now pk sv8
               in (None, notify (\<lambda>hs s. Hooks_OnPublished hs s (svHeap sv9 r) pk) sv9)))"
    using q inline
    unfolding publish_accepted_def Let_def sv1_def [symmetric]
    by (simp only: h1 simp_thms if_False sv2_def [symmetric] c2 published_ack_def [symmetric] ack_def [symmetric]
        s3 split sv4_def [symmetric] w d sv7_def [symmetric])
  have "e = None" using acc res by (cases e) simp_all
  then have sv': "sv' = (let sv8 = (if ?qos = 1 then notify (\<lambda>hs s. Hooks_OnQosComplete hs s (svHeap sv7 r) ack) sv7 else sv5);
      sv9 = publishToSubscribers now pk sv8 in notify (\<lambda>hs s. Hooks_OnPublished hs s (svHeap sv9 r) pk) sv9)"
    using acc unfolding res by (simp add: Let_def)
  define sv8 where "sv8 = (if ?qos = 1 then notify (\<lambda>hs s. Hooks_OnQosComplete hs s (svHeap sv7 r) ack) sv7 else sv5)"
  have "spares (clInflight (svHeap sv8 r)) (clInflight (svHeap sv' r))"
    using published_spares [of sv8] unfolding sv' Let_def sv8_def [symmetric] by (simp add: spares_all_def)
  then show ?thesis using i5 i7 by (simp add: sv8_def split: if_splits)
qed

lemma accepted_qos2:
  assumes "publish_accepted now r pk sv = (None, sv')" "\<not> cnInline (clNet (svHeap sv r))"
    and "fhQos (pkFixedHeader pk) = 2"
  shows "\<exists>ack. Inflight_Get (clInflight (svHeap sv' r)) (pkPacketID pk) = Some ack \<and> fhType (pkFixedHeader ack) = Pubrec"
    "iReceiveQuota (clInflight (svHeap sv' r)) = max 0 (iReceiveQuota (clInflight (svHeap sv r)) - 1)
      \<or> iReceiveQuota (clInflight (svHeap sv r)) < 0"
proof -
  let ?ack = "published_ack now (svCaps sv) pk"
  have s: "spares (fst (Inflight_Set ?ack (DecreaseReceiveQuota (clInflight (svHeap sv r))))) (clInflight (svHeap sv' r))"
    using accepted_inflight [OF assms(1,2)] assms(3) by simp
  have "Inflight_Get (fst (Inflight_Set ?ack (DecreaseReceiveQuota (clInflight (svHeap sv r))))) (pkPacketID pk) = Some ?ack"
    by (simp add: inflight_defs published_ack_fields)
  with s show "\<exists>ack. Inflight_Get (clInflight (svHeap sv' r)) (pkPacketID pk) = Some ack \<and> fhType (pkFixedHeader ack) = Pubrec"
    unfolding spares_def using published_ack_fields(2) assms(3) by blast
  show "iReceiveQuota (clInflight (svHeap sv' r)) = max 0 (iReceiveQuota (clInflight (svHeap sv r)) - 1)
      \<or> iReceiveQuota (clInflight (svHeap sv r)) < 0"
    using s by (auto simp: spares_def inflight_defs)
qed

lemma accepted_maximum:
  assumes "publish_accepted now r pk sv = (None, sv')" "\<not> cnInline (clNet (svHeap sv r))" "fhQos (pkFixedHeader pk) \<noteq> 0"
  shows "iMaximumReceiveQuota (clInflight (svHeap sv' r)) = iMaximumReceiveQuota (clInflight (svHeap sv r))"
  using accepted_inflight [OF assms] by (auto simp: spares_def inflight_defs split: if_splits)

lemma accepted_qos1:
  assumes "publish_accepted now r pk sv = (None, sv')" "\<not> cnInline (clNet (svHeap sv r))"
    and "fhQos (pkFixedHeader pk) = 1" "client_ok (svHeap sv r)" "iReceiveQuota (clInflight (svHeap sv r)) \<noteq> 0"
  shows "iReceiveQuota (clInflight (svHeap sv' r)) = iReceiveQuota (clInflight (svHeap sv r))"
proof -
  have "0 < iReceiveQuota (clInflight (svHeap sv r))"
    "iReceiveQuota (clInflight (svHeap sv r)) \<le> iMaximumReceiveQuota (clInflight (svHeap sv r))"
    using assms(4,5) by (auto simp: client_ok_def inflight_ok_def)
  then show ?thesis
    using accepted_inflight [OF assms(1,2)] assms(3) by (simp add: spares_def inflight_defs)
qed

lemma accepted_inline:
  "publish_accepted now r pk sv = (x, sv') \<Longrightarrow> cnInline (clNet (svHeap sv' q)) = cnInline (clNet (svHeap sv q))"
  using keepsD [OF input.keeps_accepted [OF input.keeps_refl [of any_table sv]], where r = q] by (metis TrueI snd_conv)

lemma qos2_taken_once:
  assumes "publish_accepted now r pk sv = (None, sv1)" "\<not> cnInline (clNet (svHeap sv r))"
    and "fhQos (pkFixedHeader pk) = 2" "pkPacketID again = pkPacketID pk"
  shows "only_answers r sv1 (snd (processPublish later r again sv1))"
  using accepted_qos2(1) [OF assms(1-3)] accepted_inline [OF assms(1), of r] assms(2,4)
  by (auto intro: duplicate_answers)

section \<open>Releasing a message\<close>

lemma complete_inflight:
  "clInflight (svHeap (complete_message r pk sv) r)
     = fst (Inflight_Delete (pkPacketID pk) (IncreaseSendQuota (IncreaseReceiveQuota (clInflight (svHeap sv r)))))"
  using del_inflight_heap [of r "pkPacketID pk" "upd_client r (upd_inflight (IncreaseSendQuota \<circ> IncreaseReceiveQuota)) sv"]
  by (auto simp: complete_message_def Let_def upd_heap split: prod.splits)

lemma pubrel_inflight:
  assumes "processPubrel now r pk sv = (None, sv')" "Inflight_Get (clInflight (svHeap sv r)) (pkPacketID pk) \<noteq> None"
    and "\<not> pkReasonCode pk \<ge> Code ErrUnspecifiedError" "ReasonCodeValid pk"
  defines "i \<equiv> clInflight (svHeap sv r)" and "i' \<equiv> clInflight (svHeap sv' r)"
  shows "Inflight_Get i' (pkPacketID pk) = None" "k \<noteq> pkPacketID pk \<Longrightarrow> Inflight_Get i' k = Inflight_Get i k"
    "iReceiveQuota i' = (if iReceiveQuota i < iMaximumReceiveQuota i then iReceiveQuota i + 1 else iReceiveQuota i)"
    "iSendQuota i' = (if iSendQuota i < iMaximumSendQuota i then iSendQuota i + 1 else iSendQuota i)"
proof -
  define ack where "ack = buildAck now (svCaps sv) (pkPacketID pk) Pubcomp 0 (pkProperties pk) CodeSuccess"
  have ack: "pkPacketID ack = pkPacketID pk" by (simp add: ack_def buildAck_def Let_def)
  obtain b sv1 where s1: "set_inflight r ack sv = (b, sv1)" by (metis prod.exhaust)
  obtain e sv2 where w: "WriteTo now r ack sv1 = (e, sv2)" by (metis prod.exhaust)
  have "processPubrel now r pk sv = (case e of Some err \<Rightarrow> (Some err, sv2) | None \<Rightarrow> (None, complete_message r pk sv2))"
    using assms(2-4) w unfolding processPubrel_def Let_def ack_def [symmetric]
    by (auto simp add: s1)
  then have sv': "sv' = complete_message r pk sv2" using assms(1) by (cases e) simp_all
  have "clInflight (svHeap sv2 r) = fst (Inflight_Set ack i)"
    using WriteTo_frame(2) [OF w, of r] set_inflight_heap [of r ack sv] s1 by (simp add: i_def)
  then have i': "i' = fst (Inflight_Delete (pkPacketID pk) (IncreaseSendQuota (IncreaseReceiveQuota (fst (Inflight_Set ack i)))))"
    by (simp add: i'_def sv' complete_inflight)
  show "Inflight_Get i' (pkPacketID pk) = None" "k \<noteq> pkPacketID pk \<Longrightarrow> Inflight_Get i' k = Inflight_Get i k"
    "iReceiveQuota i' = (if iReceiveQuota i < iMaximumReceiveQuota i then iReceiveQuota i + 1 else iReceiveQuota i)"
    "iSendQuota i' = (if iSendQuota i < iMaximumSendQuota i then iSendQuota i + 1 else iSendQuota i)"
    by (simp_all add: i' inflight_defs ack)
qed

end
