(* ===== verification/Mqtt_Delivery.thy ===== *)
theory Mqtt_Delivery
  imports Mqtt_Exchange
begin

text \<open>
  Who gets a published message: the clients of the table with a subscription that the index finds,
  each once, in the form that its subscription and its connection ask for.
\<close>

definition outgoing :: "capabilities \<Rightarrow> packet \<Rightarrow> subscription \<Rightarrow> client \<Rightarrow> packet \<times> client" where
  "outgoing c pk sub cl = alias_for pk cl (qos_for c sub (identifiers_for sub (retain_for cl sub (Packet_Copy pk False))))"

definition receives :: "capabilities \<Rightarrow> packet \<Rightarrow> subscription \<Rightarrow> client \<Rightarrow> bool" where
  "receives c pk sub cl \<longleftrightarrow> \<not> (sNoLocal sub \<and> pkOrigin pk = clID cl) \<and> cnConn (clNet cl) \<and> \<not> Closed cl
     \<and> length (csOutbound (clState cl)) < MaximumClientWritesPending c"

text \<open>The queue of a client after a message with a subscription that may be there.\<close>

definition queue_with :: "capabilities \<Rightarrow> packet \<Rightarrow> subscription option \<Rightarrow> client \<Rightarrow> packet list" where
  "queue_with c pk found cl = csOutbound (clState cl) @
     (case found of None \<Rightarrow> [] | Some sub \<Rightarrow> if receives c pk sub cl then [fst (outgoing c pk sub cl)] else [])"

definition readable :: "'s hook list \<Rightarrow> bool" where
  "readable hs \<longleftrightarrow> (\<forall>s cl t. snd (Hooks_OnACLCheck hs s cl t False))"

lemma qos_for_zero: "fhQos (pkFixedHeader out) = 0 \<Longrightarrow> fhQos (pkFixedHeader (qos_for c sub out)) = 0"
  by (simp add: qos_for_def Let_def word_less_nat_alt)

lemma outgoing_qos: "fhQos (pkFixedHeader pk) = 0 \<Longrightarrow> fhQos (pkFixedHeader (fst (outgoing c pk sub cl))) = 0"
proof -
  have a: "fhQos (pkFixedHeader (fst (alias_for pk cl out))) = fhQos (pkFixedHeader out)" for out
    by (auto simp: alias_for_def Let_def split: prod.splits)
  assume "fhQos (pkFixedHeader pk) = 0"
  then have "fhQos (pkFixedHeader (identifiers_for sub (retain_for cl sub (Packet_Copy pk False)))) = 0"
    by (auto simp: identifiers_for_def retain_for_def Packet_Copy_def Let_def split: option.splits)
  then show ?thesis by (simp add: outgoing_def a qos_for_zero)
qed

lemma alias_frame:
  "clNet (snd (alias_for pk cl out)) = clNet cl" "clID (snd (alias_for pk cl out)) = clID cl"
  "csOutbound (clState (snd (alias_for pk cl out))) = csOutbound (clState cl)"
  "csOpen (clState (snd (alias_for pk cl out))) = csOpen (clState cl)"
  by (auto simp: alias_for_def Let_def split: prod.splits)

lemma ask_frame:
  "svOps (snd (ask f sv)) = (svOps sv)\<lparr>opState := fst (f (opHooks (svOps sv)) (opState (svOps sv)))\<rparr>"
  "svClients (snd (ask f sv)) = svClients sv" "svNext (snd (ask f sv)) = svNext sv"
  "fst (ask f sv) = snd (f (opHooks (svOps sv)) (opState (svOps sv)))"
  by (simp_all add: ask_def split_beta Let_def upd_ops_def)

lemma enqueue_frame:
  fixes sv :: "'s server" and r :: cref and pk out :: packet
  assumes "fhQos (pkFixedHeader out) = 0"
  defines "sv' \<equiv> snd (enqueue r pk out sv)"
  shows "q \<noteq> r \<Longrightarrow> svHeap sv' q = svHeap sv q" "clID (svHeap sv' r) = clID (svHeap sv r)"
    "csOutbound (clState (svHeap sv' r)) = csOutbound (clState (svHeap sv r)) @
      (if cnConn (clNet (svHeap sv r)) \<and> \<not> Closed (svHeap sv r)
          \<and> length (csOutbound (clState (svHeap sv r))) < MaximumClientWritesPending (svCaps sv) then [out] else [])"
    "svClients sv' = svClients sv" "svNext sv' = svNext sv" "svCaps sv' = svCaps sv" "opHooks (svOps sv') = opHooks (svOps sv)"
  using assms(1) by (simp_all add: sv'_def enqueue_def Let_def upd_client_def set_client_def notify_def tally_def upd_ops_def)

lemma publishToClient_frame:
  fixes sv :: "'s server" and r :: cref and pk :: packet and sub :: subscription and now :: int
  assumes q0: "fhQos (pkFixedHeader pk) = 0" and ok: "readable (opHooks (svOps sv))"
  defines "sv' \<equiv> snd (publishToClient now r sub pk sv)"
  shows "q \<noteq> r \<Longrightarrow> svHeap sv' q = svHeap sv q" "clID (svHeap sv' r) = clID (svHeap sv r)"
    "csOutbound (clState (svHeap sv' r)) = queue_with (svCaps sv) pk (Some sub) (svHeap sv r)"
    "svClients sv' = svClients sv" "svNext sv' = svNext sv" "svCaps sv' = svCaps sv" "opHooks (svOps sv') = opHooks (svOps sv)"
proof -
  let ?f = "\<lambda>hs s. Hooks_OnACLCheck hs s (svHeap sv r) (pkTopicName pk) False"
  obtain allowed sv1 where a: "ask ?f sv = (allowed, sv1)" by (metis prod.exhaust)
  have al: allowed using ok ask_frame(4) [of ?f sv] a by (simp add: readable_def)
  have f1: "svHeap sv1 = svHeap sv" "svClients sv1 = svClients sv" "svNext sv1 = svNext sv" "svCaps sv1 = svCaps sv"
    "opHooks (svOps sv1) = opHooks (svOps sv)"
    using ask_frame [of ?f sv] ask_heap [of ?f sv] a by simp_all
  obtain out cl where o: "outgoing (svCaps sv) pk sub (svHeap sv r) = (out, cl)" by (metis prod.exhaust)
  have cl: "clNet cl = clNet (svHeap sv r)" "clID cl = clID (svHeap sv r)"
    "csOutbound (clState cl) = csOutbound (clState (svHeap sv r))" "csOpen (clState cl) = csOpen (clState (svHeap sv r))"
    using o alias_frame [of pk "svHeap sv r"] by (simp_all add: outgoing_def) (metis snd_conv)+
  define sv2 where "sv2 = set_client r cl sv1"
  have z: "fhQos (pkFixedHeader out) = 0" using outgoing_qos [OF q0] o by (metis fst_conv)
  have e: "sv' = (if sNoLocal sub \<and> pkOrigin pk = clID (svHeap sv r) then sv else snd (enqueue r pk out sv2))"
    using a al z o by (simp add: sv'_def publishToClient_def Let_def sv2_def outgoing_def f1)
  have h2: "svHeap sv2 = (svHeap sv)(r := cl)" by (simp add: sv2_def set_client_def f1)
  have f2: "svClients sv2 = svClients sv" "svNext sv2 = svNext sv" "svCaps sv2 = svCaps sv" "opHooks (svOps sv2) = opHooks (svOps sv)"
    by (simp_all add: sv2_def set_client_def f1)
  note n = enqueue_frame [OF z, where r = r and pk = pk and sv = sv2]
  show "q \<noteq> r \<Longrightarrow> svHeap sv' q = svHeap sv q" "clID (svHeap sv' r) = clID (svHeap sv r)"
    "svClients sv' = svClients sv" "svNext sv' = svNext sv" "svCaps sv' = svCaps sv" "opHooks (svOps sv') = opHooks (svOps sv)"
    by (simp_all add: e n(1) n(2) n(4-7) f2 h2 cl)
  show "csOutbound (clState (svHeap sv' r)) = queue_with (svCaps sv) pk (Some sub) (svHeap sv r)"
    by (simp add: e n(3) f2 h2 cl queue_with_def receives_def o Closed_def)
qed

section \<open>All subscribers\<close>

definition found_for :: "'s server \<Rightarrow> (gostring, subscription) gomap \<Rightarrow> cref \<Rightarrow> subscription option" where
  "found_for sv found r = (if Clients_Get (svClients sv) (clID (svHeap sv r)) = Some r
     then m_get found (clID (svHeap sv r)) else None)"

lemma deliver_frame:
  fixes sv :: "'s server" and pk :: packet and now :: int and name :: gostring and sub :: subscription
  assumes q0: "fhQos (pkFixedHeader pk) = 0" and ok: "readable (opHooks (svOps sv))"
    and t: "table_ok sv (svClients sv)"
  defines "sv' \<equiv> deliver now pk (name, sub) sv"
  shows "clID (svHeap sv' r) = clID (svHeap sv r)" "svClients sv' = svClients sv" "svNext sv' = svNext sv"
    "svCaps sv' = svCaps sv" "opHooks (svOps sv') = opHooks (svOps sv)"
    "found_for sv [(name, sub)] r = None \<Longrightarrow> svHeap sv' r = svHeap sv r"
    "found_for sv [(name, sub)] r = Some s \<Longrightarrow>
      csOutbound (clState (svHeap sv' r)) = queue_with (svCaps sv) pk (Some s) (svHeap sv r)"
proof -
  note f = publishToClient_frame [OF q0 ok, where sub = sub and now = now]
  show "svClients sv' = svClients sv" "svNext sv' = svNext sv" "svCaps sv' = svCaps sv"
    "opHooks (svOps sv') = opHooks (svOps sv)"
    by (simp_all add: sv'_def deliver_def f(4-7) split: option.split)
  show "clID (svHeap sv' r) = clID (svHeap sv r)"
  proof (cases "Clients_Get (svClients sv) name")
    case (Some r')
    then show ?thesis using f(1) [where q = r and r = r'] f(2) by (cases "r = r'") (simp_all add: sv'_def deliver_def)
  qed (simp add: sv'_def deliver_def)
  show "svHeap sv' r = svHeap sv r" if none: "found_for sv [(name, sub)] r = None"
  proof (cases "Clients_Get (svClients sv) name")
    case (Some r')
    have "clID (svHeap sv r') = name" by (rule table_okD(1) [OF t Some])
    then have "found_for sv [(name, sub)] r' = Some sub" using Some by (simp add: found_for_def)
    then have "r \<noteq> r'" using none by auto
    then show ?thesis using Some f(1) [where q = r and r = r'] by (simp add: sv'_def deliver_def)
  qed (simp add: sv'_def deliver_def)
  show "csOutbound (clState (svHeap sv' r)) = queue_with (svCaps sv) pk (Some s) (svHeap sv r)"
    if "found_for sv [(name, sub)] r = Some s"
    using that f(3) by (auto simp: sv'_def deliver_def found_for_def split: if_splits)
qed

lemma deliver_all:
  fixes sv :: "'s server"
  assumes "fhQos (pkFixedHeader pk) = 0" "readable (opHooks (svOps sv))" "table_ok sv (svClients sv)" "map_ok found"
  shows "csOutbound (clState (svHeap (fold (deliver now pk) found sv) r))
    = queue_with (svCaps sv) pk (found_for sv found r) (svHeap sv r)"
  using assms
proof (induction found arbitrary: sv)
  case (Cons x found)
  obtain name sub where x: "x = (name, sub)" by (cases x)
  define sv1 where "sv1 = deliver now pk (name, sub) sv"
  note f = deliver_frame [OF Cons.prems(1-3), where now = now and name = name and sub = sub, folded sv1_def]
  have nx: "m_get found name = None" "map_ok found" using Cons.prems(4) by (simp_all add: x map_ok_Cons)
  have t1: "table_ok sv1 (svClients sv1)" using Cons.prems(3) by (simp add: table_ok_def f(1-3))
  have ih: "csOutbound (clState (svHeap (fold (deliver now pk) found sv1) r))
      = queue_with (svCaps sv) pk (found_for sv1 found r) (svHeap sv1 r)"
    using Cons.IH [of sv1] Cons.prems(1,2) t1 nx(2) f(4,5) by simp
  have ff: "found_for sv1 found r = found_for sv found r" by (simp add: found_for_def f(1,2))
  show ?case
  proof (cases "found_for sv [(name, sub)] r")
    case None
    then have "svHeap sv1 r = svHeap sv r" "found_for sv (x # found) r = found_for sv found r"
      using f(6) by (auto simp: found_for_def x split: if_splits)
    then show ?thesis using ih ff by (simp add: x sv1_def)
  next
    case (Some s)
    then have "found_for sv found r = None" "found_for sv (x # found) r = Some s"
      using nx(1) by (auto simp: found_for_def x split: if_splits)
    then show ?thesis using ih ff f(7) [OF Some] by (simp add: x sv1_def queue_with_def)
  qed
qed (simp add: queue_with_def found_for_def)

lemma map_ok_Subscribers: "map_ok (sbSubscriptions (TopicsIndex_Subscribers topic x))"
proof (cases "topic = []")
  case False
  have "map_ok (fold merge_into css m)" if "map_ok m" for css m
    using that by (induction css arbitrary: m) (auto simp: merge_into_def Let_def split: prod.splits)
  then show ?thesis by (simp add: Subscribers_fields(1) [OF False])
qed (simp add: TopicsIndex_Subscribers_def scanSubscribers.simps no_subscribers_def)

lemma stamp_fields:
  "pkTopicName (stamp now c pk) = pkTopicName pk" "pkOrigin (stamp now c pk) = pkOrigin pk"
  "fhQos (pkFixedHeader (stamp now c pk)) = fhQos (pkFixedHeader pk)"
  by (simp_all add: stamp_def Let_def)

lemma publish_delivers:
  fixes sv :: "'s server"
  assumes "server_ok sv" "fhQos (pkFixedHeader pk) = 0" "\<not> pkIgnore pk" "readable (opHooks (svOps sv))"
    and "sbShared (TopicsIndex_Subscribers (pkTopicName pk) (svTopics sv)) = []"
  shows "csOutbound (clState (svHeap (publishToSubscribers now pk sv) r)) =
    queue_with (svCaps sv) (stamp now (svCaps sv) pk)
      (found_for sv (sbSubscriptions (TopicsIndex_Subscribers (pkTopicName pk) (svTopics sv))) r) (svHeap sv r)"
proof -
  let ?pk = "stamp now (svCaps sv) pk" and ?subs = "TopicsIndex_Subscribers (pkTopicName pk) (svTopics sv)"
  define sv1 where "sv1 = sv\<lparr>svDelivered := svDelivered sv @ map (\<lambda>(_, s). (s, ?pk)) (sbInlineSubscriptions ?subs)\<rparr>"
  have e: "publishToSubscribers now pk sv = fold (deliver now ?pk) (sbSubscriptions ?subs) sv1"
    using assms(3,5) by (simp add: publishToSubscribers_def Let_def select_subscribers_def stamp_fields sv1_def)
  have same: "svHeap sv1 = svHeap sv" "svOps sv1 = svOps sv" "svClients sv1 = svClients sv" "svNext sv1 = svNext sv"
    by (simp_all add: sv1_def)
  have "table_ok sv1 (svClients sv1)" using assms(1) by (simp add: server_ok_def table_ok_def same)
  from deliver_all [OF _ _ this map_ok_Subscribers, of ?pk] show ?thesis
    using assms(2,4) by (simp add: e same stamp_fields found_for_def)
qed

end
