(* ===== verification/Mqtt_Departure.thy ===== *)
theory Mqtt_Departure
  imports Mqtt_Delivery
begin

text \<open>
  How clients come and go: a refused connection leaves no trace, a client that leaves normally
  publishes nothing, a will is sent once, a session is taken over with everything it holds, and a
  tick of the event loop removes what has expired and nothing else.
\<close>

section \<open>Refused connections\<close>

definition apart :: "cref \<Rightarrow> 's server \<Rightarrow> 's server \<Rightarrow> bool" where
  "apart r sv sv' \<longleftrightarrow> svTopics sv' = svTopics sv \<and> svDelivered sv' = svDelivered sv
     \<and> svClients sv' = svClients sv \<and> svWillDelayed sv' = svWillDelayed sv
     \<and> opHooks (svOps sv') = opHooks (svOps sv) \<and> (\<forall>q. q \<noteq> r \<longrightarrow> svHeap sv' q = svHeap sv q)"

lemma apart_refl [simp]: "apart r sv sv"
  by (simp add: apart_def)

lemma apart_trans: "apart r a b \<Longrightarrow> apart r b c \<Longrightarrow> apart r a c"
  by (simp add: apart_def)

lemma apart_steps:
  "apart r s0 sv \<Longrightarrow> apart r s0 (upd_client r f sv)"
  "apart r s0 sv \<Longrightarrow> apart r s0 (tally g sv)"
  "apart r s0 sv \<Longrightarrow> apart r s0 (notify h sv)"
  by (simp_all add: apart_def store_defs)

lemma apart_ask: "apart r s0 sv \<Longrightarrow> apart r s0 (snd (ask f sv))"
  by (simp add: apart_def ask_def split_beta Let_def upd_ops_def)

lemma apart_WriteTo: "apart r s0 sv \<Longrightarrow> apart r s0 (snd (WriteTo now r pk sv))"
proof -
  obtain e sv' where w: "WriteTo now r pk sv = (e, sv')" by (metis prod.exhaust)
  show "apart r s0 sv \<Longrightarrow> ?thesis"
    using WriteTo_frame(1,6-9,11) [OF w] by (simp add: apart_def w)
qed

lemma apart_on_client:
  assumes "apart r s0 sv" "\<And>a cl op. f (svHeap sv r) (svOps sv) = (a, cl, op) \<Longrightarrow> opHooks op = opHooks (svOps sv)"
  shows "apart r s0 (snd (on_client r f sv))"
proof -
  obtain a cl op where e: "f (svHeap sv r) (svOps sv) = (a, cl, op)" by (metis prod_cases3)
  show ?thesis using assms(1) assms(2) [OF e] by (simp add: apart_def on_client_def e)
qed

lemma apart_read: "apart r sv (snd (readConnectionPacket r sv))"
proof -
  have h: "apart r sv (snd (on_client r ReadFixedHeader sv))"
    by (rule apart_on_client) (auto dest: ReadFixedHeader_frame)
  have "apart r sv (snd (on_client r (ReadPacket fh) (snd (on_client r ReadFixedHeader sv))))" for fh
    by (rule apart_on_client [OF h]) (auto dest: ReadPacket_frame)
  with h show ?thesis by (simp add: readConnectionPacket_def split_beta split: sum.split)
qed

lemma apart_branch:
  "apart r sv (snd a) \<Longrightarrow> apart r sv (snd b) \<Longrightarrow> apart r sv (snd (if c then a else b))"
  "apart r sv sv' \<Longrightarrow> apart r sv (snd (x, sv'))"
  by simp_all

lemma apart_SendConnack: "apart r s0 sv \<Longrightarrow> apart r s0 (snd (SendConnack now r reason b given sv))"
  unfolding SendConnack_def Let_def by (intro apart_branch apart_WriteTo apart_steps)

lemma refuse_refused: "\<exists>err. fst (refuse now r code sv) = Refused err"
  by (auto simp: refuse_def split: prod.splits option.splits)

lemma apart_refuse: "apart r s0 sv \<Longrightarrow> apart r s0 (snd (refuse now r code sv))"
  using apart_SendConnack [of r s0 sv now code False None] by (auto simp: refuse_def split: prod.splits option.splits)

lemma open_not_refused: "fst (open_session now pk r sv) \<noteq> Refused err"
  by (auto simp: open_session_def Let_def split_beta split: prod.splits option.splits)

text \<open>What the decision to admit a client comes to.\<close>

lemma admit_cases:
  obtains (busy) "\<exists>err. fst (admit now pk r sv) = Refused err" "apart r sv (snd (admit now pk r sv))"
  | (opened) sv0 sv1 where "admit now pk r sv = open_session now pk r sv1" "apart r sv sv1" "fst (ask (\<lambda>hs s. Hooks_OnConnectAuthenticate hs s (svHeap sv0 r) pk) sv0)"
      "opHooks (svOps sv0) = opHooks (svOps sv)"
proof (cases "ClientsConnected (svInfo sv) \<ge> MaximumClients (svCaps sv)
    \<or> validateConnect (svCaps sv) (svHeap sv r) pk \<noteq> CodeSuccess")
  case True
  then have "(\<exists>err. fst (admit now pk r sv) = Refused err) \<and> apart r sv (snd (admit now pk r sv))"
    using apart_SendConnack [OF apart_refl] apart_refuse [OF apart_refl] refuse_refused
    by (auto simp: admit_def Let_def)
  then show thesis using busy by blast
next
  case False
  obtain e sv0 where c: "ask (\<lambda>hs s. Hooks_OnConnect hs s (svHeap sv r) pk) sv = (e, sv0)" by (metis prod.exhaust)
  obtain ok sv1 where a: "ask (\<lambda>hs s. Hooks_OnConnectAuthenticate hs s (svHeap sv0 r) pk) sv0 = (ok, sv1)" by (metis prod.exhaust)
  have 0: "apart r sv sv0" using apart_ask [OF apart_refl, of r sv] c by (metis snd_conv)
  have 1: "apart r sv sv1" using apart_ask [OF 0] a by (metis snd_conv)
  have d: "admit now pk r sv = (case e of Some err \<Rightarrow> (Refused err, sv0) | None \<Rightarrow>
      if \<not> ok then refuse now r ErrBadUsernameOrPassword sv1 else open_session now pk r sv1)"
    using False c a by (cases e) (simp_all add: admit_def Let_def)
  show thesis
  proof (cases "e = None \<and> ok")
    case True
    show thesis by (rule opened [of sv1 sv0]) (use True d 1 a 0 in \<open>auto simp: apart_def\<close>)
  next
    case False
    then have "(\<exists>err. fst (admit now pk r sv) = Refused err) \<and> apart r sv (snd (admit now pk r sv))"
      using d 0 apart_refuse [OF 1] refuse_refused by (auto split: option.splits)
    then show thesis using busy by blast
  qed
qed

lemma refused_apart:
  assumes "fst (establish now fresh listener r sv) = Refused err"
  shows "apart r sv (snd (establish now fresh listener r sv))"
proof -
  obtain res sv1 where c: "readConnectionPacket r sv = (res, sv1)" by (metis prod.exhaust)
  have 1: "apart r sv sv1" using apart_read [of r sv] c by simp
  show ?thesis
  proof (cases res)
    case (Inr pk)
    let ?sv2 = "upd_client r (ParseConnect (svOps sv1) fresh listener pk) sv1"
    have 2: "apart r sv ?sv2" by (rule apart_steps(1) [OF 1])
    have e: "establish now fresh listener r sv = admit now pk r ?sv2" by (simp add: establish_def c Inr)
    show ?thesis unfolding e
    proof (cases now pk r ?sv2 rule: admit_cases)
      case busy
      then show "apart r sv (snd (admit now pk r ?sv2))" using apart_trans [OF 2] by blast
    next
      case (opened sv0 sv3)
      then show "apart r sv (snd (admit now pk r ?sv2))"
        using assms open_not_refused [of now pk r sv3 err] by (simp add: e)
    qed
  qed (use 1 in \<open>simp add: establish_def c\<close>)
qed

lemma unauthenticated_refused:
  assumes "\<And>s cl pk. \<not> snd (Hooks_OnConnectAuthenticate (opHooks (svOps sv)) s cl pk)"
  shows "\<exists>err. fst (establish now fresh listener r sv) = Refused err"
proof -
  obtain res sv1 where c: "readConnectionPacket r sv = (res, sv1)" by (metis prod.exhaust)
  have 1: "apart r sv sv1" using apart_read [of r sv] c by simp
  show ?thesis
  proof (cases res)
    case (Inr pk)
    let ?sv2 = "upd_client r (ParseConnect (svOps sv1) fresh listener pk) sv1"
    have h: "opHooks (svOps ?sv2) = opHooks (svOps sv)" using apart_steps(1) [OF 1] by (simp add: apart_def)
    have e: "establish now fresh listener r sv = admit now pk r ?sv2" by (simp add: establish_def c Inr)
    show ?thesis unfolding e
    proof (cases now pk r ?sv2 rule: admit_cases)
      case (opened sv0 sv1)
      then show "\<exists>err. fst (admit now pk r ?sv2) = Refused err"
        using assms by (simp add: ask_frame(4) h)
    qed
  qed (simp add: establish_def c)
qed

section \<open>Leaving\<close>

definition undisturbed :: "cref \<Rightarrow> 's server \<Rightarrow> 's server \<Rightarrow> bool" where
  "undisturbed r sv sv' \<longleftrightarrow> svDelivered sv' = svDelivered sv \<and> svWillDelayed sv' = svWillDelayed sv
     \<and> (\<forall>q. q \<noteq> r \<longrightarrow> svHeap sv' q = svHeap sv q)"

lemma undisturbed_refl [simp]: "undisturbed r sv sv"
  by (simp add: undisturbed_def)

lemma undisturbed_steps:
  "undisturbed r s0 sv \<Longrightarrow> undisturbed r s0 (upd_client r f sv)"
  "undisturbed r s0 sv \<Longrightarrow> undisturbed r s0 (tally g sv)"
  "undisturbed r s0 sv \<Longrightarrow> undisturbed r s0 (notify h sv)"
  "undisturbed r s0 sv \<Longrightarrow> undisturbed r s0 (sv\<lparr>svTopics := x\<rparr>)"
  "undisturbed r s0 sv \<Longrightarrow> undisturbed r s0 (sv\<lparr>svClients := c\<rparr>)"
  "undisturbed r s0 sv \<Longrightarrow> undisturbed r s0 (clear_inflights r sv)"
  by (simp_all add: undisturbed_def store_defs clear_inflights_def split_beta Let_def)

lemma undisturbed_if: "undisturbed r s0 a \<Longrightarrow> undisturbed r s0 b \<Longrightarrow> undisturbed r s0 (if c then a else b)"
  by simp

lemma undisturbed_fold:
  "(\<And>x sv. undisturbed r s0 sv \<Longrightarrow> undisturbed r s0 (f x sv)) \<Longrightarrow> undisturbed r s0 sv \<Longrightarrow> undisturbed r s0 (fold f xs sv)"
  by (induction xs arbitrary: sv) simp_all

lemma undisturbed_Unsubscribe: "undisturbed r s0 sv \<Longrightarrow> undisturbed r s0 (UnsubscribeClient r sv)"
  unfolding UnsubscribeClient_def Let_def split_beta drop_subscription_def
  by (intro undisturbed_if undisturbed_fold undisturbed_steps)

lemma leaves_quietly: "undisturbed r sv (end_session now r None sv)"
  unfolding end_session_def leave_def Let_def option.case
  by (intro undisturbed_if undisturbed_steps undisturbed_Unsubscribe undisturbed_refl)

text \<open>A will without delay clears its flag, so that it is not sent again.\<close>

lemma will_cleared:
  "wWillDelayInterval (cpWill (clProperties (svHeap sv r))) = 0 \<Longrightarrow>
     wFlag (cpWill (clProperties (svHeap (sendLWT now r sv) r))) = 0"
  by (auto simp: sendLWT_def Let_def split_beta upd_heap)

lemma no_will_no_send: "wFlag (cpWill (clProperties (svHeap sv r))) = 0 \<Longrightarrow> sendLWT now r sv = sv"
  by (simp add: sendLWT_def Let_def)

section \<open>Taking over a session\<close>

lemma m_get_fold_del: "m_get (fold (\<lambda>(k, _). Subscriptions_Delete k) xs m) j = (if j \<in> fst ` set xs then None else m_get m j)"
  by (induction xs arbitrary: m) (auto simp: Subscriptions_defs)

lemma delete_all: "fold (\<lambda>(k, _). Subscriptions_Delete k) m m = []"
proof -
  have "m_get (fold (\<lambda>(k, _). Subscriptions_Delete k) m m) j = None" for j
    by (auto simp: m_get_fold_del map_of_eq_None_iff)
  then show ?thesis by (simp flip: m_get_empty_iff)
qed

lemma drop_all:
  "iInternal (clInflight (fst (fold drop_inflight tks s)))
     = fold (\<lambda>tk. m_del (pkPacketID tk)) tks (iInternal (clInflight (fst s)))"
proof (induction tks arbitrary: s)
  case (Cons tk tks)
  have "iInternal (clInflight (fst (drop_inflight tk s))) = m_del (pkPacketID tk) (iInternal (clInflight (fst s)))"
    unfolding drop_change by (simp add: Inflight_Delete_def Let_def)
  then show ?case by (simp add: Cons)
qed simp

lemma m_get_fold_drop: "m_get (fold (\<lambda>tk. m_del (pkPacketID tk)) tks m) k = (if k \<in> pkPacketID ` set tks then None else m_get m k)"
  by (induction tks arbitrary: m) auto

lemma clear_inflights_empty:
  assumes "inflight_ok (clInflight (svHeap sv r))"
  shows "iInternal (clInflight (svHeap (clear_inflights r sv) r)) = []"
proof -
  let ?i = "clInflight (svHeap sv r)" and ?tks = "Inflight_GetAll False (clInflight (svHeap sv r))"
  have "m_get (fold (\<lambda>tk. m_del (pkPacketID tk)) ?tks (iInternal ?i)) k = None" for k
  proof (cases "m_get (iInternal ?i) k")
    case (Some p)
    then have "(k, p) \<in> set (iInternal ?i)" using inflight_ok_map [OF assms] by (simp add: m_get_in_set)
    then have "pkPacketID p = k" using assms by (auto simp: inflight_ok_def list_all_iff)
    then have "p \<in> set ?tks" using Some set_Inflight_GetAll [OF assms] by (simp add: Inflight_Get_def)
    then show ?thesis using \<open>pkPacketID p = k\<close> by (auto simp: m_get_fold_drop)
  qed (simp add: m_get_fold_drop)
  then have "fold (\<lambda>tk. m_del (pkPacketID tk)) ?tks (iInternal ?i) = []" by (simp flip: m_get_empty_iff)
  then show ?thesis
    using drop_all [of ?tks "(svHeap sv r, svOps sv)"] by (simp add: clear_inflights_def ClearInflights_def split_beta Let_def)
qed

lemma inherit_subscriptions:
  "svHeap (fold (inherit_subscription r) subs sv) = (svHeap sv)(r :=
      upd_state (csSubscriptions_update (fold (\<lambda>(_, s). Subscriptions_Add (sFilter s) s) subs)) (svHeap sv r))
    \<and> svTopics (fold (inherit_subscription r) subs sv)
      = fold (\<lambda>(_, s) x. fst (TopicsIndex_Subscribe (clID (svHeap sv r)) s x)) subs (svTopics sv)"
proof (induction subs arbitrary: sv)
  case (Cons x subs)
  have h: "svHeap (inherit_subscription r x sv) = (svHeap sv)(r :=
      upd_state (csSubscriptions_update (Subscriptions_Add (sFilter (snd x)) (snd x))) (svHeap sv r))"
    by (simp add: inherit_subscription_def split_beta Let_def upd_heap)
  have t: "svTopics (inherit_subscription r x sv) = fst (TopicsIndex_Subscribe (clID (svHeap sv r)) (snd x) (svTopics sv))"
    by (simp add: inherit_subscription_def split_beta Let_def upd_client_def set_client_def tally_def upd_ops_def)
  show ?case using Cons [of "inherit_subscription r x sv"] by (simp add: h t split_beta comp_def fun_eq_iff)
next
  case Nil
  have "upd_state (csSubscriptions_update (\<lambda>m. m)) cl = cl" for cl
    by (intro client.equality client_state.equality) simp_all
  then show ?case by (simp add: fun_eq_iff)
qed

lemma m_get_fold_add:
  "list_all (\<lambda>(f, s). sFilter s = f) subs \<Longrightarrow> map_ok subs \<Longrightarrow>
    m_get (fold (\<lambda>(_, s). Subscriptions_Add (sFilter s) s) subs m) f
      = (case m_get subs f of Some s \<Rightarrow> Some s | None \<Rightarrow> m_get m f)"
proof (induction subs arbitrary: m)
  case (Cons x subs)
  obtain k s where x: "x = (k, s)" by (cases x)
  have "sFilter s = k" "m_get subs k = None" "map_ok subs" using Cons.prems by (simp_all add: x map_ok_Cons)
  then show ?case using Cons by (auto simp: x Subscriptions_defs split: option.split)
qed simp

lemma Unsubscribe_taken:
  "IsTakenOver (svHeap sv r) \<Longrightarrow> UnsubscribeClient r sv
     = upd_client r (upd_state (csSubscriptions_update (fold (\<lambda>(k, _). Subscriptions_Delete k)
         (csSubscriptions (clState (svHeap sv r)))))) sv"
  by (simp add: UnsubscribeClient_def Let_def Subscriptions_GetAll_def upd_client_def set_client_def IsTakenOver_def)

lemma Disconnect_answers:
  "only_answers e sv (snd (DisconnectClient now e code sv))"
  "clProperties (svHeap (snd (DisconnectClient now e code sv)) q) = clProperties (svHeap sv q)"
  "clID (svHeap (snd (DisconnectClient now e code sv)) q) = clID (svHeap sv q)"
proof -
  show "only_answers e sv (snd (DisconnectClient now e code sv))" by (rule answers_Disconnect)
  have w: "clProperties (svHeap (snd (WriteTo now e pk sv)) p) = clProperties (svHeap sv p)"
    "clID (svHeap (snd (WriteTo now e pk sv)) p) = clID (svHeap sv p)" for pk p
    using WriteTo_frame(3,4) [of now e pk sv _ _ p] by (metis prod.collapse)+
  show "clProperties (svHeap (snd (DisconnectClient now e code sv)) q) = clProperties (svHeap sv q)"
    "clID (svHeap (snd (DisconnectClient now e code sv)) q) = clID (svHeap sv q)"
    by (simp_all add: DisconnectClient_def Let_def split_beta upd_heap Stop_def w)
qed

lemma drops_state:
  "csSubscriptions (clState (fst (fold drop_inflight tks x))) = csSubscriptions (clState (fst x))"
  "csIsTakenOver (clState (fst (fold drop_inflight tks x))) = csIsTakenOver (clState (fst x))"
  by (induction tks arbitrary: x) (simp_all add: drop_change)

text \<open>The whole take-over: the old client \<open>e\<close>, the new one \<open>r\<close>.\<close>

lemma takes_over:
  fixes sv sv' :: "'s server" and e r :: cref
  defines "old \<equiv> svHeap sv e" and "new \<equiv> svHeap sv r"
  assumes ok: "server_ok sv" and ex: "Clients_Get (svClients sv) (clID new) = Some e" and ne: "e \<noteq> r"
    and keep: "\<not> cClean (pkConnect pk)" "\<not> (cpClean (clProperties old) \<and> cpProtocolVersion (clProperties old) < 5)"
    and res: "inheritClientSession now pk r sv = (present, sv')"
  shows "present"
    and "Subscriptions_Get (csSubscriptions (clState (svHeap sv' r))) f
      = (case Subscriptions_Get (csSubscriptions (clState old)) f of Some s \<Rightarrow> Some s
         | None \<Rightarrow> Subscriptions_Get (csSubscriptions (clState new)) f)"
    and "Inflight_Len (clInflight old) > 0 \<Longrightarrow> iInternal (clInflight (svHeap sv' r)) = iInternal (clInflight old)"
    and "IsTakenOver (svHeap sv' e)" "csSubscriptions (clState (svHeap sv' e)) = []" "iInternal (clInflight (svHeap sv' e)) = []"
    and "svTopics sv' = fold (\<lambda>(_, s) x. fst (TopicsIndex_Subscribe (clID new) s x)) (csSubscriptions (clState old)) (svTopics sv)"
proof -
  define sv1 where "sv1 = snd (DisconnectClient now e ErrSessionTakenOver sv)"
  note d = Disconnect_answers [where e = e and sv = sv and now = now and code = ErrSessionTakenOver, folded sv1_def, unfolded only_answers_def]
  have new1: "svHeap sv1 r = new" using d(1) ne by (simp add: new_def)
  have old1: "csSubscriptions (clState (svHeap sv1 e)) = csSubscriptions (clState old)"
    "clInflight (svHeap sv1 e) = clInflight old" using d(1) by (simp_all add: old_def)
  define sv2 where "sv2 = mark_taken_over e sv1"
  define sv3 where "sv3 = inherit_inflight e r sv2"
  define subs where "subs = csSubscriptions (clState old)"
  define sv4 where "sv4 = fold (inherit_subscription r) subs sv3"
  define sv5 where "sv5 = UnsubscribeClient e sv4"
  have h2: "svHeap sv2 r = new" "IsTakenOver (svHeap sv2 e)" "csSubscriptions (clState (svHeap sv2 e)) = subs"
    "clInflight (svHeap sv2 e) = clInflight old" "svTopics sv2 = svTopics sv"
    using ne d(1) by (simp_all add: sv2_def mark_taken_over_def upd_client_def set_client_def new1 old1 subs_def IsTakenOver_def)
  have h3: "svHeap sv3 e = svHeap sv2 e" "svTopics sv3 = svTopics sv" "clID (svHeap sv3 r) = clID new"
    "csSubscriptions (clState (svHeap sv3 r)) = csSubscriptions (clState new)"
    "Inflight_Len (clInflight old) > 0 \<Longrightarrow> iInternal (clInflight (svHeap sv3 r)) = iInternal (clInflight old)"
    using ne h2 by (auto simp: sv3_def inherit_inflight_def Let_def upd_client_def set_client_def Inflight_Clone_def
        ResetSendQuota_def ResetReceiveQuota_def)
  note i4 = inherit_subscriptions [of r subs sv3, folded sv4_def]
  have h4: "svHeap sv4 e = svHeap sv2 e" "svHeap sv4 r =
      upd_state (csSubscriptions_update (fold (\<lambda>(_, s). Subscriptions_Add (sFilter s) s) subs)) (svHeap sv3 r)"
    using i4 ne by (simp_all add: h3(1))
  have t5: "sv5 = upd_client e (upd_state (csSubscriptions_update (fold (\<lambda>(k, _). Subscriptions_Delete k) subs))) sv4"
    unfolding sv5_def by (subst Unsubscribe_taken) (simp_all add: h4(1) h2)
  have h5: "svHeap sv5 r = svHeap sv4 r" "csSubscriptions (clState (svHeap sv5 e)) = []" "IsTakenOver (svHeap sv5 e)"
    "clInflight (svHeap sv5 e) = clInflight old" "svTopics sv5 = svTopics sv4"
    using ne h2 by (simp_all add: t5 upd_client_def set_client_def h4(1) delete_all IsTakenOver_def)
  have res': "(present, sv') = (True, clear_inflights e sv5)"
    using keep ex d by (simp add: res [symmetric] inheritClientSession_def Let_def split_beta Subscriptions_GetAll_def
        sv1_def [symmetric] sv2_def [symmetric] sv3_def [symmetric] new_def old_def)
      (simp add: sv5_def sv4_def subs_def h3(1) h2(3) [unfolded subs_def])
  then have r': "present" "sv' = clear_inflights e sv5" by simp_all
  have c6: "svHeap sv' q = svHeap sv5 q" if "q \<noteq> e" for q using that by (simp add: r' clear_inflights_def split_beta Let_def)
  obtain cl op where cl: "ClearInflights (svHeap sv5 e) (svOps sv5) = (cl, op)" by (metis prod.exhaust)
  have he: "svHeap sv' e = cl" "svTopics sv' = svTopics sv5" by (simp_all add: r' clear_inflights_def cl)
  have "inflight_ok (clInflight (svHeap sv5 e))"
    using ok by (simp add: h5 old_def server_ok_def quotas.all_good_def client_ok_def)
  then show "iInternal (clInflight (svHeap sv' e)) = []" unfolding r'(2) by (rule clear_inflights_empty)
  have "cl = fst (fold drop_inflight (Inflight_GetAll False (clInflight (svHeap sv5 e))) (svHeap sv5 e, svOps sv5))"
    using cl unfolding ClearInflights_def by (metis fst_conv)
  then have cs: "csSubscriptions (clState cl) = csSubscriptions (clState (svHeap sv5 e))"
    "csIsTakenOver (clState cl) = csIsTakenOver (clState (svHeap sv5 e))"
    by (simp_all add: drops_state)
  show "present" by (rule r')
  show "IsTakenOver (svHeap sv' e)" "csSubscriptions (clState (svHeap sv' e)) = []"
    using h5 cs by (simp_all add: he IsTakenOver_def)
  show "svTopics sv' = fold (\<lambda>(_, s) x. fst (TopicsIndex_Subscribe (clID new) s x)) (csSubscriptions (clState old)) (svTopics sv)"
    using i4 by (simp add: he h5 h3 subs_def)
  have sok: "list_all (\<lambda>(f, s). sFilter s = f) subs" "map_ok subs"
    using ok by (simp_all add: subs_def old_def server_ok_def quotas.all_good_def client_ok_def subscriptions_ok_def)
  show "Subscriptions_Get (csSubscriptions (clState (svHeap sv' r))) f
      = (case Subscriptions_Get (csSubscriptions (clState old)) f of Some s \<Rightarrow> Some s
         | None \<Rightarrow> Subscriptions_Get (csSubscriptions (clState new)) f)"
    using ne m_get_fold_add [OF sok] by (simp add: c6 h5 h4 h3 Subscriptions_Get_def subs_def split: option.split)
  show "iInternal (clInflight (svHeap sv' r)) = iInternal (clInflight old)" if "Inflight_Len (clInflight old) > 0"
    using ne h3(5) [OF that] by (simp add: c6 h5 h4)
qed

section \<open>Expiry\<close>

lemma fold_delete:
  "fold (\<lambda>(k, v) m. if P v then m_del k m else m) xs m
     = filter (\<lambda>(j, _). \<forall>(k, v) \<in> set xs. P v \<longrightarrow> j \<noteq> k) m"
proof (induction xs arbitrary: m)
  case (Cons x xs)
  obtain k v where x: "x = (k, v)" by (cases x)
  have "m_del k m = filter (\<lambda>(j, _). j \<noteq> k) m"
    by (induction m) auto
  then show ?case by (auto simp: x Cons.IH intro!: filter_cong)
qed simp

lemma fold_delete_all:
  assumes "map_ok m"
  shows "fold (\<lambda>(k, v) m. if P v then m_del k m else m) m m = filter (\<lambda>(_, v). \<not> P v) m"
  unfolding fold_delete
proof (rule filter_cong [OF refl])
  fix x assume x: "x \<in> set m"
  obtain j v where xv: "x = (j, v)" by (cases x)
  have "w = v" if "(j, w) \<in> set m" for w
    using that x eq_key_imp_eq_value [OF assms [unfolded map_ok_def]] by (simp add: xv)
  then show "(case x of (j, _) \<Rightarrow> \<forall>(k, v) \<in> set m. P v \<longrightarrow> j \<noteq> k) = (case x of (_, v) \<Rightarrow> \<not> P v)"
    using x unfolding xv by blast
qed

lemma clear_clients:
  "svTopics (fold (expire_client dt) xs sv) = svTopics sv \<and> svHeap (fold (expire_client dt) xs sv) = svHeap sv
    \<and> svCaps (fold (expire_client dt) xs sv) = svCaps sv
    \<and> svClients (fold (expire_client dt) xs sv)
      = fold (\<lambda>(k, r) m. if session_expired dt (svCaps sv) (svHeap sv r) then m_del k m else m) xs (svClients sv)"
proof (induction xs arbitrary: sv)
  case (Cons x xs)
  show ?case
    by (simp add: Cons split_beta) (simp add: expire_client_def split_beta Let_def Clients_Delete_def store_defs)
qed simp

lemma expired_clients:
  assumes "map_ok (svClients sv)"
  shows "svClients (clearExpiredClients dt sv)
      = filter (\<lambda>(_, r). \<not> session_expired dt (svCaps sv) (svHeap sv r)) (svClients sv)"
    "svTopics (clearExpiredClients dt sv) = svTopics sv"
  using clear_clients [of dt "svClients sv" sv] fold_delete_all [OF assms, of "\<lambda>r. session_expired dt (svCaps sv) (svHeap sv r)"]
  by (simp_all add: clearExpiredClients_def Clients_GetAll_def)

lemma clear_retained:
  "tiRoot (svTopics (fold (expire_retained now) xs sv)) = tiRoot (svTopics sv) \<and> svCaps (fold (expire_retained now) xs sv) = svCaps sv
    \<and> tiRetained (svTopics (fold (expire_retained now) xs sv))
      = fold (\<lambda>(k, pk) m. if retained_expired now (svCaps sv) pk then m_del k m else m) xs (tiRetained (svTopics sv))"
proof (induction xs arbitrary: sv)
  case (Cons x xs)
  show ?case
    by (simp add: Cons split_beta) (simp add: expire_retained_def split_beta Let_def Packets_Delete_def store_defs)
qed simp

lemma expired_retained:
  assumes "map_ok (tiRetained (svTopics sv))"
  shows "tiRetained (svTopics (clearExpiredRetainedMessages now sv))
      = filter (\<lambda>(_, pk). \<not> retained_expired now (svCaps sv) pk) (tiRetained (svTopics sv))"
    "tiRoot (svTopics (clearExpiredRetainedMessages now sv)) = tiRoot (svTopics sv)"
  using clear_retained [of now "tiRetained (svTopics sv)" sv] fold_delete_all [OF assms, of "retained_expired now (svCaps sv)"]
  by (simp_all add: clearExpiredRetainedMessages_def Packets_GetAll_def)

end
