(* ===== verification/Mqtt_Restart.thy ===== *)
theory Mqtt_Restart
  imports Mqtt_Badger Mqtt_Bolt Mqtt_Pebble Mqtt_Redis Mqtt_Departure
begin

text \<open>
  A restart: what a storage hook reads back after the calls of a server's life, and what a new
  server that loads it finds.
\<close>

section \<open>Reading back\<close>

text \<open>A result lists the records of a map, in some order.\<close>

definition lists :: "error + 'v list \<Rightarrow> (gostring \<Rightarrow> 'v option) \<Rightarrow> bool" where
  "lists res m \<longleftrightarrow> (\<exists>v. res = Inr v \<and> mset v = mset (records m))"

definition reads_back :: "coding \<Rightarrow> 's hook \<Rightarrow> 's \<Rightarrow> contents \<Rightarrow> bool" where
  "reads_back cd h s A \<longleftrightarrow>
     (decoded (read_client cd) (ecClient cd) (ran (caClients A)) \<longrightarrow> lists (hkStoredClients h s) (caClients A))
   \<and> (decoded (read_subscription cd) (ecSubscription cd) (ran (caSubscriptions A)) \<longrightarrow>
        lists (hkStoredSubscriptions h s) (caSubscriptions A))
   \<and> (decoded (read_message cd) (ecMessage cd) (ran (caRetained A)) \<longrightarrow>
        lists (hkStoredRetainedMessages h s) (caRetained A))
   \<and> (decoded (read_message cd) (ecMessage cd) (ran (caInflight A)) \<longrightarrow>
        lists (hkStoredInflightMessages h s) (caInflight A))
   \<and> (decoded (read_info cd) (ecInfo cd) (set_option (caInfo A)) \<longrightarrow>
        hkStoredSysInfo h s = Inr (case caInfo A of Some i \<Rightarrow> i | None \<Rightarrow> no_st_system_info))"

lemma lists_Inr [simp]: "lists (Inr v) m \<longleftrightarrow> mset v = mset (records m)"
  by (simp add: lists_def)

text \<open>All five reads at once.\<close>

definition restores :: "'s hook \<Rightarrow> 's \<Rightarrow> contents \<Rightarrow> bool" where
  "restores h s A \<longleftrightarrow>
     lists (hkStoredClients h s) (caClients A) \<and> lists (hkStoredSubscriptions h s) (caSubscriptions A)
   \<and> lists (hkStoredRetainedMessages h s) (caRetained A) \<and> lists (hkStoredInflightMessages h s) (caInflight A)
   \<and> hkStoredSysInfo h s = Inr (case caInfo A of Some i \<Rightarrow> i | None \<Rightarrow> no_st_system_info)"

lemma reads_back_restores: "reads_back cd h s A \<Longrightarrow> decodes cd A \<Longrightarrow> restores h s A"
  by (simp add: reads_back_def decodes_def restores_def)

text \<open>A hook that keeps what it is told: after any calls it reads back what they stored.\<close>

definition keeps_calls :: "coding \<Rightarrow> scheme \<Rightarrow> 's hook \<Rightarrow> 's \<Rightarrow> bool" where
  "keeps_calls cd sk h s \<longleftrightarrow> (\<forall>cs. reads_back cd h (hook_calls h cs s) (contents_of sk cs))"

lemma badger_keeps:
  assumes "lawful_db db vw" "\<And>k. vw d k = None"
  shows "keeps_calls cd badger_scheme (badger_hook db cd) (Some d)"
  using badger_stores [OF assms] by (simp add: keeps_calls_def reads_back_def) (simp add: badger_hook_def)

lemma bolt_keeps:
  assumes "lawful_db db vw" "\<And>k. vw d k = None"
  shows "keeps_calls cd bolt_scheme (bolt_hook db cd) (Some d)"
  using bolt_stores [OF assms] by (simp add: keeps_calls_def reads_back_def) (simp add: bolt_hook_def)

lemma pebble_keeps:
  assumes "lawful_db db vw" "\<And>k. vw d k = None"
  shows "keeps_calls cd pebble_scheme (pebble_hook db cd) (Some d)"
  using pebble_stores [OF assms] by (simp add: keeps_calls_def reads_back_def) (simp add: pebble_hook_def)

lemma redis_keeps:
  assumes "lawful_redis rd vw" "\<And>l. vw d l = None"
  shows "keeps_calls cd redis_scheme (redis_hook rd hp cd) (Some d)"
  using redis_stores [OF assms, of cd _ hp]
  by (simp add: keeps_calls_def reads_back_def lists_def) (simp add: redis_hook_def)

lemma keeps_restores: "keeps_calls cd sk h s \<Longrightarrow> decodes cd (contents_of sk cs) \<Longrightarrow> restores h (hook_calls h cs s) (contents_of sk cs)"
  unfolding keeps_calls_def by (rule reads_back_restores [where cd = cd]) (rule spec)

section \<open>Records and their keys\<close>

text \<open>A retained message is stored under the key of its topic.\<close>

lemma retained_updates [simp]:
  "caRetained (set_caClients k x A) = caRetained A" "caRetained (set_caSubscriptions k y A) = caRetained A"
  "caRetained (set_caInflight k z A) = caRetained A" "caRetained (set_caRetained k z A) = (caRetained A)(k := z)"
  by (simp_all add: set_ca_defs)

lemma subscriptions_keep_retained [simp]:
  "caRetained (fold (\<lambda>(sub, code). set_caSubscriptions (f sub) (g sub code)) xs A) = caRetained A"
  "caRetained (fold (\<lambda>sub. set_caSubscriptions (f' sub) None) ys A) = caRetained A"
proof -
  show "caRetained (fold (\<lambda>(sub, code). set_caSubscriptions (f sub) (g sub code)) xs A) = caRetained A"
    by (induction xs arbitrary: A) auto
  show "caRetained (fold (\<lambda>sub. set_caSubscriptions (f' sub) None) ys A) = caRetained A"
    by (induction ys arbitrary: A) auto
qed

definition retained_keyed :: "scheme \<Rightarrow> (gostring \<Rightarrow> st_message option) \<Rightarrow> bool" where
  "retained_keyed sk m \<longleftrightarrow> (\<forall>k x. m k = Some x \<longrightarrow> skRetained sk (tsTopicName x) = k)"

lemma retained_keyed_updates:
  assumes "retained_keyed sk m"
  shows "retained_keyed sk (m(k := None))"
    and "skRetained sk (tsTopicName x) = k \<Longrightarrow> retained_keyed sk (m(k := Some x))"
  using assms by (simp_all add: retained_keyed_def)

lemma apply_call_retained_keyed:
  "retained_keyed sk (caRetained A) \<Longrightarrow> retained_keyed sk (caRetained (apply_call sk c A))"
  by (induction sk c A rule: apply_call.induct) (simp_all add: retained_keyed_updates stored_retained_def)

lemma contents_retained_keyed: "retained_keyed sk (caRetained (contents_of sk cs))"
proof -
  have "retained_keyed sk (caRetained A) \<Longrightarrow> retained_keyed sk (caRetained (fold (apply_call sk) cs A))" for A
    by (induction cs arbitrary: A) (simp_all add: apply_call_retained_keyed)
  moreover have "retained_keyed sk (caRetained no_contents)" by (simp add: retained_keyed_def no_contents_def)
  ultimately show ?thesis unfolding contents_of_def by blast
qed

lemma one_retained_for_topic:
  "x \<in> ran (caRetained (contents_of sk cs)) \<Longrightarrow> y \<in> ran (caRetained (contents_of sk cs)) \<Longrightarrow>
     tsTopicName x = tsTopicName y \<Longrightarrow> x = y"
proof -
  assume x: "x \<in> ran (caRetained (contents_of sk cs))" and y: "y \<in> ran (caRetained (contents_of sk cs))"
    and eq: "tsTopicName x = tsTopicName y"
  obtain j k where jk: "caRetained (contents_of sk cs) j = Some x" "caRetained (contents_of sk cs) k = Some y"
    using x y by (auto simp: ran_def)
  have "j = k" using contents_retained_keyed [of sk cs] jk eq by (simp add: retained_keyed_def) metis
  then show "x = y" using jk by simp
qed

section \<open>Loading\<close>

lemma loaded_subscriptions:
  "svTopics (loadSubscriptions v sv) =
     fold index_step (map (\<lambda>x. OpSubscribe (tbClient x) (restored_subscription x)) v) (svTopics sv)"
proof -
  have "svTopics (load_subscription x sv) = index_step (OpSubscribe (tbClient x) (restored_subscription x)) (svTopics sv)"
    for x and sv :: "'a server"
    by (simp add: load_subscription_def Let_def upd_client_def set_client_def split: prod.splits option.splits)
  then show ?thesis unfolding loadSubscriptions_def by (induction v arbitrary: sv) simp_all
qed

lemma loaded_retained:
  "svTopics (loadRetained v sv) = fold index_step (map (\<lambda>x. OpRetain (ToPacket x)) v) (svTopics sv)"
  unfolding loadRetained_def by (induction v arbitrary: sv) simp_all

declare restored_filter [simp]

lemma ToPacket_topic [simp]: "pkTopicName (ToPacket x) = tsTopicName x" "pkPayload (ToPacket x) = tsPayload x"
  by (simp_all add: ToPacket_def Packet_Copy_def Let_def no_packet_def)

lemma subscribed_slots:
  defines "ops \<equiv> map (\<lambda>x. OpSubscribe (tbClient x) (restored_subscription x))"
  shows "slot_history (ops v) k v0 = (case find (\<lambda>x. slot (tbFilter x) (tbClient x) = k) (rev v) of
    Some x \<Rightarrow> Some (restored_subscription x) | None \<Rightarrow> v0)"
proof (induction v arbitrary: v0)
  case (Cons x v)
  have "find P (xs @ [x]) = (case find P xs of None \<Rightarrow> if P x then Some x else None | Some y \<Rightarrow> Some y)" for P and xs :: "st_subscription list"
    by (induction xs) simp_all
  then show ?case using Cons by (simp add: ops_def split: option.splits)
qed (simp add: ops_def)

lemma subscribed_holds:
  "(\<exists>s. holds (map (\<lambda>x. OpSubscribe (tbClient x) (restored_subscription x)) v) c s
      \<and> \<not> IsSharedFilter (sFilter s) \<and> P (sFilter s)) \<longleftrightarrow>
   (\<exists>x \<in> set v. tbClient x = c \<and> \<not> IsSharedFilter (tbFilter x) \<and> P (tbFilter x))" (is "?l \<longleftrightarrow> ?r")
proof
  assume ?l
  then obtain s x where s: "\<not> IsSharedFilter (sFilter s)" "P (sFilter s)"
    "find (\<lambda>x. slot (tbFilter x) (tbClient x) = slot (sFilter s) c) (rev v) = Some x" "s = restored_subscription x"
    by (auto simp: holds_def subscribed_slots split: option.splits)
  then have "x \<in> set v" "slot (tbFilter x) (tbClient x) = slot (tbFilter x) c"
    by (auto dest!: find_in_set)
  then show ?r using s by (auto simp: slot_def split: if_splits)
next
  assume ?r
  then obtain x where x: "x \<in> set v" "tbClient x = c" "\<not> IsSharedFilter (tbFilter x)" "P (tbFilter x)" by blast
  then obtain y where y: "find (\<lambda>y. slot (tbFilter y) (tbClient y) = slot (tbFilter x) c) (rev v) = Some y"
    by (cases "find (\<lambda>y. slot (tbFilter y) (tbClient y) = slot (tbFilter x) c) (rev v)") (auto simp: find_None_iff)
  then have "slot (tbFilter y) (tbClient y) = slot (tbFilter x) c" by (auto dest!: find_in_set)
  then have "tbFilter y = tbFilter x" using x(3) by (auto simp: slot_def path_of_inject split: if_splits)
  then show ?l using x y by (intro exI [of _ "restored_subscription y"]) (auto simp: holds_def subscribed_slots)
qed

lemma retained_after_load:
  assumes "\<forall>x \<in> set v. \<forall>y \<in> set v. tsTopicName x = tsTopicName y \<longrightarrow> x = y"
  shows "retained_history (map (\<lambda>x. OpRetain (ToPacket x)) v) t v0 = Some pk \<longleftrightarrow>
    (\<exists>x \<in> set v. tsTopicName x = t \<and> tsPayload x \<noteq> [] \<and> pk = ToPacket x) \<or> (\<forall>x \<in> set v. tsTopicName x \<noteq> t) \<and> v0 = Some pk"
  using assms by (induction v arbitrary: v0) auto

section \<open>Refused subscriptions\<close>

text \<open>
  A storage hook is told of every filter of a SUBSCRIBE with its reason code, also of those that were
  refused.  Without a hook that allows them all filters are refused.
\<close>

definition storage_only :: "'s hook \<Rightarrow> bool" where
  "storage_only h \<longleftrightarrow> hkProvides h = (\<lambda>b. b \<in> set storage_events)"

lemma storage_hooks_only [simp]:
  "storage_only (badger_hook db cd)" "storage_only (bolt_hook db cd)" "storage_only (pebble_hook db cd)"
  "storage_only (redis_hook rd hp cd)"
  by (simp_all add: storage_only_def badger_hook_def bolt_hook_def pebble_hook_def redis_hook_def)

lemmas storage_event_defs = storage_events_def OnSessionEstablished_ev_def OnDisconnect_ev_def OnSubscribed_ev_def
  OnUnsubscribed_ev_def OnRetainMessage_ev_def OnWillSent_ev_def OnQosPublish_ev_def OnQosComplete_ev_def
  OnQosDropped_ev_def OnSysInfoTick_ev_def OnClientExpired_ev_def OnRetainedExpired_ev_def StoredClients_ev_def
  StoredInflightMessages_ev_def StoredRetainedMessages_ev_def StoredSubscriptions_ev_def StoredSysInfo_ev_def

lemma storage_silent:
  assumes "storage_only h"
  shows "Hooks_OnACLCheck [h] s cl flt wr = (s, False)" "Hooks_OnSubscribe [h] s cl pk = (s, pk)"
    "Hooks_OnPacketEncode [h] s cl pk = (s, pk)" "Hooks_OnPacketSent [h] s cl pk buf = s"
    "Hooks_OnSubscribed [h] s cl pk codes = hkOnSubscribed h s cl pk codes"
  using assms by (simp_all add: storage_only_def Hooks_OnSubscribe_def pass_through_def Hooks_OnPacketEncode_def
      Hooks_OnPacketSent_def Hooks_OnSubscribed_def notify_all_def storage_event_defs OnACLCheck_ev_def
      OnSubscribe_ev_def OnPacketEncode_ev_def OnPacketSent_ev_def)

lemma WritePacket_storage:
  assumes "storage_only h" "opHooks op = [h]"
  shows "opState (snd (snd (WritePacket now pk cl op))) = opState op"
  using assms by (auto simp: WritePacket_def storage_silent Let_def split: sum.splits prod.splits option.splits)

lemma refusal_codes [simp]:
  "Code ErrUnspecifiedError = 128" "Code ErrTopicFilterInvalid = 143" "Code ErrNotAuthorized = 135"
  "Code ErrProtocolViolationInvalidSharedNoLocal = 130" "Code ErrPacketIdentifierInUse = 145"
  by (simp_all add: ErrUnspecifiedError_def ErrTopicFilterInvalid_def ErrProtocolViolationInvalidSharedNoLocal_def
      ErrNotAuthorized_def ErrPacketIdentifierInUse_def mk_code_def)

lemma subscribe_one_refused:
  assumes "storage_only h" "opHooks (svOps sv) = [h]" "code = CodeSuccess \<or> Code code \<ge> Code ErrUnspecifiedError"
  shows "\<exists>c q. subscribe_one r code sub sv = ((c, q), sv) \<and> c \<ge> Code ErrUnspecifiedError"
  using assms by (simp add: subscribe_one_def ask_def storage_silent upd_ops_def Let_def del: Hooks_OnACLCheck.simps) auto

lemma WriteTo_storage:
  assumes "storage_only h" "opHooks (svOps sv) = [h]"
  shows "opState (svOps (snd (WriteTo now r pk sv))) = opState (svOps sv)"
    and "svTopics (snd (WriteTo now r pk sv)) = svTopics sv"
  using WritePacket_storage [OF assms, of now pk "svHeap sv r"] by (simp_all add: WriteTo_def on_client_def split_beta)

lemma refused_subscription:
  assumes "storage_only h" "opHooks (svOps sv) = [h]" "pkFilters pk = [sub]"
  shows "svTopics (snd (processSubscribe now r pk sv)) = svTopics sv
    \<and> (\<exists>c. c \<ge> Code ErrUnspecifiedError \<and> opState (svOps (snd (processSubscribe now r pk sv)))
         = hook_call h (CSubscribed (svHeap sv r) pk [c]) (opState (svOps sv)))"
proof -
  define code where "code = identifier_code r pk sv"
  have "code = CodeSuccess \<or> Code code \<ge> Code ErrUnspecifiedError"
    by (simp add: code_def identifier_code_def)
  from subscribe_one_refused [OF assms(1,2) this, of r sub] obtain c q where
    one: "subscribe_one r code sub sv = ((c, q), sv)" and c: "c \<ge> Code ErrUnspecifiedError" by blast
  have silent: "ask (\<lambda>hs s. Hooks_OnSubscribe hs s (svHeap sv r) pk) sv = (pk, sv)"
    by (simp add: ask_def storage_silent assms upd_ops_def)
  define sv' where "sv' = notify (\<lambda>hs s. Hooks_OnSubscribed hs s (svHeap sv r) pk [c]) sv"
  have sv': "svTopics sv' = svTopics sv" "opHooks (svOps sv') = [h]"
    "opState (svOps sv') = hkOnSubscribed h (opState (svOps sv)) (svHeap sv r) pk [c]"
    using assms by (simp_all add: sv'_def notify_def upd_ops_def storage_silent)
  have "\<exists>err. processSubscribe now r pk sv = (err, snd (WriteTo now r (codes_ack Suback pk [c] code) sv'))"
    using c by (auto simp: processSubscribe_def silent code_def [symmetric] assms(3) one sv'_def [symmetric]
        split: prod.splits option.splits)
  then show ?thesis using c WriteTo_storage [OF assms(1) sv'(2)] sv' by auto
qed

text \<open>Where it lies in the contents of the store.\<close>

lemma stored_refusal:
  assumes "pkFilters pk = [sub]"
  shows "caSubscriptions (contents_of sk [CSubscribed cl pk [c]])
    = Map.empty(skSubscription sk cl (sFilter sub) \<mapsto> stored_subscription sk cl sub c)"
  by (simp add: contents_of_def assms set_ca_defs no_contents_def)

end
