(* ===== verification/Mqtt_Reload.thy ===== *)
theory Mqtt_Reload
  imports Mqtt_Restart
begin

text \<open>
  A server that starts with the hook of a store: what \<open>readStore\<close> makes of the records.
\<close>

section \<open>Calls that change neither subscriptions nor retained messages\<close>

fun minor :: "store_call \<Rightarrow> bool" where
  "minor (CDisconnected cl err expire) = True"
| "minor (CUnsubscribed cl pk) = (pkFilters pk = [])"
| "minor _ = False"

lemma minor_calls:
  "list_all minor qs \<Longrightarrow> caSubscriptions (contents_of sk (cs @ qs)) = caSubscriptions (contents_of sk cs)
     \<and> caRetained (contents_of sk (cs @ qs)) = caRetained (contents_of sk cs)
     \<and> caInflight (contents_of sk (cs @ qs)) = caInflight (contents_of sk cs)
     \<and> caInfo (contents_of sk (cs @ qs)) = caInfo (contents_of sk cs)"
proof (induction qs rule: rev_induct)
  case (snoc q qs)
  have "caSubscriptions (apply_call sk q A) = caSubscriptions A \<and> caRetained (apply_call sk q A) = caRetained A
      \<and> caInflight (apply_call sk q A) = caInflight A \<and> caInfo (apply_call sk q A) = caInfo A"
    if "minor q" for A using that by (cases q) (simp_all add: set_ca_defs)
  moreover have "contents_of sk (cs @ qs @ [q]) = apply_call sk q (contents_of sk (cs @ qs))"
    by (simp add: contents_of_def)
  ultimately show ?case using snoc by simp
qed simp

text \<open>What loading the clients leaves: the index as it was, and a hook that heard only such calls.\<close>

definition calm :: "'s hook \<Rightarrow> 's \<Rightarrow> topics_index \<Rightarrow> 's server \<Rightarrow> bool" where
  "calm h s x sv \<longleftrightarrow> opHooks (svOps sv) = [h] \<and> svTopics sv = x
     \<and> (\<exists>qs. list_all minor qs \<and> opState (svOps sv) = hook_calls h qs s)"

lemma calmI: "opHooks (svOps sv) = [h] \<Longrightarrow> svTopics sv = x \<Longrightarrow> opState (svOps sv) = s \<Longrightarrow> calm h s x sv"
  by (auto simp: calm_def hook_calls_def intro: exI [of _ "[]"])

lemma storage_told:
  assumes "storage_only h"
  shows "Hooks_OnDisconnect [h] s cl err expire = hook_call h (CDisconnected cl err expire) s"
    "Hooks_OnUnsubscribed [h] s cl pk = hook_call h (CUnsubscribed cl pk) s"
  using assms by (simp_all add: storage_only_def Hooks_OnDisconnect_def Hooks_OnUnsubscribed_def notify_all_def
      storage_event_defs)

lemma calm_call: "calm h s x sv \<Longrightarrow> minor q \<Longrightarrow> calm h s x (upd_ops (\<lambda>op. op\<lparr>opState := hook_call h q (opState op)\<rparr>) sv)"
proof -
  assume c: "calm h s x sv" and q: "minor q"
  then obtain qs where "list_all minor qs" "opState (svOps sv) = hook_calls h qs s" by (auto simp: calm_def)
  then have "list_all minor (qs @ [q])" "hook_call h q (opState (svOps sv)) = hook_calls h (qs @ [q]) s"
    using q by (simp_all add: hook_calls_def)
  then have "\<exists>qs. list_all minor qs \<and> hook_call h q (opState (svOps sv)) = hook_calls h qs s" by blast
  then show ?thesis using c by (simp add: calm_def upd_ops_def)
qed

lemma calm_frame [simp]: "calm h s x (upd_client r f sv) = calm h s x sv"
  "calm h s x (sv\<lparr>svClients := cls\<rparr>) = calm h s x sv" "calm h s x (sv\<lparr>svHeap := hp\<rparr>) = calm h s x sv"
  "calm h s x (sv\<lparr>svHeap := hp, svNext := n\<rparr>) = calm h s x sv"
  by (simp_all add: calm_def upd_client_def set_client_def)

lemma calm_NewClient [simp]: "calm h s x (snd (NewClient conn listener name inline sv)) = calm h s x sv"
  by (simp add: NewClient_def calm_def set_client_def Let_def)

lemma calm_told:
  assumes "storage_only h" "calm h s x sv"
  shows "calm h s x (notify (\<lambda>hs s. Hooks_OnDisconnect hs s cl err expire) sv)"
    and "pkFilters pk = [] \<Longrightarrow> calm h s x (notify (\<lambda>hs s. Hooks_OnUnsubscribed hs s cl pk) sv)"
proof -
  have h: "opHooks (svOps sv) = [h]" using assms(2) by (simp add: calm_def)
  show "calm h s x (notify (\<lambda>hs s. Hooks_OnDisconnect hs s cl err expire) sv)"
    using calm_call [OF assms(2), of "CDisconnected cl err expire"]
    by (simp add: notify_def upd_ops_def h storage_told [OF assms(1)])
  show "pkFilters pk = [] \<Longrightarrow> calm h s x (notify (\<lambda>hs s. Hooks_OnUnsubscribed hs s cl pk) sv)"
    using calm_call [OF assms(2), of "CUnsubscribed cl pk"]
    by (simp add: notify_def upd_ops_def h storage_told [OF assms(1)])
qed

text \<open>A client that was just made holds nothing that its end could give up.\<close>

lemma calm_end:
  assumes "storage_only h" "calm h s x sv" "csSubscriptions (clState (svHeap sv r)) = []"
    "iInternal (clInflight (svHeap sv r)) = []"
  shows "calm h s x (UnsubscribeClient r (clear_inflights r sv))"
proof -
  have "clear_inflights r sv = sv"
    using assms(4) by (simp add: clear_inflights_def ClearInflights_def Inflight_GetAll_def)
  then show ?thesis using assms(1-3)
    by (simp add: UnsubscribeClient_def Subscriptions_GetAll_def Let_def calm_told no_packet_def)
qed

lemma calm_load_client:
  assumes "storage_only h" "calm h s x sv"
  shows "calm h s x (load_client now c sv)"
proof -
  obtain r sv1 where new: "NewClient None (tcListener c) (tcID c) False sv = (r, sv1)" by fastforce
  have c1: "calm h s x sv1" using assms(2) calm_NewClient [of h s x None "tcListener c" "tcID c" False sv] by (simp add: new)
  have h1: "csSubscriptions (clState (svHeap sv1 r)) = []" "iInternal (clInflight (svHeap sv1 r)) = []"
    using new by (auto simp: NewClient_def set_client_def newClient_def NewSubscriptions_def NewInflights_def Let_def)
  define sv2 where "sv2 = upd_client r (Stop now (Some (ECode ErrServerShuttingDown)))
    (upd_client r (clProperties_update (\<lambda>p. p\<lparr>cpUsername := tcUsername c, cpClean := tcClean c,
       cpProtocolVersion := tcProtocolVersion c, cpProps := restored_properties (tcProperties c),
       cpWill := tcWill c\<rparr>)) sv1)"
  have c2: "calm h s x sv2" using c1 by (simp add: sv2_def)
  have h2: "csSubscriptions (clState (svHeap sv2 r)) = []" "iInternal (clInflight (svHeap sv2 r)) = []"
    using h1 by (simp_all add: sv2_def upd_client_def set_client_def Stop_def)
  define sv3 where "sv3 = notify (\<lambda>hs s. Hooks_OnDisconnect hs s (svHeap sv2 r) (Some (ECode ErrServerShuttingDown))
    (expires (clProperties (svHeap sv2 r)))) sv2"
  have c3: "calm h s x sv3" using assms(1) c2 by (simp add: sv3_def calm_told)
  have h3: "svHeap sv3 = svHeap sv2" by (simp add: sv3_def notify_def upd_ops_def)
  have "load_client now c sv = (if expires (clProperties (svHeap sv2 r)) then UnsubscribeClient r (clear_inflights r sv3)
      else sv3\<lparr>svClients := Clients_Add (clID (svHeap sv3 r), r) (svClients sv3)\<rparr>)"
    by (simp add: load_client_def new sv3_def sv2_def Let_def)
  then show ?thesis using assms(1) c3 h2 by (simp add: calm_end h3)
qed

lemma calm_loadClients: "storage_only h \<Longrightarrow> calm h s x sv \<Longrightarrow> calm h s x (loadClients now v sv)"
  unfolding loadClients_def by (induction v arbitrary: sv) (simp_all add: calm_load_client)

section \<open>The other parts\<close>

lemma loadSubscriptions_ops [simp]: "svOps (loadSubscriptions v sv) = svOps sv"
proof -
  have "svOps (load_subscription y sv) = svOps sv" for y and sv :: "'a server"
    by (simp add: load_subscription_def upd_client_def set_client_def Let_def split: prod.splits option.splits)
  then show ?thesis unfolding loadSubscriptions_def by (induction v arbitrary: sv) simp_all
qed

lemma loadInflight_frame [simp]: "svOps (loadInflight v sv) = svOps sv" "svTopics (loadInflight v sv) = svTopics sv"
proof -
  have one: "svOps (load_inflight y sv) = svOps sv \<and> svTopics (load_inflight y sv) = svTopics sv" for y and sv :: "'a server"
    by (simp add: load_inflight_def set_inflight_def upd_client_def set_client_def split_beta Let_def split: option.splits)
  show "svOps (loadInflight v sv) = svOps sv"
    unfolding loadInflight_def by (induction v arbitrary: sv) (simp_all add: one)
  show "svTopics (loadInflight v sv) = svTopics sv"
    unfolding loadInflight_def by (induction v arbitrary: sv) (simp_all add: one)
qed

lemma loadRetained_ops [simp]: "svOps (loadRetained v sv) = svOps sv"
  unfolding loadRetained_def by (induction v arbitrary: sv) simp_all

lemma loadServerInfo_frame [simp]: "svTopics (loadServerInfo v sv) = svTopics sv"
  by (simp add: loadServerInfo_def tally_def upd_ops_def Let_def)

lemma storage_provides:
  assumes "storage_only h"
  shows "Hooks_Provides [h] [StoredClients_ev]" "Hooks_Provides [h] [StoredSubscriptions_ev]"
    "Hooks_Provides [h] [StoredRetainedMessages_ev]" "Hooks_Provides [h] [StoredInflightMessages_ev]"
    "Hooks_Provides [h] [StoredSysInfo_ev]"
  using assms by (simp_all add: storage_only_def Hooks_Provides_def storage_event_defs)

lemma storage_first:
  assumes "storage_only h"
  shows "Hooks_StoredClients [h] s = hkStoredClients h s" "Hooks_StoredSubscriptions [h] s = hkStoredSubscriptions h s"
    "Hooks_StoredRetainedMessages [h] s = hkStoredRetainedMessages h s"
    "Hooks_StoredInflightMessages [h] s = hkStoredInflightMessages h s"
  using assms by (auto simp: storage_only_def Hooks_StoredClients_def Hooks_StoredSubscriptions_def
      Hooks_StoredRetainedMessages_def Hooks_StoredInflightMessages_def storage_event_defs split: sum.splits)

lemma storage_first_info:
  assumes "storage_only h" "hkStoredSysInfo h s = Inr i"
  shows "\<exists>j. Hooks_StoredSysInfo [h] s = Inr j"
  using assms by (auto simp: storage_only_def storage_event_defs)

section \<open>Starting from a store\<close>

text \<open>The index gets the stored subscriptions and retained messages, in some order.\<close>

definition restored_ops :: "st_subscription list \<Rightarrow> st_message list \<Rightarrow> index_op list" where
  "restored_ops subs rets = map (\<lambda>x. OpSubscribe (tbClient x) (restored_subscription x)) subs
     @ map (\<lambda>x. OpRetain (ToPacket x)) rets"

lemma restart_index:
  assumes h: "storage_only h" and keeps: "keeps_calls cd sk h s" and dec: "decodes cd (contents_of sk cs)"
    and sv: "opHooks (svOps sv) = [h]" "opState (svOps sv) = hook_calls h cs s"
  obtains subs rets where "mset subs = mset (records (caSubscriptions (contents_of sk cs)))"
    "mset rets = mset (records (caRetained (contents_of sk cs)))" "fst (readStore now sv) = None"
    "svTopics (snd (readStore now sv)) = fold index_step (restored_ops subs rets) (svTopics sv)"
proof -
  note [simp] = storage_provides [OF h] storage_first [OF h]
  have rb: "reads_back cd h (hook_calls h (cs @ qs) s) (contents_of sk (cs @ qs))" for qs
    using keeps by (simp add: keeps_calls_def)
  have more: "hook_calls h (cs @ qs) s = hook_calls h qs (hook_calls h cs s)" for qs by (simp add: hook_calls_def)
  obtain cls where cls: "hkStoredClients h (opState (svOps sv)) = Inr cls"
    using rb [of "[]"] dec sv by (auto simp: reads_back_def decodes_def lists_def)
  define sv1 where "sv1 = loadClients now cls sv"
  have "calm h (hook_calls h cs s) (svTopics sv) sv1"
    unfolding sv1_def by (rule calm_loadClients [OF h]) (simp add: calmI sv)
  then obtain qs where qs: "list_all minor qs" "opState (svOps sv1) = hook_calls h (cs @ qs) s"
    and sv1: "opHooks (svOps sv1) = [h]" "svTopics sv1 = svTopics sv" by (auto simp: calm_def more)
  let ?A = "contents_of sk cs" and ?e = "opState (svOps sv1)"
  have reads: "lists (hkStoredSubscriptions h ?e) (caSubscriptions ?A)"
    "lists (hkStoredRetainedMessages h ?e) (caRetained ?A)" "lists (hkStoredInflightMessages h ?e) (caInflight ?A)"
    "\<exists>i. hkStoredSysInfo h ?e = Inr i"
    using rb [of qs] dec minor_calls [OF qs(1), of sk cs] by (simp_all add: reads_back_def decodes_def qs(2))
  then obtain subs rets infl i where r: "hkStoredSubscriptions h ?e = Inr subs" "hkStoredRetainedMessages h ?e = Inr rets"
    "hkStoredInflightMessages h ?e = Inr infl" "hkStoredSysInfo h ?e = Inr i"
    "mset subs = mset (records (caSubscriptions ?A))" "mset rets = mset (records (caRetained ?A))"
    by (auto simp: lists_def)
  obtain j where j: "Hooks_StoredSysInfo [h] ?e = Inr j" using storage_first_info [OF h r(4)] by blast
  have run: "readStore now sv = (None, loadServerInfo (tyInfo j) (loadRetained rets (loadInflight infl (loadSubscriptions subs sv1))))"
    by (simp add: readStore_def restore_def sv(1) cls sv1_def [symmetric] sv1(1) r j del: Hooks_StoredSysInfo.simps)
  have "svTopics (snd (readStore now sv)) = fold index_step (restored_ops subs rets) (svTopics sv)"
    by (simp add: run loaded_retained loaded_subscriptions restored_ops_def sv1(2))
  then show ?thesis using that [of subs rets] r(5,6) run by simp
qed

section \<open>What is found after a restart\<close>

lemma retains_keep_slots [simp]: "slot_history (ops @ map (\<lambda>x. OpRetain (f x)) rets) k v0 = slot_history ops k v0"
proof -
  have "slot_history (map (\<lambda>x. OpRetain (f x)) rets) k v = v" for v by (induction rets) simp_all
  moreover have "slot_history (ops @ ops') k v0 = slot_history ops' k (slot_history ops k v0)" for ops'
    by (induction ops k v0 rule: slot_history.induct) simp_all
  ultimately show ?thesis by simp
qed

lemma subscribes_keep_retained [simp]:
  "retained_history (map (\<lambda>x. OpSubscribe (f x) (g x)) subs @ ops) t v0 = retained_history ops t v0"
  by (induction subs) simp_all

lemma restored_found:
  assumes subs: "set subs = ran m" and rets: "set rets = ran n" and named: "\<forall>x \<in> ran n. tsTopicName x \<noteq> []"
    and single: "\<forall>x \<in> ran n. \<forall>y \<in> ran n. tsTopicName x = tsTopicName y \<longrightarrow> x = y"
  shows "plain_topic t \<Longrightarrow> m_has (sbSubscriptions (TopicsIndex_Subscribers t (index_run (restored_ops subs rets)))) c \<longleftrightarrow>
      (\<exists>x \<in> ran m. tbClient x = c \<and> \<not> IsSharedFilter (tbFilter x) \<and> finds_filter (tbFilter x) t \<and> \<not> hidden_from (tbFilter x) t)"
    and "t \<noteq> [] \<Longrightarrow> ch_hash \<notin> set t \<Longrightarrow> ch_plus \<notin> set t \<Longrightarrow>
      pk \<in> set (TopicsIndex_Messages t (index_run (restored_ops subs rets))) \<longleftrightarrow>
      (\<exists>x \<in> ran n. tsTopicName x = t \<and> tsPayload x \<noteq> [] \<and> pk = ToPacket x)"
proof -
  let ?ops = "restored_ops subs rets"
  have ok: "list_all op_ok ?ops" using rets named by (auto simp: restored_ops_def list_all_iff)
  show "m_has (sbSubscriptions (TopicsIndex_Subscribers t (index_run ?ops))) c \<longleftrightarrow>
      (\<exists>x \<in> ran m. tbClient x = c \<and> \<not> IsSharedFilter (tbFilter x) \<and> finds_filter (tbFilter x) t \<and> \<not> hidden_from (tbFilter x) t)"
    if t: "plain_topic t"
    using Subscribers_history [OF ok t, of c] subs
      subscribed_holds [of subs c "\<lambda>f. finds_filter f t \<and> \<not> hidden_from f t"]
    by (simp add: hidden_iff [OF t] restored_ops_def holds_def)
  show "pk \<in> set (TopicsIndex_Messages t (index_run ?ops)) \<longleftrightarrow>
      (\<exists>x \<in> ran n. tsTopicName x = t \<and> tsPayload x \<noteq> [] \<and> pk = ToPacket x)"
    if t: "t \<noteq> []" "ch_hash \<notin> set t" "ch_plus \<notin> set t"
  proof -
    have "pk \<in> set (TopicsIndex_Messages t (index_run ?ops)) \<longleftrightarrow> retained_history ?ops t None = Some pk"
      using Messages_plain_history [OF ok t] by (auto split: option.splits)
    then show ?thesis using retained_after_load [of rets t None pk] single rets by (simp add: restored_ops_def)
  qed
qed

lemma hash_layout: "layout sk (in_hash hp) hash_kind"
  by unfold_locales (auto simp: hash_kind_def in_hash_def hKey_def)

lemma finite_contents: "finite (dom (caSubscriptions (contents_of sk cs)))" "finite (dom (caRetained (contents_of sk cs)))"
  using layout.contents_keyed [OF hash_layout, of sk cs] by (simp_all add: layout.well_keyed_def [OF hash_layout])

lemma restart_finds:
  assumes h: "storage_only h" and keeps: "keeps_calls cd sk h s" and dec: "decodes cd (contents_of sk cs)"
    and named: "\<forall>x \<in> ran (caRetained (contents_of sk cs)). tsTopicName x \<noteq> []"
    and sv: "opHooks (svOps sv) = [h]" "opState (svOps sv) = hook_calls h cs s" "svTopics sv = NewTopicsIndex"
  shows "fst (readStore now sv) = None
    \<and> (plain_topic t \<longrightarrow> m_has (sbSubscriptions (TopicsIndex_Subscribers t (svTopics (snd (readStore now sv))))) c =
        (\<exists>x \<in> ran (caSubscriptions (contents_of sk cs)). tbClient x = c \<and> \<not> IsSharedFilter (tbFilter x)
           \<and> finds_filter (tbFilter x) t \<and> \<not> hidden_from (tbFilter x) t))
    \<and> (t \<noteq> [] \<and> ch_hash \<notin> set t \<and> ch_plus \<notin> set t \<longrightarrow>
        (pk \<in> set (TopicsIndex_Messages t (svTopics (snd (readStore now sv))))) =
        (\<exists>x \<in> ran (caRetained (contents_of sk cs)). tsTopicName x = t \<and> tsPayload x \<noteq> [] \<and> pk = ToPacket x))"
proof -
  obtain subs rets where r: "mset subs = mset (records (caSubscriptions (contents_of sk cs)))"
    "mset rets = mset (records (caRetained (contents_of sk cs)))" "fst (readStore now sv) = None"
    "svTopics (snd (readStore now sv)) = fold index_step (restored_ops subs rets) (svTopics sv)"
    by (rule restart_index [OF h keeps dec sv(1,2)])
  have sets: "set subs = ran (caSubscriptions (contents_of sk cs))" "set rets = ran (caRetained (contents_of sk cs))"
    using r(1,2) set_records finite_contents by (metis set_mset_mset)+
  have run: "svTopics (snd (readStore now sv)) = index_run (restored_ops subs rets)"
    by (simp add: r(4) sv(3) index_run_def)
  show ?thesis
    using restored_found [OF sets named, of t] one_retained_for_topic [of _ sk cs] r(3) by (simp add: run)
qed

end
