(* ===== verification/Mqtt_Ebpf.thy ===== *)
theory Mqtt_Ebpf
  imports Mqtt_AuthDefense
begin

text \<open>
  The connection filter, \<open>modules/defense/ebpf/ebpf_hook.go\<close>: it counts the connections of an address
  and asks its backend to block it.  The backend is the kernel filter behind an interface: its
  answers are ignored by the hook, so the model keeps the addresses it was asked to block.  The
  clock is read once when a tracker is made and once later.
\<close>

definition ErrRejectConnect :: error where
  "ErrRejectConnect = ENew (lit ''connection rejected by eBPF filter'')"

record ebpf_options =
  eoMaxConnectionsPerSecond :: int

record rate_tracker =
  rtCount :: int
  rtFirstSeen :: int
  rtBanned :: bool

record ebpf_filter =
  efOptions :: ebpf_options
  efRates :: "(gostring, rate_tracker) gomap"
  efBlocked :: "gostring list"

text \<open>\<open>Init\<close>: a configuration of another type panics; an error of the backend is only logged.\<close>

definition Ebpf_Init :: "ebpf_options config_any \<Rightarrow> ebpf_filter \<Rightarrow> error + ebpf_filter" where
  "Ebpf_Init config h =
    (case config of
       ConfigNil \<Rightarrow> Inr (h\<lparr>efOptions := \<lparr>eoMaxConnectionsPerSecond = 10\<rparr>, efRates := []\<rparr>)
     | ConfigOf cfg \<Rightarrow> Inr (h\<lparr>efOptions := cfg, efRates := []\<rparr>)
     | ConfigOther \<Rightarrow> Inl EPanic)"

text \<open>The address without its port, or the whole of it.\<close>

definition remote_ip :: "gostring \<Rightarrow> gostring" where
  "remote_ip remote = (case SplitHostPort remote of Inl _ \<Rightarrow> remote | Inr (host, _) \<Rightarrow> host)"

definition Ebpf_OnConnect :: "ebpf_filter \<Rightarrow> int \<Rightarrow> client \<Rightarrow> packet \<Rightarrow> ebpf_filter \<times> error option" where
  "Ebpf_OnConnect h now cl pk =
    (let ip = remote_ip (cnRemote (clNet cl));
         store = (\<lambda>tr. h\<lparr>efRates := m_set ip tr (efRates h)\<rparr>)
     in case m_get (efRates h) ip of
          None \<Rightarrow> (store \<lparr>rtCount = 1, rtFirstSeen = now, rtBanned = False\<rparr>, None)
        | Some tr \<Rightarrow>
            if rtBanned tr then (h, Some ErrRejectConnect)
            else if now - rtFirstSeen tr \<ge> second then (store (tr\<lparr>rtCount := 1, rtFirstSeen := now\<rparr>), None)
            else
              let tr = tr\<lparr>rtCount := rtCount tr + 1\<rparr>
              in if rtCount tr > eoMaxConnectionsPerSecond (efOptions h)
                 then ((store (tr\<lparr>rtBanned := True\<rparr>))\<lparr>efBlocked := efBlocked h @ [ip]\<rparr>, Some ErrRejectConnect)
                 else (store tr, None))"

section \<open>A run of connections\<close>

text \<open>The filter after the connections of \<open>es\<close>, each with its time, and whether each was let in.\<close>

fun ebpf_run :: "ebpf_filter \<Rightarrow> (int \<times> client \<times> packet) list \<Rightarrow> ebpf_filter \<times> bool list" where
  "ebpf_run h [] = (h, [])"
| "ebpf_run h ((now, cl, pk) # es) =
    (case Ebpf_OnConnect h now cl pk of
       (h, err) \<Rightarrow> (case ebpf_run h es of (h, oks) \<Rightarrow> (h, (err = None) # oks)))"

definition banned :: "ebpf_filter \<Rightarrow> gostring \<Rightarrow> bool" where
  "banned h ip \<longleftrightarrow> (\<exists>tr. m_get (efRates h) ip = Some tr \<and> rtBanned tr)"

text \<open>What a connection does to the tracker of its address, and to no other.\<close>

lemma other_address:
  "remote_ip (cnRemote (clNet cl)) \<noteq> ip \<Longrightarrow> m_get (efRates (fst (Ebpf_OnConnect h now cl pk))) ip = m_get (efRates h) ip"
  by (auto simp: Ebpf_OnConnect_def Let_def split: option.splits)

lemma ban_stays: "banned h ip \<Longrightarrow> banned (fst (Ebpf_OnConnect h now cl pk)) ip"
  using other_address [of cl ip h now pk]
  by (cases "remote_ip (cnRemote (clNet cl)) = ip") (auto simp: banned_def Ebpf_OnConnect_def Let_def)

lemma banned_rejects:
  "banned h (remote_ip (cnRemote (clNet cl))) \<Longrightarrow> Ebpf_OnConnect h now cl pk = (h, Some ErrRejectConnect)"
  by (auto simp: banned_def Ebpf_OnConnect_def Let_def)

lemma rejects_iff_banned:
  "snd (Ebpf_OnConnect h now cl pk) \<noteq> None \<longleftrightarrow>
     banned (fst (Ebpf_OnConnect h now cl pk)) (remote_ip (cnRemote (clNet cl)))"
  by (auto simp: banned_def Ebpf_OnConnect_def Let_def split: option.splits)

text \<open>
  A flood: of the connections of one address within a second of its first one, those up to the limit
  are let in; the next one bans the address, for good.
\<close>

lemma run_banned:
  "banned h ip \<Longrightarrow> \<forall>(now, cl, pk) \<in> set es. remote_ip (cnRemote (clNet cl)) = ip \<Longrightarrow>
     ebpf_run h es = (h, replicate (length es) False)"
  by (induction h es rule: ebpf_run.induct) (auto simp: banned_rejects)

lemma run_burst:
  assumes "m_get (efRates h) ip = Some \<lparr>rtCount = c, rtFirstSeen = t, rtBanned = False\<rparr>"
    "\<forall>(now, cl, pk) \<in> set es. remote_ip (cnRemote (clNet cl)) = ip \<and> now - t < second"
    "eoMaxConnectionsPerSecond (efOptions h) = int (k + m)" "c = int k"
  shows "snd (ebpf_run h es) = replicate (min m (length es)) True @ replicate (length es - m) False"
  using assms
proof (induction es arbitrary: h c k m)
  case (Cons e es)
  obtain now cl pk where e: "e = (now, cl, pk)" by (cases e)
  have ip: "remote_ip (cnRemote (clNet cl)) = ip" "now - t < second" using Cons.prems(2) by (auto simp: e)
  show ?case
  proof (cases m)
    case 0
    let ?h = "fst (Ebpf_OnConnect h now cl pk)"
    have r: "snd (Ebpf_OnConnect h now cl pk) = Some ErrRejectConnect" "banned ?h ip"
      using Cons.prems(1,3,4) ip 0 by (simp_all add: Ebpf_OnConnect_def Let_def banned_def)
    have "ebpf_run ?h es = (?h, replicate (length es) False)"
      using Cons.prems(2) by (intro run_banned [OF r(2)]) auto
    then show ?thesis using r(1) by (simp add: e split_beta 0)
  next
    case (Suc m')
    define h' where "h' = h\<lparr>efRates := m_set ip \<lparr>rtCount = c + 1, rtFirstSeen = t, rtBanned = False\<rparr> (efRates h)\<rparr>"
    have step: "Ebpf_OnConnect h now cl pk = (h', None)"
      using Cons.prems(1,3,4) ip Suc by (simp add: Ebpf_OnConnect_def Let_def h'_def)
    have "snd (ebpf_run h' es) = replicate (min m' (length es)) True @ replicate (length es - m') False"
      using Cons.prems Suc by (intro Cons.IH [of h' "c + 1" "Suc k" m']) (auto simp: h'_def)
    then show ?thesis by (simp add: e step split_beta Suc)
  qed
qed simp

lemma flood_rejected:
  assumes "m_get (efRates h) ip = None" "eoMaxConnectionsPerSecond (efOptions h) = int (Suc m)"
    "\<forall>(now, cl, pk) \<in> set ((t, e) # es). remote_ip (cnRemote (clNet cl)) = ip \<and> now - t < second"
  shows "snd (ebpf_run h ((t, e) # es)) = replicate (Suc (min m (length es))) True @ replicate (length es - m) False"
proof -
  obtain cl pk where e: "e = (cl, pk)" by (cases e)
  define h' where "h' = h\<lparr>efRates := m_set ip \<lparr>rtCount = 1, rtFirstSeen = t, rtBanned = False\<rparr> (efRates h)\<rparr>"
  have step: "Ebpf_OnConnect h t cl pk = (h', None)"
    using assms(1,3) by (simp add: Ebpf_OnConnect_def Let_def h'_def e)
  have "snd (ebpf_run h' es) = replicate (min m (length es)) True @ replicate (length es - m) False"
    using assms(2,3) by (intro run_burst [of h' ip 1 t es 1 m]) (auto simp: h'_def)
  then show ?thesis by (simp add: e step split_beta)
qed

end
