(* ===== verification/Mqtt_Modules.thy ===== *)
theory Mqtt_Modules
  imports Mqtt_Hooks Mqtt_Auth Mqtt_Ebpf Mqtt_Routing Mqtt_Security
begin

text \<open>
  The hooks of the repository as hooks of the chain of \<open>hooks.go\<close>: what each provides, its handlers
  and \<open>Init\<close>, over the state of all modules together.
\<close>

section \<open>The state of the modules\<close>

text \<open>\<open>moNow\<close> is the clock that the handlers read.\<close>

record modules =
  moNow :: int
  moValidator :: validator
  moAuthDefense :: auth_defense
  moIntegrity :: integrity
  moEbpf :: ebpf_filter
  moPriority :: priority_hook
  moWildcard :: wildcard

text \<open>The libraries: message authentication code, base64, and the JSON text of a token payload.\<close>

record crypto =
  crMac :: mac_fun
  crB64enc :: "byte list \<Rightarrow> gostring"
  crB64dec :: "gostring \<Rightarrow> byte list option"
  crMarshal :: "gostring list \<Rightarrow> byte list"
  crUnmarshal :: "byte list \<Rightarrow> gostring list option"

section \<open>Hooks\<close>

definition allow_hook :: "'s hook" where
  "allow_hook = HookBase\<lparr>
     hkID := lit ''allow-all-auth'',
     hkProvides := (\<lambda>b. b \<in> {OnConnectAuthenticate_ev, OnACLCheck_ev}),
     hkOnConnectAuthenticate := (\<lambda>s cl pk. (s, AllowHook_OnConnectAuthenticate cl pk)),
     hkOnACLCheck := (\<lambda>s cl topic write. (s, AllowHook_OnACLCheck cl topic write))\<rparr>"

definition validator_hook :: "modules hook" where
  "validator_hook = HookBase\<lparr>
     hkID := lit ''user-property-validator'',
     hkProvides := (\<lambda>b. b \<in> {OnPublish_ev, OnDisconnect_ev}),
     hkOnPublish := (\<lambda>s cl pk. case Validator_OnPublish (moValidator s) cl pk of
       (h, pk, err) \<Rightarrow> (s\<lparr>moValidator := h\<rparr>, pk, err)),
     hkOnDisconnect := (\<lambda>s cl err expire. s\<lparr>moValidator := Validator_OnDisconnect (moValidator s) cl\<rparr>)\<rparr>"

definition auth_defense_hook :: "modules hook" where
  "auth_defense_hook = HookBase\<lparr>
     hkID := lit ''auth-defense'',
     hkProvides := (\<lambda>b. b \<in> {OnConnect_ev, OnDisconnect_ev, OnAuthPacket_ev, OnSessionEstablished_ev}),
     hkOnConnect := (\<lambda>s cl pk. case AuthDefense_OnConnect (moAuthDefense s) (moNow s) cl pk of
       (h, err) \<Rightarrow> (s\<lparr>moAuthDefense := h\<rparr>, err)),
     hkOnDisconnect := (\<lambda>s cl err expire. s\<lparr>moAuthDefense := AuthDefense_OnDisconnect (moAuthDefense s) cl\<rparr>),
     hkOnAuthPacket := (\<lambda>s cl pk. case AuthDefense_OnAuthPacket (moAuthDefense s) cl pk of
       (h, pk, err) \<Rightarrow> (s\<lparr>moAuthDefense := h\<rparr>, pk, err)),
     hkOnSessionEstablished := (\<lambda>s cl pk.
       s\<lparr>moAuthDefense := AuthDefense_OnSessionEstablished (moAuthDefense s) cl\<rparr>)\<rparr>"

definition integrity_hook :: "crypto \<Rightarrow> modules hook" where
  "integrity_hook cr = HookBase\<lparr>
     hkID := lit ''message-integrity'', hkProvides := (\<lambda>b. b \<in> {OnPublish_ev}),
     hkOnPublish := (\<lambda>s cl pk. case Integrity_OnPublish (crMac cr) (crB64dec cr) (moIntegrity s) cl pk of
       (h, pk, err) \<Rightarrow> (s\<lparr>moIntegrity := h\<rparr>, pk, err))\<rparr>"

definition ebpf_hook :: "modules hook" where
  "ebpf_hook = HookBase\<lparr>
     hkID := lit ''ebpf-filter'', hkProvides := (\<lambda>b. b \<in> {OnConnect_ev}),
     hkOnConnect := (\<lambda>s cl pk. case Ebpf_OnConnect (moEbpf s) (moNow s) cl pk of
       (h, err) \<Rightarrow> (s\<lparr>moEbpf := h\<rparr>, err))\<rparr>"

definition priority_messaging_hook :: "modules hook" where
  "priority_messaging_hook = HookBase\<lparr>
     hkID := lit ''priority-messaging'', hkProvides := (\<lambda>b. b \<in> {OnPublish_ev}),
     hkOnPublish := (\<lambda>s cl pk. case Priority_OnPublish (moPriority s) (moNow s) cl pk of
       (h, pk, err) \<Rightarrow> (s\<lparr>moPriority := h\<rparr>, pk, err)),
     hkStop := (\<lambda>s. case Priority_Stop (moPriority s) of
       Inr h \<Rightarrow> (s\<lparr>moPriority := h\<rparr>, None) | Inl err \<Rightarrow> (s, Some err))\<rparr>"

definition wildcard_hook :: "crypto \<Rightarrow> modules hook" where
  "wildcard_hook cr = HookBase\<lparr>
     hkID := lit ''wildcard-tokens'',
     hkProvides := (\<lambda>b. b \<in> {OnPacketEncode_ev, OnSubscribe_ev, OnACLCheck_ev, OnSubscribed_ev, OnDisconnect_ev}),
     hkOnPacketEncode := (\<lambda>s cl pk.
       (s, Wildcard_OnPacketEncode (crMac cr) (crB64enc cr) (crMarshal cr) (moWildcard s) cl pk)),
     hkOnSubscribe := (\<lambda>s cl pk. case Wildcard_OnSubscribe (crMac cr) (crB64dec cr) (crUnmarshal cr) (moWildcard s) cl pk of
       (h, pk) \<Rightarrow> (s\<lparr>moWildcard := h\<rparr>, pk)),
     hkOnACLCheck := (\<lambda>s cl topic write. (s, Wildcard_OnACLCheck (moWildcard s) cl topic write)),
     hkOnSubscribed := (\<lambda>s cl pk codes. s\<lparr>moWildcard := Wildcard_OnSubscribed (moWildcard s) cl\<rparr>),
     hkOnDisconnect := (\<lambda>s cl err expire. s\<lparr>moWildcard := Wildcard_OnDisconnect (moWildcard s) cl\<rparr>)\<rparr>"

section \<open>Starting them\<close>

text \<open>\<open>Init\<close> with a configuration, on the state of the modules.\<close>

definition init_module :: "(modules \<Rightarrow> 'h) \<Rightarrow> ('h \<Rightarrow> modules \<Rightarrow> modules) \<Rightarrow> ('h \<Rightarrow> error + 'h) \<Rightarrow> modules \<Rightarrow> modules \<times> error option" where
  "init_module field set_field init s = (case init (field s) of Inr h \<Rightarrow> (set_field h s, None) | Inl err \<Rightarrow> (s, Some err))"

definition init_validator :: "validator_config config_any \<Rightarrow> modules \<Rightarrow> modules \<times> error option" where
  "init_validator c = init_module moValidator (\<lambda>h. moValidator_update (\<lambda>_. h)) (Validator_Init c)"

definition init_auth_defense :: "auth_defense_config config_any \<Rightarrow> modules \<Rightarrow> modules \<times> error option" where
  "init_auth_defense c = init_module moAuthDefense (\<lambda>h. moAuthDefense_update (\<lambda>_. h)) (AuthDefense_Init c)"

definition init_integrity :: "integrity_config config_any \<Rightarrow> modules \<Rightarrow> modules \<times> error option" where
  "init_integrity c = init_module moIntegrity (\<lambda>h. moIntegrity_update (\<lambda>_. h)) (Integrity_Init c)"

definition init_ebpf :: "ebpf_options config_any \<Rightarrow> modules \<Rightarrow> modules \<times> error option" where
  "init_ebpf c = init_module moEbpf (\<lambda>h. moEbpf_update (\<lambda>_. h)) (Ebpf_Init c)"

definition init_priority :: "priority_config config_any \<Rightarrow> modules \<Rightarrow> modules \<times> error option" where
  "init_priority c = init_module moPriority (\<lambda>h. moPriority_update (\<lambda>_. h)) (\<lambda>h. map_sum id fst (Priority_Init c h))"

definition init_wildcard :: "wildcard_config config_any \<Rightarrow> modules \<Rightarrow> modules \<times> error option" where
  "init_wildcard c = init_module moWildcard (\<lambda>h. moWildcard_update (\<lambda>_. h)) (Wildcard_Init c)"

definition setOpts_priority :: "bool \<Rightarrow> modules \<Rightarrow> modules" where
  "setOpts_priority server s = s\<lparr>moPriority := fst (Priority_SetOpts server (moPriority s))\<rparr>"

section \<open>Filters of messages\<close>

text \<open>No module changes a message that it lets through.\<close>

lemma validator_passes: "Validator_OnPublish h cl pk = (h', pk', None) \<Longrightarrow> pk' = pk"
  by (auto simp: Validator_OnPublish_def Let_def split: if_splits option.splits)

lemma priority_passes: "Priority_OnPublish h now cl pk = (h', pk', None) \<Longrightarrow> pk' = pk"
  by (auto simp: Priority_OnPublish_def Let_def split: option.splits)

interpretation validator_filter: publish_filter "hkOnPublish validator_hook"
  by unfold_locales (auto simp: validator_hook_def dest: validator_passes split: prod.splits)

interpretation integrity_filter: publish_filter "hkOnPublish (integrity_hook cr)"
  by unfold_locales (auto simp: integrity_hook_def dest: Integrity_passes_unchanged split: prod.splits)

interpretation priority_filter: publish_filter "hkOnPublish priority_messaging_hook"
  by unfold_locales (auto simp: priority_messaging_hook_def dest: priority_passes split: prod.splits)

end
