(* ===== verification/Mqtt_TLS.thy ===== *)
theory Mqtt_TLS
  imports Mqtt_Codes
begin

text \<open>
  The TLS profiles, \<open>modules/security/tls_profiles.go\<close>, and the string functions of the standard
  library that the configuration uses.  Those treat ASCII themselves; what depends on the tables of
  Unicode, and the quoting of \<open>%q\<close>, is the parameter \<open>unicode\<close>.
\<close>

section \<open>Strings\<close>

record unicode =
  ucLower :: "gostring \<Rightarrow> gostring"
  ucUpper :: "gostring \<Rightarrow> gostring"
  ucTrim :: "gostring \<Rightarrow> gostring"
  ucQuote :: "gostring \<Rightarrow> gostring"

definition is_ascii :: "gostring \<Rightarrow> bool" where
  "is_ascii s \<longleftrightarrow> list_all (\<lambda>b. b < 0x80) s"

definition lower_byte :: "byte \<Rightarrow> byte" where
  "lower_byte b = (if 65 \<le> b \<and> b \<le> 90 then b + 32 else b)"

definition upper_byte :: "byte \<Rightarrow> byte" where
  "upper_byte b = (if 97 \<le> b \<and> b \<le> 122 then b - 32 else b)"

definition ToLower :: "unicode \<Rightarrow> gostring \<Rightarrow> gostring" where
  "ToLower u s = (if is_ascii s then map lower_byte s else ucLower u s)"

definition ToUpper :: "unicode \<Rightarrow> gostring \<Rightarrow> gostring" where
  "ToUpper u s = (if is_ascii s then map upper_byte s else ucUpper u s)"

definition ascii_space :: "byte \<Rightarrow> bool" where
  "ascii_space b \<longleftrightarrow> b \<in> {9, 10, 11, 12, 13, 32}"

definition TrimSpace :: "unicode \<Rightarrow> gostring \<Rightarrow> gostring" where
  "TrimSpace u s0 =
    (let s = dropWhile ascii_space s0
     in if s = [] then []
        else if hd s \<ge> 0x80 then ucTrim u s
        else
          let r = dropWhile ascii_space (rev s)
          in if hd r \<ge> 0x80 then ucTrim u (rev r) else rev r)"

section \<open>Profiles\<close>

definition ProfileLowPower :: gostring where "ProfileLowPower = lit ''LOW_POWER''"
definition ProfileBalanced :: gostring where "ProfileBalanced = lit ''BALANCED''"
definition ProfileHighSecurity :: gostring where "ProfileHighSecurity = lit ''HIGH_SECURITY''"

lemmas profile_names = ProfileLowPower_def ProfileBalanced_def ProfileHighSecurity_def

definition NormalizeTLSProfile :: "unicode \<Rightarrow> gostring \<Rightarrow> error + gostring" where
  "NormalizeTLSProfile u profile =
    (let normalized = ToUpper u (TrimSpace u profile)
     in if normalized = [] then Inr ProfileBalanced
        else if normalized \<in> {ProfileLowPower, ProfileBalanced, ProfileHighSecurity} then Inr normalized
        else Inl (ENew (lit ''unknown TLS profile '' @ ucQuote u profile @ lit '' (supported: ''
          @ ProfileLowPower @ lit '', '' @ ProfileBalanced @ lit '', '' @ ProfileHighSecurity @ lit '')'')))"

text \<open>
  The fields of \<open>tls.Config\<close> that the code sets, with their zero values; versions, suites and
  curves are the numbers of the standard library.  \<open>'c\<close> is a certificate.
\<close>

record 'c tls_config =
  tlMinVersion :: nat
  tlMaxVersion :: nat
  tlCipherSuites :: "nat list"
  tlCurvePreferences :: "nat list"
  tlSessionTicketsDisabled :: bool
  tlCertificates :: "'c list"
  tlNextProtos :: "gostring list"

definition no_tls_config :: "'c tls_config" where
  "no_tls_config = \<lparr>tlMinVersion = 0, tlMaxVersion = 0, tlCipherSuites = [], tlCurvePreferences = [],
     tlSessionTicketsDisabled = False, tlCertificates = [], tlNextProtos = []\<rparr>"

definition VersionTLS12 :: nat where "VersionTLS12 = 0x0303"
definition VersionTLS13 :: nat where "VersionTLS13 = 0x0304"

definition GetTLSConfig :: "unicode \<Rightarrow> gostring \<Rightarrow> 'c tls_config" where
  "GetTLSConfig u profile =
    (let normalized = (case NormalizeTLSProfile u profile of Inl _ \<Rightarrow> ProfileBalanced | Inr p \<Rightarrow> p)
     in if normalized = ProfileLowPower then
          no_tls_config\<lparr>tlMinVersion := VersionTLS12, tlMaxVersion := VersionTLS12,
            tlCipherSuites := [0xcca9, 0xcca8], tlCurvePreferences := [29, 23]\<rparr>
        else if normalized = ProfileHighSecurity then
          no_tls_config\<lparr>tlMinVersion := VersionTLS13,
            tlCipherSuites := [0x1302, 0x1301], tlCurvePreferences := [25, 24]\<rparr>
        else no_tls_config\<lparr>tlMinVersion := VersionTLS12\<rparr>)"

section \<open>Laws\<close>

lemma profile_ascii: "p \<in> {ProfileLowPower, ProfileBalanced, ProfileHighSecurity} \<Longrightarrow> ToUpper u (TrimSpace u p) = p"
  by (auto simp: profile_names ToUpper_def TrimSpace_def is_ascii_def upper_byte_def ascii_space_def)

lemma normalized_profile:
  assumes "NormalizeTLSProfile u p = Inr q"
  shows "q \<in> {ProfileLowPower, ProfileBalanced, ProfileHighSecurity} \<and> NormalizeTLSProfile u q = Inr q"
proof -
  have q: "q \<in> {ProfileLowPower, ProfileBalanced, ProfileHighSecurity}"
    using assms by (auto simp: NormalizeTLSProfile_def Let_def split: if_splits)
  moreover have "q \<noteq> []" using q by (auto simp: profile_names)
  ultimately show ?thesis using profile_ascii [OF q, of u] by (simp add: NormalizeTLSProfile_def)
qed

text \<open>No configuration allows a version before TLS 1.2.\<close>

lemma tls_versions:
  "VersionTLS12 \<le> tlMinVersion (GetTLSConfig u p) \<and>
     (tlMaxVersion (GetTLSConfig u p) = 0 \<or> tlMinVersion (GetTLSConfig u p) \<le> tlMaxVersion (GetTLSConfig u p))"
  by (simp add: GetTLSConfig_def no_tls_config_def VersionTLS12_def VersionTLS13_def Let_def)

end
