(* ===== verification/Mqtt_Broker.thy ===== *)
theory Mqtt_Broker
  imports Mqtt_Modules Mqtt_TLS Mqtt_Departure
begin

text \<open>
  The broker of \<open>cmd/main.go\<close>: from its flags to the modules, and from those to the chain of hooks.
  \<open>Mqtt_Main\<close> has the flags and the listeners.
\<close>

section \<open>Modules\<close>

definition moduleBaseline :: gostring where "moduleBaseline = lit ''baseline''"
definition moduleTLSSessionResumption :: gostring where "moduleTLSSessionResumption = lit ''tls-session-resumption''"
definition moduleAdaptiveTLSProfiles :: gostring where "moduleAdaptiveTLSProfiles = lit ''adaptive-tls-profiles''"
definition modulePropertyValidator :: gostring where "modulePropertyValidator = lit ''property-validator''"
definition moduleAuthDefense :: gostring where "moduleAuthDefense = lit ''auth-defense''"
definition moduleMessageIntegrity :: gostring where "moduleMessageIntegrity = lit ''message-integrity''"
definition modulePriorityMessaging :: gostring where "modulePriorityMessaging = lit ''priority-messaging''"
definition moduleWildcardTokens :: gostring where "moduleWildcardTokens = lit ''wildcard-tokens''"
definition moduleQUICTransport :: gostring where "moduleQUICTransport = lit ''quic-transport''"
definition moduleEBPFFilter :: gostring where "moduleEBPFFilter = lit ''ebpf-filter''"

lemmas module_names = moduleBaseline_def moduleTLSSessionResumption_def moduleAdaptiveTLSProfiles_def
  modulePropertyValidator_def moduleAuthDefense_def moduleMessageIntegrity_def modulePriorityMessaging_def
  moduleWildcardTokens_def moduleQUICTransport_def moduleEBPFFilter_def

definition supportedModules :: "gostring list" where
  "supportedModules = [moduleBaseline, moduleTLSSessionResumption, moduleAdaptiveTLSProfiles,
     modulePropertyValidator, moduleAuthDefense, moduleMessageIntegrity, modulePriorityMessaging,
     moduleWildcardTokens, moduleQUICTransport, moduleEBPFFilter]"

record broker_config =
  bcTcpAddr :: gostring
  bcWsAddr :: gostring
  bcInfoAddr :: gostring
  bcTlsCertFile :: gostring
  bcTlsKeyFile :: gostring
  bcTlsSessionResumption :: bool
  bcTlsProfile :: gostring
  bcModules :: gostring
  bcQuicAddr :: gostring

record broker_runtime =
  brEnabledModules :: "gostring list"
  brTlsSessionResumption :: bool
  brAdaptiveTLSProfiles :: bool
  brPropertyValidator :: bool
  brAuthDefense :: bool
  brMessageIntegrity :: bool
  brPriorityMessaging :: bool
  brWildcardTokens :: bool
  brQuicTransport :: bool
  brEbpfFilter :: bool
  brTlsProfile :: gostring

definition validateBrokerConfig :: "unicode \<Rightarrow> broker_config \<Rightarrow> error option" where
  "validateBrokerConfig u cfg =
    (if (bcTlsCertFile cfg = []) \<noteq> (bcTlsKeyFile cfg = [])
     then Some (ENew (lit ''both --tls-cert-file and --tls-key-file are required for TLS mode''))
     else case NormalizeTLSProfile u (bcTlsProfile cfg) of Inl err \<Rightarrow> Some err | Inr _ \<Rightarrow> None)"

text \<open>The loop over the names: the modules so far, the names seen, and whether \<open>baseline\<close> was one.\<close>

fun resolve_loop ::
    "unicode \<Rightarrow> gostring list \<Rightarrow> gostring list \<Rightarrow> gostring list \<Rightarrow> bool \<Rightarrow> error + gostring list \<times> bool" where
  "resolve_loop u [] enabled seen baseline = Inr (enabled, baseline)"
| "resolve_loop u (raw # raws) enabled seen baseline =
    (let name = ToLower u (TrimSpace u raw)
     in if name = [] then resolve_loop u raws enabled seen baseline
        else if name \<notin> set supportedModules then
          Inl (ENew (lit ''unknown module '' @ ucQuote u name @ lit '' (supported: baseline, tls-session-resumption, adaptive-tls-profiles, property-validator, auth-defense, message-integrity, priority-messaging, wildcard-tokens, quic-transport, ebpf-filter)''))
        else if name \<in> set seen then resolve_loop u raws enabled seen baseline
        else if name = moduleBaseline then resolve_loop u raws enabled (name # seen) True
        else resolve_loop u raws (enabled @ [name]) (name # seen) baseline)"

definition resolveEnabledModules :: "unicode \<Rightarrow> broker_config \<Rightarrow> error + gostring list" where
  "resolveEnabledModules u cfg =
    (let modulesFlag = TrimSpace u (bcModules cfg)
     in if modulesFlag = [] then
          (if bcTlsSessionResumption cfg then Inr [moduleTLSSessionResumption] else Inr [])
        else case resolve_loop u (strings_Split modulesFlag 44) [] [] False of
          Inl err \<Rightarrow> Inl err
        | Inr (enabled, baseline) \<Rightarrow>
            if baseline \<and> length enabled > 0 then Inl (ENew (lit ''module baseline cannot be combined with other modules''))
            else if baseline then Inr []
            else if length enabled = 0 then Inl (ENew (lit ''--modules provided but no valid module names found''))
            else Inr enabled)"

text \<open>\<open>moduleRegistry\<close>: what a module does to the runtime; None for a name without an entry.\<close>

definition moduleRegistry ::
    "unicode \<Rightarrow> gostring \<Rightarrow> (broker_runtime \<Rightarrow> broker_config \<Rightarrow> error + broker_runtime) option" where
  "moduleRegistry u name =
    (if name = moduleTLSSessionResumption then Some (\<lambda>rt _. Inr (rt\<lparr>brTlsSessionResumption := True\<rparr>))
     else if name = moduleAdaptiveTLSProfiles then
       Some (\<lambda>rt cfg. case NormalizeTLSProfile u (bcTlsProfile cfg) of
         Inl err \<Rightarrow> Inl err | Inr p \<Rightarrow> Inr (rt\<lparr>brAdaptiveTLSProfiles := True, brTlsProfile := p\<rparr>))
     else if name = modulePropertyValidator then Some (\<lambda>rt _. Inr (rt\<lparr>brPropertyValidator := True\<rparr>))
     else if name = moduleAuthDefense then Some (\<lambda>rt _. Inr (rt\<lparr>brAuthDefense := True\<rparr>))
     else if name = moduleMessageIntegrity then Some (\<lambda>rt _. Inr (rt\<lparr>brMessageIntegrity := True\<rparr>))
     else if name = modulePriorityMessaging then Some (\<lambda>rt _. Inr (rt\<lparr>brPriorityMessaging := True\<rparr>))
     else if name = moduleWildcardTokens then Some (\<lambda>rt _. Inr (rt\<lparr>brWildcardTokens := True\<rparr>))
     else if name = moduleQUICTransport then Some (\<lambda>rt _. Inr (rt\<lparr>brQuicTransport := True\<rparr>))
     else if name = moduleEBPFFilter then Some (\<lambda>rt _. Inr (rt\<lparr>brEbpfFilter := True\<rparr>))
     else None)"

fun apply_modules :: "unicode \<Rightarrow> gostring list \<Rightarrow> broker_config \<Rightarrow> broker_runtime \<Rightarrow> error + broker_runtime" where
  "apply_modules u [] cfg rt = Inr rt"
| "apply_modules u (name # names) cfg rt =
    (case moduleRegistry u name of
       None \<Rightarrow> Inl (ENew (lit ''unsupported module '' @ ucQuote u name))
     | Some applyModule \<Rightarrow>
         (case applyModule rt cfg of
            Inl err \<Rightarrow> Inl (ECtx (name @ lit '': '') err)
          | Inr rt \<Rightarrow> apply_modules u names cfg rt))"

definition new_runtime :: "gostring list \<Rightarrow> broker_runtime" where
  "new_runtime enabledModules = \<lparr>brEnabledModules = enabledModules, brTlsSessionResumption = False,
     brAdaptiveTLSProfiles = False, brPropertyValidator = False, brAuthDefense = False,
     brMessageIntegrity = False, brPriorityMessaging = False, brWildcardTokens = False,
     brQuicTransport = False, brEbpfFilter = False, brTlsProfile = ProfileBalanced\<rparr>"

definition buildBrokerRuntime :: "unicode \<Rightarrow> gostring list \<Rightarrow> broker_config \<Rightarrow> error + broker_runtime" where
  "buildBrokerRuntime u enabledModules cfg =
    (case apply_modules u enabledModules cfg (new_runtime enabledModules) of
       Inl err \<Rightarrow> Inl err
     | Inr rt \<Rightarrow>
         if \<not> brAdaptiveTLSProfiles rt then
           (case NormalizeTLSProfile u (bcTlsProfile cfg) of
              Inl err \<Rightarrow> Inl err
            | Inr selectedProfile \<Rightarrow>
                if selectedProfile \<noteq> ProfileBalanced
                then Inl (ENew (lit ''non-balanced TLS profile requires adaptive-tls-profiles module''))
                else Inr rt)
         else Inr rt)"

text \<open>\<open>load\<close> is \<open>tls.LoadX509KeyPair\<close>.\<close>

definition buildTLSConfig ::
    "unicode \<Rightarrow> (gostring \<Rightarrow> gostring \<Rightarrow> error + 'c) \<Rightarrow> broker_config \<Rightarrow> broker_runtime \<Rightarrow> error + 'c tls_config option" where
  "buildTLSConfig u load cfg rt =
    (if bcTlsCertFile cfg = [] \<or> bcTlsKeyFile cfg = [] then Inr None
     else case load (bcTlsCertFile cfg) (bcTlsKeyFile cfg) of
       Inl err \<Rightarrow> Inl (ECtx (lit ''failed to load TLS certificate/key pair: '') err)
     | Inr cert \<Rightarrow>
         let tlsProfile = (if brAdaptiveTLSProfiles rt then brTlsProfile rt else ProfileBalanced)
         in Inr (Some ((GetTLSConfig u tlsProfile)\<lparr>
              tlSessionTicketsDisabled := \<not> brTlsSessionResumption rt,
              tlCertificates := [cert], tlNextProtos := [lit ''mqtt'']\<rparr>)))"

fun strings_Join :: "gostring list \<Rightarrow> gostring \<Rightarrow> gostring" where
  "strings_Join [] sep = []"
| "strings_Join [s] sep = s"
| "strings_Join (s # ss) sep = s @ sep @ strings_Join ss sep"

definition moduleListForLog :: "gostring list \<Rightarrow> gostring" where
  "moduleListForLog enabledModules =
    (if length enabledModules = 0 then moduleBaseline else strings_Join enabledModules [44])"

section \<open>The chain of hooks\<close>

definition broker_integrity :: integrity_config where
  "broker_integrity = \<lparr>RequireSignature = True, VerifySignature = True, icSecret = lit ''default-broker-secret''\<rparr>"

definition broker_wildcards :: wildcard_config where
  "broker_wildcards = \<lparr>wtSecret = lit ''wildcard-broker-secret'',
     Permissions = [(lit ''admin'', [lit ''#'']), (lit ''sensor-1'', [lit ''sensors/1/+'']),
       (lit ''load-*'', [lit ''test/load'']), (lit ''probe-*'', [lit ''test/latency''])]\<rparr>"

text \<open>The hooks that \<open>main\<close> adds, in its order, with their \<open>SetOpts\<close> and \<open>Init\<close>.\<close>

definition broker_modules ::
    "crypto \<Rightarrow> broker_runtime \<Rightarrow> (modules hook \<times> (modules \<Rightarrow> modules) \<times> (modules \<Rightarrow> modules \<times> error option)) list" where
  "broker_modules cr rt =
     [(allow_hook, id, \<lambda>s. (s, None))]
   @ (if brPropertyValidator rt then [(validator_hook, id, init_validator ConfigNil)] else [])
   @ (if brAuthDefense rt then [(auth_defense_hook, id, init_auth_defense ConfigNil)] else [])
   @ (if brMessageIntegrity rt then [(integrity_hook cr, id, init_integrity (ConfigOf broker_integrity))] else [])
   @ (if brEbpfFilter rt then [(ebpf_hook, id, init_ebpf (ConfigOf \<lparr>eoMaxConnectionsPerSecond = 10\<rparr>))] else [])
   @ (if brPriorityMessaging rt then [(priority_messaging_hook, setOpts_priority True, init_priority ConfigNil)] else [])
   @ (if brWildcardTokens rt then [(wildcard_hook cr, id, init_wildcard (ConfigOf broker_wildcards))] else [])"

definition broker_hooks :: "crypto \<Rightarrow> broker_runtime \<Rightarrow> modules hook list" where
  "broker_hooks cr rt = map fst (broker_modules cr rt)"

text \<open>What \<open>main\<close> does to the new server; an error ends the program.\<close>

definition configure_broker :: "crypto \<Rightarrow> broker_runtime \<Rightarrow> modules server \<Rightarrow> error option \<times> modules server" where
  "configure_broker cr rt sv = AddHooksFromConfig (broker_modules cr rt) sv"

end
