(* ===== verification/Mqtt_BrokerLaws.thy ===== *)
theory Mqtt_BrokerLaws
  imports Mqtt_Broker
begin

text \<open>
  What the broker of \<open>cmd/main.go\<close> makes of its flags, and what its chain of hooks lets through.
\<close>

section \<open>The modules of a flag\<close>

text \<open>The names of a flag as the loop sees them.\<close>

definition flag_names :: "unicode \<Rightarrow> gostring list \<Rightarrow> gostring list" where
  "flag_names u raws = filter (\<lambda>n. n \<noteq> []) (map (\<lambda>raw. ToLower u (TrimSpace u raw)) raws)"

lemma flag_names_simps [simp]:
  "flag_names u [] = []"
  "flag_names u (raw # raws) = (let n = ToLower u (TrimSpace u raw) in if n = [] then flag_names u raws else n # flag_names u raws)"
  by (simp_all add: flag_names_def Let_def)

lemma resolve_loop_error:
  "(\<exists>err. resolve_loop u raws enabled seen b = Inl err) \<longleftrightarrow> \<not> set (flag_names u raws) \<subseteq> set supportedModules"
  by (induction u raws enabled seen b rule: resolve_loop.induct) (simp_all add: Let_def)

text \<open>The modules in the order of their first mention, without \<open>baseline\<close>.\<close>

fun firsts :: "gostring list \<Rightarrow> gostring list \<Rightarrow> gostring list" where
  "firsts seen [] = []"
| "firsts seen (n # ns) =
    (if n \<in> set seen then firsts seen ns
     else if n = moduleBaseline then firsts (n # seen) ns
     else n # firsts (n # seen) ns)"

lemma baseline_supported [simp]: "moduleBaseline \<in> set supportedModules" "moduleBaseline \<noteq> []" "[] \<noteq> moduleBaseline"
  by (simp_all add: supportedModules_def) (simp_all add: moduleBaseline_def)

lemma resolve_loop_result:
  assumes "set (flag_names u raws) \<subseteq> set supportedModules"
  shows "resolve_loop u raws enabled seen b
    = Inr (enabled @ firsts seen (flag_names u raws), b \<or> (moduleBaseline \<notin> set seen \<and> moduleBaseline \<in> set (flag_names u raws)))"
  using assms by (induction u raws enabled seen b rule: resolve_loop.induct) (auto simp: Let_def split: if_splits)

lemma set_firsts: "set (firsts seen ns) = set ns - set seen - {moduleBaseline}"
  by (induction seen ns rule: firsts.induct) auto

lemma distinct_firsts: "distinct (firsts seen ns)"
  by (induction seen ns rule: firsts.induct) (auto simp: set_firsts)

text \<open>
  A flag is accepted when it names supported modules only, at least one, and \<open>baseline\<close> alone;
  it enables the modules that it names, each once.
\<close>

lemma resolved_modules:
  assumes "TrimSpace u (bcModules cfg) \<noteq> []"
  defines "names \<equiv> flag_names u (strings_Split (TrimSpace u (bcModules cfg)) 44)"
  shows "(\<exists>ms. resolveEnabledModules u cfg = Inr ms) \<longleftrightarrow> set names \<subseteq> set supportedModules \<and> names \<noteq> []
      \<and> (moduleBaseline \<in> set names \<longrightarrow> set names = {moduleBaseline})"
    and "resolveEnabledModules u cfg = Inr ms \<Longrightarrow> set ms = set names - {moduleBaseline} \<and> distinct ms"
proof -
  let ?raws = "strings_Split (TrimSpace u (bcModules cfg)) 44"
  have empty: "firsts [] names = [] \<longleftrightarrow> set names \<subseteq> {moduleBaseline}"
    using set_firsts [of "[]" names] by (metis Diff_empty Diff_eq_empty_iff list.set(1) set_empty)
  have bad: "\<exists>err. resolveEnabledModules u cfg = Inl err" if sub: "\<not> set names \<subseteq> set supportedModules"
  proof -
    obtain err where "resolve_loop u ?raws [] [] False = Inl err"
      using resolve_loop_error [of u ?raws "[]" "[]" False] sub by (auto simp: names_def)
    then show ?thesis using assms(1) by (simp add: resolveEnabledModules_def Let_def)
  qed
  have good: "resolveEnabledModules u cfg = (if moduleBaseline \<in> set names \<and> firsts [] names \<noteq> [] then
        Inl (ENew (lit ''module baseline cannot be combined with other modules''))
      else if moduleBaseline \<in> set names then Inr []
      else if firsts [] names = [] then Inl (ENew (lit ''--modules provided but no valid module names found''))
      else Inr (firsts [] names))" if sub: "set names \<subseteq> set supportedModules"
  proof -
    have "resolve_loop u ?raws [] [] False = Inr (firsts [] names, moduleBaseline \<in> set names)"
      using resolve_loop_result [of u ?raws "[]" "[]" False] sub by (simp add: names_def)
    then show ?thesis using assms(1) by (simp add: resolveEnabledModules_def Let_def)
  qed
  show "(\<exists>ms. resolveEnabledModules u cfg = Inr ms) \<longleftrightarrow> set names \<subseteq> set supportedModules \<and> names \<noteq> []
      \<and> (moduleBaseline \<in> set names \<longrightarrow> set names = {moduleBaseline})"
    using bad good empty by (cases "set names \<subseteq> set supportedModules"; cases names) auto
  show "set ms = set names - {moduleBaseline} \<and> distinct ms" if "resolveEnabledModules u cfg = Inr ms"
    using that bad good empty set_firsts [of "[]" names] distinct_firsts [of "[]" names]
    by (cases "set names \<subseteq> set supportedModules") (auto split: if_splits)
qed

section \<open>The chain of hooks\<close>

text \<open>The hook that allows everything is the first one, and one yes is enough.\<close>

lemma broker_allows:
  "Hooks_OnACLCheck (broker_hooks cr rt) s cl topic write = (s, True)"
  "Hooks_OnConnectAuthenticate (broker_hooks cr rt) s cl pk = (s, True)"
  by (simp_all add: broker_hooks_def broker_modules_def allow_hook_def AllowHook_OnACLCheck_def
      AllowHook_OnConnectAuthenticate_def)

lemma add_all:
  "\<forall>(h, f, g) \<in> set cs. \<forall>s. snd (g s) = None \<Longrightarrow> AddHooksFromConfig cs sv = (None, upd_ops (\<lambda>op.
     op\<lparr>opHooks := opHooks op @ map fst cs, opState := fold (\<lambda>(h, f, g) s. fst (g (f s))) cs (opState op)\<rparr>) sv)"
proof (induction cs arbitrary: sv)
  case (Cons c cs)
  obtain h f g where c: "c = (h, f, g)" by (cases c)
  obtain s' e where e: "g (f (opState (svOps sv))) = (s', e)" by (cases "g (f (opState (svOps sv)))")
  have "snd (g (f (opState (svOps sv)))) = None" using Cons.prems by (simp add: c)
  with e have g: "g (f (opState (svOps sv))) = (s', None)" by simp
  show ?case using Cons by (simp add: c AddHook_def Hooks_Add_def upd_ops_def g)
qed (simp add: upd_ops_def)

lemmas module_inits = init_validator_def init_auth_defense_def init_integrity_def init_ebpf_def
  init_priority_def init_wildcard_def init_module_def Validator_Init_def AuthDefense_Init_def Integrity_Init_def
  Ebpf_Init_def Priority_Init_def Wildcard_Init_def

lemma broker_inits: "\<forall>(h, f, g) \<in> set (broker_modules cr rt). \<forall>s. snd (g s) = None"
  by (auto simp: broker_modules_def module_inits)

lemma configured_hooks:
  "fst (configure_broker cr rt sv) = None
    \<and> opHooks (svOps (snd (configure_broker cr rt sv))) = opHooks (svOps sv) @ broker_hooks cr rt
    \<and> (brMessageIntegrity rt \<longrightarrow>
        miConfig (moIntegrity (opState (svOps (snd (configure_broker cr rt sv))))) = broker_integrity)"
  unfolding configure_broker_def add_all [OF broker_inits] broker_hooks_def
  by (simp add: upd_ops_def) (simp add: broker_modules_def module_inits setOpts_priority_def Let_def)

text \<open>A message that the chain rejects stays with its client.\<close>

lemma inbound_alias_keeps:
  "apart r s0 sv \<Longrightarrow> apart r s0 (snd (inbound_alias r pk sv))"
  "pUser (pkProperties (fst (inbound_alias r pk sv))) = pUser (pkProperties pk)"
  "\<not> (pTopicAliasFlag (pkProperties pk) \<and> pTopicAlias (pkProperties pk) > 0) \<Longrightarrow> inbound_alias r pk sv = (pk, sv)"
  by (auto simp: inbound_alias_def Let_def split_beta intro: apart_steps)

lemma apart_reuse: "apart r s0 sv \<Longrightarrow> apart r s0 (snd (reuse_identifier now r pk sv))"
  using apart_WriteTo [of r s0 sv]
  by (auto simp: reuse_identifier_def del_inflight_def Let_def split_beta split: option.split intro: apart_steps)

lemma apart_Disconnect: "apart r s0 sv \<Longrightarrow> apart r s0 (snd (DisconnectClient now r code sv))"
  unfolding DisconnectClient_def Let_def split_beta
  by (intro apart_branch apart_steps apart_WriteTo) 

lemma reuse_state:
  assumes "fst (reuse_identifier now r pk sv) = None"
  shows "opHooks (svOps (snd (reuse_identifier now r pk sv))) = opHooks (svOps sv)"
    and "opState (svOps (snd (reuse_identifier now r pk sv))) = opState (svOps sv)"
    and "clID (svHeap (snd (reuse_identifier now r pk sv)) r) = clID (svHeap sv r)"
  using assms
  by (auto simp: reuse_identifier_def del_inflight_def Let_def split_beta tally_def upd_ops_def upd_client_def
      set_client_def split: option.splits if_splits)

text \<open>
  \<open>same_contents pk pk'\<close>: the packet that the chain is asked about has the contents of the one that was
  received; only its origin, its times and its quality of service have been filled in.
\<close>

definition same_contents :: "packet \<Rightarrow> packet \<Rightarrow> bool" where
  "same_contents pk pk' \<longleftrightarrow> pkTopicName pk' = pkTopicName pk \<and> pkPayload pk' = pkPayload pk
     \<and> pUser (pkProperties pk') = pUser (pkProperties pk)"

lemma publish_rejected:
  assumes acl: "\<And>topic. Hooks_OnACLCheck (opHooks (svOps sv)) (opState (svOps sv)) (svHeap sv r) topic True
      = (opState (svOps sv), True)"
    and unaliased: "\<not> (pTopicAliasFlag (pkProperties pk) \<and> pTopicAlias (pkProperties pk) > 0)"
    and inline: "\<not> cnInline (clNet (svHeap sv r))"
    and rej: "\<And>cl pk'. clID cl = clID (svHeap sv r) \<Longrightarrow> same_contents pk pk' \<Longrightarrow>
      \<exists>s pkx err. Hooks_OnPublish (opHooks (svOps sv)) (opState (svOps sv)) cl pk' = (s, pkx, Some err)
        \<and> errors_Is err ErrRejectPacket"
  shows "apart r sv (snd (processPublish now r pk sv))"
proof -
  define pk1 where "pk1 = (let pk = pk\<lparr>pkOrigin := clID (svHeap sv r), pkCreated := now\<rparr>
    in if expiry_of (svCaps sv) pk > 0 then pk\<lparr>pkExpiry := now + expiry_of (svCaps sv) pk\<rparr> else pk)"
  have pk1: "same_contents pk pk1" "pkProperties pk1 = pkProperties pk"
    by (simp_all add: pk1_def same_contents_def Let_def)
  have ask: "ask (\<lambda>hs s. Hooks_OnACLCheck hs s (svHeap sv r) (pkTopicName pk) True) sv = (True, sv)"
    by (simp add: ask_def acl upd_ops_def)
  obtain res sv2 where reuse: "reuse_identifier now r pk1 sv = (res, sv2)" by (metis prod.exhaust)
  have a2: "apart r sv sv2" using apart_reuse [of r sv sv now pk1] by (simp add: reuse)
  have run: "processPublish now r pk sv =
    (if \<not> IsValidFilter (pkTopicName pk) True then (None, sv)
     else if iReceiveQuota (clInflight (svHeap sv r)) = 0 then DisconnectClient now r ErrReceiveMaximum sv
     else case reuse_identifier now r pk1 sv of
         (Some result, sv) \<Rightarrow> (result, sv)
       | (None, sv) \<Rightarrow>
           let (pk, sv) = inbound_alias r pk1 sv;
               pk = (if fhQos (pkFixedHeader pk) > MaximumQos (svCaps sv)
                     then pkFixedHeader_update (fhQos_update (\<lambda>_. MaximumQos (svCaps sv))) pk else pk);
               (answer, sv) = ask (\<lambda>hs s. Hooks_OnPublish hs s (svHeap sv r) pk) sv
           in publish_checked now r pk answer sv)"
    unfolding processPublish_def Let_def pk1_def using inline ask by simp
  have goes_on: "apart r sv (snd (publish_checked now r pk2 (fst a) (snd a)))"
    if none: "res = None" and pk2: "same_contents pk pk2"
      and a: "a = ask (\<lambda>hs s. Hooks_OnPublish hs s (svHeap sv2 r) pk2) sv2" for pk2 a
  proof -
    have same: "opHooks (svOps sv2) = opHooks (svOps sv)" "opState (svOps sv2) = opState (svOps sv)"
      "clID (svHeap sv2 r) = clID (svHeap sv r)"
      using reuse_state [of now r pk1 sv] none by (simp_all add: reuse)
    obtain s pkx err where r: "Hooks_OnPublish (opHooks (svOps sv)) (opState (svOps sv)) (svHeap sv2 r) pk2 = (s, pkx, Some err)"
      "errors_Is err ErrRejectPacket" using rej [OF same(3) pk2] by blast
    have "apart r sv (snd a)" unfolding a by (rule apart_ask [OF a2])
    moreover have "fst a = (pkx, Some err)" by (simp add: a ask_def same r)
    ultimately show ?thesis using r(2) by (simp add: publish_checked_def)
  qed
  have al: "inbound_alias r pk1 sv2 = (pk1, sv2)" using unaliased pk1(2) by (simp add: inbound_alias_keeps)
  define pk2 where "pk2 = (if fhQos (pkFixedHeader pk1) > MaximumQos (svCaps sv2)
    then pkFixedHeader_update (fhQos_update (\<lambda>_. MaximumQos (svCaps sv2))) pk1 else pk1)"
  have pk2: "same_contents pk pk2" using pk1 by (simp add: pk2_def same_contents_def)
  have "apart r sv (snd (DisconnectClient now r ErrReceiveMaximum sv))" by (simp add: apart_Disconnect)
  then show ?thesis
    using a2 goes_on [OF _ pk2 refl]
    by (cases res; cases "MaximumQos (svCaps sv2) < fhQos (pkFixedHeader pk1)")
      (simp_all add: run reuse al pk2_def Let_def split_beta)
qed

section \<open>Signed messages\<close>

text \<open>A message with the signature that the broker asks for.\<close>

definition signed_for :: "crypto \<Rightarrow> integrity_config \<Rightarrow> packet \<Rightarrow> bool" where
  "signed_for cr cfg pk \<longleftrightarrow> (\<exists>p. List.find (\<lambda>p. Key p = integrity_key) (pUser (pkProperties pk)) = Some p
     \<and> crB64dec cr (Val p) = Some (crMac cr (icSecret cfg) (pkTopicName pk @ pkPayload pk)))"

lemma same_signed: "same_contents pk pk' \<Longrightarrow> signed_for cr cfg pk' = signed_for cr cfg pk"
  by (simp add: same_contents_def signed_for_def)

lemma unsigned_rejected:
  assumes "RequireSignature (miConfig h)" "VerifySignature (miConfig h)" "\<not> is_probe cl"
    "\<not> signed_for cr (miConfig h) pk"
  shows "snd (snd (Integrity_OnPublish (crMac cr) (crB64dec cr) h cl pk)) = Some (ECode ErrRejectPacket)"
proof -
  have "snd (snd (Integrity_OnPublish (crMac cr) (crB64dec cr) h cl pk)) \<noteq> None"
    using assms by (auto simp: Integrity_OnPublish_spec signed_for_def split: option.splits)
  moreover have "snd (snd (Integrity_OnPublish (crMac cr) (crB64dec cr) h cl pk)) = None
      \<or> snd (snd (Integrity_OnPublish (crMac cr) (crB64dec cr) h cl pk)) = Some (ECode ErrRejectPacket)"
    by (simp add: Integrity_OnPublish_def Let_def split: option.split)
  ultimately show ?thesis by (elim disjE) (erule notE, assumption)+
qed

lemma validator_rejects: "Validator_OnPublish h cl pk = (h', pk', Some err) \<Longrightarrow> err = ECode ErrRejectPacket"
  by (auto simp: Validator_OnPublish_def Let_def split: if_splits option.splits)

text \<open>The chain up to the integrity hook lets messages through unchanged or rejects them.\<close>

lemma chain_rejects:
  assumes rt: "brMessageIntegrity rt" and cfg: "miConfig (moIntegrity s) = broker_integrity"
    and bad: "\<not> is_probe cl" "\<not> signed_for cr broker_integrity pk"
  shows "\<exists>s' pkx err. Hooks_OnPublish (broker_hooks cr rt) s cl pk = (s', pkx, Some err) \<and> errors_Is err ErrRejectPacket"
proof -
  have events: "OnPublish_ev \<noteq> OnConnectAuthenticate_ev" "OnPublish_ev \<noteq> OnACLCheck_ev" "OnPublish_ev \<noteq> OnConnect_ev"
    "OnPublish_ev \<noteq> OnAuthPacket_ev" "OnPublish_ev \<noteq> OnSessionEstablished_ev" "OnPublish_ev \<noteq> OnDisconnect_ev"
    by (simp_all add: OnPublish_ev_def OnConnectAuthenticate_ev_def OnACLCheck_ev_def OnConnect_ev_def OnAuthPacket_ev_def
        OnSessionEstablished_ev_def OnDisconnect_ev_def)
  have reject: "\<exists>s' pkx err. OnPublish_loop (integrity_hook cr # hs) t cl pk0 pk = (s', pkx, Some err) \<and> errors_Is err ErrRejectPacket"
    if "miConfig (moIntegrity t) = broker_integrity" for t hs pk0
  proof -
    obtain h' pk' e where i: "Integrity_OnPublish (crMac cr) (crB64dec cr) (moIntegrity t) cl pk = (h', pk', e)"
      by (metis prod_cases3)
    moreover have "e = Some (ECode ErrRejectPacket)"
      using unsigned_rejected [of "moIntegrity t" cl cr pk] that bad i by (simp add: broker_integrity_def)
    ultimately show ?thesis by (simp add: integrity_hook_def)
  qed
  obtain h' pk' e where v: "Validator_OnPublish (moValidator s) cl pk = (h', pk', e)" by (metis prod_cases3)
  have checked: "\<exists>s' pkx err. OnPublish_loop (validator_hook # integrity_hook cr # hs) s cl pk pk = (s', pkx, Some err)
      \<and> errors_Is err ErrRejectPacket" for hs
  proof (cases e)
    case None
    have "pk' = pk" using v None by (auto dest: validator_passes)
    with reject [of "s\<lparr>moValidator := h'\<rparr>" hs pk] cfg v None show ?thesis by (simp add: validator_hook_def)
  next
    case (Some err)
    then show ?thesis using v by (auto simp: validator_hook_def dest: validator_rejects)
  qed
  have skip: "OnPublish_loop (allow_hook # hs) t cl pk0 pk1 = OnPublish_loop hs t cl pk0 pk1"
    "OnPublish_loop (auth_defense_hook # hs) t cl pk0 pk1 = OnPublish_loop hs t cl pk0 pk1" for hs t pk0 pk1
    by (simp_all add: allow_hook_def auth_defense_hook_def events)
  have skip2: "OnPublish_loop (validator_hook # auth_defense_hook # hs) t cl pk0 pk1 = OnPublish_loop (validator_hook # hs) t cl pk0 pk1"
    for hs t pk0 pk1 by (simp add: skip(2) OnPublish_loop.simps(2) [of validator_hook] del: OnPublish_loop.simps)
  show ?thesis
    using rt reject [OF cfg, of _ pk] checked
    by (auto simp: Hooks_OnPublish_def broker_hooks_def broker_modules_def skip skip2 simp del: OnPublish_loop.simps)
qed

lemma broker_rejects:
  assumes "brMessageIntegrity rt" "opHooks (svOps sv) = broker_hooks cr rt"
    "miConfig (moIntegrity (opState (svOps sv))) = broker_integrity"
    "\<not> cnInline (clNet (svHeap sv r))" "\<not> is_probe (svHeap sv r)" "\<not> signed_for cr broker_integrity pk"
    "\<not> (pTopicAliasFlag (pkProperties pk) \<and> pTopicAlias (pkProperties pk) > 0)"
  shows "apart r sv (snd (processPublish now r pk sv))"
proof (rule publish_rejected [OF _ assms(7,4)])
  show "Hooks_OnACLCheck (opHooks (svOps sv)) (opState (svOps sv)) (svHeap sv r) topic True = (opState (svOps sv), True)" for topic
    by (simp add: assms(2) broker_allows)
  show "\<exists>s pkx err. Hooks_OnPublish (opHooks (svOps sv)) (opState (svOps sv)) cl pk' = (s, pkx, Some err)
      \<and> errors_Is err ErrRejectPacket" if "clID cl = clID (svHeap sv r)" "same_contents pk pk'" for cl pk'
    using chain_rejects [OF assms(1,3), of cl cr pk'] assms(5,6) that same_signed [OF that(2)]
    by (simp add: assms(2) is_probe_def)
qed

section \<open>Wildcard tokens in the broker\<close>

text \<open>The token hook stands after the hook that allows everything: its answer is never asked for.\<close>

lemma broker_grants:
  assumes "opHooks (svOps sv) = broker_hooks cr rt" "IsValidFilter (sFilter sub) False"
    "\<not> (sNoLocal sub \<and> IsSharedFilter (sFilter sub))"
  shows "svTopics (snd (subscribe_one r CodeSuccess sub sv))
      = fst (TopicsIndex_Subscribe (clID (svHeap sv r)) sub (svTopics sv))"
proof -
  have "ask (\<lambda>hs s. Hooks_OnACLCheck hs s (svHeap sv r) (sFilter sub) False) sv = (True, sv)"
    by (simp add: ask_def assms(1) broker_allows upd_ops_def)
  then show ?thesis using assms(2,3)
    by (auto simp: subscribe_one_def Let_def split_beta tally_def upd_ops_def upd_client_def set_client_def)
qed

end
