(* ===== verification/Mqtt_Typing.thy ===== *)
theory Mqtt_Typing
  imports Mqtt_ClientLaws
begin

text \<open>
  What every decoded packet is like: texts are UTF-8 and fit their length fields, binary data fits,
  qualities of service and identifiers are in range.  Together with the decoded header this is all
  that the round trip of \<open>Mqtt_ClientLaws\<close> asks of a packet to be sent again.
\<close>

section \<open>Fields\<close>

named_theorems typed "what a decoder returns"

lemma decodeBytes_short [typed]:
  assumes "decodeBytes buf off = Inr (v, off')"
  shows "short v"
proof -
  obtain len :: u16 and n where v: "v = gslice buf n (n + unat len)"
    using assms by (auto simp: decodeBytes_def split: sum.splits if_splits)
  have "length v \<le> unat len" by (simp add: v gslice_def)
  moreover have "unat len < 65536" using unsigned_less [of len] by simp
  ultimately show ?thesis by (simp add: short_def)
qed

lemma decodeString_text [typed]: "decodeString buf off = Inr (v, off') \<Longrightarrow> text_ok v"
  using decodeBytes_short [of buf off v off']
  by (auto simp: decodeString_def text_ok_def short_def split: sum.splits if_splits)

section \<open>Properties\<close>

lemma decodeProperty_typed:
  assumes "decodeProperty k bt off p = Inr (p', off')" "properties_ok p"
  shows "properties_ok p'"
proof (cases "k = PropSubscriptionIdentifier \<or> k = PropUser")
  case False
  then show ?thesis
    using assms unfolding decodeProperty_def
    by (auto simp: result_iff properties_ok_def split: if_splits dest: typed)
next
  case True
  then show ?thesis
  proof
    assume "k = PropSubscriptionIdentifier"
    then obtain n bu r where "DecodeLength (drop off bt) = Inr (n, bu, r)"
      "p' = p\<lparr>pSubscriptionIdentifier := pSubscriptionIdentifier p @ [int n]\<rparr>"
      using assms(1) by (auto simp: decodeProperty_def split: sum.splits)
    then show ?thesis using DecodeLength_result(1) assms(2) by (auto simp: properties_ok_def)
  next
    assume "k = PropUser"
    then show ?thesis
      using assms by (auto simp: decodeProperty_def result_iff properties_ok_def user_ok_def split: sum.splits dest: typed)
  qed
qed

lemma decodeProperties_typed:
  "decodeProperties bt n pkt off p = Inr p' \<Longrightarrow> properties_ok p \<Longrightarrow> properties_ok p'"
proof (induction bt n pkt off p rule: decodeProperties.induct)
  case (1 bt n pkt off p)
  show ?case
  proof (cases "off < n")
    case False
    then show ?thesis using "1.prems" by (simp add: decodeProperties.simps)
  next
    case True
    then obtain k o1 p1 o2 m where s: "decodeByte bt off = Inr (k, o1)"
        "m_get validPacketProperties k = Some m" "m_has m pkt" "decodeProperty k bt o1 p = Inr (p1, o2)"
        "decodeProperties bt n pkt o2 p1 = Inr p'"
      using "1.prems"(1) by (subst (asm) decodeProperties.simps) (auto split: sum.splits option.splits if_splits)
    show ?thesis
      using "1.IH" [OF True s(1) refl s(2) _ s(4) refl s(5)] s(3) decodeProperty_typed [OF s(4) "1.prems"(2)] by simp
  qed
qed

lemma Properties_Decode_typed [typed]:
  "Properties_Decode p pkt b = Inr (p', n) \<Longrightarrow> properties_ok p \<Longrightarrow> properties_ok p'"
  by (auto simp: Properties_Decode_def split: sum.splits if_splits dest: decodeProperties_typed)

section \<open>Packets\<close>

definition connect_typed :: "connect_params \<Rightarrow> bool" where
  "connect_typed c \<longleftrightarrow> properties_ok (cWillProperties c) \<and> short (cProtocolName c) \<and> text_ok (cClientIdentifier c)
     \<and> text_ok (cWillTopic c) \<and> short (cWillPayload c) \<and> short (cUsername c) \<and> short (cPassword c) \<and> cWillQos c \<le> 3"

text \<open>A packet of the shape a decoder returns, with the header it was given.\<close>

definition packet_typed :: "fixed_header \<Rightarrow> packet \<Rightarrow> bool" where
  "packet_typed fh pk \<longleftrightarrow> connect_typed (pkConnect pk) \<and> properties_ok (pkProperties pk) \<and> text_ok (pkTopicName pk)
     \<and> list_all sub_ok (pkFilters pk) \<and> pkFixedHeader pk = fh"

lemma packet_typed_simps [simp]:
  "packet_typed fh (pkPacketID_update (\<lambda>_. i) pk) = packet_typed fh pk"
  "packet_typed fh (pkReasonCode_update (\<lambda>_. c) pk) = packet_typed fh pk"
  "packet_typed fh (pkReasonCodes_update (\<lambda>_. cs) pk) = packet_typed fh pk"
  "packet_typed fh (pkSessionPresent_update (\<lambda>_. sp) pk) = packet_typed fh pk"
  "packet_typed fh (pkPayload_update (\<lambda>_. b) pk) = packet_typed fh pk"
  "packet_typed fh (pkProtocolVersion_update (\<lambda>_. v) pk) = packet_typed fh pk"
  by (simp_all add: packet_typed_def)

lemma packet_typed_topic [intro]:
  "packet_typed fh pk \<Longrightarrow> text_ok t \<Longrightarrow> packet_typed fh (pkTopicName_update (\<lambda>_. t) pk)"
  by (simp add: packet_typed_def)

lemma packet_typed_filters [intro]:
  "packet_typed fh pk \<Longrightarrow> list_all sub_ok fs \<Longrightarrow> packet_typed fh (pkFilters_update (\<lambda>_. fs) pk)"
  by (simp add: packet_typed_def)

lemma packet_typed_connect [intro]:
  "packet_typed fh pk \<Longrightarrow> (connect_typed (pkConnect pk) \<Longrightarrow> connect_typed (f (pkConnect pk))) \<Longrightarrow>
     packet_typed fh (pkConnect_update f pk)"
  by (simp add: packet_typed_def)

lemma decodeProps_typed [typed]:
  "decodeProps pk buf off = Inr (pk', n) \<Longrightarrow> packet_typed fh pk \<Longrightarrow> packet_typed fh pk'"
  by (auto simp: decodeProps_def result_iff packet_typed_def dest: typed)

lemma optional_props_typed [typed]:
  assumes "(if v then check (decodeProps pk buf off) (\<lambda>err. err) (\<lambda>(pk, n). Inr (pk, off + n)) else Inr (pk, off))
      = Inr (pk', off')" "packet_typed fh pk"
  shows "packet_typed fh pk'"
  using assms by (auto simp: result_iff split: if_splits dest: typed)

lemma no_subscription_ok: "text_ok f \<Longrightarrow> sub_ok (sFilter_update (\<lambda>_. f) no_subscription)"
  by (simp add: sub_ok_def no_subscription_def)

lemma and_3_le: "3 AND (x :: byte) \<le> 3" "x AND 3 \<le> 3"
  by (rule word_and_le2 word_and_le1)+

lemma subscribe_filter_typed [typed]: "decode_subscribe_filter v sids buf off = Inr (s, off') \<Longrightarrow> sub_ok s"
  unfolding decode_subscribe_filter_def Let_def
  by (auto simp: result_iff sub_ok_def Subscription_decode_def no_subscription_def and_3_le split: if_splits dest: typed)

lemma subscribe_filters_typed [typed]:
  "decode_subscribe_filters v sids buf off fs = Inr fs' \<Longrightarrow> list_all sub_ok fs \<Longrightarrow> list_all sub_ok fs'"
proof (induction v sids buf off fs rule: decode_subscribe_filters.induct)
  case (1 v sids buf off fs)
  show ?case
  proof (cases "off < length buf")
    case False
    then show ?thesis using "1.prems" by (simp add: decode_subscribe_filters.simps)
  next
    case True
    then obtain s o1 where s: "decode_subscribe_filter v sids buf off = Inr (s, o1)"
        "decode_subscribe_filters v sids buf o1 (fs @ [s]) = Inr fs'"
      using "1.prems"(1) by (subst (asm) decode_subscribe_filters.simps) (auto simp: result_iff)
    show ?thesis
      using "1.IH" [OF True s(1) refl s(2)] subscribe_filter_typed [OF s(1)] "1.prems"(2) by simp
  qed
qed

lemma unsubscribe_filters_typed [typed]:
  "decode_unsubscribe_filters buf off fs = Inr fs' \<Longrightarrow> list_all sub_ok fs \<Longrightarrow> list_all sub_ok fs'"
proof (induction buf off fs rule: decode_unsubscribe_filters.induct)
  case (1 buf off fs)
  show ?case
  proof (cases "off < length buf")
    case False
    then show ?thesis using "1.prems" by (simp add: decode_unsubscribe_filters.simps)
  next
    case True
    then obtain s o1 where s: "decode_unsubscribe_filter buf off = Inr (s, o1)"
        "decode_unsubscribe_filters buf o1 (fs @ [s]) = Inr fs'"
      using "1.prems"(1) by (subst (asm) decode_unsubscribe_filters.simps) (auto simp: result_iff)
    have "sub_ok s"
      using s(1) by (auto simp: decode_unsubscribe_filter_def result_iff no_subscription_ok dest: typed)
    then show ?thesis using "1.IH" [OF True s(1) refl s(2)] "1.prems"(2) by simp
  qed
qed

section \<open>The decoders\<close>

lemma will_typed [typed]:
  "ConnectDecode_will pk buf off = Inr (pk', off') \<Longrightarrow> packet_typed fh pk \<Longrightarrow> packet_typed fh pk'"
  unfolding ConnectDecode_will_def
  by (auto simp: result_iff packet_typed_def connect_typed_def split: if_splits dest: typed)

lemma credentials_typed [typed]:
  "ConnectDecode_credentials pk buf off = Inr pk' \<Longrightarrow> packet_typed fh pk \<Longrightarrow> packet_typed fh pk'"
  unfolding ConnectDecode_credentials_def
  by (auto simp: result_iff packet_typed_def connect_typed_def split: if_splits dest: typed)

lemma connect_start_typed:
  "packet_typed fh pk \<Longrightarrow> short name \<Longrightarrow>
     packet_typed fh (connect_flags flags (pkProtocolVersion_update (\<lambda>_. v)
       (pkConnect_update (cKeepalive_update (\<lambda>_. k) \<circ> cProtocolName_update (\<lambda>_. name)) pk)))"
  by (simp add: connect_flags_def packet_typed_def connect_typed_def and_3_le)

lemma ConnectDecode_typed:
  assumes "ConnectDecode pk buf = Inr pk'" "packet_typed fh pk"
  shows "packet_typed fh pk'"
  using assms(1) unfolding ConnectDecode_def Let_def
  apply (clarsimp simp: check_Inr_iff simp del: fun_upd_apply split del: if_split)
  apply (drule optional_props_typed [where fh = fh])
   apply (rule connect_start_typed [OF assms(2)])
   apply (erule decodeBytes_short)
  apply (drule decodeString_text)
  apply (drule will_typed [where fh = fh])
   apply (simp add: packet_typed_def connect_typed_def)
  apply (erule (1) credentials_typed)
  done

lemma PublishDecode_typed:
  assumes "PublishDecode pk buf = Inr pk'" "packet_typed fh pk"
  shows "packet_typed fh pk'"
proof -
  have "packet_typed fh pk2"
    if "(if q then check (decodeUint16 buf off) (\<lambda>err. EWrap err ErrMalformedPacketID) (\<lambda>(pid, offset).
             Inr (pkPacketID_update (\<lambda>_. pid) pk1, offset))
           else Inr (pk1, off)) = Inr (pk2, off')" "packet_typed fh pk1" for q off pk1 pk2 off'
    using that by (auto simp: result_iff split: if_splits)
  note id = this
  show ?thesis
    using assms(1) unfolding PublishDecode_def Let_def
    apply (clarsimp simp: check_Inr_iff split del: if_split)
    apply (drule id)
     apply (rule packet_typed_topic [OF assms(2)])
     apply (erule decodeString_text)
    apply (drule (1) optional_props_typed)
    apply simp
    done
qed

lemma filters_decode_typed:
  "SubscribeDecode pk buf = Inr pk' \<Longrightarrow> packet_typed fh pk \<Longrightarrow> packet_typed fh pk'"
  "UnsubscribeDecode pk buf = Inr pk' \<Longrightarrow> packet_typed fh pk \<Longrightarrow> packet_typed fh pk'"
  "SubackDecode pk buf = Inr pk' \<Longrightarrow> packet_typed fh pk \<Longrightarrow> packet_typed fh pk'"
  unfolding SubscribeDecode_def UnsubscribeDecode_def SubackDecode_def Let_def
  by (clarsimp simp: check_Inr_iff split del: if_split, drule optional_props_typed [where fh = fh],
      simp, force dest: subscribe_filters_typed unsubscribe_filters_typed)+

lemma props_end_typed [typed]:
  assumes "(if c then check (decodeProps pk buf off) (\<lambda>err. err) (\<lambda>(pk, _). Inr pk) else Inr pk) = Inr pk'"
    "packet_typed fh pk"
  shows "packet_typed fh pk'"
  using assms by (auto simp: check_Inr_iff split: if_splits dest: decodeProps_typed)

lemma ConnackDecode_typed:
  assumes "ConnackDecode pk buf = Inr pk'" "packet_typed fh pk"
  shows "packet_typed fh pk'"
  using assms(1) unfolding ConnackDecode_def Let_def
  apply (clarsimp simp: check_Inr_iff split del: if_split)
  apply (erule props_end_typed, simp add: assms(2))
  done

lemma DisconnectDecode_typed:
  assumes "DisconnectDecode pk buf = Inr pk'" "packet_typed fh pk"
  shows "packet_typed fh pk'"
proof (cases "pkProtocolVersion pk = 5 \<and> fhRemaining (pkFixedHeader pk) > 1")
  case True
  then show ?thesis
    using assms(1) unfolding DisconnectDecode_def Let_def
    apply (clarsimp simp: check_Inr_iff split del: if_split)
    apply (erule props_end_typed, simp add: assms(2))
    done
next
  case False
  then show ?thesis using assms by (simp add: DisconnectDecode_def split: if_splits)
qed

lemma ack_decode_typed:
  assumes "decodePubAckRelRecComp pk buf = Inr pk'" "packet_typed fh pk"
  shows "packet_typed fh pk'"
proof (cases "pkProtocolVersion pk = 5 \<and> fhRemaining (pkFixedHeader pk) > 2")
  case True
  then show ?thesis
    using assms(1) unfolding decodePubAckRelRecComp_def Let_def
    apply (clarsimp simp: check_Inr_iff split del: if_split)
    apply (erule props_end_typed, simp add: assms(2))
    done
next
  case False
  then obtain pid where "pk' = pkPacketID_update (\<lambda>_. pid) pk"
    using assms(1) unfolding decodePubAckRelRecComp_def Let_def by (auto simp: check_Inr_iff simp del: One_nat_def)
  then show ?thesis using assms(2) by simp
qed

lemma UnsubackDecode_typed:
  assumes "UnsubackDecode pk buf = Inr pk'" "packet_typed fh pk"
  shows "packet_typed fh pk'"
proof (cases "pkProtocolVersion pk = 5")
  case True
  then show ?thesis
    using assms(1) unfolding UnsubackDecode_def Let_def
    apply (clarsimp simp: check_Inr_iff)
    apply (erule decodeProps_typed, simp add: assms(2))
    done
next
  case False
  then show ?thesis
    using assms unfolding UnsubackDecode_def Let_def by (auto simp: check_Inr_iff)
qed

lemma AuthDecode_typed:
  assumes "AuthDecode pk buf = Inr pk'" "packet_typed fh pk"
  shows "packet_typed fh pk'"
  using assms(1) unfolding AuthDecode_def Let_def
  apply (clarsimp simp: check_Inr_iff)
  apply (erule decodeProps_typed, simp add: assms(2))
  done

lemmas decode_typed = ConnectDecode_typed PublishDecode_typed filters_decode_typed ConnackDecode_typed
  DisconnectDecode_typed ack_decode_typed UnsubackDecode_typed AuthDecode_typed

lemma decode_packet_typed:
  assumes "decode_packet pk px = Inr pk'" "packet_typed fh pk"
  shows "packet_typed fh pk'"
  using assms(1) decode_typed [OF _ assms(2)] assms(2)
  unfolding decode_packet_def Let_def puback_family_defs by (simp split: if_splits)

section \<open>Headers\<close>

lemma two_bits:
  fixes b :: byte
  shows "drop_bit (Suc 0) b AND 1 = (drop_bit (Suc 0) b AND 3) AND 1"
    "drop_bit (Suc 0) b AND 2 = (drop_bit (Suc 0) b AND 3) AND 2"
    "drop_bit 2 b AND 1 = drop_bit (Suc 0) (drop_bit (Suc 0) b AND 3)"
proof -
  have "drop_bit (Suc 0) (3 :: byte) = 1" by code_simp
  then show "drop_bit 2 b AND 1 = drop_bit (Suc 0) (drop_bit (Suc 0) b AND 3)"
    by (simp only: drop_bit_and drop_bit_drop_bit) (simp add: numeral_2_eq_2)
qed (simp_all add: and.assoc)

lemma unat_lt_256: "unat (b :: byte) < 256"
  using unsigned_less [of b] by simp

lemma high_nibble: "drop_bit 4 (b :: byte) \<le> 15"
  using unat_lt_256 [of b]
  by (simp add: word_le_nat_alt drop_bit_eq_div unat_div)

text \<open>Every first byte that is read gives a header that could have been written.\<close>

lemma read_header_ok:
  assumes "FixedHeader_Decode no_header b = Inr fh"
  shows "header_ok fh"
proof -
  define q where "q = drop_bit (Suc 0) b AND 3"
  note bits = two_bits [of b, folded q_def]
  have "q = 0 \<or> q = 1 \<or> q = 2 \<or> q = 3" unfolding q_def by (intro byte_le_3D and_3_le)
  then show ?thesis
    using assms high_nibble [of b]
    by (elim disjE; clarsimp simp: FixedHeader_Decode_def Let_def header_ok_def no_header_def bits q_def [symmetric]
        split: if_splits)
qed

lemma received_typed: "packet_typed fh (received v fh)"
  by (simp add: packet_typed_def received_def no_packet_def connect_typed_def properties_ok_def no_properties_def
      no_connect_def short_def text_ok_def validUTF8_def)

text \<open>What the reader took can be sent.\<close>

lemma typed_sendable:
  assumes "packet_typed fh pk" "header_ok fh" "fhType fh \<notin> {Pingreq, Pingresp}"
  shows "sendable pk"
  using assms
  by (auto simp: sendable_def packet_typed_def connect_ok_def connect_typed_def Let_def sub_ok_def list_all_iff)

end
