(* ===== verification/Mqtt_Cases.thy ===== *)
theory Mqtt_Cases
  imports Mqtt_Packets
begin

text \<open>
  The test cases of \<open>packets/tpackets.go\<close> and the checks that \<open>packets_test.go\<close> makes of them: what a
  case says of the encoder, the decoder and the validator of its type of packet.  The tables
  themselves are in the theories whose names start with \<open>Mqtt_Cases\<close>.
\<close>

section \<open>A case\<close>

text \<open>\<open>None\<close> is the nil slice or pointer; all errors of the tables are codes.\<close>

record packet_case =
  tcRawBytes :: "byte list option"
  tcActualBytes :: "byte list option"
  tcGroup :: gostring
  tcDesc :: gostring
  tcFailFirst :: "code option"
  tcPacket :: "packet option"
  tcActualPacket :: "packet option"
  tcExpect :: "code option"
  tcIsolate :: bool
  tcPrimary :: bool
  tcCase :: byte

definition no_case :: packet_case where
  "no_case = \<lparr>tcRawBytes = None, tcActualBytes = None, tcGroup = [], tcDesc = [], tcFailFirst = None,
     tcPacket = None, tcActualPacket = None, tcExpect = None, tcIsolate = False, tcPrimary = False, tcCase = 0\<rparr>"

fun Cases_Get :: "packet_case list \<Rightarrow> byte \<Rightarrow> packet_case" where
  "Cases_Get [] b = no_case"
| "Cases_Get (v # f) b = (if tcCase v = b then v else Cases_Get f b)"

definition packetList :: "byte list" where
  "packetList = [Connect, Connack, Publish, Puback, Pubrec, Pubrel, Pubcomp, Subscribe, Suback, Unsubscribe,
     Unsuback, Pingreq, Pingresp, Disconnect, Auth]"

section \<open>The checks\<close>

definition encodeTestOK :: "packet_case \<Rightarrow> bool" where
  "encodeTestOK wanted \<longleftrightarrow> tcRawBytes wanted \<noteq> None \<and> (tcGroup wanted = [] \<or> tcGroup wanted = lit ''encode'')"

definition decodeTestOK :: "packet_case \<Rightarrow> bool" where
  "decodeTestOK wanted \<longleftrightarrow> tcGroup wanted = [] \<or> tcGroup wanted = lit ''decode''"

text \<open>The methods by type, as the switches of the tests select them.\<close>

definition encode_as :: "byte \<Rightarrow> packet \<Rightarrow> error + (packet \<times> byte list)" where
  "encode_as pkt pk =
    (if pkt = Connect then ConnectEncode pk else if pkt = Connack then ConnackEncode pk
     else if pkt = Publish then PublishEncode pk else if pkt = Puback then PubackEncode pk
     else if pkt = Pubrec then PubrecEncode pk else if pkt = Pubrel then PubrelEncode pk
     else if pkt = Pubcomp then PubcompEncode pk else if pkt = Subscribe then SubscribeEncode pk
     else if pkt = Suback then SubackEncode pk else if pkt = Unsubscribe then UnsubscribeEncode pk
     else if pkt = Unsuback then UnsubackEncode pk else if pkt = Pingreq then PingreqEncode pk
     else if pkt = Pingresp then PingrespEncode pk else if pkt = Disconnect then DisconnectEncode pk
     else AuthEncode pk)"

definition decode_as :: "byte \<Rightarrow> packet \<Rightarrow> byte list \<Rightarrow> error + packet" where
  "decode_as pkt pk buf =
    (if pkt = Connect then ConnectDecode pk buf else if pkt = Connack then ConnackDecode pk buf
     else if pkt = Publish then PublishDecode pk buf else if pkt = Puback then PubackDecode pk buf
     else if pkt = Pubrec then PubrecDecode pk buf else if pkt = Pubrel then PubrelDecode pk buf
     else if pkt = Pubcomp then PubcompDecode pk buf else if pkt = Subscribe then SubscribeDecode pk buf
     else if pkt = Suback then SubackDecode pk buf else if pkt = Unsubscribe then UnsubscribeDecode pk buf
     else if pkt = Unsuback then UnsubackDecode pk buf else if pkt = Pingreq then PingreqDecode pk buf
     else if pkt = Pingresp then PingrespDecode pk buf else if pkt = Disconnect then DisconnectDecode pk buf
     else AuthDecode pk buf)"

definition validate_as :: "byte \<Rightarrow> packet \<Rightarrow> code option" where
  "validate_as pkt pk =
    (if pkt = Connect then Some (ConnectValidate pk) else if pkt = Publish then Some (PublishValidate pk 1024)
     else if pkt = Subscribe then Some (SubscribeValidate pk) else if pkt = Unsubscribe then Some (UnsubscribeValidate pk)
     else if pkt = Auth then Some (AuthValidate pk) else None)"

text \<open>\<open>TestPacketEncode\<close>: the bytes are those of the case, or its mutated bytes where it has some.\<close>

definition encode_test :: "byte \<Rightarrow> packet_case \<Rightarrow> bool" where
  "encode_test pkt wanted \<longleftrightarrow> encodeTestOK wanted \<longrightarrow>
    (case tcPacket wanted of
       None \<Rightarrow> False
     | Some pk \<Rightarrow> pkt = fhType (pkFixedHeader pk) \<and>
         (case encode_as pkt (pk\<lparr>pkMods := (pkMods pk)\<lparr>mAllowResponseInfo := True\<rparr>\<rparr>) of
            Inl err \<Rightarrow> tcExpect wanted \<noteq> None
          | Inr (_, encoded) \<Rightarrow> tcExpect wanted = None \<and>
              Some encoded = (if tcActualBytes wanted \<in> {None, Some []} then tcRawBytes wanted else tcActualBytes wanted)))"

text \<open>
  The header that \<open>FixedHeader.Decode\<close> leaves, also when it returns an error, which the test ignores.
\<close>

definition decoded_header :: "fixed_header \<Rightarrow> byte \<Rightarrow> fixed_header" where
  "decoded_header fh0 hb =
    (case FixedHeader_Decode fh0 hb of
       Inr fh \<Rightarrow> fh
     | Inl _ \<Rightarrow>
         let fh = fh0\<lparr>fhType := drop_bit 4 hb\<rparr>
         in if fhType fh = Publish \<and> \<not> (drop_bit 1 hb AND 0x01 > 0 \<and> drop_bit 1 hb AND 0x02 > 0)
            then fh\<lparr>fhDup := drop_bit 3 hb AND 0x01 > 0, fhQos := drop_bit 1 hb AND 0x03, fhRetain := hb AND 0x01 > 0\<rparr>
            else fh)"

text \<open>What the test compares of a decoded packet.\<close>

definition same_packet :: "byte \<Rightarrow> packet \<Rightarrow> packet \<Rightarrow> bool" where
  "same_packet pkt w pk \<longleftrightarrow>
     pkFilters w = pkFilters pk
   \<and> (pkFixedHeader w)\<lparr>fhRemaining := 0\<rparr> = (pkFixedHeader pk)\<lparr>fhRemaining := 0\<rparr>
   \<and> (pkt \<noteq> Connect \<or> pkProtocolVersion w = pkProtocolVersion pk)
   \<and> pkConnect w = pkConnect pk
   \<and> pkReasonCodes w = pkReasonCodes pk \<and> pkReasonCode w = pkReasonCode pk
   \<and> pkSessionPresent w = pkSessionPresent pk \<and> pkPacketID w = pkPacketID pk
   \<and> pkProperties w = pkProperties pk"

text \<open>\<open>TestPacketDecode\<close>: the packet of the case, or its error.\<close>

definition decode_input :: "byte \<Rightarrow> packet_case \<Rightarrow> (packet \<times> byte list) option" where
  "decode_input pkt wanted =
    (case tcRawBytes wanted of
       Some (b # r # buf) \<Rightarrow>
         Some (no_packet\<lparr>
           pkFixedHeader := (decoded_header (no_header\<lparr>fhType := pkt\<rparr>) b)\<lparr>fhRemaining := unat r\<rparr>,
           pkMods := no_mods\<lparr>mAllowResponseInfo := True\<rparr>,
           pkProtocolVersion := (case tcPacket wanted of Some w \<Rightarrow> pkProtocolVersion w | None \<Rightarrow> 0)\<rparr>, buf)
     | _ \<Rightarrow> None)"

definition decode_test :: "byte \<Rightarrow> packet_case \<Rightarrow> bool" where
  "decode_test pkt wanted \<longleftrightarrow> decodeTestOK wanted \<longrightarrow>
    (case decode_input pkt wanted of
       None \<Rightarrow> False
     | Some (pk, buf) \<Rightarrow>
         (case decode_as pkt pk buf of
            Inl err \<Rightarrow> (case tcFailFirst wanted of Some c \<Rightarrow> errors_Is err c | None \<Rightarrow> False)
          | Inr pk \<Rightarrow> tcFailFirst wanted = None \<and>
              (case tcPacket wanted of None \<Rightarrow> False | Some w \<Rightarrow> same_packet pkt w pk)))"

text \<open>\<open>TestValidate\<close>.\<close>

definition validate_test :: "byte \<Rightarrow> packet_case \<Rightarrow> bool" where
  "validate_test pkt wanted \<longleftrightarrow>
    (tcGroup wanted = lit ''validate'' \<or> tcPrimary wanted) \<and> tcExpect wanted \<noteq> None \<longrightarrow>
      (case tcPacket wanted of None \<Rightarrow> False | Some pk \<Rightarrow> validate_as pkt pk = tcExpect wanted)"

text \<open>
  The encoder and the decoder of a case are evaluated in the kernel, case by case; its validator, which
  compares lengths with 65535, is unfolded.
\<close>

definition coded :: "byte \<Rightarrow> packet_case \<Rightarrow> bool" where
  "coded pkt wanted \<longleftrightarrow> encode_test pkt wanted \<and> decode_test pkt wanted"

definition conforms :: "byte \<Rightarrow> packet_case \<Rightarrow> bool" where
  "conforms pkt wanted \<longleftrightarrow> coded pkt wanted \<and> validate_test pkt wanted"

named_theorems cases_coded "the cases whose encoder and decoder were evaluated"
named_theorems case_defs "the cases"

lemmas test_defs = encode_test_def encodeTestOK_def decode_test_def decodeTestOK_def coded_def
lemmas validate_defs = validate_test_def validate_as_def ConnectValidate_def PublishValidate_def
  SubscribeValidate_def UnsubscribeValidate_def AuthValidate_def ContainsAny_def

text \<open>
  For the evaluation, a subscription identifier stays an integer: as a natural number the kernel
  would count it in unary.
\<close>

function encode_digits :: "int \<Rightarrow> byte list" where
  "encode_digits i =
    (if i < 128 then [of_int (if i < 0 then 0 else i)] else (of_int (i mod 128) OR 0x80) # encode_digits (i div 128))"
  by pat_completeness auto
termination by (relation "measure nat") auto

declare encode_digits.simps [simp del]

lemma encode_digits_eq: "encode_digits i = encodeLength (nat i)"
proof (induction i rule: encode_digits.induct)
  case (1 i)
  show ?case
  proof (cases "i < 128")
    case True
    then have "nat i div 128 = 0" "(of_nat (nat i mod 128) :: byte) = of_int (if i < 0 then 0 else i)" by auto
    then show ?thesis using True by (simp add: encode_digits.simps [of i] encodeLength.simps [of "nat i"])
  next
    case False
    then have n: "nat i div 128 = nat (i div 128)" "nat i mod 128 = nat (i mod 128)" "nat (i div 128) > 0"
      by (simp_all add: nat_div_distrib nat_mod_distrib pos_imp_zdiv_pos_iff)
    then have "(of_nat (nat i mod 128) :: byte) = of_int (i mod 128)" by simp
    then show ?thesis
      using False n(1,3) 1 by (simp add: encode_digits.simps [of i] encodeLength.simps [of "nat i"] Let_def)
  qed
qed

lemma encodeSubIDs_code [code]:
  "encodeSubIDs vs = concat (map (\<lambda>v. if v > 0 then PropSubscriptionIdentifier # encode_digits v else []) vs)"
  unfolding encodeSubIDs_def encode_digits_eq by (rule refl)

fun decode_digits :: "u32 \<Rightarrow> u32 \<Rightarrow> nat \<Rightarrow> byte list \<Rightarrow> error + (int \<times> nat)" where
  "decode_digits multiplier val bu [] = Inl EEOF"
| "decode_digits multiplier val bu (eb # r) =
     (let val' = val OR push_bit (unat multiplier) (ucast (eb AND 127)) in
      if val' > 268435455 then Inl (ECode ErrMalformedVariableByteInteger)
      else if eb AND 128 = 0 then Inr (uint val', bu)
      else decode_digits (multiplier + 7) val' (bu + 1) r)"

lemma decode_digits:
  "decode_digits m v bu b = map_sum id (\<lambda>(n, bu, r). (int n, bu)) (DecodeLength_loop m v bu b)"
  by (induction m v bu b rule: decode_digits.induct) (simp_all add: Let_def)

definition decodeProperty_other :: "byte \<Rightarrow> byte list \<Rightarrow> nat \<Rightarrow> properties \<Rightarrow> error + (properties \<times> nat)" where
  "decodeProperty_other k bt offset p = decodeProperty k bt offset p"

lemmas decodeProperty_other_code [code] = decodeProperty_def [folded decodeProperty_other_def]

lemma decodeProperty_code [code]:
  "decodeProperty k bt offset p =
    (if k = PropSubscriptionIdentifier then
       (case decode_digits 0 0 1 (drop offset bt) of
          Inl err \<Rightarrow> Inl err
        | Inr (n, bu) \<Rightarrow> Inr (p\<lparr>pSubscriptionIdentifier := pSubscriptionIdentifier p @ [n]\<rparr>, offset + bu))
     else decodeProperty_other k bt offset p)"
proof (cases "k = PropSubscriptionIdentifier")
  case True
  then show ?thesis
    by (cases "DecodeLength_loop 0 0 1 (drop offset bt)") (auto simp: decodeProperty_def decode_digits DecodeLength_def)
qed (simp add: decodeProperty_other_def)

text \<open>A case that is for the validator only.\<close>

lemma only_validated: "tcGroup c = lit ''validate'' \<Longrightarrow> coded pkt c"
  by (simp add: test_defs lit_def)

lemma conforms_list: "list_all (coded pkt) cs \<Longrightarrow> list_all (validate_test pkt) cs \<Longrightarrow> list_all (conforms pkt) cs"
  by (auto simp: conforms_def list_all_iff)

end
