(* ===== verification/Mqtt_CasesConnect.thy ===== *)
theory Mqtt_CasesConnect
  imports Mqtt_Cases
begin

text \<open>
  The test tables of \<open>packets/tpackets.go\<close>: the cases of CONNECT.
\<close>

section \<open>Connect\<close>

definition TConnectMqtt31_case :: packet_case where [case_defs]:
  "TConnectMqtt31_case = no_case\<lparr>tcCase := 0,
     tcDesc := lit ''mqtt v3.1'',
     tcPrimary := True,
     tcRawBytes := Some [push_bit 4 Connect, 17,
                    0, 6,
                    77, 81, 73, 115, 100, 112,
                    3,
                    0,
                    0, 30,
                    0, 3,
                    122, 101, 110],
     tcPacket := Some (no_packet\<lparr>pkFixedHeader := no_header\<lparr>fhType := Connect,
           fhRemaining := 17\<rparr>,
        pkProtocolVersion := 3,
        pkConnect := no_connect\<lparr>cProtocolName := lit ''MQIsdp'',
           cClean := False,
           cKeepalive := 30,
           cClientIdentifier := lit ''zen''\<rparr>\<rparr>)\<rparr>"

lemma TConnectMqtt31_case_coded [cases_coded]: "coded Connect TConnectMqtt31_case"
  by code_simp

definition TConnectMqtt311_case :: packet_case where [case_defs]:
  "TConnectMqtt311_case = no_case\<lparr>tcCase := 1,
     tcDesc := lit ''mqtt v3.1.1'',
     tcPrimary := True,
     tcRawBytes := Some [push_bit 4 Connect, 15,
                    0, 4,
                    77, 81, 84, 84,
                    4,
                    0,
                    0, 60,
                    0, 3,
                    122, 101, 110],
     tcPacket := Some (no_packet\<lparr>pkFixedHeader := no_header\<lparr>fhType := Connect,
           fhRemaining := 15\<rparr>,
        pkProtocolVersion := 4,
        pkConnect := no_connect\<lparr>cProtocolName := lit ''MQTT'',
           cClean := False,
           cKeepalive := 60,
           cClientIdentifier := lit ''zen''\<rparr>\<rparr>)\<rparr>"

lemma TConnectMqtt311_case_coded [cases_coded]: "coded Connect TConnectMqtt311_case"
  by code_simp

definition TConnectMqtt5_case :: packet_case where [case_defs]:
  "TConnectMqtt5_case = no_case\<lparr>tcCase := 2,
     tcDesc := lit ''mqtt v5'',
     tcPrimary := True,
     tcRawBytes := Some [push_bit 4 Connect, 87,
                    0, 4,
                    77, 81, 84, 84,
                    5,
                    0,
                    0, 30,
                    71,
                    17, 0, 0, 0, 120,
                    21, 0, 5, 83, 72, 65, 45, 49,
                    22, 0, 9, 97, 117, 116, 104, 45, 100, 97, 116, 97,
                    23, 1,
                    25, 1,
                    33, 1, 244,
                    34, 3, 231,
                    38,
                    0, 5, 104, 101, 108, 108, 111,
                    0, 6, 228, 184, 150, 231, 149, 140,
                    38,
                    0, 4, 107, 101, 121, 50,
                    0, 6, 118, 97, 108, 117, 101, 50,
                    39, 0, 0, 125, 0,
                    0, 3,
                    122, 101, 110],
     tcPacket := Some (no_packet\<lparr>pkFixedHeader := no_header\<lparr>fhType := Connect,
           fhRemaining := 87\<rparr>,
        pkProtocolVersion := 5,
        pkConnect := no_connect\<lparr>cProtocolName := lit ''MQTT'',
           cClean := False,
           cKeepalive := 30,
           cClientIdentifier := lit ''zen''\<rparr>,
        pkProperties := no_properties\<lparr>pSessionExpiryInterval := 120,
           pSessionExpiryIntervalFlag := True,
           pAuthenticationMethod := lit ''SHA-1'',
           pAuthenticationData := lit ''auth-data'',
           pRequestProblemInfo := 1,
           pRequestProblemInfoFlag := True,
           pRequestResponseInfo := 1,
           pReceiveMaximum := 500,
           pTopicAliasMaximum := 999,
           pUser := [\<lparr>Key = lit ''hello'', Val = [228, 184, 150, 231, 149, 140]\<rparr>, \<lparr>Key = lit ''key2'', Val = lit ''value2''\<rparr>],
           pMaximumPacketSize := 32000\<rparr>\<rparr>)\<rparr>"

lemma TConnectMqtt5_case_coded [cases_coded]: "coded Connect TConnectMqtt5_case"
  by code_simp

definition TConnectClean_case :: packet_case where [case_defs]:
  "TConnectClean_case = no_case\<lparr>tcCase := 4,
     tcDesc := lit ''mqtt 3.1.1, clean session'',
     tcRawBytes := Some [push_bit 4 Connect, 15,
                    0, 4,
                    77, 81, 84, 84,
                    4,
                    2,
                    0, 45,
                    0, 3,
                    122, 101, 110],
     tcPacket := Some (no_packet\<lparr>pkFixedHeader := no_header\<lparr>fhType := Connect,
           fhRemaining := 15\<rparr>,
        pkProtocolVersion := 4,
        pkConnect := no_connect\<lparr>cProtocolName := lit ''MQTT'',
           cClean := True,
           cKeepalive := 45,
           cClientIdentifier := lit ''zen''\<rparr>\<rparr>)\<rparr>"

lemma TConnectClean_case_coded [cases_coded]: "coded Connect TConnectClean_case"
  by code_simp

definition TConnectMqtt5LWT_case :: packet_case where [case_defs]:
  "TConnectMqtt5LWT_case = no_case\<lparr>tcCase := 3,
     tcDesc := lit ''mqtt 5 clean session, lwt'',
     tcRawBytes := Some [push_bit 4 Connect, 47,
                    0, 4,
                    77, 81, 84, 84,
                    5,
                    14,
                    0, 30,
                    10,
                    17, 0, 0, 0, 120,
                    39, 0, 0, 125, 0,
                    0, 3,
                    122, 101, 110,
                    5,
                    24, 0, 0, 2, 88,
                    0, 3,
                    108, 119, 116,
                    0, 8,
                    110, 111, 116, 97, 103, 97, 105, 110],
     tcPacket := Some (no_packet\<lparr>pkProtocolVersion := 5,
        pkFixedHeader := no_header\<lparr>fhType := Connect,
           fhRemaining := 42\<rparr>,
        pkConnect := no_connect\<lparr>cProtocolName := lit ''MQTT'',
           cClean := True,
           cKeepalive := 30,
           cClientIdentifier := lit ''zen'',
           cWillFlag := True,
           cWillTopic := lit ''lwt'',
           cWillPayload := lit ''notagain'',
           cWillQos := 1,
           cWillProperties := no_properties\<lparr>pWillDelayInterval := 600\<rparr>\<rparr>,
        pkProperties := no_properties\<lparr>pSessionExpiryInterval := 120,
           pSessionExpiryIntervalFlag := True,
           pMaximumPacketSize := 32000\<rparr>\<rparr>)\<rparr>"

lemma TConnectMqtt5LWT_case_coded [cases_coded]: "coded Connect TConnectMqtt5LWT_case"
  by code_simp

definition TConnectUserPass_case :: packet_case where [case_defs]:
  "TConnectUserPass_case = no_case\<lparr>tcCase := 5,
     tcDesc := lit ''mqtt 3.1.1, username, password'',
     tcRawBytes := Some [push_bit 4 Connect, 28,
                    0, 4,
                    77, 81, 84, 84,
                    4,
                    (0 OR (push_bit 6 1 OR push_bit 7 1)),
                    0, 20,
                    0, 3,
                    122, 101, 110,
                    0, 5,
                    109, 111, 99, 104, 105,
                    0, 4,
                    44, 46, 47, 59],
     tcPacket := Some (no_packet\<lparr>pkFixedHeader := no_header\<lparr>fhType := Connect,
           fhRemaining := 28\<rparr>,
        pkProtocolVersion := 4,
        pkConnect := no_connect\<lparr>cProtocolName := lit ''MQTT'',
           cClean := False,
           cKeepalive := 20,
           cClientIdentifier := lit ''zen'',
           cUsernameFlag := True,
           cPasswordFlag := True,
           cUsername := lit ''mochi'',
           cPassword := lit '',./;''\<rparr>\<rparr>)\<rparr>"

lemma TConnectUserPass_case_coded [cases_coded]: "coded Connect TConnectUserPass_case"
  by code_simp

definition TConnectUserPassLWT_case :: packet_case where [case_defs]:
  "TConnectUserPassLWT_case = no_case\<lparr>tcCase := 6,
     tcDesc := lit ''mqtt 3.1.1, username, password, lwt'',
     tcPrimary := True,
     tcRawBytes := Some [push_bit 4 Connect, 44,
                    0, 4,
                    77, 81, 84, 84,
                    4,
                    206,
                    0, 120,
                    0, 3,
                    122, 101, 110,
                    0, 3,
                    108, 119, 116,
                    0, 9,
                    110, 111, 116, 32, 97, 103, 97, 105, 110,
                    0, 5,
                    109, 111, 99, 104, 105,
                    0, 4,
                    44, 46, 47, 59],
     tcPacket := Some (no_packet\<lparr>pkFixedHeader := no_header\<lparr>fhType := Connect,
           fhRemaining := 44\<rparr>,
        pkProtocolVersion := 4,
        pkConnect := no_connect\<lparr>cProtocolName := lit ''MQTT'',
           cClean := True,
           cKeepalive := 120,
           cClientIdentifier := lit ''zen'',
           cUsernameFlag := True,
           cPasswordFlag := True,
           cUsername := lit ''mochi'',
           cPassword := lit '',./;'',
           cWillFlag := True,
           cWillTopic := lit ''lwt'',
           cWillPayload := lit ''not again'',
           cWillQos := 1\<rparr>\<rparr>)\<rparr>"

lemma TConnectUserPassLWT_case_coded [cases_coded]: "coded Connect TConnectUserPassLWT_case"
  by code_simp

definition TConnectZeroByteUsername_case :: packet_case where [case_defs]:
  "TConnectZeroByteUsername_case = no_case\<lparr>tcCase := 34,
     tcDesc := lit ''username flag but 0 byte username'',
     tcGroup := lit ''decode'',
     tcRawBytes := Some [push_bit 4 Connect, 23,
                    0, 4,
                    77, 81, 84, 84,
                    5,
                    130,
                    0, 30,
                    5,
                    17, 0, 0, 0, 120,
                    0, 3,
                    122, 101, 110,
                    0, 0],
     tcPacket := Some (no_packet\<lparr>pkFixedHeader := no_header\<lparr>fhType := Connect,
           fhRemaining := 23\<rparr>,
        pkProtocolVersion := 5,
        pkConnect := no_connect\<lparr>cProtocolName := lit ''MQTT'',
           cClean := True,
           cKeepalive := 30,
           cClientIdentifier := lit ''zen'',
           cUsername := [],
           cUsernameFlag := True\<rparr>,
        pkProperties := no_properties\<lparr>pSessionExpiryInterval := 120,
           pSessionExpiryIntervalFlag := True\<rparr>\<rparr>)\<rparr>"

lemma TConnectZeroByteUsername_case_coded [cases_coded]: "coded Connect TConnectZeroByteUsername_case"
  by code_simp

definition TConnectMalProtocolName_case :: packet_case where [case_defs]:
  "TConnectMalProtocolName_case = no_case\<lparr>tcCase := 7,
     tcDesc := lit ''malformed protocol name'',
     tcGroup := lit ''decode'',
     tcFailFirst := Some ErrMalformedProtocolName,
     tcRawBytes := Some [push_bit 4 Connect, 0,
                    0, 7,
                    77, 81, 73, 115, 100]\<rparr>"

lemma TConnectMalProtocolName_case_coded [cases_coded]: "coded Connect TConnectMalProtocolName_case"
  by code_simp

definition TConnectMalProtocolVersion_case :: packet_case where [case_defs]:
  "TConnectMalProtocolVersion_case = no_case\<lparr>tcCase := 8,
     tcDesc := lit ''malformed protocol version'',
     tcGroup := lit ''decode'',
     tcFailFirst := Some ErrMalformedProtocolVersion,
     tcRawBytes := Some [push_bit 4 Connect, 0,
                    0, 4,
                    77, 81, 84, 84]\<rparr>"

lemma TConnectMalProtocolVersion_case_coded [cases_coded]: "coded Connect TConnectMalProtocolVersion_case"
  by code_simp

definition TConnectMalFlags_case :: packet_case where [case_defs]:
  "TConnectMalFlags_case = no_case\<lparr>tcCase := 9,
     tcDesc := lit ''malformed flags'',
     tcGroup := lit ''decode'',
     tcFailFirst := Some ErrMalformedFlags,
     tcRawBytes := Some [push_bit 4 Connect, 0,
                    0, 4,
                    77, 81, 84, 84,
                    4]\<rparr>"

lemma TConnectMalFlags_case_coded [cases_coded]: "coded Connect TConnectMalFlags_case"
  by code_simp

definition TConnectMalKeepalive_case :: packet_case where [case_defs]:
  "TConnectMalKeepalive_case = no_case\<lparr>tcCase := 10,
     tcDesc := lit ''malformed keepalive'',
     tcGroup := lit ''decode'',
     tcFailFirst := Some ErrMalformedKeepalive,
     tcRawBytes := Some [push_bit 4 Connect, 0,
                    0, 4,
                    77, 81, 84, 84,
                    4,
                    0]\<rparr>"

lemma TConnectMalKeepalive_case_coded [cases_coded]: "coded Connect TConnectMalKeepalive_case"
  by code_simp

definition TConnectMalClientID_case :: packet_case where [case_defs]:
  "TConnectMalClientID_case = no_case\<lparr>tcCase := 11,
     tcDesc := lit ''malformed client id'',
     tcGroup := lit ''decode'',
     tcFailFirst := Some ErrClientIdentifierNotValid,
     tcRawBytes := Some [push_bit 4 Connect, 0,
                    0, 4,
                    77, 81, 84, 84,
                    4,
                    0,
                    0, 20,
                    0, 3,
                    122, 101]\<rparr>"

lemma TConnectMalClientID_case_coded [cases_coded]: "coded Connect TConnectMalClientID_case"
  by code_simp

definition TConnectMalWillTopic_case :: packet_case where [case_defs]:
  "TConnectMalWillTopic_case = no_case\<lparr>tcCase := 12,
     tcDesc := lit ''malformed will topic'',
     tcGroup := lit ''decode'',
     tcFailFirst := Some ErrMalformedWillTopic,
     tcRawBytes := Some [push_bit 4 Connect, 0,
                    0, 4,
                    77, 81, 84, 84,
                    4,
                    14,
                    0, 20,
                    0, 3,
                    122, 101, 110,
                    0, 6,
                    108]\<rparr>"

lemma TConnectMalWillTopic_case_coded [cases_coded]: "coded Connect TConnectMalWillTopic_case"
  by code_simp

definition TConnectMalWillFlag_case :: packet_case where [case_defs]:
  "TConnectMalWillFlag_case = no_case\<lparr>tcCase := 13,
     tcDesc := lit ''malformed will flag'',
     tcGroup := lit ''decode'',
     tcFailFirst := Some ErrMalformedWillPayload,
     tcRawBytes := Some [push_bit 4 Connect, 0,
                    0, 4,
                    77, 81, 84, 84,
                    4,
                    14,
                    0, 20,
                    0, 3,
                    122, 101, 110,
                    0, 3,
                    108, 119, 116,
                    0, 9,
                    110, 111, 116, 32, 97]\<rparr>"

lemma TConnectMalWillFlag_case_coded [cases_coded]: "coded Connect TConnectMalWillFlag_case"
  by code_simp

definition TConnectMalUsername_case :: packet_case where [case_defs]:
  "TConnectMalUsername_case = no_case\<lparr>tcCase := 14,
     tcDesc := lit ''malformed username'',
     tcGroup := lit ''decode'',
     tcFailFirst := Some ErrMalformedUsername,
     tcRawBytes := Some [push_bit 4 Connect, 0,
                    0, 4,
                    77, 81, 84, 84,
                    4,
                    206,
                    0, 20,
                    0, 3,
                    122, 101, 110,
                    0, 3,
                    108, 119, 116,
                    0, 9,
                    110, 111, 116, 32, 97, 103, 97, 105, 110,
                    0, 5,
                    109, 111, 99]\<rparr>"

lemma TConnectMalUsername_case_coded [cases_coded]: "coded Connect TConnectMalUsername_case"
  by code_simp

definition TConnectInvalidFlagNoUsername_case :: packet_case where [case_defs]:
  "TConnectInvalidFlagNoUsername_case = no_case\<lparr>tcCase := 25,
     tcDesc := lit ''username flag with no username bytes'',
     tcGroup := lit ''decode'',
     tcFailFirst := Some ErrProtocolViolationFlagNoUsername,
     tcRawBytes := Some [push_bit 4 Connect, 17,
                    0, 4,
                    77, 81, 84, 84,
                    5,
                    130,
                    0, 20,
                    0,
                    0, 3,
                    122, 101, 110]\<rparr>"

lemma TConnectInvalidFlagNoUsername_case_coded [cases_coded]: "coded Connect TConnectInvalidFlagNoUsername_case"
  by code_simp

definition TConnectMalPassword_case :: packet_case where [case_defs]:
  "TConnectMalPassword_case = no_case\<lparr>tcCase := 15,
     tcDesc := lit ''malformed password'',
     tcGroup := lit ''decode'',
     tcFailFirst := Some ErrMalformedPassword,
     tcRawBytes := Some [push_bit 4 Connect, 0,
                    0, 4,
                    77, 81, 84, 84,
                    4,
                    206,
                    0, 20,
                    0, 3,
                    122, 101, 110,
                    0, 3,
                    108, 119, 116,
                    0, 9,
                    110, 111, 116, 32, 97, 103, 97, 105, 110,
                    0, 5,
                    109, 111, 99, 104, 105,
                    0, 4,
                    44, 46]\<rparr>"

lemma TConnectMalPassword_case_coded [cases_coded]: "coded Connect TConnectMalPassword_case"
  by code_simp

definition TConnectMalFixedHeader_case :: packet_case where [case_defs]:
  "TConnectMalFixedHeader_case = no_case\<lparr>tcCase := 16,
     tcDesc := lit ''malformed fixedheader oversize'',
     tcGroup := lit ''decode'',
     tcFailFirst := Some ErrMalformedProtocolName,
     tcRawBytes := Some [push_bit 4 Connect, 255, 255, 255, 255, 255]\<rparr>"

lemma TConnectMalFixedHeader_case_coded [cases_coded]: "coded Connect TConnectMalFixedHeader_case"
  by (simp add: test_defs decode_input_def decode_as_def ConnectDecode_def decodeBytes_def decodeUint16_def
      bigEndian_Uint16_def check_def case_defs no_case_def no_packet_def lit_def)

definition TConnectMalReservedBit_case :: packet_case where [case_defs]:
  "TConnectMalReservedBit_case = no_case\<lparr>tcCase := 17,
     tcDesc := lit ''reserved bit not 0'',
     tcGroup := lit ''nodecode'',
     tcFailFirst := Some ErrProtocolViolation,
     tcRawBytes := Some [push_bit 4 Connect, 15,
                    0, 4,
                    77, 81, 84, 84,
                    4,
                    1,
                    0, 45,
                    0, 3,
                    122, 101, 110]\<rparr>"

lemma TConnectMalReservedBit_case_coded [cases_coded]: "coded Connect TConnectMalReservedBit_case"
  by code_simp

definition TConnectMalProperties_case :: packet_case where [case_defs]:
  "TConnectMalProperties_case = no_case\<lparr>tcCase := 18,
     tcDesc := lit ''malformed properties'',
     tcGroup := lit ''decode'',
     tcFailFirst := Some ErrMalformedProperties,
     tcRawBytes := Some [push_bit 4 Connect, 47,
                    0, 4,
                    77, 81, 84, 84,
                    5,
                    14,
                    0, 30,
                    10],
     tcPacket := Some (no_packet\<lparr>pkProtocolVersion := 5\<rparr>)\<rparr>"

lemma TConnectMalProperties_case_coded [cases_coded]: "coded Connect TConnectMalProperties_case"
  by code_simp

definition TConnectMalWillProperties_case :: packet_case where [case_defs]:
  "TConnectMalWillProperties_case = no_case\<lparr>tcCase := 19,
     tcDesc := lit ''malformed will properties'',
     tcGroup := lit ''decode'',
     tcFailFirst := Some ErrMalformedWillProperties,
     tcRawBytes := Some [push_bit 4 Connect, 47,
                    0, 4,
                    77, 81, 84, 84,
                    5,
                    14,
                    0, 30,
                    10,
                    17, 0, 0, 0, 120,
                    39, 0, 0, 125, 0,
                    0, 3,
                    122, 101, 110,
                    5],
     tcPacket := Some (no_packet\<lparr>pkProtocolVersion := 5\<rparr>)\<rparr>"

lemma TConnectMalWillProperties_case_coded [cases_coded]: "coded Connect TConnectMalWillProperties_case"
  by code_simp

definition TConnectInvalidProtocolName_case :: packet_case where [case_defs]:
  "TConnectInvalidProtocolName_case = no_case\<lparr>tcCase := 20,
     tcDesc := lit ''invalid protocol name'',
     tcGroup := lit ''validate'',
     tcExpect := Some ErrProtocolViolationProtocolName,
     tcPacket := Some (no_packet\<lparr>pkFixedHeader := no_header\<lparr>fhType := Connect\<rparr>,
        pkConnect := no_connect\<lparr>cProtocolName := lit ''stuff''\<rparr>\<rparr>)\<rparr>"

lemma TConnectInvalidProtocolName_case_coded [cases_coded]: "coded Connect TConnectInvalidProtocolName_case"
  by (rule only_validated) (simp add: TConnectInvalidProtocolName_case_def)

definition TConnectInvalidProtocolVersion_case :: packet_case where [case_defs]:
  "TConnectInvalidProtocolVersion_case = no_case\<lparr>tcCase := 21,
     tcDesc := lit ''invalid protocol version'',
     tcGroup := lit ''validate'',
     tcExpect := Some ErrProtocolViolationProtocolVersion,
     tcPacket := Some (no_packet\<lparr>pkFixedHeader := no_header\<lparr>fhType := Connect\<rparr>,
        pkProtocolVersion := 2,
        pkConnect := no_connect\<lparr>cProtocolName := lit ''MQTT''\<rparr>\<rparr>)\<rparr>"

lemma TConnectInvalidProtocolVersion_case_coded [cases_coded]: "coded Connect TConnectInvalidProtocolVersion_case"
  by (rule only_validated) (simp add: TConnectInvalidProtocolVersion_case_def)

definition TConnectInvalidProtocolVersion2_case :: packet_case where [case_defs]:
  "TConnectInvalidProtocolVersion2_case = no_case\<lparr>tcCase := 22,
     tcDesc := lit ''invalid protocol version'',
     tcGroup := lit ''validate'',
     tcExpect := Some ErrProtocolViolationProtocolVersion,
     tcPacket := Some (no_packet\<lparr>pkFixedHeader := no_header\<lparr>fhType := Connect\<rparr>,
        pkProtocolVersion := 2,
        pkConnect := no_connect\<lparr>cProtocolName := lit ''MQIsdp''\<rparr>\<rparr>)\<rparr>"

lemma TConnectInvalidProtocolVersion2_case_coded [cases_coded]: "coded Connect TConnectInvalidProtocolVersion2_case"
  by (rule only_validated) (simp add: TConnectInvalidProtocolVersion2_case_def)

definition TConnectInvalidReservedBit_case :: packet_case where [case_defs]:
  "TConnectInvalidReservedBit_case = no_case\<lparr>tcCase := 23,
     tcDesc := lit ''reserved bit not 0'',
     tcGroup := lit ''validate'',
     tcExpect := Some ErrProtocolViolationReservedBit,
     tcPacket := Some (no_packet\<lparr>pkFixedHeader := no_header\<lparr>fhType := Connect\<rparr>,
        pkProtocolVersion := 4,
        pkConnect := no_connect\<lparr>cProtocolName := lit ''MQTT''\<rparr>,
        pkReservedBit := 1\<rparr>)\<rparr>"

lemma TConnectInvalidReservedBit_case_coded [cases_coded]: "coded Connect TConnectInvalidReservedBit_case"
  by (rule only_validated) (simp add: TConnectInvalidReservedBit_case_def)

definition TConnectInvalidClientIDTooLong_case :: packet_case where [case_defs]:
  "TConnectInvalidClientIDTooLong_case = no_case\<lparr>tcCase := 24,
     tcDesc := lit ''client id too long'',
     tcGroup := lit ''validate'',
     tcExpect := Some ErrClientIdentifierNotValid,
     tcPacket := Some (no_packet\<lparr>pkFixedHeader := no_header\<lparr>fhType := Connect\<rparr>,
        pkProtocolVersion := 4,
        pkConnect := no_connect\<lparr>cProtocolName := lit ''MQTT'',
           cClientIdentifier := replicate 65536 0\<rparr>\<rparr>)\<rparr>"

lemma TConnectInvalidClientIDTooLong_case_coded [cases_coded]: "coded Connect TConnectInvalidClientIDTooLong_case"
  by (rule only_validated) (simp add: TConnectInvalidClientIDTooLong_case_def)

definition TConnectInvalidUsernameNoFlag_case :: packet_case where [case_defs]:
  "TConnectInvalidUsernameNoFlag_case = no_case\<lparr>tcCase := 27,
     tcDesc := lit ''has username but no flag'',
     tcGroup := lit ''validate'',
     tcExpect := Some ErrProtocolViolationUsernameNoFlag,
     tcPacket := Some (no_packet\<lparr>pkFixedHeader := no_header\<lparr>fhType := Connect\<rparr>,
        pkProtocolVersion := 4,
        pkConnect := no_connect\<lparr>cProtocolName := lit ''MQTT'',
           cUsername := lit ''username''\<rparr>\<rparr>)\<rparr>"

lemma TConnectInvalidUsernameNoFlag_case_coded [cases_coded]: "coded Connect TConnectInvalidUsernameNoFlag_case"
  by (rule only_validated) (simp add: TConnectInvalidUsernameNoFlag_case_def)

definition TConnectInvalidFlagNoPassword_case :: packet_case where [case_defs]:
  "TConnectInvalidFlagNoPassword_case = no_case\<lparr>tcCase := 26,
     tcDesc := lit ''has password flag but no password'',
     tcGroup := lit ''validate'',
     tcExpect := Some ErrProtocolViolationFlagNoPassword,
     tcPacket := Some (no_packet\<lparr>pkFixedHeader := no_header\<lparr>fhType := Connect\<rparr>,
        pkProtocolVersion := 4,
        pkConnect := no_connect\<lparr>cProtocolName := lit ''MQTT'',
           cPasswordFlag := True\<rparr>\<rparr>)\<rparr>"

lemma TConnectInvalidFlagNoPassword_case_coded [cases_coded]: "coded Connect TConnectInvalidFlagNoPassword_case"
  by (rule only_validated) (simp add: TConnectInvalidFlagNoPassword_case_def)

definition TConnectInvalidPasswordNoFlag_case :: packet_case where [case_defs]:
  "TConnectInvalidPasswordNoFlag_case = no_case\<lparr>tcCase := 28,
     tcDesc := lit ''has password flag but no password'',
     tcGroup := lit ''validate'',
     tcExpect := Some ErrProtocolViolationPasswordNoFlag,
     tcPacket := Some (no_packet\<lparr>pkFixedHeader := no_header\<lparr>fhType := Connect\<rparr>,
        pkProtocolVersion := 4,
        pkConnect := no_connect\<lparr>cProtocolName := lit ''MQTT'',
           cPassword := lit ''password''\<rparr>\<rparr>)\<rparr>"

lemma TConnectInvalidPasswordNoFlag_case_coded [cases_coded]: "coded Connect TConnectInvalidPasswordNoFlag_case"
  by (rule only_validated) (simp add: TConnectInvalidPasswordNoFlag_case_def)

definition TConnectInvalidUsernameTooLong_case :: packet_case where [case_defs]:
  "TConnectInvalidUsernameTooLong_case = no_case\<lparr>tcCase := 29,
     tcDesc := lit ''username too long'',
     tcGroup := lit ''validate'',
     tcExpect := Some ErrProtocolViolationUsernameTooLong,
     tcPacket := Some (no_packet\<lparr>pkFixedHeader := no_header\<lparr>fhType := Connect\<rparr>,
        pkProtocolVersion := 4,
        pkConnect := no_connect\<lparr>cProtocolName := lit ''MQTT'',
           cUsernameFlag := True,
           cUsername := replicate 65536 0\<rparr>\<rparr>)\<rparr>"

lemma TConnectInvalidUsernameTooLong_case_coded [cases_coded]: "coded Connect TConnectInvalidUsernameTooLong_case"
  by (rule only_validated) (simp add: TConnectInvalidUsernameTooLong_case_def)

definition TConnectInvalidPasswordTooLong_case :: packet_case where [case_defs]:
  "TConnectInvalidPasswordTooLong_case = no_case\<lparr>tcCase := 30,
     tcDesc := lit ''password too long'',
     tcGroup := lit ''validate'',
     tcExpect := Some ErrProtocolViolationPasswordTooLong,
     tcPacket := Some (no_packet\<lparr>pkFixedHeader := no_header\<lparr>fhType := Connect\<rparr>,
        pkProtocolVersion := 4,
        pkConnect := no_connect\<lparr>cProtocolName := lit ''MQTT'',
           cUsernameFlag := True,
           cUsername := [],
           cPasswordFlag := True,
           cPassword := replicate 65536 0\<rparr>\<rparr>)\<rparr>"

lemma TConnectInvalidPasswordTooLong_case_coded [cases_coded]: "coded Connect TConnectInvalidPasswordTooLong_case"
  by (rule only_validated) (simp add: TConnectInvalidPasswordTooLong_case_def)

definition TConnectInvalidWillFlagNoPayload_case :: packet_case where [case_defs]:
  "TConnectInvalidWillFlagNoPayload_case = no_case\<lparr>tcCase := 31,
     tcDesc := lit ''will flag no payload'',
     tcGroup := lit ''validate'',
     tcExpect := Some ErrProtocolViolationWillFlagNoPayload,
     tcPacket := Some (no_packet\<lparr>pkFixedHeader := no_header\<lparr>fhType := Connect\<rparr>,
        pkProtocolVersion := 4,
        pkConnect := no_connect\<lparr>cProtocolName := lit ''MQTT'',
           cWillFlag := True\<rparr>\<rparr>)\<rparr>"

lemma TConnectInvalidWillFlagNoPayload_case_coded [cases_coded]: "coded Connect TConnectInvalidWillFlagNoPayload_case"
  by (rule only_validated) (simp add: TConnectInvalidWillFlagNoPayload_case_def)

definition TConnectInvalidWillFlagQosOutOfRange_case :: packet_case where [case_defs]:
  "TConnectInvalidWillFlagQosOutOfRange_case = no_case\<lparr>tcCase := 32,
     tcDesc := lit ''will flag no payload'',
     tcGroup := lit ''validate'',
     tcExpect := Some ErrProtocolViolationQosOutOfRange,
     tcPacket := Some (no_packet\<lparr>pkFixedHeader := no_header\<lparr>fhType := Connect\<rparr>,
        pkProtocolVersion := 4,
        pkConnect := no_connect\<lparr>cProtocolName := lit ''MQTT'',
           cWillFlag := True,
           cWillTopic := lit ''a/b/c'',
           cWillPayload := [98],
           cWillQos := 4\<rparr>\<rparr>)\<rparr>"

lemma TConnectInvalidWillFlagQosOutOfRange_case_coded [cases_coded]: "coded Connect TConnectInvalidWillFlagQosOutOfRange_case"
  by (rule only_validated) (simp add: TConnectInvalidWillFlagQosOutOfRange_case_def)

definition TConnectInvalidWillSurplusRetain_case :: packet_case where [case_defs]:
  "TConnectInvalidWillSurplusRetain_case = no_case\<lparr>tcCase := 33,
     tcDesc := lit ''no will flag surplus retain'',
     tcGroup := lit ''validate'',
     tcExpect := Some ErrProtocolViolationWillFlagSurplusRetain,
     tcPacket := Some (no_packet\<lparr>pkFixedHeader := no_header\<lparr>fhType := Connect\<rparr>,
        pkProtocolVersion := 4,
        pkConnect := no_connect\<lparr>cProtocolName := lit ''MQTT'',
           cWillRetain := True\<rparr>\<rparr>)\<rparr>"

lemma TConnectInvalidWillSurplusRetain_case_coded [cases_coded]: "coded Connect TConnectInvalidWillSurplusRetain_case"
  by (rule only_validated) (simp add: TConnectInvalidWillSurplusRetain_case_def)

definition TConnectSpecInvalidUTF8D800_case :: packet_case where [case_defs]:
  "TConnectSpecInvalidUTF8D800_case = no_case\<lparr>tcCase := 35,
     tcDesc := lit ''invalid utf8 string (a) - code point U+D800'',
     tcGroup := lit ''decode'',
     tcFailFirst := Some ErrClientIdentifierNotValid,
     tcRawBytes := Some [push_bit 4 Connect, 0,
                    0, 4,
                    77, 81, 84, 84,
                    4,
                    0,
                    0, 20,
                    0, 4,
                    101, 237, 160, 128]\<rparr>"

lemma TConnectSpecInvalidUTF8D800_case_coded [cases_coded]: "coded Connect TConnectSpecInvalidUTF8D800_case"
  by code_simp

definition TConnectSpecInvalidUTF8DFFF_case :: packet_case where [case_defs]:
  "TConnectSpecInvalidUTF8DFFF_case = no_case\<lparr>tcCase := 36,
     tcDesc := lit ''invalid utf8 string (b) - code point U+DFFF'',
     tcGroup := lit ''decode'',
     tcFailFirst := Some ErrClientIdentifierNotValid,
     tcRawBytes := Some [push_bit 4 Connect, 0,
                    0, 4,
                    77, 81, 84, 84,
                    4,
                    0,
                    0, 20,
                    0, 4,
                    101, 237, 163, 191]\<rparr>"

lemma TConnectSpecInvalidUTF8DFFF_case_coded [cases_coded]: "coded Connect TConnectSpecInvalidUTF8DFFF_case"
  by code_simp

definition TConnectSpecInvalidUTF80000_case :: packet_case where [case_defs]:
  "TConnectSpecInvalidUTF80000_case = no_case\<lparr>tcCase := 37,
     tcDesc := lit ''invalid utf8 string (c) - code point U+0000'',
     tcGroup := lit ''decode'',
     tcFailFirst := Some ErrClientIdentifierNotValid,
     tcRawBytes := Some [push_bit 4 Connect, 0,
                    0, 4,
                    77, 81, 84, 84,
                    4,
                    0,
                    0, 20,
                    0, 3,
                    101, 192, 128]\<rparr>"

lemma TConnectSpecInvalidUTF80000_case_coded [cases_coded]: "coded Connect TConnectSpecInvalidUTF80000_case"
  by code_simp

definition TConnectSpecInvalidUTF8NoSkip_case :: packet_case where [case_defs]:
  "TConnectSpecInvalidUTF8NoSkip_case = no_case\<lparr>tcCase := 38,
     tcDesc := lit ''utf8 string must not skip or strip code point U+FEFF'',
     tcRawBytes := Some [push_bit 4 Connect, 18,
                    0, 4,
                    77, 81, 84, 84,
                    4,
                    0,
                    0, 20,
                    0, 6,
                    101, 98, 239, 187, 191, 100],
     tcPacket := Some (no_packet\<lparr>pkFixedHeader := no_header\<lparr>fhType := Connect,
           fhRemaining := 16\<rparr>,
        pkProtocolVersion := 4,
        pkConnect := no_connect\<lparr>cProtocolName := lit ''MQTT'',
           cKeepalive := 20,
           cClientIdentifier := [101, 98, 239, 187, 191, 100]\<rparr>\<rparr>)\<rparr>"

lemma TConnectSpecInvalidUTF8NoSkip_case_coded [cases_coded]: "coded Connect TConnectSpecInvalidUTF8NoSkip_case"
  by code_simp

definition Connect_cases :: "packet_case list" where
  "Connect_cases = [TConnectMqtt31_case,
     TConnectMqtt311_case,
     TConnectMqtt5_case,
     TConnectClean_case,
     TConnectMqtt5LWT_case,
     TConnectUserPass_case,
     TConnectUserPassLWT_case,
     TConnectZeroByteUsername_case,
     TConnectMalProtocolName_case,
     TConnectMalProtocolVersion_case,
     TConnectMalFlags_case,
     TConnectMalKeepalive_case,
     TConnectMalClientID_case,
     TConnectMalWillTopic_case,
     TConnectMalWillFlag_case,
     TConnectMalUsername_case,
     TConnectInvalidFlagNoUsername_case,
     TConnectMalPassword_case,
     TConnectMalFixedHeader_case,
     TConnectMalReservedBit_case,
     TConnectMalProperties_case,
     TConnectMalWillProperties_case,
     TConnectInvalidProtocolName_case,
     TConnectInvalidProtocolVersion_case,
     TConnectInvalidProtocolVersion2_case,
     TConnectInvalidReservedBit_case,
     TConnectInvalidClientIDTooLong_case,
     TConnectInvalidUsernameNoFlag_case,
     TConnectInvalidFlagNoPassword_case,
     TConnectInvalidPasswordNoFlag_case,
     TConnectInvalidUsernameTooLong_case,
     TConnectInvalidPasswordTooLong_case,
     TConnectInvalidWillFlagNoPayload_case,
     TConnectInvalidWillFlagQosOutOfRange_case,
     TConnectInvalidWillSurplusRetain_case,
     TConnectSpecInvalidUTF8D800_case,
     TConnectSpecInvalidUTF8DFFF_case,
     TConnectSpecInvalidUTF80000_case,
     TConnectSpecInvalidUTF8NoSkip_case]"

lemma Connect_cases_coded: "list_all (coded Connect) Connect_cases"
  by (simp only: Connect_cases_def list.pred_inject cases_coded simp_thms)

lemma Connect_cases_validated: "list_all (validate_test Connect) Connect_cases"
  by (simp add: Connect_cases_def validate_defs case_defs no_case_def no_packet_def no_header_def no_connect_def
      no_properties_def no_subscription_def lit_def)

end
