(* ===== verification/Mqtt_CasesConnack.thy ===== *)
theory Mqtt_CasesConnack
  imports Mqtt_Cases
begin

text \<open>
  The test tables of \<open>packets/tpackets.go\<close>: the cases of CONNACK.
\<close>

section \<open>Connack\<close>

definition TConnackAcceptedNoSession_case :: packet_case where [case_defs]:
  "TConnackAcceptedNoSession_case = no_case\<lparr>tcCase := 39,
     tcDesc := lit ''accepted, no session'',
     tcPrimary := True,
     tcRawBytes := Some [push_bit 4 Connack, 2,
                    0,
                    Code CodeSuccess],
     tcPacket := Some (no_packet\<lparr>pkFixedHeader := no_header\<lparr>fhType := Connack,
           fhRemaining := 2\<rparr>,
        pkSessionPresent := False,
        pkReasonCode := Code CodeSuccess\<rparr>)\<rparr>"

lemma TConnackAcceptedNoSession_case_coded [cases_coded]: "coded Connack TConnackAcceptedNoSession_case"
  by code_simp

definition TConnackAcceptedSessionExists_case :: packet_case where [case_defs]:
  "TConnackAcceptedSessionExists_case = no_case\<lparr>tcCase := 40,
     tcDesc := lit ''accepted, session exists'',
     tcPrimary := True,
     tcRawBytes := Some [push_bit 4 Connack, 2,
                    1,
                    Code CodeSuccess],
     tcPacket := Some (no_packet\<lparr>pkFixedHeader := no_header\<lparr>fhType := Connack,
           fhRemaining := 2\<rparr>,
        pkSessionPresent := True,
        pkReasonCode := Code CodeSuccess\<rparr>)\<rparr>"

lemma TConnackAcceptedSessionExists_case_coded [cases_coded]: "coded Connack TConnackAcceptedSessionExists_case"
  by code_simp

definition TConnackAcceptedAdjustedExpiryInterval_case :: packet_case where [case_defs]:
  "TConnackAcceptedAdjustedExpiryInterval_case = no_case\<lparr>tcCase := 42,
     tcDesc := lit ''accepted, no session, adjusted expiry interval mqtt5'',
     tcPrimary := True,
     tcRawBytes := Some [push_bit 4 Connack, 8,
                    0,
                    Code CodeSuccess,
                    5,
                    17, 0, 0, 0, 120],
     tcPacket := Some (no_packet\<lparr>pkProtocolVersion := 5,
        pkFixedHeader := no_header\<lparr>fhType := Connack,
           fhRemaining := 8\<rparr>,
        pkReasonCode := Code CodeSuccess,
        pkProperties := no_properties\<lparr>pSessionExpiryInterval := 120,
           pSessionExpiryIntervalFlag := True\<rparr>\<rparr>)\<rparr>"

lemma TConnackAcceptedAdjustedExpiryInterval_case_coded [cases_coded]: "coded Connack TConnackAcceptedAdjustedExpiryInterval_case"
  by code_simp

definition TConnackAcceptedMqtt5_case :: packet_case where [case_defs]:
  "TConnackAcceptedMqtt5_case = no_case\<lparr>tcCase := 41,
     tcDesc := lit ''accepted no session mqtt5'',
     tcPrimary := True,
     tcRawBytes := Some [push_bit 4 Connack, 124,
                    0,
                    Code CodeSuccess,
                    121,
                    17, 0, 0, 0, 120,
                    18, 0, 8, 109, 111, 99, 104, 105, 45, 118, 53,
                    19, 0, 20,
                    21, 0, 5, 83, 72, 65, 45, 49,
                    22, 0, 9, 97, 117, 116, 104, 45, 100, 97, 116, 97,
                    26, 0, 8, 114, 101, 115, 112, 111, 110, 115, 101,
                    28, 0, 7, 109, 111, 99, 104, 105, 45, 50,
                    31, 0, 6, 114, 101, 97, 115, 111, 110,
                    33, 1, 244,
                    34, 3, 231,
                    36, 1,
                    37, 1,
                    38,
                    0, 5, 104, 101, 108, 108, 111,
                    0, 6, 228, 184, 150, 231, 149, 140,
                    38,
                    0, 4, 107, 101, 121, 50,
                    0, 6, 118, 97, 108, 117, 101, 50,
                    39, 0, 0, 125, 0,
                    40, 1,
                    41, 1,
                    42, 1],
     tcPacket := Some (no_packet\<lparr>pkProtocolVersion := 5,
        pkFixedHeader := no_header\<lparr>fhType := Connack,
           fhRemaining := 124\<rparr>,
        pkSessionPresent := False,
        pkReasonCode := Code CodeSuccess,
        pkProperties := no_properties\<lparr>pSessionExpiryInterval := 120,
           pSessionExpiryIntervalFlag := True,
           pAssignedClientID := lit ''mochi-v5'',
           pServerKeepAlive := 20,
           pServerKeepAliveFlag := True,
           pAuthenticationMethod := lit ''SHA-1'',
           pAuthenticationData := lit ''auth-data'',
           pResponseInfo := lit ''response'',
           pServerReference := lit ''mochi-2'',
           pReasonString := lit ''reason'',
           pReceiveMaximum := 500,
           pTopicAliasMaximum := 999,
           pMaximumQos := 1,
           pMaximumQosFlag := True,
           pRetainAvailable := 1,
           pRetainAvailableFlag := True,
           pUser := [\<lparr>Key = lit ''hello'', Val = [228, 184, 150, 231, 149, 140]\<rparr>, \<lparr>Key = lit ''key2'', Val = lit ''value2''\<rparr>],
           pMaximumPacketSize := 32000,
           pWildcardSubAvailable := 1,
           pWildcardSubAvailableFlag := True,
           pSubIDAvailable := 1,
           pSubIDAvailableFlag := True,
           pSharedSubAvailable := 1,
           pSharedSubAvailableFlag := True\<rparr>\<rparr>)\<rparr>"

lemma TConnackAcceptedMqtt5_case_coded [cases_coded]: "coded Connack TConnackAcceptedMqtt5_case"
  by code_simp

definition TConnackMinMqtt5_case :: packet_case where [case_defs]:
  "TConnackMinMqtt5_case = no_case\<lparr>tcCase := 43,
     tcDesc := lit ''accepted min properties mqtt5'',
     tcPrimary := True,
     tcRawBytes := Some [push_bit 4 Connack, 13,
                    1,
                    Code CodeSuccess,
                    10,
                    18, 0, 5, 109, 111, 99, 104, 105,
                    36, 1],
     tcPacket := Some (no_packet\<lparr>pkProtocolVersion := 5,
        pkFixedHeader := no_header\<lparr>fhType := Connack,
           fhRemaining := 13\<rparr>,
        pkSessionPresent := True,
        pkReasonCode := Code CodeSuccess,
        pkProperties := no_properties\<lparr>pAssignedClientID := lit ''mochi'',
           pMaximumQos := 1,
           pMaximumQosFlag := True\<rparr>\<rparr>)\<rparr>"

lemma TConnackMinMqtt5_case_coded [cases_coded]: "coded Connack TConnackMinMqtt5_case"
  by code_simp

definition TConnackMinCleanMqtt5_case :: packet_case where [case_defs]:
  "TConnackMinCleanMqtt5_case = no_case\<lparr>tcCase := 44,
     tcDesc := lit ''accepted min properties mqtt5b'',
     tcPrimary := True,
     tcRawBytes := Some [push_bit 4 Connack, 3,
                    0,
                    Code CodeSuccess,
                    0],
     tcPacket := Some (no_packet\<lparr>pkProtocolVersion := 5,
        pkFixedHeader := no_header\<lparr>fhType := Connack,
           fhRemaining := 16\<rparr>,
        pkSessionPresent := False,
        pkReasonCode := Code CodeSuccess\<rparr>)\<rparr>"

lemma TConnackMinCleanMqtt5_case_coded [cases_coded]: "coded Connack TConnackMinCleanMqtt5_case"
  by code_simp

definition TConnackServerKeepalive_case :: packet_case where [case_defs]:
  "TConnackServerKeepalive_case = no_case\<lparr>tcCase := 45,
     tcDesc := lit ''server set keepalive'',
     tcPrimary := True,
     tcRawBytes := Some [push_bit 4 Connack, 6,
                    1,
                    Code CodeSuccess,
                    3,
                    19, 0, 10],
     tcPacket := Some (no_packet\<lparr>pkProtocolVersion := 5,
        pkFixedHeader := no_header\<lparr>fhType := Connack,
           fhRemaining := 6\<rparr>,
        pkSessionPresent := True,
        pkReasonCode := Code CodeSuccess,
        pkProperties := no_properties\<lparr>pServerKeepAlive := 10,
           pServerKeepAliveFlag := True\<rparr>\<rparr>)\<rparr>"

lemma TConnackServerKeepalive_case_coded [cases_coded]: "coded Connack TConnackServerKeepalive_case"
  by code_simp

definition TConnackInvalidMinMqtt5_case :: packet_case where [case_defs]:
  "TConnackInvalidMinMqtt5_case = no_case\<lparr>tcCase := 46,
     tcDesc := lit ''failure min properties mqtt5'',
     tcPrimary := True,
     tcRawBytes := Some ([push_bit 4 Connack, 23,
                     0,
                     Code ErrUnspecifiedError,
                     20,
                     31, 0, 17] @ Reason ErrUnspecifiedError),
     tcPacket := Some (no_packet\<lparr>pkProtocolVersion := 5,
        pkFixedHeader := no_header\<lparr>fhType := Connack,
           fhRemaining := 23\<rparr>,
        pkSessionPresent := False,
        pkReasonCode := Code ErrUnspecifiedError,
        pkProperties := no_properties\<lparr>pReasonString := Reason ErrUnspecifiedError\<rparr>\<rparr>)\<rparr>"

lemma TConnackInvalidMinMqtt5_case_coded [cases_coded]: "coded Connack TConnackInvalidMinMqtt5_case"
  by code_simp

definition TConnackProtocolViolationNoSession_case :: packet_case where [case_defs]:
  "TConnackProtocolViolationNoSession_case = no_case\<lparr>tcCase := 48,
     tcDesc := lit ''miscellaneous protocol violation'',
     tcRawBytes := Some [push_bit 4 Connack, 2,
                    0,
                    Code ErrProtocolViolation],
     tcPacket := Some (no_packet\<lparr>pkFixedHeader := no_header\<lparr>fhType := Connack,
           fhRemaining := 2\<rparr>,
        pkReasonCode := Code ErrProtocolViolation\<rparr>)\<rparr>"

lemma TConnackProtocolViolationNoSession_case_coded [cases_coded]: "coded Connack TConnackProtocolViolationNoSession_case"
  by code_simp

definition TConnackBadProtocolVersion_case :: packet_case where [case_defs]:
  "TConnackBadProtocolVersion_case = no_case\<lparr>tcCase := 47,
     tcDesc := lit ''bad protocol version'',
     tcRawBytes := Some [push_bit 4 Connack, 2,
                    1,
                    Code ErrProtocolViolationProtocolVersion],
     tcPacket := Some (no_packet\<lparr>pkFixedHeader := no_header\<lparr>fhType := Connack,
           fhRemaining := 2\<rparr>,
        pkSessionPresent := True,
        pkReasonCode := Code ErrProtocolViolationProtocolVersion\<rparr>)\<rparr>"

lemma TConnackBadProtocolVersion_case_coded [cases_coded]: "coded Connack TConnackBadProtocolVersion_case"
  by code_simp

definition TConnackBadClientID_case :: packet_case where [case_defs]:
  "TConnackBadClientID_case = no_case\<lparr>tcCase := 49,
     tcDesc := lit ''bad client id'',
     tcRawBytes := Some [push_bit 4 Connack, 2,
                    1,
                    Code ErrClientIdentifierNotValid],
     tcPacket := Some (no_packet\<lparr>pkFixedHeader := no_header\<lparr>fhType := Connack,
           fhRemaining := 2\<rparr>,
        pkSessionPresent := True,
        pkReasonCode := Code ErrClientIdentifierNotValid\<rparr>)\<rparr>"

lemma TConnackBadClientID_case_coded [cases_coded]: "coded Connack TConnackBadClientID_case"
  by code_simp

definition TConnackServerUnavailable_case :: packet_case where [case_defs]:
  "TConnackServerUnavailable_case = no_case\<lparr>tcCase := 50,
     tcDesc := lit ''server unavailable'',
     tcRawBytes := Some [push_bit 4 Connack, 2,
                    1,
                    Code ErrServerUnavailable],
     tcPacket := Some (no_packet\<lparr>pkFixedHeader := no_header\<lparr>fhType := Connack,
           fhRemaining := 2\<rparr>,
        pkSessionPresent := True,
        pkReasonCode := Code ErrServerUnavailable\<rparr>)\<rparr>"

lemma TConnackServerUnavailable_case_coded [cases_coded]: "coded Connack TConnackServerUnavailable_case"
  by code_simp

definition TConnackBadUsernamePassword_case :: packet_case where [case_defs]:
  "TConnackBadUsernamePassword_case = no_case\<lparr>tcCase := 51,
     tcDesc := lit ''bad username or password'',
     tcRawBytes := Some [push_bit 4 Connack, 2,
                    1,
                    Code ErrBadUsernameOrPassword],
     tcPacket := Some (no_packet\<lparr>pkFixedHeader := no_header\<lparr>fhType := Connack,
           fhRemaining := 2\<rparr>,
        pkSessionPresent := True,
        pkReasonCode := Code ErrBadUsernameOrPassword\<rparr>)\<rparr>"

lemma TConnackBadUsernamePassword_case_coded [cases_coded]: "coded Connack TConnackBadUsernamePassword_case"
  by code_simp

definition TConnackBadUsernamePasswordNoSession_case :: packet_case where [case_defs]:
  "TConnackBadUsernamePasswordNoSession_case = no_case\<lparr>tcCase := 52,
     tcDesc := lit ''bad username or password no session'',
     tcRawBytes := Some [push_bit 4 Connack, 2,
                    0,
                    Code Err3NotAuthorized],
     tcPacket := Some (no_packet\<lparr>pkFixedHeader := no_header\<lparr>fhType := Connack,
           fhRemaining := 2\<rparr>,
        pkReasonCode := Code Err3NotAuthorized\<rparr>)\<rparr>"

lemma TConnackBadUsernamePasswordNoSession_case_coded [cases_coded]: "coded Connack TConnackBadUsernamePasswordNoSession_case"
  by code_simp

definition TConnackMqtt5BadUsernamePasswordNoSession_case :: packet_case where [case_defs]:
  "TConnackMqtt5BadUsernamePasswordNoSession_case = no_case\<lparr>tcCase := 53,
     tcDesc := lit ''mqtt5 bad username or password no session'',
     tcRawBytes := Some [push_bit 4 Connack, 3,
                    0,
                    Code ErrBadUsernameOrPassword,
                    0],
     tcPacket := Some (no_packet\<lparr>pkProtocolVersion := 5,
        pkFixedHeader := no_header\<lparr>fhType := Connack,
           fhRemaining := 2\<rparr>,
        pkReasonCode := Code ErrBadUsernameOrPassword\<rparr>)\<rparr>"

lemma TConnackMqtt5BadUsernamePasswordNoSession_case_coded [cases_coded]: "coded Connack TConnackMqtt5BadUsernamePasswordNoSession_case"
  by code_simp

definition TConnackNotAuthorised_case :: packet_case where [case_defs]:
  "TConnackNotAuthorised_case = no_case\<lparr>tcCase := 54,
     tcDesc := lit ''not authorised'',
     tcRawBytes := Some [push_bit 4 Connack, 2,
                    1,
                    Code ErrNotAuthorized],
     tcPacket := Some (no_packet\<lparr>pkFixedHeader := no_header\<lparr>fhType := Connack,
           fhRemaining := 2\<rparr>,
        pkSessionPresent := True,
        pkReasonCode := Code ErrNotAuthorized\<rparr>)\<rparr>"

lemma TConnackNotAuthorised_case_coded [cases_coded]: "coded Connack TConnackNotAuthorised_case"
  by code_simp

definition TConnackDropProperties_case :: packet_case where [case_defs]:
  "TConnackDropProperties_case = no_case\<lparr>tcCase := 58,
     tcDesc := lit ''drop oversize properties'',
     tcGroup := lit ''encode'',
     tcRawBytes := Some [push_bit 4 Connack, 40,
                    0,
                    Code CodeSuccess,
                    19,
                    28, 0, 7, 109, 111, 99, 104, 105, 45, 50,
                    31, 0, 6, 114, 101, 97, 115, 111, 110,
                    38,
                    0, 5, 104, 101, 108, 108, 111,
                    0, 6, 228, 184, 150, 231, 149, 140],
     tcActualBytes := Some [push_bit 4 Connack, 13,
                       0,
                       Code CodeSuccess,
                       10,
                       28, 0, 7, 109, 111, 99, 104, 105, 45, 50],
     tcPacket := Some (no_packet\<lparr>pkMods := no_mods\<lparr>mMaxSize := 5\<rparr>,
        pkProtocolVersion := 5,
        pkFixedHeader := no_header\<lparr>fhType := Connack,
           fhRemaining := 40\<rparr>,
        pkReasonCode := Code CodeSuccess,
        pkProperties := no_properties\<lparr>pReasonString := lit ''reason'',
           pServerReference := lit ''mochi-2'',
           pUser := [\<lparr>Key = lit ''hello'', Val = [228, 184, 150, 231, 149, 140]\<rparr>]\<rparr>\<rparr>)\<rparr>"

lemma TConnackDropProperties_case_coded [cases_coded]: "coded Connack TConnackDropProperties_case"
  by code_simp

definition TConnackDropPropertiesPartial_case :: packet_case where [case_defs]:
  "TConnackDropPropertiesPartial_case = no_case\<lparr>tcCase := 59,
     tcDesc := lit ''drop oversize properties partial'',
     tcGroup := lit ''encode'',
     tcRawBytes := Some [push_bit 4 Connack, 40,
                    0,
                    Code CodeSuccess,
                    19,
                    28, 0, 7, 109, 111, 99, 104, 105, 45, 50,
                    31, 0, 6, 114, 101, 97, 115, 111, 110,
                    38,
                    0, 5, 104, 101, 108, 108, 111,
                    0, 6, 228, 184, 150, 231, 149, 140],
     tcActualBytes := Some [push_bit 4 Connack, 22,
                       0,
                       Code CodeSuccess,
                       19,
                       28, 0, 7, 109, 111, 99, 104, 105, 45, 50,
                       31, 0, 6, 114, 101, 97, 115, 111, 110],
     tcPacket := Some (no_packet\<lparr>pkMods := no_mods\<lparr>mMaxSize := 18\<rparr>,
        pkProtocolVersion := 5,
        pkFixedHeader := no_header\<lparr>fhType := Connack,
           fhRemaining := 40\<rparr>,
        pkReasonCode := Code CodeSuccess,
        pkProperties := no_properties\<lparr>pReasonString := lit ''reason'',
           pServerReference := lit ''mochi-2'',
           pUser := [\<lparr>Key = lit ''hello'', Val = [228, 184, 150, 231, 149, 140]\<rparr>]\<rparr>\<rparr>)\<rparr>"

lemma TConnackDropPropertiesPartial_case_coded [cases_coded]: "coded Connack TConnackDropPropertiesPartial_case"
  by code_simp

definition TConnackMalSessionPresent_case :: packet_case where [case_defs]:
  "TConnackMalSessionPresent_case = no_case\<lparr>tcCase := 55,
     tcDesc := lit ''malformed session present'',
     tcGroup := lit ''decode'',
     tcFailFirst := Some ErrMalformedSessionPresent,
     tcRawBytes := Some [push_bit 4 Connect, 2]\<rparr>"

lemma TConnackMalSessionPresent_case_coded [cases_coded]: "coded Connack TConnackMalSessionPresent_case"
  by code_simp

definition TConnackMalReturnCode_case :: packet_case where [case_defs]:
  "TConnackMalReturnCode_case = no_case\<lparr>tcCase := 56,
     tcDesc := lit ''malformed bad return Code'',
     tcGroup := lit ''decode'',
     tcFailFirst := Some ErrMalformedReasonCode,
     tcRawBytes := Some [push_bit 4 Connect, 2,
                    0]\<rparr>"

lemma TConnackMalReturnCode_case_coded [cases_coded]: "coded Connack TConnackMalReturnCode_case"
  by code_simp

definition TConnackMalProperties_case :: packet_case where [case_defs]:
  "TConnackMalProperties_case = no_case\<lparr>tcCase := 57,
     tcDesc := lit ''malformed properties'',
     tcGroup := lit ''decode'',
     tcFailFirst := Some ErrMalformedProperties,
     tcRawBytes := Some [push_bit 4 Connack, 40,
                    0,
                    Code CodeSuccess,
                    19],
     tcPacket := Some (no_packet\<lparr>pkProtocolVersion := 5\<rparr>)\<rparr>"

lemma TConnackMalProperties_case_coded [cases_coded]: "coded Connack TConnackMalProperties_case"
  by code_simp

definition Connack_cases :: "packet_case list" where
  "Connack_cases = [TConnackAcceptedNoSession_case,
     TConnackAcceptedSessionExists_case,
     TConnackAcceptedAdjustedExpiryInterval_case,
     TConnackAcceptedMqtt5_case,
     TConnackMinMqtt5_case,
     TConnackMinCleanMqtt5_case,
     TConnackServerKeepalive_case,
     TConnackInvalidMinMqtt5_case,
     TConnackProtocolViolationNoSession_case,
     TConnackBadProtocolVersion_case,
     TConnackBadClientID_case,
     TConnackServerUnavailable_case,
     TConnackBadUsernamePassword_case,
     TConnackBadUsernamePasswordNoSession_case,
     TConnackMqtt5BadUsernamePasswordNoSession_case,
     TConnackNotAuthorised_case,
     TConnackDropProperties_case,
     TConnackDropPropertiesPartial_case,
     TConnackMalSessionPresent_case,
     TConnackMalReturnCode_case,
     TConnackMalProperties_case]"

lemma Connack_cases_coded: "list_all (coded Connack) Connack_cases"
  by (simp only: Connack_cases_def list.pred_inject cases_coded simp_thms)

lemma Connack_cases_validated: "list_all (validate_test Connack) Connack_cases"
  by (simp add: Connack_cases_def validate_defs case_defs no_case_def no_packet_def no_header_def no_connect_def
      no_properties_def no_subscription_def lit_def)

end
