(* ===== verification/Mqtt_CasesPublish.thy ===== *)
theory Mqtt_CasesPublish
  imports Mqtt_Cases
begin

text \<open>
  The test tables of \<open>packets/tpackets.go\<close>: the cases of PUBLISH.
\<close>

section \<open>Publish\<close>

definition TPublishNoPayload_case :: packet_case where [case_defs]:
  "TPublishNoPayload_case = no_case\<lparr>tcCase := 60,
     tcDesc := lit ''no payload'',
     tcPrimary := True,
     tcRawBytes := Some [push_bit 4 Publish, 7,
                    0, 5,
                    97, 47, 98, 47, 99],
     tcPacket := Some (no_packet\<lparr>pkFixedHeader := no_header\<lparr>fhType := Publish,
           fhRemaining := 7\<rparr>,
        pkTopicName := lit ''a/b/c'',
        pkPayload := []\<rparr>)\<rparr>"

lemma TPublishNoPayload_case_coded [cases_coded]: "coded Publish TPublishNoPayload_case"
  by code_simp

definition TPublishBasic_case :: packet_case where [case_defs]:
  "TPublishBasic_case = no_case\<lparr>tcCase := 61,
     tcDesc := lit ''basic'',
     tcPrimary := True,
     tcRawBytes := Some [push_bit 4 Publish, 18,
                    0, 5,
                    97, 47, 98, 47, 99,
                    104, 101, 108, 108, 111, 32, 109, 111, 99, 104, 105],
     tcPacket := Some (no_packet\<lparr>pkFixedHeader := no_header\<lparr>fhType := Publish,
           fhRemaining := 18\<rparr>,
        pkTopicName := lit ''a/b/c'',
        pkPayload := lit ''hello mochi''\<rparr>)\<rparr>"

lemma TPublishBasic_case_coded [cases_coded]: "coded Publish TPublishBasic_case"
  by code_simp

definition TPublishMqtt5_case :: packet_case where [case_defs]:
  "TPublishMqtt5_case = no_case\<lparr>tcCase := 64,
     tcDesc := lit ''mqtt v5'',
     tcPrimary := True,
     tcRawBytes := Some [push_bit 4 Publish, 77,
                    0, 5,
                    97, 47, 98, 47, 99,
                    58,
                    1, 1,
                    2, 0, 0, 0, 2,
                    3, 0, 10, 116, 101, 120, 116, 47, 112, 108, 97, 105, 110,
                    8, 0, 5, 97, 47, 98, 47, 99,
                    9, 0, 4, 100, 97, 116, 97,
                    11, 202, 212, 19,
                    35, 0, 3,
                    38,
                    0, 5, 104, 101, 108, 108, 111,
                    0, 6, 228, 184, 150, 231, 149, 140,
                    104, 101, 108, 108, 111, 32, 109, 111, 99, 104, 105],
     tcPacket := Some (no_packet\<lparr>pkProtocolVersion := 5,
        pkFixedHeader := no_header\<lparr>fhType := Publish,
           fhRemaining := 77\<rparr>,
        pkTopicName := lit ''a/b/c'',
        pkProperties := no_properties\<lparr>pPayloadFormat := 1,
           pPayloadFormatFlag := True,
           pMessageExpiryInterval := 2,
           pContentType := lit ''text/plain'',
           pResponseTopic := lit ''a/b/c'',
           pCorrelationData := lit ''data'',
           pSubscriptionIdentifier := [322122],
           pTopicAlias := 3,
           pTopicAliasFlag := True,
           pUser := [\<lparr>Key = lit ''hello'', Val = [228, 184, 150, 231, 149, 140]\<rparr>]\<rparr>,
        pkPayload := lit ''hello mochi''\<rparr>)\<rparr>"

lemma TPublishMqtt5_case_coded [cases_coded]: "coded Publish TPublishMqtt5_case"
  by code_simp

definition TPublishBasicTopicAliasOnly_case :: packet_case where [case_defs]:
  "TPublishBasicTopicAliasOnly_case = no_case\<lparr>tcCase := 62,
     tcDesc := lit ''mqtt v5 topic alias only'',
     tcPrimary := True,
     tcRawBytes := Some [push_bit 4 Publish, 17,
                    0, 0,
                    3,
                    35, 0, 1,
                    104, 101, 108, 108, 111, 32, 109, 111, 99, 104, 105],
     tcPacket := Some (no_packet\<lparr>pkProtocolVersion := 5,
        pkFixedHeader := no_header\<lparr>fhType := Publish,
           fhRemaining := 17\<rparr>,
        pkProperties := no_properties\<lparr>pTopicAlias := 1,
           pTopicAliasFlag := True\<rparr>,
        pkPayload := lit ''hello mochi''\<rparr>)\<rparr>"

lemma TPublishBasicTopicAliasOnly_case_coded [cases_coded]: "coded Publish TPublishBasicTopicAliasOnly_case"
  by code_simp

definition TPublishBasicMqtt5_case :: packet_case where [case_defs]:
  "TPublishBasicMqtt5_case = no_case\<lparr>tcCase := 63,
     tcDesc := lit ''mqtt basic v5'',
     tcPrimary := True,
     tcRawBytes := Some [push_bit 4 Publish, 22,
                    0, 5,
                    97, 47, 98, 47, 99,
                    3,
                    35, 0, 1,
                    104, 101, 108, 108, 111, 32, 109, 111, 99, 104, 105],
     tcPacket := Some (no_packet\<lparr>pkProtocolVersion := 5,
        pkFixedHeader := no_header\<lparr>fhType := Publish,
           fhRemaining := 22\<rparr>,
        pkTopicName := lit ''a/b/c'',
        pkProperties := no_properties\<lparr>pTopicAlias := 1,
           pTopicAliasFlag := True\<rparr>,
        pkPayload := lit ''hello mochi''\<rparr>)\<rparr>"

lemma TPublishBasicMqtt5_case_coded [cases_coded]: "coded Publish TPublishBasicMqtt5_case"
  by code_simp

definition TPublishQos1_case :: packet_case where [case_defs]:
  "TPublishQos1_case = no_case\<lparr>tcCase := 65,
     tcDesc := lit ''qos:1, packet id'',
     tcPrimary := True,
     tcRawBytes := Some [(push_bit 4 Publish OR push_bit 1 1), 20,
                    0, 5,
                    97, 47, 98, 47, 99,
                    0, 7,
                    104, 101, 108, 108, 111, 32, 109, 111, 99, 104, 105],
     tcPacket := Some (no_packet\<lparr>pkFixedHeader := no_header\<lparr>fhType := Publish,
           fhQos := 1,
           fhRemaining := 20\<rparr>,
        pkTopicName := lit ''a/b/c'',
        pkPayload := lit ''hello mochi'',
        pkPacketID := 7\<rparr>)\<rparr>"

lemma TPublishQos1_case_coded [cases_coded]: "coded Publish TPublishQos1_case"
  by code_simp

definition TPublishQos1Mqtt5_case :: packet_case where [case_defs]:
  "TPublishQos1Mqtt5_case = no_case\<lparr>tcCase := 66,
     tcDesc := lit ''mqtt v5'',
     tcPrimary := True,
     tcRawBytes := Some [(push_bit 4 Publish OR push_bit 1 1), 37,
                    0, 5,
                    97, 47, 98, 47, 99,
                    0, 7,
                    16,
                    38,
                    0, 5, 104, 101, 108, 108, 111,
                    0, 6, 228, 184, 150, 231, 149, 140,
                    104, 101, 108, 108, 111, 32, 109, 111, 99, 104, 105],
     tcPacket := Some (no_packet\<lparr>pkProtocolVersion := 5,
        pkFixedHeader := no_header\<lparr>fhType := Publish,
           fhRemaining := 37,
           fhQos := 1\<rparr>,
        pkPacketID := 7,
        pkTopicName := lit ''a/b/c'',
        pkProperties := no_properties\<lparr>pUser := [\<lparr>Key = lit ''hello'', Val = [228, 184, 150, 231, 149, 140]\<rparr>]\<rparr>,
        pkPayload := lit ''hello mochi''\<rparr>)\<rparr>"

lemma TPublishQos1Mqtt5_case_coded [cases_coded]: "coded Publish TPublishQos1Mqtt5_case"
  by code_simp

definition TPublishQos1Dup_case :: packet_case where [case_defs]:
  "TPublishQos1Dup_case = no_case\<lparr>tcCase := 68,
     tcDesc := lit ''qos:1, dup:true, packet id'',
     tcPrimary := True,
     tcRawBytes := Some [(push_bit 4 Publish OR (2 OR 8)), 20,
                    0, 5,
                    97, 47, 98, 47, 99,
                    0, 7,
                    104, 101, 108, 108, 111, 32, 109, 111, 99, 104, 105],
     tcPacket := Some (no_packet\<lparr>pkFixedHeader := no_header\<lparr>fhType := Publish,
           fhQos := 1,
           fhRemaining := 20,
           fhDup := True\<rparr>,
        pkTopicName := lit ''a/b/c'',
        pkPayload := lit ''hello mochi'',
        pkPacketID := 7\<rparr>)\<rparr>"

lemma TPublishQos1Dup_case_coded [cases_coded]: "coded Publish TPublishQos1Dup_case"
  by code_simp

definition TPublishQos1NoPayload_case :: packet_case where [case_defs]:
  "TPublishQos1NoPayload_case = no_case\<lparr>tcCase := 67,
     tcDesc := lit ''qos:1, packet id, no payload'',
     tcPrimary := True,
     tcRawBytes := Some [(push_bit 4 Publish OR 2), 9,
                    0, 5,
                    121, 47, 117, 47, 105,
                    0, 7],
     tcPacket := Some (no_packet\<lparr>pkFixedHeader := no_header\<lparr>fhType := Publish,
           fhQos := 1,
           fhRemaining := 9\<rparr>,
        pkTopicName := lit ''y/u/i'',
        pkPacketID := 7,
        pkPayload := []\<rparr>)\<rparr>"

lemma TPublishQos1NoPayload_case_coded [cases_coded]: "coded Publish TPublishQos1NoPayload_case"
  by code_simp

definition TPublishQos2_case :: packet_case where [case_defs]:
  "TPublishQos2_case = no_case\<lparr>tcCase := 69,
     tcDesc := lit ''qos:2, packet id'',
     tcPrimary := True,
     tcRawBytes := Some [(push_bit 4 Publish OR push_bit 1 2), 14,
                    0, 5,
                    97, 47, 98, 47, 99,
                    0, 7,
                    104, 101, 108, 108, 111],
     tcPacket := Some (no_packet\<lparr>pkFixedHeader := no_header\<lparr>fhType := Publish,
           fhQos := 2,
           fhRemaining := 14\<rparr>,
        pkTopicName := lit ''a/b/c'',
        pkPayload := lit ''hello'',
        pkPacketID := 7\<rparr>)\<rparr>"

lemma TPublishQos2_case_coded [cases_coded]: "coded Publish TPublishQos2_case"
  by code_simp

definition TPublishQos2Mqtt5_case :: packet_case where [case_defs]:
  "TPublishQos2Mqtt5_case = no_case\<lparr>tcCase := 70,
     tcDesc := lit ''mqtt v5'',
     tcPrimary := True,
     tcRawBytes := Some [(push_bit 4 Publish OR push_bit 1 2), 37,
                    0, 5,
                    97, 47, 98, 47, 99,
                    0, 7,
                    16,
                    38,
                    0, 5, 104, 101, 108, 108, 111,
                    0, 6, 228, 184, 150, 231, 149, 140,
                    104, 101, 108, 108, 111, 32, 109, 111, 99, 104, 105],
     tcPacket := Some (no_packet\<lparr>pkProtocolVersion := 5,
        pkFixedHeader := no_header\<lparr>fhType := Publish,
           fhRemaining := 37,
           fhQos := 2\<rparr>,
        pkPacketID := 7,
        pkTopicName := lit ''a/b/c'',
        pkProperties := no_properties\<lparr>pUser := [\<lparr>Key = lit ''hello'', Val = [228, 184, 150, 231, 149, 140]\<rparr>]\<rparr>,
        pkPayload := lit ''hello mochi''\<rparr>)\<rparr>"

lemma TPublishQos2Mqtt5_case_coded [cases_coded]: "coded Publish TPublishQos2Mqtt5_case"
  by code_simp

definition TPublishSubscriberIdentifier_case :: packet_case where [case_defs]:
  "TPublishSubscriberIdentifier_case = no_case\<lparr>tcCase := 72,
     tcDesc := lit ''subscription identifiers'',
     tcPrimary := True,
     tcRawBytes := Some [push_bit 4 Publish, 23,
                    0, 5,
                    97, 47, 98, 47, 99,
                    4,
                    11, 2,
                    11, 3,
                    104, 101, 108, 108, 111, 32, 109, 111, 99, 104, 105],
     tcPacket := Some (no_packet\<lparr>pkProtocolVersion := 5,
        pkFixedHeader := no_header\<lparr>fhType := Publish,
           fhRemaining := 23\<rparr>,
        pkTopicName := lit ''a/b/c'',
        pkProperties := no_properties\<lparr>pSubscriptionIdentifier := [2, 3]\<rparr>,
        pkPayload := lit ''hello mochi''\<rparr>)\<rparr>"

lemma TPublishSubscriberIdentifier_case_coded [cases_coded]: "coded Publish TPublishSubscriberIdentifier_case"
  by code_simp

definition TPublishQos2Upgraded_case :: packet_case where [case_defs]:
  "TPublishQos2Upgraded_case = no_case\<lparr>tcCase := 71,
     tcDesc := lit ''qos:2, upgraded from publish to qos2 sub'',
     tcPrimary := True,
     tcRawBytes := Some [(push_bit 4 Publish OR push_bit 1 2), 20,
                    0, 5,
                    97, 47, 98, 47, 99,
                    0, 1,
                    104, 101, 108, 108, 111, 32, 109, 111, 99, 104, 105],
     tcPacket := Some (no_packet\<lparr>pkFixedHeader := no_header\<lparr>fhType := Publish,
           fhQos := 2,
           fhRemaining := 18\<rparr>,
        pkTopicName := lit ''a/b/c'',
        pkPayload := lit ''hello mochi'',
        pkPacketID := 1\<rparr>)\<rparr>"

lemma TPublishQos2Upgraded_case_coded [cases_coded]: "coded Publish TPublishQos2Upgraded_case"
  by code_simp

definition TPublishRetain_case :: packet_case where [case_defs]:
  "TPublishRetain_case = no_case\<lparr>tcCase := 73,
     tcDesc := lit ''retain'',
     tcRawBytes := Some [(push_bit 4 Publish OR push_bit 0 1), 18,
                    0, 5,
                    97, 47, 98, 47, 99,
                    104, 101, 108, 108, 111, 32, 109, 111, 99, 104, 105],
     tcPacket := Some (no_packet\<lparr>pkFixedHeader := no_header\<lparr>fhType := Publish,
           fhRetain := True\<rparr>,
        pkTopicName := lit ''a/b/c'',
        pkPayload := lit ''hello mochi''\<rparr>)\<rparr>"

lemma TPublishRetain_case_coded [cases_coded]: "coded Publish TPublishRetain_case"
  by code_simp

definition TPublishRetainMqtt5_case :: packet_case where [case_defs]:
  "TPublishRetainMqtt5_case = no_case\<lparr>tcCase := 74,
     tcDesc := lit ''retain mqtt5'',
     tcRawBytes := Some [(push_bit 4 Publish OR push_bit 0 1), 19,
                    0, 5,
                    97, 47, 98, 47, 99,
                    0,
                    104, 101, 108, 108, 111, 32, 109, 111, 99, 104, 105],
     tcPacket := Some (no_packet\<lparr>pkProtocolVersion := 5,
        pkFixedHeader := no_header\<lparr>fhType := Publish,
           fhRetain := True,
           fhRemaining := 19\<rparr>,
        pkTopicName := lit ''a/b/c'',
        pkProperties := no_properties,
        pkPayload := lit ''hello mochi''\<rparr>)\<rparr>"

lemma TPublishRetainMqtt5_case_coded [cases_coded]: "coded Publish TPublishRetainMqtt5_case"
  by code_simp

definition TPublishDup_case :: packet_case where [case_defs]:
  "TPublishDup_case = no_case\<lparr>tcCase := 75,
     tcDesc := lit ''dup'',
     tcRawBytes := Some [(push_bit 4 Publish OR 8), 10,
                    0, 3,
                    97, 47, 98,
                    104, 101, 108, 108, 111],
     tcPacket := Some (no_packet\<lparr>pkFixedHeader := no_header\<lparr>fhType := Publish,
           fhDup := True\<rparr>,
        pkTopicName := lit ''a/b'',
        pkPayload := lit ''hello''\<rparr>)\<rparr>"

lemma TPublishDup_case_coded [cases_coded]: "coded Publish TPublishDup_case"
  by code_simp

definition TPublishMalTopicName_case :: packet_case where [case_defs]:
  "TPublishMalTopicName_case = no_case\<lparr>tcCase := 76,
     tcDesc := lit ''malformed topic name'',
     tcGroup := lit ''decode'',
     tcFailFirst := Some ErrMalformedTopic,
     tcRawBytes := Some [push_bit 4 Publish, 7,
                    0, 5,
                    97, 47,
                    0, 11]\<rparr>"

lemma TPublishMalTopicName_case_coded [cases_coded]: "coded Publish TPublishMalTopicName_case"
  by code_simp

definition TPublishMalPacketID_case :: packet_case where [case_defs]:
  "TPublishMalPacketID_case = no_case\<lparr>tcCase := 77,
     tcDesc := lit ''malformed packet id'',
     tcGroup := lit ''decode'',
     tcFailFirst := Some ErrMalformedPacketID,
     tcRawBytes := Some [(push_bit 4 Publish OR 2), 7,
                    0, 5,
                    120, 47, 121, 47, 122,
                    0]\<rparr>"

lemma TPublishMalPacketID_case_coded [cases_coded]: "coded Publish TPublishMalPacketID_case"
  by code_simp

definition TPublishMalProperties_case :: packet_case where [case_defs]:
  "TPublishMalProperties_case = no_case\<lparr>tcCase := 78,
     tcDesc := lit ''malformed properties'',
     tcGroup := lit ''decode'',
     tcFailFirst := Some ErrMalformedProperties,
     tcRawBytes := Some [push_bit 4 Publish, 35,
                    0, 5,
                    97, 47, 98, 47, 99,
                    16],
     tcPacket := Some (no_packet\<lparr>pkProtocolVersion := 5\<rparr>)\<rparr>"

lemma TPublishMalProperties_case_coded [cases_coded]: "coded Publish TPublishMalProperties_case"
  by code_simp

definition TPublishCopyBasic_case :: packet_case where [case_defs]:
  "TPublishCopyBasic_case = no_case\<lparr>tcCase := 79,
     tcDesc := lit ''basic copyable'',
     tcGroup := lit ''copy'',
     tcRawBytes := Some [push_bit 4 Publish, 18,
                    0, 5,
                    122, 47, 101, 47, 110,
                    109, 111, 99, 104, 105, 32, 109, 111, 99, 104, 105],
     tcPacket := Some (no_packet\<lparr>pkFixedHeader := no_header\<lparr>fhType := Publish,
           fhDup := True,
           fhRetain := True,
           fhQos := 1\<rparr>,
        pkTopicName := lit ''z/e/n'',
        pkPayload := lit ''mochi mochi''\<rparr>)\<rparr>"

lemma TPublishCopyBasic_case_coded [cases_coded]: "coded Publish TPublishCopyBasic_case"
  by code_simp

definition TPublishSpecQos0NoPacketID_case :: packet_case where [case_defs]:
  "TPublishSpecQos0NoPacketID_case = no_case\<lparr>tcCase := 80,
     tcDesc := lit ''packet id must be 0 if qos is 0 (a)'',
     tcGroup := lit ''encode'',
     tcRawBytes := Some [push_bit 4 Publish, 12,
                    0, 5,
                    97, 47, 98, 47, 99,
                    0, 3,
                    104, 101, 108, 108, 111],
     tcActualBytes := Some [push_bit 4 Publish, 12,
                       0, 5,
                       97, 47, 98, 47, 99,
                       104, 101, 108, 108, 111],
     tcPacket := Some (no_packet\<lparr>pkFixedHeader := no_header\<lparr>fhType := Publish,
           fhRemaining := 12\<rparr>,
        pkTopicName := lit ''a/b/c'',
        pkPayload := lit ''hello''\<rparr>)\<rparr>"

lemma TPublishSpecQos0NoPacketID_case_coded [cases_coded]: "coded Publish TPublishSpecQos0NoPacketID_case"
  by code_simp

definition TPublishSpecQosMustPacketID_case :: packet_case where [case_defs]:
  "TPublishSpecQosMustPacketID_case = no_case\<lparr>tcCase := 81,
     tcDesc := lit ''no packet id with qos > 0'',
     tcGroup := lit ''encode'',
     tcExpect := Some ErrProtocolViolationNoPacketID,
     tcRawBytes := Some [(push_bit 4 Publish OR 2), 14,
                    0, 5,
                    97, 47, 98, 47, 99,
                    0, 0,
                    104, 101, 108, 108, 111],
     tcPacket := Some (no_packet\<lparr>pkFixedHeader := no_header\<lparr>fhType := Publish,
           fhQos := 1\<rparr>,
        pkTopicName := lit ''a/b/c'',
        pkPayload := lit ''hello'',
        pkPacketID := 0\<rparr>)\<rparr>"

lemma TPublishSpecQosMustPacketID_case_coded [cases_coded]: "coded Publish TPublishSpecQosMustPacketID_case"
  by code_simp

definition TPublishDropOversize_case :: packet_case where [case_defs]:
  "TPublishDropOversize_case = no_case\<lparr>tcCase := 82,
     tcDesc := lit ''drop oversized publish packet'',
     tcGroup := lit ''encode'',
     tcFailFirst := Some ErrPacketTooLarge,
     tcRawBytes := Some [push_bit 4 Publish, 10,
                    0, 3,
                    97, 47, 98,
                    104, 101, 108, 108, 111],
     tcPacket := Some (no_packet\<lparr>pkMods := no_mods\<lparr>mMaxSize := 2\<rparr>,
        pkFixedHeader := no_header\<lparr>fhType := Publish\<rparr>,
        pkTopicName := lit ''a/b'',
        pkPayload := lit ''hello''\<rparr>)\<rparr>"

lemma TPublishDropOversize_case_coded [cases_coded]: "coded Publish TPublishDropOversize_case"
  by code_simp

definition TPublishInvalidQos0NoPacketID_case :: packet_case where [case_defs]:
  "TPublishInvalidQos0NoPacketID_case = no_case\<lparr>tcCase := 83,
     tcDesc := lit ''packet id must be 0 if qos is 0 (b)'',
     tcGroup := lit ''validate'',
     tcExpect := Some ErrProtocolViolationSurplusPacketID,
     tcPacket := Some (no_packet\<lparr>pkFixedHeader := no_header\<lparr>fhType := Publish,
           fhRemaining := 12,
           fhQos := 0\<rparr>,
        pkTopicName := lit ''a/b/c'',
        pkPayload := lit ''hello'',
        pkPacketID := 3\<rparr>)\<rparr>"

lemma TPublishInvalidQos0NoPacketID_case_coded [cases_coded]: "coded Publish TPublishInvalidQos0NoPacketID_case"
  by (rule only_validated) (simp add: TPublishInvalidQos0NoPacketID_case_def)

definition TPublishInvalidQosMustPacketID_case :: packet_case where [case_defs]:
  "TPublishInvalidQosMustPacketID_case = no_case\<lparr>tcCase := 84,
     tcDesc := lit ''no packet id with qos > 0'',
     tcGroup := lit ''validate'',
     tcExpect := Some ErrProtocolViolationNoPacketID,
     tcPacket := Some (no_packet\<lparr>pkFixedHeader := no_header\<lparr>fhType := Publish,
           fhQos := 1\<rparr>,
        pkPacketID := 0\<rparr>)\<rparr>"

lemma TPublishInvalidQosMustPacketID_case_coded [cases_coded]: "coded Publish TPublishInvalidQosMustPacketID_case"
  by (rule only_validated) (simp add: TPublishInvalidQosMustPacketID_case_def)

definition TPublishInvalidSurplusSubID_case :: packet_case where [case_defs]:
  "TPublishInvalidSurplusSubID_case = no_case\<lparr>tcCase := 85,
     tcDesc := lit ''surplus subscription identifier'',
     tcGroup := lit ''validate'',
     tcExpect := Some ErrProtocolViolationSurplusSubID,
     tcPacket := Some (no_packet\<lparr>pkFixedHeader := no_header\<lparr>fhType := Publish\<rparr>,
        pkProperties := no_properties\<lparr>pSubscriptionIdentifier := [1]\<rparr>,
        pkTopicName := lit ''a/b''\<rparr>)\<rparr>"

lemma TPublishInvalidSurplusSubID_case_coded [cases_coded]: "coded Publish TPublishInvalidSurplusSubID_case"
  by (rule only_validated) (simp add: TPublishInvalidSurplusSubID_case_def)

definition TPublishInvalidSurplusWildcard_case :: packet_case where [case_defs]:
  "TPublishInvalidSurplusWildcard_case = no_case\<lparr>tcCase := 86,
     tcDesc := lit ''topic contains wildcards'',
     tcGroup := lit ''validate'',
     tcExpect := Some ErrProtocolViolationSurplusWildcard,
     tcPacket := Some (no_packet\<lparr>pkFixedHeader := no_header\<lparr>fhType := Publish\<rparr>,
        pkTopicName := lit ''a/+''\<rparr>)\<rparr>"

lemma TPublishInvalidSurplusWildcard_case_coded [cases_coded]: "coded Publish TPublishInvalidSurplusWildcard_case"
  by (rule only_validated) (simp add: TPublishInvalidSurplusWildcard_case_def)

definition TPublishInvalidSurplusWildcard2_case :: packet_case where [case_defs]:
  "TPublishInvalidSurplusWildcard2_case = no_case\<lparr>tcCase := 87,
     tcDesc := lit ''topic contains wildcards 2'',
     tcGroup := lit ''validate'',
     tcExpect := Some ErrProtocolViolationSurplusWildcard,
     tcPacket := Some (no_packet\<lparr>pkFixedHeader := no_header\<lparr>fhType := Publish\<rparr>,
        pkTopicName := lit ''a/#''\<rparr>)\<rparr>"

lemma TPublishInvalidSurplusWildcard2_case_coded [cases_coded]: "coded Publish TPublishInvalidSurplusWildcard2_case"
  by (rule only_validated) (simp add: TPublishInvalidSurplusWildcard2_case_def)

definition TPublishInvalidNoTopic_case :: packet_case where [case_defs]:
  "TPublishInvalidNoTopic_case = no_case\<lparr>tcCase := 88,
     tcDesc := lit ''no topic or alias specified'',
     tcGroup := lit ''validate'',
     tcExpect := Some ErrProtocolViolationNoTopic,
     tcPacket := Some (no_packet\<lparr>pkFixedHeader := no_header\<lparr>fhType := Publish\<rparr>\<rparr>)\<rparr>"

lemma TPublishInvalidNoTopic_case_coded [cases_coded]: "coded Publish TPublishInvalidNoTopic_case"
  by (rule only_validated) (simp add: TPublishInvalidNoTopic_case_def)

definition TPublishInvalidExcessTopicAlias_case :: packet_case where [case_defs]:
  "TPublishInvalidExcessTopicAlias_case = no_case\<lparr>tcCase := 90,
     tcDesc := lit ''topic alias over maximum'',
     tcGroup := lit ''validate'',
     tcExpect := Some ErrTopicAliasInvalid,
     tcPacket := Some (no_packet\<lparr>pkFixedHeader := no_header\<lparr>fhType := Publish\<rparr>,
        pkProperties := no_properties\<lparr>pTopicAlias := 1025\<rparr>,
        pkTopicName := lit ''a/b''\<rparr>)\<rparr>"

lemma TPublishInvalidExcessTopicAlias_case_coded [cases_coded]: "coded Publish TPublishInvalidExcessTopicAlias_case"
  by (rule only_validated) (simp add: TPublishInvalidExcessTopicAlias_case_def)

definition TPublishInvalidTopicAlias_case :: packet_case where [case_defs]:
  "TPublishInvalidTopicAlias_case = no_case\<lparr>tcCase := 89,
     tcDesc := lit ''topic alias flag and no alias'',
     tcGroup := lit ''validate'',
     tcExpect := Some ErrTopicAliasInvalid,
     tcPacket := Some (no_packet\<lparr>pkFixedHeader := no_header\<lparr>fhType := Publish\<rparr>,
        pkProperties := no_properties\<lparr>pTopicAliasFlag := True,
           pTopicAlias := 0\<rparr>,
        pkTopicName := lit ''a/b/''\<rparr>)\<rparr>"

lemma TPublishInvalidTopicAlias_case_coded [cases_coded]: "coded Publish TPublishInvalidTopicAlias_case"
  by (rule only_validated) (simp add: TPublishInvalidTopicAlias_case_def)

definition TPublishSpecDenySysTopic_case :: packet_case where [case_defs]:
  "TPublishSpecDenySysTopic_case = no_case\<lparr>tcCase := 91,
     tcDesc := lit ''deny publishing to $SYS topics'',
     tcGroup := lit ''validate'',
     tcExpect := Some CodeSuccess,
     tcPacket := Some (no_packet\<lparr>pkFixedHeader := no_header\<lparr>fhType := Publish\<rparr>,
        pkTopicName := lit ''$SYS/any'',
        pkPayload := lit ''y''\<rparr>),
     tcRawBytes := Some [push_bit 4 Publish, 11,
                    0, 5,
                    36, 83, 89, 83, 47, 97, 110, 121,
                    121]\<rparr>"

lemma TPublishSpecDenySysTopic_case_coded [cases_coded]: "coded Publish TPublishSpecDenySysTopic_case"
  by (rule only_validated) (simp add: TPublishSpecDenySysTopic_case_def)

definition Publish_cases :: "packet_case list" where
  "Publish_cases = [TPublishNoPayload_case,
     TPublishBasic_case,
     TPublishMqtt5_case,
     TPublishBasicTopicAliasOnly_case,
     TPublishBasicMqtt5_case,
     TPublishQos1_case,
     TPublishQos1Mqtt5_case,
     TPublishQos1Dup_case,
     TPublishQos1NoPayload_case,
     TPublishQos2_case,
     TPublishQos2Mqtt5_case,
     TPublishSubscriberIdentifier_case,
     TPublishQos2Upgraded_case,
     TPublishRetain_case,
     TPublishRetainMqtt5_case,
     TPublishDup_case,
     TPublishMalTopicName_case,
     TPublishMalPacketID_case,
     TPublishMalProperties_case,
     TPublishCopyBasic_case,
     TPublishSpecQos0NoPacketID_case,
     TPublishSpecQosMustPacketID_case,
     TPublishDropOversize_case,
     TPublishInvalidQos0NoPacketID_case,
     TPublishInvalidQosMustPacketID_case,
     TPublishInvalidSurplusSubID_case,
     TPublishInvalidSurplusWildcard_case,
     TPublishInvalidSurplusWildcard2_case,
     TPublishInvalidNoTopic_case,
     TPublishInvalidExcessTopicAlias_case,
     TPublishInvalidTopicAlias_case,
     TPublishSpecDenySysTopic_case]"

lemma Publish_cases_coded: "list_all (coded Publish) Publish_cases"
  by (simp only: Publish_cases_def list.pred_inject cases_coded simp_thms)

lemma Publish_cases_validated: "list_all (validate_test Publish) Publish_cases"
  by (simp add: Publish_cases_def validate_defs case_defs no_case_def no_packet_def no_header_def no_connect_def
      no_properties_def no_subscription_def lit_def)

end
