(* ===== verification/Mqtt_CasesAcks.thy ===== *)
theory Mqtt_CasesAcks
  imports Mqtt_Cases
begin

text \<open>
  The test tables of \<open>packets/tpackets.go\<close>: the cases of the acknowledgements of messages.
\<close>

section \<open>Puback\<close>

definition TPuback_case :: packet_case where [case_defs]:
  "TPuback_case = no_case\<lparr>tcCase := 92,
     tcDesc := lit ''puback'',
     tcPrimary := True,
     tcRawBytes := Some [push_bit 4 Puback, 2,
                    0, 7],
     tcPacket := Some (no_packet\<lparr>pkFixedHeader := no_header\<lparr>fhType := Puback,
           fhRemaining := 2\<rparr>,
        pkPacketID := 7\<rparr>)\<rparr>"

lemma TPuback_case_coded [cases_coded]: "coded Puback TPuback_case"
  by code_simp

definition TPubackMqtt5_case :: packet_case where [case_defs]:
  "TPubackMqtt5_case = no_case\<lparr>tcCase := 93,
     tcDesc := lit ''mqtt5'',
     tcPrimary := True,
     tcRawBytes := Some [push_bit 4 Puback, 20,
                    0, 7,
                    Code CodeGrantedQos0,
                    16,
                    38,
                    0, 5, 104, 101, 108, 108, 111,
                    0, 6, 228, 184, 150, 231, 149, 140],
     tcPacket := Some (no_packet\<lparr>pkProtocolVersion := 5,
        pkFixedHeader := no_header\<lparr>fhType := Puback,
           fhRemaining := 20\<rparr>,
        pkPacketID := 7,
        pkReasonCode := Code CodeGrantedQos0,
        pkProperties := no_properties\<lparr>pUser := [\<lparr>Key = lit ''hello'', Val = [228, 184, 150, 231, 149, 140]\<rparr>]\<rparr>\<rparr>)\<rparr>"

lemma TPubackMqtt5_case_coded [cases_coded]: "coded Puback TPubackMqtt5_case"
  by code_simp

definition TPubackMqtt5NotAuthorized_case :: packet_case where [case_defs]:
  "TPubackMqtt5NotAuthorized_case = no_case\<lparr>tcCase := 94,
     tcDesc := lit ''QOS 1 publish not authorized mqtt5'',
     tcPrimary := True,
     tcRawBytes := Some [push_bit 4 Puback, 37,
                    0, 7,
                    Code ErrNotAuthorized,
                    33,
                    31, 0, 14, 110, 111, 116, 32, 97, 117,
                    116, 104, 111, 114, 105, 122, 101, 100,
                    38,
                    0, 5, 104, 101, 108, 108, 111,
                    0, 6, 228, 184, 150, 231, 149, 140],
     tcPacket := Some (no_packet\<lparr>pkProtocolVersion := 5,
        pkFixedHeader := no_header\<lparr>fhType := Puback,
           fhRemaining := 31\<rparr>,
        pkPacketID := 7,
        pkReasonCode := Code ErrNotAuthorized,
        pkProperties := no_properties\<lparr>pReasonString := Reason ErrNotAuthorized,
           pUser := [\<lparr>Key = lit ''hello'', Val = [228, 184, 150, 231, 149, 140]\<rparr>]\<rparr>\<rparr>)\<rparr>"

lemma TPubackMqtt5NotAuthorized_case_coded [cases_coded]: "coded Puback TPubackMqtt5NotAuthorized_case"
  by code_simp

definition TPubackUnexpectedError_case :: packet_case where [case_defs]:
  "TPubackUnexpectedError_case = no_case\<lparr>tcCase := 97,
     tcDesc := lit ''unexpected error'',
     tcGroup := lit ''decode'',
     tcRawBytes := Some [push_bit 4 Puback, 29,
                    0, 7,
                    Code ErrPayloadFormatInvalid,
                    25,
                    31, 0, 22, 112, 97, 121, 108, 111, 97, 100,
                    32, 102, 111, 114, 109, 97, 116,
                    32, 105, 110, 118, 97, 108, 105, 100],
     tcPacket := Some (no_packet\<lparr>pkProtocolVersion := 5,
        pkFixedHeader := no_header\<lparr>fhType := Puback,
           fhRemaining := 28\<rparr>,
        pkPacketID := 7,
        pkReasonCode := Code ErrPayloadFormatInvalid,
        pkProperties := no_properties\<lparr>pReasonString := Reason ErrPayloadFormatInvalid\<rparr>\<rparr>)\<rparr>"

lemma TPubackUnexpectedError_case_coded [cases_coded]: "coded Puback TPubackUnexpectedError_case"
  by code_simp

definition TPubackMalPacketID_case :: packet_case where [case_defs]:
  "TPubackMalPacketID_case = no_case\<lparr>tcCase := 95,
     tcDesc := lit ''malformed packet id'',
     tcGroup := lit ''decode'',
     tcFailFirst := Some ErrMalformedPacketID,
     tcRawBytes := Some [push_bit 4 Puback, 2,
                    0]\<rparr>"

lemma TPubackMalPacketID_case_coded [cases_coded]: "coded Puback TPubackMalPacketID_case"
  by code_simp

definition TPubackMalProperties_case :: packet_case where [case_defs]:
  "TPubackMalProperties_case = no_case\<lparr>tcCase := 96,
     tcDesc := lit ''malformed properties'',
     tcGroup := lit ''decode'',
     tcFailFirst := Some ErrMalformedProperties,
     tcRawBytes := Some [push_bit 4 Puback, 20,
                    0, 7,
                    Code CodeGrantedQos0,
                    16],
     tcPacket := Some (no_packet\<lparr>pkProtocolVersion := 5\<rparr>)\<rparr>"

lemma TPubackMalProperties_case_coded [cases_coded]: "coded Puback TPubackMalProperties_case"
  by code_simp

definition Puback_cases :: "packet_case list" where
  "Puback_cases = [TPuback_case,
     TPubackMqtt5_case,
     TPubackMqtt5NotAuthorized_case,
     TPubackUnexpectedError_case,
     TPubackMalPacketID_case,
     TPubackMalProperties_case]"

lemma Puback_cases_coded: "list_all (coded Puback) Puback_cases"
  by (simp only: Puback_cases_def list.pred_inject cases_coded simp_thms)

lemma Puback_cases_validated: "list_all (validate_test Puback) Puback_cases"
  by (simp add: Puback_cases_def validate_defs case_defs no_case_def no_packet_def no_header_def no_connect_def
      no_properties_def no_subscription_def lit_def)

section \<open>Pubrec\<close>

definition TPubrec_case :: packet_case where [case_defs]:
  "TPubrec_case = no_case\<lparr>tcCase := 98,
     tcDesc := lit ''pubrec'',
     tcPrimary := True,
     tcRawBytes := Some [push_bit 4 Pubrec, 2,
                    0, 7],
     tcPacket := Some (no_packet\<lparr>pkFixedHeader := no_header\<lparr>fhType := Pubrec,
           fhRemaining := 2\<rparr>,
        pkPacketID := 7\<rparr>)\<rparr>"

lemma TPubrec_case_coded [cases_coded]: "coded Pubrec TPubrec_case"
  by code_simp

definition TPubrecMqtt5_case :: packet_case where [case_defs]:
  "TPubrecMqtt5_case = no_case\<lparr>tcCase := 99,
     tcDesc := lit ''pubrec mqtt5'',
     tcPrimary := True,
     tcRawBytes := Some [push_bit 4 Pubrec, 20,
                    0, 7,
                    Code CodeSuccess,
                    16,
                    38,
                    0, 5, 104, 101, 108, 108, 111,
                    0, 6, 228, 184, 150, 231, 149, 140],
     tcPacket := Some (no_packet\<lparr>pkProtocolVersion := 5,
        pkFixedHeader := no_header\<lparr>fhType := Pubrec,
           fhRemaining := 20\<rparr>,
        pkPacketID := 7,
        pkReasonCode := Code CodeSuccess,
        pkProperties := no_properties\<lparr>pUser := [\<lparr>Key = lit ''hello'', Val = [228, 184, 150, 231, 149, 140]\<rparr>]\<rparr>\<rparr>)\<rparr>"

lemma TPubrecMqtt5_case_coded [cases_coded]: "coded Pubrec TPubrecMqtt5_case"
  by code_simp

definition TPubrecMqtt5IDInUse_case :: packet_case where [case_defs]:
  "TPubrecMqtt5IDInUse_case = no_case\<lparr>tcCase := 100,
     tcDesc := lit ''packet id in use mqtt5'',
     tcPrimary := True,
     tcRawBytes := Some [push_bit 4 Pubrec, 47,
                    0, 7,
                    Code ErrPacketIdentifierInUse,
                    43,
                    31, 0, 24, 112, 97, 99, 107, 101, 116,
                    32, 105, 100, 101, 110, 116, 105, 102, 105, 101, 114,
                    32, 105, 110,
                    32, 117, 115, 101,
                    38,
                    0, 5, 104, 101, 108, 108, 111,
                    0, 6, 228, 184, 150, 231, 149, 140],
     tcPacket := Some (no_packet\<lparr>pkProtocolVersion := 5,
        pkFixedHeader := no_header\<lparr>fhType := Pubrec,
           fhRemaining := 31\<rparr>,
        pkPacketID := 7,
        pkReasonCode := Code ErrPacketIdentifierInUse,
        pkProperties := no_properties\<lparr>pReasonString := Reason ErrPacketIdentifierInUse,
           pUser := [\<lparr>Key = lit ''hello'', Val = [228, 184, 150, 231, 149, 140]\<rparr>]\<rparr>\<rparr>)\<rparr>"

lemma TPubrecMqtt5IDInUse_case_coded [cases_coded]: "coded Pubrec TPubrecMqtt5IDInUse_case"
  by code_simp

definition TPubrecMqtt5NotAuthorized_case :: packet_case where [case_defs]:
  "TPubrecMqtt5NotAuthorized_case = no_case\<lparr>tcCase := 101,
     tcDesc := lit ''QOS 2 publish not authorized mqtt5'',
     tcPrimary := True,
     tcRawBytes := Some [push_bit 4 Pubrec, 37,
                    0, 7,
                    Code ErrNotAuthorized,
                    33,
                    31, 0, 14, 110, 111, 116, 32, 97, 117,
                    116, 104, 111, 114, 105, 122, 101, 100,
                    38,
                    0, 5, 104, 101, 108, 108, 111,
                    0, 6, 228, 184, 150, 231, 149, 140],
     tcPacket := Some (no_packet\<lparr>pkProtocolVersion := 5,
        pkFixedHeader := no_header\<lparr>fhType := Pubrec,
           fhRemaining := 31\<rparr>,
        pkPacketID := 7,
        pkReasonCode := Code ErrNotAuthorized,
        pkProperties := no_properties\<lparr>pReasonString := Reason ErrNotAuthorized,
           pUser := [\<lparr>Key = lit ''hello'', Val = [228, 184, 150, 231, 149, 140]\<rparr>]\<rparr>\<rparr>)\<rparr>"

lemma TPubrecMqtt5NotAuthorized_case_coded [cases_coded]: "coded Pubrec TPubrecMqtt5NotAuthorized_case"
  by code_simp

definition TPubrecMalReasonCode_case :: packet_case where [case_defs]:
  "TPubrecMalReasonCode_case = no_case\<lparr>tcCase := 104,
     tcDesc := lit ''malformed reason code'',
     tcGroup := lit ''decode'',
     tcFailFirst := Some ErrMalformedReasonCode,
     tcRawBytes := Some [push_bit 4 Pubrec, 31,
                    0, 7],
     tcPacket := Some (no_packet\<lparr>pkProtocolVersion := 5\<rparr>)\<rparr>"

lemma TPubrecMalReasonCode_case_coded [cases_coded]: "coded Pubrec TPubrecMalReasonCode_case"
  by code_simp

definition TPubrecInvalidReason_case :: packet_case where [case_defs]:
  "TPubrecInvalidReason_case = no_case\<lparr>tcCase := 105,
     tcDesc := lit ''invalid reason code'',
     tcGroup := lit ''validate'',
     tcFailFirst := Some ErrProtocolViolationInvalidReason,
     tcPacket := Some (no_packet\<lparr>pkFixedHeader := no_header\<lparr>fhType := Pubrec\<rparr>,
        pkPacketID := 7,
        pkReasonCode := Code ErrConnectionRateExceeded\<rparr>)\<rparr>"

lemma TPubrecInvalidReason_case_coded [cases_coded]: "coded Pubrec TPubrecInvalidReason_case"
  by (rule only_validated) (simp add: TPubrecInvalidReason_case_def)

definition TPubrecMalPacketID_case :: packet_case where [case_defs]:
  "TPubrecMalPacketID_case = no_case\<lparr>tcCase := 102,
     tcDesc := lit ''malformed packet id'',
     tcGroup := lit ''decode'',
     tcFailFirst := Some ErrMalformedPacketID,
     tcRawBytes := Some [push_bit 4 Pubrec, 2,
                    0]\<rparr>"

lemma TPubrecMalPacketID_case_coded [cases_coded]: "coded Pubrec TPubrecMalPacketID_case"
  by code_simp

definition TPubrecMalProperties_case :: packet_case where [case_defs]:
  "TPubrecMalProperties_case = no_case\<lparr>tcCase := 103,
     tcDesc := lit ''malformed properties'',
     tcGroup := lit ''decode'',
     tcFailFirst := Some ErrMalformedProperties,
     tcRawBytes := Some [push_bit 4 Pubrec, 31,
                    0, 7,
                    Code ErrPacketIdentifierInUse,
                    27],
     tcPacket := Some (no_packet\<lparr>pkProtocolVersion := 5\<rparr>)\<rparr>"

lemma TPubrecMalProperties_case_coded [cases_coded]: "coded Pubrec TPubrecMalProperties_case"
  by code_simp

definition Pubrec_cases :: "packet_case list" where
  "Pubrec_cases = [TPubrec_case,
     TPubrecMqtt5_case,
     TPubrecMqtt5IDInUse_case,
     TPubrecMqtt5NotAuthorized_case,
     TPubrecMalReasonCode_case,
     TPubrecInvalidReason_case,
     TPubrecMalPacketID_case,
     TPubrecMalProperties_case]"

lemma Pubrec_cases_coded: "list_all (coded Pubrec) Pubrec_cases"
  by (simp only: Pubrec_cases_def list.pred_inject cases_coded simp_thms)

lemma Pubrec_cases_validated: "list_all (validate_test Pubrec) Pubrec_cases"
  by (simp add: Pubrec_cases_def validate_defs case_defs no_case_def no_packet_def no_header_def no_connect_def
      no_properties_def no_subscription_def lit_def)

section \<open>Pubrel\<close>

definition TPubrel_case :: packet_case where [case_defs]:
  "TPubrel_case = no_case\<lparr>tcCase := 106,
     tcDesc := lit ''pubrel'',
     tcPrimary := True,
     tcRawBytes := Some [(push_bit 4 Pubrel OR push_bit 1 1), 2,
                    0, 7],
     tcPacket := Some (no_packet\<lparr>pkFixedHeader := no_header\<lparr>fhType := Pubrel,
           fhRemaining := 2,
           fhQos := 1\<rparr>,
        pkPacketID := 7\<rparr>)\<rparr>"

lemma TPubrel_case_coded [cases_coded]: "coded Pubrel TPubrel_case"
  by code_simp

definition TPubrelMqtt5_case :: packet_case where [case_defs]:
  "TPubrelMqtt5_case = no_case\<lparr>tcCase := 107,
     tcDesc := lit ''pubrel mqtt5'',
     tcPrimary := True,
     tcRawBytes := Some [(push_bit 4 Pubrel OR push_bit 1 1), 20,
                    0, 7,
                    Code CodeSuccess,
                    16,
                    38,
                    0, 5, 104, 101, 108, 108, 111,
                    0, 6, 228, 184, 150, 231, 149, 140],
     tcPacket := Some (no_packet\<lparr>pkProtocolVersion := 5,
        pkFixedHeader := no_header\<lparr>fhType := Pubrel,
           fhRemaining := 20,
           fhQos := 1\<rparr>,
        pkPacketID := 7,
        pkReasonCode := Code CodeSuccess,
        pkProperties := no_properties\<lparr>pUser := [\<lparr>Key = lit ''hello'', Val = [228, 184, 150, 231, 149, 140]\<rparr>]\<rparr>\<rparr>)\<rparr>"

lemma TPubrelMqtt5_case_coded [cases_coded]: "coded Pubrel TPubrelMqtt5_case"
  by code_simp

definition TPubrelMqtt5AckNoPacket_case :: packet_case where [case_defs]:
  "TPubrelMqtt5AckNoPacket_case = no_case\<lparr>tcCase := 108,
     tcDesc := lit ''mqtt5 no packet id ack'',
     tcPrimary := True,
     tcRawBytes := Some ([(push_bit 4 Pubrel OR push_bit 1 1), 34,
                     0, 7,
                     Code ErrPacketIdentifierNotFound,
                     30,
                     31, 0, of_nat (length (Reason ErrPacketIdentifierNotFound))] @ Reason ErrPacketIdentifierNotFound),
     tcPacket := Some (no_packet\<lparr>pkProtocolVersion := 5,
        pkFixedHeader := no_header\<lparr>fhType := Pubrel,
           fhRemaining := 34,
           fhQos := 1\<rparr>,
        pkPacketID := 7,
        pkReasonCode := Code ErrPacketIdentifierNotFound,
        pkProperties := no_properties\<lparr>pReasonString := Reason ErrPacketIdentifierNotFound\<rparr>\<rparr>)\<rparr>"

lemma TPubrelMqtt5AckNoPacket_case_coded [cases_coded]: "coded Pubrel TPubrelMqtt5AckNoPacket_case"
  by code_simp

definition TPubrelInvalidReason_case :: packet_case where [case_defs]:
  "TPubrelInvalidReason_case = no_case\<lparr>tcCase := 111,
     tcDesc := lit ''invalid reason code'',
     tcGroup := lit ''validate'',
     tcFailFirst := Some ErrProtocolViolationInvalidReason,
     tcPacket := Some (no_packet\<lparr>pkFixedHeader := no_header\<lparr>fhType := Pubrel\<rparr>,
        pkPacketID := 7,
        pkReasonCode := Code ErrConnectionRateExceeded\<rparr>)\<rparr>"

lemma TPubrelInvalidReason_case_coded [cases_coded]: "coded Pubrel TPubrelInvalidReason_case"
  by (rule only_validated) (simp add: TPubrelInvalidReason_case_def)

definition TPubrelMalPacketID_case :: packet_case where [case_defs]:
  "TPubrelMalPacketID_case = no_case\<lparr>tcCase := 109,
     tcDesc := lit ''malformed packet id'',
     tcGroup := lit ''decode'',
     tcFailFirst := Some ErrMalformedPacketID,
     tcRawBytes := Some [push_bit 4 Pubrel, 2,
                    0]\<rparr>"

lemma TPubrelMalPacketID_case_coded [cases_coded]: "coded Pubrel TPubrelMalPacketID_case"
  by code_simp

definition TPubrelMalProperties_case :: packet_case where [case_defs]:
  "TPubrelMalProperties_case = no_case\<lparr>tcCase := 110,
     tcDesc := lit ''malformed properties'',
     tcGroup := lit ''decode'',
     tcFailFirst := Some ErrMalformedProperties,
     tcRawBytes := Some [(push_bit 4 Pubrel OR push_bit 1 1), 20,
                    0, 7,
                    Code CodeSuccess,
                    16],
     tcPacket := Some (no_packet\<lparr>pkProtocolVersion := 5\<rparr>)\<rparr>"

lemma TPubrelMalProperties_case_coded [cases_coded]: "coded Pubrel TPubrelMalProperties_case"
  by code_simp

definition Pubrel_cases :: "packet_case list" where
  "Pubrel_cases = [TPubrel_case,
     TPubrelMqtt5_case,
     TPubrelMqtt5AckNoPacket_case,
     TPubrelInvalidReason_case,
     TPubrelMalPacketID_case,
     TPubrelMalProperties_case]"

lemma Pubrel_cases_coded: "list_all (coded Pubrel) Pubrel_cases"
  by (simp only: Pubrel_cases_def list.pred_inject cases_coded simp_thms)

lemma Pubrel_cases_validated: "list_all (validate_test Pubrel) Pubrel_cases"
  by (simp add: Pubrel_cases_def validate_defs case_defs no_case_def no_packet_def no_header_def no_connect_def
      no_properties_def no_subscription_def lit_def)

section \<open>Pubcomp\<close>

definition TPubcomp_case :: packet_case where [case_defs]:
  "TPubcomp_case = no_case\<lparr>tcCase := 112,
     tcDesc := lit ''pubcomp'',
     tcPrimary := True,
     tcRawBytes := Some [push_bit 4 Pubcomp, 2,
                    0, 7],
     tcPacket := Some (no_packet\<lparr>pkFixedHeader := no_header\<lparr>fhType := Pubcomp,
           fhRemaining := 2\<rparr>,
        pkPacketID := 7\<rparr>)\<rparr>"

lemma TPubcomp_case_coded [cases_coded]: "coded Pubcomp TPubcomp_case"
  by code_simp

definition TPubcompMqtt5_case :: packet_case where [case_defs]:
  "TPubcompMqtt5_case = no_case\<lparr>tcCase := 113,
     tcDesc := lit ''mqtt5'',
     tcPrimary := True,
     tcRawBytes := Some [push_bit 4 Pubcomp, 20,
                    0, 7,
                    Code CodeSuccess,
                    16,
                    38,
                    0, 5, 104, 101, 108, 108, 111,
                    0, 6, 228, 184, 150, 231, 149, 140],
     tcPacket := Some (no_packet\<lparr>pkProtocolVersion := 5,
        pkFixedHeader := no_header\<lparr>fhType := Pubcomp,
           fhRemaining := 20\<rparr>,
        pkPacketID := 7,
        pkReasonCode := Code CodeSuccess,
        pkProperties := no_properties\<lparr>pUser := [\<lparr>Key = lit ''hello'', Val = [228, 184, 150, 231, 149, 140]\<rparr>]\<rparr>\<rparr>)\<rparr>"

lemma TPubcompMqtt5_case_coded [cases_coded]: "coded Pubcomp TPubcompMqtt5_case"
  by code_simp

definition TPubcompMqtt5AckNoPacket_case :: packet_case where [case_defs]:
  "TPubcompMqtt5AckNoPacket_case = no_case\<lparr>tcCase := 114,
     tcDesc := lit ''mqtt5 no packet id ack'',
     tcPrimary := True,
     tcRawBytes := Some ([push_bit 4 Pubcomp, 34,
                     0, 7,
                     Code ErrPacketIdentifierNotFound,
                     30,
                     31, 0, of_nat (length (Reason ErrPacketIdentifierNotFound))] @ Reason ErrPacketIdentifierNotFound),
     tcPacket := Some (no_packet\<lparr>pkProtocolVersion := 5,
        pkFixedHeader := no_header\<lparr>fhType := Pubcomp,
           fhRemaining := 34\<rparr>,
        pkPacketID := 7,
        pkReasonCode := Code ErrPacketIdentifierNotFound,
        pkProperties := no_properties\<lparr>pReasonString := Reason ErrPacketIdentifierNotFound\<rparr>\<rparr>)\<rparr>"

lemma TPubcompMqtt5AckNoPacket_case_coded [cases_coded]: "coded Pubcomp TPubcompMqtt5AckNoPacket_case"
  by code_simp

definition TPubcompInvalidReason_case :: packet_case where [case_defs]:
  "TPubcompInvalidReason_case = no_case\<lparr>tcCase := 117,
     tcDesc := lit ''invalid reason code'',
     tcGroup := lit ''validate'',
     tcFailFirst := Some ErrProtocolViolationInvalidReason,
     tcPacket := Some (no_packet\<lparr>pkFixedHeader := no_header\<lparr>fhType := Pubcomp\<rparr>,
        pkReasonCode := Code ErrConnectionRateExceeded\<rparr>)\<rparr>"

lemma TPubcompInvalidReason_case_coded [cases_coded]: "coded Pubcomp TPubcompInvalidReason_case"
  by (rule only_validated) (simp add: TPubcompInvalidReason_case_def)

definition TPubcompMalPacketID_case :: packet_case where [case_defs]:
  "TPubcompMalPacketID_case = no_case\<lparr>tcCase := 115,
     tcDesc := lit ''malformed packet id'',
     tcGroup := lit ''decode'',
     tcFailFirst := Some ErrMalformedPacketID,
     tcRawBytes := Some [push_bit 4 Pubcomp, 2,
                    0]\<rparr>"

lemma TPubcompMalPacketID_case_coded [cases_coded]: "coded Pubcomp TPubcompMalPacketID_case"
  by code_simp

definition TPubcompMalProperties_case :: packet_case where [case_defs]:
  "TPubcompMalProperties_case = no_case\<lparr>tcCase := 116,
     tcDesc := lit ''malformed properties'',
     tcGroup := lit ''decode'',
     tcFailFirst := Some ErrMalformedProperties,
     tcRawBytes := Some [push_bit 4 Pubcomp, 34,
                    0, 7,
                    Code ErrPacketIdentifierNotFound,
                    22],
     tcPacket := Some (no_packet\<lparr>pkProtocolVersion := 5\<rparr>)\<rparr>"

lemma TPubcompMalProperties_case_coded [cases_coded]: "coded Pubcomp TPubcompMalProperties_case"
  by code_simp

definition Pubcomp_cases :: "packet_case list" where
  "Pubcomp_cases = [TPubcomp_case,
     TPubcompMqtt5_case,
     TPubcompMqtt5AckNoPacket_case,
     TPubcompInvalidReason_case,
     TPubcompMalPacketID_case,
     TPubcompMalProperties_case]"

lemma Pubcomp_cases_coded: "list_all (coded Pubcomp) Pubcomp_cases"
  by (simp only: Pubcomp_cases_def list.pred_inject cases_coded simp_thms)

lemma Pubcomp_cases_validated: "list_all (validate_test Pubcomp) Pubcomp_cases"
  by (simp add: Pubcomp_cases_def validate_defs case_defs no_case_def no_packet_def no_header_def no_connect_def
      no_properties_def no_subscription_def lit_def)

end
