(* ===== verification/Mqtt_CasesSubscribe.thy ===== *)
theory Mqtt_CasesSubscribe
  imports Mqtt_Cases
begin

text \<open>
  The test tables of \<open>packets/tpackets.go\<close>: the cases of subscribing and unsubscribing.
\<close>

section \<open>Subscribe\<close>

definition TSubscribe_case :: packet_case where [case_defs]:
  "TSubscribe_case = no_case\<lparr>tcCase := 118,
     tcDesc := lit ''subscribe'',
     tcPrimary := True,
     tcRawBytes := Some [(push_bit 4 Subscribe OR push_bit 1 1), 10,
                    0, 15,
                    0, 5,
                    97, 47, 98, 47, 99,
                    0],
     tcPacket := Some (no_packet\<lparr>pkFixedHeader := no_header\<lparr>fhType := Subscribe,
           fhRemaining := 10,
           fhQos := 1\<rparr>,
        pkPacketID := 15,
        pkFilters := [no_subscription\<lparr>sFilter := lit ''a/b/c''\<rparr>]\<rparr>)\<rparr>"

lemma TSubscribe_case_coded [cases_coded]: "coded Subscribe TSubscribe_case"
  by code_simp

definition TSubscribeMany_case :: packet_case where [case_defs]:
  "TSubscribeMany_case = no_case\<lparr>tcCase := 119,
     tcDesc := lit ''many'',
     tcPrimary := True,
     tcRawBytes := Some [(push_bit 4 Subscribe OR push_bit 1 1), 30,
                    0, 15,
                    0, 3,
                    97, 47, 98,
                    0,
                    0, 11,
                    100, 47, 101, 47, 102, 47, 103, 47, 104, 47, 105,
                    1,
                    0, 5,
                    120, 47, 121, 47, 122,
                    2],
     tcPacket := Some (no_packet\<lparr>pkFixedHeader := no_header\<lparr>fhType := Subscribe,
           fhRemaining := 30,
           fhQos := 1\<rparr>,
        pkPacketID := 15,
        pkFilters := [no_subscription\<lparr>sFilter := lit ''a/b'',
             sQos := 0\<rparr>,
          no_subscription\<lparr>sFilter := lit ''d/e/f/g/h/i'',
             sQos := 1\<rparr>,
          no_subscription\<lparr>sFilter := lit ''x/y/z'',
             sQos := 2\<rparr>]\<rparr>)\<rparr>"

lemma TSubscribeMany_case_coded [cases_coded]: "coded Subscribe TSubscribeMany_case"
  by code_simp

definition TSubscribeMqtt5_case :: packet_case where [case_defs]:
  "TSubscribeMqtt5_case = no_case\<lparr>tcCase := 120,
     tcDesc := lit ''mqtt5'',
     tcPrimary := True,
     tcRawBytes := Some [(push_bit 4 Subscribe OR push_bit 1 1), 31,
                    0, 15,
                    20,
                    11, 202, 212, 19,
                    38,
                    0, 5, 104, 101, 108, 108, 111,
                    0, 6, 228, 184, 150, 231, 149, 140,
                    0, 5, 97, 47, 98, 47, 99,
                    46],
     tcPacket := Some (no_packet\<lparr>pkProtocolVersion := 5,
        pkFixedHeader := no_header\<lparr>fhType := Subscribe,
           fhRemaining := 31,
           fhQos := 1\<rparr>,
        pkPacketID := 15,
        pkFilters := [no_subscription\<lparr>sFilter := lit ''a/b/c'',
             sQos := 2,
             sNoLocal := True,
             sRetainAsPublished := True,
             sRetainHandling := 2,
             sIdentifier := 322122\<rparr>],
        pkProperties := no_properties\<lparr>pSubscriptionIdentifier := [322122],
           pUser := [\<lparr>Key = lit ''hello'', Val = [228, 184, 150, 231, 149, 140]\<rparr>]\<rparr>\<rparr>)\<rparr>"

lemma TSubscribeMqtt5_case_coded [cases_coded]: "coded Subscribe TSubscribeMqtt5_case"
  by code_simp

definition TSubscribeRetainHandling1_case :: packet_case where [case_defs]:
  "TSubscribeRetainHandling1_case = no_case\<lparr>tcCase := 121,
     tcDesc := lit ''retain handling 1'',
     tcPrimary := True,
     tcRawBytes := Some [(push_bit 4 Subscribe OR push_bit 1 1), 11,
                    0, 15,
                    0,
                    0, 5,
                    97, 47, 98, 47, 99,
                    (0 OR push_bit 4 1)],
     tcPacket := Some (no_packet\<lparr>pkProtocolVersion := 5,
        pkFixedHeader := no_header\<lparr>fhType := Subscribe,
           fhRemaining := 11,
           fhQos := 1\<rparr>,
        pkPacketID := 15,
        pkFilters := [no_subscription\<lparr>sFilter := lit ''a/b/c'',
             sRetainHandling := 1\<rparr>]\<rparr>)\<rparr>"

lemma TSubscribeRetainHandling1_case_coded [cases_coded]: "coded Subscribe TSubscribeRetainHandling1_case"
  by code_simp

definition TSubscribeRetainHandling2_case :: packet_case where [case_defs]:
  "TSubscribeRetainHandling2_case = no_case\<lparr>tcCase := 122,
     tcDesc := lit ''retain handling 2'',
     tcPrimary := True,
     tcRawBytes := Some [(push_bit 4 Subscribe OR push_bit 1 1), 11,
                    0, 15,
                    0,
                    0, 5,
                    97, 47, 98, 47, 99,
                    (0 OR push_bit 4 2)],
     tcPacket := Some (no_packet\<lparr>pkProtocolVersion := 5,
        pkFixedHeader := no_header\<lparr>fhType := Subscribe,
           fhRemaining := 11,
           fhQos := 1\<rparr>,
        pkPacketID := 15,
        pkFilters := [no_subscription\<lparr>sFilter := lit ''a/b/c'',
             sRetainHandling := 2\<rparr>]\<rparr>)\<rparr>"

lemma TSubscribeRetainHandling2_case_coded [cases_coded]: "coded Subscribe TSubscribeRetainHandling2_case"
  by code_simp

definition TSubscribeRetainAsPublished_case :: packet_case where [case_defs]:
  "TSubscribeRetainAsPublished_case = no_case\<lparr>tcCase := 123,
     tcDesc := lit ''retain as published'',
     tcPrimary := True,
     tcRawBytes := Some [(push_bit 4 Subscribe OR push_bit 1 1), 11,
                    0, 15,
                    0,
                    0, 5,
                    97, 47, 98, 47, 99,
                    (0 OR push_bit 3 1)],
     tcPacket := Some (no_packet\<lparr>pkProtocolVersion := 5,
        pkFixedHeader := no_header\<lparr>fhType := Subscribe,
           fhRemaining := 11,
           fhQos := 1\<rparr>,
        pkPacketID := 15,
        pkFilters := [no_subscription\<lparr>sFilter := lit ''a/b/c'',
             sRetainAsPublished := True\<rparr>]\<rparr>)\<rparr>"

lemma TSubscribeRetainAsPublished_case_coded [cases_coded]: "coded Subscribe TSubscribeRetainAsPublished_case"
  by code_simp

definition TSubscribeInvalidFilter_case :: packet_case where [case_defs]:
  "TSubscribeInvalidFilter_case = no_case\<lparr>tcCase := 133,
     tcDesc := lit ''invalid filter'',
     tcGroup := lit ''reference'',
     tcPacket := Some (no_packet\<lparr>pkFixedHeader := no_header\<lparr>fhType := Subscribe,
           fhQos := 1\<rparr>,
        pkPacketID := 15,
        pkFilters := [no_subscription\<lparr>sFilter := lit ''$SHARE/#'',
             sIdentifier := 5\<rparr>]\<rparr>)\<rparr>"

lemma TSubscribeInvalidFilter_case_coded [cases_coded]: "coded Subscribe TSubscribeInvalidFilter_case"
  by code_simp

definition TSubscribeInvalidSharedNoLocal_case :: packet_case where [case_defs]:
  "TSubscribeInvalidSharedNoLocal_case = no_case\<lparr>tcCase := 132,
     tcDesc := lit ''shared and no local'',
     tcGroup := lit ''reference'',
     tcPacket := Some (no_packet\<lparr>pkFixedHeader := no_header\<lparr>fhType := Subscribe,
           fhQos := 1\<rparr>,
        pkPacketID := 15,
        pkFilters := [no_subscription\<lparr>sFilter := lit ''$SHARE/tmp/a/b/c'',
             sIdentifier := 5,
             sNoLocal := True\<rparr>]\<rparr>)\<rparr>"

lemma TSubscribeInvalidSharedNoLocal_case_coded [cases_coded]: "coded Subscribe TSubscribeInvalidSharedNoLocal_case"
  by code_simp

definition TSubscribeMalPacketID_case :: packet_case where [case_defs]:
  "TSubscribeMalPacketID_case = no_case\<lparr>tcCase := 124,
     tcDesc := lit ''malformed packet id'',
     tcGroup := lit ''decode'',
     tcFailFirst := Some ErrMalformedPacketID,
     tcRawBytes := Some [(push_bit 4 Subscribe OR push_bit 1 1), 2,
                    0]\<rparr>"

lemma TSubscribeMalPacketID_case_coded [cases_coded]: "coded Subscribe TSubscribeMalPacketID_case"
  by code_simp

definition TSubscribeMalTopic_case :: packet_case where [case_defs]:
  "TSubscribeMalTopic_case = no_case\<lparr>tcCase := 125,
     tcDesc := lit ''malformed topic'',
     tcGroup := lit ''decode'',
     tcFailFirst := Some ErrMalformedTopic,
     tcRawBytes := Some [(push_bit 4 Subscribe OR push_bit 1 1), 2,
                    0, 21,
                    0, 3,
                    97, 47]\<rparr>"

lemma TSubscribeMalTopic_case_coded [cases_coded]: "coded Subscribe TSubscribeMalTopic_case"
  by code_simp

definition TSubscribeMalQos_case :: packet_case where [case_defs]:
  "TSubscribeMalQos_case = no_case\<lparr>tcCase := 126,
     tcDesc := lit ''malformed subscribe - qos'',
     tcGroup := lit ''decode'',
     tcFailFirst := Some ErrMalformedQos,
     tcRawBytes := Some [(push_bit 4 Subscribe OR push_bit 1 1), 2,
                    0, 22,
                    0, 3,
                    106, 47, 98]\<rparr>"

lemma TSubscribeMalQos_case_coded [cases_coded]: "coded Subscribe TSubscribeMalQos_case"
  by code_simp

definition TSubscribeMalQosRange_case :: packet_case where [case_defs]:
  "TSubscribeMalQosRange_case = no_case\<lparr>tcCase := 127,
     tcDesc := lit ''malformed qos out of range'',
     tcGroup := lit ''decode'',
     tcFailFirst := Some ErrProtocolViolationQosOutOfRange,
     tcRawBytes := Some [(push_bit 4 Subscribe OR push_bit 1 1), 2,
                    0, 22,
                    0, 3,
                    99, 47, 100,
                    5]\<rparr>"

lemma TSubscribeMalQosRange_case_coded [cases_coded]: "coded Subscribe TSubscribeMalQosRange_case"
  by code_simp

definition TSubscribeMalProperties_case :: packet_case where [case_defs]:
  "TSubscribeMalProperties_case = no_case\<lparr>tcCase := 128,
     tcDesc := lit ''malformed properties'',
     tcGroup := lit ''decode'',
     tcFailFirst := Some ErrMalformedProperties,
     tcRawBytes := Some [push_bit 4 Subscribe, 11,
                    0, 15,
                    4],
     tcPacket := Some (no_packet\<lparr>pkProtocolVersion := 5\<rparr>)\<rparr>"

lemma TSubscribeMalProperties_case_coded [cases_coded]: "coded Subscribe TSubscribeMalProperties_case"
  by code_simp

definition TSubscribeInvalidQosMustPacketID_case :: packet_case where [case_defs]:
  "TSubscribeInvalidQosMustPacketID_case = no_case\<lparr>tcCase := 129,
     tcDesc := lit ''no packet id with qos > 0'',
     tcGroup := lit ''validate'',
     tcExpect := Some ErrProtocolViolationNoPacketID,
     tcPacket := Some (no_packet\<lparr>pkFixedHeader := no_header\<lparr>fhType := Subscribe,
           fhQos := 1\<rparr>,
        pkPacketID := 0,
        pkFilters := [no_subscription\<lparr>sFilter := lit ''a/b''\<rparr>]\<rparr>)\<rparr>"

lemma TSubscribeInvalidQosMustPacketID_case_coded [cases_coded]: "coded Subscribe TSubscribeInvalidQosMustPacketID_case"
  by (rule only_validated) (simp add: TSubscribeInvalidQosMustPacketID_case_def)

definition TSubscribeInvalidNoFilters_case :: packet_case where [case_defs]:
  "TSubscribeInvalidNoFilters_case = no_case\<lparr>tcCase := 131,
     tcDesc := lit ''no filters'',
     tcGroup := lit ''validate'',
     tcExpect := Some ErrProtocolViolationNoFilters,
     tcPacket := Some (no_packet\<lparr>pkFixedHeader := no_header\<lparr>fhType := Subscribe,
           fhQos := 1\<rparr>,
        pkPacketID := 2\<rparr>)\<rparr>"

lemma TSubscribeInvalidNoFilters_case_coded [cases_coded]: "coded Subscribe TSubscribeInvalidNoFilters_case"
  by (rule only_validated) (simp add: TSubscribeInvalidNoFilters_case_def)

definition TSubscribeInvalidIdentifierOversize_case :: packet_case where [case_defs]:
  "TSubscribeInvalidIdentifierOversize_case = no_case\<lparr>tcCase := 134,
     tcDesc := lit ''oversize identifier'',
     tcGroup := lit ''validate'',
     tcExpect := Some ErrProtocolViolationOversizeSubID,
     tcPacket := Some (no_packet\<lparr>pkFixedHeader := no_header\<lparr>fhType := Subscribe,
           fhQos := 1\<rparr>,
        pkPacketID := 2,
        pkFilters := [no_subscription\<lparr>sFilter := lit ''a/b'',
             sIdentifier := 5\<rparr>,
          no_subscription\<lparr>sFilter := lit ''d/f'',
             sIdentifier := 268435456\<rparr>]\<rparr>)\<rparr>"

lemma TSubscribeInvalidIdentifierOversize_case_coded [cases_coded]: "coded Subscribe TSubscribeInvalidIdentifierOversize_case"
  by (rule only_validated) (simp add: TSubscribeInvalidIdentifierOversize_case_def)

definition TSubscribeSpecQosMustPacketID_case :: packet_case where [case_defs]:
  "TSubscribeSpecQosMustPacketID_case = no_case\<lparr>tcCase := 130,
     tcDesc := lit ''no packet id with qos > 0'',
     tcGroup := lit ''encode'',
     tcExpect := Some ErrProtocolViolationNoPacketID,
     tcRawBytes := Some [(push_bit 4 Subscribe OR push_bit 1 1), 10,
                    0, 0,
                    0, 5,
                    97, 47, 98, 47, 99,
                    1],
     tcPacket := Some (no_packet\<lparr>pkFixedHeader := no_header\<lparr>fhType := Subscribe,
           fhQos := 1,
           fhRemaining := 10\<rparr>,
        pkFilters := [no_subscription\<lparr>sFilter := lit ''a/b/c'',
             sQos := 1\<rparr>],
        pkPacketID := 0\<rparr>)\<rparr>"

lemma TSubscribeSpecQosMustPacketID_case_coded [cases_coded]: "coded Subscribe TSubscribeSpecQosMustPacketID_case"
  by code_simp

definition Subscribe_cases :: "packet_case list" where
  "Subscribe_cases = [TSubscribe_case,
     TSubscribeMany_case,
     TSubscribeMqtt5_case,
     TSubscribeRetainHandling1_case,
     TSubscribeRetainHandling2_case,
     TSubscribeRetainAsPublished_case,
     TSubscribeInvalidFilter_case,
     TSubscribeInvalidSharedNoLocal_case,
     TSubscribeMalPacketID_case,
     TSubscribeMalTopic_case,
     TSubscribeMalQos_case,
     TSubscribeMalQosRange_case,
     TSubscribeMalProperties_case,
     TSubscribeInvalidQosMustPacketID_case,
     TSubscribeInvalidNoFilters_case,
     TSubscribeInvalidIdentifierOversize_case,
     TSubscribeSpecQosMustPacketID_case]"

lemma Subscribe_cases_coded: "list_all (coded Subscribe) Subscribe_cases"
  by (simp only: Subscribe_cases_def list.pred_inject cases_coded simp_thms)

lemma Subscribe_cases_validated: "list_all (validate_test Subscribe) Subscribe_cases"
  by (simp add: Subscribe_cases_def validate_defs case_defs no_case_def no_packet_def no_header_def no_connect_def
      no_properties_def no_subscription_def lit_def)

section \<open>Suback\<close>

definition TSuback_case :: packet_case where [case_defs]:
  "TSuback_case = no_case\<lparr>tcCase := 135,
     tcDesc := lit ''suback'',
     tcPrimary := True,
     tcRawBytes := Some [push_bit 4 Suback, 3,
                    0, 15,
                    0],
     tcPacket := Some (no_packet\<lparr>pkFixedHeader := no_header\<lparr>fhType := Suback,
           fhRemaining := 3\<rparr>,
        pkPacketID := 15,
        pkReasonCodes := [0]\<rparr>)\<rparr>"

lemma TSuback_case_coded [cases_coded]: "coded Suback TSuback_case"
  by code_simp

definition TSubackMany_case :: packet_case where [case_defs]:
  "TSubackMany_case = no_case\<lparr>tcCase := 136,
     tcDesc := lit ''many'',
     tcPrimary := True,
     tcRawBytes := Some [push_bit 4 Suback, 6,
                    0, 15,
                    0,
                    1,
                    2,
                    128],
     tcPacket := Some (no_packet\<lparr>pkFixedHeader := no_header\<lparr>fhType := Suback,
           fhRemaining := 6\<rparr>,
        pkPacketID := 15,
        pkReasonCodes := [0, 1, 2, 128]\<rparr>)\<rparr>"

lemma TSubackMany_case_coded [cases_coded]: "coded Suback TSubackMany_case"
  by code_simp

definition TSubackDeny_case :: packet_case where [case_defs]:
  "TSubackDeny_case = no_case\<lparr>tcCase := 137,
     tcDesc := lit ''deny mqtt5'',
     tcPrimary := True,
     tcRawBytes := Some [push_bit 4 Suback, 4,
                    0, 15,
                    0,
                    Code ErrNotAuthorized],
     tcPacket := Some (no_packet\<lparr>pkProtocolVersion := 5,
        pkFixedHeader := no_header\<lparr>fhType := Suback,
           fhRemaining := 4\<rparr>,
        pkPacketID := 15,
        pkReasonCodes := [Code ErrNotAuthorized]\<rparr>)\<rparr>"

lemma TSubackDeny_case_coded [cases_coded]: "coded Suback TSubackDeny_case"
  by code_simp

definition TSubackUnspecifiedError_case :: packet_case where [case_defs]:
  "TSubackUnspecifiedError_case = no_case\<lparr>tcCase := 138,
     tcDesc := lit ''unspecified error'',
     tcPrimary := True,
     tcRawBytes := Some [push_bit 4 Suback, 3,
                    0, 15,
                    Code ErrUnspecifiedError],
     tcPacket := Some (no_packet\<lparr>pkFixedHeader := no_header\<lparr>fhType := Suback,
           fhRemaining := 3\<rparr>,
        pkPacketID := 15,
        pkReasonCodes := [Code ErrUnspecifiedError]\<rparr>)\<rparr>"

lemma TSubackUnspecifiedError_case_coded [cases_coded]: "coded Suback TSubackUnspecifiedError_case"
  by code_simp

definition TSubackUnspecifiedErrorMqtt5_case :: packet_case where [case_defs]:
  "TSubackUnspecifiedErrorMqtt5_case = no_case\<lparr>tcCase := 139,
     tcDesc := lit ''unspecified error mqtt5'',
     tcPrimary := True,
     tcRawBytes := Some [push_bit 4 Suback, 4,
                    0, 15,
                    0,
                    Code ErrUnspecifiedError],
     tcPacket := Some (no_packet\<lparr>pkProtocolVersion := 5,
        pkFixedHeader := no_header\<lparr>fhType := Suback,
           fhRemaining := 4\<rparr>,
        pkPacketID := 15,
        pkReasonCodes := [Code ErrUnspecifiedError]\<rparr>)\<rparr>"

lemma TSubackUnspecifiedErrorMqtt5_case_coded [cases_coded]: "coded Suback TSubackUnspecifiedErrorMqtt5_case"
  by code_simp

definition TSubackMqtt5_case :: packet_case where [case_defs]:
  "TSubackMqtt5_case = no_case\<lparr>tcCase := 140,
     tcDesc := lit ''mqtt5'',
     tcPrimary := True,
     tcRawBytes := Some [push_bit 4 Suback, 20,
                    0, 15,
                    16,
                    38,
                    0, 5, 104, 101, 108, 108, 111,
                    0, 6, 228, 184, 150, 231, 149, 140,
                    Code CodeGrantedQos2],
     tcPacket := Some (no_packet\<lparr>pkProtocolVersion := 5,
        pkFixedHeader := no_header\<lparr>fhType := Suback,
           fhRemaining := 20\<rparr>,
        pkPacketID := 15,
        pkReasonCodes := [Code CodeGrantedQos2],
        pkProperties := no_properties\<lparr>pUser := [\<lparr>Key = lit ''hello'', Val = [228, 184, 150, 231, 149, 140]\<rparr>]\<rparr>\<rparr>)\<rparr>"

lemma TSubackMqtt5_case_coded [cases_coded]: "coded Suback TSubackMqtt5_case"
  by code_simp

definition TSubackPacketIDInUse_case :: packet_case where [case_defs]:
  "TSubackPacketIDInUse_case = no_case\<lparr>tcCase := 141,
     tcDesc := lit ''packet id in use'',
     tcPrimary := True,
     tcRawBytes := Some [push_bit 4 Suback, 47,
                    0, 15,
                    43,
                    31, 0, 24, 112, 97, 99, 107, 101, 116,
                    32, 105, 100, 101, 110, 116, 105, 102, 105, 101, 114,
                    32, 105, 110,
                    32, 117, 115, 101,
                    38,
                    0, 5, 104, 101, 108, 108, 111,
                    0, 6, 228, 184, 150, 231, 149, 140,
                    Code ErrPacketIdentifierInUse],
     tcPacket := Some (no_packet\<lparr>pkProtocolVersion := 5,
        pkFixedHeader := no_header\<lparr>fhType := Suback,
           fhRemaining := 47\<rparr>,
        pkPacketID := 15,
        pkReasonCodes := [Code ErrPacketIdentifierInUse],
        pkProperties := no_properties\<lparr>pReasonString := Reason ErrPacketIdentifierInUse,
           pUser := [\<lparr>Key = lit ''hello'', Val = [228, 184, 150, 231, 149, 140]\<rparr>]\<rparr>\<rparr>)\<rparr>"

lemma TSubackPacketIDInUse_case_coded [cases_coded]: "coded Suback TSubackPacketIDInUse_case"
  by code_simp

definition TSubackMalPacketID_case :: packet_case where [case_defs]:
  "TSubackMalPacketID_case = no_case\<lparr>tcCase := 144,
     tcDesc := lit ''malformed packet id'',
     tcGroup := lit ''decode'',
     tcFailFirst := Some ErrMalformedPacketID,
     tcRawBytes := Some [push_bit 4 Suback, 2,
                    0]\<rparr>"

lemma TSubackMalPacketID_case_coded [cases_coded]: "coded Suback TSubackMalPacketID_case"
  by code_simp

definition TSubackMalProperties_case :: packet_case where [case_defs]:
  "TSubackMalProperties_case = no_case\<lparr>tcCase := 145,
     tcDesc := lit ''malformed properties'',
     tcGroup := lit ''decode'',
     tcFailFirst := Some ErrMalformedProperties,
     tcRawBytes := Some [push_bit 4 Suback, 47,
                    0, 15,
                    43],
     tcPacket := Some (no_packet\<lparr>pkProtocolVersion := 5\<rparr>)\<rparr>"

lemma TSubackMalProperties_case_coded [cases_coded]: "coded Suback TSubackMalProperties_case"
  by code_simp

definition TSubackInvalidFilter_case :: packet_case where [case_defs]:
  "TSubackInvalidFilter_case = no_case\<lparr>tcCase := 142,
     tcDesc := lit ''malformed packet id'',
     tcGroup := lit ''reference'',
     tcRawBytes := Some [push_bit 4 Suback, 4,
                    0, 15,
                    0,
                    Code ErrTopicFilterInvalid],
     tcPacket := Some (no_packet\<lparr>pkProtocolVersion := 5\<rparr>)\<rparr>"

lemma TSubackInvalidFilter_case_coded [cases_coded]: "coded Suback TSubackInvalidFilter_case"
  by code_simp

definition TSubackInvalidSharedNoLocal_case :: packet_case where [case_defs]:
  "TSubackInvalidSharedNoLocal_case = no_case\<lparr>tcCase := 143,
     tcDesc := lit ''invalid shared no local'',
     tcGroup := lit ''reference'',
     tcRawBytes := Some [push_bit 4 Suback, 4,
                    0, 15,
                    0,
                    Code ErrProtocolViolationInvalidSharedNoLocal],
     tcPacket := Some (no_packet\<lparr>pkProtocolVersion := 5\<rparr>)\<rparr>"

lemma TSubackInvalidSharedNoLocal_case_coded [cases_coded]: "coded Suback TSubackInvalidSharedNoLocal_case"
  by code_simp

definition Suback_cases :: "packet_case list" where
  "Suback_cases = [TSuback_case,
     TSubackMany_case,
     TSubackDeny_case,
     TSubackUnspecifiedError_case,
     TSubackUnspecifiedErrorMqtt5_case,
     TSubackMqtt5_case,
     TSubackPacketIDInUse_case,
     TSubackMalPacketID_case,
     TSubackMalProperties_case,
     TSubackInvalidFilter_case,
     TSubackInvalidSharedNoLocal_case]"

lemma Suback_cases_coded: "list_all (coded Suback) Suback_cases"
  by (simp only: Suback_cases_def list.pred_inject cases_coded simp_thms)

lemma Suback_cases_validated: "list_all (validate_test Suback) Suback_cases"
  by (simp add: Suback_cases_def validate_defs case_defs no_case_def no_packet_def no_header_def no_connect_def
      no_properties_def no_subscription_def lit_def)

section \<open>Unsubscribe\<close>

definition TUnsubscribe_case :: packet_case where [case_defs]:
  "TUnsubscribe_case = no_case\<lparr>tcCase := 146,
     tcDesc := lit ''unsubscribe'',
     tcPrimary := True,
     tcRawBytes := Some [(push_bit 4 Unsubscribe OR push_bit 1 1), 9,
                    0, 15,
                    0, 5,
                    97, 47, 98, 47, 99],
     tcPacket := Some (no_packet\<lparr>pkFixedHeader := no_header\<lparr>fhType := Unsubscribe,
           fhRemaining := 9,
           fhQos := 1\<rparr>,
        pkPacketID := 15,
        pkFilters := [no_subscription\<lparr>sFilter := lit ''a/b/c''\<rparr>]\<rparr>)\<rparr>"

lemma TUnsubscribe_case_coded [cases_coded]: "coded Unsubscribe TUnsubscribe_case"
  by code_simp

definition TUnsubscribeMany_case :: packet_case where [case_defs]:
  "TUnsubscribeMany_case = no_case\<lparr>tcCase := 147,
     tcDesc := lit ''unsubscribe many'',
     tcPrimary := True,
     tcRawBytes := Some [(push_bit 4 Unsubscribe OR push_bit 1 1), 27,
                    0, 35,
                    0, 3,
                    97, 47, 98,
                    0, 11,
                    100, 47, 101, 47, 102, 47, 103, 47, 104, 47, 105,
                    0, 5,
                    120, 47, 121, 47, 122],
     tcPacket := Some (no_packet\<lparr>pkFixedHeader := no_header\<lparr>fhType := Unsubscribe,
           fhRemaining := 27,
           fhQos := 1\<rparr>,
        pkPacketID := 35,
        pkFilters := [no_subscription\<lparr>sFilter := lit ''a/b''\<rparr>,
          no_subscription\<lparr>sFilter := lit ''d/e/f/g/h/i''\<rparr>,
          no_subscription\<lparr>sFilter := lit ''x/y/z''\<rparr>]\<rparr>)\<rparr>"

lemma TUnsubscribeMany_case_coded [cases_coded]: "coded Unsubscribe TUnsubscribeMany_case"
  by code_simp

definition TUnsubscribeMqtt5_case :: packet_case where [case_defs]:
  "TUnsubscribeMqtt5_case = no_case\<lparr>tcCase := 148,
     tcDesc := lit ''mqtt5'',
     tcPrimary := True,
     tcRawBytes := Some [(push_bit 4 Unsubscribe OR push_bit 1 1), 31,
                    0, 15,
                    16,
                    38,
                    0, 5, 104, 101, 108, 108, 111,
                    0, 6, 228, 184, 150, 231, 149, 140,
                    0, 3,
                    97, 47, 98,
                    0, 5,
                    120, 47, 121, 47, 119],
     tcPacket := Some (no_packet\<lparr>pkProtocolVersion := 5,
        pkFixedHeader := no_header\<lparr>fhType := Unsubscribe,
           fhRemaining := 31,
           fhQos := 1\<rparr>,
        pkPacketID := 15,
        pkProperties := no_properties\<lparr>pUser := [\<lparr>Key = lit ''hello'', Val = [228, 184, 150, 231, 149, 140]\<rparr>]\<rparr>,
        pkFilters := [no_subscription\<lparr>sFilter := lit ''a/b''\<rparr>,
          no_subscription\<lparr>sFilter := lit ''x/y/w''\<rparr>]\<rparr>)\<rparr>"

lemma TUnsubscribeMqtt5_case_coded [cases_coded]: "coded Unsubscribe TUnsubscribeMqtt5_case"
  by code_simp

definition TUnsubscribeMalPacketID_case :: packet_case where [case_defs]:
  "TUnsubscribeMalPacketID_case = no_case\<lparr>tcCase := 149,
     tcDesc := lit ''malformed packet id'',
     tcGroup := lit ''decode'',
     tcFailFirst := Some ErrMalformedPacketID,
     tcRawBytes := Some [push_bit 4 Unsubscribe, 2,
                    0]\<rparr>"

lemma TUnsubscribeMalPacketID_case_coded [cases_coded]: "coded Unsubscribe TUnsubscribeMalPacketID_case"
  by code_simp

definition TUnsubscribeMalTopicName_case :: packet_case where [case_defs]:
  "TUnsubscribeMalTopicName_case = no_case\<lparr>tcCase := 150,
     tcDesc := lit ''malformed topic'',
     tcGroup := lit ''decode'',
     tcFailFirst := Some ErrMalformedTopic,
     tcRawBytes := Some [push_bit 4 Unsubscribe, 2,
                    0, 21,
                    0, 3,
                    97, 47]\<rparr>"

lemma TUnsubscribeMalTopicName_case_coded [cases_coded]: "coded Unsubscribe TUnsubscribeMalTopicName_case"
  by code_simp

definition TUnsubscribeMalProperties_case :: packet_case where [case_defs]:
  "TUnsubscribeMalProperties_case = no_case\<lparr>tcCase := 151,
     tcDesc := lit ''malformed properties'',
     tcGroup := lit ''decode'',
     tcFailFirst := Some ErrMalformedProperties,
     tcRawBytes := Some [(push_bit 4 Unsubscribe OR push_bit 1 1), 31,
                    0, 15,
                    16],
     tcPacket := Some (no_packet\<lparr>pkProtocolVersion := 5\<rparr>)\<rparr>"

lemma TUnsubscribeMalProperties_case_coded [cases_coded]: "coded Unsubscribe TUnsubscribeMalProperties_case"
  by code_simp

definition TUnsubscribeInvalidQosMustPacketID_case :: packet_case where [case_defs]:
  "TUnsubscribeInvalidQosMustPacketID_case = no_case\<lparr>tcCase := 152,
     tcDesc := lit ''no packet id with qos > 0'',
     tcGroup := lit ''validate'',
     tcExpect := Some ErrProtocolViolationNoPacketID,
     tcPacket := Some (no_packet\<lparr>pkFixedHeader := no_header\<lparr>fhType := Unsubscribe,
           fhQos := 1\<rparr>,
        pkPacketID := 0,
        pkFilters := [no_subscription\<lparr>sFilter := lit ''a/b''\<rparr>]\<rparr>)\<rparr>"

lemma TUnsubscribeInvalidQosMustPacketID_case_coded [cases_coded]: "coded Unsubscribe TUnsubscribeInvalidQosMustPacketID_case"
  by (rule only_validated) (simp add: TUnsubscribeInvalidQosMustPacketID_case_def)

definition TUnsubscribeInvalidNoFilters_case :: packet_case where [case_defs]:
  "TUnsubscribeInvalidNoFilters_case = no_case\<lparr>tcCase := 154,
     tcDesc := lit ''no filters'',
     tcGroup := lit ''validate'',
     tcExpect := Some ErrProtocolViolationNoFilters,
     tcPacket := Some (no_packet\<lparr>pkFixedHeader := no_header\<lparr>fhType := Unsubscribe,
           fhQos := 1\<rparr>,
        pkPacketID := 2\<rparr>)\<rparr>"

lemma TUnsubscribeInvalidNoFilters_case_coded [cases_coded]: "coded Unsubscribe TUnsubscribeInvalidNoFilters_case"
  by (rule only_validated) (simp add: TUnsubscribeInvalidNoFilters_case_def)

definition TUnsubscribeSpecQosMustPacketID_case :: packet_case where [case_defs]:
  "TUnsubscribeSpecQosMustPacketID_case = no_case\<lparr>tcCase := 153,
     tcDesc := lit ''no packet id with qos > 0'',
     tcGroup := lit ''encode'',
     tcExpect := Some ErrProtocolViolationNoPacketID,
     tcRawBytes := Some [(push_bit 4 Unsubscribe OR push_bit 1 1), 9,
                    0, 0,
                    0, 5,
                    97, 47, 98, 47, 99],
     tcPacket := Some (no_packet\<lparr>pkFixedHeader := no_header\<lparr>fhType := Unsubscribe,
           fhQos := 1,
           fhRemaining := 9\<rparr>,
        pkPacketID := 0,
        pkFilters := [no_subscription\<lparr>sFilter := lit ''a/b/c''\<rparr>]\<rparr>)\<rparr>"

lemma TUnsubscribeSpecQosMustPacketID_case_coded [cases_coded]: "coded Unsubscribe TUnsubscribeSpecQosMustPacketID_case"
  by code_simp

definition Unsubscribe_cases :: "packet_case list" where
  "Unsubscribe_cases = [TUnsubscribe_case,
     TUnsubscribeMany_case,
     TUnsubscribeMqtt5_case,
     TUnsubscribeMalPacketID_case,
     TUnsubscribeMalTopicName_case,
     TUnsubscribeMalProperties_case,
     TUnsubscribeInvalidQosMustPacketID_case,
     TUnsubscribeInvalidNoFilters_case,
     TUnsubscribeSpecQosMustPacketID_case]"

lemma Unsubscribe_cases_coded: "list_all (coded Unsubscribe) Unsubscribe_cases"
  by (simp only: Unsubscribe_cases_def list.pred_inject cases_coded simp_thms)

lemma Unsubscribe_cases_validated: "list_all (validate_test Unsubscribe) Unsubscribe_cases"
  by (simp add: Unsubscribe_cases_def validate_defs case_defs no_case_def no_packet_def no_header_def no_connect_def
      no_properties_def no_subscription_def lit_def)

section \<open>Unsuback\<close>

definition TUnsuback_case :: packet_case where [case_defs]:
  "TUnsuback_case = no_case\<lparr>tcCase := 155,
     tcDesc := lit ''unsuback'',
     tcPrimary := True,
     tcRawBytes := Some [push_bit 4 Unsuback, 2,
                    0, 15],
     tcPacket := Some (no_packet\<lparr>pkFixedHeader := no_header\<lparr>fhType := Unsuback,
           fhRemaining := 2\<rparr>,
        pkPacketID := 15\<rparr>)\<rparr>"

lemma TUnsuback_case_coded [cases_coded]: "coded Unsuback TUnsuback_case"
  by code_simp

definition TUnsubackMany_case :: packet_case where [case_defs]:
  "TUnsubackMany_case = no_case\<lparr>tcCase := 156,
     tcDesc := lit ''unsuback many'',
     tcPrimary := True,
     tcRawBytes := Some [push_bit 4 Unsuback, 5,
                    0, 15,
                    0,
                    Code CodeSuccess, Code CodeSuccess],
     tcPacket := Some (no_packet\<lparr>pkProtocolVersion := 5,
        pkFixedHeader := no_header\<lparr>fhType := Unsuback,
           fhRemaining := 5\<rparr>,
        pkPacketID := 15,
        pkReasonCodes := [Code CodeSuccess, Code CodeSuccess]\<rparr>)\<rparr>"

lemma TUnsubackMany_case_coded [cases_coded]: "coded Unsuback TUnsubackMany_case"
  by code_simp

definition TUnsubackMqtt5_case :: packet_case where [case_defs]:
  "TUnsubackMqtt5_case = no_case\<lparr>tcCase := 157,
     tcDesc := lit ''mqtt5'',
     tcPrimary := True,
     tcRawBytes := Some [push_bit 4 Unsuback, 21,
                    0, 15,
                    16,
                    38,
                    0, 5, 104, 101, 108, 108, 111,
                    0, 6, 228, 184, 150, 231, 149, 140,
                    Code CodeSuccess, Code CodeNoSubscriptionExisted],
     tcPacket := Some (no_packet\<lparr>pkProtocolVersion := 5,
        pkFixedHeader := no_header\<lparr>fhType := Unsuback,
           fhRemaining := 21\<rparr>,
        pkPacketID := 15,
        pkReasonCodes := [Code CodeSuccess, Code CodeNoSubscriptionExisted],
        pkProperties := no_properties\<lparr>pUser := [\<lparr>Key = lit ''hello'', Val = [228, 184, 150, 231, 149, 140]\<rparr>]\<rparr>\<rparr>)\<rparr>"

lemma TUnsubackMqtt5_case_coded [cases_coded]: "coded Unsuback TUnsubackMqtt5_case"
  by code_simp

definition TUnsubackPacketIDInUse_case :: packet_case where [case_defs]:
  "TUnsubackPacketIDInUse_case = no_case\<lparr>tcCase := 158,
     tcDesc := lit ''packet id in use'',
     tcPrimary := True,
     tcRawBytes := Some [push_bit 4 Unsuback, 48,
                    0, 15,
                    43,
                    31, 0, 24, 112, 97, 99, 107, 101, 116,
                    32, 105, 100, 101, 110, 116, 105, 102, 105, 101, 114,
                    32, 105, 110,
                    32, 117, 115, 101,
                    38,
                    0, 5, 104, 101, 108, 108, 111,
                    0, 6, 228, 184, 150, 231, 149, 140,
                    Code ErrPacketIdentifierInUse, Code ErrPacketIdentifierInUse],
     tcPacket := Some (no_packet\<lparr>pkProtocolVersion := 5,
        pkFixedHeader := no_header\<lparr>fhType := Unsuback,
           fhRemaining := 48\<rparr>,
        pkPacketID := 15,
        pkReasonCodes := [Code ErrPacketIdentifierInUse, Code ErrPacketIdentifierInUse],
        pkProperties := no_properties\<lparr>pReasonString := Reason ErrPacketIdentifierInUse,
           pUser := [\<lparr>Key = lit ''hello'', Val = [228, 184, 150, 231, 149, 140]\<rparr>]\<rparr>\<rparr>)\<rparr>"

lemma TUnsubackPacketIDInUse_case_coded [cases_coded]: "coded Unsuback TUnsubackPacketIDInUse_case"
  by code_simp

definition TUnsubackMalPacketID_case :: packet_case where [case_defs]:
  "TUnsubackMalPacketID_case = no_case\<lparr>tcCase := 159,
     tcDesc := lit ''malformed packet id'',
     tcGroup := lit ''decode'',
     tcFailFirst := Some ErrMalformedPacketID,
     tcRawBytes := Some [push_bit 4 Unsuback, 2,
                    0]\<rparr>"

lemma TUnsubackMalPacketID_case_coded [cases_coded]: "coded Unsuback TUnsubackMalPacketID_case"
  by code_simp

definition TUnsubackMalProperties_case :: packet_case where [case_defs]:
  "TUnsubackMalProperties_case = no_case\<lparr>tcCase := 160,
     tcDesc := lit ''malformed properties'',
     tcGroup := lit ''decode'',
     tcFailFirst := Some ErrMalformedProperties,
     tcRawBytes := Some [push_bit 4 Unsuback, 48,
                    0, 15,
                    43],
     tcPacket := Some (no_packet\<lparr>pkProtocolVersion := 5\<rparr>)\<rparr>"

lemma TUnsubackMalProperties_case_coded [cases_coded]: "coded Unsuback TUnsubackMalProperties_case"
  by code_simp

definition Unsuback_cases :: "packet_case list" where
  "Unsuback_cases = [TUnsuback_case,
     TUnsubackMany_case,
     TUnsubackMqtt5_case,
     TUnsubackPacketIDInUse_case,
     TUnsubackMalPacketID_case,
     TUnsubackMalProperties_case]"

lemma Unsuback_cases_coded: "list_all (coded Unsuback) Unsuback_cases"
  by (simp only: Unsuback_cases_def list.pred_inject cases_coded simp_thms)

lemma Unsuback_cases_validated: "list_all (validate_test Unsuback) Unsuback_cases"
  by (simp add: Unsuback_cases_def validate_defs case_defs no_case_def no_packet_def no_header_def no_connect_def
      no_properties_def no_subscription_def lit_def)

end
