(* ===== verification/Mqtt_CasesOther.thy ===== *)
theory Mqtt_CasesOther
  imports Mqtt_Cases
begin

text \<open>
  The test tables of \<open>packets/tpackets.go\<close>: the cases of PINGREQ, PINGRESP, DISCONNECT and AUTH.
\<close>

section \<open>Pingreq\<close>

definition TPingreq_case :: packet_case where [case_defs]:
  "TPingreq_case = no_case\<lparr>tcCase := 161,
     tcDesc := lit ''ping request'',
     tcPrimary := True,
     tcRawBytes := Some [push_bit 4 Pingreq, 0],
     tcPacket := Some (no_packet\<lparr>pkFixedHeader := no_header\<lparr>fhType := Pingreq,
           fhRemaining := 0\<rparr>\<rparr>)\<rparr>"

lemma TPingreq_case_coded [cases_coded]: "coded Pingreq TPingreq_case"
  by code_simp

definition Pingreq_cases :: "packet_case list" where
  "Pingreq_cases = [TPingreq_case]"

lemma Pingreq_cases_coded: "list_all (coded Pingreq) Pingreq_cases"
  by (simp only: Pingreq_cases_def list.pred_inject cases_coded simp_thms)

lemma Pingreq_cases_validated: "list_all (validate_test Pingreq) Pingreq_cases"
  by (simp add: Pingreq_cases_def validate_defs case_defs no_case_def no_packet_def no_header_def no_connect_def
      no_properties_def no_subscription_def lit_def)

section \<open>Pingresp\<close>

definition TPingresp_case :: packet_case where [case_defs]:
  "TPingresp_case = no_case\<lparr>tcCase := 162,
     tcDesc := lit ''ping response'',
     tcPrimary := True,
     tcRawBytes := Some [push_bit 4 Pingresp, 0],
     tcPacket := Some (no_packet\<lparr>pkFixedHeader := no_header\<lparr>fhType := Pingresp,
           fhRemaining := 0\<rparr>\<rparr>)\<rparr>"

lemma TPingresp_case_coded [cases_coded]: "coded Pingresp TPingresp_case"
  by code_simp

definition Pingresp_cases :: "packet_case list" where
  "Pingresp_cases = [TPingresp_case]"

lemma Pingresp_cases_coded: "list_all (coded Pingresp) Pingresp_cases"
  by (simp only: Pingresp_cases_def list.pred_inject cases_coded simp_thms)

lemma Pingresp_cases_validated: "list_all (validate_test Pingresp) Pingresp_cases"
  by (simp add: Pingresp_cases_def validate_defs case_defs no_case_def no_packet_def no_header_def no_connect_def
      no_properties_def no_subscription_def lit_def)

section \<open>Disconnect\<close>

definition TDisconnect_case :: packet_case where [case_defs]:
  "TDisconnect_case = no_case\<lparr>tcCase := 163,
     tcDesc := lit ''disconnect'',
     tcPrimary := True,
     tcRawBytes := Some [push_bit 4 Disconnect, 0],
     tcPacket := Some (no_packet\<lparr>pkFixedHeader := no_header\<lparr>fhType := Disconnect,
           fhRemaining := 0\<rparr>\<rparr>)\<rparr>"

lemma TDisconnect_case_coded [cases_coded]: "coded Disconnect TDisconnect_case"
  by code_simp

definition TDisconnectTakeover_case :: packet_case where [case_defs]:
  "TDisconnectTakeover_case = no_case\<lparr>tcCase := 164,
     tcDesc := lit ''takeover'',
     tcPrimary := True,
     tcRawBytes := Some ([push_bit 4 Disconnect, 21,
                     Code ErrSessionTakenOver,
                     19,
                     31, 0, 16] @ Reason ErrSessionTakenOver),
     tcPacket := Some (no_packet\<lparr>pkProtocolVersion := 5,
        pkFixedHeader := no_header\<lparr>fhType := Disconnect,
           fhRemaining := 0\<rparr>,
        pkReasonCode := Code ErrSessionTakenOver,
        pkProperties := no_properties\<lparr>pReasonString := Reason ErrSessionTakenOver\<rparr>\<rparr>)\<rparr>"

lemma TDisconnectTakeover_case_coded [cases_coded]: "coded Disconnect TDisconnectTakeover_case"
  by code_simp

definition TDisconnectShuttingDown_case :: packet_case where [case_defs]:
  "TDisconnectShuttingDown_case = no_case\<lparr>tcCase := 170,
     tcDesc := lit ''shutting down'',
     tcPrimary := True,
     tcRawBytes := Some ([push_bit 4 Disconnect, 25,
                     Code ErrServerShuttingDown,
                     23,
                     31, 0, 20] @ Reason ErrServerShuttingDown),
     tcPacket := Some (no_packet\<lparr>pkProtocolVersion := 5,
        pkFixedHeader := no_header\<lparr>fhType := Disconnect,
           fhRemaining := 0\<rparr>,
        pkReasonCode := Code ErrServerShuttingDown,
        pkProperties := no_properties\<lparr>pReasonString := Reason ErrServerShuttingDown\<rparr>\<rparr>)\<rparr>"

lemma TDisconnectShuttingDown_case_coded [cases_coded]: "coded Disconnect TDisconnectShuttingDown_case"
  by code_simp

definition TDisconnectMqtt5_case :: packet_case where [case_defs]:
  "TDisconnectMqtt5_case = no_case\<lparr>tcCase := 165,
     tcDesc := lit ''mqtt5'',
     tcPrimary := True,
     tcRawBytes := Some ([push_bit 4 Disconnect, 22,
                     Code CodeDisconnect,
                     20,
                     17, 0, 0, 0, 120,
                     31, 0, 12] @ Reason CodeDisconnect),
     tcPacket := Some (no_packet\<lparr>pkProtocolVersion := 5,
        pkFixedHeader := no_header\<lparr>fhType := Disconnect,
           fhRemaining := 22\<rparr>,
        pkReasonCode := Code CodeDisconnect,
        pkProperties := no_properties\<lparr>pReasonString := Reason CodeDisconnect,
           pSessionExpiryInterval := 120,
           pSessionExpiryIntervalFlag := True\<rparr>\<rparr>)\<rparr>"

lemma TDisconnectMqtt5_case_coded [cases_coded]: "coded Disconnect TDisconnectMqtt5_case"
  by code_simp

definition TDisconnectMqtt5DisconnectWithWillMessage_case :: packet_case where [case_defs]:
  "TDisconnectMqtt5DisconnectWithWillMessage_case = no_case\<lparr>tcCase := 166,
     tcDesc := lit ''mqtt5 disconnect with will message'',
     tcPrimary := True,
     tcRawBytes := Some ([push_bit 4 Disconnect, 38,
                     Code CodeDisconnectWillMessage,
                     36,
                     17, 0, 0, 0, 120,
                     31, 0, 28] @ Reason CodeDisconnectWillMessage),
     tcPacket := Some (no_packet\<lparr>pkProtocolVersion := 5,
        pkFixedHeader := no_header\<lparr>fhType := Disconnect,
           fhRemaining := 22\<rparr>,
        pkReasonCode := Code CodeDisconnectWillMessage,
        pkProperties := no_properties\<lparr>pReasonString := Reason CodeDisconnectWillMessage,
           pSessionExpiryInterval := 120,
           pSessionExpiryIntervalFlag := True\<rparr>\<rparr>)\<rparr>"

lemma TDisconnectMqtt5DisconnectWithWillMessage_case_coded [cases_coded]: "coded Disconnect TDisconnectMqtt5DisconnectWithWillMessage_case"
  by code_simp

definition TDisconnectSecondConnect_case :: packet_case where [case_defs]:
  "TDisconnectSecondConnect_case = no_case\<lparr>tcCase := 167,
     tcDesc := lit ''second connect packet mqtt5'',
     tcRawBytes := Some ([push_bit 4 Disconnect, 46,
                     Code ErrProtocolViolationSecondConnect,
                     44,
                     31, 0, 41] @ Reason ErrProtocolViolationSecondConnect),
     tcPacket := Some (no_packet\<lparr>pkProtocolVersion := 5,
        pkFixedHeader := no_header\<lparr>fhType := Disconnect,
           fhRemaining := 45\<rparr>,
        pkReasonCode := Code ErrProtocolViolationSecondConnect,
        pkProperties := no_properties\<lparr>pReasonString := Reason ErrProtocolViolationSecondConnect\<rparr>\<rparr>)\<rparr>"

lemma TDisconnectSecondConnect_case_coded [cases_coded]: "coded Disconnect TDisconnectSecondConnect_case"
  by code_simp

definition TDisconnectZeroNonZeroExpiry_case :: packet_case where [case_defs]:
  "TDisconnectZeroNonZeroExpiry_case = no_case\<lparr>tcCase := 173,
     tcDesc := lit ''zero non zero expiry'',
     tcRawBytes := Some [push_bit 4 Disconnect, 2,
                    Code ErrProtocolViolationZeroNonZeroExpiry,
                    0],
     tcPacket := Some (no_packet\<lparr>pkProtocolVersion := 5,
        pkFixedHeader := no_header\<lparr>fhType := Disconnect,
           fhRemaining := 2\<rparr>,
        pkReasonCode := Code ErrProtocolViolationZeroNonZeroExpiry\<rparr>)\<rparr>"

lemma TDisconnectZeroNonZeroExpiry_case_coded [cases_coded]: "coded Disconnect TDisconnectZeroNonZeroExpiry_case"
  by code_simp

definition TDisconnectReceiveMaximum_case :: packet_case where [case_defs]:
  "TDisconnectReceiveMaximum_case = no_case\<lparr>tcCase := 168,
     tcDesc := lit ''receive maximum mqtt5'',
     tcRawBytes := Some ([push_bit 4 Disconnect, 29,
                     Code ErrReceiveMaximum,
                     27,
                     31, 0, 24] @ Reason ErrReceiveMaximum),
     tcPacket := Some (no_packet\<lparr>pkProtocolVersion := 5,
        pkFixedHeader := no_header\<lparr>fhType := Disconnect,
           fhRemaining := 29\<rparr>,
        pkReasonCode := Code ErrReceiveMaximum,
        pkProperties := no_properties\<lparr>pReasonString := Reason ErrReceiveMaximum\<rparr>\<rparr>)\<rparr>"

lemma TDisconnectReceiveMaximum_case_coded [cases_coded]: "coded Disconnect TDisconnectReceiveMaximum_case"
  by code_simp

definition TDisconnectDropProperties_case :: packet_case where [case_defs]:
  "TDisconnectDropProperties_case = no_case\<lparr>tcCase := 169,
     tcDesc := lit ''drop oversize properties partial'',
     tcGroup := lit ''encode'',
     tcRawBytes := Some [push_bit 4 Disconnect, 39,
                    Code CodeDisconnect,
                    19,
                    28, 0, 7, 109, 111, 99, 104, 105, 45, 50,
                    31, 0, 6, 114, 101, 97, 115, 111, 110,
                    38,
                    0, 5, 104, 101, 108, 108, 111,
                    0, 6, 228, 184, 150, 231, 149, 140],
     tcActualBytes := Some [push_bit 4 Disconnect, 12,
                       Code CodeDisconnect,
                       10,
                       28, 0, 7, 109, 111, 99, 104, 105, 45, 50],
     tcPacket := Some (no_packet\<lparr>pkMods := no_mods\<lparr>mMaxSize := 3\<rparr>,
        pkProtocolVersion := 5,
        pkFixedHeader := no_header\<lparr>fhType := Disconnect,
           fhRemaining := 40\<rparr>,
        pkReasonCode := Code CodeSuccess,
        pkProperties := no_properties\<lparr>pReasonString := lit ''reason'',
           pServerReference := lit ''mochi-2'',
           pUser := [\<lparr>Key = lit ''hello'', Val = [228, 184, 150, 231, 149, 140]\<rparr>]\<rparr>\<rparr>)\<rparr>"

lemma TDisconnectDropProperties_case_coded [cases_coded]: "coded Disconnect TDisconnectDropProperties_case"
  by code_simp

definition TDisconnectMalProperties_case :: packet_case where [case_defs]:
  "TDisconnectMalProperties_case = no_case\<lparr>tcCase := 171,
     tcDesc := lit ''malformed properties'',
     tcGroup := lit ''decode'',
     tcFailFirst := Some ErrMalformedProperties,
     tcRawBytes := Some [push_bit 4 Disconnect, 48,
                    Code CodeDisconnect,
                    46],
     tcPacket := Some (no_packet\<lparr>pkProtocolVersion := 5\<rparr>)\<rparr>"

lemma TDisconnectMalProperties_case_coded [cases_coded]: "coded Disconnect TDisconnectMalProperties_case"
  by code_simp

definition TDisconnectMalReasonCode_case :: packet_case where [case_defs]:
  "TDisconnectMalReasonCode_case = no_case\<lparr>tcCase := 172,
     tcDesc := lit ''malformed reason code'',
     tcGroup := lit ''decode'',
     tcFailFirst := Some ErrMalformedReasonCode,
     tcRawBytes := Some [push_bit 4 Disconnect, 48],
     tcPacket := Some (no_packet\<lparr>pkProtocolVersion := 5\<rparr>)\<rparr>"

lemma TDisconnectMalReasonCode_case_coded [cases_coded]: "coded Disconnect TDisconnectMalReasonCode_case"
  by code_simp

definition Disconnect_cases :: "packet_case list" where
  "Disconnect_cases = [TDisconnect_case,
     TDisconnectTakeover_case,
     TDisconnectShuttingDown_case,
     TDisconnectMqtt5_case,
     TDisconnectMqtt5DisconnectWithWillMessage_case,
     TDisconnectSecondConnect_case,
     TDisconnectZeroNonZeroExpiry_case,
     TDisconnectReceiveMaximum_case,
     TDisconnectDropProperties_case,
     TDisconnectMalProperties_case,
     TDisconnectMalReasonCode_case]"

lemma Disconnect_cases_coded: "list_all (coded Disconnect) Disconnect_cases"
  by (simp only: Disconnect_cases_def list.pred_inject cases_coded simp_thms)

lemma Disconnect_cases_validated: "list_all (validate_test Disconnect) Disconnect_cases"
  by (simp add: Disconnect_cases_def validate_defs case_defs no_case_def no_packet_def no_header_def no_connect_def
      no_properties_def no_subscription_def lit_def)

section \<open>Auth\<close>

definition TAuth_case :: packet_case where [case_defs]:
  "TAuth_case = no_case\<lparr>tcCase := 174,
     tcDesc := lit ''auth'',
     tcPrimary := True,
     tcRawBytes := Some [push_bit 4 Auth, 47,
                    Code CodeSuccess,
                    45,
                    21, 0, 5, 83, 72, 65, 45, 49,
                    22, 0, 9, 97, 117, 116, 104, 45, 100, 97, 116, 97,
                    31, 0, 6, 114, 101, 97, 115, 111, 110,
                    38,
                    0, 5, 104, 101, 108, 108, 111,
                    0, 6, 228, 184, 150, 231, 149, 140],
     tcPacket := Some (no_packet\<lparr>pkProtocolVersion := 5,
        pkFixedHeader := no_header\<lparr>fhType := Auth,
           fhRemaining := 47\<rparr>,
        pkReasonCode := Code CodeSuccess,
        pkProperties := no_properties\<lparr>pAuthenticationMethod := lit ''SHA-1'',
           pAuthenticationData := lit ''auth-data'',
           pReasonString := lit ''reason'',
           pUser := [\<lparr>Key = lit ''hello'', Val = [228, 184, 150, 231, 149, 140]\<rparr>]\<rparr>\<rparr>)\<rparr>"

lemma TAuth_case_coded [cases_coded]: "coded Auth TAuth_case"
  by code_simp

definition TAuthMalReasonCode_case :: packet_case where [case_defs]:
  "TAuthMalReasonCode_case = no_case\<lparr>tcCase := 175,
     tcDesc := lit ''malformed reason code'',
     tcGroup := lit ''decode'',
     tcFailFirst := Some ErrMalformedReasonCode,
     tcRawBytes := Some [push_bit 4 Auth, 47],
     tcPacket := Some (no_packet\<lparr>pkFixedHeader := no_header\<lparr>fhType := Auth\<rparr>,
        pkReasonCode := Code CodeNoMatchingSubscribers\<rparr>)\<rparr>"

lemma TAuthMalReasonCode_case_coded [cases_coded]: "coded Auth TAuthMalReasonCode_case"
  by code_simp

definition TAuthMalProperties_case :: packet_case where [case_defs]:
  "TAuthMalProperties_case = no_case\<lparr>tcCase := 176,
     tcDesc := lit ''malformed properties'',
     tcGroup := lit ''decode'',
     tcFailFirst := Some ErrMalformedProperties,
     tcRawBytes := Some [push_bit 4 Auth, 3,
                    Code CodeSuccess,
                    12],
     tcPacket := Some (no_packet\<lparr>pkProtocolVersion := 5\<rparr>)\<rparr>"

lemma TAuthMalProperties_case_coded [cases_coded]: "coded Auth TAuthMalProperties_case"
  by code_simp

definition TAuthInvalidReason_case :: packet_case where [case_defs]:
  "TAuthInvalidReason_case = no_case\<lparr>tcCase := 177,
     tcDesc := lit ''invalid reason code'',
     tcGroup := lit ''validate'',
     tcExpect := Some ErrProtocolViolationInvalidReason,
     tcPacket := Some (no_packet\<lparr>pkFixedHeader := no_header\<lparr>fhType := Auth\<rparr>,
        pkReasonCode := Code CodeNoMatchingSubscribers\<rparr>)\<rparr>"

lemma TAuthInvalidReason_case_coded [cases_coded]: "coded Auth TAuthInvalidReason_case"
  by (rule only_validated) (simp add: TAuthInvalidReason_case_def)

definition TAuthInvalidReason2_case :: packet_case where [case_defs]:
  "TAuthInvalidReason2_case = no_case\<lparr>tcCase := 178,
     tcDesc := lit ''invalid reason code'',
     tcGroup := lit ''validate'',
     tcExpect := Some ErrProtocolViolationInvalidReason,
     tcPacket := Some (no_packet\<lparr>pkFixedHeader := no_header\<lparr>fhType := Auth\<rparr>,
        pkReasonCode := Code CodeNoMatchingSubscribers\<rparr>)\<rparr>"

lemma TAuthInvalidReason2_case_coded [cases_coded]: "coded Auth TAuthInvalidReason2_case"
  by (rule only_validated) (simp add: TAuthInvalidReason2_case_def)

definition Auth_cases :: "packet_case list" where
  "Auth_cases = [TAuth_case,
     TAuthMalReasonCode_case,
     TAuthMalProperties_case,
     TAuthInvalidReason_case,
     TAuthInvalidReason2_case]"

lemma Auth_cases_coded: "list_all (coded Auth) Auth_cases"
  by (simp only: Auth_cases_def list.pred_inject cases_coded simp_thms)

lemma Auth_cases_validated: "list_all (validate_test Auth) Auth_cases"
  by (simp add: Auth_cases_def validate_defs case_defs no_case_def no_packet_def no_header_def no_connect_def
      no_properties_def no_subscription_def lit_def)

end
