(* ===== verification/Mqtt_CaseTable.thy ===== *)
theory Mqtt_CaseTable
  imports Mqtt_CasesConnect Mqtt_CasesConnack Mqtt_CasesPublish Mqtt_CasesAcks Mqtt_CasesSubscribe Mqtt_CasesOther
begin

text \<open>
  The table of all test cases, and that the model of the codecs passes the tests of the repository.
\<close>

definition TPacketData :: "(byte, packet_case list) gomap" where
  "TPacketData =
     [(Connect, Connect_cases), (Connack, Connack_cases), (Publish, Publish_cases), (Puback, Puback_cases),
      (Pubrec, Pubrec_cases), (Pubrel, Pubrel_cases), (Pubcomp, Pubcomp_cases), (Subscribe, Subscribe_cases),
      (Suback, Suback_cases), (Unsubscribe, Unsubscribe_cases), (Unsuback, Unsuback_cases),
      (Pingreq, Pingreq_cases), (Pingresp, Pingresp_cases), (Disconnect, Disconnect_cases), (Auth, Auth_cases)]"

lemma tests_of_all_types: "map fst TPacketData = packetList"
  by (simp only: TPacketData_def packetList_def list.map fst_conv)

lemmas tables_conform =
  conforms_list [OF Connect_cases_coded Connect_cases_validated]
  conforms_list [OF Connack_cases_coded Connack_cases_validated]
  conforms_list [OF Publish_cases_coded Publish_cases_validated]
  conforms_list [OF Puback_cases_coded Puback_cases_validated]
  conforms_list [OF Pubrec_cases_coded Pubrec_cases_validated]
  conforms_list [OF Pubrel_cases_coded Pubrel_cases_validated]
  conforms_list [OF Pubcomp_cases_coded Pubcomp_cases_validated]
  conforms_list [OF Subscribe_cases_coded Subscribe_cases_validated]
  conforms_list [OF Suback_cases_coded Suback_cases_validated]
  conforms_list [OF Unsubscribe_cases_coded Unsubscribe_cases_validated]
  conforms_list [OF Unsuback_cases_coded Unsuback_cases_validated]
  conforms_list [OF Pingreq_cases_coded Pingreq_cases_validated]
  conforms_list [OF Pingresp_cases_coded Pingresp_cases_validated]
  conforms_list [OF Disconnect_cases_coded Disconnect_cases_validated]
  conforms_list [OF Auth_cases_coded Auth_cases_validated]

lemma all_cases_conform: "list_all (\<lambda>(pkt, cases). list_all (conforms pkt) cases) TPacketData"
  by (simp only: TPacketData_def list.pred_inject case_prod_conv tables_conform simp_thms)

end
