(* ===== verification/Mqtt_Listeners.thy ===== *)
theory Mqtt_Listeners
  imports Mqtt_TLS
begin

text \<open>
  The listeners of \<open>listeners/*.go\<close> and their table, \<open>listeners/listeners.go\<close>.  The network of the
  operating system is a parameter over a world \<open>'w\<close>: opening, closing and removing sockets and
  shutting down HTTP servers.  What a listener establishes and closes is the client of this theory.
\<close>

section \<open>The network\<close>

text \<open>\<open>nwListen\<close> is \<open>net.Listen\<close> and \<open>tls.Listen\<close>; an open socket is its address.\<close>

record ('c, 'w) network =
  nwListen :: "gostring \<Rightarrow> gostring \<Rightarrow> 'c tls_config option \<Rightarrow> 'w \<Rightarrow> (error + gostring) \<times> 'w"
  nwListenQUIC :: "gostring \<Rightarrow> 'c tls_config \<Rightarrow> 'w \<Rightarrow> (error + gostring) \<times> 'w"
  nwClose :: "gostring \<Rightarrow> 'w \<Rightarrow> 'w"
  nwRemove :: "gostring \<Rightarrow> 'w \<Rightarrow> 'w"
  nwShutdown :: "gostring \<Rightarrow> 'w \<Rightarrow> 'w"

section \<open>Listeners\<close>

record 'c listener_config =
  lcType :: gostring
  lcID :: gostring
  lcAddress :: gostring
  lcTLSConfig :: "'c tls_config option"

text \<open>The types that implement the interface; a \<open>Net\<close> has the network of the socket it was given.\<close>

datatype listener_kind = TCP | UnixSock | Websocket | HTTPHealthCheck | HTTPStats | QUIC | Net gostring | MockListener

text \<open>
  The fields that the types share, and the three of the mock.  \<open>lsListen\<close> is the socket, or the
  address of the HTTP server; \<open>None\<close> is nil.  \<open>lsDone\<close> is the closed channel of the mock, and
  \<open>lsServing\<close> says that \<open>Serve\<close> was started.
\<close>

record 'c listener =
  lsKind :: listener_kind
  lsID :: gostring
  lsAddress :: gostring
  lsConfig :: "'c listener_config"
  lsListen :: "gostring option"
  lsEnd :: bool
  lsServing :: bool
  lsListening :: bool
  lsErrListen :: bool
  lsDone :: bool

definition TypeTCP :: gostring where "TypeTCP = lit ''tcp''"
definition TypeWS :: gostring where "TypeWS = lit ''ws''"
definition TypeUnix :: gostring where "TypeUnix = lit ''unix''"
definition TypeHealthCheck :: gostring where "TypeHealthCheck = lit ''healthcheck''"
definition TypeSysInfo :: gostring where "TypeSysInfo = lit ''sysinfo''"
definition TypeMock :: gostring where "TypeMock = lit ''mock''"

definition ErrMissingTLSConfig :: error where
  "ErrMissingTLSConfig = ENew (lit ''quic listener requires TLS config'')"

definition new_listener :: "listener_kind \<Rightarrow> 'c listener_config \<Rightarrow> 'c listener" where
  "new_listener k config =
     \<lparr>lsKind = k, lsID = lcID config, lsAddress = lcAddress config, lsConfig = config, lsListen = None, lsEnd = False,
      lsServing = False, lsListening = False, lsErrListen = False, lsDone = False\<rparr>"

definition NewTCP :: "'c listener_config \<Rightarrow> 'c listener" where "NewTCP config = new_listener TCP config"
definition NewUnixSock :: "'c listener_config \<Rightarrow> 'c listener" where "NewUnixSock config = new_listener UnixSock config"
definition NewWebsocket :: "'c listener_config \<Rightarrow> 'c listener" where "NewWebsocket config = new_listener Websocket config"
definition NewHTTPHealthCheck :: "'c listener_config \<Rightarrow> 'c listener" where
  "NewHTTPHealthCheck config = new_listener HTTPHealthCheck config"
definition NewHTTPStats :: "'c listener_config \<Rightarrow> 'c listener" where "NewHTTPStats config = new_listener HTTPStats config"
definition NewQUIC :: "'c listener_config \<Rightarrow> 'c listener" where "NewQUIC config = new_listener QUIC config"

definition no_listener_config :: "'c listener_config" where
  "no_listener_config = \<lparr>lcType = [], lcID = [], lcAddress = [], lcTLSConfig = None\<rparr>"

definition NewMockListener :: "gostring \<Rightarrow> gostring \<Rightarrow> 'c listener" where
  "NewMockListener i address = (new_listener MockListener no_listener_config)\<lparr>lsID := i, lsAddress := address\<rparr>"

text \<open>\<open>NewNet\<close> is given an open socket of a network.\<close>

definition NewNet :: "gostring \<Rightarrow> gostring \<Rightarrow> gostring \<Rightarrow> 'c listener" where
  "NewNet i network addr = (new_listener (Net network) no_listener_config)\<lparr>lsID := i, lsListen := Some addr\<rparr>"

definition TCP_Address :: "'c listener \<Rightarrow> gostring" where
  "TCP_Address l = (case lsListen l of Some addr \<Rightarrow> addr | None \<Rightarrow> lsAddress l)"

text \<open>A given socket has no address of its own: \<open>Address\<close> is that of the socket.\<close>

definition Net_Address :: "'c listener \<Rightarrow> gostring" where
  "Net_Address l = (case lsListen l of Some addr \<Rightarrow> addr | None \<Rightarrow> lsAddress l)"

definition Listener_Address :: "'c listener \<Rightarrow> gostring" where
  "Listener_Address l =
    (case lsKind l of TCP \<Rightarrow> TCP_Address l | Net _ \<Rightarrow> Net_Address l | _ \<Rightarrow> lsAddress l)"

definition Websocket_Protocol :: "'c listener \<Rightarrow> gostring" where
  "Websocket_Protocol l = (if lcTLSConfig (lsConfig l) \<noteq> None then lit ''wss'' else lit ''ws'')"

definition HTTPHealthCheck_Protocol :: "'c listener \<Rightarrow> gostring" where
  "HTTPHealthCheck_Protocol l =
    (if lsListen l \<noteq> None \<and> lcTLSConfig (lsConfig l) \<noteq> None then lit ''https'' else lit ''http'')"

definition HTTPStats_Protocol :: "'c listener \<Rightarrow> gostring" where
  "HTTPStats_Protocol l =
    (if lsListen l \<noteq> None \<and> lcTLSConfig (lsConfig l) \<noteq> None then lit ''https'' else lit ''http'')"

definition Listener_Protocol :: "'c listener \<Rightarrow> gostring" where
  "Listener_Protocol l =
    (case lsKind l of
       TCP \<Rightarrow> lit ''tcp''
     | UnixSock \<Rightarrow> lit ''unix''
     | Websocket \<Rightarrow> Websocket_Protocol l
     | HTTPHealthCheck \<Rightarrow> HTTPHealthCheck_Protocol l
     | HTTPStats \<Rightarrow> HTTPStats_Protocol l
     | QUIC \<Rightarrow> lit ''quic''
     | Net network \<Rightarrow> network
     | MockListener \<Rightarrow> lit ''mock'')"

section \<open>Init\<close>

definition opened :: "'c listener \<Rightarrow> (error + gostring) \<times> 'w \<Rightarrow> error option \<times> 'c listener \<times> 'w" where
  "opened l r =
    (case r of
       (Inl err, w) \<Rightarrow> (Some err, l\<lparr>lsListen := None\<rparr>, w)
     | (Inr addr, w) \<Rightarrow> (None, l\<lparr>lsListen := Some addr\<rparr>, w))"

definition TCP_Init :: "('c, 'w) network \<Rightarrow> 'c listener \<Rightarrow> 'w \<Rightarrow> error option \<times> 'c listener \<times> 'w" where
  "TCP_Init nw l w =
    opened l (nwListen nw (lit ''tcp'') (lsAddress l) (lcTLSConfig (lsConfig l)) w)"

definition UnixSock_Init :: "('c, 'w) network \<Rightarrow> 'c listener \<Rightarrow> 'w \<Rightarrow> error option \<times> 'c listener \<times> 'w" where
  "UnixSock_Init nw l w =
    opened l (nwListen nw (lit ''unix'') (lsAddress l) None (nwRemove nw (lsAddress l) w))"

text \<open>The HTTP servers are only made; they open their socket in \<open>Serve\<close>.\<close>

definition Websocket_Init :: "'c listener \<Rightarrow> 'w \<Rightarrow> error option \<times> 'c listener \<times> 'w" where
  "Websocket_Init l w =
    (None, l\<lparr>lsListen := Some (lsAddress l)\<rparr>, w)"

definition HTTPHealthCheck_Init :: "'c listener \<Rightarrow> 'w \<Rightarrow> error option \<times> 'c listener \<times> 'w" where
  "HTTPHealthCheck_Init l w =
    (None, l\<lparr>lsListen := Some (lsAddress l)\<rparr>, w)"

definition HTTPStats_Init :: "'c listener \<Rightarrow> 'w \<Rightarrow> error option \<times> 'c listener \<times> 'w" where
  "HTTPStats_Init l w =
    (None, l\<lparr>lsListen := Some (lsAddress l)\<rparr>, w)"

definition QUIC_Init :: "('c, 'w) network \<Rightarrow> 'c listener \<Rightarrow> 'w \<Rightarrow> error option \<times> 'c listener \<times> 'w" where
  "QUIC_Init nw l w =
    (case lcTLSConfig (lsConfig l) of
       None \<Rightarrow> (Some ErrMissingTLSConfig, l, w)
     | Some tls \<Rightarrow>
         (case nwListenQUIC nw (lsAddress l) tls w of
            (Inl err, w) \<Rightarrow> (Some err, l, w)
          | (Inr addr, w) \<Rightarrow> (None, l\<lparr>lsListen := Some addr\<rparr>, w)))"

definition MockListener_Init :: "'c listener \<Rightarrow> 'w \<Rightarrow> error option \<times> 'c listener \<times> 'w" where
  "MockListener_Init l w =
    (if lsErrListen l then (Some (ENew (lit ''listen failure'')), l, w) else (None, l\<lparr>lsListening := True\<rparr>, w))"

definition Listener_Init :: "('c, 'w) network \<Rightarrow> 'c listener \<Rightarrow> 'w \<Rightarrow> error option \<times> 'c listener \<times> 'w" where
  "Listener_Init nw l w =
    (case lsKind l of
       TCP \<Rightarrow> TCP_Init nw l w
     | UnixSock \<Rightarrow> UnixSock_Init nw l w
     | Websocket \<Rightarrow> Websocket_Init l w
     | HTTPHealthCheck \<Rightarrow> HTTPHealthCheck_Init l w
     | HTTPStats \<Rightarrow> HTTPStats_Init l w
     | QUIC \<Rightarrow> QUIC_Init nw l w
     | Net _ \<Rightarrow> (None, l, w)
     | MockListener \<Rightarrow> MockListener_Init l w)"

lemmas Init_defs = Listener_Init_def TCP_Init_def UnixSock_Init_def Websocket_Init_def HTTPHealthCheck_Init_def
  HTTPStats_Init_def QUIC_Init_def MockListener_Init_def

section \<open>Serve\<close>

text \<open>
  A turn of the loop of \<open>Serve\<close> of TCP, Unix and given sockets: \<open>l\<close> is the listener before and \<open>l'\<close>
  the listener after the wait for a connection.  The result is \<open>None\<close> when the loop ends, else the
  connection that is established.
\<close>

definition Serve_turn :: "'c listener \<Rightarrow> error + 'conn \<Rightarrow> 'c listener \<Rightarrow> 'conn option option" where
  "Serve_turn l accepted l' =
    (if lsEnd l then None
     else case accepted of
       Inl _ \<Rightarrow> None
     | Inr conn \<Rightarrow> Some (if \<not> lsEnd l' then Some conn else None))"

text \<open>
  A turn of the QUIC listener: the connection, and its first stream, which the goroutine waits for.
\<close>

definition QUIC_turn :: "error + 'conn \<Rightarrow> ('conn \<Rightarrow> error + 'stream) \<Rightarrow> ('conn \<times> 'stream) option option" where
  "QUIC_turn accepted acceptStream =
    (case accepted of
       Inl _ \<Rightarrow> None
     | Inr conn \<Rightarrow> Some (case acceptStream conn of Inl _ \<Rightarrow> None | Inr stream \<Rightarrow> Some (conn, stream)))"

section \<open>Close\<close>

text \<open>The callback \<open>closeClients\<close> works on a state of its own.\<close>

definition close_socket :: "('c, 'w) network \<Rightarrow> 'c listener \<Rightarrow> 'w \<Rightarrow> 'w" where
  "close_socket nw l w = (case lsListen l of Some addr \<Rightarrow> nwClose nw addr w | None \<Rightarrow> w)"

definition TCP_Close :: 
    "('c, 'w) network \<Rightarrow> (gostring \<Rightarrow> 's \<Rightarrow> 's) \<Rightarrow> 'c listener \<Rightarrow> 'w \<times> 's \<Rightarrow> error + ('c listener \<times> 'w \<times> 's)" where
  "TCP_Close nw closeClients l ws =
    Inr (l\<lparr>lsEnd := True\<rparr>, close_socket nw l (fst ws), if \<not> lsEnd l then closeClients (lsID l) (snd ws) else snd ws)"

definition UnixSock_Close :: 
    "('c, 'w) network \<Rightarrow> (gostring \<Rightarrow> 's \<Rightarrow> 's) \<Rightarrow> 'c listener \<Rightarrow> 'w \<times> 's \<Rightarrow> error + ('c listener \<times> 'w \<times> 's)" where
  "UnixSock_Close nw closeClients l ws =
    Inr (l\<lparr>lsEnd := True\<rparr>, close_socket nw l (fst ws), if \<not> lsEnd l then closeClients (lsID l) (snd ws) else snd ws)"

definition Net_Close :: 
    "('c, 'w) network \<Rightarrow> (gostring \<Rightarrow> 's \<Rightarrow> 's) \<Rightarrow> 'c listener \<Rightarrow> 'w \<times> 's \<Rightarrow> error + ('c listener \<times> 'w \<times> 's)" where
  "Net_Close nw closeClients l ws =
    Inr (l\<lparr>lsEnd := True\<rparr>, close_socket nw l (fst ws), if \<not> lsEnd l then closeClients (lsID l) (snd ws) else snd ws)"

text \<open>\<open>Shutdown\<close> of a server that is nil panics.\<close>

definition Websocket_Close :: 
    "('c, 'w) network \<Rightarrow> (gostring \<Rightarrow> 's \<Rightarrow> 's) \<Rightarrow> 'c listener \<Rightarrow> 'w \<times> 's \<Rightarrow> error + ('c listener \<times> 'w \<times> 's)" where
  "Websocket_Close nw closeClients l ws =
    (if lsEnd l then Inr (l, fst ws, closeClients (lsID l) (snd ws))
     else case lsListen l of
       Some addr \<Rightarrow> Inr (l\<lparr>lsEnd := True\<rparr>, nwShutdown nw addr (fst ws), closeClients (lsID l) (snd ws))
     | None \<Rightarrow> Inl EPanic)"

definition HTTPHealthCheck_Close :: 
    "('c, 'w) network \<Rightarrow> (gostring \<Rightarrow> 's \<Rightarrow> 's) \<Rightarrow> 'c listener \<Rightarrow> 'w \<times> 's \<Rightarrow> error + ('c listener \<times> 'w \<times> 's)" where
  "HTTPHealthCheck_Close nw closeClients l ws =
    (if lsEnd l then Inr (l, fst ws, closeClients (lsID l) (snd ws))
     else case lsListen l of
       Some addr \<Rightarrow> Inr (l\<lparr>lsEnd := True\<rparr>, nwShutdown nw addr (fst ws), closeClients (lsID l) (snd ws))
     | None \<Rightarrow> Inl EPanic)"

definition HTTPStats_Close :: 
    "('c, 'w) network \<Rightarrow> (gostring \<Rightarrow> 's \<Rightarrow> 's) \<Rightarrow> 'c listener \<Rightarrow> 'w \<times> 's \<Rightarrow> error + ('c listener \<times> 'w \<times> 's)" where
  "HTTPStats_Close nw closeClients l ws =
    (if lsEnd l then Inr (l, fst ws, closeClients (lsID l) (snd ws))
     else case lsListen l of
       Some addr \<Rightarrow> Inr (l\<lparr>lsEnd := True\<rparr>, nwShutdown nw addr (fst ws), closeClients (lsID l) (snd ws))
     | None \<Rightarrow> Inl EPanic)"

definition QUIC_Close :: 
    "('c, 'w) network \<Rightarrow> (gostring \<Rightarrow> 's \<Rightarrow> 's) \<Rightarrow> 'c listener \<Rightarrow> 'w \<times> 's \<Rightarrow> error + ('c listener \<times> 'w \<times> 's)" where
  "QUIC_Close nw closeClients l ws =
    Inr (l, close_socket nw l (fst ws), closeClients (lsID l) (snd ws))"

definition MockListener_Close :: 
    "(gostring \<Rightarrow> 's \<Rightarrow> 's) \<Rightarrow> 'c listener \<Rightarrow> 'w \<times> 's \<Rightarrow> error + ('c listener \<times> 'w \<times> 's)" where
  "MockListener_Close closeClients l ws =
    (if lsDone l then Inl EPanic
     else Inr (l\<lparr>lsServing := False, lsDone := True\<rparr>, fst ws, closeClients (lsID l) (snd ws)))"

definition Listener_Close :: 
    "('c, 'w) network \<Rightarrow> (gostring \<Rightarrow> 's \<Rightarrow> 's) \<Rightarrow> 'c listener \<Rightarrow> 'w \<times> 's \<Rightarrow> error + ('c listener \<times> 'w \<times> 's)" where
  "Listener_Close nw closeClients l ws =
    (case lsKind l of
       TCP \<Rightarrow> TCP_Close nw closeClients l ws
     | UnixSock \<Rightarrow> UnixSock_Close nw closeClients l ws
     | Net _ \<Rightarrow> Net_Close nw closeClients l ws
     | Websocket \<Rightarrow> Websocket_Close nw closeClients l ws
     | HTTPHealthCheck \<Rightarrow> HTTPHealthCheck_Close nw closeClients l ws
     | HTTPStats \<Rightarrow> HTTPStats_Close nw closeClients l ws
     | QUIC \<Rightarrow> QUIC_Close nw closeClients l ws
     | MockListener \<Rightarrow> MockListener_Close closeClients l ws)"

lemmas Close_defs = Listener_Close_def TCP_Close_def UnixSock_Close_def Net_Close_def Websocket_Close_def
  HTTPHealthCheck_Close_def HTTPStats_Close_def QUIC_Close_def MockListener_Close_def

section \<open>The table\<close>

type_synonym 'c listeners = "(gostring, 'c listener) gomap"

definition Listeners_New :: "'c listeners" where "Listeners_New = []"
definition Listeners_Add :: "'c listener \<Rightarrow> 'c listeners \<Rightarrow> 'c listeners" where "Listeners_Add val t = m_set (lsID val) val t"
definition Listeners_Get :: "gostring \<Rightarrow> 'c listeners \<Rightarrow> 'c listener option" where "Listeners_Get i t = m_get t i"
definition Listeners_Len :: "'c listeners \<Rightarrow> nat" where "Listeners_Len t = length t"
definition Listeners_Delete :: "gostring \<Rightarrow> 'c listeners \<Rightarrow> 'c listeners" where "Listeners_Delete i t = m_del i t"

lemmas Listeners_defs [go_defs] = Listeners_New_def Listeners_Add_def Listeners_Get_def Listeners_Len_def Listeners_Delete_def

interpretation listener_store: counted_store map_ok lsID id "\<lambda>t i. Listeners_Get i t" Listeners_Add Listeners_Delete Listeners_Len
  by unfold_locales (auto simp: Listeners_defs length_set length_del)

text \<open>\<open>Serve\<close> starts the goroutine of a listener; a nil listener panics in it.\<close>

definition Listeners_Serve :: "gostring \<Rightarrow> 'c listeners \<Rightarrow> error + 'c listeners" where
  "Listeners_Serve i t =
    (case m_get t i of
       None \<Rightarrow> Inl EPanic
     | Some l \<Rightarrow> Inr (m_set i (l\<lparr>lsServing := True\<rparr>) t))"

text \<open>Both loops go through the identifiers in the order \<open>ids\<close>, which is any order of the map.\<close>

fun ServeAll :: "gostring list \<Rightarrow> 'c listeners \<Rightarrow> error + 'c listeners" where
  "ServeAll [] t = Inr t"
| "ServeAll (i # ids) t = (case Listeners_Serve i t of Inl err \<Rightarrow> Inl err | Inr t \<Rightarrow> ServeAll ids t)"

definition Listeners_Close ::
    "('c, 'w) network \<Rightarrow> (gostring \<Rightarrow> 's \<Rightarrow> 's) \<Rightarrow> gostring \<Rightarrow> 'c listeners \<times> 'w \<times> 's \<Rightarrow> error + ('c listeners \<times> 'w \<times> 's)" where
  "Listeners_Close nw closer i tws =
    (case m_get (fst tws) i of
       None \<Rightarrow> Inr tws
     | Some l \<Rightarrow>
         (case Listener_Close nw closer l (snd tws) of
            Inl err \<Rightarrow> Inl err
          | Inr (l, ws) \<Rightarrow> Inr (m_set i l (fst tws), ws)))"

fun CloseAll ::
    "('c, 'w) network \<Rightarrow> (gostring \<Rightarrow> 's \<Rightarrow> 's) \<Rightarrow> gostring list \<Rightarrow> 'c listeners \<times> 'w \<times> 's \<Rightarrow> error + ('c listeners \<times> 'w \<times> 's)" where
  "CloseAll nw closer [] tws = Inr tws"
| "CloseAll nw closer (i # ids) tws =
    (case Listeners_Close nw closer i tws of Inl err \<Rightarrow> Inl err | Inr tws \<Rightarrow> CloseAll nw closer ids tws)"

end
