(* ===== verification/Mqtt_Network.thy ===== *)
theory Mqtt_Network
  imports Mqtt_Listeners Mqtt_ServerRun
begin

text \<open>
  The server with its listeners: \<open>AddListener\<close>, \<open>AddListenersFromConfig\<close>, \<open>Serve\<close> and \<open>Close\<close> of
  \<open>server.go\<close> over the table of listeners, the network and the server, and what a shutdown leaves.
\<close>

section \<open>Adding listeners\<close>

definition ErrListenerIDExists :: error where
  "ErrListenerIDExists = ENew (lit ''listener id already exists'')"

definition AddListener ::
    "('c, 'w) network \<Rightarrow> 'c listener \<Rightarrow> 'c listeners \<times> 'w \<Rightarrow> error option \<times> ('c listeners \<times> 'w)" where
  "AddListener nw l tw =
    (case tw of (t, w) \<Rightarrow>
      (case Listeners_Get (lsID l) t of
         Some _ \<Rightarrow> (Some ErrListenerIDExists, (t, w))
       | None \<Rightarrow>
           (case Listener_Init nw l w of
              (Some err, _, w) \<Rightarrow> (Some err, (t, w))
            | (None, l, w) \<Rightarrow> (None, (Listeners_Add l t, w)))))"

text \<open>The listener of a configuration; a type that is not known is only logged.\<close>

definition listener_of :: "unicode \<Rightarrow> 'c listener_config \<Rightarrow> 'c listener option" where
  "listener_of u conf =
    (let type = ToLower u (lcType conf)
     in if type = TypeTCP then Some (NewTCP conf)
        else if type = TypeWS then Some (NewWebsocket conf)
        else if type = TypeUnix then Some (NewUnixSock conf)
        else if type = TypeHealthCheck then Some (NewHTTPHealthCheck conf)
        else if type = TypeSysInfo then Some (NewHTTPStats conf)
        else if type = TypeMock then Some (NewMockListener (lcID conf) (lcAddress conf))
        else None)"

fun AddListenersFromConfig ::
    "unicode \<Rightarrow> ('c, 'w) network \<Rightarrow> 'c listener_config list \<Rightarrow> 'c listeners \<times> 'w \<Rightarrow> error option \<times> ('c listeners \<times> 'w)" where
  "AddListenersFromConfig u nw [] tw = (None, tw)"
| "AddListenersFromConfig u nw (conf # configs) tw =
    (case listener_of u conf of
       None \<Rightarrow> AddListenersFromConfig u nw configs tw
     | Some l \<Rightarrow>
         (case AddListener nw l tw of
            (Some err, tw) \<Rightarrow> (Some err, tw)
          | (None, tw) \<Rightarrow> AddListenersFromConfig u nw configs tw))"

section \<open>Starting and stopping\<close>

text \<open>
  \<open>Serve\<close> with the listeners of the configuration.  The system topics are published after the
  listeners were started; a listener that was started changes nothing of the server by itself.
\<close>

definition Network_Serve ::
    "unicode \<Rightarrow> ('c, 'w) network \<Rightarrow> 'c listener_config list \<Rightarrow> gostring list \<Rightarrow> int \<Rightarrow> int \<Rightarrow> int
      \<Rightarrow> ('s hook \<times> ('s \<Rightarrow> 's) \<times> ('s \<Rightarrow> 's \<times> error option)) list
      \<Rightarrow> 'c listeners \<times> 'w \<times> 's server \<Rightarrow> error option \<times> ('c listeners \<times> 'w \<times> 's server)" where
  "Network_Serve u nw configs ids mem threads now hookConfigs tws =
    (case tws of (t, w, sv) \<Rightarrow>
      (case AddListenersFromConfig u nw configs (t, w) of
         (Some err, (t, w)) \<Rightarrow> (Some err, (t, w, sv))
       | (None, (t, w)) \<Rightarrow>
           (case Serve mem threads now hookConfigs sv of
              (Some err, sv) \<Rightarrow> (Some err, (t, w, sv))
            | (None, sv) \<Rightarrow>
                (case ServeAll ids t of
                   Inl err \<Rightarrow> (Some err, (t, w, sv))
                 | Inr t \<Rightarrow> (None, (t, w, sv))))))"

text \<open>\<open>Close\<close>, where \<open>ids\<close> is the order in which the map gives the listeners.\<close>

definition Network_Close ::
    "('c, 'w) network \<Rightarrow> int \<Rightarrow> gostring list \<Rightarrow> 'c listeners \<times> 'w \<times> 's server \<Rightarrow> error option \<times> ('c listeners \<times> 'w \<times> 's server)" where
  "Network_Close nw now ids tws =
    (case tws of (t, w, sv) \<Rightarrow>
      (if svDone sv then (Some EPanic, tws)
       else
         (case CloseAll nw (closeListenerClients now) ids (t, w, sv\<lparr>svDone := True\<rparr>) of
            Inl err \<Rightarrow> (Some err, (t, w, sv\<lparr>svDone := True\<rparr>))
          | Inr (t, w, sv) \<Rightarrow> (None, (t, w, notify Hooks_Stop (notify Hooks_OnStopped sv))))))"

section \<open>The table of a running server\<close>

text \<open>A listener that was made and not yet closed, and one that can be closed.\<close>

definition never_closed :: "'c listener \<Rightarrow> bool" where
  "never_closed l \<longleftrightarrow> \<not> lsEnd l \<and> \<not> lsDone l"

definition running :: "'c listener \<Rightarrow> bool" where
  "running l \<longleftrightarrow> never_closed l \<and> (lsKind l \<in> {Websocket, HTTPHealthCheck, HTTPStats} \<longrightarrow> lsListen l \<noteq> None)"

definition listeners_ok :: "'c listeners \<Rightarrow> bool" where
  "listeners_ok t \<longleftrightarrow> map_ok t \<and> (\<forall>i l. m_get t i = Some l \<longrightarrow> lsID l = i \<and> running l)"

lemma never_closed_new [simp]: "never_closed (new_listener k c)"
  by (simp add: never_closed_def new_listener_def)

lemma never_closed_listener_of: "listener_of u conf = Some l \<Longrightarrow> never_closed l"
  by (auto simp: listener_of_def Let_def NewTCP_def NewWebsocket_def NewUnixSock_def NewHTTPHealthCheck_def NewHTTPStats_def
      NewMockListener_def never_closed_def new_listener_def split: if_splits)

lemma Init_running: "Listener_Init nw l w = (None, l', w') \<Longrightarrow> never_closed l \<Longrightarrow> running l' \<and> lsID l' = lsID l"
  by (auto simp: Init_defs opened_def Let_def running_def never_closed_def
      split: listener_kind.splits prod.splits sum.splits option.splits if_splits)

lemma listeners_ok_New [simp]: "listeners_ok Listeners_New"
  by (simp add: listeners_ok_def Listeners_New_def)

lemma AddListener_ok: "listeners_ok t \<Longrightarrow> never_closed l \<Longrightarrow> listeners_ok (fst (snd (AddListener nw l (t, w))))"
proof -
  assume ok: "listeners_ok t" and f: "never_closed l"
  obtain e l' w' where i: "Listener_Init nw l w = (e, l', w')" by (metis prod_cases3)
  show ?thesis
    using ok Init_running [of nw l w l' w'] f i
    by (auto simp: AddListener_def listeners_ok_def Listeners_defs split: option.splits)
qed

lemma AddListenersFromConfig_ok:
  "listeners_ok (fst tw) \<Longrightarrow> listeners_ok (fst (snd (AddListenersFromConfig u nw configs tw)))"
proof (induction u nw configs tw rule: AddListenersFromConfig.induct)
  case (2 u nw conf configs tw)
  show ?case
  proof (cases "listener_of u conf")
    case (Some l)
    obtain e t' w' where a: "AddListener nw l tw = (e, t', w')" by (metis prod_cases3)
    have "listeners_ok t'"
      using AddListener_ok [OF 2(3) never_closed_listener_of [OF Some], of nw "snd tw"] a by simp
    then show ?thesis using 2(2) [OF Some a [symmetric]] Some a by (cases e) (simp_all, blast?)
  qed (use 2 in simp)
qed simp

text \<open>What a listener is added under, and what a refused one leaves.\<close>

lemma AddListener_result:
  "AddListener nw l (t, w) = (None, (t', w')) \<Longrightarrow>
     m_get t (lsID l) = None \<and> (\<exists>l'. Listener_Init nw l w = (None, l', w') \<and> t' = Listeners_Add l' t)"
  "AddListener nw l (t, w) = (Some err, (t', w')) \<Longrightarrow> t' = t"
  "m_get t (lsID l) \<noteq> None \<Longrightarrow> AddListener nw l (t, w) = (Some ErrListenerIDExists, (t, w))"
  by (auto simp: AddListener_def Listeners_Get_def split: option.splits prod.splits)

lemma ServeAll_ok:
  "listeners_ok t \<Longrightarrow> set ids \<subseteq> dom (m_get t) \<Longrightarrow> \<exists>t'. ServeAll ids t = Inr t' \<and> listeners_ok t' \<and> dom (m_get t') = dom (m_get t)"
proof (induction ids arbitrary: t)
  case (Cons i ids)
  then obtain l where l: "m_get t i = Some l" by auto
  let ?t = "m_set i (l\<lparr>lsServing := True\<rparr>) t"
  have "listeners_ok ?t" "dom (m_get ?t) = dom (m_get t)"
    using Cons.prems(1) l by (auto simp: listeners_ok_def running_def never_closed_def split: if_splits)
  then show ?case using Cons.IH [of ?t] Cons.prems(2) l by (auto simp: Listeners_Serve_def)
qed simp

lemma ServeAll_keeps: "ServeAll ids t = Inr t' \<Longrightarrow> listeners_ok t \<Longrightarrow> listeners_ok t'"
proof (induction ids arbitrary: t)
  case (Cons i ids)
  then obtain l where l: "m_get t i = Some l" by (auto simp: Listeners_Serve_def split: option.splits)
  then have "listeners_ok (m_set i (l\<lparr>lsServing := True\<rparr>) t)"
    using Cons.prems(2) by (auto simp: listeners_ok_def running_def never_closed_def split: if_splits)
  then show ?case using Cons.IH Cons.prems(1) l by (auto simp: Listeners_Serve_def)
qed simp

text \<open>The table of a server that was started from its configuration.\<close>

lemma Network_Serve_ok:
  assumes "Network_Serve u nw configs ids mem threads now hookConfigs (Listeners_New, w0, sv0) = (None, (t, w, sv))"
  shows "listeners_ok t"
proof -
  obtain t1 where "AddListenersFromConfig u nw configs (Listeners_New, w0) = (None, (t1, w))" "ServeAll ids t1 = Inr t"
    using assms by (auto simp: Network_Serve_def split: prod.splits option.splits sum.splits)
  then show ?thesis using AddListenersFromConfig_ok [of "(Listeners_New, w0)" u nw configs] ServeAll_keeps by simp
qed

section \<open>Closing\<close>

lemma Close_running:
  "running l \<Longrightarrow> \<exists>l' w'. Listener_Close nw closer l (w, s) = Inr (l', w', closer (lsID l) s)"
  by (auto simp: Close_defs running_def never_closed_def Let_def split: listener_kind.splits option.splits)

text \<open>Every listener of the table closes its clients, once.\<close>

lemma CloseAll_running:
  "distinct ids \<Longrightarrow> \<forall>i \<in> set ids. \<exists>l. m_get t i = Some l \<and> lsID l = i \<and> running l \<Longrightarrow>
     \<exists>t' w'. CloseAll nw closer ids (t, w, s) = Inr (t', w', fold closer ids s)"
proof (induction ids arbitrary: t w s)
  case (Cons i ids)
  then obtain l where l: "m_get t i = Some l" "lsID l = i" "running l" by auto
  obtain l' w' where c: "Listener_Close nw closer l (w, s) = Inr (l', w', closer i s)"
    using Close_running [OF l(3)] l(2) by metis
  have "\<forall>j \<in> set ids. \<exists>l. m_get (m_set i l' t) j = Some l \<and> lsID l = j \<and> running l"
    using Cons.prems by auto
  then show ?case using Cons.IH [of "m_set i l' t"] Cons.prems(1) l(1) c by (simp add: Listeners_Close_def)
qed simp

lemma Network_Close_is_Close:
  assumes "listeners_ok t" "distinct ids" "set ids = dom (m_get t)"
  shows "\<exists>t' w'. Network_Close nw now ids (t, w, sv) =
    (if svDone sv then (Some EPanic, (t, w, sv)) else (None, (t', w', snd (Close now ids sv))))"
proof -
  have "\<forall>i \<in> set ids. \<exists>l. m_get t i = Some l \<and> lsID l = i \<and> running l"
    using assms(1,3) by (auto simp: listeners_ok_def)
  from CloseAll_running [OF assms(2) this, of nw "closeListenerClients now" w "sv\<lparr>svDone := True\<rparr>"]
  show ?thesis by (auto simp: Network_Close_def Close_def)
qed

section \<open>The clients of a closed listener\<close>

text \<open>What no operation of the server changes of a client: its listener, and that it was closed.\<close>

definition stays_attached :: "client \<Rightarrow> client \<Rightarrow> bool" where
  "stays_attached cl cl' \<longleftrightarrow> clID cl' = clID cl \<and> cnListener (clNet cl') = cnListener (clNet cl)
     \<and> (Closed cl \<longrightarrow> Closed cl') \<and> ((csEnded (clState cl) \<longrightarrow> Closed cl) \<longrightarrow> csEnded (clState cl') \<longrightarrow> Closed cl')"

lemma write_bytes_listener: "write_bytes n b cl = (cl', e) \<Longrightarrow> cnListener (clNet cl') = cnListener (clNet cl)"
  by (auto simp: write_bytes_def conn_write_def flushOutbuf_def Let_def split: option.splits if_splits)

interpretation attachment: client_relation stays_attached
  by unfold_locales
    (auto simp: stays_attached_def Stop_def Closed_def dest: write_bytes_frame write_bytes_listener)

abbreviation keeps_attached :: "'s server \<Rightarrow> 's server \<Rightarrow> bool" where
  "keeps_attached s0 sv \<equiv> keeps stays_attached (\<lambda>c. c = svClients s0) s0 sv"

lemma Disconnect_closes:
  assumes "\<not> PassiveClientDisconnect (Compatibilities (svCaps sv))" "csEnded (clState (svHeap sv r)) \<longrightarrow> Closed (svHeap sv r)"
  shows "Closed (svHeap (snd (DisconnectClient now r code sv)) r)"
proof -
  have w: "Closed (Stop now (Some (ECode code)) (svHeap (snd (WriteTo now r out sv)) r))"
    "svCaps (snd (WriteTo now r out sv)) = svCaps sv" for out
  proof -
    have k: "keeps_attached sv (snd (WriteTo now r out sv))"
      by (intro attachment.keeps_write attachment.keeps_refl) simp
    show "svCaps (snd (WriteTo now r out sv)) = svCaps sv" using keeps_setup(1) [OF k] by simp
    have "csEnded (clState (svHeap (snd (WriteTo now r out sv)) r)) \<longrightarrow> Closed (svHeap (snd (WriteTo now r out sv)) r)"
      using keepsD [OF k, of r] assms(2) by (simp add: stays_attached_def)
    then show "Closed (Stop now (Some (ECode code)) (svHeap (snd (WriteTo now r out sv)) r))"
      by (auto simp: Stop_def Closed_def)
  qed
  show ?thesis
    using assms(1) unfolding DisconnectClient_def Let_def split_beta
    by (simp add: w upd_client_def set_client_def)
qed

text \<open>The listener closes every client that is attached through it.\<close>

definition clients_sound :: "'s server \<Rightarrow> bool" where
  "clients_sound sv \<longleftrightarrow> (\<forall>r. csEnded (clState (svHeap sv r)) \<longrightarrow> Closed (svHeap sv r))"

lemma sound_keeps: "clients_sound s0 \<Longrightarrow> keeps_attached s0 sv \<Longrightarrow> clients_sound sv"
  using keepsD [of stays_attached "\<lambda>c. c = svClients s0" s0 sv] by (simp add: clients_sound_def stays_attached_def)

lemma keeps_close_listener: "keeps_attached s0 sv \<Longrightarrow> keeps_attached s0 (closeListenerClients now i sv)"
  unfolding closeListenerClients_def split_beta by (intro keeps_fold attachment.keeps_Disconnect)

lemma fold_closes:
  assumes "clients_sound sv" "\<not> PassiveClientDisconnect (Compatibilities (svCaps sv))" "(name, r) \<in> set cs"
  shows "Closed (svHeap (fold (\<lambda>(_, r) sv. snd (DisconnectClient now r code sv)) cs sv) r)"
  using assms
proof (induction cs arbitrary: sv)
  case (Cons c cs)
  let ?D = "\<lambda>(_, r) sv. snd (DisconnectClient now r code sv)"
  let ?sv = "snd (DisconnectClient now (snd c) code sv)"
  have k: "keeps_attached sv ?sv" by (intro attachment.keeps_Disconnect attachment.keeps_refl) simp
  have s: "clients_sound ?sv" "\<not> PassiveClientDisconnect (Compatibilities (svCaps ?sv))"
    using sound_keeps [OF Cons.prems(1) k] keeps_setup(1) [OF k] Cons.prems(2) by simp_all
  show ?case
  proof (cases "(name, r) \<in> set cs")
    case True
    then show ?thesis using Cons.IH [OF s] by (cases c) simp
  next
    case False
    then have "Closed (svHeap ?sv r)"
      using Cons.prems Disconnect_closes [of sv r now code] by (auto simp: clients_sound_def)
    moreover have rest: "keeps_attached ?sv (fold ?D cs ?sv)"
      by (intro keeps_fold) (auto intro: attachment.keeps_Disconnect attachment.keeps_refl simp: split_beta)
    ultimately show ?thesis using keepsD [OF rest, of r] by (cases c) (simp add: stays_attached_def)
  qed
qed simp

lemma close_listener_closes:
  assumes "clients_sound sv" "\<not> PassiveClientDisconnect (Compatibilities (svCaps sv))"
    and "(name, r) \<in> set (svClients sv)" "cnListener (clNet (svHeap sv r)) = i"
  shows "Closed (svHeap (closeListenerClients now i sv) r)"
proof (cases "Closed (svHeap sv r)")
  case True
  have k: "keeps_attached sv (closeListenerClients now i sv)" by (intro keeps_close_listener attachment.keeps_refl) simp
  then show ?thesis using True keepsD [OF k, of r] by (simp add: stays_attached_def)
next
  case False
  then show ?thesis using assms(3,4) unfolding closeListenerClients_def by (intro fold_closes [OF assms(1,2)]) auto
qed

lemma closed_through:
  assumes "clients_sound sv" "\<not> PassiveClientDisconnect (Compatibilities (svCaps sv))"
    and "(name, r) \<in> set (svClients sv)" "cnListener (clNet (svHeap sv r)) \<in> set ids"
  shows "Closed (svHeap (fold (closeListenerClients now) ids sv) r)"
  using assms
proof (induction ids arbitrary: sv)
  case (Cons i ids)
  let ?sv = "closeListenerClients now i sv"
  have k: "keeps_attached sv ?sv" by (intro keeps_close_listener attachment.keeps_refl) simp
  have rest: "keeps_attached ?sv (fold (closeListenerClients now) ids ?sv)"
    by (intro keeps_fold keeps_close_listener attachment.keeps_refl) simp_all
  show ?case
  proof (cases "cnListener (clNet (svHeap sv r)) \<in> set ids")
    case True
    then have "Closed (svHeap (fold (closeListenerClients now) ids ?sv) r)"
      using Cons.prems keepsD [OF k, of r] keeps_setup(1) [OF k] keeps_table(1) [OF k] sound_keeps [OF _ k]
      by (intro Cons.IH) (simp_all add: stays_attached_def)
    then show ?thesis by simp
  next
    case False
    then have "Closed (svHeap ?sv r)" using Cons.prems by (intro close_listener_closes) auto
    then show ?thesis using keepsD [OF rest, of r] by (simp add: stays_attached_def)
  qed
qed simp

lemma server_ok_sound: "server_ok sv \<Longrightarrow> clients_sound sv"
  by (simp add: server_ok_def quotas.all_good_def client_ok_def clients_sound_def)

lemma notify_heap [simp]: "svHeap (notify f sv) = svHeap sv"
  by (simp add: store_defs)

text \<open>A server that is shut down has closed the clients of all its listeners.\<close>

lemma shutdown_closes:
  assumes "listeners_ok t" "distinct ids" "set ids = dom (m_get t)" "server_ok sv" "\<not> svDone sv"
    and "\<not> PassiveClientDisconnect (Compatibilities (svCaps sv))"
    and "(name, r) \<in> set (svClients sv)" "Listeners_Get (cnListener (clNet (svHeap sv r))) t \<noteq> None"
  shows "\<exists>t' w' sv'. Network_Close nw now ids (t, w, sv) = (None, (t', w', sv')) \<and> Closed (svHeap sv' r)"
proof -
  obtain t' w' where n: "Network_Close nw now ids (t, w, sv) = (None, (t', w', snd (Close now ids sv)))"
    using Network_Close_is_Close [OF assms(1-3), of nw now w sv] assms(5) by auto
  have "cnListener (clNet (svHeap sv r)) \<in> set ids" using assms(3,8) by (auto simp: Listeners_defs)
  then have "Closed (svHeap (fold (closeListenerClients now) ids (sv\<lparr>svDone := True\<rparr>)) r)"
    using server_ok_sound [OF assms(4)] assms(6,7) by (intro closed_through) (simp_all add: clients_sound_def)
  then show ?thesis using n assms(5) by (simp add: Close_def Let_def)
qed

end
