(* ===== verification/Mqtt_Websocket.thy ===== *)
theory Mqtt_Websocket
  imports Mqtt_Codes
begin

text \<open>
  A websocket connection as a stream of bytes: \<open>wsConn\<close> of \<open>listeners/websocket.go\<close>.  The websocket
  library is a parameter over a state \<open>'c\<close>: the next message, and reading from the current one.
\<close>

section \<open>The connection\<close>

text \<open>\<open>frRead n\<close> is \<open>Read\<close> of the reader of the current message with a buffer of \<open>n\<close> bytes.\<close>

record 'c frames =
  frNext :: "'c \<Rightarrow> (error + int) \<times> 'c"
  frRead :: "nat \<Rightarrow> 'c \<Rightarrow> (byte list \<times> error option) \<times> 'c"
  frWrite :: "int \<Rightarrow> byte list \<Rightarrow> 'c \<Rightarrow> error option \<times> 'c"

definition BinaryMessage :: int where "BinaryMessage = 2"

definition ErrInvalidMessage :: error where
  "ErrInvalidMessage = ENew (lit ''message type not binary'')"

text \<open>\<open>wsReading\<close>: the reader \<open>r\<close> of the current message is not nil.\<close>

record 'c ws_conn =
  wsC :: 'c
  wsReading :: bool

text \<open>\<open>errors.Is(err, io.EOF)\<close>.\<close>

fun is_EOF :: "error \<Rightarrow> bool" where
  "is_EOF EEOF = True"
| "is_EOF (EWrap e c) = is_EOF e"
| "is_EOF (ECtx t e) = is_EOF e"
| "is_EOF _ = False"

text \<open>The loop of \<open>Read\<close> with a buffer of \<open>len\<close> bytes; it may not end if the reader returns nothing.\<close>

partial_function (option) wsConn_fill ::
    "'c frames \<Rightarrow> nat \<Rightarrow> byte list \<Rightarrow> 'c ws_conn \<Rightarrow> ((byte list \<times> error option) \<times> 'c ws_conn) option" where
  "wsConn_fill f len got ws =
    (if length got = len then Some ((got, None), ws)
     else case frRead f (len - length got) (wsC ws) of
       ((b, None), c) \<Rightarrow> wsConn_fill f len (got @ b) (ws\<lparr>wsC := c\<rparr>)
     | ((b, Some err), c) \<Rightarrow>
         Some ((got @ b, if is_EOF err then None else Some err), ws\<lparr>wsC := c, wsReading := False\<rparr>))"

definition wsConn_Read :: "'c frames \<Rightarrow> nat \<Rightarrow> 'c ws_conn \<Rightarrow> ((byte list \<times> error option) \<times> 'c ws_conn) option" where
  "wsConn_Read f len ws =
    (if \<not> wsReading ws then
       (case frNext f (wsC ws) of
          (Inl err, c) \<Rightarrow> Some (([], Some err), ws\<lparr>wsC := c\<rparr>)
        | (Inr op, c) \<Rightarrow>
            if op \<noteq> BinaryMessage then Some (([], Some ErrInvalidMessage), ws\<lparr>wsC := c\<rparr>)
            else wsConn_fill f len [] (ws\<lparr>wsC := c, wsReading := True\<rparr>))
     else wsConn_fill f len [] ws)"

definition wsConn_Write :: "'c frames \<Rightarrow> byte list \<Rightarrow> 'c ws_conn \<Rightarrow> (nat \<times> error option) \<times> 'c ws_conn" where
  "wsConn_Write f p ws =
    (case frWrite f BinaryMessage p (wsC ws) of
       (Some err, c) \<Rightarrow> ((0, Some err), ws\<lparr>wsC := c\<rparr>)
     | (None, c) \<Rightarrow> ((length p, None), ws\<lparr>wsC := c\<rparr>))"

section \<open>The stream\<close>

text \<open>
  What the library documents of a connection on which binary messages arrive: \<open>pending c\<close> is the rest
  of the current message and the messages after it.  A reader returns at least one byte or an
  error, and the error \<open>io.EOF\<close> at the end of the message.  After the last message there is only the
  error of a closed connection.
\<close>

definition message_source :: "'c frames \<Rightarrow> ('c \<Rightarrow> byte list \<times> byte list list) \<Rightarrow> bool" where
  "message_source f pending \<longleftrightarrow>
     (\<forall>c cur m ms. pending c = (cur, m # ms) \<longrightarrow>
        (\<exists>c'. frNext f c = (Inr BinaryMessage, c') \<and> pending c' = (m, ms)))
   \<and> (\<forall>c cur ms n. pending c = (cur, ms) \<and> n > 0 \<longrightarrow>
        (\<exists>b c'. frRead f n c = ((b, None), c') \<and> b \<noteq> [] \<and> length b \<le> n \<and> cur = b @ fst (pending c') \<and> snd (pending c') = ms)
      \<or> (\<exists>c'. frRead f n c = ((cur, Some EEOF), c') \<and> length cur \<le> n \<and> snd (pending c') = ms))
   \<and> (\<forall>c cur. pending c = (cur, []) \<longrightarrow> (\<exists>err c'. frNext f c = (Inl err, c') \<and> snd (pending c') = []))"

text \<open>What is still to be read, and how many messages are not used up.\<close>

definition ws_left :: "('c \<Rightarrow> byte list \<times> byte list list) \<Rightarrow> 'c ws_conn \<Rightarrow> byte list" where
  "ws_left pending ws = (if wsReading ws then fst (pending (wsC ws)) else []) @ concat (snd (pending (wsC ws)))"

definition ws_messages :: "('c \<Rightarrow> byte list \<times> byte list list) \<Rightarrow> 'c ws_conn \<Rightarrow> nat" where
  "ws_messages pending ws = (if wsReading ws then 1 else 0) + length (snd (pending (wsC ws)))"

lemma source_next:
  "message_source f pending \<Longrightarrow> pending c = (cur, m # ms) \<Longrightarrow>
     \<exists>c'. frNext f c = (Inr BinaryMessage, c') \<and> pending c' = (m, ms)"
  unfolding message_source_def by blast

lemma source_read:
  assumes "message_source f pending" "n > 0"
  obtains (More) b c' where "frRead f n c = ((b, None), c')" "b \<noteq> []" "length b \<le> n"
      "fst (pending c) = b @ fst (pending c')" "snd (pending c') = snd (pending c)"
    | (End) c' where "frRead f n c = ((fst (pending c), Some EEOF), c')" "length (fst (pending c)) \<le> n"
      "snd (pending c') = snd (pending c)"
proof -
  obtain cur ms where p: "pending c = (cur, ms)" by fastforce
  have "(\<exists>b c'. frRead f n c = ((b, None), c') \<and> b \<noteq> [] \<and> length b \<le> n \<and> cur = b @ fst (pending c') \<and> snd (pending c') = ms)
      \<or> (\<exists>c'. frRead f n c = ((cur, Some EEOF), c') \<and> length cur \<le> n \<and> snd (pending c') = ms)"
    using assms p unfolding message_source_def by blast
  then show thesis using p More End by auto
qed

lemma fill_result:
  assumes "message_source f pending" "wsReading ws" "length got \<le> len"
  shows "\<exists>b ws'. wsConn_fill f len got ws = Some ((got @ b, None), ws') \<and> length (got @ b) \<le> len
    \<and> ws_left pending ws = b @ ws_left pending ws'
    \<and> (length (got @ b) = len \<or> ws_messages pending ws' < ws_messages pending ws)
    \<and> ws_messages pending ws' \<le> ws_messages pending ws"
  using assms(2,3)
proof (induction "len - length got" arbitrary: got ws rule: less_induct)
  case less
  show ?case
  proof (cases "length got = len")
    case True
    then show ?thesis by (subst wsConn_fill.simps) (simp add: exI [of _ "[]"])
  next
    case False
    then have n: "len - length got > 0" using less.prems by simp
    show ?thesis
    proof (rule source_read [OF assms(1) n, of "wsC ws"], goal_cases More End)
      case (More b c')
      let ?ws = "ws\<lparr>wsC := c'\<rparr>"
      have l: "len - length (got @ b) < len - length got" "length (got @ b) \<le> len" "wsReading ?ws"
        using More(2,3) n less.prems by (cases b; simp)+
      from less.hyps [OF l(1,3,2)] obtain d ws' where d: "wsConn_fill f len (got @ b) ?ws = Some (((got @ b) @ d, None), ws')"
        "length ((got @ b) @ d) \<le> len" "ws_left pending ?ws = d @ ws_left pending ws'"
        "length ((got @ b) @ d) = len \<or> ws_messages pending ws' < ws_messages pending ?ws"
        "ws_messages pending ws' \<le> ws_messages pending ?ws" by blast
      have "ws_left pending ws = b @ ws_left pending ?ws" "ws_messages pending ?ws = ws_messages pending ws"
        using More(4,5) less.prems(1) by (simp_all add: ws_left_def ws_messages_def)
      then show ?thesis
        using False More(1) d by (intro exI [of _ "b @ d"] exI [of _ ws'], subst wsConn_fill.simps) simp
    next
      case (End c')
      let ?ws = "ws\<lparr>wsC := c', wsReading := False\<rparr>"
      have "ws_left pending ws = fst (pending (wsC ws)) @ ws_left pending ?ws" "ws_messages pending ?ws < ws_messages pending ws"
        using End(3) less.prems(1) by (simp_all add: ws_left_def ws_messages_def)
      then show ?thesis
        using False End(1,2) n
        by (intro exI [of _ "fst (pending (wsC ws))"] exI [of _ ?ws], subst wsConn_fill.simps) simp
    qed
  qed
qed

text \<open>
  \<open>Read\<close> returns, without an error; it hands out the messages as one stream, in order and nothing
  twice; and it fills the buffer or uses up a message.
\<close>

lemma Read_streams:
  assumes "message_source f pending" "wsReading ws \<or> snd (pending (wsC ws)) \<noteq> []"
  shows "\<exists>b ws'. wsConn_Read f len ws = Some ((b, None), ws') \<and> length b \<le> len
    \<and> ws_left pending ws = b @ ws_left pending ws'
    \<and> (length b = len \<or> ws_messages pending ws' < ws_messages pending ws)
    \<and> ws_messages pending ws' \<le> ws_messages pending ws"
proof (cases "wsReading ws")
  case True
  then show ?thesis using fill_result [OF assms(1) True, of "[]" len] by (auto simp: wsConn_Read_def)
next
  case False
  then obtain cur m ms where p: "pending (wsC ws) = (cur, m # ms)" using assms(2) by (metis neq_Nil_conv prod.collapse)
  from source_next [OF assms(1) p] obtain c' where c: "frNext f (wsC ws) = (Inr BinaryMessage, c')" "pending c' = (m, ms)"
    by blast
  let ?ws = "ws\<lparr>wsC := c', wsReading := True\<rparr>"
  from fill_result [OF assms(1), of ?ws "[]" len] obtain b ws' where
    "wsConn_fill f len [] ?ws = Some ((b, None), ws')" "length b \<le> len" "ws_left pending ?ws = b @ ws_left pending ws'"
    "length b = len \<or> ws_messages pending ws' < ws_messages pending ?ws"
    "ws_messages pending ws' \<le> ws_messages pending ?ws" by auto
  moreover have "ws_left pending ?ws = ws_left pending ws" "ws_messages pending ?ws = ws_messages pending ws"
    using False p c(2) by (simp_all add: ws_left_def ws_messages_def)
  ultimately show ?thesis using False c(1) by (simp add: wsConn_Read_def)
qed

text \<open>A message that is not binary is refused, and none of its bytes is handed out.\<close>

lemma Read_refuses:
  "\<not> wsReading ws \<Longrightarrow> frNext f (wsC ws) = (Inr op, c) \<Longrightarrow> op \<noteq> BinaryMessage \<Longrightarrow>
     wsConn_Read f len ws = Some (([], Some ErrInvalidMessage), ws\<lparr>wsC := c\<rparr>)"
  by (simp add: wsConn_Read_def)

section \<open>A reader of the connection\<close>

text \<open>
  Calls of \<open>Read\<close> with buffers of these sizes, up to the first error, and all the bytes that they
  returned.  The connection is wrapped in a buffered reader, which calls it like this.
\<close>

fun ws_reads :: "'c frames \<Rightarrow> nat list \<Rightarrow> 'c ws_conn \<Rightarrow> (byte list \<times> 'c ws_conn) option" where
  "ws_reads f [] ws = Some ([], ws)"
| "ws_reads f (n # ns) ws =
    (case wsConn_Read f n ws of
       None \<Rightarrow> None
     | Some ((b, Some err), ws) \<Rightarrow> Some (b, ws)
     | Some ((b, None), ws) \<Rightarrow> map_option (\<lambda>(d, ws). (b @ d, ws)) (ws_reads f ns ws))"

lemma Read_at_end:
  assumes "message_source f pending" "\<not> wsReading ws" "snd (pending (wsC ws)) = []"
  shows "\<exists>err ws'. wsConn_Read f len ws = Some (([], Some err), ws') \<and> ws_left pending ws' = [] \<and> ws_left pending ws = []"
proof -
  obtain err c' where "frNext f (wsC ws) = (Inl err, c')" "snd (pending c') = []"
    using assms(1,3) unfolding message_source_def by (metis prod.collapse)
  then show ?thesis using assms(2,3) by (simp add: wsConn_Read_def ws_left_def)
qed

text \<open>Whatever the sizes, the reads give a prefix of the messages, and enough of them give everything.\<close>

lemma reads_stream:
  assumes "message_source f pending"
  shows "\<exists>b ws'. ws_reads f lens ws = Some (b, ws') \<and> ws_left pending ws = b @ ws_left pending ws'
    \<and> (0 \<notin> set lens \<and> length (ws_left pending ws) + ws_messages pending ws \<le> length lens \<longrightarrow> ws_left pending ws' = [])"
proof (induction lens arbitrary: ws)
  case Nil
  then show ?case by simp
next
  case (Cons n ns)
  show ?case
  proof (cases "wsReading ws \<or> snd (pending (wsC ws)) \<noteq> []")
    case True
    from Read_streams [OF assms True, of n] obtain b ws1 where b: "wsConn_Read f n ws = Some ((b, None), ws1)"
      "ws_left pending ws = b @ ws_left pending ws1" "length b = n \<or> ws_messages pending ws1 < ws_messages pending ws"
      "ws_messages pending ws1 \<le> ws_messages pending ws" by blast
    from Cons.IH [of ws1] obtain d ws' where d: "ws_reads f ns ws1 = Some (d, ws')"
      "ws_left pending ws1 = d @ ws_left pending ws'"
      "0 \<notin> set ns \<and> length (ws_left pending ws1) + ws_messages pending ws1 \<le> length ns \<longrightarrow> ws_left pending ws' = []" by blast
    have "n \<noteq> 0 \<Longrightarrow> length (ws_left pending ws1) + ws_messages pending ws1 < length (ws_left pending ws) + ws_messages pending ws"
      using b(2-4) by (cases b) auto
    then show ?thesis using b(1,2) d by auto
  next
    case False
    then obtain err ws' where "wsConn_Read f n ws = Some (([], Some err), ws')" "ws_left pending ws' = []" "ws_left pending ws = []"
      using Read_at_end [OF assms, of ws n] by blast
    then show ?thesis by simp
  qed
qed

section \<open>A source\<close>

text \<open>Messages in memory, read in pieces of at most \<open>k\<close> bytes.\<close>

definition memory_frames :: "nat \<Rightarrow> (byte list \<times> byte list list) frames" where
  "memory_frames k = \<lparr>
     frNext = (\<lambda>(cur, ms). case ms of [] \<Rightarrow> (Inl EEOF, ([], [])) | m # ms \<Rightarrow> (Inr BinaryMessage, (m, ms))),
     frRead = (\<lambda>n (cur, ms). if cur = [] then (([], Some EEOF), ([], ms))
       else ((take (min n k) cur, None), (drop (min n k) cur, ms))),
     frWrite = (\<lambda>op p c. (None, c))\<rparr>"

lemma memory_source: "k > 0 \<Longrightarrow> message_source (memory_frames k) id"
  by (auto simp: message_source_def memory_frames_def)

end
