(* ===== verification/Mqtt_Debug.thy ===== *)
theory Mqtt_Debug
  imports Mqtt_Hooks Mqtt_TLS
begin

text \<open>
  The debugging hook, \<open>hooks/debug/debug.go\<close>: what it writes to the log.  An entry is a message with
  named values; \<open>add\<close> puts it into the state of the hooks.  The \<open>Stored\<close> methods of the chain have no
  state, so what they log is left out.
\<close>

record debug_options =
  dbEnable :: bool
  dbShowPacketData :: bool
  dbShowPings :: bool
  dbShowPasswords :: bool

definition no_debug_options :: debug_options where
  "no_debug_options = \<lparr>dbEnable = False, dbShowPacketData = False, dbShowPings = False, dbShowPasswords = False\<rparr>"

definition Debug_Init :: "debug_options config_any \<Rightarrow> error + debug_options" where
  "Debug_Init config =
    (case config of
       ConfigOther \<Rightarrow> Inl ErrInvalidConfigType
     | ConfigNil \<Rightarrow> Inr no_debug_options
     | ConfigOf c \<Rightarrow> Inr c)"

text \<open>The values of an entry: those of \<open>map[string]any\<close> that occur.\<close>

datatype meta = MString gostring | MBool bool | MInt int | MBytes "byte list" | MStrings "gostring list"
  | MInts "int list" | MCounts "(gostring, int) gomap" | MPacket packet

type_synonym metas = "(gostring, meta) gomap"

datatype log_entry = Entry gostring metas

definition PacketNames :: "byte \<Rightarrow> gostring" where
  "PacketNames b =
    (if b = 0 then lit ''Reserved'' else if b = Connect then lit ''Connect'' else if b = Connack then lit ''Connack''
     else if b = Publish then lit ''Publish'' else if b = Puback then lit ''Puback'' else if b = Pubrec then lit ''Pubrec''
     else if b = Pubrel then lit ''Pubrel'' else if b = Pubcomp then lit ''Pubcomp'' else if b = Subscribe then lit ''Subscribe''
     else if b = Suback then lit ''Suback'' else if b = Unsubscribe then lit ''Unsubscribe''
     else if b = Unsuback then lit ''Unsuback'' else if b = Pingreq then lit ''Pingreq'' else if b = Pingresp then lit ''Pingresp''
     else if b = Disconnect then lit ''Disconnect'' else if b = Auth then lit ''Auth'' else [])"

text \<open>
  \<open>packetMeta\<close>.  The identifiers of the subscriptions are collected by the code but not used: it
  enters the qualities of service for both names.
\<close>

definition packetMeta :: "debug_options \<Rightarrow> packet \<Rightarrow> metas" where
  "packetMeta config pk =
    (let c = pkConnect pk; t = fhType (pkFixedHeader pk);
         id = (lit ''id'', MInt (uint (pkPacketID pk)));
         m = (if t = Connect then
                [(lit ''id'', MString (cClientIdentifier c)), (lit ''clean'', MBool (cClean c)),
                 (lit ''keepalive'', MInt (uint (cKeepalive c))), (lit ''version'', MInt (uint (pkProtocolVersion pk))),
                 (lit ''username'', MString (cUsername c))]
              @ (if dbShowPasswords config then [(lit ''password'', MString (cPassword c))] else [])
              @ (if cWillFlag c
                 then [(lit ''will_topic'', MString (cWillTopic c)), (lit ''will_payload'', MString (cWillPayload c))] else [])
              else if t = Publish then
                [(lit ''topic'', MString (pkTopicName pk)), (lit ''payload'', MString (pkPayload pk)),
                 (lit ''raw'', MBytes (pkPayload pk)), (lit ''qos'', MInt (uint (fhQos (pkFixedHeader pk)))), id]
              else if t \<in> {Connack, Disconnect, Puback, Pubrec, Pubrel, Pubcomp} then
                [id, (lit ''reason'', MInt (uint (pkReasonCode pk)))]
              @ (if pkReasonCode pk > Code CodeSuccess \<and> pkProtocolVersion pk = 5
                 then [(lit ''reason_string'', MString (pReasonString (pkProperties pk)))] else [])
              else if t = Subscribe then
                (let f = fold (\<lambda>v. m_set (sFilter v) (uint (sQos v))) (pkFilters pk) []
                 in [(lit ''filters'', MCounts f), (lit ''subids'', MCounts f)])
              else if t = Unsubscribe then [(lit ''filters'', MStrings (map sFilter (pkFilters pk)))]
              else if t = Suback \<or> t = Unsuback then [(lit ''reasons'', MInts (map uint (pkReasonCodes pk)))]
              else [])
     in if dbShowPacketData config then m @ [(lit ''packet'', MPacket pk)] else m)"

definition shown :: "debug_options \<Rightarrow> packet \<Rightarrow> bool" where
  "shown config pk \<longleftrightarrow>
    \<not> ((fhType (pkFixedHeader pk) = Pingresp \<or> fhType (pkFixedHeader pk) = Pingreq) \<and> \<not> dbShowPings config)"

definition about_packet :: "unicode \<Rightarrow> debug_options \<Rightarrow> gostring \<Rightarrow> client \<Rightarrow> packet \<Rightarrow> log_entry list" where
  "about_packet u config arrow cl pk =
    (if shown config pk
     then [Entry (ToUpper u (PacketNames (fhType (pkFixedHeader pk))) @ arrow @ clID cl) (packetMeta config pk)] else [])"

definition method_entry :: "string \<Rightarrow> log_entry" where
  "method_entry name = Entry [] [(lit ''method'', MString (lit name))]"

definition debug_hook :: "unicode \<Rightarrow> (log_entry list \<Rightarrow> 's \<Rightarrow> 's) \<Rightarrow> debug_options \<Rightarrow> 's hook" where
  "debug_hook u add config = HookBase\<lparr>
     hkID := lit ''debug'', hkProvides := (\<lambda>b. True),
     hkStop := (\<lambda>s. (add [method_entry ''Stop''] s, None)),
     hkOnStarted := (\<lambda>s. add [method_entry ''OnStarted''] s),
     hkOnStopped := (\<lambda>s. add [method_entry ''OnStopped''] s),
     hkOnPacketRead := (\<lambda>s cl pk. (add (about_packet u config (lit '' << '') cl pk) s, pk, None)),
     hkOnPacketSent := (\<lambda>s cl pk b. add (about_packet u config (lit '' >> '') cl pk) s),
     hkOnRetainMessage := (\<lambda>s cl pk r. add [Entry (lit ''retained message on topic'') (packetMeta config pk)] s),
     hkOnQosPublish := (\<lambda>s cl pk sent resends. add [Entry (lit ''inflight out'') (packetMeta config pk)] s),
     hkOnQosComplete := (\<lambda>s cl pk. add [Entry (lit ''inflight complete'') (packetMeta config pk)] s),
     hkOnQosDropped := (\<lambda>s cl pk. add [Entry (lit ''inflight dropped'') (packetMeta config pk)] s),
     hkOnRetainedExpired := (\<lambda>s topic. add [Entry (lit ''retained message expired'')
       [(lit ''method'', MString (lit ''OnRetainedExpired'')), (lit ''topic'', MString topic)]] s),
     hkOnClientExpired := (\<lambda>s cl. add [Entry (lit ''client session expired'')
       [(lit ''method'', MString (lit ''OnClientExpired'')), (lit ''client'', MString (clID cl))]] s)\<rparr>"

section \<open>What the log shows\<close>

definition with_password :: "byte list \<Rightarrow> packet \<Rightarrow> packet" where
  "with_password p pk = pk\<lparr>pkConnect := (pkConnect pk)\<lparr>cPassword := p\<rparr>\<rparr>"

lemma with_password_fields [simp]:
  "pkFixedHeader (with_password p pk) = pkFixedHeader pk" "pkFilters (with_password p pk) = pkFilters pk"
  "pkConnect (with_password p pk) = (pkConnect pk)\<lparr>cPassword := p\<rparr>" "pkReasonCode (with_password p pk) = pkReasonCode pk"
  "pkPacketID (with_password p pk) = pkPacketID pk" "pkProtocolVersion (with_password p pk) = pkProtocolVersion pk"
  "pkTopicName (with_password p pk) = pkTopicName pk" "pkPayload (with_password p pk) = pkPayload pk"
  "pkProperties (with_password p pk) = pkProperties pk" "pkReasonCodes (with_password p pk) = pkReasonCodes pk"
  by (simp_all add: with_password_def)

lemma meta_without_password:
  "\<not> dbShowPasswords config \<Longrightarrow> \<not> dbShowPacketData config \<Longrightarrow>
     packetMeta config (with_password p pk) = packetMeta config pk"
  by (simp add: packetMeta_def Let_def)

text \<open>Without both options the log is the same whatever the password is.\<close>

lemma log_without_password:
  assumes "\<not> dbShowPasswords config" "\<not> dbShowPacketData config"
  shows "fst (hkOnPacketRead (debug_hook u add config) s cl (with_password p pk)) = fst (hkOnPacketRead (debug_hook u add config) s cl pk)"
    "hkOnPacketSent (debug_hook u add config) s cl (with_password p pk) b = hkOnPacketSent (debug_hook u add config) s cl pk b"
  using meta_without_password [OF assms] by (simp_all add: debug_hook_def about_packet_def shown_def)

text \<open>With the packet data the password is in the log, also when passwords are not to be shown.\<close>

lemma password_in_packet_data:
  "dbShowPacketData config \<Longrightarrow> (lit ''packet'', MPacket pk) \<in> set (packetMeta config pk)"
  by (simp add: packetMeta_def Let_def)

text \<open>The hook changes no packet and refuses none.\<close>

lemma debug_passes:
  "snd (hkOnPacketRead (debug_hook u add config) s cl pk) = (pk, None)"
  "hkOnPublish (debug_hook u add config) s cl pk = (s, pk, None)"
  "hkOnConnect (debug_hook u add config) s cl pk = (s, None)"
  by (simp_all add: debug_hook_def HookBase_def)

text \<open>Subscriptions are logged with their quality of service where their identifiers should be.\<close>

lemma logged_identifiers:
  assumes "fhType (pkFixedHeader pk) = Subscribe"
  shows "m_get (packetMeta config pk) (lit ''subids'') = m_get (packetMeta config pk) (lit ''filters'')"
  using assms by (simp add: packetMeta_def Let_def lit_def)

end
