(* ===== verification/Mqtt_Config.thy ===== *)
theory Mqtt_Config
  imports Mqtt_Auth Mqtt_Badger Mqtt_Bolt Mqtt_Pebble Mqtt_Redis Mqtt_Debug Mqtt_Listeners
begin

text \<open>
  The configuration file, \<open>config/config.go\<close>: from its bytes to the options of the server, the hooks
  with their configurations and the listeners.  The decoders of JSON, YAML and log levels are parameters.
\<close>

record hook_auth_config =
  haLedger :: ledger
  haAllowAll :: bool

record hook_storage_config =
  hsBadger :: "badger_options option"
  hsBolt :: "bolt_options option"
  hsPebble :: "pebble_options option"
  hsRedis :: "redis_options option"

record hook_configs =
  hcAuth :: "hook_auth_config option"
  hcStorage :: "hook_storage_config option"
  hcDebug :: "debug_options option"

text \<open>A hook to be added, with its configuration.\<close>

datatype hook_load_config = LoadAllowAll | LoadLedger auth_options | LoadBadger badger_options | LoadBolt bolt_options
  | LoadRedis redis_options | LoadPebble pebble_options | LoadDebug debug_options

definition toHooksAuth :: "hook_auth_config \<Rightarrow> hook_load_config list" where
  "toHooksAuth a =
    (if haAllowAll a then [LoadAllowAll]
     else [LoadLedger \<lparr>aoData = [], aoLedger = Some \<lparr>lgUsers = lgUsers (haLedger a), lgAuth = lgAuth (haLedger a),
       lgACL = lgACL (haLedger a)\<rparr>\<rparr>])"

definition toHooksStorage :: "hook_storage_config \<Rightarrow> hook_load_config list" where
  "toHooksStorage st =
     (case hsBadger st of Some c \<Rightarrow> [LoadBadger c] | None \<Rightarrow> [])
   @ (case hsBolt st of Some c \<Rightarrow> [LoadBolt c] | None \<Rightarrow> [])
   @ (case hsRedis st of Some c \<Rightarrow> [LoadRedis c] | None \<Rightarrow> [])
   @ (case hsPebble st of Some c \<Rightarrow> [LoadPebble c] | None \<Rightarrow> [])"

definition ToHooks :: "hook_configs \<Rightarrow> hook_load_config list" where
  "ToHooks hc =
     (case hcAuth hc of Some a \<Rightarrow> toHooksAuth a | None \<Rightarrow> [])
   @ (case hcStorage hc of Some st \<Rightarrow> toHooksStorage st | None \<Rightarrow> [])
   @ (case hcDebug hc of Some c \<Rightarrow> [LoadDebug c] | None \<Rightarrow> [])"

text \<open>\<open>ToLogger\<close>: the level, with \<open>LevelInfo\<close> for a text that is not one.\<close>

definition ToLogger :: "(gostring \<Rightarrow> error + int) \<Rightarrow> gostring \<Rightarrow> int" where
  "ToLogger parseLevel level = (case parseLevel level of Inl _ \<Rightarrow> 0 | Inr l \<Rightarrow> l)"

record 'c file_config =
  fcCapabilities :: "capabilities option"
  fcOptions :: options
  fcListeners :: "'c listener_config list"
  fcHookConfigs :: hook_configs
  fcLevel :: gostring

text \<open>The options of a server, with what is loaded when it serves.\<close>

record 'c file_options =
  foCapabilities :: "capabilities option"
  foOptions :: options
  foListeners :: "'c listener_config list"
  foHooks :: "hook_load_config list"
  foLevel :: int

definition FromBytes ::
    "(byte list \<Rightarrow> error + 'c file_config) \<Rightarrow> (byte list \<Rightarrow> error + 'c file_config) \<Rightarrow> (gostring \<Rightarrow> error + int)
      \<Rightarrow> byte list \<Rightarrow> error + 'c file_options option" where
  "FromBytes json yaml parseLevel b =
    (if length b = 0 then Inr None
     else check (if b ! 0 = 123 then json b else yaml b) (\<lambda>err. err) (\<lambda>c.
       Inr (Some \<lparr>foCapabilities = fcCapabilities c, foOptions = fcOptions c, foListeners = fcListeners c,
         foHooks = ToHooks (fcHookConfigs c), foLevel = ToLogger parseLevel (fcLevel c)\<rparr>)))"

text \<open>
  The section of the debug hook enables it: its field \<open>enable\<close> is not looked at.  At most one hook
  answers for authentication, and with \<open>allow_all\<close> the ledger of the file is not used.
\<close>

lemma debug_always_loaded: "hcDebug hc = Some c \<Longrightarrow> LoadDebug c \<in> set (ToHooks hc)"
  by (simp add: ToHooks_def)

lemma allow_all_drops_ledger:
  "hcAuth hc = Some a \<Longrightarrow> haAllowAll a \<Longrightarrow> LoadLedger o' \<notin> set (ToHooks hc) \<and> LoadAllowAll \<in> set (ToHooks hc)"
  by (auto simp: ToHooks_def toHooksAuth_def toHooksStorage_def split: option.splits)

lemma ledger_of_file:
  "hcAuth hc = Some a \<Longrightarrow> \<not> haAllowAll a \<Longrightarrow>
     LoadAllowAll \<notin> set (ToHooks hc) \<and> (\<exists>c. LoadLedger c \<in> set (ToHooks hc) \<and> Auth_Init json yaml (ConfigOf c) = Inr (haLedger a))"
  by (auto simp: ToHooks_def toHooksAuth_def toHooksStorage_def Auth_Init_def split: option.splits)

end
