(* ===== verification/Mqtt_Bufpool.thy ===== *)
theory Mqtt_Bufpool
  imports Mqtt_Prelude
begin

text \<open>
  The pool of buffers, \<open>mempool/bufpool.go\<close>.  A \<open>sync.Pool\<close> holds the buffers that were put back and
  may drop any of them at any time; which one it gives is a choice of the run time, here an argument.
\<close>

record buffer =
  bfBytes :: "byte list"
  bfCap :: nat

definition new_buffer :: buffer where
  "new_buffer = \<lparr>bfBytes = [], bfCap = 0\<rparr>"

definition Reset :: "buffer \<Rightarrow> buffer" where
  "Reset x = x\<lparr>bfBytes := []\<rparr>"

text \<open>The limit is \<open>None\<close> for the pool without one.\<close>

record buffer_pool =
  bpMax :: "nat option"
  bpBuffers :: "buffer list"

definition NewBuffer :: "int \<Rightarrow> buffer_pool" where
  "NewBuffer m = (if m > 0 then \<lparr>bpMax = Some (nat m), bpBuffers = []\<rparr> else \<lparr>bpMax = None, bpBuffers = []\<rparr>)"

text \<open>\<open>Get\<close>: a buffer that was put back, or a new one.\<close>

definition Pool_Get :: "nat option \<Rightarrow> buffer_pool \<Rightarrow> buffer \<times> buffer_pool" where
  "Pool_Get choice b =
    (case choice of
       Some i \<Rightarrow>
         if i < length (bpBuffers b)
         then (bpBuffers b ! i, b\<lparr>bpBuffers := take i (bpBuffers b) @ drop (Suc i) (bpBuffers b)\<rparr>)
         else (new_buffer, b)
     | None \<Rightarrow> (new_buffer, b))"

definition Pool_Put :: "buffer \<Rightarrow> buffer_pool \<Rightarrow> buffer_pool" where
  "Pool_Put x b =
    (case bpMax b of
       Some m \<Rightarrow> if bfCap x > m then b else b\<lparr>bpBuffers := bpBuffers b @ [Reset x]\<rparr>
     | None \<Rightarrow> b\<lparr>bpBuffers := bpBuffers b @ [Reset x]\<rparr>)"

text \<open>Steps of the users of the pool, whatever they put back, and of the run time.\<close>

inductive pool_step :: "buffer_pool \<Rightarrow> buffer_pool \<Rightarrow> bool" where
  Got: "pool_step b (snd (Pool_Get choice b))"
| Returned: "pool_step b (Pool_Put x b)"
| Dropped: "pool_step b (b\<lparr>bpBuffers := take i (bpBuffers b) @ drop j (bpBuffers b)\<rparr>)" if "i \<le> j"

definition pool_ok :: "buffer_pool \<Rightarrow> bool" where
  "pool_ok b \<longleftrightarrow> (\<forall>x \<in> set (bpBuffers b). bfBytes x = [] \<and> (\<forall>m. bpMax b = Some m \<longrightarrow> bfCap x \<le> m))"

lemma pool_ok_step: "pool_step b b' \<Longrightarrow> pool_ok b \<Longrightarrow> pool_ok b' \<and> bpMax b' = bpMax b"
  by (induction rule: pool_step.induct)
    (auto simp: pool_ok_def Pool_Get_def Pool_Put_def Reset_def split: option.splits dest: in_set_takeD in_set_dropD)

lemma pool_ok_run: "pool_step\<^sup>*\<^sup>* (NewBuffer m) b \<Longrightarrow> pool_ok b \<and> bpMax b = (if m > 0 then Some (nat m) else None)"
  by (induction rule: rtranclp_induct) (auto simp: pool_ok_def NewBuffer_def dest: pool_ok_step)

text \<open>A buffer of the pool is empty, and no larger than the limit.\<close>

lemma buffer_clean:
  assumes "pool_step\<^sup>*\<^sup>* (NewBuffer m) b"
  shows "bfBytes (fst (Pool_Get choice b)) = []" "m > 0 \<Longrightarrow> bfCap (fst (Pool_Get choice b)) \<le> nat m"
  using pool_ok_run [OF assms] by (auto simp: Pool_Get_def pool_ok_def new_buffer_def split: option.splits)

end
