(* ===== verification/Mqtt_Tools.thy ===== *)
theory Mqtt_Tools
  imports Mqtt_ClientLaws Mqtt_Defense Mqtt_TLS "HOL-Library.Multiset"
begin

text \<open>
  The parts of the tools under \<open>src/client\<close> that compute: how they dial a broker and read their
  environment, the statistics they print, and the packets with which the injectors attack a broker.
  URLs, integers, files and certificates are parsed by parameters; floating point values are the
  elements of a linear order, and rounding an index is a parameter.
\<close>

section \<open>Environment and TLS\<close>

record tool_tls =
  ttMinVersion :: nat
  ttInsecureSkipVerify :: bool
  ttServerName :: gostring
  ttSessionCache :: "int option"
  ttRootCAs :: "byte list option"
  ttNextProtos :: "gostring list"

definition empty_tls :: tool_tls where
  "empty_tls = \<lparr>ttMinVersion = 0, ttInsecureSkipVerify = False, ttServerName = [], ttSessionCache = None,
     ttRootCAs = None, ttNextProtos = []\<rparr>"

text \<open>What the tools ask their surroundings for.\<close>

record surroundings =
  suGetenv :: "gostring \<Rightarrow> gostring"
  suReadFile :: "gostring \<Rightarrow> error + byte list"
  suParsePEM :: "byte list \<Rightarrow> bool"
  suAtoi :: "gostring \<Rightarrow> error + int"

definition tlsSessionCacheSizeFromEnv :: "surroundings \<Rightarrow> error + int" where
  "tlsSessionCacheSizeFromEnv e =
    (let val = suGetenv e (lit ''MQTT_TLS_SESSION_CACHE_SIZE'') in
     if val = [] then Inr 100
     else check (suAtoi e val) (\<lambda>err. ECtx (lit ''invalid MQTT_TLS_SESSION_CACHE_SIZE: '') err) (\<lambda>size.
       if size < 0 then Inl (ENew (lit ''invalid MQTT_TLS_SESSION_CACHE_SIZE: must be >= 0'')) else Inr size))"

text \<open>\<open>strings.EqualFold\<close> with a text of which no letter has another form outside ASCII.\<close>

definition EqualFold_true :: "unicode \<Rightarrow> gostring \<Rightarrow> bool" where
  "EqualFold_true u s \<longleftrightarrow> is_ascii s \<and> ToLower u s = lit ''true''"

text \<open>The configuration with a cache of sessions, and the one of the publisher and the subscriber without.\<close>

definition env_tls :: "unicode \<Rightarrow> surroundings \<Rightarrow> int \<Rightarrow> error + tool_tls" where
  "env_tls u e cacheSize =
    (let insecure = EqualFold_true u (suGetenv e (lit ''MQTT_TLS_INSECURE_SKIP_VERIFY''));
         serverName = suGetenv e (lit ''MQTT_TLS_SERVER_NAME'');
         caFile = suGetenv e (lit ''MQTT_TLS_CA_FILE'');
         c = empty_tls\<lparr>ttMinVersion := VersionTLS12, ttInsecureSkipVerify := insecure\<rparr>;
         c = (if cacheSize > 0 then c\<lparr>ttSessionCache := Some cacheSize\<rparr> else c);
         c = (if serverName \<noteq> [] then c\<lparr>ttServerName := serverName\<rparr> else c)
     in if caFile \<noteq> [] then
          check (suReadFile e caFile) (\<lambda>err. ECtx (lit ''failed to read MQTT_TLS_CA_FILE: '') err) (\<lambda>pem.
            if \<not> suParsePEM e pem then Inl (ENew (lit ''failed to parse CA certificates in '' @ caFile))
            else Inr (c\<lparr>ttRootCAs := Some pem\<rparr>))
        else Inr c)"

definition loadTLSConfigFromEnv :: "unicode \<Rightarrow> surroundings \<Rightarrow> error + tool_tls" where
  "loadTLSConfigFromEnv u e = check (tlsSessionCacheSizeFromEnv e) (\<lambda>err. err) (\<lambda>cacheSize. env_tls u e cacheSize)"

definition publisher_TLSConfigFromEnv :: "unicode \<Rightarrow> surroundings \<Rightarrow> error + tool_tls" where
  "publisher_TLSConfigFromEnv u e = env_tls u e 0"

definition isTLSBrokerURL :: "unicode \<Rightarrow> gostring \<Rightarrow> bool" where
  "isTLSBrokerURL u broker =
    (let lowerBroker = ToLower u broker in
     HasPrefix lowerBroker (lit ''ssl://'') \<or> HasPrefix lowerBroker (lit ''tls://'') \<or> HasPrefix lowerBroker (lit ''tcps://''))"

definition tlsConfigForBroker :: "unicode \<Rightarrow> surroundings \<Rightarrow> gostring \<Rightarrow> error + tool_tls option" where
  "tlsConfigForBroker u e broker =
    (if isTLSBrokerURL u broker then map_sum id Some (loadTLSConfigFromEnv u e) else Inr None)"

definition envInt :: "surroundings \<Rightarrow> gostring \<Rightarrow> int \<Rightarrow> int" where
  "envInt e key fallback =
    (let value = suGetenv e key in
     if value = [] then fallback else case suAtoi e value of Inl _ \<Rightarrow> fallback | Inr n \<Rightarrow> n)"

text \<open>The certificates are checked against the given authorities unless the environment says otherwise.\<close>

lemma loaded_tls:
  assumes "env_tls u e n = Inr c"
  shows "ttMinVersion c = VersionTLS12"
    "ttInsecureSkipVerify c \<longleftrightarrow> EqualFold_true u (suGetenv e (lit ''MQTT_TLS_INSECURE_SKIP_VERIFY''))"
    "suGetenv e (lit ''MQTT_TLS_CA_FILE'') \<noteq> [] \<Longrightarrow>
       \<exists>pem. suReadFile e (suGetenv e (lit ''MQTT_TLS_CA_FILE'')) = Inr pem \<and> suParsePEM e pem \<and> ttRootCAs c = Some pem"
    "ttSessionCache c = (if n > 0 then Some n else None)"
  using assms unfolding env_tls_def Let_def
  by (auto simp: result_iff empty_tls_def split: if_splits)

section \<open>Dialing\<close>

record url =
  urScheme :: gostring
  urHost :: gostring

datatype dial = DialQUIC gostring tool_tls | DialTLS gostring tool_tls | DialTCP gostring

definition dial_host :: "url \<Rightarrow> gostring" where
  "dial_host u = (if 58 \<notin> set (urHost u) then urHost u @ lit '':1883'' else urHost u)"

definition dialBroker :: "(gostring \<Rightarrow> error + url) \<Rightarrow> gostring \<Rightarrow> tool_tls option \<Rightarrow> error + dial" where
  "dialBroker parse brokerURL tlsConfig =
    check (parse brokerURL) (\<lambda>err. ECtx (lit ''invalid broker url: '') err) (\<lambda>u.
      let host = dial_host u in
      if urScheme u = lit ''quic'' \<or> urScheme u = lit ''quic+tls'' then
        Inr (DialQUIC host (case tlsConfig of
          None \<Rightarrow> empty_tls\<lparr>ttInsecureSkipVerify := True, ttNextProtos := [lit ''mqtt'']\<rparr>
        | Some c \<Rightarrow> if ttNextProtos c = [] then c\<lparr>ttNextProtos := [lit ''mqtt'']\<rparr> else c))
      else if urScheme u = lit ''tls'' \<or> urScheme u = lit ''ssl'' \<or> urScheme u = lit ''tcps'' then
        Inr (DialTLS host (case tlsConfig of None \<Rightarrow> empty_tls | Some c \<Rightarrow> c))
      else Inr (DialTCP host))"

text \<open>
  A scheme with TLS is never dialed in the clear.  Without a configuration a QUIC broker is not
  authenticated: nothing of its certificate is checked.
\<close>

lemma tls_never_plain:
  "dialBroker parse b c = Inr (DialTCP host) \<Longrightarrow> parse b = Inr u \<Longrightarrow>
     urScheme u \<notin> {lit ''quic'', lit ''quic+tls'', lit ''tls'', lit ''ssl'', lit ''tcps''}"
  by (auto simp: dialBroker_def Let_def split: if_splits)

lemma quic_unchecked:
  "parse b = Inr r \<Longrightarrow> urScheme r = lit ''quic'' \<Longrightarrow>
     \<exists>host c. dialBroker parse b None = Inr (DialQUIC host c) \<and> ttInsecureSkipVerify c"
  by (simp add: dialBroker_def Let_def)

text \<open>The probe does not count QUIC as TLS, so it never reads the environment for it.\<close>

lemma probe_quic_unchecked:
  assumes "HasPrefix (ToLower u b) (lit ''quic'')" "parse b = Inr r" "urScheme r = lit ''quic''"
  shows "\<exists>host c. check (tlsConfigForBroker u e b) (\<lambda>err. err) (dialBroker parse b) = Inr (DialQUIC host c)
    \<and> ttInsecureSkipVerify c"
proof -
  obtain rest where "ToLower u b = lit ''quic'' @ rest"
    using assms(1) unfolding HasPrefix_def by (metis append_take_drop_id)
  then have "tlsConfigForBroker u e b = Inr None" by (simp add: tlsConfigForBroker_def isTLSBrokerURL_def lit_def)
  then show ?thesis using quic_unchecked [of parse b r, OF assms(2,3)] by simp
qed

section \<open>The probe\<close>

definition buildPayload :: "gostring \<Rightarrow> int \<Rightarrow> gostring" where
  "buildPayload i bytes =
    (if int (length i) \<ge> bytes then i
     else let prefix = i @ lit ''|'' in
       if int (length prefix) \<ge> bytes then take (nat bytes) prefix
       else prefix @ replicate (nat (bytes - int (length prefix))) 120)"

lemma buildPayload_length: "int (length (buildPayload i bytes)) = max (int (length i)) bytes"
  by (auto simp: buildPayload_def Let_def)

lemma buildPayload_prefix: "take (length i) (buildPayload i bytes) = i"
  by (auto simp: buildPayload_def Let_def)

definition sanitizeErr :: "gostring \<Rightarrow> gostring" where
  "sanitizeErr s = map (\<lambda>b. if b = 13 then 32 else b) (map (\<lambda>b. if b = 10 then 32 else b) s)"

lemma sanitizeErr_one_line: "10 \<notin> set (sanitizeErr s) \<and> 13 \<notin> set (sanitizeErr s)"
  by (auto simp: sanitizeErr_def)

record 'v sample =
  smValue :: 'v
  smSuccess :: bool

text \<open>\<open>position n\<close> is \<open>int((p / 100.0) * float64(n))\<close> for the percentage.\<close>

definition percentile :: "(nat \<Rightarrow> int) \<Rightarrow> 'v::{zero, linorder} list \<Rightarrow> 'v" where
  "percentile position vals =
    (if vals = [] then 0
     else let cp = sort vals;
              idx = position (length cp - 1);
              idx = (if idx < 0 then 0 else idx);
              idx = (if idx \<ge> int (length cp) then int (length cp) - 1 else idx)
          in cp ! nat idx)"

lemma percentile_in: "vals \<noteq> [] \<Longrightarrow> percentile position vals \<in> set vals"
proof -
  assume ne: "vals \<noteq> []"
  define k where "k = nat (let idx = position (length vals - 1); idx = (if idx < 0 then 0 else idx)
    in if idx \<ge> int (length vals) then int (length vals) - 1 else idx)"
  have "k < length (sort vals)" using ne by (auto simp: k_def Let_def nat_less_iff)
  then have "sort vals ! k \<in> set (sort vals)" by (rule nth_mem)
  moreover have "percentile position vals = sort vals ! k" using ne by (simp add: percentile_def k_def Let_def)
  ultimately show ?thesis by simp
qed

lemma percentile_mono:
  assumes "position (length vals - 1) \<le> position' (length vals - 1)"
  shows "percentile position vals \<le> percentile position' vals"
proof (cases "vals = []")
  case False
  define clamp where "clamp i = (let i = (if i < 0 then 0 else i) in if i \<ge> int (length vals) then int (length vals) - 1 else i)" for i :: int
  have "percentile q vals = sort vals ! nat (clamp (q (length vals - 1)))" for q
    using False by (simp add: percentile_def clamp_def Let_def)
  moreover have "clamp i \<le> clamp j" if "i \<le> j" for i j using that by (auto simp: clamp_def Let_def)
  moreover have "nat (clamp i) < length (sort vals)" for i
    using False by (cases vals) (auto simp: clamp_def Let_def nat_less_iff)
  ultimately show ?thesis using assms by (simp add: sorted_nth_mono nat_mono)
qed (simp add: percentile_def)

definition successful :: "'v sample list \<Rightarrow> 'v list" where
  "successful samples = map smValue (filter smSuccess samples)"

text \<open>Totals of the summary: all, successful and failed samples.\<close>

definition summary_counts :: "'v sample list \<Rightarrow> nat \<times> nat \<times> nat" where
  "summary_counts samples =
    (let n = length (successful samples) in (length samples, n, length samples - n))"

lemma summary_counts_add:
  "summary_counts samples = (n, good, bad) \<Longrightarrow> good + bad = n \<and> bad = length (filter (\<lambda>s. \<not> smSuccess s) samples)"
  using sum_length_filter_compl [of smSuccess samples]
  by (auto simp: summary_counts_def successful_def Let_def)

section \<open>The median of the priority benchmark\<close>

text \<open>The inner loop of the sort: the element at the index sinks to its place.\<close>

fun sink :: "nat \<Rightarrow> 'v::linorder list \<Rightarrow> 'v list" where
  "sink 0 xs = xs"
| "sink (Suc j) xs =
    (if xs ! j > xs ! Suc j then sink j (xs[j := xs ! Suc j, Suc j := xs ! j]) else xs)"

definition stats_sort :: "'v::linorder list \<Rightarrow> 'v list" where
  "stats_sort xs = fold sink [1..<length xs] xs"

definition stats_p50 :: "'v::{zero, linorder} list \<Rightarrow> 'v" where
  "stats_p50 vals = (if vals = [] then 0 else stats_sort vals ! (length vals div 2))"

lemma sink_place:
  "sorted ys \<Longrightarrow> sink (length ys) (ys @ x # zs) = filter (\<lambda>y. y \<le> x) ys @ x # filter (\<lambda>y. y > x) ys @ zs"
proof (induction ys arbitrary: zs rule: rev_induct)
  case (snoc y ys)
  show ?case
  proof (cases "y > x")
    case True
    then show ?thesis using snoc by (simp add: nth_append sorted_append list_update_append)
  next
    case False
    then have "\<forall>z \<in> set ys. z \<le> x" "y \<le> x" using snoc.prems by (auto simp: sorted_append)
    then have "filter (\<lambda>z. z \<le> x) ys = ys" "filter (\<lambda>z. z > x) ys = []" by (auto simp: filter_id_conv filter_empty_conv not_less)
    then show ?thesis using False \<open>y \<le> x\<close> by (simp add: nth_append)
  qed
qed simp

lemma place_sorted:
  assumes "sorted ys"
  shows "filter (\<lambda>y. y \<le> x) ys @ x # filter (\<lambda>y. y > x) ys = sort (x # ys)"
proof (rule properties_for_sort [symmetric])
  show "mset (filter (\<lambda>y. y \<le> x) ys @ x # filter (\<lambda>y. y > x) ys) = mset (x # ys)"
    using multiset_partition [of "mset ys" "\<lambda>y. y \<le> x"] by (simp add: not_le)
  show "sorted (filter (\<lambda>y. y \<le> x) ys @ x # filter (\<lambda>y. y > x) ys)"
    using assms by (auto simp: sorted_append sorted_wrt_filter)
qed

lemma stats_loop:
  assumes "0 < n" "n \<le> length xs"
  shows "fold sink [1..<n] xs = sort (take n xs) @ drop n xs"
  using assms
proof (induction n)
  case (Suc n)
  show ?case
  proof (cases "n = 0")
    case True
    then show ?thesis using Suc.prems by (cases xs) simp_all
  next
    case False
    then have d: "drop n xs = xs ! n # drop (Suc n) xs" using Suc.prems by (simp add: Cons_nth_drop_Suc)
    have "fold sink [1..<Suc n] xs = sink n (sort (take n xs) @ drop n xs)" using Suc False by simp
    also have "\<dots> = sort (xs ! n # sort (take n xs)) @ drop (Suc n) xs"
      using sink_place [of "sort (take n xs)" "xs ! n" "drop (Suc n) xs"] place_sorted [of "sort (take n xs)" "xs ! n"] Suc.prems
      by (simp add: d min_def)
    also have "sort (xs ! n # sort (take n xs)) = sort (take (Suc n) xs)"
      using Suc.prems by (intro properties_for_sort) (simp_all add: take_Suc_conv_app_nth)
    finally show ?thesis .
  qed
qed simp

text \<open>The sort of the benchmark sorts, and its median is the one of the sorted values.\<close>

lemma stats_sort_sorts: "stats_sort xs = sort xs"
  using stats_loop [of "length xs" xs] by (cases xs) (simp_all add: stats_sort_def)

lemma stats_median: "vals \<noteq> [] \<Longrightarrow> stats_p50 vals = sort vals ! (length vals div 2)"
  by (simp add: stats_p50_def stats_sort_sorts)

section \<open>The attacks\<close>

definition attack_connect :: "gostring \<Rightarrow> packet" where
  "attack_connect i = no_packet\<lparr>pkProtocolVersion := 5, pkFixedHeader := no_header\<lparr>fhType := Connect\<rparr>,
     pkConnect := no_connect\<lparr>cProtocolName := lit ''MQTT'', cClean := True, cKeepalive := 60, cClientIdentifier := i\<rparr>\<rparr>"

definition attack_properties :: "nat \<Rightarrow> nat \<Rightarrow> nat \<Rightarrow> user_property list" where
  "attack_properties propCount keySize valSize =
     replicate propCount \<lparr>Key = replicate keySize 107, Val = replicate valSize 118\<rparr>"

definition attack_publish :: "user_property list \<Rightarrow> gostring \<Rightarrow> packet" where
  "attack_publish props topic = no_packet\<lparr>pkProtocolVersion := 5,
     pkFixedHeader := no_header\<lparr>fhType := Publish, fhQos := 0, fhRetain := True\<rparr>,
     pkTopicName := topic, pkPayload := lit ''malicious'', pkProperties := no_properties\<lparr>pUser := props\<rparr>\<rparr>"

definition attack_auth :: packet where
  "attack_auth = no_packet\<lparr>pkProtocolVersion := 5, pkFixedHeader := no_header\<lparr>fhType := Auth\<rparr>, pkReasonCode := 0\<rparr>"

text \<open>The validator turns away every message of the injector whose properties are beyond a limit.\<close>

lemma attack_size: "user_size (attack_properties n k v) = int n * (int k + int v)"
  by (induction n) (simp_all add: attack_properties_def algebra_simps)

lemma attack_refused:
  assumes "n > 0"
    and "int n > MaxProperties cfg \<or> int k > MaxKeySize cfg \<or> int v > MaxValueSize cfg
      \<or> int n * (int k + int v) > MaxPropertyPayload cfg"
    and "pvConfig h = cfg"
  shows "snd (snd (Validator_OnPublish h cl (attack_publish (attack_properties n k v) topic))) = Some (ECode ErrRejectPacket)"
proof -
  have "\<not> within_limits cfg (attack_properties n k v)"
    using assms(1,2) attack_size [of n k v] by (auto simp: within_limits_def attack_properties_def list_all_iff)
  moreover have "attack_properties n k v \<noteq> []" using assms(1) by (simp add: attack_properties_def)
  ultimately show ?thesis
    using assms(3) by (simp add: Validator_OnPublish_spec Let_def attack_publish_def)
qed

text \<open>With the defaults of the injector, fifty properties, the defaults of the validator refuse it.\<close>

lemma default_attack_refused:
  "pvConfig h = default_validator_config \<Longrightarrow>
     snd (snd (Validator_OnPublish h cl (attack_publish (attack_properties 50 100 100) topic))) = Some (ECode ErrRejectPacket)"
  by (rule attack_refused) (simp_all add: default_validator_config_def)

text \<open>The AUTH packets of the flood are valid: only the limit on their number stops them.\<close>

lemma attack_auth_valid: "AuthValidate attack_auth = CodeSuccess"
  by (simp add: AuthValidate_def attack_auth_def no_packet_def CodeSuccess_def mk_code_def)

end
