(* ===== verification/Mqtt_Main.thy ===== *)
theory Mqtt_Main
  imports Mqtt_BrokerLaws Mqtt_Network
begin

text \<open>
  \<open>main\<close> of \<open>cmd/main.go\<close> as a whole: from the flags and the environment to a server with its hooks
  and its listeners.  \<open>log.Fatal\<close> ends the program: the result is then the error.
\<close>

section \<open>Flags\<close>

definition defaultTLSProfileFromEnv :: "unicode \<Rightarrow> (gostring \<Rightarrow> gostring) \<Rightarrow> gostring" where
  "defaultTLSProfileFromEnv u getenv =
    (let p1 = TrimSpace u (getenv (lit ''TLS_PROFILE'')); p2 = TrimSpace u (getenv (lit ''PROFILE''));
         p3 = TrimSpace u (getenv (lit ''MQTT_TLS_PROFILE''))
     in if p1 \<noteq> [] then p1 else if p2 \<noteq> [] then p2 else if p3 \<noteq> [] then p3 else ProfileBalanced)"

text \<open>The flags with their defaults; \<open>parse\<close> is \<open>flag.Parse\<close>, which overwrites those that are given.\<close>

definition parseBrokerConfig ::
    "unicode \<Rightarrow> (gostring \<Rightarrow> gostring) \<Rightarrow> (broker_config \<Rightarrow> broker_config) \<Rightarrow> broker_config" where
  "parseBrokerConfig u getenv parse =
     parse \<lparr>bcTcpAddr = lit '':1883'', bcWsAddr = lit '':1882'', bcInfoAddr = lit '':8080'', bcTlsCertFile = [],
       bcTlsKeyFile = [], bcTlsSessionResumption = True, bcTlsProfile = defaultTLSProfileFromEnv u getenv,
       bcModules = [], bcQuicAddr = lit '':1883''\<rparr>"

section \<open>Listeners\<close>

definition listener_at :: "gostring \<Rightarrow> gostring \<Rightarrow> 'c tls_config option \<Rightarrow> 'c listener_config" where
  "listener_at i address tls = \<lparr>lcType = [], lcID = i, lcAddress = address, lcTLSConfig = tls\<rparr>"

definition broker_listeners ::
    "('c, 'w) network \<Rightarrow> broker_config \<Rightarrow> broker_runtime \<Rightarrow> 'c tls_config option \<Rightarrow> 'c listeners \<times> 'w
      \<Rightarrow> error + ('c listeners \<times> 'w)" where
  "broker_listeners nw cfg rt tls tw =
    (case AddListener nw (NewTCP (listener_at (lit ''t1'') (bcTcpAddr cfg) tls)) tw of
       (Some err, _) \<Rightarrow> Inl err
     | (None, tw) \<Rightarrow>
         (case (if brQuicTransport rt then
                  (case tls of
                     None \<Rightarrow> (Some (ENew (lit ''quic-transport requires TLS to be configured (--tls-cert-file and --tls-key-file)'')), tw)
                   | Some _ \<Rightarrow> AddListener nw (NewQUIC (listener_at (lit ''q1'') (bcQuicAddr cfg) tls)) tw)
                else (None, tw)) of
            (Some err, _) \<Rightarrow> Inl err
          | (None, tw) \<Rightarrow>
              (case AddListener nw (NewWebsocket (listener_at (lit ''ws1'') (bcWsAddr cfg) None)) tw of
                 (Some err, _) \<Rightarrow> Inl err
               | (None, tw) \<Rightarrow>
                   (case AddListener nw (NewHTTPStats (listener_at (lit ''info'') (bcInfoAddr cfg) None)) tw of
                      (Some err, _) \<Rightarrow> Inl err
                    | (None, tw) \<Rightarrow> Inr tw))))"

section \<open>The program\<close>

definition zero_options :: options where
  "zero_options = \<lparr>oCapabilities = NewDefaultServerCapabilities, oClientNetWriteBufferSize = 0,
     oClientNetReadBufferSize = 0, oSysTopicResendInterval = 0, oInlineClient = False\<rparr>"

text \<open>Everything up to \<open>Serve\<close>.\<close>

definition broker_setup ::
    "unicode \<Rightarrow> (gostring \<Rightarrow> gostring \<Rightarrow> error + 'c) \<Rightarrow> crypto \<Rightarrow> ('c, 'w) network \<Rightarrow> int \<Rightarrow> modules \<Rightarrow> 'w \<Rightarrow> broker_config
      \<Rightarrow> error + (broker_runtime \<times> 'c tls_config option \<times> 'c listeners \<times> 'w \<times> modules server)" where
  "broker_setup u load cr nw now mods w cfg =
    (case validateBrokerConfig u cfg of
       Some err \<Rightarrow> Inl err
     | None \<Rightarrow>
         check (resolveEnabledModules u cfg) (\<lambda>err. err) (\<lambda>enabledModules.
         check (buildBrokerRuntime u enabledModules cfg) (\<lambda>err. err) (\<lambda>rt.
         check (buildTLSConfig u load cfg rt) (\<lambda>err. err) (\<lambda>tls.
           (case configure_broker cr rt (New now None zero_options mods) of
              (Some err, _) \<Rightarrow> Inl err
            | (None, sv) \<Rightarrow>
                check (broker_listeners nw cfg rt tls (Listeners_New, w)) (\<lambda>err. err) (\<lambda>(t, w).
                Inr (rt, tls, t, w, sv)))))))"

text \<open>\<open>Serve\<close>, with no listeners and hooks of a configuration, in the order \<open>ids\<close> of the map.\<close>

definition broker_serve ::
    "unicode \<Rightarrow> ('c, 'w) network \<Rightarrow> gostring list \<Rightarrow> int \<Rightarrow> int \<Rightarrow> int \<Rightarrow> 'c listeners \<times> 'w \<times> modules server
      \<Rightarrow> error option \<times> ('c listeners \<times> 'w \<times> modules server)" where
  "broker_serve u nw ids mem threads now tws = Network_Serve u nw [] ids mem threads now [] tws"

section \<open>What it sets up\<close>

lemma AddListener_adds:
  assumes "AddListener nw l (t, w) = (None, (t', w'))"
  shows "\<exists>l'. t' = m_set (lsID l) l' t \<and> m_get t (lsID l) = None \<and> lsConfig l' = lsConfig l \<and> lsKind l' = lsKind l
    \<and> (map_ok t \<longrightarrow> map_ok t')"
proof -
  obtain l' where l: "Listener_Init nw l w = (None, l', w')" "t' = Listeners_Add l' t" "m_get t (lsID l) = None"
    using AddListener_result(1) [OF assms] by blast
  have "lsID l' = lsID l \<and> lsConfig l' = lsConfig l \<and> lsKind l' = lsKind l"
    using l(1) by (auto simp: Init_defs opened_def split: listener_kind.splits prod.splits sum.splits option.splits if_splits)
  then show ?thesis using l(2,3) by (auto simp: Listeners_defs)
qed

lemma new_fields [simp]:
  "lsID (NewTCP c) = lcID c" "lsConfig (NewTCP c) = c" "lsKind (NewTCP c) = TCP" "never_closed (NewTCP c)"
  "lsID (NewQUIC c) = lcID c" "lsConfig (NewQUIC c) = c" "lsKind (NewQUIC c) = QUIC" "never_closed (NewQUIC c)"
  "lsID (NewWebsocket c) = lcID c" "lsConfig (NewWebsocket c) = c" "lsKind (NewWebsocket c) = Websocket" "never_closed (NewWebsocket c)"
  "lsID (NewHTTPStats c) = lcID c" "lsConfig (NewHTTPStats c) = c" "lsKind (NewHTTPStats c) = HTTPStats" "never_closed (NewHTTPStats c)"
  by (simp_all add: NewTCP_def NewQUIC_def NewWebsocket_def NewHTTPStats_def new_listener_def never_closed_def)

lemma listener_at_fields [simp]:
  "lcID (listener_at i a c) = i" "lcTLSConfig (listener_at i a c) = c" "lcAddress (listener_at i a c) = a"
  by (simp_all add: listener_at_def)

lemma listener_names: "lit ''t1'' \<noteq> lit ''q1''" "lit ''t1'' \<noteq> lit ''ws1''" "lit ''t1'' \<noteq> lit ''info''"
  "lit ''q1'' \<noteq> lit ''ws1''" "lit ''q1'' \<noteq> lit ''info''" "lit ''ws1'' \<noteq> lit ''info''"
  by (simp_all add: lit_def)

text \<open>The listeners of the broker, each with what it does about TLS.\<close>

definition tls_of :: "'c listeners \<Rightarrow> gostring \<Rightarrow> 'c tls_config option option" where
  "tls_of t i = map_option (\<lambda>l. lcTLSConfig (lsConfig l)) (m_get t i)"

lemma add_one:
  assumes "AddListener nw l (t, w) = (None, (t', w'))" "listeners_ok t" "never_closed l"
  shows "listeners_ok t'" "dom (m_get t') = insert (lsID l) (dom (m_get t))"
    "tls_of t' i = (if i = lsID l then Some (lcTLSConfig (lsConfig l)) else tls_of t i)"
proof -
  show "listeners_ok t'" using AddListener_ok [OF assms(2,3), of nw w] assms(1) by simp
  from AddListener_adds [OF assms(1)] obtain l' where "t' = m_set (lsID l) l' t" "lsConfig l' = lsConfig l" by blast
  then show "dom (m_get t') = insert (lsID l) (dom (m_get t))"
    "tls_of t' i = (if i = lsID l then Some (lcTLSConfig (lsConfig l)) else tls_of t i)"
    by (auto simp: tls_of_def split: if_splits)
qed

lemma broker_listeners_result:
  assumes "broker_listeners nw cfg rt tls (Listeners_New, w) = Inr (t, w')"
  shows "listeners_ok t"
    and "dom (m_get t) = {lit ''t1'', lit ''ws1'', lit ''info''} \<union> (if brQuicTransport rt then {lit ''q1''} else {})"
    and "tls_of t (lit ''t1'') = Some tls" "tls_of t (lit ''ws1'') = Some None" "tls_of t (lit ''info'') = Some None"
    and "brQuicTransport rt \<longrightarrow> tls \<noteq> None \<and> tls_of t (lit ''q1'') = Some tls"
proof -
  obtain t1 w1 where 1: "AddListener nw (NewTCP (listener_at (lit ''t1'') (bcTcpAddr cfg) tls)) (Listeners_New, w) = (None, (t1, w1))"
    using assms by (auto simp: broker_listeners_def split: prod.splits option.splits if_splits)
  note a = add_one [OF 1 listeners_ok_New new_fields(4)]
  have "\<exists>t2 w2. (if brQuicTransport rt then \<exists>c. tls = Some c
        \<and> AddListener nw (NewQUIC (listener_at (lit ''q1'') (bcQuicAddr cfg) tls)) (t1, w1) = (None, (t2, w2)) else t2 = t1 \<and> w2 = w1)
      \<and> (\<exists>t3 w3. AddListener nw (NewWebsocket (listener_at (lit ''ws1'') (bcWsAddr cfg) None)) (t2, w2) = (None, (t3, w3))
      \<and> AddListener nw (NewHTTPStats (listener_at (lit ''info'') (bcInfoAddr cfg) None)) (t3, w3) = (None, (t, w')))"
    using assms 1 by (auto simp: broker_listeners_def split: prod.splits option.splits if_splits)
  then obtain t2 w2 t3 w3 where 2: "if brQuicTransport rt then \<exists>c. tls = Some c
        \<and> AddListener nw (NewQUIC (listener_at (lit ''q1'') (bcQuicAddr cfg) tls)) (t1, w1) = (None, (t2, w2)) else t2 = t1 \<and> w2 = w1"
    and 3: "AddListener nw (NewWebsocket (listener_at (lit ''ws1'') (bcWsAddr cfg) None)) (t2, w2) = (None, (t3, w3))"
    and 4: "AddListener nw (NewHTTPStats (listener_at (lit ''info'') (bcInfoAddr cfg) None)) (t3, w3) = (None, (t, w'))"
    by blast
  have b: "listeners_ok t2 \<and> dom (m_get t2) = insert (lit ''t1'') (if brQuicTransport rt then {lit ''q1''} else {})
      \<and> tls_of t2 (lit ''t1'') = Some tls \<and> (brQuicTransport rt \<longrightarrow> tls \<noteq> None \<and> tls_of t2 (lit ''q1'') = Some tls)"
  proof (cases "brQuicTransport rt")
    case True
    then have q: "AddListener nw (NewQUIC (listener_at (lit ''q1'') (bcQuicAddr cfg) tls)) (t1, w1) = (None, (t2, w2))" "tls \<noteq> None"
      using 2 by auto
    show ?thesis
      using add_one [OF q(1) a(1) new_fields(8)] a(2,3) q(2) True listener_names by (auto simp: Listeners_New_def)
  next
    case False
    then show ?thesis using 2 a by (simp add: Listeners_New_def)
  qed
  then have "listeners_ok t2" by simp
  note c = add_one [OF 3 this new_fields(12)]
  note d = add_one [OF 4 c(1) new_fields(16)]
  show "listeners_ok t" by (rule d(1))
  show "dom (m_get t) = {lit ''t1'', lit ''ws1'', lit ''info''} \<union> (if brQuicTransport rt then {lit ''q1''} else {})"
    using b c(2) d(2) by auto
  show "tls_of t (lit ''t1'') = Some tls" "tls_of t (lit ''ws1'') = Some None" "tls_of t (lit ''info'') = Some None"
    "brQuicTransport rt \<longrightarrow> tls \<noteq> None \<and> tls_of t (lit ''q1'') = Some tls"
    using b c(3) d(3) listener_names by simp_all
qed

lemma New_hooks: "opHooks (svOps (New now None zero_options mods)) = []"
  by (simp add: New_def Let_def ensureDefaults_def zero_options_def)

lemma case_configured:
  "(case configure_broker cr rt sv of (Some err, _) \<Rightarrow> f err | (None, sv) \<Rightarrow> g sv) = g (snd (configure_broker cr rt sv))"
  using configured_hooks [of cr rt sv] by (cases "configure_broker cr rt sv") simp

lemma broker_setup_result:
  assumes "broker_setup u load cr nw now mods w cfg = Inr (rt, tls, t, w', sv)"
  shows "broker_listeners nw cfg rt tls (Listeners_New, w) = Inr (t, w')"
    and "opHooks (svOps sv) = broker_hooks cr rt"
    and "brMessageIntegrity rt \<longrightarrow> miConfig (moIntegrity (opState (svOps sv))) = broker_integrity"
    and "buildTLSConfig u load cfg rt = Inr tls"
proof -
  have c: "sv = snd (configure_broker cr rt (New now None zero_options mods))"
    and l: "broker_listeners nw cfg rt tls (Listeners_New, w) = Inr (t, w')" and b: "buildTLSConfig u load cfg rt = Inr tls"
    using assms unfolding broker_setup_def case_configured by (auto simp: result_iff split: option.splits)
  show "broker_listeners nw cfg rt tls (Listeners_New, w) = Inr (t, w')" "buildTLSConfig u load cfg rt = Inr tls" by fact+
  show "opHooks (svOps sv) = broker_hooks cr rt"
    "brMessageIntegrity rt \<longrightarrow> miConfig (moIntegrity (opState (svOps sv))) = broker_integrity"
    using configured_hooks [of cr rt "New now None zero_options mods"] c New_hooks [of now mods] by simp_all
qed

text \<open>With a certificate, the TCP listener speaks TLS 1.2 or later.\<close>

lemma built_tls:
  assumes "buildTLSConfig u load cfg rt = Inr tls"
  shows "tls \<noteq> None \<longleftrightarrow> bcTlsCertFile cfg \<noteq> [] \<and> bcTlsKeyFile cfg \<noteq> []"
    and "tls = Some c \<Longrightarrow> tlMinVersion c \<ge> VersionTLS12 \<and> tlNextProtos c = [lit ''mqtt'']
      \<and> tlSessionTicketsDisabled c = (\<not> brTlsSessionResumption rt)"
  using assms
  by (auto simp: buildTLSConfig_def Let_def GetTLSConfig_def no_tls_config_def VersionTLS12_def VersionTLS13_def
      split: if_splits sum.splits)

end
