(* ===== verification/Spec2Isabelle.thy ===== *)
theory Spec2Isabelle
  imports Mqtt_DecoderSafety Mqtt_Auth Mqtt_AuthDefense Mqtt_Routing Mqtt_Security Mqtt_Reload Mqtt_BrokerLaws
    Mqtt_Typing Mqtt_CaseTable Mqtt_Network Mqtt_Websocket Mqtt_Config Mqtt_Bufpool
    Mqtt_Tools Mqtt_Main
begin

text \<open>
  A verification library for an MQTT broker (Go, \<open>src/broker\<close>), versions 3 and 5 of the protocol.

  \<^bold>\<open>The program.\<close>  A connection delivers bytes; \<open>clients.go\<close> reads packets from them with the codecs
  of \<open>packets/\<close>, keeps the state of the client (identifiers, in-flight messages, aliases) and writes
  packets back.  \<open>server.go\<close> has a table of clients, handles their packets, takes over sessions, queues
  messages for subscribers and expires what is old.  Subscriptions and retained messages live in the
  tree of \<open>topics.go\<close>.  Between them, \<open>hooks.go\<close> asks a chain of hooks: the access ledger
  (\<open>hooks/auth\<close>), the modules for defence, routing and security (\<open>modules/\<close>) and the hooks that keep
  the state in a database (\<open>hooks/storage\<close>), from which the next server starts.

  \<^bold>\<open>The theories of the codecs and of the data.\<close>
  \<^item> \<open>Mqtt_Prelude\<close>: bytes, Go strings and maps, the locales of a store and of a counted store.
  \<^item> \<open>Mqtt_Codes\<close>, \<open>Mqtt_Codec\<close>, \<open>Mqtt_Properties\<close>, \<open>Mqtt_Packets\<close>: codes, primitive codecs,
    properties and packets (\<open>packets/*.go\<close>).  Decoders return a sum of an error and a value; an index
    out of range is the error \<open>EPanic\<close>.  \<open>Mqtt_PropertiesLaws\<close>, \<open>Mqtt_Roundtrip\<close> and
    \<open>Mqtt_DecoderSafety\<close> prove that what is encoded is decoded again and where decoders panic;
    \<open>Mqtt_Typing\<close>, that what is decoded is well formed and can be sent on.
  \<^item> \<open>Mqtt_Cases\<close>: a test case of the codecs and the checks of \<open>packets_test.go\<close>.  The theories
    \<open>Mqtt_CasesConnect\<close>, \<open>Mqtt_CasesConnack\<close>, \<open>Mqtt_CasesPublish\<close>, \<open>Mqtt_CasesAcks\<close>,
    \<open>Mqtt_CasesSubscribe\<close> and \<open>Mqtt_CasesOther\<close> hold the cases of \<open>tpackets.go\<close> by packet type, one
    definition each, and evaluate the checks; \<open>Mqtt_CaseTable\<close> puts them together.
  \<^item> \<open>Mqtt_Bufpool\<close>: the pool of buffers, whose buffers are empty however it is used.
  \<^item> \<open>Mqtt_Inflight\<close>, \<open>Mqtt_Subscriptions\<close>: \<open>inflight.go\<close> and the maps and aliases of \<open>topics.go\<close>.
  \<^item> \<open>Mqtt_Filters\<close>, \<open>Mqtt_Topics\<close>: levels and validity of filters, and the tree of particles.  A
    particle is a datatype; a pointer to a particle is the path from the root, so that the parent
    pointers of the code need no store.  \<open>Mqtt_TopicTree\<close> (views and invariants of the tree),
    \<open>Mqtt_TopicSpec\<close> (the index as a store and the specification by histories),
    \<open>Mqtt_TopicMatch\<close>, \<open>Mqtt_RetainMatch\<close> (what a scan finds) and \<open>Mqtt_TopicHistory\<close> (what a
    history of operations leaves to be found) hold the proofs.

  \<^bold>\<open>The theories of the server.\<close>
  \<^item> \<open>Mqtt_ClientState\<close>, \<open>Mqtt_System\<close>, \<open>Mqtt_Options\<close>, \<open>Mqtt_Client\<close>, \<open>Mqtt_ClientLaws\<close>: \<open>clients.go\<close>, the
    counters and the options.  A connection is the bytes still to be read and the bytes written; the
    clock is an argument.
  \<^item> \<open>Mqtt_Hooks\<close>: a hook is a record of functions over the common state of all hooks; a dispatcher
    goes through the list of hooks.
  \<^item> \<open>Mqtt_Server\<close>: the server as a record, with a heap of clients because the code shares pointers to
    them, and the way of a message to its subscribers.  \<open>Mqtt_Handlers\<close>: what every packet does.
    \<open>Mqtt_Session\<close>: a connection from its first byte to its end, and the take-over of a session.
    \<open>Mqtt_Housekeeping\<close>: ticks, system topics, loading a store, starting and closing.
  \<^item> \<open>Mqtt_ServerFrame\<close>, \<open>Mqtt_SessionFrame\<close>: a rule for each operation that says what it may change;
    \<open>Mqtt_ServerRun\<close>: the step relation of the server, its invariant by rule induction, that nothing
    is written to a client that was stopped, and that the read loop ends.  \<open>Mqtt_Exchange\<close> (quality of
    service 2 and quotas), \<open>Mqtt_Delivery\<close> (who gets a message), \<open>Mqtt_Departure\<close> (refused, taken
    over, expired and leaving clients) follow single exchanges.

  \<^bold>\<open>The theories of the hooks.\<close>
  \<^item> \<open>Mqtt_Auth\<close>, \<open>Mqtt_Defense\<close>, \<open>Mqtt_AuthDefense\<close>, \<open>Mqtt_Routing\<close>, \<open>Mqtt_Security\<close>: the ledger and the
    modules.  Timers, goroutines and tickers are steps of a sequence of events.
  \<^item> \<open>Mqtt_Storage\<close>: the stored records.  \<open>Mqtt_Store\<close>: what the four storage hooks have in common, with
    their differences (keys, what a record contains, when it is removed) as a scheme.  \<open>Mqtt_StoreSpec\<close>:
    what a sequence of calls should leave, five maps by key, and the simulation by any database
    whose layout keeps the records apart.  \<open>Mqtt_Database\<close>: an ordered file of keys and the locale of
    reading it by prefix.  \<open>Mqtt_Badger\<close>, \<open>Mqtt_Bolt\<close>, \<open>Mqtt_Pebble\<close>, \<open>Mqtt_Redis\<close>: the hooks of
    \<open>hooks/storage/*\<close>.  \<open>Mqtt_Restart\<close>, \<open>Mqtt_Reload\<close>: what the next server reads back and finds.
  \<^item> \<open>Mqtt_Ebpf\<close>: the connection filter.  \<open>Mqtt_Modules\<close>: every module as a hook of the chain, over one state
    of all modules.

  \<^item> \<open>Mqtt_Debug\<close>: the debugging hook as the list of what it logs, and when a password is in it.

  \<^bold>\<open>The theories of the network.\<close>
  \<^item> \<open>Mqtt_Listeners\<close>: \<open>listeners/*.go\<close>, the types of listeners over a network (opening and closing a
    socket) and their table.  \<open>Mqtt_Websocket\<close>: the connection over websocket messages, and that reading
    it gives their bytes as one stream.
  \<^item> \<open>Mqtt_Network\<close>: \<open>AddListener\<close>, \<open>AddListenersFromConfig\<close>, \<open>Serve\<close> and \<open>Close\<close> of the server with its
    table of listeners; a client relation of \<open>Mqtt_ServerFrame\<close> shows that a shutdown closes the clients.

  \<^bold>\<open>The theories of the broker.\<close>
  \<^item> \<open>Mqtt_TLS\<close>: \<open>tls_profiles.go\<close>, a configuration as a record of the fields that the code sets.
  \<^item> \<open>Mqtt_Broker\<close>: \<open>cmd/main.go\<close> from the parsed flags to the server with its chain of hooks.
    \<open>Mqtt_BrokerLaws\<close>: which modules a flag enables, and what that chain rejects and grants.
    \<open>Mqtt_Main\<close>: \<open>main\<close> as a whole, with its flags and listeners, up to the server that is served.
  \<^item> \<open>Mqtt_Config\<close>: \<open>config/config.go\<close>, from the bytes of a file to options, hooks and listeners.
  \<^item> \<open>Mqtt_Tools\<close>: of the tools under \<open>src/client\<close>, how they dial a broker, what they compute for their
    statistics, and that the validator refuses the packets of the injector.

  \<^bold>\<open>Termination and bounds.\<close>  Loops over lists are structural; the loops over bytes and over the
  levels of a topic have a measure; the search for a packet identifier and the read loop of a
  connection are partial functions, and \<open>next_packet_id\<close> and \<open>connection_returns\<close> show that they
  return.  No fuel is used.  Machine integers are words wherever the code computes with them;
  counters of 64 bits are integers.

  \<^bold>\<open>Parameters.\<close>  The databases and their client libraries, the JSON, YAML and base64 codings, the
  message authentication code, the password hash, the case tables of Unicode, the sockets and the
  websocket library are arguments, with their documented laws as hypotheses; a database, a network and
  a websocket in memory show that the laws can hold.

  \<^bold>\<open>Not modelled.\<close>  The inside of sockets, TLS and HTTP servers and the pages of the two HTTP listeners;
  the parser of flags, signals and log output of \<open>cmd/\<close>; the kernel side of the connection
  filter (\<open>ebpf/backend.go\<close> and the generated loaders); the loops of the tools under \<open>src/client\<close>,
  which drive a running broker with timers, goroutines and a client library.  Locks: every operation is
  one step.
\<close>

section \<open>Concrete inputs for the witnesses\<close>

definition sub_a :: subscription where
  "sub_a = no_subscription\<lparr>sFilter := [97, 47, 43], sQos := 1\<rparr>"

definition sub_a0 :: subscription where
  "sub_a0 = no_subscription\<lparr>sFilter := [97, 47, 35], sQos := 0\<rparr>"

definition shared_a :: subscription where
  "shared_a = no_subscription\<lparr>sFilter := lit ''$share/g/a''\<rparr>"

definition topic_ab :: gostring where "topic_ab = [97, 47, 98]"

definition message_ab :: packet where
  "message_ab = no_packet\<lparr>pkTopicName := topic_ab, pkPayload := [1]\<rparr>"

lemma segs_ab [simp]: "segs topic_ab = [[97], [98]]"
  by (simp add: topic_ab_def)

lemma plain_topic_ab [simp]: "plain_topic topic_ab"
  by (simp add: plain_topic_def) (simp add: topic_ab_def)

lemma choice_of_two: "(if a then Some x else if b then Some y else None) = Some s \<Longrightarrow> s = x \<or> s = y"
  by (auto split: if_splits)

lemma unshared_filters [simp]: "\<not> IsSharedFilter [97, 47, 43]"
  by code_simp

lemma unshared_hash [simp]: "\<not> IsSharedFilter [97, 47, 35]"
  by code_simp

lemma utf8_ascii: "list_all (\<lambda>b. b < 0x80) s \<Longrightarrow> utf8_Valid s"
  by (induction s) simp_all

lemma ascii_text: "list_all (\<lambda>b. b < 0x80 \<and> b \<noteq> 0) s \<Longrightarrow> length s < 65536 \<Longrightarrow> text_ok s"
  using utf8_ascii [of s] by (auto simp: text_ok_def validUTF8_def list_all_iff)

section \<open>A small server for the witnesses\<close>

definition sub_plain :: subscription where
  "sub_plain = no_subscription\<lparr>sFilter := [97], sQos := 1\<rparr>"

definition open_options :: options where
  "open_options = \<lparr>oCapabilities = NewDefaultServerCapabilities, oClientNetWriteBufferSize = 2048,
     oClientNetReadBufferSize = 2048, oSysTopicResendInterval = 1, oInlineClient = False\<rparr>"

definition allowing :: "unit hook" where
  "allowing = HookBase\<lparr>hkProvides := (\<lambda>_. True), hkOnACLCheck := (\<lambda>s cl topic write. (s, True))\<rparr>"

text \<open>Client 0 has the name \<open>c\<close>, a connection and one subscription; it may send five messages.\<close>

definition subscriber :: client where
  "subscriber = upd_inflight (ResetReceiveQuota 5) (upd_state (csSubscriptions_update (\<lambda>_. [([97], sub_plain)]))
     ((newClient (Some ([], [])) 0)\<lparr>clID := [99]\<rparr>))"

definition small_server :: "unit hook list \<Rightarrow> unit server" where
  "small_server hs = \<lparr>svOps = \<lparr>opOptions = open_options, opInfo = no_info, opHooks = hs, opState = ()\<rparr>,
     svTopics = index_run [OpSubscribe [99] sub_plain], svClients = [([99], 0)],
     svHeap = (\<lambda>r. if r = 0 then subscriber else (newClient None 0)\<lparr>clID := [99]\<rparr>), svNext = 2,
     svWillDelayed = [], svInlineClient = None, svDelivered = [], svDone = False\<rparr>"


section \<open>The server\<close>

text \<open>C1: in every state that the server reaches, whatever its clients, hooks and ticks do: the quotas
  of every client stay between zero and their maxima, every message in flight is under its own
  identifier, every subscription under its own filter, the table has one client for a name, which is
  the client's own, and the index is what a sequence of its operations made of the empty index.\<close>

theorem server_invariant:
  assumes "reachable sv"
  shows "(\<forall>r. inflight_ok (clInflight (svHeap sv r)) \<and> subscriptions_ok (csSubscriptions (clState (svHeap sv r))))
    \<and> map_ok (svClients sv)
    \<and> (\<forall>name r. Clients_Get (svClients sv) name = Some r \<longrightarrow> clID (svHeap sv r) = name \<and> r < svNext sv)
    \<and> (\<exists>ops. svTopics sv = index_run ops)"
  using reachable_ok [OF assms]
  by (simp add: server_ok_def quotas.all_good_def client_ok_def table_ok_def)

theorem server_invariant_witness:
  "\<exists>ops. svTopics (snd (Server_Publish 3 [97] [1] True 0 (New 0 None open_options ()))) = index_run ops"
proof -
  have "reachable (snd (Server_Publish 3 [97] [1] True 0 (New 0 None open_options ())))"
    by (rule reachable.Step [OF reachable.Start server_step.EmbeddedPublish])
  from server_invariant [OF this] show ?thesis by blast
qed


text \<open>C3: after a client was stopped, nothing that the server does writes to its connection, queues a
  message for it, reopens it or changes its name.\<close>

theorem stopped_is_silent:
  assumes "server_step\<^sup>*\<^sup>* sv sv'" "r < svNext sv" "Closed (svHeap sv r)"
  shows "Closed (svHeap sv' r) \<and> cnOut (clNet (svHeap sv' r)) = cnOut (clNet (svHeap sv r))
    \<and> cnOutbuf (clNet (svHeap sv' r)) = cnOutbuf (clNet (svHeap sv r))
    \<and> csOutbound (clState (svHeap sv' r)) = csOutbound (clState (svHeap sv r))
    \<and> clID (svHeap sv' r) = clID (svHeap sv r)"
  using evolves_steps [OF assms(1)] assms(2,3) by (simp add: evolves_def silent_since_def)

theorem stopped_is_silent_witness:
  "cnOut (clNet (svHeap (InjectPublish 5 None (message_ab\<lparr>pkTopicName := [97]\<rparr>) (leave 4 True 0 (small_server [allowing]))) 0)) = []"
proof -
  let ?sv = "leave 4 True 0 (small_server [allowing])"
  have "server_step\<^sup>*\<^sup>* ?sv (InjectPublish 5 None (message_ab\<lparr>pkTopicName := [97]\<rparr>) ?sv)" by (rule r_into_rtranclp) (rule server_step.Published)
  moreover have "0 < svNext ?sv" "Closed (svHeap ?sv 0)" "cnOut (clNet (svHeap ?sv 0)) = []"
    by (simp_all add: leave_def upd_client_def set_client_def tally_def upd_ops_def small_server_def Stop_def Closed_def
        subscriber_def newClient_def)
  ultimately show ?thesis using stopped_is_silent by metis
qed


definition hello :: packet where
  "hello = no_packet\<lparr>pkTopicName := [97], pkPayload := [104, 105]\<rparr>"






definition hello2 :: packet where
  "hello2 = hello\<lparr>pkFixedHeader := no_header\<lparr>fhType := Publish, fhQos := 2\<rparr>, pkPacketID := 7\<rparr>"



text \<open>C6: the receive quota counts the messages that are not finished: an accepted message with quality
  of service 1 leaves it as it was, one with quality of service 2 takes one of it, and its release
  gives one back and frees the identifier, up to the maximum.\<close>

theorem receive_quota_counts:
  assumes "client_ok (svHeap sv r)" "iReceiveQuota (clInflight (svHeap sv r)) \<noteq> 0" "\<not> cnInline (clNet (svHeap sv r))"
    and "publish_accepted now r pk sv = (None, sv1)" "fhQos (pkFixedHeader pk) \<in> {1, 2}"
    and "processPubrel later r rel sv1 = (None, sv2)" "pkPacketID rel = pkPacketID pk"
    and "\<not> pkReasonCode rel \<ge> Code ErrUnspecifiedError" "ReasonCodeValid rel"
  shows "iReceiveQuota (clInflight (svHeap sv1 r)) = iReceiveQuota (clInflight (svHeap sv r))
      - (if fhQos (pkFixedHeader pk) = 2 then 1 else 0)
    \<and> (fhQos (pkFixedHeader pk) = 2 \<longrightarrow>
        iReceiveQuota (clInflight (svHeap sv2 r)) = iReceiveQuota (clInflight (svHeap sv r))
        \<and> Inflight_Get (clInflight (svHeap sv2 r)) (pkPacketID pk) = None)"
proof (cases "fhQos (pkFixedHeader pk) = 2")
  case False
  then show ?thesis using accepted_qos1 [OF assms(4,3) _ assms(1,2)] assms(5) by simp
next
  case True
  have pos: "0 < iReceiveQuota (clInflight (svHeap sv r))"
    "iReceiveQuota (clInflight (svHeap sv r)) \<le> iMaximumReceiveQuota (clInflight (svHeap sv r))"
    using assms(1,2) by (auto simp: client_ok_def inflight_ok_def)
  have q1: "iReceiveQuota (clInflight (svHeap sv1 r)) = iReceiveQuota (clInflight (svHeap sv r)) - 1"
    using accepted_qos2(2) [OF assms(4,3) True] pos by simp
  have m1: "iMaximumReceiveQuota (clInflight (svHeap sv1 r)) = iMaximumReceiveQuota (clInflight (svHeap sv r))"
    by (rule accepted_maximum [OF assms(4,3)]) (use True in simp)
  have held: "Inflight_Get (clInflight (svHeap sv1 r)) (pkPacketID rel) \<noteq> None"
    using accepted_qos2(1) [OF assms(4,3) True] assms(7) by auto
  from pubrel_inflight(1,3) [OF assms(6) held assms(8,9)] True q1 m1 pos assms(7) show ?thesis by simp
qed

definition release2 :: packet where
  "release2 = no_packet\<lparr>pkFixedHeader := no_header\<lparr>fhType := Pubrel, fhQos := 1\<rparr>, pkPacketID := 7\<rparr>"

definition offline_server :: "unit server" where
  "offline_server = set_client 0 (subscriber\<lparr>clNet := clNet (newClient None 0)\<rparr>) (small_server [])"

lemma offline_accepts: "fst (publish_accepted 5 0 hello2 offline_server) = None"
  by code_simp

lemma offline_releases: "fst (processPubrel 6 0 release2 (snd (publish_accepted 5 0 hello2 offline_server))) = None"
  by code_simp

lemma release2_valid: "ReasonCodeValid release2"
  by code_simp

lemma release2_reason: "\<not> pkReasonCode release2 \<ge> Code ErrUnspecifiedError"
  by code_simp

lemma offline_client: "client_ok (svHeap offline_server 0)" "iReceiveQuota (clInflight (svHeap offline_server 0)) = 5"
  "\<not> cnInline (clNet (svHeap offline_server 0))"
  by (simp_all add: offline_server_def set_client_def subscriber_def client_ok_def newClient_def inflight_ok_def
      ResetReceiveQuota_def NewInflights_def subscriptions_ok_def sub_plain_def NewSubscriptions_def map_ok_def)

theorem receive_quota_counts_witness:
  "iReceiveQuota (clInflight (svHeap (snd (processPubrel 6 0 release2
     (snd (publish_accepted 5 0 hello2 offline_server)))) 0)) = 5"
proof -
  let ?s1 = "snd (publish_accepted 5 0 hello2 offline_server)"
  have a: "publish_accepted 5 0 hello2 offline_server = (None, ?s1)"
    "processPubrel 6 0 release2 ?s1 = (None, snd (processPubrel 6 0 release2 ?s1))"
    using offline_accepts offline_releases by (metis prod.collapse)+
  have "iReceiveQuota (clInflight (svHeap offline_server 0)) \<noteq> 0" by (simp add: offline_client)
  from receive_quota_counts [OF offline_client(1) this offline_client(3) a(1) _ a(2) _ release2_reason release2_valid]
  show ?thesis by (simp add: hello2_def release2_def offline_client)
qed

text \<open>C7: a connection that is refused leaves nothing behind: no entry in the table, no subscription,
  no retained or delivered message, no delayed will and no change of another client; and without a
  hook that authenticates it every connection is refused.\<close>

theorem refused_leaves_nothing:
  assumes "(\<forall>s cl pk. \<not> snd (Hooks_OnConnectAuthenticate (opHooks (svOps sv)) s cl pk))
      \<or> (\<exists>err. fst (establish now fresh listener r sv) = Refused err)"
  defines "sv' \<equiv> snd (establish now fresh listener r sv)"
  shows "(\<exists>err. fst (establish now fresh listener r sv) = Refused err) \<and> svClients sv' = svClients sv
    \<and> svTopics sv' = svTopics sv \<and> svDelivered sv' = svDelivered sv \<and> svWillDelayed sv' = svWillDelayed sv
    \<and> (q = r \<or> svHeap sv' q = svHeap sv q)"
proof -
  have ref: "\<exists>err. fst (establish now fresh listener r sv) = Refused err"
    using assms(1) unauthenticated_refused [of sv now fresh listener r] by blast
  then have "apart r sv sv'" unfolding sv'_def using refused_apart by blast
  then show ?thesis using ref by (auto simp: apart_def)
qed

theorem refused_leaves_nothing_witness:
  "svClients (snd (establish 1 [120] [] 1 (small_server []))) = [([99], 0)]"
  using refused_leaves_nothing [of "small_server []" 1 "[120]" "[]" 1 0] by (simp add: small_server_def)





text \<open>C10: a client that leaves normally publishes nothing: no message is delivered, no will is kept for
  later and no other client changes; and a will without a delay is sent at most once, however often
  the code comes to send it.\<close>

theorem departure:
  "svDelivered (end_session now r None sv) = svDelivered sv \<and> svWillDelayed (end_session now r None sv) = svWillDelayed sv
    \<and> (q = r \<or> svHeap (end_session now r None sv) q = svHeap sv q)
    \<and> (wWillDelayInterval (cpWill (clProperties (svHeap sv r))) = 0 \<longrightarrow>
        sendLWT later r (sendLWT now r sv) = sendLWT now r sv)"
  using leaves_quietly [of r sv now] no_will_no_send [OF will_cleared] by (auto simp: undisturbed_def)

theorem departure_witness: "sendLWT 6 0 (sendLWT 5 0 (small_server [])) = sendLWT 5 0 (small_server [])"
  using departure [where sv = "small_server []" and r = 0 and now = 5 and later = 6]
  by (simp add: small_server_def subscriber_def newClient_def no_will_def)

section \<open>Stores\<close>

text \<open>A store in memory for the witnesses.\<close>

definition subscribe_ab :: packet where
  "subscribe_ab = no_packet\<lparr>pkFixedHeader := no_header\<lparr>fhType := Subscribe\<rparr>, pkFilters := [sub_a]\<rparr>"

text \<open>A coding that is enough for subscriptions to \<open>a/+\<close> of \<open>c\<close>: the identifier and the code.\<close>

definition plain_coding :: coding where
  "plain_coding = \<lparr>ecClient = (\<lambda>x. [0]), ecMessage = (\<lambda>x. [0]), ecSubscription = (\<lambda>x. tbQos x # tbID x),
     ecInfo = (\<lambda>x. [0]), dcClient = (\<lambda>data x. (x, None)), dcMessage = (\<lambda>data x. (x, None)),
     dcSubscription = (\<lambda>data x. ((stored_subscription badger_scheme subscriber sub_a (hd data))\<lparr>tbID := tl data\<rparr>, None)),
     dcInfo = (\<lambda>data x. (x, None))\<rparr>"

lemma one_subscription:
  "caSubscriptions (contents_of sk [CSubscribed subscriber subscribe_ab [c]])
     = Map.empty(skSubscription sk subscriber [97, 47, 43] \<mapsto> stored_subscription sk subscriber sub_a c)"
  "caClients (contents_of sk [CSubscribed subscriber subscribe_ab [c]]) = Map.empty"
  "caRetained (contents_of sk [CSubscribed subscriber subscribe_ab [c]]) = Map.empty"
  "caInflight (contents_of sk [CSubscribed subscriber subscribe_ab [c]]) = Map.empty"
  "caInfo (contents_of sk [CSubscribed subscriber subscribe_ab [c]]) = None"
  using stored_refusal [of subscribe_ab sub_a sk subscriber c]
  by (simp_all add: subscribe_ab_def sub_a_def contents_of_def set_ca_defs no_contents_def)

lemma one_subscription_decodes: "decodes plain_coding (contents_of sk [CSubscribed subscriber subscribe_ab [c]])"
  by (simp add: decodes_def one_subscription decoded_def read_subscription_def UnmarshalBinary_def plain_coding_def
      stored_subscription_def no_st_subscription_def)

text \<open>C11: the four storage hooks keep what they are told: after any sequence of calls of the server, on a
  database that does what is documented of it, reading the clients, subscriptions, retained and
  in-flight messages and the counters gives the records that the calls left, each once, as long as
  their coded forms can be decoded.\<close>

theorem stores_keep_history:
  assumes "lawful_db db vw" "\<forall>k. vw d k = None" "lawful_redis rd rv" "\<forall>l. rv e l = None"
    and "\<forall>sk \<in> {badger_scheme, bolt_scheme, pebble_scheme, redis_scheme}. decodes cd (contents_of sk cs)"
  shows "restores (badger_hook db cd) (hook_calls (badger_hook db cd) cs (Some d)) (contents_of badger_scheme cs)
    \<and> restores (bolt_hook db cd) (hook_calls (bolt_hook db cd) cs (Some d)) (contents_of bolt_scheme cs)
    \<and> restores (pebble_hook db cd) (hook_calls (pebble_hook db cd) cs (Some d)) (contents_of pebble_scheme cs)
    \<and> restores (redis_hook rd hp cd) (hook_calls (redis_hook rd hp cd) cs (Some e)) (contents_of redis_scheme cs)"
  using assms(2,4,5) by (intro conjI keeps_restores [where cd = cd] badger_keeps [OF assms(1)] bolt_keeps [OF assms(1)] pebble_keeps [OF assms(1)]
      redis_keeps [OF assms(3)]) auto

theorem stores_keep_history_witness:
  "let cs = [CSubscribed subscriber subscribe_ab [1]]; h = redis_hook mem_redis (lit ''x'') plain_coding in
     lists (hkStoredSubscriptions (badger_hook mem_db plain_coding) (hook_calls (badger_hook mem_db plain_coding) cs (Some [])))
       (Map.empty(skSubscription badger_scheme subscriber [97, 47, 43] \<mapsto> stored_subscription badger_scheme subscriber sub_a 1))
   \<and> lists (hkStoredSubscriptions h (hook_calls h cs (Some [])))
       (Map.empty(skSubscription redis_scheme subscriber [97, 47, 43] \<mapsto> stored_subscription redis_scheme subscriber sub_a 1))"
  using stores_keep_history [OF mem_db_lawful, of "[]" mem_redis redis_log_view "[]" plain_coding
      "[CSubscribed subscriber subscribe_ab [1]]" "lit ''x''"] mem_redis_lawful
  by (simp add: log_view_def redis_log_view_def one_subscription_decodes restores_def one_subscription Let_def)

text \<open>C12: a server that starts on the store of another one finds its state: \<open>readStore\<close> succeeds, and
  then a topic finds the clients with a stored subscription that matches it, and a topic has the
  retained message that was stored for it.  Loading the clients first calls the same hooks; nothing
  of that changes the other records.\<close>

theorem restart_restores:
  assumes "lawful_db db vw" "\<forall>k. vw d k = None"
    and "(h, sk) \<in> {(badger_hook db cd, badger_scheme), (bolt_hook db cd, bolt_scheme), (pebble_hook db cd, pebble_scheme)}"
    and "decodes cd (contents_of sk cs)" "\<forall>x \<in> ran (caRetained (contents_of sk cs)). tsTopicName x \<noteq> []"
    and "opHooks (svOps sv) = [h]" "opState (svOps sv) = hook_calls h cs (Some d)" "svTopics sv = NewTopicsIndex"
    and "plain_topic t" "ch_hash \<notin> set t" "ch_plus \<notin> set t"
  shows "case readStore now sv of (err, sv') \<Rightarrow> err = None
    \<and> (m_has (sbSubscriptions (TopicsIndex_Subscribers t (svTopics sv'))) c \<longleftrightarrow>
        (\<exists>x \<in> ran (caSubscriptions (contents_of sk cs)). tbClient x = c \<and> \<not> IsSharedFilter (tbFilter x)
           \<and> finds_filter (tbFilter x) t \<and> \<not> hidden_from (tbFilter x) t))
    \<and> (pk \<in> set (TopicsIndex_Messages t (svTopics sv')) \<longleftrightarrow>
        (\<exists>x \<in> ran (caRetained (contents_of sk cs)). tsTopicName x = t \<and> tsPayload x \<noteq> [] \<and> pk = ToPacket x))"
proof -
  have "storage_only h" "keeps_calls cd sk h (Some d)" "t \<noteq> []"
    using assms(2,3,9) badger_keeps [OF assms(1)] bolt_keeps [OF assms(1)] pebble_keeps [OF assms(1)]
    by (auto simp: plain_topic_def)
  then show ?thesis using restart_finds [OF _ _ assms(4-8), of now t c pk] assms(9-11) by (simp add: split_beta)
qed

definition stored_server :: "store_call list \<Rightarrow> log option server" where
  "stored_server cs = \<lparr>svOps = \<lparr>opOptions = open_options, opInfo = no_info, opHooks = [badger_hook mem_db plain_coding],
       opState = hook_calls (badger_hook mem_db plain_coding) cs (Some [])\<rparr>,
     svTopics = NewTopicsIndex, svClients = [], svHeap = (\<lambda>r. subscriber), svNext = 1,
     svWillDelayed = [], svInlineClient = None, svDelivered = [], svDone = False\<rparr>"

lemma stored_server_simps [simp]:
  "opHooks (svOps (stored_server cs)) = [badger_hook mem_db plain_coding]" "svTopics (stored_server cs) = NewTopicsIndex"
  "opState (svOps (stored_server cs)) = hook_calls (badger_hook mem_db plain_coding) cs (Some [])"
  "svHeap (stored_server cs) r = subscriber"
  by (simp_all add: stored_server_def)

lemma a_plus_finds [simp]: "finds_filter [97, 47, 43] topic_ab" "\<not> hidden_from [97, 47, 43] topic_ab" "topic_ab \<noteq> []"
    "ch_hash \<notin> set topic_ab" "ch_plus \<notin> set topic_ab"
  by (simp_all add: finds_filter_def hidden_from_def topic_ab_def plus_parent_def)

theorem restart_restores_witness:
  "m_has (sbSubscriptions (TopicsIndex_Subscribers topic_ab
     (svTopics (snd (readStore 3 (stored_server [CSubscribed subscriber subscribe_ab [1]])))))) [99]"
  using restart_restores [OF mem_db_lawful, where d = "[]" and h = "badger_hook mem_db plain_coding" and sk = badger_scheme
      and cd = plain_coding and cs = "[CSubscribed subscriber subscribe_ab [1]]" and now = 3 and c = "[99]" and t = topic_ab
      and sv = "stored_server [CSubscribed subscriber subscribe_ab [1]]"]
  by (simp add: log_view_def one_subscription_decodes one_subscription split_beta stored_subscription_def
      no_st_subscription_def sub_a_def) (simp add: subscriber_def)



section \<open>The broker\<close>




definition idle_modules :: modules where
  "idle_modules = \<lparr>moNow = 0, moValidator = \<lparr>pvConfig = default_validator_config, pvBudgets = [], pvChecked = 0,
       pvDropped = 0, pvViolations = 0\<rparr>,
     moAuthDefense = \<lparr>adConfig = default_auth_config, adActive = 0, adRates = [], adClients = [], adTimers = [],
       adNextTimer = 0, adReceived = 0, adBlocked = 0, adRejected = 0, adViolations = 0\<rparr>,
     moIntegrity = \<lparr>miConfig = broker_integrity, miChecked = 0, miDropped = 0, miViolations = 0\<rparr>,
     moEbpf = \<lparr>efOptions = \<lparr>eoMaxConnectionsPerSecond = 3\<rparr>, efRates = [], efBlocked = []\<rparr>,
     moPriority = new_priority_hook, moWildcard = \<lparr>wtConfig = broker_wildcards, activeTokens = []\<rparr>\<rparr>"






text \<open>C16: the \<open>--modules\<close> flag enables the supported modules that it names, each once and without
  \<open>baseline\<close>; it is refused only when it names none, one that is not supported, or \<open>baseline\<close> with others.\<close>

theorem module_flags:
  assumes "TrimSpace u (bcModules cfg) \<noteq> []"
  shows "case resolveEnabledModules u cfg of
      Inr ms \<Rightarrow> distinct ms \<and> set ms = set (flag_names u (strings_Split (TrimSpace u (bcModules cfg)) 44)) - {moduleBaseline}
        \<and> set ms \<subseteq> set supportedModules
    | Inl err \<Rightarrow> (let names = set (flag_names u (strings_Split (TrimSpace u (bcModules cfg)) 44)) in
        names = {} \<or> \<not> names \<subseteq> set supportedModules \<or> (moduleBaseline \<in> names \<and> names \<noteq> {moduleBaseline}))"
  using resolved_modules [OF assms] by (cases "resolveEnabledModules u cfg") auto

definition ascii_only :: unicode where
  "ascii_only = \<lparr>ucLower = id, ucUpper = id, ucTrim = id, ucQuote = id\<rparr>"

definition two_modules :: broker_config where
  "two_modules = \<lparr>bcTcpAddr = [], bcWsAddr = [], bcInfoAddr = [], bcTlsCertFile = [], bcTlsKeyFile = [],
     bcTlsSessionResumption = True, bcTlsProfile = [],
     bcModules = lit '' Auth-Defense,message-integrity,,auth-defense'', bcQuicAddr = []\<rparr>"

theorem module_flags_witness:
  "\<exists>ms. resolveEnabledModules ascii_only two_modules = Inr ms \<and> distinct ms \<and> set ms \<subseteq> set supportedModules"
proof -
  have r: "resolveEnabledModules ascii_only two_modules = Inr [moduleAuthDefense, moduleMessageIntegrity]" by code_simp
  have "TrimSpace ascii_only (bcModules two_modules) \<noteq> []" by code_simp
  from module_flags [OF this] have "distinct [moduleAuthDefense, moduleMessageIntegrity]
      \<and> set [moduleAuthDefense, moduleMessageIntegrity] \<subseteq> set supportedModules"
    unfolding r sum.case by blast
  then show ?thesis using r by blast
qed

text \<open>C17: of the connections of one address within a second of its first one, those up to the limit are
  let in by the connection filter and all later ones are rejected.\<close>

theorem flood_banned:
  assumes "m_get (efRates h) ip = None" "eoMaxConnectionsPerSecond (efOptions h) = int (Suc m)"
    and "\<forall>(now, cl, pk) \<in> set ((t, e) # es). remote_ip (cnRemote (clNet cl)) = ip \<and> now - t < second"
  shows "snd (ebpf_run h ((t, e) # es)) = replicate (Suc (min m (length es))) True @ replicate (length es - m) False"
  using assms by (rule flood_rejected)

theorem flood_banned_witness:
  "snd (ebpf_run (moEbpf idle_modules) (replicate 5 (0, newClient None 0, no_packet))) = [True, True, True, False, False]"
proof -
  have five: "replicate 5 (0 :: int, newClient None 0, no_packet) = (0, newClient None 0, no_packet) # replicate 4 (0, newClient None 0, no_packet)"
    by (simp add: numeral_eq_Suc)
  show ?thesis
    using flood_banned [of "moEbpf idle_modules" "remote_ip []" 2 0 "(newClient None 0, no_packet)"
        "replicate 4 (0, newClient None 0, no_packet)"]
    by (simp only: five) (simp add: idle_modules_def newClient_def numeral_eq_Suc)
qed
section \<open>The network\<close>












text \<open>C20: a websocket is a stream: whatever the sizes of its messages, the pieces in which the library
  hands them out and the buffers of the reader, the reads return, what they return is a prefix of the
  messages in order, and with enough reads it is all of them.\<close>

theorem websocket_stream:
  assumes "message_source f pending"
  shows "\<exists>b ws'. ws_reads f lens ws = Some (b, ws') \<and> ws_left pending ws = b @ ws_left pending ws'
    \<and> (0 \<notin> set lens \<and> length (ws_left pending ws) + ws_messages pending ws \<le> length lens \<longrightarrow> ws_left pending ws' = [])"
  by (rule reads_stream [OF assms])

definition framed_bytes :: "(byte list \<times> byte list list) ws_conn" where
  "framed_bytes = \<lparr>wsC = ([], [[16, 2, 0], [], [77]]), wsReading = False\<rparr>"

theorem websocket_stream_witness:
  "\<exists>ws'. ws_reads (memory_frames 2) [2, 5, 2, 2, 9, 9, 9] framed_bytes = Some ([16, 2, 0, 77], ws') \<and> ws_left id ws' = []"
proof -
  have "message_source (memory_frames 2) id" by (rule memory_source) simp
  moreover have "ws_left id framed_bytes = [16, 2, 0, 77]" "ws_messages id framed_bytes = 3"
    by (simp_all add: framed_bytes_def ws_left_def ws_messages_def)
  ultimately show ?thesis
    using websocket_stream [of "memory_frames 2" id "[2, 5, 2, 2, 9, 9, 9]" framed_bytes] by (auto simp del: ws_reads.simps)
qed

section \<open>Subscriptions\<close>

text \<open>C21: after any sequence of subscriptions, unsubscriptions, inline subscriptions and retained
  messages, a topic finds exactly the clients whose latest subscription to some filter was not
  revoked and whose filter matches the topic in the sense of the protocol; the only exceptions are
  the parent level of a plus before a hash and first-level wildcards on dollar topics.\<close>

theorem subscribers_of_history:
  assumes "list_all op_ok ops" "plain_topic t"
  shows "m_has (sbSubscriptions (TopicsIndex_Subscribers t (index_run ops))) c \<longleftrightarrow>
    (\<exists>s. holds ops c s \<and> \<not> IsSharedFilter (sFilter s) \<and> mqtt_match (segs (sFilter s)) (segs t)
       \<and> \<not> plus_parent (segs (sFilter s)) (segs t) \<and> \<not> hidden_from (sFilter s) t)"
  using Subscribers_history [OF assms] by (simp add: finds_filter_def hidden_iff [OF assms(2)])

theorem subscribers_of_history_witness:
  "m_has (sbSubscriptions (TopicsIndex_Subscribers topic_ab
     (index_run [OpSubscribe [1] sub_a, OpSubscribe [2] sub_a, OpUnsubscribe [97, 47, 43] [2]]))) [1]
   \<and> \<not> m_has (sbSubscriptions (TopicsIndex_Subscribers topic_ab
     (index_run [OpSubscribe [1] sub_a, OpSubscribe [2] sub_a, OpUnsubscribe [97, 47, 43] [2]]))) [2]"
proof -
  let ?ops = "[OpSubscribe [1] sub_a, OpSubscribe [2] sub_a, OpUnsubscribe [97, 47, 43] [2]]"
  have sl: "slot [97, 47, 43] c = PlainSlot (path_of [97, 47, 43] 0) c" for c by (simp add: slot_def)
  have h1: "holds ?ops [1] sub_a" by (simp add: holds_def sub_a_def sl)
  have h2: "holds ?ops [2] s \<Longrightarrow> False" for s by (auto simp: holds_def sub_a_def sl split: if_splits)
  have ok: "list_all op_ok ?ops" by simp
  show ?thesis
    using h1 h2
    by (simp only: subscribers_of_history [OF ok plain_topic_ab])
       (auto simp: sub_a_def plus_parent_def hidden_from_def topic_ab_def)
qed

text \<open>C22: the subscription found for a client carries the highest QoS among its matching
  filters, and one of them grants exactly that QoS.\<close>

theorem subscribers_highest_qos:
  assumes "list_all op_ok ops" "plain_topic t"
    and "m_get (sbSubscriptions (TopicsIndex_Subscribers t (index_run ops))) c = Some r"
  shows "(\<forall>s. holds ops c s \<and> \<not> IsSharedFilter (sFilter s) \<and> finds_filter (sFilter s) t
           \<and> \<not> hidden_from (sFilter s) t \<longrightarrow> sQos s \<le> sQos r)
    \<and> (\<exists>s. holds ops c s \<and> \<not> IsSharedFilter (sFilter s) \<and> finds_filter (sFilter s) t
           \<and> \<not> hidden_from (sFilter s) t \<and> sQos s = sQos r)"
  using Subscribers_qos_history [OF assms] hidden_iff [OF assms(2)] by blast

theorem subscribers_highest_qos_witness:
  "\<exists>r. m_get (sbSubscriptions (TopicsIndex_Subscribers topic_ab
     (index_run [OpSubscribe [1] sub_a, OpSubscribe [1] sub_a0]))) [1] = Some r \<and> sQos r = 1"
proof -
  let ?ops = "[OpSubscribe [1] sub_a, OpSubscribe [1] sub_a0]"
  have ok: "list_all op_ok ?ops" by simp
  have sl: "slot [97, 47, 43] c = PlainSlot (path_of [97, 47, 43] 0) c"
    "slot [97, 47, 35] c = PlainSlot (path_of [97, 47, 35] 0) c" for c by (simp_all add: slot_def)
  have ne: "path_of [97, 47, 43] 0 \<noteq> path_of [97, 47, 35] 0" by (simp add: path_of_0)
  have h: "holds ?ops [1] s \<longleftrightarrow> s = sub_a \<or> s = sub_a0" for s
  proof
    assume a: "holds ?ops [1] s"
    then have "slot_history ?ops (slot (sFilter s) [1]) None = Some s" by (simp only: holds_def)
    then have "s = sub_a0 \<or> s = sub_a"
      unfolding slot_history.simps by (rule choice_of_two)
    then show "s = sub_a \<or> s = sub_a0" by (rule disj_commute [THEN iffD1])
  next
    assume "s = sub_a \<or> s = sub_a0"
    then show "holds ?ops [1] s" using ne by (auto simp: holds_def sub_a_def sub_a0_def sl)
  qed
  have m: "finds_filter [97, 47, 43] topic_ab" "finds_filter [97, 47, 35] topic_ab"
    by (simp_all add: finds_filter_def plus_parent_def)
  have d: "\<not> hidden_from f topic_ab" for f by (simp add: hidden_from_def topic_ab_def)
  have "m_has (sbSubscriptions (TopicsIndex_Subscribers topic_ab (index_run ?ops))) [1]"
    unfolding Subscribers_history [OF ok plain_topic_ab] hidden_iff [OF plain_topic_ab]
    using h m d by (intro exI [of _ sub_a]) (simp add: sub_a_def)
  then obtain r where r: "m_get (sbSubscriptions (TopicsIndex_Subscribers topic_ab (index_run ?ops))) [1] = Some r"
    by blast
  have "sQos sub_a \<le> sQos r" "sQos r = 0 \<or> sQos r = 1"
    using subscribers_highest_qos [OF ok plain_topic_ab r] h m d
    by (auto simp: sub_a_def sub_a0_def)
  then have "sQos r = 1" by (auto simp: sub_a_def)
  with r show ?thesis by blast
qed

text \<open>C23: the candidates of a shared filter are exactly the clients that hold that filter, when the
  levels after the share name match the topic.\<close>

theorem shared_of_history:
  assumes "list_all op_ok ops" "plain_topic t"
  shows "m_has (shared_group (sbShared (TopicsIndex_Subscribers t (index_run ops))) F) c \<longleftrightarrow>
    (\<exists>s. holds ops c s \<and> sFilter s = F \<and> IsSharedFilter F \<and> code_match (levels F 2) (segs t))"
  by (rule Shared_history [OF assms])

lemma shared_filter [simp]: "IsSharedFilter (lit ''$share/g/a'')"
  by code_simp

lemma levels_shared [simp]: "levels (lit ''$share/g/a'') 2 = [[97]]"
  by code_simp

lemma segs_a [simp]: "segs [97] = [[97]]"
  by simp

theorem shared_of_history_witness:
  "m_has (shared_group (sbShared (TopicsIndex_Subscribers [97] (index_run [OpSubscribe [1] shared_a])))
     (lit ''$share/g/a'')) [1]"
proof -
  have ok: "list_all op_ok [OpSubscribe [1] shared_a]" by simp
  have t: "plain_topic [97]" by (simp add: plain_topic_def)
  have "holds [OpSubscribe [1] shared_a] [1] shared_a" by (simp add: holds_def)
  then show ?thesis
    by (subst shared_of_history [OF ok t]) (auto simp: shared_a_def simp del: lit_chars)
qed

text \<open>C24: a filter with wildcards finds exactly the retained messages that the history left on the
  topics it matches, without the parent level of a hash and without the $SYS topics at a
  first-level wildcard.\<close>

theorem retained_of_history:
  assumes "list_all op_ok ops" "flt \<noteq> []" "ch_hash \<in> set flt \<or> ch_plus \<in> set flt"
    "[ch_hash] \<notin> set (butlast (segs flt))"
  shows "pk \<in> set (TopicsIndex_Messages flt (index_run ops)) \<longleftrightarrow>
    (\<exists>t. retained_history ops t None = Some pk \<and> finds_topic flt t)"
  by (rule Messages_history [OF assms])

theorem retained_of_history_witness:
  "message_ab \<in> set (TopicsIndex_Messages [97, 47, 35]
     (index_run [OpRetain message_ab, OpRetain (message_ab\<lparr>pkTopicName := [99]\<rparr>), OpForget [99]]))"
proof -
  let ?ops = "[OpRetain message_ab, OpRetain (message_ab\<lparr>pkTopicName := [99]\<rparr>), OpForget [99]]"
  have ok: "list_all op_ok ?ops" by (simp add: message_ab_def topic_ab_def)
  have h: "retained_history ?ops topic_ab None = Some message_ab"
    by (simp add: message_ab_def) (simp add: topic_ab_def)
  have f: "finds_topic [97, 47, 35] topic_ab" by (simp add: finds_topic_def)
  have "\<exists>t. retained_history ?ops t None = Some message_ab \<and> finds_topic [97, 47, 35] t"
    using h f by (intro exI [of _ topic_ab]) (rule conjI)
  then show ?thesis
    by (subst retained_of_history [OF ok]) simp_all
qed

text \<open>C25: the tree does not leak: whatever the history of subscriptions and unsubscriptions, when
  nobody holds a subscription any more the root has no particle left.\<close>

theorem index_does_not_leak:
  assumes "list_all client_op ops" "\<And>k. slot_history ops k None = None"
  shows "ptParticles (tiRoot (index_run ops)) = []"
  by (rule all_unsubscribed [OF assms])

theorem index_does_not_leak_witness:
  "ptParticles (tiRoot (index_run [OpSubscribe [1] sub_a, OpSubscribe [1] shared_a,
     OpUnsubscribe [97, 47, 43] [1], OpUnsubscribe (lit ''$share/g/a'') [1]])) = []"
  by (rule index_does_not_leak) (simp_all add: sub_a_def shared_a_def del: lit_chars)

section \<open>Filters and topics\<close>

text \<open>C26: what the validity check accepts as a subscription filter and as a topic to publish to.\<close>

theorem valid_filters:
  "(IsValidFilter f False \<longleftrightarrow> f \<noteq> [] \<and> ch_hash \<notin> set (butlast f)
     \<and> \<not> (IsSharedFilter f \<and> \<not> (length (segs f) > 2 \<and> ch_plus \<notin> set (segs f ! 1) \<and> ch_hash \<notin> set (segs f ! 1))))
   \<and> (IsValidFilter f True \<longleftrightarrow> \<not> (length f \<ge> 4 \<and> EqualFold (take 4 f) SysPrefix)
     \<and> ch_plus \<notin> set f \<and> ch_hash \<notin> set f \<and> \<not> (IsSharedFilter f \<and> length (segs f) \<le> 2))"
  unfolding IsValidFilter_subscribe IsValidFilter_publish by auto

text \<open>A filter is accepted although its hash does not stand for a whole level: a hash at the end
  of a longer level passes, which the protocol forbids.\<close>

lemma hash_inside_level_accepted:
  assumes "ch_hash \<notin> set a" "\<not> IsSharedFilter (a @ [ch_hash])"
  shows "IsValidFilter (a @ [ch_hash]) False"
  using assms by (simp add: IsValidFilter_subscribe)

section \<open>The wire\<close>

text \<open>The reader accepts a variable byte integer of any length: continuation bytes without
  value bits can be repeated beyond the four bytes of the protocol.\<close>

lemma length_overlong_accepted:
  "DecodeLength (replicate k 0x80 @ 0 # rest) = Inr (0, k + 1, rest)"
  unfolding DecodeLength_def DecodeLength_loop_padding by simp

text \<open>C27: the properties of a packet come back as those of them that the packet type allows and
  that the options of the packet let through.\<close>

theorem properties_round_trip:
  assumes "properties_ok p"
    "length (Properties_body1 p pkt mods @ Properties_body2 p pkt mods n) \<le> 268435455"
  shows "Properties_Decode no_properties pkt (Properties_Encode p pkt mods n @ rest)
    = Inr (Properties_sent p pkt mods n, length (Properties_Encode p pkt mods n))"
  by (rule Properties_Decode_Encode [OF assms])

definition some_properties :: properties where
  "some_properties = no_properties\<lparr>pUser := [\<lparr>Key = [97], Val = [98]\<rparr>], pTopicAlias := 3, pTopicAliasFlag := True\<rparr>"

definition all_mods :: mods where
  "all_mods = \<lparr>mMaxSize = 0, mDisallowProblemInfo = False, mAllowResponseInfo = True\<rparr>"

theorem properties_round_trip_witness:
  "Properties_Decode no_properties Publish (Properties_Encode some_properties Publish all_mods 0 @ [1])
    = Inr (Properties_sent some_properties Publish all_mods 0,
           length (Properties_Encode some_properties Publish all_mods 0))
   \<and> pTopicAlias (Properties_sent some_properties Publish all_mods 0) = 3"
proof -
  have "properties_ok some_properties"
    by (simp add: properties_ok_def some_properties_def no_properties_def user_ok_def short_def ascii_text)
  moreover have "length (Properties_body1 some_properties Publish all_mods
      @ Properties_body2 some_properties Publish all_mods 0) = 10" by code_simp
  moreover have "pTopicAlias (Properties_sent some_properties Publish all_mods 0) = 3" by code_simp
  ultimately show ?thesis using properties_round_trip [of some_properties Publish all_mods 0 "[1]"] by simp
qed

text \<open>C28: what one side of a connection encodes the other side reads back: a header and a packet
  taken from the bytes of any packet that can be sent give the packet with the fields that its type
  carries in its protocol version, and leave the bytes that follow.\<close>

theorem packet_round_trip:
  assumes "sendable pk" "encode_packet pk = Inr (pk', bytes)" "length bytes \<le> 268435455"
    "cnConn (clNet cl)" "cnIn (clNet cl) = bytes @ rest"
    "cpProtocolVersion (clProperties cl) = pkProtocolVersion pk"
    "MaximumPacketSize (caps op) = 0" "opHooks op = []"
  shows "fst (read_one cl op) = Inr (arrives pk (received (pkProtocolVersion pk) (pkFixedHeader pk')))
    \<and> cnIn (clNet (fst (snd (read_one cl op)))) = rest"
  by (rule wire_round_trip [OF assms])

definition plain_ops :: "unit ops" where
  "plain_ops = \<lparr>opOptions = \<lparr>oCapabilities = NewDefaultServerCapabilities,
     oClientNetWriteBufferSize = 2048, oClientNetReadBufferSize = 2048, oSysTopicResendInterval = 1,
     oInlineClient = False\<rparr>, opInfo = no_info, opHooks = [], opState = ()\<rparr>"

definition publish_ab :: packet where
  "publish_ab = no_packet\<lparr>pkTopicName := topic_ab, pkPayload := [1, 2], pkPacketID := 7,
     pkProtocolVersion := 4, pkFixedHeader := no_header\<lparr>fhType := 3, fhQos := 1\<rparr>\<rparr>"

definition publish_ab_bytes :: "byte list" where
  "publish_ab_bytes = [0x32, 9, 0, 3, 97, 47, 98, 0, 7, 1, 2]"

theorem packet_round_trip_witness:
  "pkTopicName (projr (fst (read_one (newClient (Some ([], publish_ab_bytes @ [0xC0, 0])) 0) plain_ops))) = topic_ab
   \<and> cnIn (clNet (fst (snd (read_one (newClient (Some ([], publish_ab_bytes @ [0xC0, 0])) 0) plain_ops)))) = [0xC0, 0]"
proof -
  have "map_sum (\<lambda>_. ()) snd (encode_packet publish_ab) = Inr publish_ab_bytes" by code_simp
  then obtain pk' where e: "encode_packet publish_ab = Inr (pk', publish_ab_bytes)"
    by (cases "encode_packet publish_ab") auto
  have s: "sendable publish_ab"
    by (simp add: sendable_def publish_ab_def no_packet_def no_header_def header_ok_def properties_ok_def
        no_properties_def short_def ascii_text topic_ab_def)
  from packet_round_trip [OF s e, of "newClient (Some ([], publish_ab_bytes @ [0xC0, 0])) 0" "[0xC0, 0]" plain_ops]
  show ?thesis
    by (simp add: publish_ab_bytes_def newClient_def plain_ops_def NewDefaultServerCapabilities_def
        publish_ab_def no_packet_def arrives_def no_header_def gotProps_def Let_def)
qed

definition ping_response :: packet where
  "ping_response = no_packet\<lparr>pkFixedHeader := no_header\<lparr>fhType := 13\<rparr>\<rparr>"

text \<open>C29: the search for a packet identifier ends, whatever is in flight: it fails only when every
  identifier up to the maximum is in flight, and what it returns is an identifier that is not.\<close>

theorem next_packet_id:
  assumes "csPacketID (clState cl) \<le> maximumPacketID (caps op)" "maximumPacketID (caps op) \<le> 65535"
  shows "\<exists>cl' r. NextPacketID op cl = Some (cl', r)
    \<and> (case r of
         Inl e \<Rightarrow> cl' = cl \<and> e = ECode ErrQuotaExceeded
           \<and> (\<forall>n \<in> {1..unat (maximumPacketID (caps op))}. Inflight_Get (clInflight cl) (of_nat n) \<noteq> None)
       | Inr j \<Rightarrow> 1 \<le> j \<and> j \<le> maximumPacketID (caps op) \<and> Inflight_Get (clInflight cl) (ucast j) = None
           \<and> csPacketID (clState cl') = j \<and> clInflight cl' = clInflight cl)"
  by (rule NextPacketID_spec [OF assms])

theorem next_packet_id_witness:
  "\<exists>cl' r. NextPacketID plain_ops (newClient None 0) = Some (cl', r)"
  using next_packet_id [of "newClient None 0" plain_ops]
  by (auto simp: newClient_def plain_ops_def NewDefaultServerCapabilities_def)




section \<open>Malformed input\<close>

text \<open>C32: no bytes make a decoder index or slice out of range, whatever the packet type and its
  header, except a SUBSCRIBE of protocol version 5.\<close>

theorem decoders_never_panic:
  assumes "\<not> (fhType (pkFixedHeader pk) = Subscribe \<and> pkProtocolVersion pk = 5)"
  shows "\<not> panics (decode_packet pk px)"
proof -
  note [simp] = decode_packet_def Let_def ack_codecs decoders_safe
  show ?thesis using assms SubscribeDecode_safe [of pk px] by simp
qed

theorem decoders_never_panic_witness:
  "\<not> panics (decode_packet (received 5 (no_header\<lparr>fhType := 3\<rparr>)) [0, 9, 1])"
  by (rule decoders_never_panic) (simp add: no_header_def)

text \<open>C33: a SUBSCRIBE of protocol version 5 that ends right after a topic filter indexes past the
  end of its buffer, a run-time panic that no handler of the program recovers from.\<close>

theorem subscribe_panics:
  assumes "text_ok t"
  shows "panics (SubscribeDecode (received 5 fh) (encodeUint16 pid @ [0] @ encodeString t))"
  by (rule SubscribeDecode_short [OF assms])

theorem subscribe_panics_witness:
  "panics (SubscribeDecode (received 5 no_header) (encodeUint16 1 @ [0] @ encodeString [97]))"
  by (rule subscribe_panics) (simp add: ascii_text)

section \<open>In-flight messages and topic aliases\<close>

text \<open>The creation times are compared in 16 bits: when that clock turns over, a message created
  a second later is sent first.\<close>

lemma send_order_wraps:
  "created16 (pkCreated_update (\<lambda>_. 65536) m) < created16 (pkCreated_update (\<lambda>_. 65535) m)"
  by (rule created16_wraps)

text \<open>C34: topics sent with outbound aliases are the topics that the receiver resolves, for every
  sequence of topics, as long as the receiver allows as many aliases as the sender uses.\<close>

theorem aliases_resolve:
  assumes "m \<noteq> 0" "[] \<notin> set ts"
  shows "alias_send (NewOutboundTopicAliases n) (NewInboundTopicAliases m) ts = ts"
proof (rule alias_send_sync)
  show "outbound_ok (NewOutboundTopicAliases n)" by (rule outbound_ok_new)
  show "alias_sync (NewOutboundTopicAliases n) (NewInboundTopicAliases m)"
    by (simp add: alias_sync_def NewOutboundTopicAliases_def NewInboundTopicAliases_def)
qed (use assms in \<open>simp_all add: NewInboundTopicAliases_def\<close>)

theorem aliases_resolve_witness:
  "alias_send (NewOutboundTopicAliases 1) (NewInboundTopicAliases 1) [[97], [98], [97]] = [[97], [98], [97]]"
  by (rule aliases_resolve) simp_all

section \<open>Access\<close>



text \<open>A topic rule of the ledger covers more than its filter says: every topic below the filter
  is covered too.\<close>

lemma rule_covers_below: "RString_FilterMatches r (r @ ch_slash # b)"
  by (rule FilterMatches_below)

section \<open>Defence hooks\<close>

text \<open>C37: between two disconnections of a client, whatever the traffic, the bytes of user properties
  that are let through for it never exceed its budget.\<close>

theorem validator_budget:
  assumes "0 \<le> getClientBudget h c" "0 \<le> MaxClientBudget (pvConfig h)"
  shows "admitted h c es 0 \<le> MaxClientBudget (pvConfig h)"
  by (rule admitted_bounded) (use assms in simp_all)

definition new_validator :: validator where
  "new_validator = \<lparr>pvConfig = default_validator_config, pvBudgets = [], pvChecked = 0, pvDropped = 0,
     pvViolations = 0\<rparr>"

theorem validator_budget_witness:
  "admitted new_validator [1] [VPublish (newClient None 0) message_ab, VDisconnect (newClient None 0)] 0 \<le> 32 * 1024"
  using validator_budget [of new_validator "[1]"
      "[VPublish (newClient None 0) message_ab, VDisconnect (newClient None 0)]"]
  by (simp add: new_validator_def default_validator_config_def getClientBudget_def)

text \<open>C38: the connections counted as active never exceed the limit, whatever happens.\<close>

theorem connections_bounded:
  assumes "adActive h \<le> MaxConcurrentConn (adConfig h)"
  shows "adActive (foldl ad_step h es) \<le> MaxConcurrentConn (adConfig h)"
  by (rule active_bounded [OF assms])

definition new_auth_defense :: auth_defense where
  "new_auth_defense = \<lparr>adConfig = default_auth_config, adActive = 0, adRates = [], adClients = [],
     adTimers = [], adNextTimer = 0, adReceived = 0, adBlocked = 0, adRejected = 0, adViolations = 0\<rparr>"

theorem connections_bounded_witness:
  "adActive (foldl ad_step new_auth_defense (replicate 30 (AConnect 0 (newClient None 0) message_ab))) \<le> 20"
proof -
  have "adActive new_auth_defense \<le> MaxConcurrentConn (adConfig new_auth_defense)"
    by (simp add: new_auth_defense_def default_auth_config_def)
  from connections_bounded [OF this, of "replicate 30 (AConnect 0 (newClient None 0) message_ab)"]
  show ?thesis by (simp add: new_auth_defense_def default_auth_config_def)
qed

section \<open>Priority queues\<close>

definition running_hook :: priority_hook where
  "running_hook = new_priority_hook\<lparr>phServer := True, phConfig := default_priority_config\<rparr>"

text \<open>C39: the urgent queue is served in order: the message at a position is injected by the scheduler
  turn of that number, whatever is published and whatever ages in between.\<close>

theorem urgent_in_order:
  assumes "\<not> phStop h" "phServer h" "i < length (phUrgent h)" "length (filter (\<lambda>e. e = PTurn) es) = i + 1"
  shows "length (injected h es) = i + 1
    \<and> last (injected h es) = (ppClient (phUrgent h ! i), mark_processed (ppPacket (phUrgent h ! i)))"
  by (rule urgent_served [OF assms])

theorem urgent_in_order_witness:
  "length (injected (running_hook\<lparr>phUrgent := [\<lparr>ppClient = newClient None 0, ppPacket = message_ab, ppEnqueued = 0\<rparr>]\<rparr>)
     [PTick 9, PTurn]) = 1"
  using urgent_in_order [of "running_hook\<lparr>phUrgent := [\<lparr>ppClient = newClient None 0, ppPacket = message_ab,
      ppEnqueued = 0\<rparr>]\<rparr>" 0 "[PTick 9, PTurn]"]
  by (simp add: running_hook_def new_priority_hook_def)

section \<open>Integrity hooks\<close>

definition strict_integrity :: integrity where
  "strict_integrity = \<lparr>miConfig = \<lparr>RequireSignature = True, VerifySignature = True, icSecret = []\<rparr>,
     miChecked = 0, miDropped = 0, miViolations = 0\<rparr>"












end
